(* ===== verification/Prelude.thy ===== *)
theory Prelude
  imports Complex_Main
begin

text \<open>
  Shared vocabulary of the development: the fragments of Python's standard library that the
  modelled code calls (truthiness of optional strings, whitespace handling, lower casing,
  decimal printing, UTF-8 length), values decoded from JSON columns, instants, and the result
  type for code that may raise.  The interface \<open>guarded_steps\<close> is the one used wherever a
  component is a state with several operations: an invariant kept by each operation is kept by
  every history of operations.

  Strings are lists of characters, read as the Unicode code points 0 to 255.  A \<open>float\<close> of the
  source is a \<open>real\<close> (rounding is not modelled), an \<open>int\<close> is an \<open>int\<close>, and an instant in UTC is
  an \<open>int\<close> count of microseconds, the resolution of \<open>datetime\<close>.
\<close>

section \<open>Results of code that may raise\<close>

type_synonym ('e, 'a) result = "'e + 'a"

definition bind_result :: "('e, 'a) result \<Rightarrow> ('a \<Rightarrow> ('e, 'b) result) \<Rightarrow> ('e, 'b) result" where
  "bind_result r k = (case r of Inl e \<Rightarrow> Inl e | Inr a \<Rightarrow> k a)"

definition is_ok :: "('e, 'a) result \<Rightarrow> bool" where
  "is_ok r = (case r of Inl _ \<Rightarrow> False | Inr _ \<Rightarrow> True)"

lemma bind_result_simps [simp]:
  "bind_result (Inl e) k = Inl e"
  "bind_result (Inr a) k = k a"
  by (simp_all add: bind_result_def)

lemma is_ok_simps [simp]: "is_ok (Inl e) = False" "is_ok (Inr a) = True"
  by (simp_all add: is_ok_def)

lemma bind_result_eq_Inr:
  "bind_result r k = Inr b \<longleftrightarrow> (\<exists>a. r = Inr a \<and> k a = Inr b)"
  by (cases r) auto

section \<open>Instants and truthiness\<close>

type_synonym instant = int

abbreviation usecs :: "int \<Rightarrow> int" where
  "usecs s \<equiv> s * 1000000"

text \<open>\<open>value or default\<close> of Python on an optional string: \<open>None\<close> and the empty string are falsy.\<close>

definition py_or :: "string option \<Rightarrow> string \<Rightarrow> string" where
  "py_or v d = (case v of None \<Rightarrow> d | Some s \<Rightarrow> if s = [] then d else s)"

lemma py_or_simps [simp]:
  "py_or None d = d"
  "py_or (Some []) d = d"
  "s \<noteq> [] \<Longrightarrow> py_or (Some s) d = s"
  by (simp_all add: py_or_def)

lemma py_or_nonempty: "d \<noteq> [] \<Longrightarrow> py_or v d \<noteq> []"
  by (simp add: py_or_def split: option.splits)

definition py_truthy :: "string option \<Rightarrow> bool" where
  "py_truthy v = (case v of None \<Rightarrow> False | Some s \<Rightarrow> s \<noteq> [])"

lemma py_truthy_simps [simp]: "py_truthy None = False" "py_truthy (Some s) = (s \<noteq> [])"
  by (simp_all add: py_truthy_def)

section \<open>Strings\<close>

text \<open>\<open>str.isspace\<close> on the code points 0 to 255.\<close>

definition py_space :: "char \<Rightarrow> bool" where
  "py_space c = (let n = of_char c :: nat in
     (9 \<le> n \<and> n \<le> 13) \<or> (28 \<le> n \<and> n \<le> 32) \<or> n = 133 \<or> n = 160)"

text \<open>\<open>str.lower\<close> on the code points 0 to 255.\<close>

definition py_lower_char :: "char \<Rightarrow> char" where
  "py_lower_char c = (let n = of_char c :: nat in
     if (65 \<le> n \<and> n \<le> 90) \<or> (192 \<le> n \<and> n \<le> 222 \<and> n \<noteq> 215) then char_of (n + 32) else c)"

definition py_lower :: "string \<Rightarrow> string" where
  "py_lower s = map py_lower_char s"

definition py_strip :: "string \<Rightarrow> string" where
  "py_strip s = rev (dropWhile py_space (rev (dropWhile py_space s)))"

text \<open>\<open>str.split()\<close> without an argument: the maximal runs of non-space characters.\<close>

fun split_words :: "string \<Rightarrow> string \<Rightarrow> string list" where
  "split_words acc [] = (if acc = [] then [] else [rev acc])"
| "split_words acc (c # cs) =
     (if py_space c then (if acc = [] then split_words [] cs else rev acc # split_words [] cs)
      else split_words (c # acc) cs)"

definition py_split :: "string \<Rightarrow> string list" where
  "py_split s = split_words [] s"

fun join_with :: "string \<Rightarrow> string list \<Rightarrow> string" where
  "join_with sep [] = []"
| "join_with sep [w] = w"
| "join_with sep (w # ws) = w @ sep @ join_with sep ws"

text \<open>The idiom \<open>" ".join(text.split())\<close>.\<close>

definition collapse_space :: "string \<Rightarrow> string" where
  "collapse_space s = join_with '' '' (py_split s)"

definition word :: "string \<Rightarrow> bool" where
  "word w = (w \<noteq> [] \<and> (\<forall>c \<in> set w. \<not> py_space c))"

lemma space_is_py_space [simp]: "py_space (CHR '' '')"
  by (simp add: py_space_def)

lemma split_words_word:
  "(\<forall>c \<in> set acc. \<not> py_space c) \<Longrightarrow> \<forall>w \<in> set (split_words acc s). word w"
proof (induction s arbitrary: acc)
  case Nil
  then show ?case by (simp add: word_def)
next
  case (Cons c cs)
  have head: "acc \<noteq> [] \<Longrightarrow> word (rev acc)" using Cons.prems by (simp add: word_def)
  have spaced: "\<forall>w \<in> set (split_words [] cs). word w" by (rule Cons.IH) simp
  have glued: "\<not> py_space c \<Longrightarrow> \<forall>w \<in> set (split_words (c # acc) cs). word w"
    by (rule Cons.IH) (use Cons.prems in simp)
  show ?case using head spaced glued by simp
qed

lemma split_words_append:
  "\<forall>c \<in> set w. \<not> py_space c \<Longrightarrow> split_words acc (w @ s) = split_words (rev w @ acc) s"
  by (induction w arbitrary: acc) auto

lemma split_words_join:
  "\<forall>w \<in> set ws. word w \<Longrightarrow> split_words [] (join_with '' '' ws) = ws"
proof (induction ws rule: induct_list012)
  case (2 w)
  then show ?case using split_words_append [of w "[]" "[]"] by (simp add: word_def)
next
  case (3 w v ws)
  then have "split_words [] (join_with '' '' (w # v # ws))
      = split_words (rev w) (CHR '' '' # join_with '' '' (v # ws))"
    using split_words_append [of w "[]"] by (simp add: word_def)
  with 3 show ?case by (simp add: word_def)
qed simp

lemma collapse_space_idem [simp]: "collapse_space (collapse_space s) = collapse_space s"
proof -
  have "\<forall>w \<in> set (py_split s). word w"
    using split_words_word [of "[]" s] by (simp add: py_split_def)
  then show ?thesis by (simp add: collapse_space_def py_split_def split_words_join)
qed

text \<open>Substring test, \<open>needle in text\<close>.\<close>

fun has_prefix :: "string \<Rightarrow> string \<Rightarrow> bool" where
  "has_prefix [] s = True"
| "has_prefix (c # p) [] = False"
| "has_prefix (c # p) (d # s) = (c = d \<and> has_prefix p s)"

fun contains :: "string \<Rightarrow> string \<Rightarrow> bool" where
  "contains p [] = (p = [])"
| "contains p (c # s) = (has_prefix p (c # s) \<or> contains p s)"

lemma has_prefix_iff: "has_prefix p s \<longleftrightarrow> (\<exists>r. s = p @ r)"
  by (induction p s rule: has_prefix.induct) auto

text \<open>\<open>len(text.encode("utf-8"))\<close> for code points 0 to 255.\<close>

definition utf8_len :: "string \<Rightarrow> int" where
  "utf8_len s = sum_list (map (\<lambda>c. if (of_char c :: nat) < 128 then 1 else 2) s)"

lemma utf8_len_nonneg: "0 \<le> utf8_len s"
  unfolding utf8_len_def by (rule sum_list_nonneg) auto

text \<open>\<open>str(n)\<close> for an integer.\<close>

fun nat_str :: "nat \<Rightarrow> string" where
  "nat_str n = (if n < 10 then [char_of (48 + n)] else nat_str (n div 10) @ [char_of (48 + n mod 10)])"

declare nat_str.simps [simp del]

definition int_str :: "int \<Rightarrow> string" where
  "int_str n = (if n < 0 then CHR ''-'' # nat_str (nat (- n)) else nat_str (nat n))"

lemma nat_str_nonempty: "nat_str n \<noteq> []"
  by (subst nat_str.simps) simp

section \<open>JSON values\<close>

text \<open>A column of type \<open>JSON\<close>; a dictionary keeps the order of its items.\<close>

datatype json = JNull | JBool bool | JInt int | JFloat real | JStr string | JList "json list"
  | JObj "(string \<times> json) list"

text \<open>\<open>bool(value)\<close> of Python.\<close>

fun json_truthy :: "json \<Rightarrow> bool" where
  "json_truthy JNull = False"
| "json_truthy (JBool b) = b"
| "json_truthy (JInt n) = (n \<noteq> 0)"
| "json_truthy (JFloat x) = (x \<noteq> 0)"
| "json_truthy (JStr s) = (s \<noteq> [])"
| "json_truthy (JList l) = (l \<noteq> [])"
| "json_truthy (JObj d) = (d \<noteq> [])"

definition obj_get :: "(string \<times> json) list \<Rightarrow> string \<Rightarrow> json" where
  \<comment> \<open>\<open>d.get(key)\<close>, with \<open>None\<close> as \<open>JNull\<close>\<close>
  "obj_get d k = (case map_of d k of None \<Rightarrow> JNull | Some v \<Rightarrow> v)"

fun obj_set :: "(string \<times> json) list \<Rightarrow> string \<Rightarrow> json \<Rightarrow> (string \<times> json) list" where
  \<comment> \<open>\<open>d[key] = value\<close>: an existing key keeps its place\<close>
  "obj_set [] k v = [(k, v)]"
| "obj_set ((k', v') # d) k v = (if k' = k then (k, v) # d else (k', v') # obj_set d k v)"

definition obj_update :: "(string \<times> json) list \<Rightarrow> (string \<times> json) list \<Rightarrow> (string \<times> json) list" where
  "obj_update d e = fold (\<lambda>(k, v) acc. obj_set acc k v) e d"

lemma map_of_obj_set [simp]: "map_of (obj_set d k v) = (map_of d)(k \<mapsto> v)"
  by (induction d) auto

lemma map_of_obj_update_notin:
  "k \<notin> fst ` set e \<Longrightarrow> map_of (obj_update d e) k = map_of d k"
  unfolding obj_update_def by (induction e arbitrary: d) auto

lemma map_of_obj_update_in:
  "k \<in> fst ` set e \<Longrightarrow> distinct (map fst e) \<Longrightarrow> map_of (obj_update d e) k = map_of e k"
proof (induction e arbitrary: d)
  case (Cons p e)
  then show ?case
    using map_of_obj_update_notin [of k e]
    by (cases p) (auto simp: obj_update_def)
qed simp

section \<open>Histories of guarded operations\<close>

text \<open>
  The contract of a stateful component: a set of legal states closed under each of its
  operations.  What it gives its client is that a whole history stays inside.
\<close>

locale guarded_steps =
  fixes step :: "'s \<Rightarrow> 'op \<Rightarrow> 's"
    and inv :: "'s \<Rightarrow> bool"
  assumes step_keeps: "inv s \<Longrightarrow> inv (step s a)"
begin

lemma history_keeps: "inv s \<Longrightarrow> inv (foldl step s as)"
  by (induction as arbitrary: s) (auto simp: step_keeps)

lemma history_prefix_keeps: "inv s \<Longrightarrow> inv (foldl step s (take n as))"
  by (rule history_keeps)

end

end
