(* ===== verification/ErrorCodes.thy ===== *)
theory ErrorCodes
  imports Prelude
begin

text \<open>
  The error-code catalogue of \<open>core/errors.py\<close> and the typed stage result of
  \<open>core/result.py\<close>.  Codes are strings, as in the source: an adapter may raise a code that is
  not in the catalogue, and several components test membership.
\<close>

abbreviation "SOURCE_UNREACHABLE \<equiv> ''source_unreachable''"
abbreviation "PARSER_MISMATCH \<equiv> ''parser_mismatch''"
abbreviation "DOCUMENT_DOWNLOAD_FAILED \<equiv> ''document_download_failed''"
abbreviation "OCR_FAILED \<equiv> ''ocr_failed''"
abbreviation "PARSE_FAILED \<equiv> ''parse_failed''"
abbreviation "AI_CALL_TIMEOUT \<equiv> ''ai_call_timeout''"
abbreviation "AI_INVALID_OUTPUT \<equiv> ''ai_invalid_output''"
abbreviation "BUDGET_EXCEEDED \<equiv> ''budget_exceeded''"
abbreviation "EMAIL_SEND_FAILED \<equiv> ''email_send_failed''"
abbreviation "PROVIDER_FAILOVER \<equiv> ''provider_failover''"
abbreviation "MAIL_TIMEOUT \<equiv> ''mail_timeout''"
abbreviation "MAIL_RATE_LIMITED \<equiv> ''mail_rate_limited''"
abbreviation "MAIL_HTTP_5XX \<equiv> ''mail_http_5xx''"
abbreviation "MAIL_INVALID_CREDENTIALS \<equiv> ''mail_invalid_credentials''"
abbreviation "MAIL_INVALID_RECIPIENT \<equiv> ''mail_invalid_recipient''"
abbreviation "MAIL_CONFIGURATION_ERROR \<equiv> ''mail_configuration_error''"
abbreviation "MAIL_UNSUPPORTED_REQUEST \<equiv> ''mail_unsupported_request''"
abbreviation "MAIL_QUOTA_EXHAUSTED \<equiv> ''mail_quota_exhausted''"
abbreviation "MAIL_BREAKER_OPEN \<equiv> ''mail_breaker_open''"
abbreviation "MAIL_ALL_PROVIDERS_FAILED \<equiv> ''mail_all_providers_failed''"
abbreviation "MAIL_LOCAL_RATE_LIMIT \<equiv> ''mail_local_rate_limit''"
abbreviation "NOTIFICATION_NO_VERDICT \<equiv> ''notification_no_verdict''"
abbreviation "NOTIFICATION_INVALID_VERDICT \<equiv> ''notification_invalid_verdict''"
abbreviation "NOTIFICATION_ROUTING_FAILED \<equiv> ''notification_routing_failed''"
abbreviation "DEDUP_TRANSACTION_FAILED \<equiv> ''dedup_transaction_failed''"
abbreviation "DEDUP_MISSING_IDENTITY \<equiv> ''dedup_missing_identity''"
abbreviation "DEDUP_INVALID_STATE \<equiv> ''dedup_invalid_state''"
abbreviation "DEDUP_MALFORMED_CANDIDATE \<equiv> ''dedup_malformed_candidate''"
abbreviation "PERSISTENCE_NOT_FOUND \<equiv> ''persistence_not_found''"
abbreviation "PERSISTENCE_CONSTRAINT_VIOLATION \<equiv> ''persistence_constraint_violation''"
abbreviation "PERSISTENCE_INVALID_STATUS_TRANSITION \<equiv> ''persistence_invalid_status_transition''"
abbreviation "PERSISTENCE_TRANSACTION_FAILED \<equiv> ''persistence_transaction_failed''"
abbreviation "CONFIGURATION_LOAD_FAILED \<equiv> ''configuration_load_failed''"
abbreviation "SOURCE_NOT_RUNNABLE \<equiv> ''source_not_runnable''"
abbreviation "STAGE_FAILED \<equiv> ''stage_failed''"

definition ERROR_CODES :: "string list" where
  "ERROR_CODES =
    [SOURCE_UNREACHABLE, PARSER_MISMATCH, DOCUMENT_DOWNLOAD_FAILED, OCR_FAILED, PARSE_FAILED,
     AI_CALL_TIMEOUT, AI_INVALID_OUTPUT, BUDGET_EXCEEDED, EMAIL_SEND_FAILED, PROVIDER_FAILOVER,
     MAIL_TIMEOUT, MAIL_RATE_LIMITED, MAIL_HTTP_5XX, MAIL_INVALID_CREDENTIALS,
     MAIL_INVALID_RECIPIENT, MAIL_CONFIGURATION_ERROR, MAIL_UNSUPPORTED_REQUEST,
     MAIL_QUOTA_EXHAUSTED, MAIL_BREAKER_OPEN, MAIL_ALL_PROVIDERS_FAILED, MAIL_LOCAL_RATE_LIMIT,
     NOTIFICATION_NO_VERDICT, NOTIFICATION_INVALID_VERDICT, NOTIFICATION_ROUTING_FAILED,
     DEDUP_TRANSACTION_FAILED, DEDUP_MISSING_IDENTITY, DEDUP_INVALID_STATE,
     DEDUP_MALFORMED_CANDIDATE, PERSISTENCE_NOT_FOUND, PERSISTENCE_CONSTRAINT_VIOLATION,
     PERSISTENCE_INVALID_STATUS_TRANSITION, PERSISTENCE_TRANSACTION_FAILED,
     CONFIGURATION_LOAD_FAILED, SOURCE_NOT_RUNNABLE, STAGE_FAILED]"

definition is_valid_error_code :: "string \<Rightarrow> bool" where
  "is_valid_error_code code = List.member ERROR_CODES code"

lemma empty_is_no_code [simp]: "\<not> is_valid_error_code []"
  by (simp add: is_valid_error_code_def ERROR_CODES_def)

lemma code_nonempty: "is_valid_error_code c \<Longrightarrow> c \<noteq> []"
  by auto

section \<open>The stage result of \<open>core/result.py\<close>\<close>

record stage_result =
  sr_stage :: string
  sr_status :: string
  sr_correlation_id :: "string option"
  sr_error_code :: "string option"
  sr_message :: "string option"
  sr_details :: "(string \<times> json) list"

datatype stage_result_error = InvalidStageStatus string | MissingErrorCode "string option"
  | UnexpectedErrorCode

definition stage_result_post_init :: "stage_result \<Rightarrow> (stage_result_error, stage_result) result" where
  "stage_result_post_init r =
     (if sr_status r \<notin> {''success'', ''failed'', ''partial'', ''skipped''}
      then Inl (InvalidStageStatus (sr_status r))
      else if sr_status r = ''failed'' \<and> \<not> is_valid_error_code (py_or (sr_error_code r) [])
      then Inl (MissingErrorCode (sr_error_code r))
      else if sr_status r \<noteq> ''failed'' \<and> sr_error_code r \<noteq> None
      then Inl UnexpectedErrorCode
      else Inr r)"

definition stage_result_ok :: "stage_result \<Rightarrow> bool" where
  "stage_result_ok r = (sr_status r = ''success'')"

definition stage_result_success where
  "stage_result_success stage cid msg details = stage_result_post_init
     \<lparr>sr_stage = stage, sr_status = ''success'', sr_correlation_id = cid, sr_error_code = None,
      sr_message = msg, sr_details = details\<rparr>"

definition stage_result_failed where
  "stage_result_failed stage code cid msg details = stage_result_post_init
     \<lparr>sr_stage = stage, sr_status = ''failed'', sr_correlation_id = cid, sr_error_code = Some code,
      sr_message = msg, sr_details = details\<rparr>"

definition stage_result_partial where
  "stage_result_partial stage cid msg details = stage_result_post_init
     \<lparr>sr_stage = stage, sr_status = ''partial'', sr_correlation_id = cid, sr_error_code = None,
      sr_message = msg, sr_details = details\<rparr>"

definition stage_result_skipped where
  "stage_result_skipped stage cid msg details = stage_result_post_init
     \<lparr>sr_stage = stage, sr_status = ''skipped'', sr_correlation_id = cid, sr_error_code = None,
      sr_message = msg, sr_details = details\<rparr>"

lemma stage_result_post_init_iff:
  "is_ok (stage_result_post_init r) \<longleftrightarrow>
     sr_status r \<in> {''success'', ''partial'', ''skipped''} \<and> sr_error_code r = None
     \<or> sr_status r = ''failed'' \<and> (\<exists>c. sr_error_code r = Some c \<and> is_valid_error_code c)"
  by (cases "sr_error_code r") (auto simp: stage_result_post_init_def py_or_def split: if_splits)

end
