(* ===== verification/Breaker.thy ===== *)
theory Breaker
  imports ErrorCodes
begin

text \<open>
  The circuit breaker of \<open>mail/breaker.py\<close>: \<open>CircuitBreaker\<close> with its three states, the
  consecutive-failure counter, the cooldown or probe lease \<open>open_until\<close> and the probe slot.  The
  clock is read at most once per operation, so an operation takes the instant it reads.  The
  listener is a recorder (\<open>NullBreakerListener\<close>): \<open>bk_events\<close> holds the events it has received;
  an exception of a listener is swallowed by the source and has no other effect.

  The lemmas give the contract that the provider chain rests on: the invariant of every history,
  the exact tripping point, one probe per cooldown, and what a success does.
\<close>

section \<open>State\<close>

datatype breaker_state = BClosed | BOpen | BHalfOpen

definition breaker_state_value :: "breaker_state \<Rightarrow> string" where
  "breaker_state_value s = (case s of BClosed \<Rightarrow> ''closed'' | BOpen \<Rightarrow> ''open''
     | BHalfOpen \<Rightarrow> ''half_open'')"

text \<open>\<open>BreakerState(value)\<close>; \<open>None\<close> is the \<open>ValueError\<close>.\<close>

definition breaker_state_parse :: "string \<Rightarrow> breaker_state option" where
  "breaker_state_parse v = (if v = ''closed'' then Some BClosed else if v = ''open'' then Some BOpen
     else if v = ''half_open'' then Some BHalfOpen else None)"

record breaker_event =
  be_provider_name :: string
  be_state :: breaker_state
  be_consecutive_failures :: int
  be_message :: string

record breaker =
  bk_provider_name :: string
  bk_failure_threshold :: int
  bk_cooldown_seconds :: real
  bk_has_listener :: bool
  bk_state :: breaker_state
  bk_consecutive_failures :: int
  bk_open_until :: "real option"
  bk_probe_in_flight :: bool
  bk_events :: "breaker_event list"

datatype breaker_error = ThresholdBelowOne

section \<open>Operations\<close>

definition new_breaker :: "string \<Rightarrow> int \<Rightarrow> real \<Rightarrow> bool \<Rightarrow> (breaker_error, breaker) result" where
  "new_breaker name threshold cooldown listener =
     (if threshold < 1 then Inl ThresholdBelowOne
      else Inr \<lparr>bk_provider_name = name, bk_failure_threshold = threshold,
                bk_cooldown_seconds = cooldown, bk_has_listener = listener, bk_state = BClosed,
                bk_consecutive_failures = 0, bk_open_until = None, bk_probe_in_flight = False,
                bk_events = []\<rparr>)"

definition from_persisted ::
  "string \<Rightarrow> string \<Rightarrow> real option \<Rightarrow> int \<Rightarrow> int \<Rightarrow> real \<Rightarrow> bool \<Rightarrow> (breaker_error, breaker) result" where
  "from_persisted name state until failures threshold cooldown listener =
     bind_result (new_breaker name threshold cooldown listener) (\<lambda>b.
       Inr (b\<lparr>bk_state := (case breaker_state_parse state of Some s \<Rightarrow> s | None \<Rightarrow> BClosed),
              bk_consecutive_failures := max 0 failures,
              bk_open_until := until,
              bk_probe_in_flight := False\<rparr>))"

definition emit :: "string \<Rightarrow> breaker \<Rightarrow> breaker" where
  "emit msg b =
     (if bk_has_listener b
      then b\<lparr>bk_events := bk_events b @
               [\<lparr>be_provider_name = bk_provider_name b, be_state = bk_state b,
                 be_consecutive_failures = bk_consecutive_failures b, be_message = msg\<rparr>]\<rparr>
      else b)"

definition allow_probe :: "real \<Rightarrow> breaker \<Rightarrow> bool \<times> breaker" where
  "allow_probe now b =
     (if bk_state b = BClosed then (True, b)
      else if bk_state b = BOpen \<and> (case bk_open_until b of None \<Rightarrow> True | Some u \<Rightarrow> now \<ge> u)
      then (True, emit ''cooldown passed; recovery probe allowed''
              (b\<lparr>bk_state := BHalfOpen, bk_probe_in_flight := True,
                 bk_open_until := Some (now + bk_cooldown_seconds b)\<rparr>))
      else if bk_state b = BHalfOpen \<and> \<not> bk_probe_in_flight b
      then (if (case bk_open_until b of None \<Rightarrow> False | Some u \<Rightarrow> now < u) then (False, b)
            else (True, b\<lparr>bk_probe_in_flight := True\<rparr>))
      else (False, b))"

definition record_success :: "breaker \<Rightarrow> breaker" where
  "record_success b =
     (let b' = b\<lparr>bk_state := BClosed, bk_consecutive_failures := 0, bk_open_until := None,
                 bk_probe_in_flight := False\<rparr>
      in if bk_state b \<noteq> BClosed then emit ''closed after successful delivery'' b' else b')"

definition record_failure :: "real \<Rightarrow> string option \<Rightarrow> breaker \<Rightarrow> breaker" where
  "record_failure now error_code b =
     (let code = py_or error_code ''email_send_failed'';
          b' = b\<lparr>bk_consecutive_failures := bk_consecutive_failures b + 1\<rparr>;
          opened = b'\<lparr>bk_state := BOpen, bk_open_until := Some (now + bk_cooldown_seconds b'),
                      bk_probe_in_flight := False\<rparr>
      in if bk_state b' = BHalfOpen
         then emit (''recovery probe failed ('' @ code @ '')'') opened
         else if bk_state b' = BClosed \<and> bk_consecutive_failures b' \<ge> bk_failure_threshold b'
         then emit (''opened after '' @ int_str (bk_consecutive_failures b')
                    @ '' consecutive failures ('' @ code @ '')'') opened
         else b')"

definition cancel_probe :: "breaker \<Rightarrow> breaker" where
  "cancel_probe b = (if bk_state b = BHalfOpen then b\<lparr>bk_probe_in_flight := False\<rparr> else b)"

definition force_recover :: "breaker \<Rightarrow> breaker" where
  "force_recover b = b\<lparr>bk_state := BClosed, bk_consecutive_failures := 0, bk_open_until := None\<rparr>"

text \<open>The calls a client can make, each at the instant its clock shows.\<close>

datatype breaker_call = AllowProbe real | RecordSuccess | RecordFailure real "string option"
  | CancelProbe | ForceRecover

fun breaker_step :: "breaker \<Rightarrow> breaker_call \<Rightarrow> breaker" where
  "breaker_step b (AllowProbe now) = snd (allow_probe now b)"
| "breaker_step b RecordSuccess = record_success b"
| "breaker_step b (RecordFailure now code) = record_failure now code b"
| "breaker_step b CancelProbe = cancel_probe b"
| "breaker_step b ForceRecover = force_recover b"

section \<open>Rewriting\<close>

lemma emit_fields [simp]:
  "bk_state (emit m b) = bk_state b"
  "bk_open_until (emit m b) = bk_open_until b"
  "bk_consecutive_failures (emit m b) = bk_consecutive_failures b"
  "bk_probe_in_flight (emit m b) = bk_probe_in_flight b"
  "bk_failure_threshold (emit m b) = bk_failure_threshold b"
  "bk_cooldown_seconds (emit m b) = bk_cooldown_seconds b"
  "bk_provider_name (emit m b) = bk_provider_name b"
  "bk_has_listener (emit m b) = bk_has_listener b"
  by (simp_all add: emit_def)

lemmas breaker_ops = allow_probe_def record_success_def record_failure_def cancel_probe_def
  force_recover_def Let_def

lemma breaker_step_config [simp]:
  "bk_failure_threshold (breaker_step b c) = bk_failure_threshold b"
  "bk_cooldown_seconds (breaker_step b c) = bk_cooldown_seconds b"
  "bk_provider_name (breaker_step b c) = bk_provider_name b"
  by (cases c; simp add: breaker_ops)+

lemma breaker_state_roundtrip [simp]: "breaker_state_parse (breaker_state_value s) = Some s"
  by (cases s) (simp_all add: breaker_state_parse_def breaker_state_value_def)

section \<open>The invariant of every history\<close>

text \<open>
  Closed: below the threshold and no deadline.  Open: a deadline, no probe out, and a count that
  is at least one.  Half-open: a probe lease.
\<close>

definition breaker_inv :: "breaker \<Rightarrow> bool" where
  "breaker_inv b \<longleftrightarrow> 0 < bk_failure_threshold b \<and> 0 \<le> bk_consecutive_failures b \<and>
     (case bk_state b of
        BClosed \<Rightarrow> bk_consecutive_failures b < bk_failure_threshold b \<and> bk_open_until b = None
      | BOpen \<Rightarrow> bk_open_until b \<noteq> None \<and> \<not> bk_probe_in_flight b \<and> 0 < bk_consecutive_failures b
      | BHalfOpen \<Rightarrow> bk_open_until b \<noteq> None)"

lemma new_breaker_inv: "new_breaker n t c l = Inr b \<Longrightarrow> breaker_inv b"
  by (auto simp: new_breaker_def breaker_inv_def split: if_splits)

lemma breaker_step_inv: "breaker_inv b \<Longrightarrow> breaker_inv (breaker_step b c)"
  by (cases c; cases "bk_state b"; auto simp: breaker_inv_def breaker_ops split: option.splits)

interpretation breaker_history: guarded_steps breaker_step breaker_inv
  by unfold_locales (rule breaker_step_inv)

text \<open>Every breaker the constructor returns keeps, under any history of calls at any
  instants, the life cycle of the specification: closed exactly below the failure threshold and
  without a deadline, open with a cooldown deadline and no probe out, half-open under a probe
  lease.\<close>

lemma breaker_history_inv:
  assumes "new_breaker name threshold cooldown listener = Inr b"
  shows "breaker_inv (foldl breaker_step b calls)"
  using assms by (intro breaker_history.history_keeps) (rule new_breaker_inv)

section \<open>The tripping point\<close>

lemma failures_while_closed:
  assumes "bk_state b = BClosed" and "bk_consecutive_failures b + int (length nows) < bk_failure_threshold b"
  shows "foldl (\<lambda>s (now, code). record_failure now code s) b nows =
     b\<lparr>bk_consecutive_failures := bk_consecutive_failures b + int (length nows)\<rparr>"
  using assms
proof (induction nows arbitrary: b)
  case (Cons p nows)
  obtain now code where p: "p = (now, code)" by (cases p)
  have "record_failure now code b = b\<lparr>bk_consecutive_failures := bk_consecutive_failures b + 1\<rparr>"
    using Cons.prems by (simp add: record_failure_def Let_def)
  with Cons.prems Cons.IH [of "b\<lparr>bk_consecutive_failures := bk_consecutive_failures b + 1\<rparr>"]
  show ?case by (simp add: p algebra_simps)
qed simp

text \<open>A fresh breaker stays closed through fewer failures than its threshold, and the
  failure that reaches the threshold opens it until exactly one cooldown after the instant of
  that failure.\<close>

lemma breaker_trips_at_threshold:
  assumes "new_breaker name threshold cooldown listener = Inr b"
    and "threshold = int (length nows) + 1"
  shows "bk_state (foldl (\<lambda>s (t, c). record_failure t c s) b nows) = BClosed \<and>
     bk_state (foldl (\<lambda>s (t, c). record_failure t c s) b (nows @ [(now, code)])) = BOpen \<and>
     bk_open_until (foldl (\<lambda>s (t, c). record_failure t c s) b (nows @ [(now, code)]))
       = Some (now + cooldown)"
proof -
  have b: "b = \<lparr>bk_provider_name = name, bk_failure_threshold = threshold,
                bk_cooldown_seconds = cooldown, bk_has_listener = listener, bk_state = BClosed,
                bk_consecutive_failures = 0, bk_open_until = None, bk_probe_in_flight = False,
                bk_events = []\<rparr>"
    using assms(1) by (simp add: new_breaker_def split: if_splits)
  have "foldl (\<lambda>s (t, c). record_failure t c s) b nows = b\<lparr>bk_consecutive_failures := int (length nows)\<rparr>"
    using failures_while_closed [of b nows] assms(2) by (simp add: b)
  then show ?thesis using assms(2) by (simp add: b record_failure_def Let_def)
qed

section \<open>One probe per cooldown\<close>

lemma probe_out_denies:
  "bk_state b = BHalfOpen \<Longrightarrow> bk_probe_in_flight b \<Longrightarrow> allow_probe now b = (False, b)"
  by (simp add: allow_probe_def)

lemma open_denies:
  "bk_state b = BOpen \<Longrightarrow> bk_open_until b = Some u \<Longrightarrow> now < u \<Longrightarrow> allow_probe now b = (False, b)"
  by (simp add: allow_probe_def)

fun probe_answers :: "breaker \<Rightarrow> real list \<Rightarrow> bool list" where
  "probe_answers b [] = []"
| "probe_answers b (now # nows) =
     (let (ok, b') = allow_probe now b in ok # probe_answers b' nows)"

lemma probe_answers_probe_out:
  "bk_state b = BHalfOpen \<Longrightarrow> bk_probe_in_flight b \<Longrightarrow> True \<notin> set (probe_answers b nows)"
  by (induction nows) (simp_all add: probe_out_denies)

lemma probe_answers_open:
  "bk_state b = BOpen \<Longrightarrow> count_list (probe_answers b nows) True \<le> 1"
proof (induction nows)
  case (Cons now nows)
  show ?case
  proof (cases "fst (allow_probe now b)")
    case True
    with Cons.prems have "bk_state (snd (allow_probe now b)) = BHalfOpen"
      and "bk_probe_in_flight (snd (allow_probe now b))"
      by (auto simp: allow_probe_def split: if_splits option.splits)
    from probe_answers_probe_out [OF this, of nows]
    have "count_list (probe_answers (snd (allow_probe now b)) nows) True = 0"
      by (simp add: count_list_0_iff)
    with True show ?thesis by (simp add: case_prod_beta Let_def)
  next
    case False
    with Cons.prems have "snd (allow_probe now b) = b"
      by (auto simp: allow_probe_def split: if_splits)
    with False Cons show ?thesis by (simp add: case_prod_beta Let_def)
  qed
qed simp

text \<open>C34: however often and whenever a client asks an open breaker, it is told yes at most once
  before it reports the outcome of that probe, and never before the cooldown deadline.\<close>

theorem open_breaker_single_probe:
  assumes "bk_state b = BOpen" and "bk_open_until b = Some u"
  shows "count_list (probe_answers b nows) True \<le> 1 \<and>
     ((\<forall>t \<in> set nows. t < u) \<longrightarrow> True \<notin> set (probe_answers b nows))"
proof -
  have "\<forall>t \<in> set nows. t < u \<Longrightarrow> True \<notin> set (probe_answers b nows)"
    using assms by (induction nows) (simp_all add: open_denies)
  with probe_answers_open [OF assms(1), of nows] show ?thesis by simp
qed

definition tripped_breaker :: "breaker" where
  "tripped_breaker = \<lparr>bk_provider_name = ''p'', bk_failure_threshold = 3,
     bk_cooldown_seconds = 300, bk_has_listener = False, bk_state = BOpen,
     bk_consecutive_failures = 3, bk_open_until = Some 300, bk_probe_in_flight = False,
     bk_events = []\<rparr>"

theorem open_breaker_single_probe_witness:
  "bk_state tripped_breaker = BOpen \<and>
   count_list (probe_answers tripped_breaker [100, 301, 302]) True \<le> 1 \<and>
   True \<notin> set (probe_answers tripped_breaker [100, 200])"
proof -
  have h: "bk_state tripped_breaker = BOpen" "bk_open_until tripped_breaker = Some 300"
    by (simp_all add: tripped_breaker_def)
  have early: "\<forall>t \<in> set [100, 200]. t < (300 :: real)" by simp
  show ?thesis
    using h(1) early open_breaker_single_probe [OF h, of "[100, 301, 302]"]
      open_breaker_single_probe [OF h, of "[100, 200]"] by blast
qed

section \<open>Outcomes\<close>

lemma success_resets:
  "bk_state (record_success b) = BClosed"
  "bk_consecutive_failures (record_success b) = 0"
  "bk_open_until (record_success b) = None"
  "\<not> bk_probe_in_flight (record_success b)"
  by (simp_all add: record_success_def Let_def)

lemma failed_probe_reopens:
  "bk_state b = BHalfOpen \<Longrightarrow> bk_state (record_failure now c b) = BOpen \<and>
     bk_open_until (record_failure now c b) = Some (now + bk_cooldown_seconds b)"
  by (simp add: record_failure_def Let_def)

lemma open_counts_only:
  "bk_state b = BOpen \<Longrightarrow>
     record_failure now c b = b\<lparr>bk_consecutive_failures := bk_consecutive_failures b + 1\<rparr>"
  by (simp add: record_failure_def Let_def)

text \<open>A breaker rebuilt from its row has the persisted state, lease and count (a negative
  count reads as zero, an unknown state as closed); a half-open row whose lease has not run out
  grants no probe, so a crashed probe cannot be doubled by a restart.\<close>

lemma from_persisted_restores:
  assumes "from_persisted name (breaker_state_value s) until failures threshold cooldown l = Inr b"
  shows "bk_state b = s \<and> bk_open_until b = until \<and> bk_consecutive_failures b = max 0 failures
    \<and> (s = BHalfOpen \<and> until = Some u \<and> now < u \<longrightarrow> allow_probe now b = (False, b))"
  using assms
  by (auto simp: from_persisted_def bind_result_eq_Inr new_breaker_def allow_probe_def
      split: if_splits)

end
