(* ===== verification/MailErrors.thy ===== *)
theory MailErrors
  imports ErrorCodes
begin

text \<open>
  The provider failure taxonomy of \<open>mail/errors.py\<close> and the provider limits of
  \<open>mail/provider.py\<close>: the constructors of \<open>MailError\<close>, the classification of an HTTP status and
  the validation of \<open>Capabilities\<close>.  The two standard-library parsers behind a
  \<open>Retry-After\<close> header (\<open>float\<close> and \<open>email.utils.parsedate_to_datetime\<close> with the current time)
  are arguments.
\<close>

section \<open>\<open>MailError\<close>\<close>

record mail_error =
  me_error_code :: string
  me_message :: string
  me_retryable :: bool
  me_permanent :: bool
  me_possible_duplicate :: bool
  me_retry_after_seconds :: "real option"

definition new_mail_error ::
  "string \<Rightarrow> string \<Rightarrow> bool \<Rightarrow> bool \<Rightarrow> bool \<Rightarrow> real option \<Rightarrow> mail_error" where
  "new_mail_error code msg retry perm dup retry_after =
     \<lparr>me_error_code = code, me_message = msg, me_retryable = retry, me_permanent = perm,
      me_possible_duplicate = dup,
      me_retry_after_seconds = (case retry_after of None \<Rightarrow> None | Some s \<Rightarrow> Some (max 0 s))\<rparr>"

definition retryable :: "string \<Rightarrow> string \<Rightarrow> bool \<Rightarrow> real option \<Rightarrow> mail_error" where
  "retryable code msg dup retry_after = new_mail_error code msg True False dup retry_after"

definition permanent :: "string \<Rightarrow> string \<Rightarrow> bool \<Rightarrow> mail_error" where
  "permanent code msg dup = new_mail_error code msg False True dup None"

definition timeout_error :: "string \<Rightarrow> mail_error" where
  "timeout_error msg = retryable MAIL_TIMEOUT msg True None"

definition quota_exhausted :: "string \<Rightarrow> mail_error" where
  "quota_exhausted msg = permanent MAIL_QUOTA_EXHAUSTED msg False"

definition configuration_error :: "string \<Rightarrow> mail_error" where
  "configuration_error msg = permanent MAIL_CONFIGURATION_ERROR msg False"

definition invalid_recipient :: "string \<Rightarrow> mail_error" where
  "invalid_recipient msg = permanent MAIL_INVALID_RECIPIENT msg False"

text \<open>\<open>seconds_until\<close> is the distance from now to the parsed HTTP date, if it parses.\<close>

definition parse_retry_after ::
  "(string \<Rightarrow> real option) \<Rightarrow> (string \<Rightarrow> real option) \<Rightarrow> string option \<Rightarrow> real option" where
  "parse_retry_after parse_float seconds_until v =
     (case v of None \<Rightarrow> None
      | Some s \<Rightarrow> if s = [] then None
          else (case parse_float s of Some x \<Rightarrow> Some (max 0 x)
                | None \<Rightarrow> (case seconds_until s of None \<Rightarrow> None | Some d \<Rightarrow> Some (max 0 d))))"

definition http_status_error ::
  "(string \<Rightarrow> real option) \<Rightarrow> (string \<Rightarrow> real option) \<Rightarrow> int \<Rightarrow> string option \<Rightarrow> string option \<Rightarrow> mail_error" where
  "http_status_error parse_float seconds_until status_code retry_after error_code =
     (let provider_code = py_lower (py_or error_code []) in
      if status_code \<in> {401, 403}
      then permanent MAIL_INVALID_CREDENTIALS
             (''provider rejected credentials ('' @ int_str status_code @ '')'') False
      else if status_code = 408
      then retryable MAIL_TIMEOUT ''provider request timed out (408)'' True None
      else if status_code = 429
      then (if contains ''quota'' provider_code \<or> contains ''daily'' provider_code
               \<or> contains ''monthly'' provider_code
            then quota_exhausted ''provider quota exhausted''
            else retryable MAIL_RATE_LIMITED ''provider rate limit reached (429)'' False
                   (parse_retry_after parse_float seconds_until retry_after))
      else if status_code \<in> {400, 422}
      then (if contains ''recipient'' provider_code \<or> contains ''address'' provider_code
               \<or> contains ''email'' provider_code
            then permanent MAIL_INVALID_RECIPIENT ''provider rejected a recipient address'' False
            else permanent MAIL_UNSUPPORTED_REQUEST
                   (''provider rejected the request ('' @ int_str status_code @ '')'') False)
      else if 500 \<le> status_code \<and> status_code \<le> 599
      then retryable MAIL_HTTP_5XX (''provider returned '' @ int_str status_code) False None
      else permanent MAIL_UNSUPPORTED_REQUEST (''provider returned '' @ int_str status_code) False)"

lemmas mail_error_defs = new_mail_error_def retryable_def permanent_def timeout_error_def
  quota_exhausted_def configuration_error_def invalid_recipient_def

lemma mail_codes_valid [simp]:
  "is_valid_error_code MAIL_INVALID_CREDENTIALS" "is_valid_error_code MAIL_TIMEOUT"
  "is_valid_error_code MAIL_QUOTA_EXHAUSTED" "is_valid_error_code MAIL_RATE_LIMITED"
  "is_valid_error_code MAIL_INVALID_RECIPIENT" "is_valid_error_code MAIL_UNSUPPORTED_REQUEST"
  "is_valid_error_code MAIL_HTTP_5XX"
  by (simp_all add: is_valid_error_code_def ERROR_CODES_def)

text \<open>What a constructed error promises, in the order the taxonomy needs it.\<close>

definition classified :: "mail_error \<Rightarrow> bool \<Rightarrow> bool \<Rightarrow> bool" where
  "classified e retry dup \<longleftrightarrow> me_retryable e = retry \<and> me_permanent e = (\<not> retry)
     \<and> me_possible_duplicate e = dup \<and> is_valid_error_code (me_error_code e)
     \<and> 0 \<le> (case me_retry_after_seconds e of None \<Rightarrow> 0 | Some d \<Rightarrow> d)"

lemma classified_retryable: "is_valid_error_code c \<Longrightarrow> classified (retryable c msg dup d) True dup"
  by (simp add: classified_def retryable_def new_mail_error_def split: option.split)

lemma classified_permanent: "is_valid_error_code c \<Longrightarrow> classified (permanent c msg dup) False dup"
  by (simp add: classified_def permanent_def new_mail_error_def)

lemma classified_http:
  "classified (http_status_error pf su status ra code)
     (status = 408 \<or> status = 429 \<and> \<not> (contains ''quota'' (py_lower (py_or code []))
         \<or> contains ''daily'' (py_lower (py_or code [])) \<or> contains ''monthly'' (py_lower (py_or code [])))
       \<or> 500 \<le> status \<and> status \<le> 599)
     (status = 408)"
proof -
  consider "status \<in> {401, 403}" | "status = 408" | "status = 429" | "status \<in> {400, 422}"
    | "500 \<le> status \<and> status \<le> 599"
    | "status \<notin> {400, 401, 403, 408, 422, 429}" "\<not> (500 \<le> status \<and> status \<le> 599)" by blast
  then show ?thesis
  proof cases
    case 1
    then show ?thesis using classified_permanent [OF mail_codes_valid(1)]
      by (auto simp: http_status_error_def Let_def)
  next
    case 2
    then show ?thesis using classified_retryable [OF mail_codes_valid(2)]
      by (simp add: http_status_error_def Let_def)
  next
    case 3
    then show ?thesis
      using classified_retryable [OF mail_codes_valid(4)] classified_permanent [OF mail_codes_valid(3)]
      by (simp add: http_status_error_def Let_def quota_exhausted_def)
  next
    case 4
    then have "status = 400 \<or> status = 422" by simp
    then show ?thesis
      using classified_permanent [OF mail_codes_valid(5)] classified_permanent [OF mail_codes_valid(6)]
      by (elim disjE) (simp_all add: http_status_error_def Let_def)
  next
    case 5
    then show ?thesis using classified_retryable [OF mail_codes_valid(7)]
      by (auto simp: http_status_error_def Let_def)
  next
    case 6
    then show ?thesis using classified_permanent [OF mail_codes_valid(6)]
      by (auto simp: http_status_error_def Let_def)
  qed
qed

text \<open>Every HTTP status is classified into exactly one of retryable and permanent, under a
  code of the catalogue; a status is retryable exactly for 408, for 5xx and for a 429 whose
  provider code names no quota; only a 408, where the request may have arrived, is a possible
  duplicate; and a retry delay is never negative.\<close>

lemma http_status_classified:
  "let e = http_status_error parse_float seconds_until status retry_after provider_code;
       quota = (\<exists>w \<in> {''quota'', ''daily'', ''monthly''}. contains w (py_lower (py_or provider_code [])))
   in me_retryable e \<noteq> me_permanent e
    \<and> me_retryable e = (status = 408 \<or> status = 429 \<and> \<not> quota \<or> 500 \<le> status \<and> status \<le> 599)
    \<and> me_possible_duplicate e = (status = 408)
    \<and> is_valid_error_code (me_error_code e)
    \<and> 0 \<le> (case me_retry_after_seconds e of None \<Rightarrow> 0 | Some d \<Rightarrow> d)"
  using classified_http [of parse_float seconds_until status retry_after provider_code]
  by (simp add: Let_def classified_def del: disj_not1)

section \<open>\<open>Capabilities\<close>\<close>

text \<open>A configured limit is an arbitrary value until \<open>__post_init__\<close> has accepted it.\<close>

record capabilities =
  cp_max_attachments :: "int option"
  cp_max_attachment_mb :: "int option"
  cp_max_message_mb :: "int option"
  cp_daily_limit :: "int option"
  cp_rate_limit_per_min :: "int option"
  cp_needs_verified_domain :: bool

datatype capability_error = NotAnInteger string | NotPositive string

definition check_limit :: "string \<Rightarrow> json \<Rightarrow> (capability_error, int option) result" where
  "check_limit name v =
     (case v of JNull \<Rightarrow> Inr None
      | JInt n \<Rightarrow> if n \<le> 0 then Inl (NotPositive name) else Inr (Some n)
      | _ \<Rightarrow> Inl (NotAnInteger name))"

definition new_capabilities ::
  "json \<Rightarrow> json \<Rightarrow> json \<Rightarrow> json \<Rightarrow> json \<Rightarrow> bool \<Rightarrow> (capability_error, capabilities) result" where
  "new_capabilities attachments attachment_mb message_mb daily per_min domain =
     bind_result (check_limit ''max_attachments'' attachments) (\<lambda>a.
     bind_result (check_limit ''max_attachment_mb'' attachment_mb) (\<lambda>am.
     bind_result (check_limit ''max_message_mb'' message_mb) (\<lambda>mm.
     bind_result (check_limit ''daily_limit'' daily) (\<lambda>d.
     bind_result (check_limit ''rate_limit_per_min'' per_min) (\<lambda>r.
       Inr \<lparr>cp_max_attachments = a, cp_max_attachment_mb = am, cp_max_message_mb = mm,
            cp_daily_limit = d, cp_rate_limit_per_min = r, cp_needs_verified_domain = domain\<rparr>)))))"

definition limit_positive :: "int option \<Rightarrow> bool" where
  "limit_positive v = (case v of None \<Rightarrow> True | Some n \<Rightarrow> 0 < n)"

definition capabilities_ok :: "capabilities \<Rightarrow> bool" where
  "capabilities_ok c \<longleftrightarrow> limit_positive (cp_max_attachments c) \<and> limit_positive (cp_max_attachment_mb c)
     \<and> limit_positive (cp_max_message_mb c) \<and> limit_positive (cp_daily_limit c)
     \<and> limit_positive (cp_rate_limit_per_min c)"

lemma check_limit_positive: "check_limit n v = Inr l \<Longrightarrow> limit_positive l"
  by (auto simp: check_limit_def limit_positive_def split: json.splits if_splits)

lemma new_capabilities_ok: "new_capabilities a b c d e f = Inr cap \<Longrightarrow> capabilities_ok cap"
  by (auto simp: new_capabilities_def bind_result_eq_Inr capabilities_ok_def dest!: check_limit_positive)

end
