(* ===== verification/Planner.thy ===== *)
theory Planner
  imports MailErrors "HOL-Library.Word" "HOL-Library.Sublist"
begin

text \<open>
  The messages of \<open>mail/message.py\<close> and the attachment planner of \<open>mail/planner.py\<close>: one pass over
  the attachments in order, with the running counts the source keeps, deciding for each document
  whether it goes inline or behind a secure link.
\<close>

section \<open>Messages\<close>

type_synonym byte = "8 word"

record mail_attachment =
  ma_filename :: string
  ma_content :: "byte list"
  ma_content_type :: "string option"

definition size_bytes :: "mail_attachment \<Rightarrow> int" where
  "size_bytes a = int (length (ma_content a))"

record email_message =
  em_to :: "string list"
  em_cc :: "string list"
  em_bcc :: "string list"
  em_subject :: string
  em_text_body :: string
  em_html_body :: "string option"
  em_attachments :: "mail_attachment list"
  em_secure_links :: "string list"
  em_dedupe_key :: string
  em_correlation_id :: "string option"

datatype invalid_address = InvalidAddress string | UnsafeFilename string

text \<open>\<open>EmailMessage.validate\<close>; the address test of \<open>db/models/recipients.py\<close> is an argument.\<close>

definition validate_message :: "(string \<Rightarrow> bool) \<Rightarrow> email_message \<Rightarrow> (invalid_address, unit) result" where
  "validate_message valid_email m =
     (case find (\<lambda>a. \<not> valid_email a) (em_to m @ em_cc m @ em_bcc m) of
        Some a \<Rightarrow> Inl (InvalidAddress a)
      | None \<Rightarrow>
          (case find (\<lambda>a. CHR ''/'' \<in> set (ma_filename a) \<or> CHR 0x5C \<in> set (ma_filename a)) (em_attachments m) of
             Some a \<Rightarrow> Inl (UnsafeFilename (ma_filename a))
           | None \<Rightarrow> Inr ()))"

section \<open>The planner\<close>

abbreviation MB :: int where
  "MB \<equiv> 1024 * 1024"

text \<open>\<open>4 * math.ceil(size / 3)\<close>.\<close>

definition encoded_message_bytes :: "mail_attachment \<Rightarrow> int" where
  "encoded_message_bytes a = 4 * ((size_bytes a + 2) div 3)"

record plan_result =
  pr_attach :: "mail_attachment list"
  pr_link_filenames :: "string list"
  pr_total_attached_bytes :: int
  pr_total_encoded_bytes :: int
  pr_total_message_bytes :: int
  pr_over_message_limit :: bool

definition fits_whole_set :: "plan_result \<Rightarrow> bool" where
  "fits_whole_set p = (pr_link_filenames p = [] \<and> \<not> pr_over_message_limit p)"

definition exceeds :: "int \<Rightarrow> int option \<Rightarrow> bool" where
  "exceeds n limit = (case limit of None \<Rightarrow> False | Some m \<Rightarrow> n > m)"

record plan_state =
  ps_attach :: "mail_attachment list"
  ps_linked :: "string list"
  ps_raw_total :: int
  ps_encoded_total :: int
  ps_individual_over :: bool

definition plan_step ::
  "int option \<Rightarrow> int option \<Rightarrow> int option \<Rightarrow> int \<Rightarrow> plan_state \<Rightarrow> mail_attachment \<Rightarrow> plan_state" where
  "plan_step max_count max_each max_message overhead st a =
     (if exceeds (size_bytes a) max_each
      then st\<lparr>ps_linked := ps_linked st @ [ma_filename a]\<rparr>
      else if (case max_count of None \<Rightarrow> False | Some m \<Rightarrow> int (length (ps_attach st)) \<ge> m)
      then st\<lparr>ps_linked := ps_linked st @ [ma_filename a]\<rparr>
      else if exceeds (overhead + ps_encoded_total st + encoded_message_bytes a) max_message
      then st\<lparr>ps_individual_over := True, ps_linked := ps_linked st @ [ma_filename a]\<rparr>
      else st\<lparr>ps_attach := ps_attach st @ [a],
              ps_raw_total := ps_raw_total st + size_bytes a,
              ps_encoded_total := ps_encoded_total st + encoded_message_bytes a\<rparr>)"

datatype planner_error = NegativeOverhead

definition to_bytes :: "int option \<Rightarrow> int option" where
  "to_bytes mb = map_option (\<lambda>n. n * MB) mb"

definition plan :: "capabilities \<Rightarrow> mail_attachment list \<Rightarrow> int \<Rightarrow> (planner_error, plan_result) result" where
  "plan cap attachments overhead =
     (if overhead < 0 then Inl NegativeOverhead
      else let max_message = to_bytes (cp_max_message_mb cap);
               st = foldl (plan_step (cp_max_attachments cap) (to_bytes (cp_max_attachment_mb cap))
                             max_message overhead)
                      \<lparr>ps_attach = [], ps_linked = [], ps_raw_total = 0, ps_encoded_total = 0,
                       ps_individual_over = False\<rparr> attachments;
               total_message = overhead + ps_encoded_total st;
               base_fits = \<not> exceeds overhead max_message;
               over = ps_individual_over st \<or> exceeds total_message max_message
           in Inr \<lparr>pr_attach = ps_attach st, pr_link_filenames = ps_linked st,
                   pr_total_attached_bytes = ps_raw_total st,
                   pr_total_encoded_bytes = ps_encoded_total st,
                   pr_total_message_bytes = total_message,
                   pr_over_message_limit = (if \<not> base_fits then True else over)\<rparr>)"

section \<open>Base64 sizes\<close>

lemma encoded_bounds:
  "4 * size_bytes a \<le> 3 * encoded_message_bytes a \<and> 3 * encoded_message_bytes a \<le> 4 * size_bytes a + 8"
  unfolding encoded_message_bytes_def by presburger

lemma encoded_nonneg: "0 \<le> encoded_message_bytes a"
  by (simp add: encoded_message_bytes_def size_bytes_def)

section \<open>The invariant of the pass\<close>

definition plan_inv ::
  "int option \<Rightarrow> int option \<Rightarrow> int option \<Rightarrow> int \<Rightarrow> plan_state \<Rightarrow> bool" where
  "plan_inv max_count max_each max_message overhead st \<longleftrightarrow>
     (\<forall>a \<in> set (ps_attach st). \<not> exceeds (size_bytes a) max_each) \<and>
     (case max_count of None \<Rightarrow> True | Some m \<Rightarrow> int (length (ps_attach st)) \<le> max 0 m) \<and>
     (ps_attach st \<noteq> [] \<longrightarrow> \<not> exceeds (overhead + ps_encoded_total st) max_message) \<and>
     ps_raw_total st = sum_list (map size_bytes (ps_attach st)) \<and>
     ps_encoded_total st = sum_list (map encoded_message_bytes (ps_attach st)) \<and>
     (ps_individual_over st \<longrightarrow> ps_linked st \<noteq> [])"

lemma plan_step_inv:
  "plan_inv mc me mm ov st \<Longrightarrow> plan_inv mc me mm ov (plan_step mc me mm ov st a)"
  by (auto simp: plan_inv_def plan_step_def algebra_simps split: option.splits)

interpretation planning: guarded_steps "plan_step mc me mm ov" "plan_inv mc me mm ov"
  for mc me mm ov by unfold_locales (rule plan_step_inv)

lemma plan_step_choice:
  "ps_attach (plan_step mc me mm ov st a) = ps_attach st @ [a]
     \<and> ps_linked (plan_step mc me mm ov st a) = ps_linked st
   \<or> ps_attach (plan_step mc me mm ov st a) = ps_attach st
     \<and> ps_linked (plan_step mc me mm ov st a) = ps_linked st @ [ma_filename a]"
  by (simp add: plan_step_def)

lemma plan_fold_partition:
  "\<exists>kept lnk. ps_attach (foldl (plan_step mc me mm ov) st as) = ps_attach st @ kept \<and>
     ps_linked (foldl (plan_step mc me mm ov) st as) = ps_linked st @ lnk \<and> subseq kept as \<and>
     map ma_filename as \<in> shuffles (map ma_filename kept) lnk"
proof (induction as arbitrary: st)
  case (Cons a as)
  obtain kept lnk where rest:
    "ps_attach (foldl (plan_step mc me mm ov) (plan_step mc me mm ov st a) as)
       = ps_attach (plan_step mc me mm ov st a) @ kept"
    "ps_linked (foldl (plan_step mc me mm ov) (plan_step mc me mm ov st a) as)
       = ps_linked (plan_step mc me mm ov st a) @ lnk"
    "subseq kept as" "map ma_filename as \<in> shuffles (map ma_filename kept) lnk"
    using Cons.IH by blast
  consider "ps_attach (plan_step mc me mm ov st a) = ps_attach st @ [a]"
      "ps_linked (plan_step mc me mm ov st a) = ps_linked st"
    | "ps_attach (plan_step mc me mm ov st a) = ps_attach st"
      "ps_linked (plan_step mc me mm ov st a) = ps_linked st @ [ma_filename a]"
    using plan_step_choice [of mc me mm ov st a] by blast
  then show ?case
  proof cases
    case 1
    with rest show ?thesis
      by (intro exI [of _ "a # kept"] exI [of _ lnk]) (simp add: Cons_in_shuffles_leftI)
  next
    case 2
    with rest show ?thesis
      by (intro exI [of _ kept] exI [of _ "ma_filename a # lnk"])
        (simp add: Cons_in_shuffles_rightI list_emb_Cons)
  qed
qed simp

lemma plan_unfold:
  assumes "plan cap as ov = Inr p"
  obtains st where "st = foldl (plan_step (cp_max_attachments cap) (to_bytes (cp_max_attachment_mb cap))
        (to_bytes (cp_max_message_mb cap)) ov)
        \<lparr>ps_attach = [], ps_linked = [], ps_raw_total = 0, ps_encoded_total = 0, ps_individual_over = False\<rparr> as"
    and "pr_attach p = ps_attach st" and "pr_link_filenames p = ps_linked st"
    and "pr_total_attached_bytes p = ps_raw_total st" and "pr_total_encoded_bytes p = ps_encoded_total st"
    and "pr_total_message_bytes p = ov + ps_encoded_total st"
    and "pr_over_message_limit p = (exceeds ov (to_bytes (cp_max_message_mb cap)) \<or> ps_individual_over st
           \<or> exceeds (ov + ps_encoded_total st) (to_bytes (cp_max_message_mb cap)))"
    and "0 \<le> ov"
  using assms by (auto simp: plan_def Let_def split: if_splits)

lemma plan_partition:
  assumes "plan cap as ov = Inr p"
  shows "subseq (pr_attach p) as"
    and "map ma_filename as \<in> shuffles (map ma_filename (pr_attach p)) (pr_link_filenames p)"
proof -
  obtain st where st: "st = foldl (plan_step (cp_max_attachments cap) (to_bytes (cp_max_attachment_mb cap))
        (to_bytes (cp_max_message_mb cap)) ov)
        \<lparr>ps_attach = [], ps_linked = [], ps_raw_total = 0, ps_encoded_total = 0, ps_individual_over = False\<rparr> as"
    and p: "pr_attach p = ps_attach st" "pr_link_filenames p = ps_linked st"
    using assms by (rule plan_unfold)
  show "subseq (pr_attach p) as"
    and "map ma_filename as \<in> shuffles (map ma_filename (pr_attach p)) (pr_link_filenames p)"
    using plan_fold_partition [of "cp_max_attachments cap" "to_bytes (cp_max_attachment_mb cap)"
        "to_bytes (cp_max_message_mb cap)" ov
        "\<lparr>ps_attach = [], ps_linked = [], ps_raw_total = 0, ps_encoded_total = 0, ps_individual_over = False\<rparr>" as]
    by (auto simp: p st)
qed

lemma plan_result_inv:
  assumes "plan cap as ov = Inr p" and "capabilities_ok cap"
  shows "\<forall>a \<in> set (pr_attach p). \<not> exceeds (size_bytes a) (to_bytes (cp_max_attachment_mb cap))"
    and "\<not> exceeds (int (length (pr_attach p))) (cp_max_attachments cap)"
    and "pr_attach p \<noteq> [] \<Longrightarrow> \<not> exceeds (pr_total_message_bytes p) (to_bytes (cp_max_message_mb cap))"
    and "pr_total_encoded_bytes p = sum_list (map encoded_message_bytes (pr_attach p))"
    and "pr_total_attached_bytes p = sum_list (map size_bytes (pr_attach p))"
proof -
  obtain st where st: "st = foldl (plan_step (cp_max_attachments cap) (to_bytes (cp_max_attachment_mb cap))
        (to_bytes (cp_max_message_mb cap)) ov)
        \<lparr>ps_attach = [], ps_linked = [], ps_raw_total = 0, ps_encoded_total = 0, ps_individual_over = False\<rparr> as"
    and p: "pr_attach p = ps_attach st" "pr_total_encoded_bytes p = ps_encoded_total st"
      "pr_total_attached_bytes p = ps_raw_total st" "pr_total_message_bytes p = ov + ps_encoded_total st"
    using assms(1) by (rule plan_unfold) blast
  have "plan_inv (cp_max_attachments cap) (to_bytes (cp_max_attachment_mb cap))
      (to_bytes (cp_max_message_mb cap)) ov st"
    unfolding st using assms(2)
    by (intro planning.history_keeps) (auto simp: plan_inv_def split: option.splits)
  then show "\<forall>a \<in> set (pr_attach p). \<not> exceeds (size_bytes a) (to_bytes (cp_max_attachment_mb cap))"
    and "\<not> exceeds (int (length (pr_attach p))) (cp_max_attachments cap)"
    and "pr_attach p \<noteq> [] \<Longrightarrow> \<not> exceeds (pr_total_message_bytes p) (to_bytes (cp_max_message_mb cap))"
    and "pr_total_encoded_bytes p = sum_list (map encoded_message_bytes (pr_attach p))"
    and "pr_total_attached_bytes p = sum_list (map size_bytes (pr_attach p))"
    using assms(2)
    by (auto simp: plan_inv_def p exceeds_def capabilities_ok_def limit_positive_def split: option.splits)
qed

lemma plan_over:
  assumes "plan cap as ov = Inr p" and "capabilities_ok cap" and "pr_link_filenames p = []"
  shows "pr_over_message_limit p = exceeds ov (to_bytes (cp_max_message_mb cap))"
proof -
  obtain st where st: "st = foldl (plan_step (cp_max_attachments cap) (to_bytes (cp_max_attachment_mb cap))
        (to_bytes (cp_max_message_mb cap)) ov)
        \<lparr>ps_attach = [], ps_linked = [], ps_raw_total = 0, ps_encoded_total = 0, ps_individual_over = False\<rparr> as"
    and p: "pr_attach p = ps_attach st" "pr_link_filenames p = ps_linked st"
      "pr_over_message_limit p = (exceeds ov (to_bytes (cp_max_message_mb cap)) \<or> ps_individual_over st
           \<or> exceeds (ov + ps_encoded_total st) (to_bytes (cp_max_message_mb cap)))"
    using assms(1) by (rule plan_unfold)
  have inv: "plan_inv (cp_max_attachments cap) (to_bytes (cp_max_attachment_mb cap))
      (to_bytes (cp_max_message_mb cap)) ov st"
    unfolding st using assms(2)
    by (intro planning.history_keeps) (auto simp: plan_inv_def split: option.splits)
  show ?thesis
    using inv assms(3) by (cases "ps_attach st = []") (auto simp: plan_inv_def p)
qed

text \<open>C31: the plan keeps every limit of the provider: each attached document within the raw
  per-file limit, no more documents than the count limit, and, whenever anything is attached, the
  encoded message with its overhead within the message limit.  Every document is either attached
  or linked, in the order given.\<close>

theorem plan_respects_capabilities:
  assumes "plan cap as ov = Inr p" and "capabilities_ok cap"
  shows "(\<forall>a \<in> set (pr_attach p). \<not> exceeds (size_bytes a) (to_bytes (cp_max_attachment_mb cap)))
    \<and> \<not> exceeds (int (length (pr_attach p))) (cp_max_attachments cap)
    \<and> (pr_attach p \<noteq> [] \<longrightarrow>
         \<not> exceeds (ov + sum_list (map encoded_message_bytes (pr_attach p))) (to_bytes (cp_max_message_mb cap)))
    \<and> subseq (pr_attach p) as
    \<and> map ma_filename as \<in> shuffles (map ma_filename (pr_attach p)) (pr_link_filenames p)"
proof -
  note inv = plan_result_inv [OF assms]
  have total: "pr_total_message_bytes p = ov + sum_list (map encoded_message_bytes (pr_attach p))"
    using assms(1) inv(4) by (auto elim: plan_unfold)
  show ?thesis using inv(1-3) total plan_partition [OF assms(1)] by simp
qed

definition two_mb_provider :: capabilities where
  "two_mb_provider = \<lparr>cp_max_attachments = Some 1, cp_max_attachment_mb = Some 1,
     cp_max_message_mb = Some 2, cp_daily_limit = None, cp_rate_limit_per_min = None,
     cp_needs_verified_domain = False\<rparr>"

definition small_file :: "string \<Rightarrow> nat \<Rightarrow> mail_attachment" where
  "small_file name n = \<lparr>ma_filename = name, ma_content = replicate n 0, ma_content_type = None\<rparr>"

theorem plan_respects_capabilities_witness:
  "\<exists>p. plan two_mb_provider [small_file ''a'' 3, small_file ''b'' 4] 100 = Inr p \<and>
     capabilities_ok two_mb_provider \<and>
     map ma_filename [small_file ''a'' 3, small_file ''b'' 4]
       \<in> shuffles (map ma_filename (pr_attach p)) (pr_link_filenames p)"
proof -
  obtain p where p: "plan two_mb_provider [small_file ''a'' 3, small_file ''b'' 4] 100 = Inr p"
    by (simp add: plan_def Let_def)
  have ok: "capabilities_ok two_mb_provider"
    by (simp add: capabilities_ok_def two_mb_provider_def limit_positive_def)
  show ?thesis using p ok plan_respects_capabilities [OF p ok] by blast
qed

text \<open>A plan fits the whole set exactly when every document is attached and the base body is
  within the message limit; then nothing is linked and the plan carries all the documents in
  order.\<close>

lemma fits_whole_set_iff:
  assumes "plan cap as ov = Inr p" and "capabilities_ok cap"
  shows "fits_whole_set p \<longleftrightarrow> pr_attach p = as \<and> \<not> exceeds ov (to_bytes (cp_max_message_mb cap))"
proof -
  note parts = plan_partition [OF assms(1)]
  have len: "length as = length (pr_attach p) + length (pr_link_filenames p)"
    using length_shuffles [OF parts(2)] by simp
  have all: "pr_link_filenames p = [] \<longleftrightarrow> pr_attach p = as"
    using len parts(1) by (auto dest: subseq_same_length)
  show ?thesis
    using assms(1) all plan_result_inv(3,4) [OF assms] plan_over [OF assms]
    by (auto simp: fits_whole_set_def elim!: plan_unfold)
qed

end
