(* ===== verification/Backoff.thy ===== *)
theory Backoff
  imports ErrorCodes
begin

text \<open>
  Bounded exponential backoff: the interface two components share, the mail chain's
  \<open>MailRetryPolicy\<close> and the orchestrator's \<open>RetryPolicy\<close>, and the whole of
  \<open>orchestrator/retry.py\<close>, the bounded retry loop with its recorded delays.

  The interface is stated over policies: a legal policy gives each attempt a delay between zero
  and a cap, growing with the attempt.  What a client gets is a bound on the time a whole
  sequence of retries can wait.
\<close>

locale bounded_backoff =
  fixes legal :: "'p \<Rightarrow> bool"
    and delay :: "'p \<Rightarrow> int \<Rightarrow> real"
    and cap :: "'p \<Rightarrow> real"
  assumes delay_nonneg: "legal p \<Longrightarrow> 0 \<le> delay p n"
    and delay_capped: "legal p \<Longrightarrow> delay p n \<le> cap p"
    and delay_grows: "legal p \<Longrightarrow> m \<le> n \<Longrightarrow> delay p m \<le> delay p n"
begin

lemma total_delay_nonneg: "legal p \<Longrightarrow> 0 \<le> sum_list (map (delay p) ns)"
  by (induction ns) (auto intro: add_nonneg_nonneg delay_nonneg)

lemma total_delay_capped: "legal p \<Longrightarrow> sum_list (map (delay p) ns) \<le> real (length ns) * cap p"
  by (induction ns) (auto simp: algebra_simps intro: add_mono delay_capped)

lemma delays_grow: "legal p \<Longrightarrow> sorted (map (delay p) [1..n])"
  by (rule sorted_map_mono) (auto simp: monotone_on_def intro: delay_grows)

end

section \<open>The exponential schedule\<close>

definition exponential_delay :: "real \<Rightarrow> real \<Rightarrow> int \<Rightarrow> real" where
  "exponential_delay base maximum attempt =
     (let n = (if attempt < 1 then 1 else attempt); raw = base * 2 ^ nat (n - 1) in min raw maximum)"

lemma exponential_delay_nonneg: "0 \<le> b \<Longrightarrow> 0 \<le> m \<Longrightarrow> 0 \<le> exponential_delay b m n"
  by (simp add: exponential_delay_def Let_def)

lemma exponential_delay_capped: "exponential_delay b m n \<le> m"
  by (simp add: exponential_delay_def Let_def)

lemma exponential_delay_grows:
  assumes "0 \<le> b" and "k \<le> n"
  shows "exponential_delay b m k \<le> exponential_delay b m n"
proof -
  have "nat ((if k < 1 then 1 else k) - 1) \<le> nat ((if n < 1 then 1 else n) - 1)"
    using assms(2) by auto
  then have "(2 :: real) ^ nat ((if k < 1 then 1 else k) - 1) \<le> 2 ^ nat ((if n < 1 then 1 else n) - 1)"
    by (rule power_increasing) simp
  then have "b * 2 ^ nat ((if k < 1 then 1 else k) - 1) \<le> b * 2 ^ nat ((if n < 1 then 1 else n) - 1)"
    using assms(1) by (rule mult_left_mono)
  then show ?thesis unfolding exponential_delay_def Let_def by (rule min.mono) simp
qed

section \<open>\<open>orchestrator/retry.py\<close>\<close>

record retry_policy =
  rp_attempts :: int
  rp_backoff_base_seconds :: real
  rp_backoff_max_seconds :: real

definition default_retry_policy :: retry_policy where
  "default_retry_policy = \<lparr>rp_attempts = 2, rp_backoff_base_seconds = 1, rp_backoff_max_seconds = 30\<rparr>"

definition delay_for :: "retry_policy \<Rightarrow> int \<Rightarrow> real" where
  "delay_for p attempt = exponential_delay (rp_backoff_base_seconds p) (rp_backoff_max_seconds p) attempt"

interpretation retry_backoff: bounded_backoff
  "\<lambda>p. 0 \<le> rp_backoff_base_seconds p \<and> 0 \<le> rp_backoff_max_seconds p" delay_for rp_backoff_max_seconds
  by unfold_locales
    (auto simp: delay_for_def exponential_delay_nonneg exponential_delay_capped exponential_delay_grows)

text \<open>The acquisition failure categories that a stage may re-drive.\<close>

definition STAGE_LOCAL_RETRYABLE_CATEGORIES :: "string list" where
  "STAGE_LOCAL_RETRYABLE_CATEGORIES = [''storage_failed'', ''persistence_failed'']"

record ('a, 'x) retry_outcome =
  ro_value :: "'a option"
  ro_attempts :: int
  ro_delays :: "real list"
  ro_error :: "'x option"
  ro_exhausted :: bool

definition retry_succeeded :: "('a, 'x) retry_outcome \<Rightarrow> bool" where
  "retry_succeeded r = (ro_error r = None)"

text \<open>
  The loop \<open>for attempt in range(1, max(1, attempts) + 1)\<close>.  The operation and the sleep act on
  the caller's world; an operation either returns or raises an \<open>Exception\<close>.
\<close>

function retry_loop ::
  "('w \<Rightarrow> ('x, 'a) result \<times> 'w) \<Rightarrow> retry_policy \<Rightarrow> ('x \<Rightarrow> bool) \<Rightarrow> (real \<Rightarrow> 'w \<Rightarrow> 'w)
     \<Rightarrow> int \<Rightarrow> real list \<Rightarrow> 'w \<Rightarrow> ('a, 'x) retry_outcome \<times> 'w" where
  "retry_loop op p should_retry sleep attempt delays w =
     (case op w of
        (Inr a, w') \<Rightarrow> (\<lparr>ro_value = Some a, ro_attempts = attempt, ro_delays = delays,
                        ro_error = None, ro_exhausted = False\<rparr>, w')
      | (Inl x, w') \<Rightarrow>
          if attempt \<ge> rp_attempts p \<or> \<not> should_retry x
          then (\<lparr>ro_value = None, ro_attempts = attempt, ro_delays = delays,
                 ro_error = Some x, ro_exhausted = True\<rparr>, w')
          else retry_loop op p should_retry sleep (attempt + 1) (delays @ [delay_for p attempt])
                 (sleep (delay_for p attempt) w'))"
  by pat_completeness auto
termination
  by (relation "measure (\<lambda>(op, p, sr, sl, attempt, ds, w). nat (rp_attempts p - attempt))") auto

declare retry_loop.simps [simp del]

definition run_with_retry ::
  "('w \<Rightarrow> ('x, 'a) result \<times> 'w) \<Rightarrow> retry_policy \<Rightarrow> ('x \<Rightarrow> bool) \<Rightarrow> (real \<Rightarrow> 'w \<Rightarrow> 'w) \<Rightarrow> 'w
     \<Rightarrow> ('a, 'x) retry_outcome \<times> 'w" where
  "run_with_retry op p should_retry sleep w = retry_loop op p should_retry sleep 1 [] w"

lemma retry_loop_returns:
  "op w = (Inr a, w1) \<Longrightarrow> retry_loop op p sr sl n ds w =
     (\<lparr>ro_value = Some a, ro_attempts = n, ro_delays = ds, ro_error = None, ro_exhausted = False\<rparr>, w1)"
  by (subst retry_loop.simps) simp

lemma retry_loop_gives_up:
  "op w = (Inl x, w1) \<Longrightarrow> rp_attempts p \<le> n \<or> \<not> sr x \<Longrightarrow> retry_loop op p sr sl n ds w =
     (\<lparr>ro_value = None, ro_attempts = n, ro_delays = ds, ro_error = Some x, ro_exhausted = True\<rparr>, w1)"
  by (subst retry_loop.simps) auto

lemma retry_loop_retries:
  "op w = (Inl x, w1) \<Longrightarrow> \<not> (rp_attempts p \<le> n \<or> \<not> sr x) \<Longrightarrow> retry_loop op p sr sl n ds w =
     retry_loop op p sr sl (n + 1) (ds @ [delay_for p n]) (sl (delay_for p n) w1)"
  by (subst retry_loop.simps) auto

lemma retry_loop_spec:
  assumes "retry_loop op p sr sl n ds w = (r, w')" and "1 \<le> n" and "ds = map (delay_for p) [1..n - 1]"
  shows "n \<le> ro_attempts r \<and> ro_attempts r \<le> max n (rp_attempts p)
    \<and> ro_delays r = map (delay_for p) [1..ro_attempts r - 1]
    \<and> (ro_error r = None \<longleftrightarrow> ro_value r \<noteq> None) \<and> (ro_exhausted r \<longleftrightarrow> ro_error r \<noteq> None)
    \<and> (\<forall>x. ro_error r = Some x \<longrightarrow> \<not> sr x \<or> rp_attempts p \<le> ro_attempts r)"
  using assms
proof (induction op p sr sl n ds w rule: retry_loop.induct)
  case (1 op p sr sl n ds w)
  obtain res w1 where op: "op w = (res, w1)" by (cases "op w")
  show ?case
  proof (cases res)
    case (Inr a)
    then have r: "r = \<lparr>ro_value = Some a, ro_attempts = n, ro_delays = ds, ro_error = None,
        ro_exhausted = False\<rparr>"
      using "1.prems"(1) op by (simp add: retry_loop_returns)
    show ?thesis using "1.prems"(2,3) by (simp add: r)
  next
    case (Inl x)
    show ?thesis
    proof (cases "rp_attempts p \<le> n \<or> \<not> sr x")
      case True
      then have r: "r = \<lparr>ro_value = None, ro_attempts = n, ro_delays = ds, ro_error = Some x,
          ro_exhausted = True\<rparr>"
        using "1.prems"(1) op Inl by (simp add: retry_loop_gives_up)
      show ?thesis using True "1.prems"(2,3) by (auto simp: r)
    next
      case False
      have next_delays: "ds @ [delay_for p n] = map (delay_for p) [1..n + 1 - 1]"
        using "1.prems"(2,3) by (simp add: upto_rec2)
      have "retry_loop op p sr sl (n + 1) (ds @ [delay_for p n]) (sl (delay_for p n) w1) = (r, w')"
        using "1.prems"(1) op Inl False by (simp add: retry_loop_retries)
      from "1.IH" [OF op [symmetric] Inl False this _ next_delays] "1.prems"(2) False show ?thesis
        by auto
    qed
  qed
qed

text \<open>The retry loop always returns, after at least one and at most \<open>attempts\<close> calls of the
  operation; it has a value exactly when it has no error, the delays it slept are exactly the
  schedule of the attempts that failed, and it gives up only on an error the policy refuses to
  retry or on the last attempt.\<close>

lemma run_with_retry_bounded:
  "let r = fst (run_with_retry op p should_retry sleep w) in
     1 \<le> ro_attempts r \<and> ro_attempts r \<le> max 1 (rp_attempts p)
     \<and> ro_delays r = map (delay_for p) [1..ro_attempts r - 1]
     \<and> retry_succeeded r = (ro_value r \<noteq> None) \<and> ro_exhausted r = (\<not> retry_succeeded r)
     \<and> (case ro_error r of None \<Rightarrow> True
        | Some x \<Rightarrow> should_retry x \<longrightarrow> rp_attempts p \<le> ro_attempts r)"
proof -
  obtain r w' where "run_with_retry op p should_retry sleep w = (r, w')" by fastforce
  then show ?thesis
    using retry_loop_spec [of op p should_retry sleep 1 "[]" w r w']
    by (auto simp: run_with_retry_def retry_succeeded_def Let_def split: option.splits)
qed

lemma run_with_retry_total_delay:
  assumes "0 \<le> rp_backoff_base_seconds p" and "0 \<le> rp_backoff_max_seconds p"
    and r_def: "r = fst (run_with_retry op p should_retry sleep w)"
  shows "sum_list (ro_delays r) \<le> real_of_int (max 0 (rp_attempts p - 1)) * rp_backoff_max_seconds p"
proof -
  obtain w' where "run_with_retry op p should_retry sleep w = (r, w')"
    using r_def by (metis prod.collapse)
  then have r: "1 \<le> ro_attempts r" "ro_attempts r \<le> max 1 (rp_attempts p)"
    "ro_delays r = map (delay_for p) [1..ro_attempts r - 1]"
    using retry_loop_spec [of op p should_retry sleep 1 "[]" w r w']
    by (auto simp: run_with_retry_def)
  have "sum_list (ro_delays r) \<le> real (length [1..ro_attempts r - 1]) * rp_backoff_max_seconds p"
    unfolding r(3) using assms(1,2) by (intro retry_backoff.total_delay_capped) simp
  also have "\<dots> \<le> real_of_int (max 0 (rp_attempts p - 1)) * rp_backoff_max_seconds p"
    using r(1,2) assms(2) by (intro mult_right_mono) auto
  finally show ?thesis .
qed

end
