(* ===== verification/Chain.thy ===== *)
theory Chain
  imports Breaker Planner Backoff "HOL-Library.Product_Lexorder"
begin

text \<open>
  Provider selection, bounded retry and failover: \<open>mail/chain.py\<close> with \<open>SendResult\<close> of
  \<open>mail/provider.py\<close>.  \<open>ProviderUsageLimiter\<close> is a state with the operation \<open>limiter_allows\<close>;
  \<open>ProviderChain.deliver\<close> is \<open>deliver\<close>, whose \<open>for\<close> loop over providers is
  \<open>deliver_entries\<close> and whose \<open>while\<close> loop over one provider's attempts is \<open>attempt_loop\<close>.

  Everything the chain calls is a field of \<open>chain_env\<close> acting on the world \<open>'w\<close>: the
  adapters' \<open>send\<close>, the three clocks, the sleeper and the optional callbacks.  An adapter returns
  or raises; \<open>before_attempt\<close> may raise, which leaves \<open>deliver\<close> through the exception.
\<close>

section \<open>Retry policy of one provider\<close>

record mail_retry_policy =
  mp_attempts :: int
  mp_backoff_base_seconds :: real
  mp_backoff_max_seconds :: real

datatype retry_policy_error = AttemptsBelowOne | NegativeBackoff

definition new_mail_retry_policy :: "int \<Rightarrow> real \<Rightarrow> real \<Rightarrow> (retry_policy_error, mail_retry_policy) result" where
  "new_mail_retry_policy attempts base maximum =
     (if attempts < 1 then Inl AttemptsBelowOne
      else if base < 0 \<or> maximum < 0 then Inl NegativeBackoff
      else Inr \<lparr>mp_attempts = attempts, mp_backoff_base_seconds = base, mp_backoff_max_seconds = maximum\<rparr>)"

definition mail_delay_for :: "mail_retry_policy \<Rightarrow> int \<Rightarrow> real option \<Rightarrow> real" where
  "mail_delay_for p attempt retry_after =
     (let bounded = exponential_delay (mp_backoff_base_seconds p) (mp_backoff_max_seconds p) attempt
      in case retry_after of None \<Rightarrow> bounded | Some s \<Rightarrow> max bounded s)"

definition mail_policy_ok :: "mail_retry_policy \<Rightarrow> bool" where
  "mail_policy_ok p \<longleftrightarrow> 1 \<le> mp_attempts p \<and> 0 \<le> mp_backoff_base_seconds p \<and> 0 \<le> mp_backoff_max_seconds p"

lemma new_mail_retry_policy_ok: "new_mail_retry_policy a b m = Inr p \<Longrightarrow> mail_policy_ok p"
  by (auto simp: new_mail_retry_policy_def mail_policy_ok_def split: if_splits)

interpretation mail_backoff: bounded_backoff mail_policy_ok "\<lambda>p n. mail_delay_for p n None" mp_backoff_max_seconds
  by unfold_locales (auto simp: mail_delay_for_def mail_policy_ok_def exponential_delay_nonneg
      exponential_delay_capped exponential_delay_grows)

section \<open>The local usage window\<close>

record usage_limiter =
  ul_minute :: "int \<Rightarrow> real list"
  ul_day :: "int \<Rightarrow> (int \<times> int) option"

definition new_usage_limiter :: usage_limiter where
  "new_usage_limiter = \<lparr>ul_minute = (\<lambda>_. []), ul_day = (\<lambda>_. None)\<rparr>"

definition at_limit :: "int \<Rightarrow> int option \<Rightarrow> bool" where
  "at_limit n limit = (case limit of None \<Rightarrow> False | Some m \<Rightarrow> n \<ge> m)"

definition limiter_allows :: "real \<Rightarrow> int \<Rightarrow> capabilities \<Rightarrow> usage_limiter \<Rightarrow> bool \<times> usage_limiter" where
  "limiter_allows now pid cap u =
     (let day_number = \<lfloor>now / 86400\<rfloor>;
          stored = (case ul_day u pid of None \<Rightarrow> (0, day_number) | Some d \<Rightarrow> d);
          (day_count, day_id) = (if snd stored \<noteq> day_number then (0, day_number) else stored)
      in if at_limit day_count (cp_daily_limit cap)
         then (False, u\<lparr>ul_day := (ul_day u)(pid \<mapsto> (day_count, day_id))\<rparr>)
         else let recent = dropWhile (\<lambda>t. now - t \<ge> 60) (ul_minute u pid);
                  u' = u\<lparr>ul_minute := (ul_minute u)(pid := recent)\<rparr>
              in if at_limit (int (length recent)) (cp_rate_limit_per_min cap)
                 then (False, u'\<lparr>ul_day := (ul_day u)(pid \<mapsto> (day_count, day_id))\<rparr>)
                 else (True, u'\<lparr>ul_minute := (ul_minute u)(pid := recent @ [now]),
                              ul_day := (ul_day u)(pid \<mapsto> (day_count + 1, day_number))\<rparr>))"

section \<open>Adapters, entries, attempts, results\<close>

record send_result =
  sd_provider_name :: string
  sd_ok :: bool
  sd_error_code :: "string option"
  sd_provider_message_id :: "string option"
  sd_duration_ms :: "int option"

datatype send_outcome = SendReturned send_result | RaisedMailError mail_error
  | RaisedSendError string string | RaisedOther string

record provider_entry =
  pe_provider_id :: int
  pe_name :: string
  pe_capabilities :: capabilities
  pe_breaker :: breaker
  pe_active :: bool
  pe_priority :: "int option"

record chain_attempt =
  ca_provider_id :: "int option"
  ca_provider_name :: string
  ca_attempt_number :: int
  ca_status :: string
  ca_error_code :: "string option"
  ca_duration_ms :: "int option"
  ca_possible_duplicate :: bool
  ca_provider_message_id :: "string option"
  ca_permanent :: bool

record chain_result =
  cr_delivered :: bool
  cr_provider_used :: "string option"
  cr_provider_id :: "int option"
  cr_provider_message_id :: "string option"
  cr_attempts :: "chain_attempt list"
  cr_error_code :: "string option"
  cr_possible_duplicate :: bool
  cr_notification_status :: string
  cr_failovers :: "(string \<times> string \<times> string) list"

record 'w chain_env =
  ce_send :: "provider_entry \<Rightarrow> email_message \<Rightarrow> 'w \<Rightarrow> send_outcome \<times> 'w"
  ce_breaker_clock :: "'w \<Rightarrow> real \<times> 'w"
  ce_usage_clock :: "'w \<Rightarrow> real \<times> 'w"
  ce_monotonic :: "'w \<Rightarrow> real \<times> 'w"
  ce_sleep :: "real \<Rightarrow> 'w \<Rightarrow> 'w"
  ce_usage_reserver :: "(int \<Rightarrow> capabilities \<Rightarrow> 'w \<Rightarrow> bool \<times> 'w) option"
  ce_probe_claimer :: "(provider_entry \<Rightarrow> 'w \<Rightarrow> bool \<times> 'w) option"
  ce_before_attempt :: "('w \<Rightarrow> (string, unit) result \<times> 'w) option"

text \<open>The local variables of \<open>deliver\<close> and the chain's own mutable fields.\<close>

record 'w chain_state =
  cs_world :: 'w
  cs_usage :: usage_limiter
  cs_dirty_ids :: "int list"
  cs_attempts :: "chain_attempt list"
  cs_last_code :: "string option"
  cs_possible_duplicate :: bool

section \<open>Gates before a request\<close>

definition allow_entry :: "'w chain_env \<Rightarrow> breaker \<Rightarrow> 'w chain_state \<Rightarrow> bool \<times> breaker \<times> 'w chain_state" where
  \<comment> \<open>\<open>allow_probe\<close>, which reads its clock unless the breaker is closed\<close>
  "allow_entry env b st =
     (if bk_state b = BClosed then (True, b, st)
      else let (now, w) = ce_breaker_clock env (cs_world st); (ok, b') = allow_probe now b
           in (ok, b', st\<lparr>cs_world := w\<rparr>))"

definition usage_gate :: "'w chain_env \<Rightarrow> provider_entry \<Rightarrow> 'w chain_state \<Rightarrow> bool \<times> 'w chain_state" where
  "usage_gate env e st =
     (let (reserved, st1) = (case ce_usage_reserver env of None \<Rightarrow> (True, st)
              | Some f \<Rightarrow> (let (ok, w) = f (pe_provider_id e) (pe_capabilities e) (cs_world st)
                          in (ok, st\<lparr>cs_world := w\<rparr>)))
      in if \<not> reserved then (False, st1)
         else let (now, w) = ce_usage_clock env (cs_world st1);
                  (ok, u) = limiter_allows now (pe_provider_id e) (pe_capabilities e) (cs_usage st1)
              in (ok, st1\<lparr>cs_world := w, cs_usage := u\<rparr>))"

definition message_fits :: "capabilities \<Rightarrow> email_message \<Rightarrow> bool" where
  "message_fits cap m =
     (let body_bytes = max (utf8_len (em_text_body m)) (utf8_len (py_or (em_html_body m) [])) + 2048
      in case plan cap (em_attachments m) body_bytes of Inl _ \<Rightarrow> False | Inr p \<Rightarrow> fits_whole_set p)"

section \<open>One attempt\<close>

definition trunc_int :: "real \<Rightarrow> int" where
  "trunc_int x = (if x < 0 then \<lceil>x\<rceil> else \<lfloor>x\<rfloor>)"

definition elapsed_ms :: "real \<Rightarrow> real \<Rightarrow> int" where
  "elapsed_ms started ended = max 0 (trunc_int ((ended - started) * 1000))"

text \<open>What one exception of the adapter amounts to: the fields of the failed attempt, whether it
  may be retried, the provider's delay hint, and whether the chain's own flag is raised.\<close>

record send_failure =
  sf_error_code :: string
  sf_possible_duplicate :: bool
  sf_permanent :: bool
  sf_retryable :: bool
  sf_retry_after :: "real option"
  sf_marks_chain_duplicate :: bool

definition mail_failure :: "mail_error \<Rightarrow> send_failure" where
  "mail_failure x = \<lparr>sf_error_code = me_error_code x, sf_possible_duplicate = me_possible_duplicate x,
     sf_permanent = (me_permanent x \<or> \<not> me_retryable x), sf_retryable = me_retryable x,
     sf_retry_after = me_retry_after_seconds x, sf_marks_chain_duplicate = me_possible_duplicate x\<rparr>"

definition legacy_failure :: "string \<Rightarrow> string \<Rightarrow> send_failure" where
  "legacy_failure code msg =
     (let transient = code \<in> {''mail_timeout'', ''mail_rate_limited'', ''mail_http_5xx''};
          x = new_mail_error code msg transient (\<not> transient) (transient \<and> code = ''mail_timeout'') None
      in \<lparr>sf_error_code = me_error_code x, sf_possible_duplicate = me_possible_duplicate x,
          sf_permanent = me_permanent x, sf_retryable = me_retryable x,
          sf_retry_after = None, sf_marks_chain_duplicate = False\<rparr>)"

definition unexpected_failure :: send_failure where
  "unexpected_failure = \<lparr>sf_error_code = EMAIL_SEND_FAILED, sf_possible_duplicate = False,
     sf_permanent = True, sf_retryable = False, sf_retry_after = None,
     sf_marks_chain_duplicate = False\<rparr>"

definition classify_send :: "send_outcome \<Rightarrow> (send_failure, send_result) result" where
  "classify_send out =
     (case out of
        SendReturned r \<Rightarrow> if sd_ok r then Inr r
          else Inl (mail_failure (new_mail_error (py_or (sd_error_code r) EMAIL_SEND_FAILED)
                 ''provider returned an unsuccessful send result'' False False False None))
      | RaisedMailError x \<Rightarrow> Inl (mail_failure x)
      | RaisedSendError code msg \<Rightarrow> Inl (legacy_failure code msg)
      | RaisedOther _ \<Rightarrow> Inl unexpected_failure)"

datatype attempt_exit = Raised string | Delivered "string option" | NextProvider

datatype 'w attempt_step = Stop attempt_exit breaker "'w chain_state" | Again breaker "'w chain_state"

definition failed_attempt ::
  "'w chain_env \<Rightarrow> mail_retry_policy \<Rightarrow> provider_entry \<Rightarrow> int \<Rightarrow> real \<Rightarrow> send_failure \<Rightarrow> breaker
     \<Rightarrow> 'w chain_state \<Rightarrow> 'w attempt_step" where
  "failed_attempt env pol e n started f b st =
     (let (now, w1) = ce_breaker_clock env (cs_world st);
          b' = record_failure now (Some (sf_error_code f)) b;
          (ended, w2) = ce_monotonic env w1;
          att = \<lparr>ca_provider_id = Some (pe_provider_id e), ca_provider_name = pe_name e,
                 ca_attempt_number = n, ca_status = ''failed'',
                 ca_error_code = Some (sf_error_code f),
                 ca_duration_ms = Some (elapsed_ms started ended),
                 ca_possible_duplicate = sf_possible_duplicate f, ca_provider_message_id = None,
                 ca_permanent = sf_permanent f\<rparr>;
          st' = st\<lparr>cs_world := w2, cs_last_code := Some (sf_error_code f),
                   cs_possible_duplicate := cs_possible_duplicate st \<or> sf_marks_chain_duplicate f,
                   cs_attempts := cs_attempts st @ [att]\<rparr>
      in if sf_retryable f \<and> n < mp_attempts pol
         then let delay = mail_delay_for pol n (sf_retry_after f)
              in Again b' (if delay > 0 then st'\<lparr>cs_world := ce_sleep env delay (cs_world st')\<rparr> else st')
         else Stop NextProvider b' st')"

definition sent_attempt ::
  "'w chain_env \<Rightarrow> provider_entry \<Rightarrow> int \<Rightarrow> real \<Rightarrow> send_result \<Rightarrow> breaker \<Rightarrow> 'w chain_state \<Rightarrow> 'w attempt_step" where
  "sent_attempt env e n started r b st =
     (let (ended, w) = ce_monotonic env (cs_world st);
          att = \<lparr>ca_provider_id = Some (pe_provider_id e), ca_provider_name = pe_name e,
                 ca_attempt_number = n, ca_status = ''sent'', ca_error_code = None,
                 ca_duration_ms = Some (elapsed_ms started ended), ca_possible_duplicate = False,
                 ca_provider_message_id = sd_provider_message_id r, ca_permanent = False\<rparr>
      in Stop (Delivered (sd_provider_message_id r)) (record_success b)
           (st\<lparr>cs_world := w, cs_attempts := cs_attempts st @ [att]\<rparr>))"

definition attempt_once ::
  "'w chain_env \<Rightarrow> mail_retry_policy \<Rightarrow> email_message \<Rightarrow> provider_entry \<Rightarrow> int \<Rightarrow> breaker
     \<Rightarrow> 'w chain_state \<Rightarrow> 'w attempt_step" where
  "attempt_once env pol m e n b st =
     (let (open_window, st1) = (if n > 1 then usage_gate env e st else (True, st))
      in if \<not> open_window
         then Stop NextProvider (cancel_probe b) (st1\<lparr>cs_last_code := Some MAIL_LOCAL_RATE_LIMIT\<rparr>)
         else case (case ce_before_attempt env of None \<Rightarrow> (Inr (), cs_world st1)
                    | Some f \<Rightarrow> f (cs_world st1)) of
                (Inl x, w) \<Rightarrow> Stop (Raised x) b (st1\<lparr>cs_world := w\<rparr>)
              | (Inr _, w) \<Rightarrow>
                  (let (started, w1) = ce_monotonic env w;
                       (out, w2) = ce_send env e m w1;
                       st2 = st1\<lparr>cs_world := w2\<rparr>
                   in case classify_send out of
                        Inl f \<Rightarrow> failed_attempt env pol e n started f b st2
                      | Inr r \<Rightarrow> sent_attempt env e n started r b st2))"

function attempt_loop ::
  "'w chain_env \<Rightarrow> mail_retry_policy \<Rightarrow> email_message \<Rightarrow> provider_entry \<Rightarrow> int \<Rightarrow> breaker
     \<Rightarrow> 'w chain_state \<Rightarrow> attempt_exit \<times> breaker \<times> 'w chain_state" where
  "attempt_loop env pol m e n b st =
     (if n < mp_attempts pol
      then (case attempt_once env pol m e (n + 1) b st of
              Stop x b' st' \<Rightarrow> (x, b', st')
            | Again b' st' \<Rightarrow> attempt_loop env pol m e (n + 1) b' st')
      else (NextProvider, b, st))"
  by pat_completeness auto
termination
  by (relation "measure (\<lambda>(env, pol, m, e, n, b, st). nat (mp_attempts pol - n))") auto

declare attempt_loop.simps [simp del]

section \<open>The loop over the providers\<close>

definition try_entry ::
  "'w chain_env \<Rightarrow> mail_retry_policy \<Rightarrow> email_message \<Rightarrow> provider_entry \<Rightarrow> 'w chain_state
     \<Rightarrow> attempt_exit \<times> breaker \<times> 'w chain_state" where
  "try_entry env pol m e st =
     (let b = pe_breaker e in
      if \<not> pe_active e then (NextProvider, b, st)
      else let (claimed, st1) = (case ce_probe_claimer env of None \<Rightarrow> (True, st)
                 | Some f \<Rightarrow> (let (ok, w) = f e (cs_world st) in (ok, st\<lparr>cs_world := w\<rparr>)))
      in if \<not> claimed then (NextProvider, b, st1\<lparr>cs_last_code := Some MAIL_BREAKER_OPEN\<rparr>)
      else let (allowed, b1, st2) = allow_entry env b st1
      in if \<not> allowed then (NextProvider, b1, st2\<lparr>cs_last_code := Some MAIL_BREAKER_OPEN\<rparr>)
      else let st3 = st2\<lparr>cs_dirty_ids := List.insert (pe_provider_id e) (cs_dirty_ids st2)\<rparr>;
               (open_window, st4) = usage_gate env e st3
      in if \<not> open_window
         then (NextProvider, cancel_probe b1, st4\<lparr>cs_last_code := Some MAIL_LOCAL_RATE_LIMIT\<rparr>)
      else if \<not> message_fits (pe_capabilities e) m
      then (NextProvider, cancel_probe b1, st4\<lparr>cs_last_code := Some EMAIL_SEND_FAILED\<rparr>)
      else attempt_loop env pol m e 0 b1 st4)"

datatype chain_exit = ChainRaised string | ChainDelivered provider_entry "string option" | ChainExhausted

fun deliver_entries ::
  "'w chain_env \<Rightarrow> mail_retry_policy \<Rightarrow> email_message \<Rightarrow> provider_entry list \<Rightarrow> 'w chain_state
     \<Rightarrow> chain_exit \<times> provider_entry list \<times> 'w chain_state" where
  "deliver_entries env pol m [] st = (ChainExhausted, [], st)"
| "deliver_entries env pol m (e # es) st =
     (let (x, b, st') = try_entry env pol m e st; e' = e\<lparr>pe_breaker := b\<rparr>
      in case x of
           Raised err \<Rightarrow> (ChainRaised err, e' # es, st')
         | Delivered mid \<Rightarrow> (ChainDelivered e' mid, e' # es, st')
         | NextProvider \<Rightarrow> (let (y, es', st'') = deliver_entries env pol m es st' in (y, e' # es', st'')))"

definition ordered_entries :: "provider_entry list \<Rightarrow> provider_entry list" where
  "ordered_entries ps =
     (if (\<forall>e \<in> set ps. pe_priority e = None) then ps
      else sort_key (\<lambda>e. (case pe_priority e of Some p \<Rightarrow> p | None \<Rightarrow> 2 ^ 31, pe_provider_id e)) ps)"

text \<open>\<open>_failovers\<close>: \<open>order\<close> maps an id to the index of its last occurrence, as the dictionary
  comprehension does, and a missing or zero id is looked up as \<open>-1\<close>.\<close>

definition last_index :: "int \<Rightarrow> provider_entry list \<Rightarrow> nat option" where
  "last_index pid es =
     (case filter (\<lambda>i. pe_provider_id (es ! i) = pid) [0..<length es] of
        [] \<Rightarrow> None | is \<Rightarrow> Some (last is))"

fun failovers_from ::
  "provider_entry list \<Rightarrow> string list \<Rightarrow> chain_attempt list \<Rightarrow> (string \<times> string \<times> string) list" where
  "failovers_from es seen [] = []"
| "failovers_from es seen (a # as) =
     (if \<not> ca_permanent a \<or> ca_provider_name a \<in> set seen then failovers_from es seen as
      else let pid = (case ca_provider_id a of None \<Rightarrow> -1 | Some p \<Rightarrow> if p = 0 then -1 else p);
               rest = failovers_from es (ca_provider_name a # seen) as
           in case last_index pid es of
                None \<Rightarrow> rest
              | Some i \<Rightarrow> if (\<exists>e \<in> set (drop (i + 1) es). pe_active e)
                         then (ca_provider_name a, py_or (ca_error_code a) EMAIL_SEND_FAILED, ''next'') # rest
                         else rest)"

definition failovers :: "chain_attempt list \<Rightarrow> provider_entry list \<Rightarrow> (string \<times> string \<times> string) list" where
  "failovers as es = failovers_from es [] as"

record 'w delivery =
  dl_result :: "(string, chain_result) result"
  dl_entries :: "provider_entry list"
  dl_state :: "'w chain_state"

definition deliver ::
  "'w chain_env \<Rightarrow> mail_retry_policy \<Rightarrow> email_message \<Rightarrow> provider_entry list \<Rightarrow> usage_limiter \<Rightarrow> 'w
     \<Rightarrow> 'w delivery" where
  "deliver env pol m providers u w =
     (let entries = ordered_entries providers;
          (x, entries', st) = deliver_entries env pol m entries
             \<lparr>cs_world = w, cs_usage = u, cs_dirty_ids = [], cs_attempts = [], cs_last_code = None,
              cs_possible_duplicate = False\<rparr>
      in \<lparr>dl_result =
            (case x of
               ChainRaised err \<Rightarrow> Inl err
             | ChainDelivered e mid \<Rightarrow> Inr
                 \<lparr>cr_delivered = True, cr_provider_used = Some (pe_name e),
                  cr_provider_id = Some (pe_provider_id e), cr_provider_message_id = mid,
                  cr_attempts = cs_attempts st, cr_error_code = None,
                  cr_possible_duplicate = cs_possible_duplicate st,
                  cr_notification_status = ''sent'',
                  cr_failovers = failovers (cs_attempts st) entries\<rparr>
             | ChainExhausted \<Rightarrow> Inr
                 \<lparr>cr_delivered = False, cr_provider_used = None, cr_provider_id = None,
                  cr_provider_message_id = None, cr_attempts = cs_attempts st,
                  cr_error_code = Some (py_or (cs_last_code st) MAIL_ALL_PROVIDERS_FAILED),
                  cr_possible_duplicate = cs_possible_duplicate st,
                  cr_notification_status = ''pending_retry'',
                  cr_failovers = failovers (cs_attempts st) entries\<rparr>),
          dl_entries = entries', dl_state = st\<rparr>)"

definition any_breaker_open :: "provider_entry list \<Rightarrow> bool" where
  "any_breaker_open es = (\<exists>e \<in> set es. bk_state (pe_breaker e) = BOpen)"

end
