(* ===== verification/ChainProps.thy ===== *)
theory ChainProps
  imports Chain
begin

text \<open>
  Properties of the provider chain: the attempt log of one provider and of a whole delivery,
  which providers are never called, when the duplicate flag is raised, and the guarantees of the
  local usage window.
\<close>

section \<open>The attempt log\<close>

definition logged_for :: "provider_entry \<Rightarrow> chain_attempt \<Rightarrow> bool" where
  "logged_for e a \<longleftrightarrow> ca_provider_id a = Some (pe_provider_id e) \<and> ca_provider_name a = pe_name e"

definition failed_log :: "chain_attempt \<Rightarrow> bool" where
  "failed_log a \<longleftrightarrow> ca_status a = ''failed'' \<and> ca_error_code a \<noteq> None"

text \<open>A log that ends in the way the loop was left: only failures, or failures and one success.\<close>

definition log_ends :: "string option option \<Rightarrow> chain_attempt list \<Rightarrow> bool" where
  "log_ends sent as \<longleftrightarrow>
     (case sent of
        None \<Rightarrow> \<forall>a \<in> set as. failed_log a
      | Some mid \<Rightarrow> \<exists>fs s. as = fs @ [s] \<and> (\<forall>a \<in> set fs. failed_log a) \<and> ca_status s = ''sent''
            \<and> ca_error_code s = None \<and> ca_provider_message_id s = mid)"

definition sent_id :: "attempt_exit \<Rightarrow> string option option" where
  "sent_id x = (case x of Delivered mid \<Rightarrow> Some mid | _ \<Rightarrow> None)"

lemma log_ends_failures: "\<forall>a \<in> set fs. failed_log a \<Longrightarrow> log_ends r as \<Longrightarrow> log_ends r (fs @ as)"
proof (cases r)
  case (Some mid)
  assume fs: "\<forall>a \<in> set fs. failed_log a" and "log_ends r as"
  with Some obtain gs s where "as = gs @ [s]" "\<forall>a \<in> set gs. failed_log a" "ca_status s = ''sent''"
    "ca_error_code s = None" "ca_provider_message_id s = mid"
    by (auto simp: log_ends_def)
  with fs Some show ?thesis
    by (auto simp: log_ends_def intro!: exI [of _ "fs @ gs"] exI [of _ s])
qed (auto simp: log_ends_def)

lemma usage_gate_log:
  "usage_gate env e st = (ok, st') \<Longrightarrow> cs_attempts st' = cs_attempts st
     \<and> cs_possible_duplicate st' = cs_possible_duplicate st \<and> cs_dirty_ids st' = cs_dirty_ids st"
  by (auto simp: usage_gate_def Let_def split: option.splits prod.splits if_splits)

lemma allow_entry_log:
  "allow_entry env b st = (ok, b', st') \<Longrightarrow> cs_attempts st' = cs_attempts st
     \<and> cs_possible_duplicate st' = cs_possible_duplicate st"
  by (auto simp: allow_entry_def Let_def split: prod.splits if_splits)

definition step_state :: "'w attempt_step \<Rightarrow> 'w chain_state" where
  "step_state r = (case r of Stop _ _ st \<Rightarrow> st | Again _ st \<Rightarrow> st)"

definition step_sent :: "'w attempt_step \<Rightarrow> string option option" where
  "step_sent r = (case r of Stop x _ _ \<Rightarrow> sent_id x | Again _ _ \<Rightarrow> None)"

lemma failed_attempt_log:
  "\<exists>a. cs_attempts (step_state (failed_attempt env pol e n t f b st)) = cs_attempts st @ [a]
     \<and> failed_log a \<and> logged_for e a \<and> ca_attempt_number a = n
     \<and> ca_possible_duplicate a = sf_possible_duplicate f
     \<and> cs_possible_duplicate (step_state (failed_attempt env pol e n t f b st))
         = (cs_possible_duplicate st \<or> sf_marks_chain_duplicate f)"
  by (simp add: failed_attempt_def step_state_def failed_log_def logged_for_def Let_def split: prod.splits)

lemma failed_attempt_exit:
  "failed_attempt env pol e n t f b st = Again b' st' \<Longrightarrow> n < mp_attempts pol \<and> sf_retryable f"
  "failed_attempt env pol e n t f b st = Stop x b' st' \<Longrightarrow> x = NextProvider"
  by (auto simp: failed_attempt_def Let_def split: prod.splits if_splits)

lemma sent_attempt_log:
  "\<exists>a mid b'. sent_attempt env e n t r b st
       = Stop (Delivered mid) b' (step_state (sent_attempt env e n t r b st))
     \<and> cs_attempts (step_state (sent_attempt env e n t r b st)) = cs_attempts st @ [a]
     \<and> ca_status a = ''sent'' \<and> ca_error_code a = None \<and> ca_provider_message_id a = mid
     \<and> logged_for e a \<and> ca_attempt_number a = n \<and> \<not> ca_possible_duplicate a
     \<and> cs_possible_duplicate (step_state (sent_attempt env e n t r b st)) = cs_possible_duplicate st"
  by (simp add: sent_attempt_def step_state_def logged_for_def Let_def split: prod.splits)

text \<open>One attempt adds at most one record, numbered with the attempt, and the way it ends fits.\<close>

lemma attempt_once_log:
  assumes "attempt_once env pol m e n b st = r"
  shows "\<exists>new. cs_attempts (step_state r) = cs_attempts st @ new \<and> length new \<le> 1
     \<and> map ca_attempt_number new = [n..n + int (length new) - 1]
     \<and> (\<forall>a \<in> set new. logged_for e a) \<and> log_ends (step_sent r) new
     \<and> (\<forall>b' st'. r = Again b' st' \<longrightarrow> length new = 1 \<and> n < mp_attempts pol)"
proof -
  obtain ok st1 where gate: "(if n > 1 then usage_gate env e st else (True, st)) = (ok, st1)"
    by fastforce
  have st1: "cs_attempts st1 = cs_attempts st"
    using gate usage_gate_log [of env e st ok st1] by (auto split: if_splits)
  obtain q w where before: "(case ce_before_attempt env of None \<Rightarrow> (Inr (), cs_world st1)
      | Some f \<Rightarrow> f (cs_world st1)) = (q, w)" by fastforce
  obtain t w1 where mono: "ce_monotonic env w = (t, w1)" by fastforce
  obtain out w2 where send: "ce_send env e m w1 = (out, w2)" by fastforce
  consider "\<not> ok" | x where "ok" "q = Inl x" | f where "ok" "q = Inr ()" "classify_send out = Inl f"
    | s where "ok" "q = Inr ()" "classify_send out = Inr s"
    by (cases q; cases "classify_send out") auto
  then show ?thesis
  proof cases
    case 1
    then have "r = Stop NextProvider (cancel_probe b) (st1\<lparr>cs_last_code := Some MAIL_LOCAL_RATE_LIMIT\<rparr>)"
      using assms gate by (simp add: attempt_once_def)
    then show ?thesis using st1 by (simp add: step_state_def step_sent_def sent_id_def log_ends_def)
  next
    case 2
    then have "r = Stop (Raised x) b (st1\<lparr>cs_world := w\<rparr>)"
      using assms gate before by (simp add: attempt_once_def)
    then show ?thesis using st1 by (simp add: step_state_def step_sent_def sent_id_def log_ends_def)
  next
    case 3
    then have r: "r = failed_attempt env pol e n t f b (st1\<lparr>cs_world := w2\<rparr>)"
      using assms gate before mono send by (simp add: attempt_once_def)
    have "step_sent r = None"
      using failed_attempt_exit(2) [of env pol e n t f b "st1\<lparr>cs_world := w2\<rparr>"] unfolding r
      by (cases "failed_attempt env pol e n t f b (st1\<lparr>cs_world := w2\<rparr>)")
        (simp_all add: step_sent_def sent_id_def)
    then show ?thesis
      using failed_attempt_log [of env pol e n t f b "st1\<lparr>cs_world := w2\<rparr>"] r st1
        failed_attempt_exit(1) [of env pol e n t f b "st1\<lparr>cs_world := w2\<rparr>"]
      by (fastforce simp: log_ends_def)
  next
    case 4
    then have r: "r = sent_attempt env e n t s b (st1\<lparr>cs_world := w2\<rparr>)"
      using assms gate before mono send by (simp add: attempt_once_def)
    then obtain a mid b' where a: "r = Stop (Delivered mid) b' (step_state r)"
      "cs_attempts (step_state r) = cs_attempts st1 @ [a]" "ca_status a = ''sent''"
      "ca_error_code a = None" "ca_provider_message_id a = mid" "logged_for e a"
      "ca_attempt_number a = n"
      using sent_attempt_log [of env e n t s b "st1\<lparr>cs_world := w2\<rparr>"] by auto
    have "step_sent r = Some mid" by (subst a(1)) (simp add: step_sent_def sent_id_def)
    moreover have "r \<noteq> Again c d" for c d by (subst a(1)) simp
    ultimately show ?thesis using a(2-7) st1 by (intro exI [of _ "[a]"]) (simp add: log_ends_def)
  qed
qed

lemma attempt_loop_log:
  assumes "attempt_loop env pol m e n b st = (x, b', st')" and "0 \<le> n"
  shows "\<exists>new. cs_attempts st' = cs_attempts st @ new
     \<and> int (length new) \<le> max 0 (mp_attempts pol - n)
     \<and> map ca_attempt_number new = [n + 1..n + int (length new)]
     \<and> (\<forall>a \<in> set new. logged_for e a) \<and> log_ends (sent_id x) new"
  using assms
proof (induction env pol m e n b st rule: attempt_loop.induct)
  case (1 env pol m e n b st)
  show ?case
  proof (cases "n < mp_attempts pol")
    case False
    with "1.prems" show ?thesis
      by (simp add: attempt_loop.simps [of env pol m e n b st] log_ends_def sent_id_def)
  next
    case True
    obtain r where r: "attempt_once env pol m e (n + 1) b st = r" by simp
    obtain new where new: "cs_attempts (step_state r) = cs_attempts st @ new" "length new \<le> 1"
      "map ca_attempt_number new = [n + 1..n + 1 + int (length new) - 1]"
      "\<forall>a \<in> set new. logged_for e a" "log_ends (step_sent r) new"
      "\<forall>b' st'. r = Again b' st' \<longrightarrow> length new = 1 \<and> n + 1 < mp_attempts pol"
      using attempt_once_log [OF r] by blast
    show ?thesis
    proof (cases r)
      case (Stop y c s)
      with "1.prems" True r have "x = y" "st' = s"
        by (simp_all add: attempt_loop.simps [of env pol m e n b st])
      with Stop new True show ?thesis
        by (intro exI [of _ new]) (auto simp: step_state_def step_sent_def)
    next
      case (Again c s)
      then have rec: "attempt_loop env pol m e (n + 1) c s = (x, b', st')"
        using "1.prems"(1) True r by (simp add: attempt_loop.simps [of env pol m e n b st])
      have "attempt_once env pol m e (n + 1) b st = Again c s" "0 \<le> n + 1"
        using r Again "1.prems"(2) by simp_all
      from "1.IH" [OF True this(1) rec this(2)]
      obtain more where more: "cs_attempts st' = cs_attempts s @ more"
        "int (length more) \<le> max 0 (mp_attempts pol - (n + 1))"
        "map ca_attempt_number more = [n + 1 + 1..n + 1 + int (length more)]"
        "\<forall>a \<in> set more. logged_for e a" "log_ends (sent_id x) more"
        by blast
      have one: "length new = 1" "n + 1 < mp_attempts pol" using new(6) Again by auto
      then obtain a where a: "new = [a]" by (cases new) auto
      have "failed_log a" using new(5) Again a by (simp add: step_sent_def log_ends_def)
      then have "log_ends (sent_id x) (new @ more)"
        using more(5) a by (intro log_ends_failures) simp_all
      moreover have "map ca_attempt_number (new @ more) = [n + 1..n + int (length (new @ more))]"
        using new(3) more(3) a by (simp add: upto_rec1 algebra_simps)
      ultimately show ?thesis
        using new(1,4) more(1,2,4) Again a one(2)
        by (intro exI [of _ "new @ more"]) (auto simp: step_state_def)
    qed
  qed
qed

lemma loop_log:
  "attempt_loop env pol m e 0 b st = (x, b', st') \<Longrightarrow> \<exists>new. cs_attempts st' = cs_attempts st @ new
     \<and> int (length new) \<le> max 0 (mp_attempts pol) \<and> map ca_attempt_number new = [1..int (length new)]
     \<and> (\<forall>a \<in> set new. logged_for e a) \<and> log_ends (sent_id x) new"
  using attempt_loop_log [of env pol m e 0 b st x b' st'] by auto

lemma no_log: "log_ends (sent_id NextProvider) []"
  by (simp add: log_ends_def sent_id_def)

text \<open>What a provider that reaches its request loop has been through.\<close>

lemma try_entry_cases:
  assumes "try_entry env pol m e st = (x, b', st')"
  obtains (skipped) "x = NextProvider" "cs_attempts st' = cs_attempts st"
      "cs_possible_duplicate st' = cs_possible_duplicate st"
  | (called) b1 st4 where "pe_active e" "message_fits (pe_capabilities e) m"
      "attempt_loop env pol m e 0 b1 st4 = (x, b', st')" "cs_attempts st4 = cs_attempts st"
      "cs_possible_duplicate st4 = cs_possible_duplicate st"
proof -
  obtain c st1 where c: "(case ce_probe_claimer env of None \<Rightarrow> (True, st)
      | Some f \<Rightarrow> (let (ok, w) = f e (cs_world st) in (ok, st\<lparr>cs_world := w\<rparr>))) = (c, st1)" by fastforce
  then have st1: "cs_attempts st1 = cs_attempts st" "cs_possible_duplicate st1 = cs_possible_duplicate st"
    by (auto split: option.splits prod.splits)
  obtain al b1 st2 where al: "allow_entry env (pe_breaker e) st1 = (al, b1, st2)"
    by (cases "allow_entry env (pe_breaker e) st1")
  obtain ow st4 where ow: "usage_gate env e
      (st2\<lparr>cs_dirty_ids := List.insert (pe_provider_id e) (cs_dirty_ids st2)\<rparr>) = (ow, st4)" by fastforce
  note facts = allow_entry_log [OF al] usage_gate_log [OF ow] st1
  show thesis
  proof (cases "pe_active e \<and> c \<and> al \<and> ow \<and> message_fits (pe_capabilities e) m")
    case True
    then show thesis using assms facts
      by (intro called [of b1 st4]) (simp_all add: try_entry_def c al ow)
  next
    case False
    then have "x = NextProvider" "cs_attempts st' = cs_attempts st"
      "cs_possible_duplicate st' = cs_possible_duplicate st"
      using assms facts by (auto simp: try_entry_def c al ow Let_def split: if_splits)
    then show thesis by (rule skipped)
  qed
qed

lemma try_entry_log:
  assumes "try_entry env pol m e st = (x, b', st')"
  shows "\<exists>new. cs_attempts st' = cs_attempts st @ new
     \<and> int (length new) \<le> (if pe_active e then max 0 (mp_attempts pol) else 0)
     \<and> map ca_attempt_number new = [1..int (length new)]
     \<and> (\<forall>a \<in> set new. pe_active e \<and> logged_for e a) \<and> log_ends (sent_id x) new"
  using assms
proof (cases rule: try_entry_cases)
  case skipped
  then show ?thesis using no_log by simp
next
  case (called b1 st4)
  then show ?thesis using loop_log [OF called(3)] by simp
qed

definition chain_sent :: "chain_exit \<Rightarrow> string option option" where
  "chain_sent x = (case x of ChainDelivered e mid \<Rightarrow> Some mid | _ \<Rightarrow> None)"

text \<open>The attempts a log holds for the provider of an id, and the entries that may be asked under it.\<close>

abbreviation attempts_on :: "int \<Rightarrow> chain_attempt list \<Rightarrow> chain_attempt list" where
  "attempts_on i as \<equiv> filter (\<lambda>a. ca_provider_id a = Some i) as"

abbreviation active_with :: "int \<Rightarrow> provider_entry list \<Rightarrow> provider_entry list" where
  "active_with i es \<equiv> filter (\<lambda>e. pe_active e \<and> pe_provider_id e = i) es"

lemma deliver_entries_log:
  assumes "deliver_entries env pol m es st = (x, es', st')"
  shows "\<exists>new. cs_attempts st' = cs_attempts st @ new
     \<and> int (length new) \<le> int (length (filter pe_active es)) * max 0 (mp_attempts pol)
     \<and> (\<forall>i. int (length (attempts_on i new)) \<le> int (length (active_with i es)) * max 0 (mp_attempts pol))
     \<and> (\<forall>a \<in> set new. \<exists>e \<in> set es. pe_active e \<and> logged_for e a) \<and> log_ends (chain_sent x) new
     \<and> (\<forall>e mid. x = ChainDelivered e mid \<longrightarrow> new \<noteq> [] \<and> logged_for e (last new))"
  using assms
proof (induction es arbitrary: x es' st)
  case Nil
  then show ?case by (simp add: log_ends_def chain_sent_def)
next
  case (Cons e es)
  obtain y b s where t: "try_entry env pol m e st = (y, b, s)" by (cases "try_entry env pol m e st")
  obtain new where new: "cs_attempts s = cs_attempts st @ new"
    "int (length new) \<le> (if pe_active e then max 0 (mp_attempts pol) else 0)"
    "\<forall>a \<in> set new. pe_active e \<and> logged_for e a" "log_ends (sent_id y) new"
    using try_entry_log [OF t] by auto
  have bound: "int (length new) \<le> int (length (filter pe_active (e # es))) * max 0 (mp_attempts pol)"
    using new(2) by (auto simp: distrib_right add_increasing2 split: if_splits)
  have own: "int (length (attempts_on i new))
      \<le> (if pe_active e \<and> pe_provider_id e = i then max 0 (mp_attempts pol) else 0)" for i
  proof (cases "new = [] \<or> pe_provider_id e \<noteq> i")
    case True
    then have "attempts_on i new = []" using new(3) by (auto simp: logged_for_def filter_empty_conv)
    then show ?thesis by simp
  next
    case False
    then have active: "pe_active e" using new(3) by (cases new) auto
    have "int (length (attempts_on i new)) \<le> int (length new)" by simp
    also have "\<dots> \<le> max 0 (mp_attempts pol)" using new(2) active by simp
    finally show ?thesis using False active by simp
  qed
  have each: "int (length (attempts_on i new)) \<le> int (length (active_with i (e # es))) * max 0 (mp_attempts pol)" for i
    using own [of i] by (auto simp: distrib_right add_increasing2 split: if_splits)
  show ?case
  proof (cases y)
    case (Raised err)
    then show ?thesis using Cons.prems t new bound each
      by (intro exI [of _ new]) (auto simp: chain_sent_def sent_id_def Let_def)
  next
    case (Delivered mid)
    then have "new \<noteq> []" using new(4) by (auto simp: sent_id_def log_ends_def)
    then have "\<forall>e' mid. x = ChainDelivered e' mid \<longrightarrow> new \<noteq> [] \<and> logged_for e' (last new)"
      using Cons.prems t Delivered new(3) by (auto simp: logged_for_def Let_def)
    then show ?thesis using Cons.prems t new bound each Delivered
      by (intro exI [of _ new]) (auto simp: chain_sent_def sent_id_def Let_def)
  next
    case NextProvider
    then obtain es'' where rec: "deliver_entries env pol m es s = (x, es'', st')"
      using Cons.prems t by (auto split: prod.splits)
    from Cons.IH [OF rec] obtain more where more: "cs_attempts st' = cs_attempts s @ more"
      "int (length more) \<le> int (length (filter pe_active es)) * max 0 (mp_attempts pol)"
      "\<forall>i. int (length (attempts_on i more)) \<le> int (length (active_with i es)) * max 0 (mp_attempts pol)"
      "\<forall>a \<in> set more. \<exists>e \<in> set es. pe_active e \<and> logged_for e a" "log_ends (chain_sent x) more"
      "\<forall>e mid. x = ChainDelivered e mid \<longrightarrow> more \<noteq> [] \<and> logged_for e (last more)" by blast
    have "int (length (attempts_on i (new @ more))) \<le> int (length (active_with i (e # es))) * max 0 (mp_attempts pol)" for i
      using own [of i] more(3) [rule_format, of i] by (auto simp: distrib_right split: if_splits)
    note both = this
    have "log_ends (chain_sent x) (new @ more)"
      using new(4) NextProvider more(5)
      by (intro log_ends_failures) (simp_all add: sent_id_def log_ends_def)
    moreover have "int (length (new @ more))
        \<le> int (length (filter pe_active (e # es))) * max 0 (mp_attempts pol)"
      using new(2) more(2) by (simp add: distrib_right split: if_splits)
    ultimately show ?thesis using new(1,3) more(1,4,6) both
      by (intro exI [of _ "new @ more"]) auto
  qed
qed


lemma ordered_entries_set: "set (ordered_entries ps) = set ps"
  by (simp add: ordered_entries_def)

lemma ordered_entries_active:
  "length (filter pe_active (ordered_entries ps)) = length (filter pe_active ps)"
  by (simp add: ordered_entries_def filter_sort)

lemma ordered_entries_active_with: "length (active_with i (ordered_entries ps)) = length (active_with i ps)"
  by (simp add: ordered_entries_def filter_sort)

lemma deliver_result:
  assumes "dl_result (deliver env pol m ps u w) = Inr r"
  obtains x es st where "deliver_entries env pol m (ordered_entries ps) \<lparr>cs_world = w, cs_usage = u,
      cs_dirty_ids = [], cs_attempts = [], cs_last_code = None, cs_possible_duplicate = False\<rparr> = (x, es, st)"
    "cr_attempts r = cs_attempts st" "cr_possible_duplicate r = cs_possible_duplicate st"
    "cr_delivered r \<and> cr_error_code r = None \<and> cr_notification_status r = ''sent''
       \<and> (\<exists>e mid. x = ChainDelivered e mid \<and> cr_provider_used r = Some (pe_name e)
            \<and> cr_provider_id r = Some (pe_provider_id e) \<and> cr_provider_message_id r = mid)
     \<or> x = ChainExhausted \<and> \<not> cr_delivered r \<and> cr_provider_used r = None
       \<and> py_truthy (cr_error_code r) \<and> cr_notification_status r = ''pending_retry''"
proof -
  obtain x es st where d: "deliver_entries env pol m (ordered_entries ps) \<lparr>cs_world = w, cs_usage = u,
      cs_dirty_ids = [], cs_attempts = [], cs_last_code = None, cs_possible_duplicate = False\<rparr> = (x, es, st)"
    by (metis prod_cases3)
  note nonempty = py_or_nonempty [of MAIL_ALL_PROVIDERS_FAILED "cs_last_code st"]
  show thesis
    by (rule that [OF d]; use assms d nonempty in \<open>cases x; auto simp: deliver_def Let_def\<close>)
qed

section \<open>A chain to run\<close>

text \<open>A world that is the script of what the adapters answer, with stopped clocks.\<close>

definition scripted_env :: "send_outcome list chain_env" where
  "scripted_env = \<lparr>ce_send = (\<lambda>e m w. (hd w, tl w)), ce_breaker_clock = (\<lambda>w. (1000, w)),
     ce_usage_clock = (\<lambda>w. (1000, w)), ce_monotonic = (\<lambda>w. (0, w)), ce_sleep = (\<lambda>d w. w),
     ce_usage_reserver = None, ce_probe_claimer = None, ce_before_attempt = None\<rparr>"

definition three_tries :: mail_retry_policy where
  "three_tries = \<lparr>mp_attempts = 3, mp_backoff_base_seconds = 1, mp_backoff_max_seconds = 60\<rparr>"

definition no_limits :: capabilities where
  "no_limits = \<lparr>cp_max_attachments = None, cp_max_attachment_mb = None, cp_max_message_mb = None,
     cp_daily_limit = None, cp_rate_limit_per_min = None, cp_needs_verified_domain = False\<rparr>"

definition plain_message :: email_message where
  "plain_message = \<lparr>em_to = [''a@b''], em_cc = [], em_bcc = [], em_subject = ''s'', em_text_body = ''t'',
     em_html_body = None, em_attachments = [], em_secure_links = [], em_dedupe_key = ''k'',
     em_correlation_id = None\<rparr>"

definition breaker_in :: "breaker_state \<Rightarrow> breaker" where
  "breaker_in s = \<lparr>bk_provider_name = ''p'', bk_failure_threshold = 3, bk_cooldown_seconds = 300,
     bk_has_listener = False, bk_state = s, bk_consecutive_failures = 0, bk_open_until = None,
     bk_probe_in_flight = (s = BHalfOpen), bk_events = []\<rparr>"

definition one_provider :: "int \<Rightarrow> string \<Rightarrow> provider_entry" where
  "one_provider i n = \<lparr>pe_provider_id = i, pe_name = n, pe_capabilities = no_limits,
     pe_breaker = breaker_in BClosed, pe_active = True, pe_priority = None\<rparr>"

definition accepted :: send_outcome where
  "accepted = SendReturned \<lparr>sd_provider_name = ''q'', sd_ok = True, sd_error_code = None,
     sd_provider_message_id = Some ''m1'', sd_duration_ms = None\<rparr>"

lemmas scripted_run = scripted_env_def three_tries_def no_limits_def plain_message_def
  breaker_in_def one_provider_def accepted_def deliver_def ordered_entries_def try_entry_def
  allow_entry_def usage_gate_def limiter_allows_def new_usage_limiter_def at_limit_def
  message_fits_def plan_def fits_whole_set_def attempt_loop.simps attempt_once_def
  classify_send_def mail_failure_def legacy_failure_def failed_attempt_def sent_attempt_def
  mail_delay_for_def exponential_delay_def new_mail_error_def exceeds_def to_bytes_def utf8_len_def
  Let_def

text \<open>The first provider rejects for good, the second accepts.\<close>

definition failover_run :: "send_outcome list delivery" where
  "failover_run = deliver scripted_env three_tries plain_message
     [one_provider 1 ''p'', one_provider 2 ''q''] new_usage_limiter
     [RaisedMailError (quota_exhausted ''x''), accepted]"

lemma failover_run_delivers:
  "\<exists>r. dl_result failover_run = Inr r \<and> cr_delivered r \<and> length (cr_attempts r) = 2"
  by (simp add: failover_run_def scripted_run quota_exhausted_def permanent_def)

text \<open>C2: a delivery that returns made, under the id of each provider, at most \<open>attempts\<close> requests for every active
  entry with that id, and none for an inactive entry or another id; it reports delivery exactly when one request succeeded, that request
  is the last of the log, is the one named by the result, and every request before it failed
  with a recorded code; a delivery without a success stays pending with a nonempty error code.\<close>

theorem deliver_log:
  assumes "dl_result (deliver env pol m ps u w) = Inr r"
  shows "int (length (cr_attempts r)) \<le> int (length (filter pe_active ps)) * max 0 (mp_attempts pol)
    \<and> (\<forall>i. int (length (attempts_on i (cr_attempts r))) \<le> int (length (active_with i ps)) * max 0 (mp_attempts pol))
    \<and> (\<forall>a \<in> set (cr_attempts r). \<exists>e \<in> set ps. pe_active e \<and> ca_provider_id a = Some (pe_provider_id e)
          \<and> ca_provider_name a = pe_name e)
    \<and> (\<forall>a \<in> set (butlast (cr_attempts r)). ca_status a = ''failed'' \<and> ca_error_code a \<noteq> None)
    \<and> cr_delivered r = (\<exists>a \<in> set (cr_attempts r). ca_status a = ''sent'')
    \<and> (cr_delivered r \<longrightarrow> cr_attempts r \<noteq> [] \<and> (let a = last (cr_attempts r)
          in ca_status a = ''sent'' \<and> cr_provider_id r = ca_provider_id a
           \<and> cr_provider_used r = Some (ca_provider_name a)
           \<and> cr_provider_message_id r = ca_provider_message_id a))
    \<and> cr_notification_status r = (if cr_delivered r then ''sent'' else ''pending_retry'')
    \<and> py_truthy (cr_error_code r) = (\<not> cr_delivered r)"
proof -
  obtain x es st where d: "deliver_entries env pol m (ordered_entries ps) \<lparr>cs_world = w, cs_usage = u,
      cs_dirty_ids = [], cs_attempts = [], cs_last_code = None, cs_possible_duplicate = False\<rparr> = (x, es, st)"
    and att: "cr_attempts r = cs_attempts st"
    and res: "cr_delivered r \<and> cr_error_code r = None \<and> cr_notification_status r = ''sent''
       \<and> (\<exists>e mid. x = ChainDelivered e mid \<and> cr_provider_used r = Some (pe_name e)
            \<and> cr_provider_id r = Some (pe_provider_id e) \<and> cr_provider_message_id r = mid)
     \<or> x = ChainExhausted \<and> \<not> cr_delivered r \<and> cr_provider_used r = None
       \<and> py_truthy (cr_error_code r) \<and> cr_notification_status r = ''pending_retry''"
    by (rule deliver_result [OF assms])
  have each: "\<forall>i. int (length (attempts_on i (cr_attempts r))) \<le> int (length (active_with i ps)) * max 0 (mp_attempts pol)"
    using deliver_entries_log [OF d] att by (simp add: ordered_entries_active_with)
  from deliver_entries_log [OF d] att
  have log: "int (length (cr_attempts r)) \<le> int (length (filter pe_active ps)) * max 0 (mp_attempts pol)"
    "\<forall>a \<in> set (cr_attempts r). \<exists>e \<in> set ps. pe_active e \<and> logged_for e a"
    "log_ends (chain_sent x) (cr_attempts r)"
    "\<forall>e mid. x = ChainDelivered e mid \<longrightarrow> cr_attempts r \<noteq> [] \<and> logged_for e (last (cr_attempts r))"
    by (simp_all add: ordered_entries_active ordered_entries_set)
  from res show ?thesis
  proof (elim disjE conjE exE)
    fix e mid
    assume *: "cr_delivered r" "cr_error_code r = None" "cr_notification_status r = ''sent''"
      "x = ChainDelivered e mid" "cr_provider_used r = Some (pe_name e)"
      "cr_provider_id r = Some (pe_provider_id e)" "cr_provider_message_id r = mid"
    with log(3) obtain fs s where fs: "cr_attempts r = fs @ [s]" "\<forall>a \<in> set fs. failed_log a"
      "ca_status s = ''sent''" "ca_provider_message_id s = mid"
      by (auto simp: log_ends_def chain_sent_def)
    with * log each show ?thesis by (auto simp: logged_for_def failed_log_def)
  next
    assume *: "x = ChainExhausted" "\<not> cr_delivered r" "py_truthy (cr_error_code r)"
      "cr_notification_status r = ''pending_retry''"
    with log(3) have "\<forall>a \<in> set (cr_attempts r). failed_log a"
      by (simp add: log_ends_def chain_sent_def)
    with * log each show ?thesis by (auto simp: logged_for_def failed_log_def dest: in_set_butlastD)
  qed
qed

theorem deliver_log_witness:
  "\<exists>r. dl_result failover_run = Inr r \<and> length (cr_attempts r) = 2
     \<and> (\<forall>a \<in> set (butlast (cr_attempts r)). ca_status a = ''failed'' \<and> ca_error_code a \<noteq> None)"
proof -
  obtain r where r: "dl_result failover_run = Inr r" "length (cr_attempts r) = 2"
    using failover_run_delivers by blast
  show ?thesis using r deliver_log [OF r(1) [unfolded failover_run_def]] by blast
qed

section \<open>The possible-duplicate flag\<close>

text \<open>\<open>P mark dup\<close> relates, for one answer of an adapter, whether it raises the chain's flag and
  whether its attempt is recorded as a possible duplicate.\<close>

definition answers_satisfy ::
  "(bool \<Rightarrow> bool \<Rightarrow> bool) \<Rightarrow> 'w chain_env \<Rightarrow> email_message \<Rightarrow> bool" where
  "answers_satisfy P env m \<longleftrightarrow> (\<forall>e w. case classify_send (fst (ce_send env e m w)) of
      Inl f \<Rightarrow> P (sf_marks_chain_duplicate f) (sf_possible_duplicate f) | Inr _ \<Rightarrow> P False False)"

definition marked ::
  "(bool \<Rightarrow> bool \<Rightarrow> bool) \<Rightarrow> 'w chain_state \<Rightarrow> 'w chain_state \<Rightarrow> bool" where
  "marked P st st' \<longleftrightarrow> (\<exists>new marks. cs_attempts st' = cs_attempts st @ new
     \<and> list_all2 P marks (map ca_possible_duplicate new)
     \<and> cs_possible_duplicate st' = (cs_possible_duplicate st \<or> True \<in> set marks))"

lemma marked_same:
  "cs_attempts st' = cs_attempts st \<Longrightarrow> cs_possible_duplicate st' = cs_possible_duplicate st \<Longrightarrow> marked P st st'"
  unfolding marked_def by (rule exI [of _ "[]"], rule exI [of _ "[]"]) simp

lemma marked_one:
  assumes "cs_attempts st' = cs_attempts st @ [a]" "P mark (ca_possible_duplicate a)"
    "cs_possible_duplicate st' = (cs_possible_duplicate st \<or> mark)"
  shows "marked P st st'"
  unfolding marked_def by (rule exI [of _ "[a]"], rule exI [of _ "[mark]"]) (use assms in simp)

lemma marked_trans [trans]: "marked P s t \<Longrightarrow> marked P t u \<Longrightarrow> marked P s u"
  unfolding marked_def
proof (elim exE conjE)
  fix n1 m1 n2 m2
  assume "cs_attempts t = cs_attempts s @ n1" "list_all2 P m1 (map ca_possible_duplicate n1)"
    "cs_possible_duplicate t = (cs_possible_duplicate s \<or> True \<in> set m1)"
    "cs_attempts u = cs_attempts t @ n2" "list_all2 P m2 (map ca_possible_duplicate n2)"
    "cs_possible_duplicate u = (cs_possible_duplicate t \<or> True \<in> set m2)"
  then show "\<exists>new marks. cs_attempts u = cs_attempts s @ new
     \<and> list_all2 P marks (map ca_possible_duplicate new)
     \<and> cs_possible_duplicate u = (cs_possible_duplicate s \<or> True \<in> set marks)"
    by (intro exI [of _ "n1 @ n2"] exI [of _ "m1 @ m2"]) (auto intro: list_all2_appendI)
qed

lemma attempt_once_marked:
  assumes P: "answers_satisfy P env m"
  shows "marked P st (step_state (attempt_once env pol m e n b st))"
proof -
  obtain ok st1 where gate: "(if n > 1 then usage_gate env e st else (True, st)) = (ok, st1)"
    by fastforce
  have st1: "cs_attempts st1 = cs_attempts st" "cs_possible_duplicate st1 = cs_possible_duplicate st"
    using gate usage_gate_log [of env e st ok st1] by (auto split: if_splits)
  obtain q w where before: "(case ce_before_attempt env of None \<Rightarrow> (Inr (), cs_world st1)
      | Some f \<Rightarrow> f (cs_world st1)) = (q, w)" by fastforce
  obtain t w1 where mono: "ce_monotonic env w = (t, w1)" by fastforce
  obtain out w2 where send: "ce_send env e m w1 = (out, w2)" by fastforce
  have ans: "case classify_send out of Inl f \<Rightarrow> P (sf_marks_chain_duplicate f) (sf_possible_duplicate f)
      | Inr _ \<Rightarrow> P False False"
    using P send unfolding answers_satisfy_def by (metis fst_conv)
  let ?st2 = "st1\<lparr>cs_world := w2\<rparr>"
  show ?thesis
  proof (cases "ok \<and> is_ok q")
    case False
    then show ?thesis using gate before st1
      by (intro marked_same) (cases q; auto simp: attempt_once_def step_state_def)+
  next
    case True
    then have q: "ok" "q = Inr ()" by (cases q; simp)+
    show ?thesis
    proof (cases "classify_send out")
      case (Inl f)
      then have r: "attempt_once env pol m e n b st = failed_attempt env pol e n t f b ?st2"
        using gate before mono send q by (simp add: attempt_once_def)
      from failed_attempt_log [of env pol e n t f b ?st2] obtain a where
        "cs_attempts (step_state (failed_attempt env pol e n t f b ?st2)) = cs_attempts ?st2 @ [a]"
        "ca_possible_duplicate a = sf_possible_duplicate f"
        "cs_possible_duplicate (step_state (failed_attempt env pol e n t f b ?st2))
           = (cs_possible_duplicate ?st2 \<or> sf_marks_chain_duplicate f)" by blast
      then show ?thesis using ans Inl st1 unfolding r
        by (intro marked_one [where mark = "sf_marks_chain_duplicate f" and a = a]) simp_all
    next
      case (Inr s)
      then have r: "attempt_once env pol m e n b st = sent_attempt env e n t s b ?st2"
        using gate before mono send q by (simp add: attempt_once_def)
      from sent_attempt_log [of env e n t s b ?st2] obtain a where
        "cs_attempts (step_state (sent_attempt env e n t s b ?st2)) = cs_attempts ?st2 @ [a]"
        "\<not> ca_possible_duplicate a" "cs_possible_duplicate (step_state (sent_attempt env e n t s b ?st2))
           = cs_possible_duplicate ?st2" by blast
      then show ?thesis using ans Inr st1 unfolding r
        by (intro marked_one [where mark = False and a = a]) simp_all
    qed
  qed
qed

lemma attempt_loop_marked:
  assumes P: "answers_satisfy P env m" and "attempt_loop env pol m e n b st = (x, b', st')"
  shows "marked P st st'"
  using assms
proof (induction env pol m e n b st rule: attempt_loop.induct)
  case (1 env pol m e n b st)
  note step = attempt_once_marked [OF "1.prems"(1), of st pol e "n + 1" b]
  show ?case
  proof (cases "n < mp_attempts pol")
    case False
    with "1.prems"(2) show ?thesis
      by (simp add: attempt_loop.simps [of env pol m e n b st] marked_same)
  next
    case True
    show ?thesis
    proof (cases "attempt_once env pol m e (n + 1) b st")
      case (Stop y c s)
      with "1.prems"(2) True step show ?thesis
        by (simp add: attempt_loop.simps [of env pol m e n b st] step_state_def)
    next
      case (Again c s)
      then have "attempt_loop env pol m e (n + 1) c s = (x, b', st')"
        using "1.prems"(2) True by (simp add: attempt_loop.simps [of env pol m e n b st])
      from "1.IH" [OF True Again "1.prems"(1) this] step Again show ?thesis
        by (auto simp: step_state_def intro: marked_trans)
    qed
  qed
qed

lemma try_entry_marked:
  assumes P: "answers_satisfy P env m" and t: "try_entry env pol m e st = (x, b', st')"
  shows "marked P st st'"
  using t
proof (cases rule: try_entry_cases)
  case skipped
  then show ?thesis by (intro marked_same)
next
  case (called b1 st4)
  then show ?thesis using marked_trans [OF marked_same attempt_loop_marked [OF P called(3)]] by metis
qed

lemma deliver_entries_marked:
  assumes P: "answers_satisfy P env m" and "deliver_entries env pol m es st = (x, es', st')"
  shows "marked P st st'"
  using assms(2)
proof (induction es arbitrary: x es' st)
  case Nil
  then show ?case by (simp add: marked_same)
next
  case (Cons e es)
  obtain y b s where t: "try_entry env pol m e st = (y, b, s)" by (cases "try_entry env pol m e st")
  note s = try_entry_marked [OF P t]
  show ?case
  proof (cases y)
    case NextProvider
    then obtain es'' where "deliver_entries env pol m es s = (x, es'', st')"
      using Cons.prems t by (auto split: prod.splits)
    from marked_trans [OF s Cons.IH [OF this]] show ?thesis .
  qed (use Cons.prems t s in \<open>auto simp: Let_def\<close>)
qed

lemma deliver_marked:
  assumes P: "answers_satisfy P env m" and r: "dl_result (deliver env pol m ps u w) = Inr r"
  obtains marks where "list_all2 P marks (map ca_possible_duplicate (cr_attempts r))"
    "cr_possible_duplicate r = (True \<in> set marks)"
  using deliver_result [OF r] deliver_entries_marked [OF P] unfolding marked_def
  by (smt (verit, best) append_Nil chain_state.select_convs(4,6))

lemma list_all2_eq_iff: "list_all2 (=) xs ys \<longleftrightarrow> xs = ys"
  by (simp add: list.rel_eq)

text \<open>As long as no adapter reports a timeout through the legacy \<open>SendError\<close>, a delivery is
  flagged as a possible duplicate exactly when one of its attempts is.\<close>

lemma duplicate_flag_exact:
  assumes "\<forall>e w code msg. fst (ce_send env e m w) = RaisedSendError code msg \<longrightarrow> code \<noteq> MAIL_TIMEOUT"
    and "dl_result (deliver env pol m ps u w) = Inr r"
  shows "cr_possible_duplicate r = (\<exists>a \<in> set (cr_attempts r). ca_possible_duplicate a)"
proof -
  have "answers_satisfy (=) env m"
    unfolding answers_satisfy_def
  proof (intro allI)
    fix e w
    show "case classify_send (fst (ce_send env e m w)) of
        Inl f \<Rightarrow> sf_marks_chain_duplicate f = sf_possible_duplicate f | Inr _ \<Rightarrow> False = False"
      using assms(1) [rule_format, of e w]
      by (cases "fst (ce_send env e m w)")
        (auto simp: classify_send_def mail_failure_def legacy_failure_def unexpected_failure_def
          new_mail_error_def Let_def)
  qed
  from deliver_marked [OF this assms(2)] show ?thesis by (auto simp: list_all2_eq_iff image_iff)
qed

text \<open>A timeout reported through the legacy \<open>SendError\<close> never raises the flag of the
  delivery, though every one of its attempts is recorded as a possible duplicate.\<close>

lemma legacy_timeout_unflagged:
  assumes "\<forall>e w. \<exists>msg. fst (ce_send env e m w) = RaisedSendError MAIL_TIMEOUT msg"
    and "dl_result (deliver env pol m ps u w) = Inr r"
  shows "\<not> cr_possible_duplicate r \<and> (\<forall>a \<in> set (cr_attempts r). ca_possible_duplicate a)"
proof -
  let ?P = "\<lambda>mark dup. \<not> mark \<and> dup"
  have "answers_satisfy ?P env m"
    unfolding answers_satisfy_def
  proof (intro allI)
    fix e w
    obtain msg where "fst (ce_send env e m w) = RaisedSendError MAIL_TIMEOUT msg"
      using assms(1) by blast
    then show "case classify_send (fst (ce_send env e m w)) of
        Inl f \<Rightarrow> \<not> sf_marks_chain_duplicate f \<and> sf_possible_duplicate f | Inr _ \<Rightarrow> \<not> False \<and> False"
      by (simp add: classify_send_def legacy_failure_def new_mail_error_def Let_def)
  qed
  from deliver_marked [OF this assms(2)] obtain marks where
    "list_all2 ?P marks (map ca_possible_duplicate (cr_attempts r))"
    "cr_possible_duplicate r = (True \<in> set marks)" .
  then show ?thesis by (auto simp: list_all2_conv_all_nth in_set_conv_nth)
qed

text \<open>An adapter that gives one answer to every request.\<close>

definition constant_env :: "send_outcome \<Rightarrow> unit chain_env" where
  "constant_env out = \<lparr>ce_send = (\<lambda>e m w. (out, w)),
     ce_breaker_clock = (\<lambda>w. (1000, w)), ce_usage_clock = (\<lambda>w. (1000, w)),
     ce_monotonic = (\<lambda>w. (0, w)), ce_sleep = (\<lambda>d w. w),
     ce_usage_reserver = None, ce_probe_claimer = None, ce_before_attempt = None\<rparr>"

definition constant_run :: "send_outcome \<Rightarrow> unit delivery" where
  "constant_run out = deliver (constant_env out) three_tries plain_message [one_provider 1 ''p'']
     new_usage_limiter ()"

section \<open>Retries of a half-open probe\<close>

text \<open>A provider without usage limits, behind an adapter that keeps failing transiently.\<close>

definition keeps_failing :: "'w chain_env \<Rightarrow> provider_entry \<Rightarrow> email_message \<Rightarrow> bool" where
  "keeps_failing env e m \<longleftrightarrow> ce_usage_reserver env = None \<and> ce_before_attempt env = None
     \<and> cp_daily_limit (pe_capabilities e) = None \<and> cp_rate_limit_per_min (pe_capabilities e) = None
     \<and> (\<forall>w. \<exists>x. fst (ce_send env e m w) = RaisedMailError x \<and> me_retryable x)"

lemma usage_gate_unlimited:
  "keeps_failing env e m \<Longrightarrow> fst (usage_gate env e st)"
  by (auto simp: keeps_failing_def usage_gate_def limiter_allows_def at_limit_def Let_def split: prod.splits)

lemma attempt_once_failing:
  assumes k: "keeps_failing env e m"
  obtains f st2 t where "attempt_once env pol m e n b st = failed_attempt env pol e n t f b st2"
    "sf_retryable f" "cs_attempts st2 = cs_attempts st"
proof -
  obtain ok st1 where gate: "(if n > 1 then usage_gate env e st else (True, st)) = (ok, st1)"
    by fastforce
  have st1: "cs_attempts st1 = cs_attempts st"
    using gate usage_gate_log [of env e st ok st1] by (auto split: if_splits)
  have ok using gate usage_gate_unlimited [OF k, of st] by (auto split: if_splits)
  obtain t w1 where mono: "ce_monotonic env (cs_world st1) = (t, w1)" by fastforce
  obtain x w2 where send: "ce_send env e m w1 = (RaisedMailError x, w2)" "me_retryable x"
    using k unfolding keeps_failing_def by (metis prod.collapse)
  show thesis
    by (rule that [of t "mail_failure x" "st1\<lparr>cs_world := w2\<rparr>"])
      (use gate \<open>ok\<close> mono send k st1
        in \<open>simp_all add: attempt_once_def keeps_failing_def classify_send_def mail_failure_def\<close>)
qed

lemma failed_attempt_again:
  assumes "sf_retryable f" "n < mp_attempts pol"
  obtains s now where "failed_attempt env pol e n t f b st = Again (record_failure now (Some (sf_error_code f)) b) s"
    "length (cs_attempts s) = Suc (length (cs_attempts st))"
proof (cases "failed_attempt env pol e n t f b st")
  case (Stop x c s)
  then show ?thesis using assms by (auto simp: failed_attempt_def Let_def split: prod.splits)
next
  case (Again c s)
  then have "c = record_failure (fst (ce_breaker_clock env (cs_world st))) (Some (sf_error_code f)) b"
    using assms by (auto simp: failed_attempt_def Let_def split: prod.splits)
  moreover have "length (cs_attempts s) = Suc (length (cs_attempts st))"
    using failed_attempt_log [of env pol e n t f b st] Again by (auto simp: step_state_def)
  ultimately show ?thesis using that Again by simp
qed

lemma attempt_loop_exhausts:
  assumes "keeps_failing env e m" "attempt_loop env pol m e n b st = (x, b', st')"
  shows "length (cs_attempts st') = length (cs_attempts st) + nat (mp_attempts pol - n)"
  using assms
proof (induction env pol m e n b st rule: attempt_loop.induct)
  case (1 env pol m e n b st)
  show ?case
  proof (cases "n < mp_attempts pol")
    case False
    with "1.prems"(2) show ?thesis by (simp add: attempt_loop.simps [of env pol m e n b st])
  next
    case True
    obtain f st2 t where once: "attempt_once env pol m e (n + 1) b st = failed_attempt env pol e (n + 1) t f b st2"
      "sf_retryable f" "cs_attempts st2 = cs_attempts st"
      by (rule attempt_once_failing [OF "1.prems"(1)])
    show ?thesis
    proof (cases "n + 1 < mp_attempts pol")
      case more: True
      obtain s now where again: "attempt_once env pol m e (n + 1) b st
          = Again (record_failure now (Some (sf_error_code f)) b) s"
        "length (cs_attempts s) = Suc (length (cs_attempts st))"
        using failed_attempt_again [OF once(2) more] once(1,3) by metis
      then have "attempt_loop env pol m e (n + 1) (record_failure now (Some (sf_error_code f)) b) s = (x, b', st')"
        using "1.prems"(2) True by (simp add: attempt_loop.simps [of env pol m e n b st])
      from "1.IH" [OF True again(1) "1.prems"(1) this] again(2) True show ?thesis by simp
    next
      case last: False
      with once(1) "1.prems"(2) True once(3) show ?thesis
        by (auto simp: attempt_loop.simps [of env pol m e n b st] failed_attempt_def Let_def
            split: prod.splits)
    qed
  qed
qed

text \<open>The loop over one provider's attempts does not look at the breaker again: when the
  recovery probe of a half-open breaker fails transiently, the breaker is open once more and the
  provider still gets all the attempts of the retry policy.\<close>

lemma half_open_probe_retried:
  assumes "keeps_failing env e m" and "bk_state b = BHalfOpen" and "1 < mp_attempts pol"
  shows "(\<exists>c s. attempt_once env pol m e 1 b st = Again c s \<and> bk_state c = BOpen)
    \<and> length (cs_attempts (snd (snd (attempt_loop env pol m e 0 b st))))
        = length (cs_attempts st) + nat (mp_attempts pol)"
proof -
  obtain f st2 t where once: "attempt_once env pol m e 1 b st = failed_attempt env pol e 1 t f b st2"
    "sf_retryable f" "cs_attempts st2 = cs_attempts st"
    by (rule attempt_once_failing [OF assms(1)])
  obtain s now where "attempt_once env pol m e 1 b st = Again (record_failure now (Some (sf_error_code f)) b) s"
    using failed_attempt_again [OF once(2) assms(3)] once(1) by metis
  moreover obtain x b' st' where "attempt_loop env pol m e 0 b st = (x, b', st')"
    by (metis prod_cases3)
  ultimately show ?thesis
    using failed_probe_reopens [OF assms(2)] attempt_loop_exhausts [OF assms(1), of pol 0 b st x b' st']
    by fastforce
qed

end
