(* ===== verification/UsageWindow.thy ===== *)
theory UsageWindow
  imports Chain
begin

text \<open>
  What \<open>ProviderUsageLimiter.allow\<close> (\<open>mail/chain.py\<close>) guarantees over a whole run of requests
  whose clock does not go back: no interval of sixty seconds and no day grants more than the
  limits of the provider, whatever the requests to other providers in between.
\<close>

section \<open>The requests granted to one provider\<close>

fun grants :: "(int \<Rightarrow> capabilities) \<Rightarrow> int \<Rightarrow> (real \<times> int) list \<Rightarrow> usage_limiter \<Rightarrow> real list" where
  "grants caps p [] u = []"
| "grants caps p ((now, q) # rs) u =
     (let (ok, u') = limiter_allows now q (caps q) u
      in (if ok \<and> q = p then [now] else []) @ grants caps p rs u')"

definition within_minute :: "real \<Rightarrow> real list \<Rightarrow> real list" where
  "within_minute x G = filter (\<lambda>t. x - 60 < t \<and> t \<le> x) G"

definition on_day :: "int \<Rightarrow> real list \<Rightarrow> real list" where
  "on_day d G = filter (\<lambda>t. \<lfloor>t / 86400\<rfloor> = d) G"

definition below :: "int option \<Rightarrow> nat \<Rightarrow> bool" where
  "below limit n = (case limit of None \<Rightarrow> True | Some m \<Rightarrow> int n \<le> max 0 m)"

text \<open>After requests up to the instant \<open>T\<close> that granted \<open>G\<close>.\<close>

definition window_inv :: "capabilities \<Rightarrow> int \<Rightarrow> real \<Rightarrow> real list \<Rightarrow> usage_limiter \<Rightarrow> bool" where
  "window_inv cap p T G u \<longleftrightarrow>
     (\<exists>old. G = old @ ul_minute u p \<and> (\<forall>t \<in> set old. T - t \<ge> 60))
     \<and> (\<forall>t \<in> set G. t \<le> T)
     \<and> (case ul_day u p of None \<Rightarrow> G = []
        | Some (c, d) \<Rightarrow> c = int (length (on_day d G)) \<and> d \<le> \<lfloor>T / 86400\<rfloor> \<and> (\<forall>t \<in> set G. \<lfloor>t / 86400\<rfloor> \<le> d))
     \<and> (\<forall>x. below (cp_rate_limit_per_min cap) (length (within_minute x G)))
     \<and> (\<forall>d. below (cp_daily_limit cap) (length (on_day d G)))"

lemma day_mono: "T \<le> now \<Longrightarrow> \<lfloor>T / 86400\<rfloor> \<le> \<lfloor>now / 86400 :: real\<rfloor>"
  by (intro floor_mono divide_right_mono) simp_all

lemma below_mono: "below l n \<Longrightarrow> k \<le> n \<Longrightarrow> below l k"
  by (auto simp: below_def split: option.splits)

lemma not_at_limit: "\<not> at_limit (int n) l \<Longrightarrow> below l (Suc n)"
  by (auto simp: below_def at_limit_def split: option.splits)

lemma window_other:
  "q \<noteq> p \<Longrightarrow> limiter_allows now q cap' u = (ok, u') \<Longrightarrow> ul_minute u' p = ul_minute u p \<and> ul_day u' p = ul_day u p"
  by (auto simp: limiter_allows_def Let_def split: if_splits prod.splits option.splits)

lemma window_later:
  "window_inv cap p T G u \<Longrightarrow> T \<le> now \<Longrightarrow> window_inv cap p now G u"
  using day_mono [of T now] unfolding window_inv_def
  by (fastforce split: option.splits)

lemma stale_prefix:
  "set (takeWhile P xs) \<subseteq> {x \<in> set xs. P x}"
  by (auto dest: set_takeWhileD)

lemma minute_after_grant:
  assumes old: "\<forall>t \<in> set old. now - t \<ge> 60" and upto: "\<forall>t \<in> set (old @ recent). t \<le> now"
    and all: "\<forall>x. below l (length (within_minute x (old @ recent)))"
    and room: "\<not> at_limit (int (length recent)) l"
  shows "below l (length (within_minute x (old @ recent @ [now])))"
proof (cases "x < now")
  case True
  then have "within_minute x (old @ recent @ [now]) = within_minute x (old @ recent)"
    by (simp add: within_minute_def)
  with all show ?thesis by simp
next
  case False
  then have "filter (\<lambda>t. x - 60 < t \<and> t \<le> x) old = []"
    using old by (auto simp: filter_empty_conv)
  then have "length (within_minute x (old @ recent @ [now])) \<le> Suc (length recent)"
    using length_filter_le [of "\<lambda>t. x - 60 < t \<and> t \<le> x" "recent @ [now]"]
    by (simp add: within_minute_def)
  then show ?thesis using not_at_limit [OF room] below_mono by blast
qed

lemma window_step:
  assumes inv: "window_inv cap p now G u" and step: "limiter_allows now p cap u = (ok, u')"
  shows "window_inv cap p now (if ok then G @ [now] else G) u'"
proof -
  define D where "D = \<lfloor>now / 86400\<rfloor>"
  define stored where "stored = (case ul_day u p of None \<Rightarrow> (0, D) | Some d \<Rightarrow> d)"
  define c where "c = (if snd stored \<noteq> D then 0 else fst stored)"
  have day: "(if snd stored \<noteq> D then (0, D) else stored) = (c, D)"
    by (cases stored) (simp add: c_def)
  have upto: "\<forall>t \<in> set G. t \<le> now" and minute: "\<forall>x. below (cp_rate_limit_per_min cap) (length (within_minute x G))"
    and days: "\<forall>d. below (cp_daily_limit cap) (length (on_day d G))"
    using inv by (simp_all add: window_inv_def)
  have before: "\<forall>t \<in> set G. \<lfloor>t / 86400\<rfloor> \<le> D" using upto day_mono by (simp add: D_def)
  have c: "c = int (length (on_day D G))"
  proof (cases "ul_day u p")
    case None
    then show ?thesis using inv by (simp add: window_inv_def c_def stored_def on_day_def)
  next
    case (Some s)
    obtain c0 d0 where s: "s = (c0, d0)" by (cases s)
    then have "c0 = int (length (on_day d0 G))" "d0 \<le> D" "\<forall>t \<in> set G. \<lfloor>t / 86400\<rfloor> \<le> d0"
      using inv Some by (simp_all add: window_inv_def D_def)
    moreover from this have "d0 \<noteq> D \<Longrightarrow> on_day D G = []"
      by (force simp: on_day_def filter_empty_conv)
    ultimately show ?thesis using Some s by (simp add: c_def stored_def)
  qed
  obtain old where old: "G = old @ ul_minute u p" "\<forall>t \<in> set old. now - t \<ge> 60"
    using inv by (auto simp: window_inv_def)
  let ?stale = "takeWhile (\<lambda>t. now - t \<ge> 60) (ul_minute u p)"
  let ?recent = "dropWhile (\<lambda>t. now - t \<ge> 60) (ul_minute u p)"
  have split: "G = (old @ ?stale) @ ?recent" "\<forall>t \<in> set (old @ ?stale). now - t \<ge> 60"
    using old by (auto dest: set_takeWhileD)
  consider (full) "\<not> ok" "ul_minute u' p = ul_minute u p" "ul_day u' p = Some (c, D)"
    | (rate) "\<not> ok" "ul_minute u' p = ?recent" "ul_day u' p = Some (c, D)"
    | (granted) "ok" "ul_minute u' p = ?recent @ [now]" "ul_day u' p = Some (c + 1, D)"
      "\<not> at_limit c (cp_daily_limit cap)" "\<not> at_limit (int (length ?recent)) (cp_rate_limit_per_min cap)"
    using step unfolding limiter_allows_def Let_def D_def [symmetric] stored_def [symmetric] day
    by (auto split: if_splits)
  then show ?thesis
  proof cases
    case full
    then show ?thesis using old upto minute days c before by (simp add: window_inv_def D_def)
  next
    case rate
    have "\<exists>old. G = old @ ul_minute u' p \<and> (\<forall>t \<in> set old. now - t \<ge> 60)"
      using split rate(2) by metis
    then show ?thesis using rate upto minute days c before by (simp add: window_inv_def D_def)
  next
    case granted
    have "\<exists>old. G @ [now] = old @ ul_minute u' p \<and> (\<forall>t \<in> set old. now - t \<ge> 60)"
      using split granted(2) by (metis append.assoc)
    moreover have "below (cp_rate_limit_per_min cap) (length (within_minute x (G @ [now])))" for x
      using minute_after_grant [OF split(2) _ _ granted(5), of x] split(1) upto minute
      by (metis append.assoc)
    moreover have "below (cp_daily_limit cap) (length (on_day d (G @ [now])))" for d
      using days c granted(4) not_at_limit [of "length (on_day D G)" "cp_daily_limit cap"]
      by (cases "d = D") (simp_all add: on_day_def D_def)
    moreover have "c + 1 = int (length (on_day D (G @ [now])))" using c by (simp add: on_day_def D_def)
    ultimately show ?thesis using granted upto before by (simp add: window_inv_def D_def)
  qed
qed

lemma grants_inv:
  assumes "window_inv (caps p) p T G u" and "sorted (map fst rs)" and "\<forall>r \<in> set rs. T \<le> fst r"
  shows "\<exists>T' u'. window_inv (caps p) p T' (G @ grants caps p rs u) u'"
  using assms
proof (induction rs arbitrary: T G u)
  case Nil
  then show ?case by auto
next
  case (Cons r rs)
  obtain now q where r: "r = (now, q)" by (cases r)
  obtain ok u' where step: "limiter_allows now q (caps q) u = (ok, u')" by fastforce
  have now: "window_inv (caps p) p now G u" using window_later [OF Cons.prems(1)] Cons.prems(3) r by simp
  have rest: "sorted (map fst rs)" "\<forall>r \<in> set rs. now \<le> fst r" using Cons.prems(2) r by auto
  show ?case
  proof (cases "q = p")
    case True
    with window_step [OF now] step have "window_inv (caps p) p now (if ok then G @ [now] else G) u'" by simp
    from Cons.IH [OF this rest] show ?thesis using r step True by (cases ok) simp_all
  next
    case False
    with window_other [OF False step] now have "window_inv (caps p) p now G u'" by (simp add: window_inv_def)
    from Cons.IH [OF this rest] show ?thesis using r step False by simp
  qed
qed

text \<open>Over any run of requests with a clock that does not go back, the local usage limiter
  grants a provider at most its per-minute limit in every window of sixty seconds and at most its
  daily limit on every day, whatever other providers are asked for in between.\<close>

lemma usage_limits_hold:
  assumes "sorted (map fst rs)"
  shows "(case cp_rate_limit_per_min (caps p) of None \<Rightarrow> True
      | Some m \<Rightarrow> int (length (within_minute x (grants caps p rs new_usage_limiter))) \<le> max 0 m)
    \<and> (case cp_daily_limit (caps p) of None \<Rightarrow> True
      | Some m \<Rightarrow> int (length (on_day d (grants caps p rs new_usage_limiter))) \<le> max 0 m)"
proof (cases rs)
  case Nil
  then show ?thesis by (simp add: within_minute_def on_day_def split: option.splits)
next
  case (Cons r rs')
  have "window_inv (caps p) p (fst r) [] new_usage_limiter"
    by (simp add: window_inv_def new_usage_limiter_def within_minute_def on_day_def below_def
        split: option.splits)
  from grants_inv [where rs = rs and caps = caps and p = p and G = "[]", OF this assms] assms Cons
  obtain T' u' where "window_inv (caps p) p T' (grants caps p rs new_usage_limiter) u'" by fastforce
  then show ?thesis by (simp add: window_inv_def below_def)
qed

definition two_per_minute :: capabilities where
  "two_per_minute = \<lparr>cp_max_attachments = None, cp_max_attachment_mb = None, cp_max_message_mb = None,
     cp_daily_limit = Some 3, cp_rate_limit_per_min = Some 2, cp_needs_verified_domain = False\<rparr>"

end
