(* ===== verification/Outbox.thy ===== *)
theory Outbox
  imports Chain
begin

text \<open>
  The durable notification outbox: \<open>NotificationRepository\<close> of
  \<open>db/repositories/notifications.py\<close> over the columns of \<open>NotificationLog\<close> and
  \<open>NotificationAttempt\<close> (\<open>db/models/mail.py\<close>).  The tables are lists in insertion order with
  the next primary key.  \<open>datetime.now(UTC)\<close> is an argument of the operations that read it, the
  fresh \<open>uuid4\<close> tokens of one claim are a function of the row's position, and the rows that
  another transaction holds locked (\<open>SKIP LOCKED\<close>) are a predicate.  Durations are
  microseconds.  An operation that raises does so before it writes, so it returns the error and
  the state is the old one.
\<close>

section \<open>Tables\<close>

definition NOTIFICATION_OUTBOX_STATUSES :: "string list" where
  "NOTIFICATION_OUTBOX_STATUSES =
     [''pending'', ''sending'', ''sent'', ''failed'', ''pending_retry'', ''possible_duplicate'']"

record notification_log =
  nl_id :: int
  nl_created_at :: instant
  nl_tender_id :: "int option"
  nl_verdict_id :: "int option"
  nl_correlation_id :: "string option"
  nl_recipients_snapshot :: json
  nl_sent_at :: "instant option"
  nl_attachments :: json
  nl_links :: json
  nl_status :: string
  nl_provider_used :: "string option"
  nl_dedupe_key :: string
  nl_possible_duplicate :: bool
  nl_error :: "string option"
  nl_notification_kind :: string
  nl_priority :: int
  nl_message_payload :: json
  nl_next_retry_at :: "instant option"
  nl_claim_token :: "string option"
  nl_claim_until :: "instant option"
  nl_attempt_count :: int
  nl_last_error_code :: "string option"

record notification_attempt =
  na_notification_id :: int
  na_correlation_id :: "string option"
  na_provider_id :: "int option"
  na_provider_name :: string
  na_status :: string
  na_error_code :: "string option"
  na_duration_ms :: "int option"
  na_attempted_at :: instant
  na_attempt_number :: int
  na_possible_duplicate :: bool
  na_provider_message_id :: "string option"

record outbox =
  ob_next_id :: int
  ob_rows :: "notification_log list"
  ob_attempts :: "notification_attempt list"

definition empty_outbox :: outbox where
  "empty_outbox = \<lparr>ob_next_id = 1, ob_rows = [], ob_attempts = []\<rparr>"

datatype outbox_error = PersistenceErr string | UniqueViolation

definition MAX_AMBIGUOUS_AUTOMATIC_SENDS :: int where
  "MAX_AMBIGUOUS_AUTOMATIC_SENDS = 2"

section \<open>Reads\<close>

definition get_row :: "int \<Rightarrow> outbox \<Rightarrow> notification_log option" where
  "get_row i ob = List.find (\<lambda>r. nl_id r = i) (ob_rows ob)"

definition get_by_dedupe_key :: "string \<Rightarrow> outbox \<Rightarrow> notification_log option" where
  "get_by_dedupe_key key ob = List.find (\<lambda>r. nl_dedupe_key r = key) (ob_rows ob)"

definition put_row :: "notification_log \<Rightarrow> outbox \<Rightarrow> outbox" where
  "put_row r ob = ob\<lparr>ob_rows := map (\<lambda>r'. if nl_id r' = nl_id r then r else r') (ob_rows ob)\<rparr>"

definition recoverable :: "notification_log \<Rightarrow> bool" where
  "recoverable r \<longleftrightarrow> nl_status r \<in> {''pending'', ''pending_retry'', ''possible_duplicate''}"

definition list_pending_retry :: "nat \<Rightarrow> outbox \<Rightarrow> notification_log list" where
  "list_pending_retry limit ob =
     take limit (sort_key (\<lambda>r. (nl_created_at r, nl_id r)) (filter recoverable (ob_rows ob)))"

definition count_recoverable :: "outbox \<Rightarrow> int" where
  "count_recoverable ob = int (length (filter recoverable (ob_rows ob)))"

section \<open>Writes\<close>

definition create_pending ::
  "instant \<Rightarrow> string \<Rightarrow> int option \<Rightarrow> int option \<Rightarrow> string option \<Rightarrow> json \<Rightarrow> json \<Rightarrow> json \<Rightarrow> json
     \<Rightarrow> string \<Rightarrow> int \<Rightarrow> outbox \<Rightarrow> (outbox_error, notification_log \<times> outbox) result" where
  "create_pending now dedupe_key tender_id verdict_id correlation_id recipients attachments links
     payload kind priority ob =
     (if dedupe_key = [] then Inl (PersistenceErr ''dedupe_key must not be empty'')
      else if get_by_dedupe_key dedupe_key ob \<noteq> None then Inl UniqueViolation
      else let row = \<lparr>nl_id = ob_next_id ob, nl_created_at = now, nl_tender_id = tender_id,
                 nl_verdict_id = verdict_id, nl_correlation_id = correlation_id,
                 nl_recipients_snapshot = recipients, nl_sent_at = None,
                 nl_attachments = attachments, nl_links = links, nl_status = ''pending'',
                 nl_provider_used = None, nl_dedupe_key = dedupe_key,
                 nl_possible_duplicate = False, nl_error = None, nl_notification_kind = kind,
                 nl_priority = priority, nl_message_payload = payload, nl_next_retry_at = None,
                 nl_claim_token = None, nl_claim_until = None, nl_attempt_count = 0,
                 nl_last_error_code = None\<rparr>
           in Inr (row, ob\<lparr>ob_next_id := ob_next_id ob + 1, ob_rows := ob_rows ob @ [row]\<rparr>))"

definition get_for_update :: "int \<Rightarrow> outbox \<Rightarrow> (outbox_error, notification_log) result" where
  \<comment> \<open>\<open>_get_for_update\<close>\<close>
  "get_for_update i ob =
     (case get_row i ob of
        None \<Rightarrow> Inl (PersistenceErr (''notification log '' @ int_str i @ '' not found''))
      | Some r \<Rightarrow> Inr r)"

definition lease :: "int \<Rightarrow> int" where
  \<comment> \<open>\<open>max(1.0, lease_seconds)\<close>\<close>
  "lease lease_us = max (usecs 1) lease_us"

definition expired_claim :: "instant \<Rightarrow> notification_log \<Rightarrow> bool" where
  "expired_claim moment r \<longleftrightarrow> nl_status r = ''sending''
     \<and> (case nl_claim_until r of None \<Rightarrow> False | Some u \<Rightarrow> u \<le> moment)"

definition recovered :: "notification_log \<Rightarrow> notification_log" where
  "recovered r = r\<lparr>nl_status := ''pending_retry'', nl_claim_token := None, nl_claim_until := None,
     nl_possible_duplicate := True,
     nl_error := Some ''worker lease expired after an in-flight send; possible duplicate'',
     nl_last_error_code := Some ''email_send_failed''\<rparr>"

definition recover_stale_sending :: "instant \<Rightarrow> outbox \<Rightarrow> outbox" where
  "recover_stale_sending moment ob =
     ob\<lparr>ob_rows := map (\<lambda>r. if expired_claim moment r then recovered r else r) (ob_rows ob)\<rparr>"

definition claimable :: "instant \<Rightarrow> int \<Rightarrow> notification_log \<Rightarrow> bool" where
  "claimable moment lease_us r \<longleftrightarrow>
     nl_status r = ''pending'' \<and> nl_created_at r \<le> moment - lease_us
     \<or> nl_status r = ''pending_retry''
       \<and> (case nl_next_retry_at r of None \<Rightarrow> True | Some t \<Rightarrow> t \<le> moment)
     \<or> expired_claim moment r"

definition claimed :: "instant \<Rightarrow> string \<Rightarrow> notification_log \<Rightarrow> notification_log" where
  "claimed until token r = r\<lparr>nl_status := ''sending'', nl_claim_token := Some token,
     nl_claim_until := Some until, nl_attempt_count := nl_attempt_count r + 1\<rparr>"

abbreviation claim_order :: "notification_log \<Rightarrow> int \<times> int \<times> int" where
  "claim_order r \<equiv> (nl_priority r, nl_created_at r, nl_id r)"

definition claim_pending ::
  "(int \<Rightarrow> bool) \<Rightarrow> (nat \<Rightarrow> string) \<Rightarrow> nat \<Rightarrow> int \<Rightarrow> instant \<Rightarrow> outbox
     \<Rightarrow> notification_log list \<times> outbox" where
  "claim_pending locked fresh limit lease_us moment ob =
     (let lease_until = moment + lease lease_us;
          ob1 = recover_stale_sending moment ob;
          rows = take limit (sort_key claim_order
                   (filter (\<lambda>r. claimable moment lease_us r \<and> \<not> locked (nl_id r)) (ob_rows ob1)));
          taken = map (\<lambda>(i, r). claimed lease_until (fresh i) r) (enumerate 0 rows)
      in (taken, fold put_row taken ob1))"

definition begin_send ::
  "int \<Rightarrow> string \<Rightarrow> int \<Rightarrow> instant \<Rightarrow> outbox \<Rightarrow> (outbox_error, notification_log \<times> outbox) result" where
  "begin_send i token lease_us now ob =
     bind_result (get_for_update i ob) (\<lambda>row.
       if nl_status row = ''sent'' then Inl (PersistenceErr ''notification has already been sent'')
       else if nl_status row = ''sending'' \<and> py_truthy (nl_claim_token row)
       then Inl (PersistenceErr ''notification is already claimed by another worker'')
       else if nl_status row \<notin> {''pending'', ''pending_retry''}
       then Inl (PersistenceErr (''notification cannot transition from '' @ nl_status row @ '' to sending''))
       else let row' = claimed (now + lease lease_us) token row in Inr (row', put_row row' ob))"

definition renew_claim ::
  "int \<Rightarrow> string \<Rightarrow> int \<Rightarrow> instant \<Rightarrow> outbox \<Rightarrow> (outbox_error, notification_log \<times> outbox) result" where
  "renew_claim i token lease_us now ob =
     bind_result (get_for_update i ob) (\<lambda>row.
       if nl_status row \<noteq> ''sending'' \<or> nl_claim_token row \<noteq> Some token
       then Inl (PersistenceErr ''notification claim is no longer owned by this worker'')
       else let row' = row\<lparr>nl_claim_until := Some (now + lease lease_us)\<rparr> in Inr (row', put_row row' ob))"

definition not_owner :: "string option \<Rightarrow> notification_log \<Rightarrow> bool" where
  \<comment> \<open>\<open>claim_token is not None and row.claim_token not in (None, claim_token)\<close>\<close>
  "not_owner token row \<longleftrightarrow> token \<noteq> None \<and> nl_claim_token row \<notin> {None, token}"

definition mark_sent ::
  "int \<Rightarrow> string \<Rightarrow> json \<Rightarrow> json \<Rightarrow> bool \<Rightarrow> string option \<Rightarrow> instant \<Rightarrow> outbox
     \<Rightarrow> (outbox_error, notification_log \<times> outbox) result" where
  "mark_sent i provider_used attachments links possible_duplicate token now ob =
     bind_result (get_for_update i ob) (\<lambda>row.
       if not_owner token row
       then Inl (PersistenceErr ''notification claim is no longer owned by this worker'')
       else let row' = row\<lparr>nl_status := ''sent'', nl_provider_used := Some provider_used,
                  nl_sent_at := Some now, nl_attachments := attachments, nl_links := links,
                  nl_possible_duplicate := possible_duplicate \<or> nl_possible_duplicate row,
                  nl_error := None, nl_last_error_code := None, nl_next_retry_at := None,
                  nl_claim_token := None, nl_claim_until := None\<rparr>
            in Inr (row', put_row row' ob))"

definition retry_delay_seconds :: "int \<Rightarrow> int" where
  "retry_delay_seconds attempt_count =
     (if attempt_count \<le> 1 then 0 else min 3600 (30 * 2 ^ nat (min 10 (attempt_count - 2))))"

definition kept_pending ::
  "string \<Rightarrow> string \<Rightarrow> bool \<Rightarrow> instant option \<Rightarrow> instant \<Rightarrow> notification_log \<Rightarrow> notification_log" where
  "kept_pending error_code error_message possible_duplicate next_retry_at now row =
     (let ambiguous = possible_duplicate \<or> nl_possible_duplicate row;
          row1 = row\<lparr>nl_possible_duplicate := ambiguous,
            nl_error := Some (take 2000 (error_code @ '': '' @ error_message)),
            nl_last_error_code :=
              Some (if is_valid_error_code error_code then error_code else EMAIL_SEND_FAILED)\<rparr>;
          row2 = (if ambiguous \<and> nl_attempt_count row \<ge> MAX_AMBIGUOUS_AUTOMATIC_SENDS
            then row1\<lparr>nl_status := ''possible_duplicate'', nl_next_retry_at := None\<rparr>
            else row1\<lparr>nl_status := ''pending_retry'',
                   nl_next_retry_at := (case next_retry_at of
                      None \<Rightarrow> Some (now + usecs (retry_delay_seconds (nl_attempt_count row)))
                    | Some t \<Rightarrow> Some t)\<rparr>)
      in row2\<lparr>nl_claim_token := None, nl_claim_until := None\<rparr>)"

definition keep_pending ::
  "int \<Rightarrow> string \<Rightarrow> string \<Rightarrow> bool \<Rightarrow> instant option \<Rightarrow> string option \<Rightarrow> instant \<Rightarrow> outbox
     \<Rightarrow> (outbox_error, notification_log \<times> outbox) result" where
  "keep_pending i error_code error_message possible_duplicate next_retry_at token now ob =
     bind_result (get_for_update i ob) (\<lambda>row.
       if not_owner token row
       then Inl (PersistenceErr ''notification claim is no longer owned by this worker'')
       else let row' = kept_pending error_code error_message possible_duplicate next_retry_at now row
            in Inr (row', put_row row' ob))"

definition requeue_possible_duplicate ::
  "int \<Rightarrow> instant option \<Rightarrow> instant \<Rightarrow> outbox \<Rightarrow> (outbox_error, notification_log \<times> outbox) result" where
  "requeue_possible_duplicate i next_retry_at now ob =
     bind_result (get_for_update i ob) (\<lambda>row.
       if nl_status row \<noteq> ''possible_duplicate''
       then Inl (PersistenceErr ''notification is not quarantined for possible duplicate'')
       else let row' = row\<lparr>nl_status := ''pending_retry'',
                  nl_next_retry_at := Some (case next_retry_at of None \<Rightarrow> now | Some t \<Rightarrow> t),
                  nl_claim_token := None, nl_claim_until := None\<rparr>
            in Inr (row', put_row row' ob))"

definition mark_legacy_sent ::
  "int \<Rightarrow> instant \<Rightarrow> outbox \<Rightarrow> (outbox_error, notification_log \<times> outbox) result" where
  "mark_legacy_sent i now ob = mark_sent i ''unknown'' (JList []) (JList []) False None now ob"

definition record_attempt ::
  "int \<Rightarrow> int option \<Rightarrow> string \<Rightarrow> string option \<Rightarrow> chain_attempt \<Rightarrow> instant \<Rightarrow> outbox
     \<Rightarrow> notification_attempt \<times> outbox" where
  "record_attempt notification_id provider_id provider_name correlation_id a now ob =
     (let code = (if is_valid_error_code (py_or (ca_error_code a) []) then ca_error_code a
                  else Some EMAIL_SEND_FAILED);
          att = \<lparr>na_notification_id = notification_id, na_correlation_id = correlation_id,
                 na_provider_id = provider_id, na_provider_name = provider_name,
                 na_status = ca_status a, na_error_code = code, na_duration_ms = ca_duration_ms a,
                 na_attempted_at = now, na_attempt_number = max 1 (ca_attempt_number a),
                 na_possible_duplicate = ca_possible_duplicate a,
                 na_provider_message_id = ca_provider_message_id a\<rparr>
      in (att, ob\<lparr>ob_attempts := ob_attempts ob @ [att]\<rparr>))"

section \<open>The view for operators\<close>

definition field_view :: "string list \<Rightarrow> json \<Rightarrow> json list" where
  "field_view keys v = (case v of
      JList items \<Rightarrow> concat (map (\<lambda>it. case it of
          JObj d \<Rightarrow> [JObj (map (\<lambda>k. (k, obj_get d k)) keys)] | _ \<Rightarrow> []) items)
    | _ \<Rightarrow> [])"

definition opt_json :: "('a \<Rightarrow> json) \<Rightarrow> 'a option \<Rightarrow> json" where
  "opt_json f v = (case v of None \<Rightarrow> JNull | Some x \<Rightarrow> f x)"

definition safe_view :: "notification_log \<Rightarrow> (string \<times> json) list" where
  "safe_view r =
    [(''id'', JInt (nl_id r)), (''tender_id'', opt_json JInt (nl_tender_id r)),
     (''verdict_id'', opt_json JInt (nl_verdict_id r)),
     (''correlation_id'', opt_json JStr (nl_correlation_id r)), (''status'', JStr (nl_status r)),
     (''provider_used'', opt_json JStr (nl_provider_used r)),
     (''dedupe_key'', JStr (nl_dedupe_key r)),
     (''possible_duplicate'', JBool (nl_possible_duplicate r)),
     (''recipients'', JList (field_view [''email'', ''delivery''] (nl_recipients_snapshot r))),
     (''attachments'', JList (field_view [''document_id'', ''filename''] (nl_attachments r))),
     (''links'', JList (field_view [''document_id'', ''filename'', ''expires_at''] (nl_links r)))]"

end
