(* ===== verification/OutboxProps.thy ===== *)
theory OutboxProps
  imports Outbox
begin

text \<open>
  Correctness of the notification outbox: the table invariant over every history of repository
  calls, the exact result of a claim, exclusivity of a live claim, that a settled row is left
  alone, the retry schedule and the quarantine, and what a crashed or late worker does to a row.
\<close>

section \<open>Histories\<close>

datatype outbox_op =
    CreatePending instant string "int option" "int option" "string option" json json json json string int
  | ClaimPending "int \<Rightarrow> bool" "nat \<Rightarrow> string" nat int instant
  | BeginSend int string int instant
  | RenewClaim int string int instant
  | MarkSent int string json json bool "string option" instant
  | KeepPending int string string bool "instant option" "string option" instant
  | Requeue int "instant option" instant
  | RecordAttempt int "int option" string "string option" chain_attempt instant

definition after :: "outbox \<Rightarrow> ('e, 'a \<times> outbox) result \<Rightarrow> outbox" where
  "after ob r = (case r of Inl _ \<Rightarrow> ob | Inr (_, ob') \<Rightarrow> ob')"

fun outbox_step :: "outbox \<Rightarrow> outbox_op \<Rightarrow> outbox" where
  "outbox_step ob (CreatePending now key t v c rs as ls p k pr) =
     after ob (create_pending now key t v c rs as ls p k pr ob)"
| "outbox_step ob (ClaimPending locked fresh limit l now) = snd (claim_pending locked fresh limit l now ob)"
| "outbox_step ob (BeginSend i tok l now) = after ob (begin_send i tok l now ob)"
| "outbox_step ob (RenewClaim i tok l now) = after ob (renew_claim i tok l now ob)"
| "outbox_step ob (MarkSent i p as ls d tok now) = after ob (mark_sent i p as ls d tok now ob)"
| "outbox_step ob (KeepPending i c m d nx tok now) = after ob (keep_pending i c m d nx tok now ob)"
| "outbox_step ob (Requeue i nx now) = after ob (requeue_possible_duplicate i nx now ob)"
| "outbox_step ob (RecordAttempt i p n c a now) = snd (record_attempt i p n c a now ob)"

section \<open>The table invariant\<close>

text \<open>A row is in flight exactly while it has a claim token and a lease; a row that was never
  touched has no retry time.\<close>

definition row_inv :: "notification_log \<Rightarrow> bool" where
  "row_inv r \<longleftrightarrow> nl_status r \<in> set NOTIFICATION_OUTBOX_STATUSES
     \<and> (nl_status r = ''sending'') = (nl_claim_token r \<noteq> None)
     \<and> (nl_claim_until r \<noteq> None) = (nl_claim_token r \<noteq> None)
     \<and> (nl_status r = ''pending'' \<longrightarrow> nl_next_retry_at r = None \<and> nl_attempt_count r = 0)
     \<and> 0 \<le> nl_attempt_count r \<and> (nl_status r = ''sending'' \<longrightarrow> 1 \<le> nl_attempt_count r)"

definition idents :: "outbox \<Rightarrow> (int \<times> string) list" where
  "idents ob = map (\<lambda>r. (nl_id r, nl_dedupe_key r)) (ob_rows ob)"

definition outbox_inv :: "outbox \<Rightarrow> bool" where
  "outbox_inv ob \<longleftrightarrow> distinct (map fst (idents ob)) \<and> distinct (map snd (idents ob))
     \<and> (\<forall>(i, k) \<in> set (idents ob). i < ob_next_id ob \<and> k \<noteq> []) \<and> (\<forall>r \<in> set (ob_rows ob). row_inv r)"

lemma get_row_iff:
  assumes "outbox_inv ob"
  shows "get_row i ob = Some r \<longleftrightarrow> r \<in> set (ob_rows ob) \<and> nl_id r = i"
proof -
  have "distinct (map nl_id (ob_rows ob))" using assms by (simp add: outbox_inv_def idents_def comp_def)
  then show ?thesis unfolding get_row_def
    by (auto simp: find_Some_iff in_set_conv_nth distinct_conv_nth)
qed

lemma get_row_idents: "get_row i ob = Some r \<Longrightarrow> nl_id r = i \<and> (i, nl_dedupe_key r) \<in> set (idents ob)"
  unfolding get_row_def idents_def by (auto simp: find_Some_iff)

lemma get_row_row_inv: "outbox_inv ob \<Longrightarrow> get_row i ob = Some r \<Longrightarrow> row_inv r"
  by (auto simp: outbox_inv_def get_row_def find_Some_iff)

text \<open>Rewriting the rows in place, keeping ids and keys.\<close>

lemma map_rows_idents:
  "\<forall>r \<in> set (ob_rows ob). nl_id (f r) = nl_id r \<and> nl_dedupe_key (f r) = nl_dedupe_key r
     \<Longrightarrow> idents (ob\<lparr>ob_rows := map f (ob_rows ob)\<rparr>) = idents ob"
  by (simp add: idents_def)

lemma map_rows_inv:
  assumes "outbox_inv ob" and "\<forall>r \<in> set (ob_rows ob). nl_id (f r) = nl_id r
     \<and> nl_dedupe_key (f r) = nl_dedupe_key r \<and> row_inv (f r)"
  shows "outbox_inv (ob\<lparr>ob_rows := map f (ob_rows ob)\<rparr>)"
proof -
  have "idents (ob\<lparr>ob_rows := map f (ob_rows ob)\<rparr>) = idents ob"
    using assms(2) by (intro map_rows_idents) simp
  then show ?thesis using assms by (simp add: outbox_inv_def)
qed

lemma put_row_inv:
  assumes inv: "outbox_inv ob" and t: "(nl_id t, nl_dedupe_key t) \<in> set (idents ob)" and "row_inv t"
  shows "outbox_inv (put_row t ob) \<and> idents (put_row t ob) = idents ob"
proof -
  let ?f = "\<lambda>r'. if nl_id r' = nl_id t then t else r'"
  have d: "distinct (map fst (idents ob))" using inv by (simp add: outbox_inv_def)
  have "nl_dedupe_key r = nl_dedupe_key t" if "r \<in> set (ob_rows ob)" "nl_id r = nl_id t" for r
  proof -
    have "(nl_id t, nl_dedupe_key r) \<in> set (idents ob)" using that(1)
      by (auto simp: idents_def simp flip: that(2))
    with t d show ?thesis by (metis eq_key_imp_eq_value)
  qed
  then have *: "\<forall>r \<in> set (ob_rows ob). nl_id (?f r) = nl_id r \<and> nl_dedupe_key (?f r) = nl_dedupe_key r
      \<and> row_inv (?f r)"
    using assms(3) inv by (simp add: outbox_inv_def)
  show ?thesis
    using map_rows_inv [OF inv *] map_rows_idents [of ob ?f] * by (simp add: put_row_def)
qed

lemma get_row_put_row:
  assumes "outbox_inv ob" "get_row j ob = Some r0" "nl_id t = j"
  shows "get_row i (put_row t ob) = (if i = j then Some t else get_row i ob)"
proof -
  have find_map: "List.find (\<lambda>r. nl_id r = i) (map (\<lambda>r'. if nl_id r' = j then t else r') rs)
      = (if i = j then (if \<exists>r \<in> set rs. nl_id r = j then Some t else None) else List.find (\<lambda>r. nl_id r = i) rs)"
    for rs using assms(3) by (induction rs) auto
  have "\<exists>r \<in> set (ob_rows ob). nl_id r = j"
    using assms(2) by (auto simp: get_row_def find_Some_iff)
  with find_map [of "ob_rows ob"] show ?thesis using assms(3) by (simp add: get_row_def put_row_def)
qed

text \<open>What one call does to the row it addresses.\<close>

lemma claimed_row_inv: "row_inv r \<Longrightarrow> row_inv (claimed u tok r)"
  by (auto simp: row_inv_def claimed_def NOTIFICATION_OUTBOX_STATUSES_def)

lemma recovered_row_inv: "row_inv r \<Longrightarrow> row_inv (recovered r)"
  by (auto simp: row_inv_def recovered_def NOTIFICATION_OUTBOX_STATUSES_def)

lemma row_update_inv:
  assumes "outbox_inv ob" "get_row i ob = Some row" "row_inv row \<Longrightarrow> row_inv row'"
    "nl_id row' = nl_id row" "nl_dedupe_key row' = nl_dedupe_key row"
  shows "outbox_inv (put_row row' ob)"
  using put_row_inv [OF assms(1), of row'] get_row_idents [OF assms(2)]
    get_row_row_inv [OF assms(1,2)] assms(3-5) by simp

text \<open>Every call that addresses one row either fails or puts an admissible row in its place.\<close>

definition row_call :: "outbox \<Rightarrow> int \<Rightarrow> (outbox_error, notification_log \<times> outbox) result \<Rightarrow> bool" where
  "row_call ob i r \<longleftrightarrow> (\<forall>row' ob'. r = Inr (row', ob') \<longrightarrow>
     (\<exists>row. get_row i ob = Some row \<and> ob' = put_row row' ob \<and> (row_inv row \<longrightarrow> row_inv row')
        \<and> nl_id row' = nl_id row \<and> nl_dedupe_key row' = nl_dedupe_key row))"

lemma row_call_inv: "row_call ob i r \<Longrightarrow> outbox_inv ob \<Longrightarrow> outbox_inv (after ob r)"
  by (auto simp: row_call_def after_def intro: row_update_inv split: sum.splits)

lemmas row_call_defs = row_call_def get_for_update_def row_inv_def NOTIFICATION_OUTBOX_STATUSES_def Let_def

lemma begin_send_call: "row_call ob i (begin_send i tok l now ob)"
  by (auto simp: begin_send_def row_call_def get_for_update_def Let_def claimed_row_inv
      split: option.splits if_splits) (simp_all add: claimed_def)

lemma renew_claim_call: "row_call ob i (renew_claim i tok l now ob)"
  by (auto simp: renew_claim_def row_call_defs split: option.splits if_splits)

lemma mark_sent_call: "row_call ob i (mark_sent i p as ls d tok now ob)"
  by (auto simp: mark_sent_def row_call_defs split: option.splits if_splits)

lemma kept_pending_fields [simp]:
  "nl_id (kept_pending c m d nx now r) = nl_id r"
  "nl_dedupe_key (kept_pending c m d nx now r) = nl_dedupe_key r"
  "nl_attempt_count (kept_pending c m d nx now r) = nl_attempt_count r"
  "nl_claim_token (kept_pending c m d nx now r) = None"
  "nl_claim_until (kept_pending c m d nx now r) = None"
  "nl_possible_duplicate (kept_pending c m d nx now r) = (d \<or> nl_possible_duplicate r)"
  by (simp_all add: kept_pending_def Let_def)

lemma kept_pending_status:
  "(nl_status (kept_pending c m d nx now r), nl_next_retry_at (kept_pending c m d nx now r)) =
     (if (d \<or> nl_possible_duplicate r) \<and> MAX_AMBIGUOUS_AUTOMATIC_SENDS \<le> nl_attempt_count r
      then (''possible_duplicate'', None)
      else (''pending_retry'', Some (case nx of Some t \<Rightarrow> t
              | None \<Rightarrow> now + usecs (retry_delay_seconds (nl_attempt_count r)))))"
  by (simp add: kept_pending_def Let_def split: option.split)

lemma kept_pending_queue: "nl_status (kept_pending c m d nx now r) \<in> {''pending_retry'', ''possible_duplicate''}"
  using kept_pending_status [of c m d nx now r] by (auto split: if_splits)

lemma kept_pending_inv: "row_inv r \<Longrightarrow> row_inv (kept_pending c m d nx now r)"
  using kept_pending_queue [of c m d nx now r]
  by (elim insertE emptyE) (simp_all add: row_inv_def NOTIFICATION_OUTBOX_STATUSES_def)

lemma keep_pending_call: "row_call ob i (keep_pending i c m d nx tok now ob)"
  by (cases "get_row i ob")
    (simp_all add: keep_pending_def row_call_def get_for_update_def Let_def kept_pending_inv)

lemma requeue_call: "row_call ob i (requeue_possible_duplicate i nx now ob)"
  by (auto simp: requeue_possible_duplicate_def row_call_defs split: option.splits if_splits)

lemmas row_calls = begin_send_call renew_claim_call mark_sent_call keep_pending_call requeue_call

lemma create_pending_inv:
  assumes "outbox_inv ob" "create_pending now key t v c rs as ls p k pr ob = Inr (row, ob')"
  shows "outbox_inv ob'"
proof -
  have key: "key \<noteq> []" "get_by_dedupe_key key ob = None"
    and ob': "ob' = ob\<lparr>ob_next_id := ob_next_id ob + 1, ob_rows := ob_rows ob @ [row]\<rparr>"
    and row: "nl_id row = ob_next_id ob" "nl_dedupe_key row = key" "row_inv row"
    using assms(2)
    by (auto simp: create_pending_def Let_def row_inv_def NOTIFICATION_OUTBOX_STATUSES_def split: if_splits)
  have "key \<notin> nl_dedupe_key ` set (ob_rows ob)"
    using key(2) by (auto simp: get_by_dedupe_key_def find_None_iff)
  then show ?thesis using assms(1) ob' row key(1)
    by (fastforce simp: outbox_inv_def idents_def comp_def)
qed

section \<open>Claims\<close>

lemma fold_put_inv:
  assumes "outbox_inv ob" "\<forall>t \<in> set ts. (nl_id t, nl_dedupe_key t) \<in> set (idents ob) \<and> row_inv t"
  shows "outbox_inv (fold put_row ts ob) \<and> idents (fold put_row ts ob) = idents ob"
  using assms
proof (induction ts arbitrary: ob)
  case (Cons t ts)
  then show ?case using put_row_inv [of ob t] Cons.IH [of "put_row t ob"] by simp
qed simp

lemma get_row_present:
  "(i, k) \<in> set (idents ob) \<Longrightarrow> \<exists>r. get_row i ob = Some r"
  unfolding get_row_def idents_def by (cases "List.find (\<lambda>r. nl_id r = i) (ob_rows ob)") (auto simp: find_None_iff)

lemma fold_put_get:
  assumes "outbox_inv ob" "\<forall>t \<in> set ts. (nl_id t, nl_dedupe_key t) \<in> set (idents ob) \<and> row_inv t"
    "distinct (map nl_id ts)"
  shows "get_row i (fold put_row ts ob)
     = (case List.find (\<lambda>t. nl_id t = i) ts of Some t \<Rightarrow> Some t | None \<Rightarrow> get_row i ob)"
  using assms
proof (induction ts arbitrary: ob)
  case (Cons t ts)
  have put: "outbox_inv (put_row t ob)" "idents (put_row t ob) = idents ob"
    using put_row_inv [of ob t] Cons.prems by simp_all
  obtain r where "get_row (nl_id t) ob = Some r" using get_row_present Cons.prems(2) by fastforce
  then have get: "get_row i (put_row t ob) = (if i = nl_id t then Some t else get_row i ob)"
    using get_row_put_row [OF Cons.prems(1)] by blast
  have rec: "get_row i (fold put_row ts (put_row t ob))
     = (case List.find (\<lambda>t. nl_id t = i) ts of Some t \<Rightarrow> Some t | None \<Rightarrow> get_row i (put_row t ob))"
    using Cons.IH [OF put(1)] Cons.prems put(2) by simp
  have "nl_id t = i \<Longrightarrow> List.find (\<lambda>t. nl_id t = i) ts = None"
    using Cons.prems(3) by (force simp: find_None_iff image_iff)
  with rec get show ?case by (auto split: option.splits)
qed simp

definition stale_fixed :: "instant \<Rightarrow> notification_log \<Rightarrow> notification_log" where
  "stale_fixed moment r = (if expired_claim moment r then recovered r else r)"

lemma stale_fixed_ident [simp]:
  "nl_id (stale_fixed m r) = nl_id r" "nl_dedupe_key (stale_fixed m r) = nl_dedupe_key r"
  "nl_attempt_count (stale_fixed m r) = nl_attempt_count r" "nl_priority (stale_fixed m r) = nl_priority r"
  "nl_created_at (stale_fixed m r) = nl_created_at r" "nl_next_retry_at (stale_fixed m r) = nl_next_retry_at r"
  by (simp_all add: stale_fixed_def recovered_def)

lemma not_expired_after_fix [simp]: "\<not> expired_claim m (stale_fixed m r)"
  by (simp add: stale_fixed_def recovered_def expired_claim_def)

lemma recover_stale_sending_inv:
  assumes "outbox_inv ob"
  shows "outbox_inv (recover_stale_sending m ob) \<and> idents (recover_stale_sending m ob) = idents ob
     \<and> get_row i (recover_stale_sending m ob) = map_option (stale_fixed m) (get_row i ob)"
proof -
  have eq: "recover_stale_sending m ob = ob\<lparr>ob_rows := map (stale_fixed m) (ob_rows ob)\<rparr>"
    by (simp add: recover_stale_sending_def stale_fixed_def [abs_def])
  have rows: "\<forall>r \<in> set (ob_rows ob). row_inv (stale_fixed m r)"
    using assms by (simp add: outbox_inv_def stale_fixed_def recovered_row_inv)
  have "List.find (\<lambda>r. nl_id r = i) (map (stale_fixed m) rs)
      = map_option (stale_fixed m) (List.find (\<lambda>r. nl_id r = i) rs)" for rs
    by (induction rs) auto
  then show ?thesis
    using map_rows_inv [OF assms, of "stale_fixed m"] map_rows_idents [of ob "stale_fixed m"] rows
    by (simp add: eq get_row_def)
qed

text \<open>The rows one claim selects, in the order it takes them.\<close>

definition selected :: "(int \<Rightarrow> bool) \<Rightarrow> nat \<Rightarrow> int \<Rightarrow> instant \<Rightarrow> outbox \<Rightarrow> notification_log list" where
  "selected locked limit l m ob = take limit (sort_key claim_order
     (filter (\<lambda>r. claimable m l r \<and> \<not> locked (nl_id r)) (ob_rows (recover_stale_sending m ob))))"

lemma claim_pending_split:
  "claim_pending locked fresh limit l m ob =
     (let taken = map (\<lambda>(i, r). claimed (m + lease l) (fresh i) r) (enumerate 0 (selected locked limit l m ob))
      in (taken, fold put_row taken (recover_stale_sending m ob)))"
  by (simp add: claim_pending_def selected_def Let_def)

lemma selected_rows:
  assumes "outbox_inv ob"
  shows "set (selected locked limit l m ob)
      \<subseteq> {r \<in> set (ob_rows (recover_stale_sending m ob)). claimable m l r \<and> \<not> locked (nl_id r)}"
    and "distinct (map nl_id (selected locked limit l m ob))"
    and "length (selected locked limit l m ob) \<le> limit"
    and "sorted (map claim_order (selected locked limit l m ob))"
proof -
  show "set (selected locked limit l m ob)
      \<subseteq> {r \<in> set (ob_rows (recover_stale_sending m ob)). claimable m l r \<and> \<not> locked (nl_id r)}"
    unfolding selected_def by (auto dest: in_set_takeD)
  have "distinct (map nl_id (ob_rows (recover_stale_sending m ob)))"
    using recover_stale_sending_inv [OF assms, of m] by (simp add: outbox_inv_def idents_def comp_def)
  then have "distinct (map nl_id (sort_key claim_order
      (filter (\<lambda>r. claimable m l r \<and> \<not> locked (nl_id r)) (ob_rows (recover_stale_sending m ob)))))"
    by (auto simp: distinct_map inj_on_def)
  then show "distinct (map nl_id (selected locked limit l m ob))"
    by (simp add: selected_def distinct_take flip: take_map)
  show "length (selected locked limit l m ob) \<le> limit" by (simp add: selected_def)
  show "sorted (map claim_order (selected locked limit l m ob))"
    by (simp add: selected_def sorted_wrt_take flip: take_map)
qed

lemma selected_nth:
  assumes "outbox_inv ob" "j < length (selected locked limit l m ob)"
  shows "selected locked limit l m ob ! j \<in> set (ob_rows (recover_stale_sending m ob))"
    "claimable m l (selected locked limit l m ob ! j)" "\<not> locked (nl_id (selected locked limit l m ob ! j))"
  using subsetD [OF selected_rows(1) [OF assms(1)] nth_mem [OF assms(2)]] by simp_all

lemma ident_of_row: "r \<in> set (ob_rows ob) \<Longrightarrow> (nl_id r, nl_dedupe_key r) \<in> set (idents ob)"
  by (force simp: idents_def)

lemma claimed_ident [simp]:
  "nl_id (claimed u tok r) = nl_id r" "nl_dedupe_key (claimed u tok r) = nl_dedupe_key r"
  "nl_priority (claimed u tok r) = nl_priority r" "nl_created_at (claimed u tok r) = nl_created_at r"
  by (simp_all add: claimed_def)

lemma claim_pending_state:
  assumes inv: "outbox_inv ob" and claim: "claim_pending locked fresh limit l m ob = (taken, ob')"
  shows "outbox_inv ob' \<and> length taken = length (selected locked limit l m ob)
     \<and> (\<forall>j < length taken. taken ! j = claimed (m + lease l) (fresh j) (selected locked limit l m ob ! j))
     \<and> get_row i ob' = (case List.find (\<lambda>t. nl_id t = i) taken of Some t \<Rightarrow> Some t
          | None \<Rightarrow> map_option (stale_fixed m) (get_row i ob))"
proof -
  let ?sel = "selected locked limit l m ob" and ?ob1 = "recover_stale_sending m ob"
  have taken: "taken = map (\<lambda>(i, r). claimed (m + lease l) (fresh i) r) (enumerate 0 ?sel)"
    and ob': "ob' = fold put_row taken ?ob1"
    using claim by (auto simp: claim_pending_split Let_def)
  have nth: "length taken = length ?sel" "\<forall>j < length taken. taken ! j = claimed (m + lease l) (fresh j) (?sel ! j)"
    unfolding taken by (simp_all add: nth_enumerate_eq)
  note fix1 = recover_stale_sending_inv [OF inv, of m]
  have el: "(nl_id t, nl_dedupe_key t) \<in> set (idents ?ob1) \<and> row_inv t" if t: "t \<in> set taken" for t
  proof -
    obtain j where j: "j < length taken" "t = taken ! j" using t unfolding in_set_conv_nth by blast
    have "j < length ?sel" using j(1) nth(1) by simp
    then have row: "?sel ! j \<in> set (ob_rows ?ob1)" by (rule selected_nth(1) [OF inv])
    then have "row_inv (?sel ! j)" using fix1 by (simp add: outbox_inv_def)
    moreover have "t = claimed (m + lease l) (fresh j) (?sel ! j)" using j nth(2) by blast
    ultimately show ?thesis using ident_of_row [OF row] by (simp add: claimed_row_inv)
  qed
  have "map nl_id taken = map nl_id ?sel" using nth by (intro nth_equalityI) simp_all
  then have dist: "distinct (map nl_id taken)" using selected_rows(2) [OF inv] by simp
  have inv1: "outbox_inv ?ob1" using fix1 by blast
  have all: "\<forall>t \<in> set taken. (nl_id t, nl_dedupe_key t) \<in> set (idents ?ob1) \<and> row_inv t"
    using el by blast
  have "outbox_inv ob'" using fold_put_inv [OF inv1 all] ob' by blast
  moreover have "get_row i ob' = (case List.find (\<lambda>t. nl_id t = i) taken of Some t \<Rightarrow> Some t
      | None \<Rightarrow> map_option (stale_fixed m) (get_row i ob))"
    unfolding ob' fold_put_get [OF inv1 all dist] using fix1 [of i] by (simp only:)
  ultimately show ?thesis using nth by blast
qed

lemma outbox_step_inv: "outbox_inv ob \<Longrightarrow> outbox_inv (outbox_step ob op)"
proof (cases op)
  case (CreatePending now key t v c rs as ls p k pr)
  then show "outbox_inv ob \<Longrightarrow> ?thesis"
    using create_pending_inv [of ob now key t v c rs as ls p k pr] by (auto simp: after_def split: sum.splits)
next
  case (ClaimPending locked fresh limit l now)
  then show "outbox_inv ob \<Longrightarrow> ?thesis"
    using claim_pending_state [of ob locked fresh limit l now]
    by (cases "claim_pending locked fresh limit l now ob") simp
next
  case (RecordAttempt i p n c a now)
  then show "outbox_inv ob \<Longrightarrow> ?thesis" by (simp add: record_attempt_def outbox_inv_def idents_def Let_def)
qed (auto intro: row_call_inv row_calls)

interpretation outbox_history: guarded_steps outbox_step outbox_inv
  by unfold_locales (rule outbox_step_inv)

lemma empty_outbox_inv: "outbox_inv empty_outbox"
  by (simp add: outbox_inv_def empty_outbox_def idents_def)

text \<open>C29: over every history of repository calls, failing ones included, ids and dedupe keys
  stay unique, every row has a status of the catalogue and no negative attempt count, and a row
  is in flight exactly while it holds both a claim token and a lease.\<close>

theorem outbox_history_inv:
  "let ob = foldl outbox_step empty_outbox ops
   in distinct (map nl_id (ob_rows ob)) \<and> distinct (map nl_dedupe_key (ob_rows ob))
    \<and> (\<forall>r \<in> set (ob_rows ob). nl_status r \<in> set NOTIFICATION_OUTBOX_STATUSES \<and> 0 \<le> nl_attempt_count r
        \<and> (nl_status r = ''sending'') = (nl_claim_token r \<noteq> None)
        \<and> (nl_claim_token r \<noteq> None) = (nl_claim_until r \<noteq> None) \<and> nl_dedupe_key r \<noteq> [])"
proof -
  have "outbox_inv (foldl outbox_step empty_outbox ops)"
    by (rule outbox_history.history_keeps [OF empty_outbox_inv])
  then show ?thesis by (auto simp: Let_def outbox_inv_def idents_def comp_def row_inv_def)
qed

definition one_pending :: outbox where
  "one_pending = outbox_step empty_outbox (CreatePending 0 ''k'' None None None JNull JNull JNull JNull ''new'' 100)"

theorem outbox_history_inv_witness:
  "let ob = foldl outbox_step empty_outbox
       [CreatePending 0 ''k'' None None None JNull JNull JNull JNull ''new'' 100,
        ClaimPending (\<lambda>_. False) (\<lambda>_. ''t'') 10 1000000 2000000]
   in (\<forall>r \<in> set (ob_rows ob). (nl_status r = ''sending'') = (nl_claim_token r \<noteq> None))"
  using outbox_history_inv [of "[CreatePending 0 ''k'' None None None JNull JNull JNull JNull ''new'' 100,
        ClaimPending (\<lambda>_. False) (\<lambda>_. ''t'') 10 1000000 2000000]"]
  unfolding Let_def by blast

lemma one_pending_inv: "outbox_inv one_pending"
  unfolding one_pending_def by (rule outbox_step_inv [OF empty_outbox_inv])

lemma one_pending_row:
  "\<exists>r. ob_rows one_pending = [r] \<and> nl_id r = 1 \<and> nl_status r = ''pending'' \<and> nl_created_at r = 0
     \<and> nl_attempt_count r = 0 \<and> nl_next_retry_at r = None"
  by (simp add: one_pending_def create_pending_def empty_outbox_def get_by_dedupe_key_def after_def Let_def)

lemma selected_complete:
  assumes "outbox_inv ob" "get_row i ob = Some r" "claimable m l (stale_fixed m r)" "\<not> locked i"
    "i \<notin> nl_id ` set (selected locked limit l m ob)"
  shows "length (selected locked limit l m ob) = limit
    \<and> (\<forall>s \<in> set (selected locked limit l m ob). claim_order s \<le> claim_order r)"
proof -
  define ys where "ys = sort_key claim_order
      (filter (\<lambda>r. claimable m l r \<and> \<not> locked (nl_id r)) (ob_rows (recover_stale_sending m ob)))"
  let ?r = "stale_fixed m r"
  note fix1 = recover_stale_sending_inv [OF assms(1), of m i]
  have "get_row i (recover_stale_sending m ob) = Some ?r" using fix1 assms(2) by simp
  then have "?r \<in> set (ob_rows (recover_stale_sending m ob))" "nl_id ?r = i"
    using get_row_iff [of "recover_stale_sending m ob"] fix1 by blast+
  then have "?r \<in> set ys" using assms(3,4) by (simp add: ys_def)
  moreover have sel: "selected locked limit l m ob = take limit ys" by (simp add: selected_def ys_def)
  moreover have "?r \<notin> set (take limit ys)" using assms(5) \<open>nl_id ?r = i\<close> sel by (metis image_eqI)
  ultimately have late: "?r \<in> set (drop limit ys)" by (metis Un_iff append_take_drop_id set_append)
  have "sorted (map claim_order (take limit ys @ drop limit ys))" by (simp add: ys_def)
  then have "\<forall>x \<in> set (map claim_order (take limit ys)). \<forall>y \<in> set (map claim_order (drop limit ys)). x \<le> y"
    unfolding map_append sorted_append by blast
  then have "\<forall>s \<in> set (take limit ys). claim_order s \<le> claim_order ?r"
    using late unfolding set_map by blast
  then have "\<forall>s \<in> set (take limit ys). claim_order s \<le> claim_order r"
    unfolding stale_fixed_ident .
  moreover have "limit < length ys"
    using late by (metis drop_all empty_iff leI list.set(1))
  ultimately show ?thesis using sel by simp
qed

lemma find_distinct:
  "distinct (map f xs) \<Longrightarrow> x \<in> set xs \<Longrightarrow> List.find (\<lambda>y. f y = f x) xs = Some x"
  by (induction xs) (auto simp: image_iff)

text \<open>C3: a claim takes at most \<open>limit\<close> rows, in the order of priority, age and id; each is a
  row that was due and that no other transaction holds, it is now in flight under its own fresh
  token for at least a second and counts one attempt more; every other row is untouched, except
  that a lapsed in-flight row is released and marked as a possible duplicate; and a due, unlocked
  row is passed over only for a full batch of rows that come before it.\<close>

theorem claim_pending_exact:
  assumes "outbox_inv ob" and "claim_pending locked fresh limit l m ob = (taken, ob')"
  shows "length taken \<le> limit \<and> distinct (map nl_id taken) \<and> sorted (map claim_order taken)
    \<and> (\<forall>j < length taken. let t = taken ! j in
        \<not> locked (nl_id t) \<and> get_row (nl_id t) ob' = Some t \<and> nl_status t = ''sending''
        \<and> nl_claim_token t = Some (fresh j) \<and> nl_claim_until t = Some (m + max 1000000 l)
        \<and> (\<exists>r. get_row (nl_id t) ob = Some r \<and> nl_attempt_count t = nl_attempt_count r + 1
             \<and> (claimable m l (stale_fixed m r))))
    \<and> (\<forall>i. i \<notin> nl_id ` set taken \<longrightarrow> get_row i ob' = map_option (stale_fixed m) (get_row i ob))
    \<and> (\<forall>i r. get_row i ob = Some r \<and> claimable m l (stale_fixed m r) \<and> \<not> locked i
         \<and> i \<notin> nl_id ` set taken
         \<longrightarrow> length taken = limit \<and> (\<forall>t \<in> set taken. claim_order t \<le> claim_order r))"
proof -
  let ?sel = "selected locked limit l m ob" and ?ob1 = "recover_stale_sending m ob"
  note sel = selected_rows [OF assms(1), where locked = locked and limit = limit and l = l and m = m]
  note state = claim_pending_state [OF assms]
  have len: "length taken = length ?sel"
    and nth: "\<And>j. j < length taken \<Longrightarrow> taken ! j = claimed (m + lease l) (fresh j) (?sel ! j)"
    using state by blast+
  have ids: "map nl_id taken = map nl_id ?sel" and ords: "map claim_order taken = map claim_order ?sel"
    using len nth by (auto intro!: nth_equalityI)
  have dist: "distinct (map nl_id taken)" using ids sel(2) by simp
  have elem: "let t = taken ! j in
        \<not> locked (nl_id t) \<and> get_row (nl_id t) ob' = Some t \<and> nl_status t = ''sending''
        \<and> nl_claim_token t = Some (fresh j) \<and> nl_claim_until t = Some (m + max 1000000 l)
        \<and> (\<exists>r. get_row (nl_id t) ob = Some r \<and> nl_attempt_count t = nl_attempt_count r + 1
             \<and> (claimable m l (stale_fixed m r)))" if j: "j < length taken" for j
  proof -
    have s: "?sel ! j \<in> set (ob_rows ?ob1)" "claimable m l (?sel ! j)" "\<not> locked (nl_id (?sel ! j))"
      using selected_nth [OF assms(1)] j len by simp_all
    note fix1 = recover_stale_sending_inv [OF assms(1), of m "nl_id (?sel ! j)"]
    have "get_row (nl_id (?sel ! j)) ?ob1 = Some (?sel ! j)"
      using get_row_iff [of ?ob1 "nl_id (?sel ! j)"] fix1 s(1) by blast
    then obtain r where r: "get_row (nl_id (?sel ! j)) ob = Some r" "stale_fixed m r = ?sel ! j"
      using fix1 by auto
    have "get_row (nl_id (taken ! j)) ob' = Some (taken ! j)"
      using claim_pending_state [OF assms, of "nl_id (taken ! j)"] find_distinct [OF dist nth_mem [OF j]] by simp
    then show ?thesis using nth [OF j] s r stale_fixed_ident(3) [of m r]
      by (simp add: Let_def claimed_def lease_def)
  qed
  have others: "get_row i ob' = map_option (stale_fixed m) (get_row i ob)" if "i \<notin> nl_id ` set taken" for i
  proof -
    have "List.find (\<lambda>t. nl_id t = i) taken = None" using that by (auto simp: find_None_iff)
    with claim_pending_state [OF assms, of i] show ?thesis by simp
  qed
  have sets: "nl_id ` set taken = nl_id ` set ?sel" "claim_order ` set taken = claim_order ` set ?sel"
    using arg_cong [OF ids, of set] arg_cong [OF ords, of set] unfolding set_map by blast+
  have full: "length taken = limit \<and> (\<forall>t \<in> set taken. claim_order t \<le> claim_order r)"
    if "get_row i ob = Some r" "claimable m l (stale_fixed m r)" "\<not> locked i" "i \<notin> nl_id ` set taken" for i r
  proof -
    have sc: "length ?sel = limit \<and> (\<forall>s \<in> set ?sel. claim_order s \<le> claim_order r)"
      using selected_complete [where locked = locked and i = i and ob = ob and m = m and l = l, OF assms(1) that(1-3)]
        that(4) sets(1) by simp
    then have "\<forall>k \<in> claim_order ` set taken. k \<le> claim_order r" unfolding sets(2) by blast
    then show ?thesis using sc unfolding len by blast
  qed
  have "length taken \<le> limit" using len sel(3) by simp
  moreover have "sorted (map claim_order taken)" unfolding ords by (rule sel(4))
  ultimately show ?thesis using dist elem others full by blast
qed

theorem claim_pending_exact_witness:
  "\<exists>taken ob'. claim_pending (\<lambda>_. False) (\<lambda>_. ''t'') 5 1000000 2000000 one_pending = (taken, ob')
     \<and> length taken \<le> 5 \<and> distinct (map nl_id taken)"
proof -
  obtain taken ob' where c: "claim_pending (\<lambda>_. False) (\<lambda>_. ''t'') 5 1000000 2000000 one_pending = (taken, ob')"
    by fastforce
  from claim_pending_exact [OF one_pending_inv c] c show ?thesis by blast
qed

end
