(* ===== verification/OutboxFlow.thy ===== *)
theory OutboxFlow
  imports OutboxProps
begin

text \<open>
  The life of one outbox row: a live lease is exclusive, a settled row is left alone by every
  call that does not address it, the retry schedule and the quarantine of \<open>keep_pending\<close>, what
  repeated worker crashes and a late worker do, and the statuses a row can move between.
\<close>

section \<open>Exclusivity of a live claim\<close>

lemma claim_skips:
  assumes "outbox_inv ob" "get_row i ob = Some r" "\<not> claimable m l (stale_fixed m r)"
  shows "i \<notin> nl_id ` set (fst (claim_pending locked fresh limit l m ob))
    \<and> get_row i (snd (claim_pending locked fresh limit l m ob)) = Some (stale_fixed m r)"
proof -
  obtain taken ob' where claim: "claim_pending locked fresh limit l m ob = (taken, ob')" by fastforce
  have not_sel: "i \<notin> nl_id ` set (selected locked limit l m ob)"
  proof
    assume "i \<in> nl_id ` set (selected locked limit l m ob)"
    then obtain s where s: "s \<in> set (ob_rows (recover_stale_sending m ob))" "claimable m l s" "nl_id s = i"
      using selected_rows(1) [OF assms(1)] by blast
    then have "get_row i (recover_stale_sending m ob) = Some s"
      using get_row_iff recover_stale_sending_inv [OF assms(1)] by blast
    with s(2) show False using recover_stale_sending_inv [OF assms(1), of m i] assms(2,3) by simp
  qed
  have len: "length taken = length (selected locked limit l m ob)"
    and nth: "\<And>j. j < length taken \<Longrightarrow> nl_id (taken ! j) = nl_id (selected locked limit l m ob ! j)"
    using claim_pending_state [OF assms(1) claim, of i] by simp_all
  have "map nl_id taken = map nl_id (selected locked limit l m ob)"
    using len nth by (intro nth_equalityI) simp_all
  from arg_cong [OF this, of set] not_sel have out: "i \<notin> nl_id ` set taken" unfolding set_map by simp
  then have "List.find (\<lambda>t. nl_id t = i) taken = None" by (auto simp: find_None_iff)
  then show ?thesis using claim_pending_state [OF assms(1) claim, of i] assms(2) out claim by simp
qed

text \<open>C30: until its lease runs out, a row in flight is taken by no claim, whoever asks, and no
  worker can begin to send it; the claim leaves the row as it is.\<close>

theorem live_claim_exclusive:
  assumes "outbox_inv ob" and "get_row i ob = Some r"
    and "nl_status r = ''sending''" and "nl_claim_until r = Some u" and "now < u"
  shows "i \<notin> nl_id ` set (fst (claim_pending locked fresh limit l now ob))
    \<and> get_row i (snd (claim_pending locked fresh limit l now ob)) = Some r
    \<and> (py_truthy (nl_claim_token r) \<longrightarrow> \<not> is_ok (begin_send i tok l now ob))"
proof -
  have "\<not> expired_claim now r" using assms(4,5) by (simp add: expired_claim_def)
  moreover have "\<not> claimable now l r" using assms(3) calculation by (simp add: claimable_def)
  ultimately show ?thesis
    using claim_skips [OF assms(1,2), where m = now and l = l] assms(2,3)
    by (auto simp: stale_fixed_def begin_send_def get_for_update_def)
qed

definition one_claimed :: outbox where
  "one_claimed = snd (claim_pending (\<lambda>_. False) (\<lambda>_. ''t'') 5 1000000 2000000 one_pending)"

lemma one_claimed_row:
  "outbox_inv one_claimed \<and> (\<exists>r. get_row 1 one_claimed = Some r \<and> nl_status r = ''sending''
     \<and> nl_claim_until r = Some 3000000 \<and> nl_claim_token r = Some ''t'')"
proof -
  obtain taken ob' where claim: "claim_pending (\<lambda>_. False) (\<lambda>_. ''t'') 5 1000000 2000000 one_pending = (taken, ob')"
    by fastforce
  obtain r where r: "ob_rows one_pending = [r]" "nl_id r = 1" "nl_status r = ''pending''" "nl_created_at r = 0"
    using one_pending_row by blast
  have "recover_stale_sending 2000000 one_pending = one_pending\<lparr>ob_rows := [r]\<rparr>"
    using r by (simp add: recover_stale_sending_def expired_claim_def)
  then have sel: "selected (\<lambda>_. False) 5 1000000 2000000 one_pending = [r]"
    using r by (simp add: selected_def claimable_def)
  have "taken = [claimed 3000000 ''t'' r]"
    using claim sel by (auto simp: claim_pending_split lease_def Let_def)
  then have "get_row 1 ob' = Some (claimed 3000000 ''t'' r)" "outbox_inv ob'"
    using claim_pending_state [OF one_pending_inv claim, of 1] r(2) by simp_all
  then show ?thesis using claim by (simp add: one_claimed_def claimed_def)
qed

theorem live_claim_exclusive_witness:
  "1 \<notin> nl_id ` set (fst (claim_pending (\<lambda>_. False) (\<lambda>_. ''u'') 5 1000000 2500000 one_claimed))
   \<and> \<not> is_ok (begin_send 1 ''u'' 1000000 2500000 one_claimed)"
proof -
  obtain r where r: "outbox_inv one_claimed" "get_row 1 one_claimed = Some r" "nl_status r = ''sending''"
    "nl_claim_until r = Some 3000000" "nl_claim_token r = Some ''t''"
    using one_claimed_row by blast
  have "(2500000 :: int) < 3000000" "py_truthy (nl_claim_token r)" using r(5) by simp_all
  with live_claim_exclusive [OF r(1-4), of 2500000] show ?thesis by blast
qed

section \<open>Settled rows\<close>

fun addresses :: "int \<Rightarrow> outbox_op \<Rightarrow> bool" where
  "addresses i (MarkSent j p as ls d tok now) = (i = j)"
| "addresses i (KeepPending j c m d nx tok now) = (i = j)"
| "addresses i (Requeue j nx now) = (i = j)"
| "addresses i _ = False"

abbreviation settled :: "notification_log \<Rightarrow> bool" where
  "settled r \<equiv> nl_status r = ''sent'' \<or> nl_status r = ''failed'' \<or> nl_status r = ''possible_duplicate''"

lemma other_row_call:
  assumes "outbox_inv ob" "row_call ob j res" "get_row i ob = Some r" "i \<noteq> j"
  shows "get_row i (after ob res) = Some r"
proof (cases res)
  case (Inr p)
  then obtain row' ob' row where p: "p = (row', ob')" "get_row j ob = Some row" "ob' = put_row row' ob"
    "nl_id row' = nl_id row"
    using assms(2) by (cases p) (auto simp: row_call_def)
  then have "nl_id row' = j" using get_row_idents by simp
  from get_row_put_row [OF assms(1) p(2) this, of i] show ?thesis
    using p assms(3,4) Inr by (simp add: after_def)
qed (simp add: after_def assms(3))

lemma settled_step:
  assumes "outbox_inv ob" "get_row i ob = Some r" "settled r" "\<not> addresses i op"
  shows "get_row i (outbox_step ob op) = Some r"
proof (cases op)
  case (CreatePending now key t v c rs as ls p k pr)
  have "List.find P (xs @ [x]) = (case List.find P xs of Some y \<Rightarrow> Some y | None \<Rightarrow> if P x then Some x else None)"
    for P :: "notification_log \<Rightarrow> bool" and xs x by (induction xs) auto
  with CreatePending assms(2) show ?thesis
    by (auto simp: after_def create_pending_def get_row_def Let_def split: sum.splits if_splits)
next
  case (ClaimPending locked fresh limit l now)
  have "\<not> expired_claim now r" using assms(3) by (auto simp: expired_claim_def)
  moreover have "\<not> claimable now l r" using assms(3) calculation by (auto simp: claimable_def)
  ultimately show ?thesis
    using ClaimPending claim_skips [OF assms(1,2), where m = now and l = l] by (simp add: stale_fixed_def)
next
  case (BeginSend j tok l now)
  show ?thesis
  proof (cases "i = j")
    case True
    then have "\<not> is_ok (begin_send j tok l now ob)"
      using assms(2,3) by (auto simp: begin_send_def get_for_update_def)
    then show ?thesis using BeginSend assms(2) by (cases "begin_send j tok l now ob") (simp_all add: after_def)
  qed (use BeginSend other_row_call [OF assms(1) begin_send_call assms(2)] in simp)
next
  case (RenewClaim j tok l now)
  show ?thesis
  proof (cases "i = j")
    case True
    then have "\<not> is_ok (renew_claim j tok l now ob)"
      using assms(2,3) by (auto simp: renew_claim_def get_for_update_def)
    then show ?thesis using RenewClaim assms(2) by (cases "renew_claim j tok l now ob") (simp_all add: after_def)
  qed (use RenewClaim other_row_call [OF assms(1) renew_claim_call assms(2)] in simp)
next
  case (RecordAttempt j p n c a now)
  then show ?thesis using assms(2) by (simp add: record_attempt_def get_row_def Let_def)
qed (use assms(4) in \<open>auto intro: other_row_call [OF assms(1) _ assms(2)] row_calls\<close>)

text \<open>A row that was sent, or that is quarantined as a possible duplicate, is never sent
  again by the outbox itself: over any history of calls that neither finalise nor requeue that
  row it stays exactly as it is.\<close>

lemma settled_row_untouched:
  assumes "outbox_inv ob" and "get_row i ob = Some r" and "settled r"
    and "\<forall>op \<in> set ops. \<not> addresses i op"
  shows "get_row i (foldl outbox_step ob ops) = Some r"
  using assms
proof (induction ops arbitrary: ob)
  case (Cons op ops)
  then show ?case
    using settled_step [OF Cons.prems(1-3), of op] outbox_step_inv [OF Cons.prems(1)] by simp
qed simp

definition one_sent :: outbox where
  "one_sent = outbox_step one_claimed (MarkSent 1 ''p'' JNull JNull False (Some ''t'') 2100000)"

lemma one_sent_row:
  "outbox_inv one_sent \<and> (\<exists>r. get_row 1 one_sent = Some r \<and> nl_status r = ''sent'' \<and> nl_claim_token r = None)"
proof -
  obtain r where r: "outbox_inv one_claimed" "get_row 1 one_claimed = Some r"
    "nl_claim_token r = Some ''t''" using one_claimed_row by blast
  have "\<exists>r' ob'. mark_sent 1 ''p'' JNull JNull False (Some ''t'') 2100000 one_claimed = Inr (r', ob')
     \<and> ob' = put_row r' one_claimed \<and> nl_id r' = 1 \<and> nl_status r' = ''sent'' \<and> nl_claim_token r' = None"
    using r(2,3) get_row_idents [OF r(2)] by (simp add: mark_sent_def get_for_update_def not_owner_def Let_def)
  then obtain r' where r': "one_sent = put_row r' one_claimed" "nl_id r' = 1" "nl_status r' = ''sent''"
    "nl_claim_token r' = None"
    by (auto simp: one_sent_def after_def)
  then show ?thesis
    using get_row_put_row [OF r(1,2) r'(2), of 1] outbox_step_inv [OF r(1)] unfolding one_sent_def [symmetric]
    by (metis one_sent_def)
qed

section \<open>The delivery machine\<close>

text \<open>What the lifecycle of a message is meant to be.\<close>

inductive delivery_step :: "string \<Rightarrow> string \<Rightarrow> bool" where
  first_claim: "delivery_step ''pending'' ''sending''"
| retry_claim: "delivery_step ''pending_retry'' ''sending''"
| delivered: "delivery_step ''sending'' ''sent''"
| released: "delivery_step ''sending'' ''pending_retry''"
| quarantined: "delivery_step ''sending'' ''possible_duplicate''"
| requeued: "delivery_step ''possible_duplicate'' ''pending_retry''"

inductive_cases from_sent: "delivery_step ''sent'' s"

lemma sent_is_final: "delivery_step\<^sup>*\<^sup>* ''sent'' s \<Longrightarrow> s = ''sent''"
  by (induction rule: rtranclp_induct) (auto elim: from_sent)

text \<open>A finalising call made by the worker that holds the claim of the row.\<close>

fun owned :: "outbox \<Rightarrow> outbox_op \<Rightarrow> bool" where
  "owned ob (MarkSent i p as ls d tok now) =
     (tok \<noteq> None \<and> (case get_row i ob of None \<Rightarrow> True | Some r \<Rightarrow> nl_claim_token r = tok))"
| "owned ob (KeepPending i c m d nx tok now) =
     (tok \<noteq> None \<and> (case get_row i ob of None \<Rightarrow> True | Some r \<Rightarrow> nl_claim_token r = tok))"
| "owned ob _ = True"

fun owned_history :: "outbox \<Rightarrow> outbox_op list \<Rightarrow> bool" where
  "owned_history ob [] = True"
| "owned_history ob (op # ops) = (owned ob op \<and> owned_history (outbox_step ob op) ops)"

text \<open>What one call may do to the status of a row, call by call.\<close>

inductive row_step :: "outbox_op \<Rightarrow> notification_log \<Rightarrow> notification_log \<Rightarrow> bool" where
  stays: "nl_status s = nl_status r \<Longrightarrow> row_step op r s"
| picked: "claimable now l r \<Longrightarrow> nl_status s = ''sending'' \<Longrightarrow> row_step (ClaimPending locked fresh limit l now) r s"
| lapsed: "expired_claim now r \<Longrightarrow> nl_status s = ''pending_retry'' \<Longrightarrow> row_step (ClaimPending locked fresh limit l now) r s"
| begun: "nl_status r \<in> {''pending'', ''pending_retry''} \<Longrightarrow> nl_status s = ''sending'' \<Longrightarrow> row_step (BeginSend (nl_id r) tok l now) r s"
| finished: "nl_status r = ''sending'' \<Longrightarrow> nl_claim_token r = tok \<Longrightarrow> nl_status s = ''sent'' \<Longrightarrow>
    row_step (MarkSent (nl_id r) p as ls d tok now) r s"
| returned: "nl_status r = ''sending'' \<Longrightarrow> nl_claim_token r = tok \<Longrightarrow> nl_status s = ''pending_retry'' \<Longrightarrow>
    row_step (KeepPending (nl_id r) c m d nx tok now) r s"
| stopped: "nl_status r = ''sending'' \<Longrightarrow> nl_claim_token r = tok \<Longrightarrow> nl_status s = ''possible_duplicate'' \<Longrightarrow>
    MAX_AMBIGUOUS_AUTOMATIC_SENDS \<le> nl_attempt_count r \<Longrightarrow> row_step (KeepPending (nl_id r) c m d nx tok now) r s"
| reopened: "nl_status r = ''possible_duplicate'' \<Longrightarrow> nl_status s = ''pending_retry'' \<Longrightarrow> row_step (Requeue (nl_id r) nx now) r s"

lemmas one_step = delivery_step.intros [THEN r_into_rtranclp [of delivery_step]]

lemma row_step_machine: "row_step op r s \<Longrightarrow> delivery_step\<^sup>*\<^sup>* (nl_status r) (nl_status s)"
  by (induction rule: row_step.induct) (auto simp: claimable_def expired_claim_def one_step)

definition steps :: "outbox_op \<Rightarrow> notification_log \<Rightarrow> notification_log option \<Rightarrow> bool" where
  "steps op r r' \<longleftrightarrow> (\<exists>s. r' = Some s \<and> row_step op r s)"

lemma steps_same: "steps op r (Some r)"
  by (simp add: steps_def stays)

lemma row_call_steps:
  assumes inv: "outbox_inv ob" and call: "row_call ob j res" and row: "get_row i ob = Some r"
    and own: "\<And>row' ob'. res = Inr (row', ob') \<Longrightarrow> i = j \<Longrightarrow> nl_id r = j \<Longrightarrow> row_step op r row'"
  shows "steps op r (get_row i (after ob res))"
proof (cases "i = j")
  case False
  then show ?thesis using other_row_call [OF inv call row] by (simp add: steps_same)
next
  case True
  show ?thesis
  proof (cases res)
    case (Inl e)
    then show ?thesis using row by (simp add: after_def steps_same)
  next
    case (Inr p)
    then obtain row' ob' row where p: "p = (row', ob')" "get_row j ob = Some row" "ob' = put_row row' ob"
      "nl_id row' = nl_id row"
      using call by (cases p) (auto simp: row_call_def)
    then have "nl_id row' = j" using get_row_idents by simp
    moreover have "nl_id r = j" using row True get_row_idents by simp
    ultimately show ?thesis using get_row_put_row [OF inv p(2), of row' i] True p Inr own [of row' ob']
      by (auto simp: after_def steps_def)
  qed
qed

lemma claim_steps:
  assumes "outbox_inv ob" "get_row i ob = Some r"
  shows "steps (ClaimPending locked fresh limit l m) r (get_row i (snd (claim_pending locked fresh limit l m ob)))"
proof -
  obtain taken ob' where claim: "claim_pending locked fresh limit l m ob = (taken, ob')" by fastforce
  note state = claim_pending_state [OF assms(1) claim, of i]
  show ?thesis
  proof (cases "List.find (\<lambda>t. nl_id t = i) taken")
    case None
    have "row_step (ClaimPending locked fresh limit l m) r (stale_fixed m r)"
      by (cases "expired_claim m r") (auto simp: stale_fixed_def recovered_def intro: stays lapsed)
    then show ?thesis using None state assms(2) claim by (simp add: steps_def)
  next
    case (Some t)
    then obtain j where j: "j < length taken" "t = taken ! j" "nl_id t = i" by (auto simp: find_Some_iff)
    let ?s = "selected locked limit l m ob ! j"
    have len: "j < length (selected locked limit l m ob)" using j(1) state by simp
    have t: "t = claimed (m + lease l) (fresh j) ?s" using state j by simp
    note fix1 = recover_stale_sending_inv [OF assms(1), of m i]
    have inv1: "outbox_inv (recover_stale_sending m ob)" using fix1 by blast
    have "get_row i (recover_stale_sending m ob) = Some ?s"
      unfolding get_row_iff [OF inv1] using selected_nth(1) [OF assms(1) len] j(3) t by simp
    then have s: "?s = stale_fixed m r" using fix1 assms(2) by simp
    have "claimable m l r"
      using selected_nth(2) [OF assms(1) len] s by (auto simp: claimable_def stale_fixed_def split: if_splits)
    moreover have "nl_status t = ''sending''" using t by (simp add: claimed_def)
    ultimately show ?thesis using Some state claim by (auto simp: steps_def intro: picked)
  qed
qed

lemma outbox_step_steps:
  assumes inv: "outbox_inv ob" and row: "get_row i ob = Some r" and own: "owned ob op"
  shows "steps op r (get_row i (outbox_step ob op))"
proof -
  have tok: "nl_status r = ''sending''" if "nl_claim_token r = Some t" for t
    using get_row_row_inv [OF inv row] that by (simp add: row_inv_def)
  show ?thesis
  proof (cases op)
    case (CreatePending now key t v c rs as ls p k pr)
    have "List.find P (xs @ [x]) = (case List.find P xs of Some y \<Rightarrow> Some y | None \<Rightarrow> if P x then Some x else None)"
      for P :: "notification_log \<Rightarrow> bool" and xs x by (induction xs) auto
    with CreatePending row show ?thesis
      by (auto simp: after_def create_pending_def get_row_def steps_same Let_def split: sum.splits if_splits)
  next
    case (ClaimPending locked fresh limit l now)
    then show ?thesis using claim_steps [OF inv row] by simp
  next
    case (RecordAttempt j p n c a now)
    then show ?thesis using row by (simp add: record_attempt_def get_row_def steps_same Let_def)
  next
    case (BeginSend j tk l now)
    have "steps op r (get_row i (after ob (begin_send j tk l now ob)))"
      by (rule row_call_steps [OF inv begin_send_call row])
        (use row BeginSend in \<open>auto simp: begin_send_def get_for_update_def claimed_def Let_def
            intro: row_step.begun split: if_splits\<close>)
    with BeginSend show ?thesis by simp
  next
    case (RenewClaim j tk l now)
    have "steps op r (get_row i (after ob (renew_claim j tk l now ob)))"
      by (rule row_call_steps [OF inv renew_claim_call row])
        (use row in \<open>auto simp: renew_claim_def get_for_update_def Let_def intro: stays split: if_splits\<close>)
    with RenewClaim show ?thesis by simp
  next
    case (MarkSent j p as ls d tk now)
    have "steps op r (get_row i (after ob (mark_sent j p as ls d tk now ob)))"
      by (rule row_call_steps [OF inv mark_sent_call row])
        (use row own tok MarkSent in \<open>auto simp: mark_sent_def get_for_update_def Let_def
            intro: finished split: if_splits\<close>)
    with MarkSent show ?thesis by simp
  next
    case (KeepPending j c m d nx tk now)
    have "nl_status (kept_pending c m d nx now r) = ''pending_retry''
        \<or> nl_status (kept_pending c m d nx now r) = ''possible_duplicate'' \<and> MAX_AMBIGUOUS_AUTOMATIC_SENDS \<le> nl_attempt_count r"
      by (simp add: kept_pending_def Let_def)
    then have "steps op r (get_row i (after ob (keep_pending j c m d nx tk now ob)))"
      by (intro row_call_steps [OF inv keep_pending_call row])
        (use row own tok KeepPending in \<open>auto simp: keep_pending_def get_for_update_def Let_def
            intro: returned stopped split: if_splits\<close>)
    with KeepPending show ?thesis by simp
  next
    case (Requeue j nx now)
    have "steps op r (get_row i (after ob (requeue_possible_duplicate j nx now ob)))"
      by (rule row_call_steps [OF inv requeue_call row])
        (use row Requeue in \<open>auto simp: requeue_possible_duplicate_def get_for_update_def Let_def
            intro: reopened split: if_splits\<close>)
    with Requeue show ?thesis by simp
  qed
qed

lemma history_steps:
  assumes "outbox_inv ob" "owned_history ob ops" "get_row i ob = Some r" "k < length ops"
  shows "\<exists>q s. get_row i (foldl outbox_step ob (take k ops)) = Some q
     \<and> get_row i (foldl outbox_step ob (take (Suc k) ops)) = Some s \<and> row_step (ops ! k) q s"
  using assms
proof (induction ops arbitrary: ob r k)
  case (Cons op ops)
  obtain s where s: "get_row i (outbox_step ob op) = Some s" "row_step op r s"
    using outbox_step_steps [where ob = ob and i = i and r = r and op = op] Cons.prems by (auto simp: steps_def)
  show ?case
  proof (cases k)
    case 0
    then show ?thesis using Cons.prems(3) s by auto
  next
    case (Suc n)
    then show ?thesis using Cons.IH [OF outbox_step_inv [OF Cons.prems(1)] _ s(1)] Cons.prems(2,4) by simp
  qed
qed simp

lemma history_end:
  assumes "outbox_inv ob" "owned_history ob ops" "get_row i ob = Some r"
  shows "\<exists>s. get_row i (foldl outbox_step ob ops) = Some s \<and> delivery_step\<^sup>*\<^sup>* (nl_status r) (nl_status s)"
  using assms
proof (induction ops arbitrary: ob r)
  case (Cons op ops)
  obtain q where q: "get_row i (outbox_step ob op) = Some q" "row_step op r q"
    using outbox_step_steps [where ob = ob and i = i and r = r and op = op] Cons.prems by (auto simp: steps_def)
  obtain s where s: "get_row i (foldl outbox_step (outbox_step ob op) ops) = Some s"
    "delivery_step\<^sup>*\<^sup>* (nl_status q) (nl_status s)"
    using Cons.IH [OF outbox_step_inv [OF Cons.prems(1)] _ q(1)] Cons.prems(2) by auto
  show ?case using rtranclp_trans [OF row_step_machine [OF q(2)] s(2)] s(1) by simp
qed simp

text \<open>C4: when every worker finalises only a row whose claim it holds, every call of any interleaving moves a
  row by a single step that its kind of call allows: a claim takes a due or lapsed row, or releases a lapsed one;
  sending begins from the two waiting statuses; only the holder of the claim ends it, as sent, as waiting again, or
  as a possible duplicate after the allowed number of sends; and only an operator reopens a possible duplicate.
  So a row moves along the delivery machine and a message that was sent stays sent.\<close>

theorem owned_history_follows_machine:
  assumes "outbox_inv ob" and "owned_history ob ops" and "get_row i ob = Some r"
  shows "(\<forall>k < length ops. \<exists>q s. get_row i (foldl outbox_step ob (take k ops)) = Some q
       \<and> get_row i (foldl outbox_step ob (take (Suc k) ops)) = Some s \<and> row_step (ops ! k) q s)
     \<and> (\<exists>r'. get_row i (foldl outbox_step ob ops) = Some r'
       \<and> delivery_step\<^sup>*\<^sup>* (nl_status r) (nl_status r')
       \<and> (nl_status r = ''sent'' \<longrightarrow> nl_status r' = ''sent''))"
proof -
  obtain r' where "get_row i (foldl outbox_step ob ops) = Some r'" "delivery_step\<^sup>*\<^sup>* (nl_status r) (nl_status r')"
    using history_end [OF assms] by blast
  moreover have "nl_status r' = ''sent''" if "nl_status r = ''sent''"
    using calculation(2) that sent_is_final [of "nl_status r'"] by simp
  ultimately show ?thesis using history_steps [OF assms] by blast
qed

theorem owned_history_follows_machine_witness:
  "\<exists>r. get_row 1 (foldl outbox_step one_claimed [MarkSent 1 ''p'' JNull JNull False (Some ''t'') 2100000,
       ClaimPending (\<lambda>_. False) (\<lambda>_. ''u'') 5 1000000 9000000]) = Some r
     \<and> delivery_step\<^sup>*\<^sup>* ''sending'' (nl_status r)"
proof -
  obtain r where r: "outbox_inv one_claimed" "get_row 1 one_claimed = Some r" "nl_status r = ''sending''"
    "nl_claim_token r = Some ''t''" using one_claimed_row by blast
  have "owned_history one_claimed [MarkSent 1 ''p'' JNull JNull False (Some ''t'') 2100000,
       ClaimPending (\<lambda>_. False) (\<lambda>_. ''u'') 5 1000000 9000000]"
    using r(2,4) by simp
  from conjunct2 [OF owned_history_follows_machine [OF r(1) this r(2)]] r(3) show ?thesis by metis
qed

section \<open>Retry schedule, crashes and late workers\<close>

lemma retry_delay_bounds: "0 \<le> retry_delay_seconds n \<and> retry_delay_seconds n \<le> 3600"
  by (simp add: retry_delay_seconds_def)

text \<open>A failed chain leaves the row waiting for a retry, or quarantined exactly when its
  delivery is ambiguous and two sends were made; without an explicit time the retry comes at once
  after the first send, after \<open>30 * 2 ^ (n - 2)\<close> seconds after the n-th send up to the eighth and
  never later than an hour; the claim is released, the code is one of the catalogue and the error
  text is at most 2000 characters.\<close>

lemma keep_pending_schedule:
  assumes "get_row i ob = Some r" and "keep_pending i code msg dup next tok now ob = Inr (r', ob')"
  shows "nl_possible_duplicate r' = (dup \<or> nl_possible_duplicate r)
    \<and> (nl_status r', nl_next_retry_at r') =
        (if nl_possible_duplicate r' \<and> 2 \<le> nl_attempt_count r then (''possible_duplicate'', None)
         else (''pending_retry'', Some (case next of Some t \<Rightarrow> t
                 | None \<Rightarrow> now + usecs (retry_delay_seconds (nl_attempt_count r)))))
    \<and> 0 \<le> retry_delay_seconds (nl_attempt_count r) \<and> retry_delay_seconds (nl_attempt_count r) \<le> 3600
    \<and> (nl_attempt_count r = 1 \<longrightarrow> retry_delay_seconds (nl_attempt_count r) = 0)
    \<and> (\<forall>n \<in> {2..8}. nl_attempt_count r = int n \<longrightarrow> retry_delay_seconds (nl_attempt_count r) = 30 * 2 ^ (n - 2))
    \<and> nl_claim_token r' = None \<and> nl_claim_until r' = None \<and> nl_attempt_count r' = nl_attempt_count r
    \<and> (\<exists>c. nl_last_error_code r' = Some c \<and> is_valid_error_code c)
    \<and> (\<exists>e. nl_error r' = Some e \<and> length e \<le> 2000)"
proof -
  have delays: "\<forall>n \<in> {2..8}. nl_attempt_count r = int n \<longrightarrow> retry_delay_seconds (nl_attempt_count r) = 30 * 2 ^ (n - 2)"
  proof (intro ballI impI)
    fix n assume n: "n \<in> {2..8}" and c: "nl_attempt_count r = int n"
    have "n \<in> {2, 3, 4, 5, 6, 7, 8 :: nat}" using n by auto
    then show "retry_delay_seconds (nl_attempt_count r) = 30 * 2 ^ (n - 2)"
      by (elim insertE emptyE) (simp_all add: c retry_delay_seconds_def)
  qed
  have r': "r' = kept_pending code msg dup next now r"
    using assms by (simp add: keep_pending_def get_for_update_def Let_def split: if_splits)
  have valid: "is_valid_error_code (if is_valid_error_code code then code else EMAIL_SEND_FAILED)"
    by (simp add: is_valid_error_code_def ERROR_CODES_def)
  have first: "nl_attempt_count r = 1 \<longrightarrow> retry_delay_seconds (nl_attempt_count r) = 0"
    by (simp add: retry_delay_seconds_def)
  have "\<exists>c. nl_last_error_code r' = Some c \<and> is_valid_error_code c"
    "\<exists>e. nl_error r' = Some e \<and> length e \<le> 2000"
    using valid unfolding r' kept_pending_def Let_def by (simp_all del: take_append)
  moreover have "(nl_status r', nl_next_retry_at r') =
        (if nl_possible_duplicate r' \<and> 2 \<le> nl_attempt_count r then (''possible_duplicate'', None)
         else (''pending_retry'', Some (case next of Some t \<Rightarrow> t
                 | None \<Rightarrow> now + usecs (retry_delay_seconds (nl_attempt_count r)))))"
    unfolding r' kept_pending_status kept_pending_fields MAX_AMBIGUOUS_AUTOMATIC_SENDS_def by simp
  moreover have "nl_possible_duplicate r' = (dup \<or> nl_possible_duplicate r)" "nl_claim_token r' = None"
    "nl_claim_until r' = None" "nl_attempt_count r' = nl_attempt_count r" by (simp_all add: r')
  ultimately show ?thesis using delays first retry_delay_bounds [of "nl_attempt_count r"] by blast
qed

text \<open>Claims by workers that die, each at the instant the previous lease runs out.\<close>

fun crashes :: "int \<Rightarrow> (nat \<Rightarrow> string) \<Rightarrow> nat \<Rightarrow> nat \<Rightarrow> int \<Rightarrow> outbox \<Rightarrow> outbox" where
  "crashes now fresh limit 0 l ob = ob"
| "crashes now fresh limit (Suc n) l ob =
     snd (claim_pending (\<lambda>_. False) fresh limit l (now + int n * l) (crashes now fresh limit n l ob))"

lemma claim_pending_length:
  "outbox_inv ob \<Longrightarrow> length (ob_rows (snd (claim_pending locked fresh limit l m ob))) = length (ob_rows ob)"
proof -
  have "length (ob_rows (fold put_row ts o1)) = length (ob_rows o1)" for ts o1
    by (induction ts arbitrary: o1) (simp_all add: put_row_def)
  then show ?thesis by (simp add: claim_pending_split Let_def recover_stale_sending_def)
qed

lemma due_row_claimed:
  assumes inv: "outbox_inv ob" and row: "get_row i ob = Some r" "claimable m l (stale_fixed m r)"
    and limit: "length (ob_rows ob) \<le> limit"
  obtains r' where "get_row i (snd (claim_pending (\<lambda>_. False) fresh limit l m ob)) = Some r'"
    "nl_status r' = ''sending''" "nl_claim_until r' = Some (m + lease l)"
    "nl_attempt_count r' = nl_attempt_count r + 1"
    "nl_possible_duplicate r' = nl_possible_duplicate (stale_fixed m r)"
    "nl_next_retry_at r' = nl_next_retry_at r"
proof -
  obtain taken ob' where claim: "claim_pending (\<lambda>_. False) fresh limit l m ob = (taken, ob')" by fastforce
  let ?sel = "selected (\<lambda>_. False) limit l m ob"
  note fix1 = recover_stale_sending_inv [OF inv, of m i]
  have inv1: "outbox_inv (recover_stale_sending m ob)" using fix1 by blast
  have "get_row i (recover_stale_sending m ob) = Some (stale_fixed m r)" using fix1 row by simp
  then have s: "stale_fixed m r \<in> set (ob_rows (recover_stale_sending m ob))" "nl_id (stale_fixed m r) = i"
    unfolding get_row_iff [OF inv1] by blast+
  have "length (filter (\<lambda>r. claimable m l r \<and> \<not> False) (ob_rows (recover_stale_sending m ob))) \<le> limit"
    using limit length_filter_le [of _ "ob_rows (recover_stale_sending m ob)"]
    by (simp add: recover_stale_sending_def) (meson le_trans length_filter_le length_map)
  then have "stale_fixed m r \<in> set ?sel" using s row(2) by (simp add: selected_def)
  then obtain j where j: "j < length ?sel" "?sel ! j = stale_fixed m r" unfolding in_set_conv_nth by blast
  have len: "length taken = length ?sel"
    and nth: "\<forall>j < length taken. taken ! j = claimed (m + lease l) (fresh j) (?sel ! j)"
    using claim_pending_state [OF inv claim, of i] by blast+
  have ids: "map nl_id taken = map nl_id ?sel" using len nth by (intro nth_equalityI) simp_all
  then have "distinct (map nl_id taken)" using selected_rows(2) [OF inv] by simp
  moreover have "taken ! j = claimed (m + lease l) (fresh j) (stale_fixed m r)" using len nth j by simp
  moreover have "taken ! j \<in> set taken" using len j(1) by (intro nth_mem) simp
  ultimately have "List.find (\<lambda>t. nl_id t = i) taken = Some (claimed (m + lease l) (fresh j) (stale_fixed m r))"
    using find_distinct [of nl_id taken "taken ! j"] s(2) by simp
  then have "get_row i ob' = Some (claimed (m + lease l) (fresh j) (stale_fixed m r))"
    using claim_pending_state [OF inv claim, of i] by simp
  with that claim show thesis by (simp add: claimed_def)
qed

text \<open>The limit of two automatic sends of an ambiguous message does not bind a worker that
  dies: a due row whose claims all lapse is in flight again after every lease, flagged as a
  possible duplicate from the second claim on, with an attempt count that grows without bound.\<close>

lemma lapsed_claims_unbounded:
  assumes "outbox_inv ob" and "get_row i ob = Some r" and "claimable now l r"
    and "case nl_next_retry_at r of None \<Rightarrow> True | Some t \<Rightarrow> t \<le> now"
    and "1000000 \<le> l" and "length (ob_rows ob) \<le> limit"
  shows "\<exists>r'. get_row i (crashes now fresh limit (Suc n) l ob) = Some r' \<and> nl_status r' = ''sending''
     \<and> nl_attempt_count r' = nl_attempt_count r + int n + 1 \<and> (0 < n \<longrightarrow> nl_possible_duplicate r')"
proof -
  have "outbox_inv (crashes now fresh limit (Suc n) l ob)
     \<and> length (ob_rows (crashes now fresh limit (Suc n) l ob)) = length (ob_rows ob)
     \<and> (\<exists>r'. get_row i (crashes now fresh limit (Suc n) l ob) = Some r' \<and> nl_status r' = ''sending''
         \<and> nl_claim_until r' = Some (now + int (Suc n) * l) \<and> nl_next_retry_at r' = nl_next_retry_at r
         \<and> nl_attempt_count r' = nl_attempt_count r + int n + 1 \<and> (0 < n \<longrightarrow> nl_possible_duplicate r'))"
  proof (induction n)
    case 0
    have "claimable now l (stale_fixed now r)"
      using assms(3,4) by (auto simp: stale_fixed_def claimable_def recovered_def)
    then obtain r' where "get_row i (snd (claim_pending (\<lambda>_. False) fresh limit l now ob)) = Some r'"
      "nl_status r' = ''sending''" "nl_claim_until r' = Some (now + lease l)"
      "nl_attempt_count r' = nl_attempt_count r + 1" "nl_next_retry_at r' = nl_next_retry_at r"
      using due_row_claimed [OF assms(1,2) _ assms(6)] by blast
    then show ?case
      using outbox_step_inv [OF assms(1), of "ClaimPending (\<lambda>_. False) fresh limit l now"]
        claim_pending_length [OF assms(1)] assms(5)
      by (simp add: lease_def)
  next
    case (Suc n)
    let ?ob = "crashes now fresh limit (Suc n) l ob" and ?m = "now + int (Suc n) * l"
    obtain q where q: "get_row i ?ob = Some q" "nl_status q = ''sending''" "nl_claim_until q = Some ?m"
      "nl_next_retry_at q = nl_next_retry_at r" "nl_attempt_count q = nl_attempt_count r + int n + 1"
      and inv: "outbox_inv ?ob" and len: "length (ob_rows ?ob) = length (ob_rows ob)"
      using Suc.IH by blast
    have later: "now \<le> ?m" using assms(5) by simp
    have fixed: "stale_fixed ?m q = recovered q" using q by (simp add: stale_fixed_def expired_claim_def)
    have "claimable ?m l (stale_fixed ?m q)"
      using q(4) assms(4) later unfolding fixed
      by (auto simp: claimable_def recovered_def split: option.splits)
    moreover have "length (ob_rows ?ob) \<le> limit" using len assms(6) by simp
    ultimately obtain r' where r': "get_row i (snd (claim_pending (\<lambda>_. False) fresh limit l ?m ?ob)) = Some r'"
      "nl_status r' = ''sending''" "nl_claim_until r' = Some (?m + lease l)"
      "nl_attempt_count r' = nl_attempt_count q + 1"
      "nl_possible_duplicate r' = nl_possible_duplicate (stale_fixed ?m q)"
      "nl_next_retry_at r' = nl_next_retry_at q"
      using due_row_claimed [OF inv q(1)] by blast
    have "lease l = l" using assms(5) by (simp add: lease_def)
    then have "nl_claim_until r' = Some (now + int (Suc (Suc n)) * l)"
      using r'(3) by (simp add: algebra_simps)
    moreover have "nl_possible_duplicate r'" using r'(5) fixed by (simp add: recovered_def)
    moreover have "outbox_inv (crashes now fresh limit (Suc (Suc n)) l ob)"
      using outbox_step_inv [OF inv, of "ClaimPending (\<lambda>_. False) fresh limit l ?m"]
      by (simp only: outbox_step.simps crashes.simps)
    ultimately show ?case
      using r' q(4,5) claim_pending_length [OF inv] len by (simp only: crashes.simps) auto
  qed
  then show ?thesis by blast
qed

text \<open>The claim check of \<open>keep_pending\<close> accepts any worker once the row has no claim: a worker
  whose lease lapsed, and whose message another worker has sent in the meantime, puts the sent row
  back in the queue or in quarantine.\<close>

lemma late_worker_reopens_sent:
  assumes "get_row i ob = Some r" and "nl_status r = ''sent''" and "nl_claim_token r = None"
  shows "\<exists>r' ob'. keep_pending i code msg dup next (Some stale_token) now ob = Inr (r', ob')
     \<and> nl_status r' \<in> {''pending_retry'', ''possible_duplicate''}"
  using assms kept_pending_queue [of code msg dup "next" now r]
  by (simp add: keep_pending_def get_for_update_def not_owner_def Let_def)

text \<open>A successful attempt has no error code, and is stored with the code of a failed send.\<close>

lemma sent_attempt_stored_as_failed:
  "ca_error_code a = None \<Longrightarrow>
     na_error_code (fst (record_attempt i p n c a now ob)) = Some EMAIL_SEND_FAILED"
  by (simp add: record_attempt_def Let_def)

end
