(* ===== verification/ProviderStore.thy ===== *)
theory ProviderStore
  imports MailErrors "HOL-Library.Product_Lexorder"
begin

text \<open>
  The persisted side of provider gating: \<open>MailProviderRepository\<close> and
  \<open>ProviderUsageRepository\<close> of \<open>db/repositories/notifications.py\<close>.  A provider row carries the
  shared breaker lease, a usage row the request counters of the current minute and day.  Both are
  read under a row lock, so an operation is one step.  Instants are microseconds since the epoch,
  so the start of a minute and of a day in UTC are multiples of their length.
\<close>

section \<open>Provider rows and the shared probe lease\<close>

record provider_row =
  pr_id :: int
  pr_priority :: int
  pr_active :: bool
  pr_breaker_state :: "string option"
  pr_breaker_until :: "instant option"

definition list_active_ordered :: "provider_row list \<Rightarrow> provider_row list" where
  "list_active_ordered rows = sort_key (\<lambda>r. (pr_priority r, pr_id r)) rows"

definition list_active :: "provider_row list \<Rightarrow> provider_row list" where
  "list_active rows = filter pr_active (list_active_ordered rows)"

definition with_breaker_open :: "provider_row list \<Rightarrow> provider_row list" where
  "with_breaker_open rows = filter (\<lambda>r. pr_breaker_state r = Some ''open'') rows"

text \<open>\<open>provider_id\<close> is the primary key: at most one row matches.\<close>

definition claim_breaker_probe ::
  "int \<Rightarrow> instant \<Rightarrow> int \<Rightarrow> provider_row list \<Rightarrow> bool \<times> provider_row list" where
  "claim_breaker_probe pid now cooldown_us rows =
     (case List.find (\<lambda>r. pr_id r = pid) rows of
        None \<Rightarrow> (False, rows)
      | Some row \<Rightarrow>
          (let state = py_or (pr_breaker_state row) ''closed'' in
           if state = ''closed'' then (True, rows)
           else if state \<notin> {''open'', ''half_open''} then (False, rows)
           else if (case pr_breaker_until row of None \<Rightarrow> False | Some u \<Rightarrow> u > now) then (False, rows)
           else (True, map (\<lambda>r. if pr_id r = pid
                   then r\<lparr>pr_breaker_state := Some ''half_open'',
                          pr_breaker_until := Some (now + max 0 cooldown_us)\<rparr> else r) rows)))"

fun probe_grants :: "int \<Rightarrow> int \<Rightarrow> instant list \<Rightarrow> provider_row list \<Rightarrow> instant list" where
  "probe_grants pid cooldown_us [] rows = []"
| "probe_grants pid cooldown_us (now # nows) rows =
     (let (ok, rows') = claim_breaker_probe pid now cooldown_us rows
      in (if ok then [now] else []) @ probe_grants pid cooldown_us nows rows')"

definition tripped :: "int \<Rightarrow> instant option \<Rightarrow> provider_row list \<Rightarrow> bool" where
  "tripped pid lease_end rows \<longleftrightarrow> (\<exists>row. List.find (\<lambda>r. pr_id r = pid) rows = Some row
     \<and> pr_breaker_state row \<in> {Some ''open'', Some ''half_open''} \<and> pr_breaker_until row = lease_end)"

lemma find_map_same:
  "(\<And>r. pr_id (f r) = pr_id r) \<Longrightarrow>
     List.find (\<lambda>r. pr_id r = pid) (map f rows) = map_option f (List.find (\<lambda>r. pr_id r = pid) rows)"
  by (induction rows) auto

lemma claim_breaker_probe_tripped:
  assumes "tripped pid until rows" "claim_breaker_probe pid now cd rows = (ok, rows')"
  shows "ok = (case until of None \<Rightarrow> True | Some u \<Rightarrow> u \<le> now)
    \<and> tripped pid (if ok then Some (now + max 0 cd) else until) rows'"
proof -
  obtain row where row: "List.find (\<lambda>r. pr_id r = pid) rows = Some row"
    "pr_breaker_state row \<in> {Some ''open'', Some ''half_open''}" "pr_breaker_until row = until"
    using assms(1) by (auto simp: tripped_def)
  let ?f = "\<lambda>r. if pr_id r = pid then r\<lparr>pr_breaker_state := Some ''half_open'',
      pr_breaker_until := Some (now + max 0 cd)\<rparr> else r"
  have same: "List.find (\<lambda>r. pr_id r = pid) (map ?f rows) = map_option ?f (Some row)"
    using find_map_same [of ?f pid rows] row(1) by simp
  have id: "pr_id row = pid" using row(1) by (auto simp: find_Some_iff)
  have state: "py_or (pr_breaker_state row) ''closed'' \<noteq> ''closed''"
    "py_or (pr_breaker_state row) ''closed'' \<in> {''open'', ''half_open''}"
    using row(2) by auto
  define due where "due = (case until of None \<Rightarrow> True | Some u \<Rightarrow> u \<le> now)"
  have blocked: "(case until of None \<Rightarrow> False | Some u \<Rightarrow> now < u) = (\<not> due)"
    by (auto simp: due_def split: option.split)
  have closed: "(py_or (pr_breaker_state row) ''closed'' = ''closed'') = False"
    "(py_or (pr_breaker_state row) ''closed'' \<notin> {''open'', ''half_open''}) = False"
    using state by blast+
  have "(ok, rows') = (if due then (True, map ?f rows) else (False, rows))"
    using assms(2) unfolding claim_breaker_probe_def row(1) option.case Let_def closed row(3) blocked if_False
    by (cases due) simp_all
  moreover have "tripped pid (Some (now + max 0 cd)) (map ?f rows)"
    using same id by (simp add: tripped_def)
  ultimately show ?thesis using assms(1) unfolding due_def [symmetric] by (cases due) simp_all
qed

text \<open>C33: while a provider's persisted breaker is open or half-open, the recovery probes that all
  workers together are granted are at least one cooldown apart, and none is granted before the
  stored lease ends, whatever clocks the workers read.\<close>

theorem probe_leases_spaced:
  assumes "tripped pid until rows" and "0 \<le> cooldown_us"
  shows "sorted_wrt (\<lambda>t t'. t + cooldown_us \<le> t') (probe_grants pid cooldown_us nows rows)
    \<and> (\<forall>u. until = Some u \<longrightarrow> (\<forall>t \<in> set (probe_grants pid cooldown_us nows rows). u \<le> t))"
  using assms(1)
proof (induction nows arbitrary: until rows)
  case (Cons now nows)
  obtain ok rows' where c: "claim_breaker_probe pid now cooldown_us rows = (ok, rows')" by fastforce
  from claim_breaker_probe_tripped [OF Cons.prems c]
  have ok: "ok = (case until of None \<Rightarrow> True | Some u \<Rightarrow> u \<le> now)"
    and next_tripped: "tripped pid (if ok then Some (now + max 0 cooldown_us) else until) rows'" by blast+
  have IH: "sorted_wrt (\<lambda>t t'. t + cooldown_us \<le> t') (probe_grants pid cooldown_us nows rows')"
    "\<forall>u. (if ok then Some (now + max 0 cooldown_us) else until) = Some u
       \<longrightarrow> (\<forall>t \<in> set (probe_grants pid cooldown_us nows rows'). u \<le> t)"
    using Cons.IH [OF next_tripped] by blast+
  have grants: "probe_grants pid cooldown_us (now # nows) rows
      = (if ok then [now] else []) @ probe_grants pid cooldown_us nows rows'" using c by simp
  show ?case
  proof (cases ok)
    case True
    then have later: "\<forall>t \<in> set (probe_grants pid cooldown_us nows rows'). now + cooldown_us \<le> t"
      using IH(2) assms(2) by simp
    moreover have "\<forall>u. until = Some u \<longrightarrow> u \<le> now" using ok True by auto
    ultimately show ?thesis using True IH(1) assms(2) unfolding grants by force
  next
    case False
    then show ?thesis using IH unfolding grants by simp
  qed
qed simp

definition open_row :: provider_row where
  "open_row = \<lparr>pr_id = 7, pr_priority = 1, pr_active = True, pr_breaker_state = Some ''open'',
     pr_breaker_until = Some 100\<rparr>"

theorem probe_leases_spaced_witness:
  "probe_grants 7 300 [50, 120, 121, 420, 500] [open_row] = [120, 420]
   \<and> sorted_wrt (\<lambda>t t'. t + 300 \<le> t') (probe_grants 7 300 [50, 120, 121, 420, 500] [open_row])"
proof -
  have "tripped 7 (Some 100) [open_row]" "(0 :: int) \<le> 300" by (simp_all add: tripped_def open_row_def)
  from probe_leases_spaced [OF this, of "[50, 120, 121, 420, 500]"] show ?thesis
    by (simp add: claim_breaker_probe_def open_row_def)
qed

section \<open>Durable request counters\<close>

record usage_row =
  us_minute_started :: "instant option"
  us_minute_count :: int
  us_day_started :: "instant option"
  us_day_count :: int

definition new_usage_row :: usage_row where
  "new_usage_row = \<lparr>us_minute_started = None, us_minute_count = 0, us_day_started = None, us_day_count = 0\<rparr>"

abbreviation minute_us :: int where "minute_us \<equiv> 60000000"

abbreviation day_us :: int where "day_us \<equiv> 86400000000"

definition window_start :: "int \<Rightarrow> instant \<Rightarrow> instant" where
  \<comment> \<open>\<open>moment.replace(second=0, ...)\<close>, \<open>moment.replace(hour=0, ...)\<close>\<close>
  "window_start period moment = moment - moment mod period"

definition roll_window :: "int \<Rightarrow> instant \<Rightarrow> instant option \<Rightarrow> int \<Rightarrow> instant option \<times> int" where
  "roll_window period moment started count =
     (if (case started of None \<Rightarrow> True | Some s \<Rightarrow> s < window_start period moment)
      then (Some (window_start period moment), 0) else (started, count))"

definition reached :: "int option \<Rightarrow> int \<Rightarrow> bool" where
  "reached limit n = (case limit of None \<Rightarrow> False | Some m \<Rightarrow> n \<ge> m)"

text \<open>\<open>conflict\<close> is the outcome of a concurrent first insert: \<open>None\<close> when this insert succeeds,
  and otherwise what the second read finds.\<close>

definition try_consume ::
  "usage_row option option \<Rightarrow> int \<Rightarrow> capabilities \<Rightarrow> instant \<Rightarrow> (int \<Rightarrow> usage_row option)
     \<Rightarrow> bool \<times> (int \<Rightarrow> usage_row option)" where
  "try_consume conflict pid cap moment table =
     (case (case table pid of Some r \<Rightarrow> Some r
            | None \<Rightarrow> (case conflict of None \<Rightarrow> Some new_usage_row | Some found \<Rightarrow> found)) of
        None \<Rightarrow> (False, table)
      | Some row \<Rightarrow>
          (let (day_started, day_count) = roll_window day_us moment (us_day_started row) (us_day_count row);
               (minute_started, minute_count) =
                 roll_window minute_us moment (us_minute_started row) (us_minute_count row);
               rolled = \<lparr>us_minute_started = minute_started, us_minute_count = minute_count,
                         us_day_started = day_started, us_day_count = day_count\<rparr>
           in if reached (cp_daily_limit cap) day_count then (False, table(pid \<mapsto> rolled))
              else if reached (cp_rate_limit_per_min cap) minute_count then (False, table(pid \<mapsto> rolled))
              else (True, table(pid \<mapsto> rolled\<lparr>us_day_count := day_count + 1,
                                              us_minute_count := minute_count + 1\<rparr>))))"

fun usage_grants :: "(int \<Rightarrow> capabilities) \<Rightarrow> int \<Rightarrow> (instant \<times> int) list \<Rightarrow> (int \<Rightarrow> usage_row option) \<Rightarrow> instant list" where
  "usage_grants caps p [] table = []"
| "usage_grants caps p ((now, q) # rs) table =
     (let (ok, table') = try_consume None q (caps q) now table
      in (if ok \<and> q = p then [now] else []) @ usage_grants caps p rs table')"

definition in_window :: "int \<Rightarrow> int \<Rightarrow> instant list \<Rightarrow> instant list" where
  "in_window period k G = filter (\<lambda>t. t div period = k) G"

definition capped :: "int option \<Rightarrow> nat \<Rightarrow> bool" where
  "capped limit n = (case limit of None \<Rightarrow> True | Some m \<Rightarrow> int n \<le> max 0 m)"

text \<open>One counter after the grants \<open>G\<close> up to the instant \<open>T\<close>.\<close>

definition counter_inv :: "int \<Rightarrow> int option \<Rightarrow> instant \<Rightarrow> instant list \<Rightarrow> instant option \<Rightarrow> int \<Rightarrow> bool" where
  "counter_inv period limit T G started count \<longleftrightarrow>
     (case started of None \<Rightarrow> G = []
      | Some s \<Rightarrow> (\<exists>k. s = k * period \<and> k \<le> T div period \<and> count = int (length (in_window period k G))
          \<and> (\<forall>t \<in> set G. t div period \<le> k)))
     \<and> (\<forall>k. capped limit (length (in_window period k G)))"

lemma window_start_eq: "window_start period moment = moment div period * period"
  by (simp add: window_start_def minus_mod_eq_div_mult)

lemma counter_rolled:
  assumes inv: "counter_inv period limit T G started count" and "T \<le> now" and p: "0 < period"
  shows "\<exists>count'. roll_window period now started count = (Some (now div period * period), count')
     \<and> count' = int (length (in_window period (now div period) G)) \<and> (\<forall>t \<in> set G. t div period \<le> now div period)
     \<and> (\<forall>k. capped limit (length (in_window period k G)))"
proof (cases started)
  case None
  then have "G = []" "\<forall>k. capped limit (length (in_window period k G))" using inv unfolding counter_inv_def by auto
  then show ?thesis using None by (simp add: roll_window_def window_start_eq) (simp add: in_window_def)
next
  case (Some s)
  then obtain k where k: "s = k * period" "k \<le> T div period" "count = int (length (in_window period k G))"
    "\<forall>t \<in> set G. t div period \<le> k" "\<forall>k. capped limit (length (in_window period k G))"
    using inv by (auto simp: counter_inv_def)
  have "T div period \<le> now div period" using assms(2) p by (simp add: zdiv_mono1)
  then have le: "k \<le> now div period" using k(2) by simp
  have later: "s < window_start period now \<longleftrightarrow> k \<noteq> now div period"
    using k(1) le p by (auto simp: window_start_eq)
  have "k \<noteq> now div period \<Longrightarrow> in_window period (now div period) G = []"
    using k(4) le by (force simp: in_window_def filter_empty_conv)
  moreover have "\<forall>t \<in> set G. t div period \<le> now div period" using k(4) le by auto
  ultimately show ?thesis
    using Some k later by (auto simp: roll_window_def window_start_eq)
qed

lemma counter_kept:
  assumes "\<forall>k. capped limit (length (in_window period k G))" "\<forall>t \<in> set G. t div period \<le> now div period"
  shows "counter_inv period limit now G (Some (now div period * period)) (int (length (in_window period (now div period) G)))"
  using assms by (auto simp: counter_inv_def)

lemma counter_bumped:
  assumes "\<forall>k. capped limit (length (in_window period k G))" "\<forall>t \<in> set G. t div period \<le> now div period"
    "\<not> reached limit (int (length (in_window period (now div period) G)))"
  shows "counter_inv period limit now (G @ [now]) (Some (now div period * period))
     (int (length (in_window period (now div period) G)) + 1)"
proof -
  have "capped limit (length (in_window period k (G @ [now])))" for k
    using assms(1,3) by (cases "k = now div period") (auto simp: in_window_def capped_def reached_def split: option.splits)
  then show ?thesis using assms(2) by (auto simp: counter_inv_def in_window_def)
qed

definition usage_inv :: "capabilities \<Rightarrow> instant \<Rightarrow> instant list \<Rightarrow> usage_row option \<Rightarrow> bool" where
  "usage_inv cap T G row \<longleftrightarrow> (let r = (case row of None \<Rightarrow> new_usage_row | Some r \<Rightarrow> r) in
     counter_inv day_us (cp_daily_limit cap) T G (us_day_started r) (us_day_count r)
     \<and> counter_inv minute_us (cp_rate_limit_per_min cap) T G (us_minute_started r) (us_minute_count r))"

lemma try_consume_inv:
  assumes inv: "usage_inv cap T G (table p)" and "T \<le> now"
    and step: "try_consume None p cap now table = (ok, table')"
  shows "usage_inv cap now (if ok then G @ [now] else G) (table' p)"
proof -
  define r where "r = (case table p of None \<Rightarrow> new_usage_row | Some r \<Rightarrow> r)"
  have row: "(case table p of Some r \<Rightarrow> Some r | None \<Rightarrow> Some new_usage_row) = Some r"
    by (simp add: r_def split: option.split)
  have d: "counter_inv day_us (cp_daily_limit cap) T G (us_day_started r) (us_day_count r)"
    and m: "counter_inv minute_us (cp_rate_limit_per_min cap) T G (us_minute_started r) (us_minute_count r)"
    using inv by (simp_all add: usage_inv_def r_def Let_def)
  define dc where "dc = int (length (in_window day_us (now div day_us) G))"
  define mc where "mc = int (length (in_window minute_us (now div minute_us) G))"
  have day: "roll_window day_us now (us_day_started r) (us_day_count r) = (Some (now div day_us * day_us), dc)"
    "\<forall>t \<in> set G. t div day_us \<le> now div day_us" "\<forall>k. capped (cp_daily_limit cap) (length (in_window day_us k G))"
    using counter_rolled [OF d assms(2)] by (auto simp: dc_def)
  have minute: "roll_window minute_us now (us_minute_started r) (us_minute_count r) = (Some (now div minute_us * minute_us), mc)"
    "\<forall>t \<in> set G. t div minute_us \<le> now div minute_us"
    "\<forall>k. capped (cp_rate_limit_per_min cap) (length (in_window minute_us k G))"
    using counter_rolled [OF m assms(2)] by (auto simp: mc_def)
  note kept = counter_kept [OF day(3,2)] counter_kept [OF minute(3,2)]
  note bumped = counter_bumped [OF day(3,2)] counter_bumped [OF minute(3,2)]
  show ?thesis
    using step kept bumped unfolding try_consume_def option.case row day(1) minute(1) prod.case Let_def
      dc_def [symmetric] mc_def [symmetric]
    by (auto simp: usage_inv_def split: if_splits)
qed

lemma try_consume_other:
  "q \<noteq> p \<Longrightarrow> try_consume c q cap now table = (ok, table') \<Longrightarrow> table' p = table p"
  by (auto simp: try_consume_def Let_def split: option.splits prod.splits if_splits)

lemma counter_inv_later:
  assumes "counter_inv period limit T G started count" "T \<le> now" "0 < period"
  shows "counter_inv period limit now G started count"
proof (cases started)
  case None
  then show ?thesis using assms(1) unfolding counter_inv_def by auto
next
  case (Some s)
  then show ?thesis using assms(1) order_trans [OF _ zdiv_mono1 [OF assms(2,3)]] unfolding counter_inv_def
    by fastforce
qed

lemma usage_inv_later: "usage_inv cap T G row \<Longrightarrow> T \<le> now \<Longrightarrow> usage_inv cap now G row"
  by (auto simp: usage_inv_def Let_def intro: counter_inv_later)

lemma usage_grants_inv:
  assumes "usage_inv (caps p) T G (table p)" and "sorted (map fst rs)" and "\<forall>r \<in> set rs. T \<le> fst r"
  shows "\<exists>T' row. usage_inv (caps p) T' (G @ usage_grants caps p rs table) row"
  using assms
proof (induction rs arbitrary: T G table)
  case Nil
  then show ?case by auto
next
  case (Cons r rs)
  obtain now q where r: "r = (now, q)" by (cases r)
  obtain ok table' where step: "try_consume None q (caps q) now table = (ok, table')" by fastforce
  have T: "T \<le> now" and rest: "sorted (map fst rs)" "\<forall>r \<in> set rs. now \<le> fst r"
    using Cons.prems(2,3) r by auto
  show ?case
  proof (cases "q = p")
    case True
    with try_consume_inv [where p = p and table = table, OF Cons.prems(1) T] step
    have "usage_inv (caps p) now (if ok then G @ [now] else G) (table' p)" by simp
    from Cons.IH [where table = table', OF this rest] show ?thesis using r step True by (cases ok) simp_all
  next
    case False
    from usage_inv_later [OF Cons.prems(1) T] try_consume_other [OF False step]
    have "usage_inv (caps p) now G (table' p)" by simp
    from Cons.IH [where table = table', OF this rest] show ?thesis using r step False by simp
  qed
qed

text \<open>C32: with a clock that does not go back, the durable counters grant a provider at most its
  per-minute limit in every minute of the clock and at most its daily limit in every UTC day,
  whatever the other providers consume in between.\<close>

theorem durable_usage_limits_hold:
  assumes "sorted (map fst rs)"
  shows "(case cp_rate_limit_per_min (caps p) of None \<Rightarrow> True
      | Some m \<Rightarrow> int (length (in_window minute_us k (usage_grants caps p rs Map.empty))) \<le> max 0 m)
    \<and> (case cp_daily_limit (caps p) of None \<Rightarrow> True
      | Some m \<Rightarrow> int (length (in_window day_us d (usage_grants caps p rs Map.empty))) \<le> max 0 m)"
proof (cases rs)
  case Nil
  then show ?thesis by (simp add: in_window_def split: option.splits)
next
  case (Cons r rs')
  have "usage_inv (caps p) (fst r) [] (Map.empty p)"
    by (simp add: usage_inv_def counter_inv_def new_usage_row_def in_window_def capped_def split: option.splits)
  from usage_grants_inv [where rs = rs and caps = caps and p = p and G = "[]", OF this assms] assms Cons
  obtain T' row where "usage_inv (caps p) T' (usage_grants caps p rs Map.empty) row" by fastforce
  then show ?thesis by (simp add: usage_inv_def counter_inv_def capped_def Let_def)
qed

definition two_a_minute :: capabilities where
  "two_a_minute = \<lparr>cp_max_attachments = None, cp_max_attachment_mb = None, cp_max_message_mb = None,
     cp_daily_limit = Some 3, cp_rate_limit_per_min = Some 2, cp_needs_verified_domain = False\<rparr>"

theorem durable_usage_limits_hold_witness:
  "usage_grants (\<lambda>_. two_a_minute) 1 [(0, 1), (1, 1), (2, 1), (3, 2), (60000000, 1), (60000001, 1)] Map.empty
     = [0, 1, 60000000]
   \<and> int (length (in_window minute_us 0 (usage_grants (\<lambda>_. two_a_minute) 1
       [(0, 1), (1, 1), (2, 1), (3, 2), (60000000, 1), (60000001, 1)] Map.empty))) \<le> 2"
proof -
  have "usage_grants (\<lambda>_. two_a_minute) 1 [(0, 1), (1, 1), (2, 1), (3, 2), (60000000, 1), (60000001, 1)] Map.empty
     = [0, 1, 60000000]"
    by (simp add: try_consume_def roll_window_def window_start_def new_usage_row_def two_a_minute_def reached_def Let_def)
  then show ?thesis
    using durable_usage_limits_hold [of "[(0, 1), (1, 1), (2, 1), (3, 2), (60000000, 1), (60000001, 1)]"
        0 "\<lambda>_. two_a_minute" 1]
    by (simp add: two_a_minute_def)
qed

end
