(* ===== verification/Router.thy ===== *)
theory Router
  imports ErrorCodes "HOL-Library.Product_Lexorder" "HOL-Library.List_Lexorder" "HOL-Library.Char_ord"
    "HOL-Library.Multiset"
begin

text \<open>
  Recipient resolution and the Test Mode boundary: \<open>notifications/router.py\<close>,
  \<open>notifications/test_mode.py\<close> and the guard of \<open>notifications/recipients.py\<close> over the columns
  of \<open>Recipient\<close> (\<open>db/models/recipients.py\<close>).  The recipients table is a list; the JSON scope
  lists are lists of the strings that \<open>str(item)\<close> gives.
\<close>

section \<open>Recipients\<close>

record recipient =
  rc_id :: int
  rc_email :: string
  rc_name :: "string option"
  rc_role :: "string option"
  rc_list_type :: string
  rc_delivery :: string
  rc_source_scope :: "string list option"
  rc_receives_filter :: "string option"
  rc_alert_types :: "string list option"
  rc_min_severity :: "string option"
  rc_active :: bool

record snapshot =
  sn_email :: string
  sn_name :: string
  sn_role :: string
  sn_delivery :: string
  sn_list_type :: string

record selection =
  sl_to :: "string list"
  sl_cc :: "string list"
  sl_bcc :: "string list"
  sl_snapshot :: "snapshot list"

datatype routing_error = NoActiveRecipient

definition sl_addresses :: "selection \<Rightarrow> string list" where
  "sl_addresses s = sl_to s @ sl_cc s @ sl_bcc s"

definition sl_list_types :: "selection \<Rightarrow> string set" where
  "sl_list_types s = set (map sn_list_type (sl_snapshot s))"

definition recipient_set_hash :: "(string \<Rightarrow> string) \<Rightarrow> selection \<Rightarrow> string" where
  "recipient_set_hash sha256_hex s =
     (let canonical = sort (map (\<lambda>i. (py_lower (py_strip (sn_email i)), py_lower (sn_delivery i), sn_list_type i))
                       (sl_snapshot s))
      in sha256_hex (join_with [CHR 0x0A] (map (\<lambda>(a, b, c). join_with ''|'' [a, b, c]) canonical)))"

section \<open>\<open>RecipientRouter\<close>\<close>

definition APPLY_VERDICTS :: "string list" where
  "APPLY_VERDICTS = [''APPLY'', ''APPLY WITH CONDITIONS'']"

definition severity_rank :: "string \<Rightarrow> nat option" where
  \<comment> \<open>\<open>SEVERITY_ORDER.get\<close>\<close>
  "severity_rank s = map_of [(''info'', 0), (''warning'', 1), (''critical'', 2)] s"

definition active_recipients :: "string \<Rightarrow> recipient list \<Rightarrow> recipient list" where
  "active_recipients list_type rows =
     sort_key rc_id (filter (\<lambda>r. rc_list_type r = list_type \<and> rc_active r) rows)"

definition in_scope :: "recipient \<Rightarrow> string list \<Rightarrow> bool" where
  "in_scope r source_names =
     (let scope = (case rc_source_scope r of None \<Rightarrow> [] | Some s \<Rightarrow> s)
      in scope = [] \<or> (\<exists>n \<in> set source_names. n \<in> set scope))"

definition receives :: "recipient \<Rightarrow> string \<Rightarrow> bool \<Rightarrow> bool" where
  "receives r recommendation urgency_flag =
     (let f = py_or (rc_receives_filter r) ''all''
      in if f = ''all'' then True
         else if f = ''apply'' then recommendation \<in> set APPLY_VERDICTS
         else if f = ''urgent'' then urgency_flag else False)"

definition delivery_of :: "recipient \<Rightarrow> string" where
  "delivery_of r = (if rc_delivery r \<in> {''to'', ''cc'', ''bcc''} then rc_delivery r else ''to'')"

definition snapshot_of :: "string \<Rightarrow> recipient \<Rightarrow> snapshot" where
  "snapshot_of list_type r = \<lparr>sn_email = rc_email r, sn_name = py_or (rc_name r) [],
     sn_role = py_or (rc_role r) [], sn_delivery = rc_delivery r, sn_list_type = list_type\<rparr>"

definition identity_of :: "recipient \<Rightarrow> string \<times> string" where
  "identity_of r = (py_lower (py_strip (rc_email r)), delivery_of r)"

definition add_recipient :: "string \<Rightarrow> selection \<times> (string \<times> string) list \<Rightarrow> recipient
    \<Rightarrow> selection \<times> (string \<times> string) list" where
  \<comment> \<open>the body of the loop of \<open>_selection\<close>\<close>
  "add_recipient list_type acc r =
     (let (s, seen) = acc; d = delivery_of r in
      if identity_of r \<in> set seen then acc
      else (\<lparr>sl_to = sl_to s @ (if d = ''to'' then [rc_email r] else []),
             sl_cc = sl_cc s @ (if d = ''cc'' then [rc_email r] else []),
             sl_bcc = sl_bcc s @ (if d = ''bcc'' then [rc_email r] else []),
             sl_snapshot = sl_snapshot s @ [snapshot_of list_type r]\<rparr>, identity_of r # seen))"

definition select_recipients :: "string \<Rightarrow> recipient list \<Rightarrow> (routing_error, selection) result" where
  \<comment> \<open>\<open>_selection\<close>\<close>
  "select_recipients list_type rs =
     (let s = fst (foldl (add_recipient list_type)
                (\<lparr>sl_to = [], sl_cc = [], sl_bcc = [], sl_snapshot = []\<rparr>, []) rs)
      in if sl_to s = [] \<and> sl_cc s = [] \<and> sl_bcc s = [] then Inl NoActiveRecipient else Inr s)"

definition resolve :: "string \<Rightarrow> string \<Rightarrow> bool \<Rightarrow> bool \<Rightarrow> string list option \<Rightarrow> recipient list
    \<Rightarrow> (routing_error, selection) result" where
  "resolve source_name recommendation urgency_flag test_mode source_scope rows =
     (let source_names = source_name # (case source_scope of None \<Rightarrow> [] | Some s \<Rightarrow> s)
      in if test_mode then select_recipients ''dev_alert'' (active_recipients ''dev_alert'' rows)
         else select_recipients ''tender''
           (filter (\<lambda>r. in_scope r source_names \<and> receives r recommendation urgency_flag)
              (active_recipients ''tender'' rows)))"

definition alert_filter :: "string \<Rightarrow> string \<Rightarrow> recipient \<Rightarrow> bool" where
  "alert_filter alert_type severity r =
     (let threshold = (case severity_rank severity of None \<Rightarrow> 2 | Some n \<Rightarrow> n);
          allowed = (case rc_alert_types r of None \<Rightarrow> [] | Some ts \<Rightarrow> ts);
          rank = (case severity_rank (py_or (rc_min_severity r) ''info'') of None \<Rightarrow> 0 | Some n \<Rightarrow> n)
      in \<not> (allowed \<noteq> [] \<and> alert_type \<notin> set allowed) \<and> \<not> rank < threshold)"

definition resolve_alert :: "string \<Rightarrow> string \<Rightarrow> recipient list \<Rightarrow> (routing_error, selection) result" where
  "resolve_alert alert_type severity rows =
     select_recipients ''dev_alert'' (filter (alert_filter alert_type severity) (active_recipients ''dev_alert'' rows))"

definition resolve_raw_notice :: "recipient list \<Rightarrow> (routing_error, selection) result" where
  "resolve_raw_notice rows = select_recipients ''dev_alert'' (active_recipients ''dev_alert'' rows)"

section \<open>\<open>TestModePolicy\<close> and \<open>RecipientGuard\<close>\<close>

definition TEST_PREFIX :: string where "TEST_PREFIX = ''[TEST]''"

definition has_test_prefix :: "string \<Rightarrow> bool" where
  "has_test_prefix subject \<longleftrightarrow> subject = TEST_PREFIX \<or> has_prefix (TEST_PREFIX @ '' '') subject"

definition guard_tender_recipients :: "bool \<Rightarrow> string list \<Rightarrow> bool" where
  "guard_tender_recipients enabled list_types =
     (if \<not> enabled then True else list_types \<noteq> [] \<and> set list_types \<subseteq> {''dev_alert''})"

definition apply_subject_prefix :: "bool \<Rightarrow> string \<Rightarrow> string" where
  "apply_subject_prefix enabled subject =
     (if \<not> enabled then subject else if has_test_prefix subject then subject
      else TEST_PREFIX @ '' '' @ subject)"

definition active_dev_count :: "recipient list \<Rightarrow> nat" where
  "active_dev_count rows = length (filter (\<lambda>r. rc_list_type r = ''dev_alert'' \<and> rc_active r) rows)"

definition refuse_last_dev_removal :: "recipient list \<Rightarrow> bool" where
  "refuse_last_dev_removal rows \<longleftrightarrow> active_dev_count rows \<le> 1"

definition dev_recipients :: "recipient list \<Rightarrow> recipient list" where
  "dev_recipients rows = active_recipients ''dev_alert'' rows"

section \<open>The selection loop\<close>

text \<open>The recipients that the loop keeps: the first of each address and delivery.\<close>

fun first_of_each :: "(string \<times> string) list \<Rightarrow> recipient list \<Rightarrow> recipient list" where
  "first_of_each seen [] = []"
| "first_of_each seen (r # rs) =
     (if identity_of r \<in> set seen then first_of_each seen rs
      else r # first_of_each (identity_of r # seen) rs)"

definition selection_of :: "string \<Rightarrow> recipient list \<Rightarrow> selection" where
  "selection_of list_type rs =
     (let of_delivery = (\<lambda>d. map rc_email (filter (\<lambda>r. delivery_of r = d) rs))
      in \<lparr>sl_to = of_delivery ''to'', sl_cc = of_delivery ''cc'', sl_bcc = of_delivery ''bcc'',
          sl_snapshot = map (snapshot_of list_type) rs\<rparr>)"

lemma add_recipients:
  "fst (foldl (add_recipient lt) (selection_of lt ks, seen) rs) = selection_of lt (ks @ first_of_each seen rs)"
proof (induction rs arbitrary: ks seen)
  case (Cons r rs)
  have "add_recipient lt (selection_of lt ks, seen) r = (if identity_of r \<in> set seen then (selection_of lt ks, seen)
      else (selection_of lt (ks @ [r]), identity_of r # seen))"
    by (auto simp: add_recipient_def selection_of_def Let_def)
  then show ?case using Cons.IH [of ks seen] Cons.IH [of "ks @ [r]" "identity_of r # seen"] by simp
qed simp

lemma delivery_cases: "delivery_of r = ''to'' \<or> delivery_of r = ''cc'' \<or> delivery_of r = ''bcc''"
  by (auto simp: delivery_of_def)

lemma selection_addresses: "set (sl_addresses (selection_of lt ks)) = rc_email ` set ks"
  using delivery_cases by (auto simp: sl_addresses_def selection_of_def Let_def)

lemma select_recipients_eq:
  "select_recipients lt rs = (if rs = [] then Inl NoActiveRecipient else Inr (selection_of lt (first_of_each [] rs)))"
proof -
  have empty: "\<lparr>sl_to = [], sl_cc = [], sl_bcc = [], sl_snapshot = []\<rparr> = selection_of lt []"
    by (simp add: selection_of_def)
  have none: "sl_to s = [] \<and> sl_cc s = [] \<and> sl_bcc s = [] \<longleftrightarrow> sl_addresses s = []" for s
    by (simp add: sl_addresses_def)
  have reached: "sl_addresses (selection_of lt ks) = [] \<longleftrightarrow> ks = []" for ks
    using arg_cong [where f = "\<lambda>A. A = {}", OF selection_addresses [of lt ks]] by simp
  have "first_of_each [] rs = [] \<longleftrightarrow> rs = []" by (cases rs) simp_all
  then show ?thesis
    unfolding select_recipients_def empty Let_def add_recipients none reached by simp
qed

lemma first_of_each_subset: "set (first_of_each seen rs) \<subseteq> set rs"
  by (induction rs arbitrary: seen) auto

lemma first_of_each_distinct:
  "distinct (map identity_of (first_of_each seen rs)) \<and> set (map identity_of (first_of_each seen rs)) \<inter> set seen = {}"
proof (induction rs arbitrary: seen)
  case (Cons r rs)
  show ?case using Cons.IH [of seen] Cons.IH [of "identity_of r # seen"] by auto
qed simp

lemma first_of_each_covers: "identity_of ` set rs \<subseteq> identity_of ` set (first_of_each seen rs) \<union> set seen"
proof (induction rs arbitrary: seen)
  case (Cons r rs)
  show ?case using Cons.IH [of seen] Cons.IH [of "identity_of r # seen"] by auto
qed simp

text \<open>The recipients a routing decision is about.\<close>

definition eligible :: "string \<Rightarrow> string \<Rightarrow> bool \<Rightarrow> bool \<Rightarrow> string list option \<Rightarrow> recipient \<Rightarrow> bool" where
  "eligible source_name recommendation urgency test_mode source_scope r \<longleftrightarrow> rc_active r
     \<and> (if test_mode then rc_list_type r = ''dev_alert''
        else rc_list_type r = ''tender''
          \<and> in_scope r (source_name # (case source_scope of None \<Rightarrow> [] | Some s \<Rightarrow> s))
          \<and> receives r recommendation urgency)"

lemma resolve_eq:
  "\<exists>rs. set rs = {r \<in> set rows. eligible n v u tm sc r} \<and>
     resolve n v u tm sc rows = select_recipients (if tm then ''dev_alert'' else ''tender'') rs"
proof (cases tm)
  case True
  then show ?thesis
    by (intro exI [of _ "active_recipients ''dev_alert'' rows"])
      (auto simp: resolve_def active_recipients_def eligible_def)
next
  case False
  then show ?thesis
    by (intro exI [of _ "filter (\<lambda>r. in_scope r (n # (case sc of None \<Rightarrow> [] | Some s \<Rightarrow> s)) \<and> receives r v u)
          (active_recipients ''tender'' rows)"])
      (auto simp: resolve_def active_recipients_def eligible_def)
qed

text \<open>C6: routing a tender message fails exactly when no recipient is eligible; otherwise it
  reaches every eligible recipient, each normalised address once per delivery field, and nobody
  else: in Test Mode only active recipients of the dev list, else only active business recipients
  in scope that take this verdict; and the selection passes the Test Mode guard.\<close>

theorem routing_exact:
  "case resolve n v u tm sc rows of
     Inl _ \<Rightarrow> \<not> (\<exists>r \<in> set rows. eligible n v u tm sc r)
   | Inr s \<Rightarrow> (\<exists>ks. set ks \<subseteq> {r \<in> set rows. eligible n v u tm sc r} \<and> ks \<noteq> []
        \<and> identity_of ` set ks = identity_of ` {r \<in> set rows. eligible n v u tm sc r}
        \<and> distinct (map identity_of ks)
        \<and> sl_to s = map rc_email (filter (\<lambda>r. delivery_of r = ''to'') ks)
        \<and> sl_cc s = map rc_email (filter (\<lambda>r. delivery_of r = ''cc'') ks)
        \<and> sl_bcc s = map rc_email (filter (\<lambda>r. delivery_of r = ''bcc'') ks)
        \<and> map sn_email (sl_snapshot s) = map rc_email ks)
      \<and> sl_list_types s = {if tm then ''dev_alert'' else ''tender''}
      \<and> guard_tender_recipients tm (map sn_list_type (sl_snapshot s))"
proof -
  obtain rs where rs: "set rs = {r \<in> set rows. eligible n v u tm sc r}"
    "resolve n v u tm sc rows = select_recipients (if tm then ''dev_alert'' else ''tender'') rs"
    using resolve_eq by blast
  show ?thesis
  proof (cases "rs = []")
    case True
    then show ?thesis using rs by (auto simp: select_recipients_eq)
  next
    case False
    define ks where "ks = first_of_each [] rs"
    have ks: "set ks \<subseteq> set rs" "ks \<noteq> []" "identity_of ` set ks = identity_of ` set rs" "distinct (map identity_of ks)"
      using first_of_each_subset [of "[]" rs] first_of_each_covers [of rs "[]"]
        first_of_each_distinct [of "[]" rs] False
      by (auto simp: ks_def)
    define s where "s = selection_of (if tm then ''dev_alert'' else ''tender'') ks"
    have res: "resolve n v u tm sc rows = Inr s" using rs(2) False by (simp add: select_recipients_eq ks_def s_def)
    have lists: "map sn_list_type (sl_snapshot s) = map (\<lambda>_. if tm then ''dev_alert'' else ''tender'') ks"
      by (simp add: s_def selection_of_def snapshot_of_def Let_def)
    then have "sl_list_types s = {if tm then ''dev_alert'' else ''tender''}"
      using ks(2) unfolding sl_list_types_def lists by (auto simp: image_constant_conv)
    moreover have "guard_tender_recipients tm (map sn_list_type (sl_snapshot s))"
      using ks(2) unfolding lists by (simp add: guard_tender_recipients_def image_constant_conv)
    moreover have "sl_to s = map rc_email (filter (\<lambda>r. delivery_of r = ''to'') ks)
        \<and> sl_cc s = map rc_email (filter (\<lambda>r. delivery_of r = ''cc'') ks)
        \<and> sl_bcc s = map rc_email (filter (\<lambda>r. delivery_of r = ''bcc'') ks)
        \<and> map sn_email (sl_snapshot s) = map rc_email ks"
      by (simp add: s_def selection_of_def snapshot_of_def Let_def)
    ultimately show ?thesis using res ks rs(1) by auto
  qed
qed

definition dev_and_business :: "recipient list" where
  "dev_and_business =
    [\<lparr>rc_id = 1, rc_email = ''boss@x.org'', rc_name = None, rc_role = None, rc_list_type = ''tender'',
      rc_delivery = ''to'', rc_source_scope = None, rc_receives_filter = None, rc_alert_types = None,
      rc_min_severity = None, rc_active = True\<rparr>,
     \<lparr>rc_id = 2, rc_email = ''dev@x.org'', rc_name = None, rc_role = None, rc_list_type = ''dev_alert'',
      rc_delivery = ''cc'', rc_source_scope = None, rc_receives_filter = None, rc_alert_types = None,
      rc_min_severity = Some ''info'', rc_active = True\<rparr>]"

theorem routing_exact_witness:
  "\<exists>s. resolve ''s'' ''APPLY'' False True None dev_and_business = Inr s \<and> sl_addresses s = [''dev@x.org'']
     \<and> sl_list_types s = {''dev_alert''}"
proof -
  obtain s where s: "resolve ''s'' ''APPLY'' False True None dev_and_business = Inr s" "sl_addresses s = [''dev@x.org'']"
    by (simp add: resolve_def dev_and_business_def active_recipients_def select_recipients_eq selection_of_def
        delivery_of_def sl_addresses_def)
  from routing_exact [where n = "''s''" and v = "''APPLY''" and u = False and tm = True and sc = None
      and rows = dev_and_business] s show ?thesis by simp
qed

section \<open>System alerts\<close>

text \<open>The severity test of system alerts is the wrong way round: an alert reaches only
  recipients whose minimum severity is at least that of the alert, so a recipient that asked for
  everything from \<open>info\<close> up gets no critical alert.\<close>

lemma alert_severity_inverted:
  assumes "resolve_alert alert_type ''critical'' rows = Inr s"
  shows "\<exists>ks. set ks \<subseteq> set rows \<and> map sn_email (sl_snapshot s) = map rc_email ks
     \<and> (\<forall>r \<in> set ks. rc_min_severity r = Some ''critical'')"
proof -
  define rs where "rs = filter (alert_filter alert_type ''critical'') (active_recipients ''dev_alert'' rows)"
  have s: "s = selection_of ''dev_alert'' (first_of_each [] rs)"
    using assms by (simp add: resolve_alert_def rs_def select_recipients_eq split: if_splits)
  have "rc_min_severity r = Some ''critical''" if "alert_filter alert_type ''critical'' r" for r
    using that by (cases "rc_min_severity r") (auto simp: alert_filter_def severity_rank_def py_or_def Let_def split: if_splits)
  then have crit: "\<forall>r \<in> set rs. rc_min_severity r = Some ''critical''" by (simp add: rs_def)
  have sub: "set (first_of_each [] rs) \<subseteq> set rs" by (rule first_of_each_subset)
  have "set rs \<subseteq> set rows" by (auto simp: rs_def active_recipients_def)
  then show ?thesis using s crit sub
    by (intro exI [of _ "first_of_each [] rs"]) (auto simp: selection_of_def snapshot_of_def Let_def)
qed

definition pager :: recipient where
  "pager = \<lparr>rc_id = 3, rc_email = ''ops@x.org'', rc_name = None, rc_role = None, rc_list_type = ''dev_alert'',
     rc_delivery = ''to'', rc_source_scope = None, rc_receives_filter = None, rc_alert_types = None,
     rc_min_severity = Some ''critical'', rc_active = True\<rparr>"

section \<open>Hash, prefix, guard\<close>

lemma recipient_set_hash_order:
  "mset (sl_snapshot s) = mset (sl_snapshot s') \<Longrightarrow> recipient_set_hash h s = recipient_set_hash h s'"
proof -
  assume eq: "mset (sl_snapshot s) = mset (sl_snapshot s')"
  have "sort (map f (sl_snapshot s)) = sort (map f (sl_snapshot s'))"
    for f :: "snapshot \<Rightarrow> string \<times> string \<times> string"
    by (rule properties_for_sort) (simp_all add: eq)
  then show ?thesis by (simp add: recipient_set_hash_def)
qed

text \<open>In Test Mode every subject carries the marker exactly once, however often the policy is
  applied; outside Test Mode the subject is never changed.\<close>

lemma subject_prefix_once:
  "apply_subject_prefix e (apply_subject_prefix e subject) = apply_subject_prefix e subject
   \<and> (e \<longrightarrow> has_test_prefix (apply_subject_prefix e subject))
   \<and> (\<not> e \<longrightarrow> apply_subject_prefix e subject = subject)
   \<and> (e \<and> \<not> has_test_prefix subject \<longrightarrow> apply_subject_prefix e subject = ''[TEST] '' @ subject)"
  by (auto simp: apply_subject_prefix_def has_test_prefix_def TEST_PREFIX_def has_prefix_iff)

lemma guarded_removal_keeps_dev:
  "\<not> refuse_last_dev_removal rows \<Longrightarrow> distinct (map rc_id rows) \<Longrightarrow>
     1 \<le> active_dev_count (filter (\<lambda>r. rc_id r \<noteq> i) rows)"
proof -
  assume "\<not> refuse_last_dev_removal rows" and d: "distinct (map rc_id rows)"
  then have two: "2 \<le> active_dev_count rows" by (simp add: refuse_last_dev_removal_def)
  have "active_dev_count rows \<le> Suc (active_dev_count (filter (\<lambda>r. rc_id r \<noteq> i) rows))"
    using d
  proof (induction rows)
    case (Cons r rows)
    have "rc_id r = i \<Longrightarrow> filter (\<lambda>r. rc_id r \<noteq> i) rows = rows"
      using Cons.prems by (force simp: filter_id_conv image_iff)
    then show ?case using Cons by (auto simp: active_dev_count_def)
  qed (simp add: active_dev_count_def)
  with two show ?thesis by simp
qed

end
