(* ===== verification/TenderStore.thy ===== *)
theory TenderStore
  imports ErrorCodes "HOL-Library.Product_Lexorder"
begin

text \<open>
  Tender and run rows: the transition matrix of \<open>db/repositories/status.py\<close>, the tender
  repository \<open>db/repositories/tenders.py\<close> and the run repository \<open>db/repositories/runs.py\<close> with
  \<open>derive_run_status\<close> of \<open>dedup/service.py\<close>.  A table is a list in insertion order.  A
  \<open>datetime\<close> is naive or carries its offset, in microseconds; the store keeps it as it is.
\<close>

section \<open>Statuses and transitions\<close>

definition TENDER_STATUSES :: "string list" where
  "TENDER_STATUSES = [''new'', ''updated'', ''processed'', ''verdict_failed'', ''awaiting_budget'',
     ''awaiting_approved_provider'', ''expired'']"

definition transition_matrix :: "string \<Rightarrow> string list option" where
  \<comment> \<open>\<open>TENDER_TRANSITION_MATRIX.get\<close>\<close>
  "transition_matrix status = map_of
     [(''new'', TENDER_STATUSES),
      (''updated'', [''updated'', ''processed'', ''verdict_failed'', ''awaiting_budget'', ''awaiting_approved_provider'']),
      (''processed'', [''processed'', ''updated'']),
      (''awaiting_budget'', [''awaiting_budget'', ''updated'', ''processed'', ''verdict_failed'', ''awaiting_approved_provider'']),
      (''awaiting_approved_provider'',
         [''awaiting_approved_provider'', ''updated'', ''processed'', ''verdict_failed'', ''awaiting_budget'']),
      (''verdict_failed'', [''verdict_failed'']),
      (''expired'', [''expired''])] status"

definition terminal :: "string \<Rightarrow> bool" where
  \<comment> \<open>\<open>status in TERMINAL_STATUSES\<close>\<close>
  "terminal status = (case transition_matrix status of None \<Rightarrow> False | Some allowed \<Rightarrow> set allowed = {status})"

datatype persistence_error = PersistenceError string string

definition valid_transition :: "string \<Rightarrow> string \<Rightarrow> (persistence_error, unit) result" where
  \<comment> \<open>\<open>assert_valid_tender_status\<close> and \<open>assert_valid_transition\<close>\<close>
  "valid_transition current new_status =
     (if new_status \<notin> set TENDER_STATUSES
      then Inl (PersistenceError ''unknown tender status'' PERSISTENCE_INVALID_STATUS_TRANSITION)
      else case transition_matrix current of
        None \<Rightarrow> Inl (PersistenceError ''not a supported transition'' PERSISTENCE_INVALID_STATUS_TRANSITION)
      | Some allowed \<Rightarrow> if new_status \<in> set allowed then Inr ()
          else Inl (PersistenceError ''not a supported transition'' PERSISTENCE_INVALID_STATUS_TRANSITION))"

lemmas transition_defs = transition_matrix_def valid_transition_def terminal_def TENDER_STATUSES_def

lemma terminal_iff: "terminal s \<longleftrightarrow> s = ''verdict_failed'' \<or> s = ''expired''"
  by (auto simp: terminal_def transition_matrix_def TENDER_STATUSES_def set_eq_subset split: if_splits)

text \<open>The dead ends of the lifecycle are exactly \<open>verdict_failed\<close> and \<open>expired\<close>: nothing
  leaves them, every other catalogued status can become \<open>updated\<close>, no status outside the catalogue
  is ever entered or left, and a tender never returns to \<open>new\<close>.\<close>

lemma transitions_exact:
  "(is_ok (valid_transition s t) \<longrightarrow> s \<in> set TENDER_STATUSES \<and> t \<in> set TENDER_STATUSES)
   \<and> (terminal s \<longrightarrow> is_ok (valid_transition s t) = (t = s))
   \<and> (s \<in> set TENDER_STATUSES \<and> \<not> terminal s \<longrightarrow> is_ok (valid_transition s ''updated''))
   \<and> (is_ok (valid_transition s ''new'') = (s = ''new''))
   \<and> (terminal s = (s \<in> {''verdict_failed'', ''expired''}))"
proof -
  have "is_ok (valid_transition s t) \<longrightarrow> s \<in> set TENDER_STATUSES \<and> t \<in> set TENDER_STATUSES"
    by (auto simp: valid_transition_def transition_matrix_def TENDER_STATUSES_def split: if_splits)
  moreover have "terminal s \<longrightarrow> is_ok (valid_transition s t) = (t = s)"
    unfolding terminal_iff by (auto simp: valid_transition_def transition_matrix_def TENDER_STATUSES_def)
  moreover have "s \<in> set TENDER_STATUSES \<and> \<not> terminal s \<longrightarrow> is_ok (valid_transition s ''updated'')"
    unfolding terminal_iff by (auto simp: valid_transition_def transition_matrix_def TENDER_STATUSES_def)
  moreover have "is_ok (valid_transition s ''new'') = (s = ''new'')"
    by (auto simp: valid_transition_def transition_matrix_def TENDER_STATUSES_def)
  ultimately show ?thesis by (simp add: terminal_iff)
qed

section \<open>Tenders\<close>

datatype py_datetime = Naive int | Aware int int

definition instant_of :: "py_datetime \<Rightarrow> instant" where
  \<comment> \<open>naive values are read as UTC; an aware one is local time with its offset\<close>
  "instant_of d = (case d of Naive t \<Rightarrow> t | Aware t off \<Rightarrow> t - off)"

record tender_listing =
  ls_external_id :: string
  ls_title :: string
  ls_url :: string
  ls_published_at :: "py_datetime option"
  ls_deadline_at :: "py_datetime option"
  ls_deadline_timezone :: "string option"
  ls_raw_metadata :: "(string \<times> json) list"

record tender =
  tn_id :: int
  tn_source_id :: int
  tn_external_id :: string
  tn_url :: string
  tn_title :: string
  tn_published_date :: "py_datetime option"
  tn_deadline :: "py_datetime option"
  tn_deadline_timezone :: "string option"
  tn_raw_metadata :: "(string \<times> json) list option"
  tn_status :: string
  tn_first_seen_at :: instant
  tn_correlation_id :: string
  tn_is_update :: bool

abbreviation tender_key :: "tender \<Rightarrow> int \<times> string" where
  "tender_key t \<equiv> (tn_source_id t, tn_external_id t)"

definition get_by_identity :: "int \<Rightarrow> string \<Rightarrow> tender list \<Rightarrow> tender option" where
  "get_by_identity source_id external_id ts = List.find (\<lambda>t. tender_key t = (source_id, external_id)) ts"

definition tender_exists :: "int \<Rightarrow> string \<Rightarrow> tender list \<Rightarrow> bool" where
  "tender_exists source_id external_id ts \<longleftrightarrow> get_by_identity source_id external_id ts \<noteq> None"

definition get_many_by_identity :: "int \<Rightarrow> string list \<Rightarrow> tender list \<Rightarrow> (string \<Rightarrow> tender option)" where
  "get_many_by_identity source_id external_ids ts =
     (let ids = filter (\<lambda>e. py_strip e \<noteq> []) external_ids
      in map_of (rev (map (\<lambda>t. (tn_external_id t, t))
           (filter (\<lambda>t. tn_source_id t = source_id \<and> tn_external_id t \<in> set ids) ts))))"

definition put_tender :: "tender \<Rightarrow> tender list \<Rightarrow> tender list" where
  "put_tender t ts = map (\<lambda>t'. if tn_id t' = tn_id t then t else t') ts"

definition new_tender :: "int \<Rightarrow> int \<Rightarrow> tender_listing \<Rightarrow> string \<Rightarrow> instant \<Rightarrow> tender" where
  "new_tender tid source_id l correlation_id now =
     \<lparr>tn_id = tid, tn_source_id = source_id, tn_external_id = ls_external_id l, tn_url = ls_url l,
      tn_title = ls_title l, tn_published_date = ls_published_at l, tn_deadline = ls_deadline_at l,
      tn_deadline_timezone = ls_deadline_timezone l, tn_raw_metadata = Some (ls_raw_metadata l),
      tn_status = ''new'', tn_first_seen_at = now, tn_correlation_id = correlation_id, tn_is_update = False\<rparr>"

text \<open>\<open>claim_new\<close>: the insert under a savepoint fails on either unique constraint, the identity or
  the correlation id; then the row with the same identity, if any, is the winner.\<close>

definition claim_new ::
  "int \<Rightarrow> int \<Rightarrow> tender_listing \<Rightarrow> string \<Rightarrow> instant \<Rightarrow> tender list
     \<Rightarrow> (persistence_error, tender \<times> bool \<times> tender list) result" where
  "claim_new tid source_id l correlation_id now ts =
     (if tender_exists source_id (ls_external_id l) ts \<or> correlation_id \<in> tn_correlation_id ` set ts
      then case get_by_identity source_id (ls_external_id l) ts of
          None \<Rightarrow> Inl (PersistenceError ''unique-constraint race with no winner'' PERSISTENCE_CONSTRAINT_VIOLATION)
        | Some winner \<Rightarrow> Inr (winner, False, ts)
      else let t = new_tender tid source_id l correlation_id now in Inr (t, True, ts @ [t]))"

definition set_status :: "tender \<Rightarrow> string \<Rightarrow> (persistence_error, tender) result" where
  "set_status t new_status =
     bind_result (valid_transition (tn_status t) new_status) (\<lambda>_. Inr (t\<lparr>tn_status := new_status\<rparr>))"

definition apply_update :: "tender \<Rightarrow> tender_listing \<Rightarrow> (persistence_error, tender) result" where
  "apply_update t l =
     (let meta = obj_update (case tn_raw_metadata t of None \<Rightarrow> [] | Some m \<Rightarrow> m) (ls_raw_metadata l)
      in set_status (t\<lparr>tn_title := ls_title l, tn_url := ls_url l, tn_published_date := ls_published_at l,
             tn_deadline := ls_deadline_at l, tn_deadline_timezone := ls_deadline_timezone l,
             tn_raw_metadata := Some meta, tn_is_update := True\<rparr>) ''updated'')"

definition list_by_source :: "int \<Rightarrow> tender list \<Rightarrow> tender list" where
  "list_by_source source_id ts = sort_key tn_first_seen_at (filter (\<lambda>t. tn_source_id t = source_id) ts)"

definition list_by_status :: "string \<Rightarrow> tender list \<Rightarrow> tender list" where
  "list_by_status status ts = sort_key tn_first_seen_at (filter (\<lambda>t. tn_status t = status) ts)"

definition limited :: "nat option \<Rightarrow> 'a list \<Rightarrow> 'a list" where
  "limited n xs = (case n of None \<Rightarrow> xs | Some k \<Rightarrow> take k xs)"

definition list_unprocessed :: "int \<Rightarrow> nat option \<Rightarrow> instant \<Rightarrow> tender list \<Rightarrow> tender list" where
  "list_unprocessed source_id limit moment ts =
     limited limit (sort_key (\<lambda>t. (tn_first_seen_at t, tn_id t))
       (filter (\<lambda>t. tn_source_id t = source_id \<and> tn_status t = ''new''
          \<and> (case tn_deadline t of None \<Rightarrow> True | Some d \<Rightarrow> instant_of d > moment)) ts))"

definition list_expired_unprocessed :: "instant \<Rightarrow> int list option \<Rightarrow> tender list \<Rightarrow> tender list" where
  "list_expired_unprocessed moment source_ids ts =
     sort_key (\<lambda>t. (tn_source_id t, tn_id t))
       (filter (\<lambda>t. tn_status t = ''new''
          \<and> (case tn_deadline t of None \<Rightarrow> False | Some d \<Rightarrow> instant_of d \<le> moment)
          \<and> (case source_ids of None \<Rightarrow> True | Some ids \<Rightarrow> tn_source_id t \<in> set ids)) ts)"

text \<open>A never-verdicted tender is recoverable or expired, never both.\<close>

lemma unprocessed_partition:
  "set (list_unprocessed s None now ts) \<union> set (list_expired_unprocessed now (Some [s]) ts)
     = {t \<in> set ts. tn_source_id t = s \<and> tn_status t = ''new''}
   \<and> set (list_unprocessed s None now ts) \<inter> set (list_expired_unprocessed now (Some [s]) ts) = {}"
  by (auto simp: list_unprocessed_def list_expired_unprocessed_def limited_def split: option.splits)

lemma list_unprocessed_bounded:
  "length (list_unprocessed s (Some k) now ts) \<le> k \<and> sorted (map (\<lambda>t. (tn_first_seen_at t, tn_id t)) (list_unprocessed s l now ts))"
  by (auto simp: list_unprocessed_def limited_def sorted_wrt_take simp flip: take_map split: option.split)

lemma apply_update_ok:
  "s \<in> set TENDER_STATUSES \<Longrightarrow> \<not> terminal s \<Longrightarrow> tn_status t = s \<Longrightarrow>
     apply_update t l = Inr (t\<lparr>tn_title := ls_title l, tn_url := ls_url l,
       tn_published_date := ls_published_at l, tn_deadline := ls_deadline_at l,
       tn_deadline_timezone := ls_deadline_timezone l,
       tn_raw_metadata := Some (obj_update (case tn_raw_metadata t of None \<Rightarrow> [] | Some m \<Rightarrow> m) (ls_raw_metadata l)),
       tn_is_update := True, tn_status := ''updated''\<rparr>)"
  unfolding terminal_iff
  by (auto simp: apply_update_def set_status_def valid_transition_def transition_matrix_def TENDER_STATUSES_def Let_def)

section \<open>Runs\<close>

record run_history =
  rh_id :: int
  rh_source_id :: int
  rh_started_at :: instant
  rh_ended_at :: "instant option"
  rh_listings_found :: int
  rh_new_count :: int
  rh_update_count :: int
  rh_unchanged_count :: int
  rh_error_count :: int
  rh_failed_correlation_ids :: "string list option"
  rh_correlation_id :: "string option"
  rh_failed_stage :: "string option"
  rh_error_code :: "string option"
  rh_stages :: "(string \<times> string) list option"
  rh_config_version :: "int option"
  rh_trigger :: "string option"
  rh_tender_id :: "int option"

record run_counts =
  rn_listings_found :: int
  rn_new_count :: int
  rn_update_count :: int
  rn_unchanged_count :: int

definition create_run :: "int \<Rightarrow> int \<Rightarrow> string \<Rightarrow> instant option \<Rightarrow> instant \<Rightarrow> run_history" where
  "create_run rid source_id correlation_id started_at now =
     \<lparr>rh_id = rid, rh_source_id = source_id,
      rh_started_at = (case started_at of None \<Rightarrow> now | Some t \<Rightarrow> t), rh_ended_at = None,
      rh_listings_found = 0, rh_new_count = 0, rh_update_count = 0, rh_unchanged_count = 0,
      rh_error_count = 0, rh_failed_correlation_ids = None, rh_correlation_id = Some correlation_id,
      rh_failed_stage = None, rh_error_code = None, rh_stages = None, rh_config_version = None,
      rh_trigger = None, rh_tender_id = None\<rparr>"

definition with_counts :: "run_counts \<Rightarrow> run_history \<Rightarrow> run_history" where
  "with_counts c r = r\<lparr>rh_listings_found := rn_listings_found c, rh_new_count := rn_new_count c,
     rh_update_count := rn_update_count c, rh_unchanged_count := rn_unchanged_count c\<rparr>"

definition complete_run :: "run_counts \<Rightarrow> instant option \<Rightarrow> instant \<Rightarrow> run_history \<Rightarrow> run_history" where
  "complete_run c ended_at now r =
     (if rh_ended_at r \<noteq> None then r
      else (with_counts c r)\<lparr>rh_ended_at := Some (case ended_at of None \<Rightarrow> now | Some t \<Rightarrow> t)\<rparr>)"

definition mark_errored :: "string \<Rightarrow> run_counts option \<Rightarrow> instant \<Rightarrow> run_history \<Rightarrow> run_history" where
  "mark_errored correlation_id counts now r =
     (if rh_ended_at r \<noteq> None then r
      else let failed = (case rh_failed_correlation_ids r of None \<Rightarrow> [] | Some f \<Rightarrow> f);
               r' = r\<lparr>rh_ended_at := Some now, rh_error_count := rh_error_count r + 1,
                      rh_failed_correlation_ids :=
                        Some (if correlation_id \<in> set failed then failed else failed @ [correlation_id])\<rparr>
           in case counts of None \<Rightarrow> r' | Some c \<Rightarrow> with_counts c r')"

definition record_stages ::
  "(string \<times> string) list \<Rightarrow> int option \<Rightarrow> string option \<Rightarrow> string option \<Rightarrow> run_history \<Rightarrow> run_history" where
  "record_stages stages config_version failed_stage error_code r =
     r\<lparr>rh_stages := Some stages, rh_config_version := config_version,
       rh_failed_stage := failed_stage, rh_error_code := error_code\<rparr>"

definition derive_run_status :: "run_history \<Rightarrow> string" where
  "derive_run_status r = (if rh_ended_at r = None then ''RUNNING''
     else if rh_error_count r > 0 then ''ERRORED'' else ''COMPLETED'')"

datatype run_op = CompleteRun run_counts "instant option" instant
  | MarkErrored string "run_counts option" instant
  | RecordStages "(string \<times> string) list" "int option" "string option" "string option"

fun run_step :: "run_history \<Rightarrow> run_op \<Rightarrow> run_history" where
  "run_step r (CompleteRun c e now) = complete_run c e now r"
| "run_step r (MarkErrored cid c now) = mark_errored cid c now r"
| "run_step r (RecordStages s v f e) = record_stages s v f e r"

definition run_outcome :: "run_history \<Rightarrow> instant option \<times> (int \<times> int \<times> int \<times> int) \<times> int \<times> string list option" where
  "run_outcome r = (rh_ended_at r, (rh_listings_found r, rh_new_count r, rh_update_count r, rh_unchanged_count r),
     rh_error_count r, rh_failed_correlation_ids r)"

text \<open>A run row is open and clean, or it is ended with at most one recorded error.\<close>

definition run_inv :: "run_history \<Rightarrow> bool" where
  "run_inv r \<longleftrightarrow> (rh_ended_at r = None \<longrightarrow> rh_error_count r = 0) \<and> rh_error_count r \<in> {0, 1}
     \<and> (rh_error_count r = 0) = (rh_failed_correlation_ids r = None)"

lemma run_step_inv: "run_inv r \<Longrightarrow> run_inv (run_step r a)"
  by (cases a) (auto simp: run_inv_def complete_run_def mark_errored_def record_stages_def with_counts_def
      Let_def split: option.splits)

interpretation run_lifecycle: guarded_steps run_step run_inv
  by unfold_locales (rule run_step_inv)

lemma ended_step: "rh_ended_at r \<noteq> None \<Longrightarrow> run_outcome (run_step r a) = run_outcome r"
  by (cases a) (auto simp: run_outcome_def complete_run_def mark_errored_def record_stages_def)

lemma run_outcome_ended: "run_outcome r = run_outcome r' \<Longrightarrow> rh_ended_at r = rh_ended_at r'"
  by (simp add: run_outcome_def)

lemma ended_history: "rh_ended_at r \<noteq> None \<Longrightarrow> run_outcome (foldl run_step r ops) = run_outcome r"
proof (induction ops arbitrary: r)
  case (Cons a ops)
  then show ?case using ended_step [of r a] run_outcome_ended by (metis foldl_Cons)
qed simp

text \<open>A run ends once: whatever is called afterwards, in whatever order, its end time, counts,
  errors and derived status stay as the first ending call left them; a run that was never marked
  as errored has no error, and one that was has exactly one, with its correlation id recorded.\<close>

lemma run_ends_once:
  assumes "rh_ended_at (foldl run_step (create_run rid sid cid st now) before) \<noteq> None"
  shows "run_outcome (foldl run_step (create_run rid sid cid st now) (before @ later))
      = run_outcome (foldl run_step (create_run rid sid cid st now) before)
    \<and> derive_run_status (foldl run_step (create_run rid sid cid st now) (before @ later))
      = derive_run_status (foldl run_step (create_run rid sid cid st now) before)
    \<and> rh_error_count (foldl run_step (create_run rid sid cid st now) (before @ later)) \<in> {0, 1}"
proof -
  let ?r = "foldl run_step (create_run rid sid cid st now) before"
  have out: "run_outcome (foldl run_step ?r later) = run_outcome ?r" by (rule ended_history [OF assms])
  then have "derive_run_status (foldl run_step ?r later) = derive_run_status ?r"
    by (simp add: derive_run_status_def run_outcome_def)
  moreover have "run_inv (create_run rid sid cid st now)" by (simp add: run_inv_def create_run_def)
  then have "run_inv (foldl run_step ?r later)" by (intro run_lifecycle.history_keeps)
  ultimately show ?thesis using out unfolding foldl_append run_inv_def by blast
qed

end
