(* ===== verification/Classify.thy ===== *)
theory Classify
  imports TenderStore
begin

text \<open>
  Change detection, \<open>dedup/classify.py\<close>: the projection of a listing and of a stored tender on the
  comparison contract, the change policy and \<open>compare\<close>.  \<open>str()\<close> of a float, a list or a dictionary
  is the argument \<open>repr_of\<close>.  The theorems give what makes an update, and when a stored update is
  stable: the next crawl of the same listing finds nothing changed.
\<close>

section \<open>Normalisation\<close>

definition py_str :: "(json \<Rightarrow> string) \<Rightarrow> json \<Rightarrow> string" where
  "py_str repr_of v = (case v of JStr s \<Rightarrow> s | JInt n \<Rightarrow> int_str n
     | JBool b \<Rightarrow> if b then ''True'' else ''False'' | JNull \<Rightarrow> ''None'' | _ \<Rightarrow> repr_of v)"

definition norm_text :: "string option \<Rightarrow> string" where
  "norm_text value = collapse_space (py_or value [])"

definition norm_dt :: "py_datetime option \<Rightarrow> instant option" where
  "norm_dt value = map_option instant_of value"

definition norm_key :: "(json \<Rightarrow> string) \<Rightarrow> string \<Rightarrow> (string \<times> json) list \<Rightarrow> string" where
  \<comment> \<open>\<open>_norm_ref\<close> and \<open>_norm_marker\<close>, for their two keys\<close>
  "norm_key repr_of key metadata =
     (let value = obj_get metadata key
      in if \<not> json_truthy value then [] else norm_text (Some (py_str repr_of value)))"

definition ADDENDUM_MARKER_KEY :: string where
  "ADDENDUM_MARKER_KEY = ''addendum_marker''"

datatype field_value = FText string | FTime "instant option"

type_synonym contract = "string \<Rightarrow> field_value"

definition COMPARISON_FIELDS :: "string list" where
  "COMPARISON_FIELDS = [''title'', ''url'', ''published_at'', ''deadline'', ''deadline_timezone'',
     ''reference'', ADDENDUM_MARKER_KEY]"

definition CHANGE_TYPE_BY_FIELD :: "(string \<times> string) list" where
  "CHANGE_TYPE_BY_FIELD =
    [(''title'', ''TITLE_CHANGED''), (''url'', ''OTHER_MATERIAL_CHANGE''),
     (''published_at'', ''OTHER_MATERIAL_CHANGE''), (''deadline'', ''DEADLINE_CHANGED''),
     (''deadline_timezone'', ''OTHER_MATERIAL_CHANGE''), (''reference'', ''OTHER_MATERIAL_CHANGE''),
     (ADDENDUM_MARKER_KEY, ''CHANGE_MARKER_CHANGED'')]"

definition DEFAULT_MATERIAL_FIELDS :: "string list" where
  "DEFAULT_MATERIAL_FIELDS = [''title'', ''deadline'', ADDENDUM_MARKER_KEY]"

text \<open>The fields of a candidate or of a row that the comparison looks at.\<close>

record compared =
  cm_title :: string
  cm_url :: string
  cm_published_at :: "instant option"
  cm_deadline :: "instant option"
  cm_deadline_timezone :: string
  cm_reference :: string
  cm_marker :: string

definition normalize_listing :: "(json \<Rightarrow> string) \<Rightarrow> tender_listing \<Rightarrow> compared" where
  "normalize_listing repr_of l =
     (let meta = ls_raw_metadata l in
      \<lparr>cm_title = norm_text (Some (ls_title l)), cm_url = norm_text (Some (ls_url l)),
       cm_published_at = norm_dt (ls_published_at l), cm_deadline = norm_dt (ls_deadline_at l),
       cm_deadline_timezone = norm_text (ls_deadline_timezone l),
       cm_reference = norm_key repr_of ''reference'' meta,
       cm_marker = norm_key repr_of ADDENDUM_MARKER_KEY meta\<rparr>)"

definition normalize_tender :: "(json \<Rightarrow> string) \<Rightarrow> tender \<Rightarrow> compared" where
  "normalize_tender repr_of t =
     (let meta = (case tn_raw_metadata t of None \<Rightarrow> [] | Some m \<Rightarrow> m) in
      \<lparr>cm_title = norm_text (Some (tn_title t)), cm_url = norm_text (Some (tn_url t)),
       cm_published_at = norm_dt (tn_published_date t), cm_deadline = norm_dt (tn_deadline t),
       cm_deadline_timezone = norm_text (tn_deadline_timezone t),
       cm_reference = norm_key repr_of ''reference'' meta,
       cm_marker = norm_key repr_of ADDENDUM_MARKER_KEY meta\<rparr>)"

definition field_of :: "compared \<Rightarrow> contract" where
  "field_of c f =
     (if f = ''title'' then FText (cm_title c) else if f = ''url'' then FText (cm_url c)
      else if f = ''published_at'' then FTime (cm_published_at c)
      else if f = ''deadline'' then FTime (cm_deadline c)
      else if f = ''deadline_timezone'' then FText (cm_deadline_timezone c)
      else if f = ''reference'' then FText (cm_reference c) else FText (cm_marker c))"

section \<open>\<open>compare\<close>\<close>

record comparison =
  cmp_current :: compared
  cmp_seen :: compared
  cmp_changed_fields :: "string list"
  cmp_change_types :: "string list"
  cmp_material_change :: bool

definition change_type :: "compared \<Rightarrow> string \<Rightarrow> string" where
  "change_type seen key =
     (if key = ADDENDUM_MARKER_KEY
      then (if cm_marker seen = [] then ''ADDENDUM_ADDED'' else ''CHANGE_MARKER_CHANGED'')
      else case map_of CHANGE_TYPE_BY_FIELD key of None \<Rightarrow> ''OTHER_MATERIAL_CHANGE'' | Some c \<Rightarrow> c)"

definition compare :: "(json \<Rightarrow> string) \<Rightarrow> string list \<Rightarrow> tender_listing \<Rightarrow> tender \<Rightarrow> comparison" where
  "compare repr_of material_fields l t =
     (let current = normalize_listing repr_of l;
          seen = normalize_tender repr_of t;
          changed = filter (\<lambda>k. field_of current k \<noteq> field_of seen k) COMPARISON_FIELDS;
          change_types = map (change_type seen) (filter (\<lambda>k. k \<in> set material_fields) changed)
      in \<lparr>cmp_current = current, cmp_seen = seen, cmp_changed_fields = changed,
          cmp_change_types = change_types, cmp_material_change = change_types \<noteq> []\<rparr>)"

definition classification :: "comparison \<Rightarrow> string" where
  "classification c = (if cmp_material_change c then ''UPDATE'' else ''UNCHANGED'')"

lemma compare_simps:
  "cmp_current (compare r mf l t) = normalize_listing r l"
  "cmp_seen (compare r mf l t) = normalize_tender r t"
  "cmp_changed_fields (compare r mf l t)
     = filter (\<lambda>k. field_of (normalize_listing r l) k \<noteq> field_of (normalize_tender r t) k) COMPARISON_FIELDS"
  "cmp_material_change (compare r mf l t)
     = (\<exists>k \<in> set COMPARISON_FIELDS. k \<in> set mf \<and> field_of (normalize_listing r l) k \<noteq> field_of (normalize_tender r t) k)"
  by (auto simp: compare_def Let_def filter_empty_conv)

text \<open>Under the default policy a seen listing is unchanged exactly when its title differs in
  white space at most, its deadline is the same instant and its addendum marker the same; a new
  address, publication date, zone or reference number alone never makes an update.\<close>

lemma default_unchanged_iff:
  "classification (compare r DEFAULT_MATERIAL_FIELDS l t) = ''UNCHANGED'' \<longleftrightarrow>
     collapse_space (ls_title l) = collapse_space (tn_title t)
     \<and> map_option instant_of (ls_deadline_at l) = map_option instant_of (tn_deadline t)
     \<and> norm_key r ADDENDUM_MARKER_KEY (ls_raw_metadata l)
        = norm_key r ADDENDUM_MARKER_KEY (case tn_raw_metadata t of None \<Rightarrow> [] | Some m \<Rightarrow> m)"
proof -
  have or_self: "py_or (Some s) [] = s" for s :: string by (simp add: py_or_def)
  show ?thesis
    by (simp add: classification_def compare_simps COMPARISON_FIELDS_def DEFAULT_MATERIAL_FIELDS_def
        ADDENDUM_MARKER_KEY_def field_of_def normalize_listing_def normalize_tender_def norm_text_def
        norm_dt_def or_self Let_def)
qed

section \<open>Stability of a stored update\<close>

lemma norm_key_update_in:
  "key \<in> fst ` set m \<Longrightarrow> distinct (map fst m) \<Longrightarrow> norm_key r key (obj_update d m) = norm_key r key m"
  by (simp add: norm_key_def obj_get_def map_of_obj_update_in)

lemma norm_key_update_notin:
  "key \<notin> fst ` set m \<Longrightarrow> norm_key r key (obj_update d m) = norm_key r key d"
  by (simp add: norm_key_def obj_get_def map_of_obj_update_notin)

definition carries :: "string \<Rightarrow> tender_listing \<Rightarrow> bool" where
  "carries key l \<longleftrightarrow> key \<in> fst ` set (ls_raw_metadata l)"

lemma norm_key_absent: "\<not> carries key l \<Longrightarrow> norm_key r key (ls_raw_metadata l) = []"
  using map_of_eq_None_iff [of "ls_raw_metadata l" key]
  by (simp add: carries_def norm_key_def obj_get_def)

text \<open>Once an update is stored, comparing the same listing again finds no changed field, under
  any policy, provided the listing carries a reference and a marker wherever the row had one.\<close>

lemma stored_update_is_stable:
  assumes "apply_update t l = Inr t'" and "distinct (map fst (ls_raw_metadata l))"
    and "\<forall>key \<in> {''reference'', ADDENDUM_MARKER_KEY}. carries key l
       \<or> norm_key r key (case tn_raw_metadata t of None \<Rightarrow> [] | Some m \<Rightarrow> m) = []"
  shows "cmp_changed_fields (compare r mf l t') = [] \<and> classification (compare r mf l t') = ''UNCHANGED''"
proof -
  let ?old = "case tn_raw_metadata t of None \<Rightarrow> [] | Some m \<Rightarrow> m"
  have t': "tn_title t' = ls_title l" "tn_url t' = ls_url l" "tn_published_date t' = ls_published_at l"
    "tn_deadline t' = ls_deadline_at l" "tn_deadline_timezone t' = ls_deadline_timezone l"
    "tn_raw_metadata t' = Some (obj_update ?old (ls_raw_metadata l))"
    using assms(1) by (auto simp: apply_update_def set_status_def bind_result_eq_Inr Let_def)
  have key: "norm_key r k (obj_update ?old (ls_raw_metadata l)) = norm_key r k (ls_raw_metadata l)"
    if "k \<in> {''reference'', ADDENDUM_MARKER_KEY}" for k
  proof (cases "carries k l")
    case True
    then show ?thesis using assms(2) by (simp add: carries_def norm_key_update_in)
  next
    case False
    then have "norm_key r k ?old = []" using assms(3) that by blast
    moreover have "norm_key r k (ls_raw_metadata l) = []" using False by (rule norm_key_absent)
    ultimately show ?thesis using False by (simp add: carries_def norm_key_update_notin)
  qed
  have "normalize_tender r t' = normalize_listing r l"
    using key by (simp add: normalize_tender_def normalize_listing_def t' Let_def)
  then show ?thesis by (simp add: compare_simps classification_def)
qed

text \<open>A listing that drops the marker the row has is an update on every crawl: the merge of the
  metadata keeps the old marker.\<close>

lemma dropped_marker_never_settles:
  assumes "apply_update t l = Inr t'" and "\<not> carries ADDENDUM_MARKER_KEY l"
    and "norm_key r ADDENDUM_MARKER_KEY (case tn_raw_metadata t of None \<Rightarrow> [] | Some m \<Rightarrow> m) \<noteq> []"
  shows "classification (compare r DEFAULT_MATERIAL_FIELDS l t') = ''UPDATE''
    \<and> norm_key r ADDENDUM_MARKER_KEY (case tn_raw_metadata t' of None \<Rightarrow> [] | Some m \<Rightarrow> m) \<noteq> []"
proof -
  let ?old = "case tn_raw_metadata t of None \<Rightarrow> [] | Some m \<Rightarrow> m"
  have t': "tn_raw_metadata t' = Some (obj_update ?old (ls_raw_metadata l))"
    using assms(1) by (auto simp: apply_update_def set_status_def bind_result_eq_Inr Let_def)
  have "norm_key r ADDENDUM_MARKER_KEY (ls_raw_metadata l) = []" using assms(2) by (rule norm_key_absent)
  moreover have "norm_key r ADDENDUM_MARKER_KEY (obj_update ?old (ls_raw_metadata l)) \<noteq> []"
    using assms(2,3) by (simp add: carries_def norm_key_update_notin)
  ultimately show ?thesis
    by (simp add: classification_def compare_simps COMPARISON_FIELDS_def DEFAULT_MATERIAL_FIELDS_def
        ADDENDUM_MARKER_KEY_def field_of_def normalize_listing_def normalize_tender_def t' Let_def)
qed

definition sample_listing :: tender_listing where
  "sample_listing = \<lparr>ls_external_id = ''T-1'', ls_title = ''Road works'', ls_url = ''https://x/1'',
     ls_published_at = None, ls_deadline_at = Some (Aware 7200 3600), ls_deadline_timezone = Some ''UTC'',
     ls_raw_metadata = [(''reference'', JStr ''R1'')]\<rparr>"

definition sample_tender :: tender where
  "sample_tender = (new_tender 1 2 sample_listing ''c'' 0)\<lparr>tn_deadline := Some (Naive 3500)\<rparr>"

end
