(* ===== verification/Dedup.thy ===== *)
theory Dedup
  imports Classify
begin

text \<open>
  New-listing detection, \<open>dedup/service.py\<close>.  A committed database is a \<open>store\<close>; a session works
  on copies of its tables, a rollback returns the committed ones.  \<open>rivals\<close> are the tender rows
  that other runs commit after this run has loaded what it has seen: they are what
  \<open>claim_new\<close> can lose its race against.  The k-th claim of a run draws the correlation id
  \<open>fresh k\<close> and reads the clock as \<open>clock k\<close>.  Failures of the database itself
  (\<open>OperationalError\<close>) are not modelled.
\<close>

section \<open>Store, outcomes, results\<close>

record store =
  st_sources :: "int list"
  st_tenders :: "tender list"
  st_runs :: "run_history list"
  st_next_tender :: int
  st_next_run :: int

datatype dedup_error = DedupError string string

record dedup_outcome =
  do_classification :: string
  do_listing :: tender_listing
  do_tender_id :: int
  do_correlation_id :: string
  do_material_change :: bool
  do_change_types :: "string list"
  do_change_details :: "(string \<times> field_value \<times> field_value) list"

record dedup_result =
  dr_run_correlation_id :: string
  dr_run_history_id :: int
  dr_run_status :: string
  dr_new_listings :: "tender_listing list"
  dr_updates :: "dedup_outcome list"
  dr_unchanged_count :: int
  dr_new_count :: int
  dr_update_count :: int
  dr_duplicate_count :: int
  dr_correlation_map :: "(string \<times> string) list"

text \<open>What a run is given besides the store.\<close>

record dedup_env =
  de_repr_of :: "json \<Rightarrow> string"
  de_material_fields :: "string list"
  de_fresh :: "nat \<Rightarrow> string"
  de_clock :: "nat \<Rightarrow> instant"

section \<open>One candidate\<close>

record dedup_acc =
  da_tenders :: "tender list"
  da_next_id :: int
  da_claims :: nat
  da_outcomes :: "dedup_outcome list"
  da_new_listings :: "tender_listing list"
  da_correlation_map :: "(string \<times> string) list"
  da_duplicates :: int
  da_unique_ids :: "string list"

definition unchanged_outcome :: "tender_listing \<Rightarrow> tender \<Rightarrow> dedup_outcome" where
  "unchanged_outcome l t = \<lparr>do_classification = ''UNCHANGED'', do_listing = l, do_tender_id = tn_id t,
     do_correlation_id = tn_correlation_id t, do_material_change = False, do_change_types = [],
     do_change_details = []\<rparr>"

definition maybe_update ::
  "dedup_env \<Rightarrow> tender_listing \<Rightarrow> tender \<Rightarrow> tender list \<Rightarrow> (dedup_error, dedup_outcome \<times> tender list) result" where
  "maybe_update env l t ts =
     (let c = compare (de_repr_of env) (de_material_fields env) l t in
      if classification c = ''UNCHANGED'' then Inr (unchanged_outcome l t, ts)
      else if terminal (tn_status t) then Inr (unchanged_outcome l t, ts)
      else case apply_update t l of
          Inl (PersistenceError msg code) \<Rightarrow> Inl (DedupError msg code)
        | Inr t' \<Rightarrow> Inr (\<lparr>do_classification = ''UPDATE'', do_listing = l, do_tender_id = tn_id t,
              do_correlation_id = tn_correlation_id t, do_material_change = cmp_material_change c,
              do_change_types = cmp_change_types c,
              do_change_details = map (\<lambda>f. (f, field_of (cmp_seen c) f, field_of (cmp_current c) f))
                (cmp_changed_fields c)\<rparr>, put_tender t' ts))"

definition insert_new ::
  "dedup_env \<Rightarrow> int \<Rightarrow> tender_listing \<Rightarrow> dedup_acc \<Rightarrow> (dedup_error, dedup_outcome \<times> dedup_acc) result" where
  "insert_new env source_id l acc =
     (let cid = de_fresh env (da_claims acc);
          acc1 = acc\<lparr>da_claims := da_claims acc + 1\<rparr> in
      case claim_new (da_next_id acc) source_id l cid (de_clock env (da_claims acc)) (da_tenders acc) of
        Inl _ \<Rightarrow> Inl (DedupError ''unique-constraint race with no winner'' DEDUP_INVALID_STATE)
      | Inr (t, created, ts) \<Rightarrow>
          if created
          then Inr (\<lparr>do_classification = ''NEW'', do_listing = l, do_tender_id = tn_id t,
                do_correlation_id = cid, do_material_change = False, do_change_types = [],
                do_change_details = []\<rparr>, acc1\<lparr>da_tenders := ts, da_next_id := da_next_id acc + 1\<rparr>)
          else bind_result (maybe_update env l t ts) (\<lambda>(o', ts'). Inr (o', acc1\<lparr>da_tenders := ts'\<rparr>)))"

text \<open>The rows of \<open>seen\<close> are objects of the session: what is read of one is its current state.\<close>

definition current_row :: "tender list \<Rightarrow> tender \<Rightarrow> tender" where
  "current_row ts t = (case List.find (\<lambda>t'. tn_id t' = tn_id t) ts of None \<Rightarrow> t | Some t' \<Rightarrow> t')"

definition classify_one ::
  "dedup_env \<Rightarrow> int \<Rightarrow> (string \<Rightarrow> tender option) \<Rightarrow> tender_listing \<Rightarrow> string \<Rightarrow> dedup_acc
     \<Rightarrow> (dedup_error, dedup_outcome \<times> dedup_acc) result" where
  "classify_one env source_id seen l ext acc =
     (case seen ext of
        None \<Rightarrow> insert_new env source_id l acc
      | Some t \<Rightarrow> bind_result (maybe_update env l (current_row (da_tenders acc) t) (da_tenders acc))
          (\<lambda>(o', ts'). Inr (o', acc\<lparr>da_tenders := ts'\<rparr>)))"

section \<open>The loop over the candidates\<close>

definition classify_step ::
  "dedup_env \<Rightarrow> int \<Rightarrow> (string \<Rightarrow> tender option) \<Rightarrow> tender_listing \<Rightarrow> dedup_acc
     \<Rightarrow> (dedup_error, dedup_acc) result" where
  "classify_step env source_id seen l acc =
     (let ext = py_strip (ls_external_id l) in
      if ext = [] then Inl (DedupError ''candidate missing deduplication identity'' DEDUP_MISSING_IDENTITY)
      else if py_strip (ls_title l) = [] \<or> py_strip (ls_url l) = []
      then Inl (DedupError ''malformed candidate (missing title or url)'' DEDUP_MALFORMED_CANDIDATE)
      else if ext \<in> set (da_unique_ids acc) then Inr (acc\<lparr>da_duplicates := da_duplicates acc + 1\<rparr>)
      else bind_result (classify_one env source_id seen l ext (acc\<lparr>da_unique_ids := da_unique_ids acc @ [ext]\<rparr>))
        (\<lambda>(o', acc'). Inr (acc'\<lparr>
            da_correlation_map := da_correlation_map acc' @ [(ext, do_correlation_id o')],
            da_new_listings := da_new_listings acc' @ (if do_classification o' = ''NEW'' then [l] else []),
            da_outcomes := da_outcomes acc' @
              (if do_classification o' \<in> {''NEW'', ''UPDATE''} then [o'] else [])\<rparr>)))"

fun classify_all ::
  "dedup_env \<Rightarrow> int \<Rightarrow> (string \<Rightarrow> tender option) \<Rightarrow> tender_listing list \<Rightarrow> dedup_acc
     \<Rightarrow> (dedup_error, dedup_acc) result" where
  "classify_all env source_id seen [] acc = Inr acc"
| "classify_all env source_id seen (l # ls) acc =
     bind_result (classify_step env source_id seen l acc) (classify_all env source_id seen ls)"

definition load_seen :: "int \<Rightarrow> tender_listing list \<Rightarrow> tender list \<Rightarrow> (string \<Rightarrow> tender option)" where
  "load_seen source_id ls ts = get_many_by_identity source_id
     (filter (\<lambda>e. py_strip e \<noteq> []) (map ls_external_id ls)) ts"

definition start_acc :: "tender list \<Rightarrow> int \<Rightarrow> dedup_acc" where
  "start_acc ts next_id = \<lparr>da_tenders = ts, da_next_id = next_id, da_claims = 0, da_outcomes = [],
     da_new_listings = [], da_correlation_map = [], da_duplicates = 0, da_unique_ids = []\<rparr>"

definition result_of :: "run_history \<Rightarrow> bool \<Rightarrow> dedup_acc \<Rightarrow> dedup_result" where
  "result_of run owns_run acc =
     (let new_count = int (length (filter (\<lambda>o'. do_classification o' = ''NEW'') (da_outcomes acc)));
          update_count = int (length (filter (\<lambda>o'. do_classification o' = ''UPDATE'') (da_outcomes acc)))
      in \<lparr>dr_run_correlation_id = py_or (rh_correlation_id run) [], dr_run_history_id = rh_id run,
          dr_run_status = (if owns_run then ''COMPLETED'' else derive_run_status run),
          dr_new_listings = da_new_listings acc,
          dr_updates = filter (\<lambda>o'. do_classification o' = ''UPDATE'') (da_outcomes acc),
          dr_unchanged_count = int (length (da_unique_ids acc)) - new_count - update_count,
          dr_new_count = new_count, dr_update_count = update_count,
          dr_duplicate_count = da_duplicates acc, dr_correlation_map = da_correlation_map acc\<rparr>)"

section \<open>The run\<close>

definition put_run :: "run_history \<Rightarrow> store \<Rightarrow> store" where
  "put_run r s = s\<lparr>st_runs := map (\<lambda>r'. if rh_id r' = rh_id r then r else r') (st_runs s)\<rparr>"

text \<open>\<open>_open_run\<close>: the run row and the committed store.  The row of a dry run is only flushed.\<close>

definition open_run ::
  "int \<Rightarrow> string \<Rightarrow> int option \<Rightarrow> bool \<Rightarrow> instant \<Rightarrow> store \<Rightarrow> (dedup_error, run_history \<times> store) result" where
  "open_run source_id run_cid run_history_id dry_run now s =
     (if source_id \<notin> set (st_sources s) then Inl (DedupError ''unknown source_id'' DEDUP_INVALID_STATE)
      else case run_history_id of
        Some rid \<Rightarrow> (case List.find (\<lambda>r. rh_id r = rid) (st_runs s) of
            None \<Rightarrow> Inl (DedupError ''unknown run_history_id'' DEDUP_INVALID_STATE)
          | Some r \<Rightarrow> Inr (r, s))
      | None \<Rightarrow> (let r = create_run (st_next_run s) source_id run_cid None now in
          if dry_run then Inr (r, s)
          else Inr (r, s\<lparr>st_runs := st_runs s @ [r], st_next_run := st_next_run s + 1\<rparr>)))"

definition with_rivals :: "tender list \<Rightarrow> store \<Rightarrow> store" where
  "with_rivals rivals s = s\<lparr>st_tenders := st_tenders s @ rivals,
     st_next_tender := st_next_tender s + int (length rivals)\<rparr>"

definition dedup_run ::
  "dedup_env \<Rightarrow> instant \<Rightarrow> instant \<Rightarrow> tender list \<Rightarrow> int \<Rightarrow> tender_listing list \<Rightarrow> string \<Rightarrow> int option
     \<Rightarrow> bool \<Rightarrow> store \<Rightarrow> (dedup_error, dedup_result) result \<times> store" where
  "dedup_run env started ended rivals source_id ls run_cid run_history_id dry_run s =
     (let owns_run = (run_history_id = None \<and> \<not> dry_run) in
      case open_run source_id run_cid run_history_id dry_run started s of
        Inl e \<Rightarrow> (Inl e, with_rivals rivals s)
      | Inr (run, s1) \<Rightarrow>
          (let s2 = with_rivals rivals s1 in
           case classify_all env source_id (load_seen source_id ls (st_tenders s1)) ls
                  (start_acc (st_tenders s2) (st_next_tender s2)) of
             Inl e \<Rightarrow> (Inl e, if owns_run then put_run (mark_errored run_cid None ended run) s2 else s2)
           | Inr acc \<Rightarrow>
               (let res = result_of run owns_run acc;
                    run' = (if owns_run then complete_run
                       \<lparr>rn_listings_found = dr_new_count res + dr_update_count res + dr_unchanged_count res,
                        rn_new_count = dr_new_count res, rn_update_count = dr_update_count res,
                        rn_unchanged_count = dr_unchanged_count res\<rparr> None ended run else run)
                in (Inr res, if dry_run then s2
                      else put_run run' (s2\<lparr>st_tenders := da_tenders acc, st_next_tender := da_next_id acc\<rparr>)))))"

section \<open>What a candidate does to the rows\<close>

definition rows_ok :: "tender list \<Rightarrow> int \<Rightarrow> bool" where
  "rows_ok ts next_id \<longleftrightarrow> distinct (map tn_id ts) \<and> distinct (map tender_key ts)
     \<and> distinct (map tn_correlation_id ts) \<and> (\<forall>t \<in> set ts. tn_id t < next_id)"

lemma get_by_identity_iff:
  assumes "rows_ok ts n"
  shows "get_by_identity s e ts = Some t \<longleftrightarrow> t \<in> set ts \<and> tender_key t = (s, e)"
proof -
  have "distinct (map tender_key ts)" using assms by (simp add: rows_ok_def)
  then show ?thesis unfolding get_by_identity_def
    by (induction ts) (auto simp: image_iff)
qed

lemma map_put_tender:
  assumes "rows_ok ts n" "t \<in> set ts" "tn_id t' = tn_id t" "f t' = f t"
  shows "map f (put_tender t' ts) = map f ts"
  unfolding put_tender_def map_map
proof (rule map_cong [OF refl])
  fix u assume "u \<in> set ts"
  then have "tn_id u = tn_id t \<Longrightarrow> u = t"
    using assms(1,2) by (auto simp: rows_ok_def distinct_map dest: inj_onD)
  then show "(f \<circ> (\<lambda>u. if tn_id u = tn_id t' then t' else u)) u = f u" using assms(3,4) by auto
qed

lemma put_tender_rows_ok:
  assumes "rows_ok ts n" "t \<in> set ts" "tn_id t' = tn_id t" "tender_key t' = tender_key t"
    "tn_correlation_id t' = tn_correlation_id t"
  shows "rows_ok (put_tender t' ts) n"
proof -
  have "map tn_id (put_tender t' ts) = map tn_id ts" by (rule map_put_tender [OF assms(1-3)]) (rule assms(3))
  moreover have "map tender_key (put_tender t' ts) = map tender_key ts"
    by (rule map_put_tender [OF assms(1-3)]) (rule assms(4))
  moreover have "map tn_correlation_id (put_tender t' ts) = map tn_correlation_id ts"
    by (rule map_put_tender [OF assms(1-3)]) (rule assms(5))
  moreover have "\<forall>u \<in> set (put_tender t' ts). tn_id u < n"
    using assms(1-3) by (auto simp: put_tender_def rows_ok_def)
  ultimately show ?thesis using assms(1) by (simp add: rows_ok_def)
qed

lemma put_tender_set:
  assumes "rows_ok ts n" "t \<in> set ts" "tn_id t' = tn_id t"
  shows "set (put_tender t' ts) = insert t' (set ts - {t})"
proof -
  have "tn_id u = tn_id t \<longleftrightarrow> u = t" if "u \<in> set ts" for u
    using assms(1,2) that by (auto simp: rows_ok_def distinct_map dest: inj_onD)
  then show ?thesis using assms(2,3) by (auto simp: put_tender_def)
qed

text \<open>The result of \<open>maybe_update\<close>: unchanged rows, or one row rewritten from the listing.\<close>

lemma apply_update_fields:
  "apply_update t l = Inr t' \<Longrightarrow> tn_id t' = tn_id t \<and> tender_key t' = tender_key t
     \<and> tn_correlation_id t' = tn_correlation_id t \<and> tn_status t' = ''updated''
     \<and> tn_first_seen_at t' = tn_first_seen_at t \<and> tn_is_update t'"
  by (auto simp: apply_update_def set_status_def bind_result_eq_Inr Let_def)

lemma maybe_update_cases:
  assumes "maybe_update env l t ts = Inr (o', ts')"
  obtains (same) "ts' = ts" "o' = unchanged_outcome l t"
      "classification (compare (de_repr_of env) (de_material_fields env) l t) = ''UNCHANGED'' \<or> terminal (tn_status t)"
  | (updated) t' where "apply_update t l = Inr t'" "ts' = put_tender t' ts" "\<not> terminal (tn_status t)"
      "do_classification o' = ''UPDATE''" "do_listing o' = l" "do_tender_id o' = tn_id t"
      "classification (compare (de_repr_of env) (de_material_fields env) l t) = ''UPDATE''"
  using assms unfolding maybe_update_def Let_def
  by (auto simp: classification_def split: if_splits sum.splits persistence_error.splits)

definition set_tenders :: "dedup_acc \<Rightarrow> dedup_outcome \<times> tender list \<Rightarrow> (dedup_error, dedup_outcome \<times> dedup_acc) result" where
  "set_tenders acc p = Inr (fst p, acc\<lparr>da_tenders := snd p\<rparr>)"

text \<open>However a row became known, by the initial load or by losing the race for it, a candidate is
  compared with the current row of its identity.\<close>

lemma classify_one_present:
  assumes ok: "rows_ok (da_tenders acc) n" and row: "get_by_identity s (ls_external_id l) (da_tenders acc) = Some t"
    and seen: "\<And>t0. seen ext = Some t0 \<Longrightarrow> tn_id t0 = tn_id t"
  shows "\<exists>k. classify_one env s seen l ext acc
     = bind_result (maybe_update env l t (da_tenders acc)) (set_tenders (acc\<lparr>da_claims := k\<rparr>))"
proof (cases "seen ext")
  case None
  have "claim_new i s l c now (da_tenders acc) = Inr (t, False, da_tenders acc)" for i c now
    using row by (simp add: claim_new_def tender_exists_def)
  then have "classify_one env s seen l ext acc
     = bind_result (maybe_update env l t (da_tenders acc)) (set_tenders (acc\<lparr>da_claims := da_claims acc + 1\<rparr>))"
    using None by (simp add: classify_one_def insert_new_def set_tenders_def [abs_def] case_prod_beta' Let_def)
  then show ?thesis by blast
next
  case (Some t0)
  have t: "t \<in> set (da_tenders acc)" using row get_by_identity_iff [OF ok] by blast
  have "distinct (map tn_id (da_tenders acc))" using ok by (simp add: rows_ok_def)
  then have "List.find (\<lambda>t'. tn_id t' = tn_id t0) (da_tenders acc) = Some t"
    using t seen [OF Some] by (induction "da_tenders acc") (auto simp: find_Some_iff in_set_conv_nth distinct_conv_nth)
  then have "current_row (da_tenders acc) t0 = t" by (simp add: current_row_def)
  then have "classify_one env s seen l ext acc
     = bind_result (maybe_update env l t (da_tenders acc)) (set_tenders (acc\<lparr>da_claims := da_claims acc\<rparr>))"
    using Some by (simp add: classify_one_def set_tenders_def [abs_def] case_prod_beta')
  then show ?thesis by blast
qed

end
