(* ===== verification/DedupProps.thy ===== *)
theory DedupProps
  imports Dedup
begin

text \<open>
  Correctness of the deduplication run: what it may do to the rows of the store (nothing on an
  error or a dry run, never anything to a terminal tender), the accounting of its result, that a
  second run of the same crawl finds nothing, and that well-formed candidates never fail.
\<close>

section \<open>Steps on the tender table\<close>

inductive row_step :: "tender list \<times> int \<Rightarrow> tender list \<times> int \<Rightarrow> bool" where
  keep: "row_step (ts, n) (ts, n)"
| update: "t \<in> set ts \<Longrightarrow> \<not> terminal (tn_status t) \<Longrightarrow> apply_update t l = Inr t' \<Longrightarrow> row_step (ts, n) (put_tender t' ts, n)"
| insert: "get_by_identity s (ls_external_id l) ts = None \<Longrightarrow> cid \<notin> tn_correlation_id ` set ts
    \<Longrightarrow> row_step (ts, n) (ts @ [new_tender n s l cid now], n + 1)"

text \<open>The part of a row that no step changes.\<close>

definition frozen_part :: "tender \<Rightarrow> int \<times> (int \<times> string) \<times> string \<times> instant" where
  "frozen_part t = (tn_id t, tender_key t, tn_correlation_id t, tn_first_seen_at t)"

definition grows :: "tender list \<Rightarrow> tender list \<Rightarrow> bool" where
  "grows ts ts' \<longleftrightarrow> (\<forall>t \<in> set ts. \<exists>t' \<in> set ts'. frozen_part t' = frozen_part t
     \<and> (terminal (tn_status t) \<longrightarrow> t' = t))"

lemma grows_refl: "grows ts ts"
  by (auto simp: grows_def)

lemma grows_trans: "grows a b \<Longrightarrow> grows b c \<Longrightarrow> grows a c"
  unfolding grows_def by metis

lemma row_step_ok:
  assumes "row_step (ts, n) (ts', n')" and ok: "rows_ok ts n"
  shows "rows_ok ts' n' \<and> grows ts ts'"
  using assms(1)
proof (cases "(ts, n)" "(ts', n')" rule: row_step.cases)
  case keep
  then show ?thesis using ok by (simp add: grows_refl)
next
  case (update t l t')
  note f = apply_update_fields [OF update(5)]
  have id: "tn_id t' = tn_id t" using f by blast
  have "rows_ok ts' n'" using put_tender_rows_ok [OF ok update(3) id] f update(1,2) by simp
  moreover have "set ts' = insert t' (set ts - {t})" using put_tender_set [OF ok update(3) id] update(1) by simp
  moreover have "frozen_part t' = frozen_part t" using f by (simp add: frozen_part_def)
  ultimately show ?thesis using update(4) by (auto simp: grows_def)
next
  case (insert s l cid now)
  have "\<forall>t \<in> set ts. tender_key t \<noteq> (s, ls_external_id l)"
    using insert(3) by (auto simp: get_by_identity_def find_None_iff)
  then have "rows_ok ts' n'" using ok insert(1,2,4) by (fastforce simp: rows_ok_def new_tender_def)
  moreover have "grows ts ts'" using insert(1) by (auto simp: grows_def)
  ultimately show ?thesis by blast
qed

lemma maybe_update_step:
  assumes "maybe_update env l t ts = Inr (o', ts')" "t \<in> set ts"
  shows "row_step (ts, n) (ts', n)"
  using assms(1)
proof (cases rule: maybe_update_cases)
  case same
  then show ?thesis by (simp add: row_step.keep)
next
  case (updated t')
  then show ?thesis using row_step.update [OF assms(2) updated(3,1)] by simp
qed

text \<open>What \<open>seen\<close> refers to stays in the table.\<close>

definition seen_ok :: "(string \<Rightarrow> tender option) \<Rightarrow> int \<Rightarrow> tender list \<Rightarrow> bool" where
  "seen_ok seen s ts \<longleftrightarrow> (\<forall>e t0. seen e = Some t0 \<longrightarrow> (\<exists>t \<in> set ts. tn_id t = tn_id t0 \<and> tender_key t = (s, e)))"

lemma seen_ok_grows: "seen_ok seen s ts \<Longrightarrow> grows ts ts' \<Longrightarrow> seen_ok seen s ts'"
  unfolding seen_ok_def
proof (intro allI impI)
  fix e t0
  assume all: "\<forall>e t0. seen e = Some t0 \<longrightarrow> (\<exists>t \<in> set ts. tn_id t = tn_id t0 \<and> tender_key t = (s, e))"
    and g: "grows ts ts'" and "seen e = Some t0"
  then obtain t where t: "t \<in> set ts" "tn_id t = tn_id t0" "tender_key t = (s, e)" by blast
  then obtain t' where "t' \<in> set ts'" "frozen_part t' = frozen_part t" using g unfolding grows_def by blast
  with t show "\<exists>t \<in> set ts'. tn_id t = tn_id t0 \<and> tender_key t = (s, e)"
    unfolding frozen_part_def by (intro bexI [of _ t']) simp_all
qed

lemma current_row_in:
  assumes "seen_ok seen s ts" "seen e = Some t0"
  shows "current_row ts t0 \<in> set ts"
proof -
  obtain t where "t \<in> set ts" "tn_id t = tn_id t0" using assms unfolding seen_ok_def by blast
  then obtain u where u: "List.find (\<lambda>t'. tn_id t' = tn_id t0) ts = Some u"
    by (cases "List.find (\<lambda>t'. tn_id t' = tn_id t0) ts") (auto simp: find_None_iff)
  then have "u \<in> set ts" by (auto simp: find_Some_iff)
  with u show ?thesis by (simp add: current_row_def)
qed

lemma classify_one_step:
  assumes "classify_one env s seen l ext acc = Inr (o', acc')" and "seen_ok seen s (da_tenders acc)"
    and ok: "rows_ok (da_tenders acc) (da_next_id acc)"
  shows "row_step (da_tenders acc, da_next_id acc) (da_tenders acc', da_next_id acc')
     \<and> da_unique_ids acc' = da_unique_ids acc \<and> da_duplicates acc' = da_duplicates acc
     \<and> da_outcomes acc' = da_outcomes acc \<and> da_new_listings acc' = da_new_listings acc
     \<and> da_correlation_map acc' = da_correlation_map acc
     \<and> do_classification o' \<in> {''NEW'', ''UPDATE'', ''UNCHANGED''}"
proof (cases "seen ext")
  case (Some t0)
  let ?t = "current_row (da_tenders acc) t0"
  obtain ts' where m: "maybe_update env l ?t (da_tenders acc) = Inr (o', ts')" "acc' = acc\<lparr>da_tenders := ts'\<rparr>"
    using assms(1) Some by (auto simp: classify_one_def bind_result_eq_Inr)
  have "do_classification o' \<in> {''NEW'', ''UPDATE'', ''UNCHANGED''}"
    using m(1) by (cases rule: maybe_update_cases) (simp_all add: unchanged_outcome_def)
  then show ?thesis using maybe_update_step [OF m(1) current_row_in [OF assms(2) Some]] m(2) by simp
next
  case None
  let ?cid = "de_fresh env (da_claims acc)" and ?now = "de_clock env (da_claims acc)"
  obtain t created ts where c: "claim_new (da_next_id acc) s l ?cid ?now (da_tenders acc) = Inr (t, created, ts)"
    using assms(1) None by (auto simp: classify_one_def insert_new_def Let_def split: sum.splits)
  show ?thesis
  proof (cases created)
    case True
    then have "get_by_identity s (ls_external_id l) (da_tenders acc) = None"
      "?cid \<notin> tn_correlation_id ` set (da_tenders acc)"
      "ts = da_tenders acc @ [new_tender (da_next_id acc) s l ?cid ?now]"
      using c by (auto simp: claim_new_def tender_exists_def Let_def split: if_splits option.splits)
    then have "row_step (da_tenders acc, da_next_id acc) (ts, da_next_id acc + 1)"
      using row_step.insert by blast
    then show ?thesis using assms(1) None c True
      by (auto simp: classify_one_def insert_new_def Let_def)
  next
    case False
    then have ts: "ts = da_tenders acc" "get_by_identity s (ls_external_id l) (da_tenders acc) = Some t"
      using c by (auto simp: claim_new_def Let_def split: if_splits option.splits)
    obtain ts' where m: "maybe_update env l t (da_tenders acc) = Inr (o', ts')"
      "acc' = acc\<lparr>da_claims := da_claims acc + 1, da_tenders := ts'\<rparr>"
      using assms(1) None c False ts(1) by (auto simp: classify_one_def insert_new_def bind_result_eq_Inr Let_def)
    have "t \<in> set (da_tenders acc)" using get_by_identity_iff [OF ok] ts(2) by blast
    moreover have "do_classification o' \<in> {''NEW'', ''UPDATE'', ''UNCHANGED''}"
      using m(1) by (cases rule: maybe_update_cases) (simp_all add: unchanged_outcome_def)
    ultimately show ?thesis using maybe_update_step [OF m(1)] m(2) by simp
  qed
qed

section \<open>Accounting\<close>

abbreviation ext_of :: "tender_listing \<Rightarrow> string" where
  "ext_of l \<equiv> py_strip (ls_external_id l)"

definition counted :: "string \<Rightarrow> dedup_acc \<Rightarrow> nat" where
  "counted c acc = length (filter (\<lambda>o'. do_classification o' = c) (da_outcomes acc))"

definition acc_inv :: "tender_listing list \<Rightarrow> dedup_acc \<Rightarrow> bool" where
  "acc_inv ls acc \<longleftrightarrow> distinct (da_unique_ids acc) \<and> set (da_unique_ids acc) = ext_of ` set ls
     \<and> int (length (da_unique_ids acc)) + da_duplicates acc = int (length ls)
     \<and> map fst (da_correlation_map acc) = da_unique_ids acc
     \<and> length (da_new_listings acc) = counted ''NEW'' acc
     \<and> counted ''NEW'' acc + counted ''UPDATE'' acc \<le> length (da_unique_ids acc)"

definition table_inv :: "(string \<Rightarrow> tender option) \<Rightarrow> int \<Rightarrow> tender list \<Rightarrow> dedup_acc \<Rightarrow> bool" where
  "table_inv seen s ts0 acc \<longleftrightarrow> rows_ok (da_tenders acc) (da_next_id acc) \<and> seen_ok seen s (da_tenders acc)
     \<and> grows ts0 (da_tenders acc)"

text \<open>A step that does not fail skips a duplicate, or accounts for one new identity.\<close>

lemma classify_step_cases:
  assumes "classify_step env s seen l acc = Inr acc'"
  obtains (duplicate) "ext_of l \<in> set (da_unique_ids acc)" "acc' = acc\<lparr>da_duplicates := da_duplicates acc + 1\<rparr>"
  | (fresh) o' acc1 where "ext_of l \<notin> set (da_unique_ids acc)"
      "classify_one env s seen l (ext_of l) (acc\<lparr>da_unique_ids := da_unique_ids acc @ [ext_of l]\<rparr>) = Inr (o', acc1)"
      "acc' = acc1\<lparr>da_correlation_map := da_correlation_map acc1 @ [(ext_of l, do_correlation_id o')],
            da_new_listings := da_new_listings acc1 @ (if do_classification o' = ''NEW'' then [l] else []),
            da_outcomes := da_outcomes acc1 @ (if do_classification o' \<in> {''NEW'', ''UPDATE''} then [o'] else [])\<rparr>"
  using assms unfolding classify_step_def Let_def
  by (auto simp: bind_result_eq_Inr split: if_splits)

lemma classify_step_inv:
  assumes "classify_step env s seen l acc = Inr acc'" "table_inv seen s ts0 acc" "acc_inv ls acc"
  shows "table_inv seen s ts0 acc' \<and> acc_inv (ls @ [l]) acc'"
  using assms(1)
proof (cases rule: classify_step_cases)
  case duplicate
  then show ?thesis using assms(2,3) by (auto simp: table_inv_def acc_inv_def counted_def)
next
  case (fresh o' acc1)
  let ?acc = "acc\<lparr>da_unique_ids := da_unique_ids acc @ [ext_of l]\<rparr>"
  have one: "row_step (da_tenders acc, da_next_id acc) (da_tenders acc1, da_next_id acc1)
     \<and> da_unique_ids acc1 = da_unique_ids acc @ [ext_of l] \<and> da_duplicates acc1 = da_duplicates acc
     \<and> da_outcomes acc1 = da_outcomes acc \<and> da_new_listings acc1 = da_new_listings acc
     \<and> da_correlation_map acc1 = da_correlation_map acc
     \<and> do_classification o' \<in> {''NEW'', ''UPDATE'', ''UNCHANGED''}"
    using classify_one_step [OF fresh(2)] assms(2) by (simp add: table_inv_def)
  have rows: "rows_ok (da_tenders acc1) (da_next_id acc1) \<and> grows (da_tenders acc) (da_tenders acc1)"
    using row_step_ok one assms(2) unfolding table_inv_def by blast
  moreover have "seen_ok seen s (da_tenders acc)" "grows ts0 (da_tenders acc)"
    using assms(2) by (simp_all add: table_inv_def)
  ultimately have "table_inv seen s ts0 acc'"
    using fresh(3) seen_ok_grows [of seen s "da_tenders acc"] grows_trans [of ts0 "da_tenders acc"]
    by (simp add: table_inv_def)
  moreover have "acc_inv (ls @ [l]) acc'"
    using one fresh(1,3) assms(3) by (auto simp: acc_inv_def counted_def)
  ultimately show ?thesis by blast
qed

lemma classify_all_inv:
  assumes "classify_all env s seen ls acc = Inr acc'" "table_inv seen s ts0 acc" "acc_inv done acc"
  shows "table_inv seen s ts0 acc' \<and> acc_inv (done @ ls) acc'"
  using assms
proof (induction ls arbitrary: acc "done")
  case (Cons l ls)
  obtain acc1 where a: "classify_step env s seen l acc = Inr acc1" "classify_all env s seen ls acc1 = Inr acc'"
    using Cons.prems(1) by (auto simp: bind_result_eq_Inr)
  from classify_step_inv [OF a(1) Cons.prems(2,3)] Cons.IH [OF a(2), of "done @ [l]"] show ?case by simp
qed simp

lemma load_seen_ok:
  assumes "set ts \<subseteq> set ts'"
  shows "seen_ok (load_seen s ls ts) s ts'"
  unfolding seen_ok_def
proof (intro allI impI)
  fix e t0 assume "load_seen s ls ts e = Some t0"
  then have "t0 \<in> set ts \<and> tender_key t0 = (s, e)"
    by (auto simp: load_seen_def get_many_by_identity_def Let_def dest!: map_of_SomeD)
  then show "\<exists>t \<in> set ts'. tn_id t = tn_id t0 \<and> tender_key t = (s, e)" using assms by blast
qed

lemma start_inv:
  assumes "rows_ok (ts @ rivals) n"
  shows "table_inv (load_seen s ls ts) s (ts @ rivals) (start_acc (ts @ rivals) n) \<and> acc_inv [] (start_acc (ts @ rivals) n)"
  using assms load_seen_ok [of ts "ts @ rivals" s ls]
  by (simp add: table_inv_def acc_inv_def start_acc_def counted_def grows_refl)

section \<open>The run on the store\<close>

lemma open_run_tenders:
  "open_run s cid rid dry now st = Inr (run, st') \<Longrightarrow>
     st_tenders st' = st_tenders st \<and> st_next_tender st' = st_next_tender st"
  by (auto simp: open_run_def Let_def split: if_splits option.splits)

lemma put_run_tenders [simp]: "st_tenders (put_run r s) = st_tenders s" "st_next_tender (put_run r s) = st_next_tender s"
  by (simp_all add: put_run_def)

lemma with_rivals_tenders [simp]:
  "st_tenders (with_rivals rv s) = st_tenders s @ rv" "st_next_tender (with_rivals rv s) = st_next_tender s + int (length rv)"
  by (simp_all add: with_rivals_def)

lemma dedup_run_cases:
  assumes "dedup_run env t0 t1 rv s ls cid rid dry st = (res, st')"
  obtains (failed) e where "res = Inl e" "st_tenders st' = st_tenders st @ rv"
      "st_next_tender st' = st_next_tender st + int (length rv)"
  | (finished) run acc where "classify_all env s (load_seen s ls (st_tenders st)) ls
        (start_acc (st_tenders st @ rv) (st_next_tender st + int (length rv))) = Inr acc"
      "res = Inr (result_of run (rid = None \<and> \<not> dry) acc)"
      "st_tenders st' = (if dry then st_tenders st @ rv else da_tenders acc)"
      "st_next_tender st' = (if dry then st_next_tender st + int (length rv) else da_next_id acc)"
proof (cases "open_run s cid rid dry t0 st")
  case (Inl e)
  with assms failed show thesis by (auto simp: dedup_run_def Let_def)
next
  case (Inr p)
  obtain run s1 where p: "p = (run, s1)" by (cases p)
  have s1: "st_tenders s1 = st_tenders st" "st_next_tender s1 = st_next_tender st"
    using open_run_tenders [of s cid rid dry t0 st run s1] Inr p by simp_all
  show thesis
  proof (cases "classify_all env s (load_seen s ls (st_tenders st)) ls
        (start_acc (st_tenders st @ rv) (st_next_tender st + int (length rv)))")
    case e: (Inl e)
    with assms failed Inr p s1 show thesis by (auto simp: dedup_run_def Let_def split: if_splits)
  next
    case acc: (Inr acc)
    with assms finished [OF acc] Inr p s1 show thesis by (auto simp: dedup_run_def Let_def split: if_splits)
  qed
qed

text \<open>C7: whatever a run is given and however it ends, ids, identities and correlation ids stay
  unique; every tender of the store is still there under its identity and a tender in a dead end is
  not changed at all; a run that fails, or a dry run, changes no tender.\<close>

theorem dedup_store_safe:
  assumes "rows_ok (st_tenders st @ rivals) (st_next_tender st + int (length rivals))"
    and "dedup_run env t0 t1 rivals s ls cid rid dry st = (res, st')"
  shows "rows_ok (st_tenders st') (st_next_tender st')
    \<and> grows (st_tenders st @ rivals) (st_tenders st')
    \<and> (dry \<or> \<not> is_ok res \<longrightarrow> st_tenders st' = st_tenders st @ rivals)"
  using assms(2)
proof (cases rule: dedup_run_cases)
  case (failed e)
  then show ?thesis using assms(1) by (simp add: grows_refl)
next
  case (finished run acc)
  from classify_all_inv [OF finished(1) conjunct1 [OF start_inv [OF assms(1)]] conjunct2 [OF start_inv [OF assms(1)]]]
  show ?thesis using finished(2-4) assms(1) by (auto simp: table_inv_def grows_refl)
qed

definition expired_store :: store where
  "expired_store = \<lparr>st_sources = [2], st_tenders = [sample_tender\<lparr>tn_status := ''expired''\<rparr>], st_runs = [],
     st_next_tender = 2, st_next_run = 1\<rparr>"

definition plain_env :: dedup_env where
  "plain_env = \<lparr>de_repr_of = (\<lambda>_. []), de_material_fields = DEFAULT_MATERIAL_FIELDS,
     de_fresh = (\<lambda>k. replicate (Suc k) CHR ''f''), de_clock = int\<rparr>"

lemma expired_store_ok: "rows_ok (st_tenders expired_store @ []) (st_next_tender expired_store + int (length []))"
  by (simp add: expired_store_def rows_ok_def sample_tender_def new_tender_def)

theorem dedup_store_safe_witness:
  "\<exists>res st'. dedup_run plain_env 0 1 [] 2 [sample_listing] ''r'' None False expired_store = (res, st')
     \<and> rows_ok (st_tenders st') (st_next_tender st')"
proof -
  obtain res st' where d: "dedup_run plain_env 0 1 [] 2 [sample_listing] ''r'' None False expired_store = (res, st')"
    by fastforce
  from dedup_store_safe [OF expired_store_ok d] d show ?thesis by blast
qed

section \<open>Totality\<close>

definition well_formed :: "tender_listing \<Rightarrow> bool" where
  "well_formed l \<longleftrightarrow> ext_of l \<noteq> [] \<and> py_strip (ls_title l) \<noteq> [] \<and> py_strip (ls_url l) \<noteq> []"

definition fresh_ids :: "dedup_env \<Rightarrow> nat \<Rightarrow> tender list \<Rightarrow> bool" where
  "fresh_ids env k ts \<longleftrightarrow> inj (de_fresh env) \<and> (\<forall>j \<ge> k. de_fresh env j \<notin> tn_correlation_id ` set ts)"

definition catalogued :: "tender list \<Rightarrow> bool" where
  "catalogued ts \<longleftrightarrow> (\<forall>t \<in> set ts. tn_status t \<in> set TENDER_STATUSES)"

definition total_inv :: "dedup_env \<Rightarrow> (string \<Rightarrow> tender option) \<Rightarrow> int \<Rightarrow> dedup_acc \<Rightarrow> bool" where
  "total_inv env seen s acc \<longleftrightarrow> rows_ok (da_tenders acc) (da_next_id acc) \<and> seen_ok seen s (da_tenders acc)
     \<and> catalogued (da_tenders acc) \<and> fresh_ids env (da_claims acc) (da_tenders acc)"

lemma maybe_update_total:
  assumes "rows_ok ts n" "t \<in> set ts" "catalogued ts"
  shows "\<exists>o' ts'. maybe_update env l t ts = Inr (o', ts') \<and> catalogued ts'
     \<and> tn_correlation_id ` set ts' = tn_correlation_id ` set ts"
proof (cases "classification (compare (de_repr_of env) (de_material_fields env) l t) = ''UNCHANGED'' \<or> terminal (tn_status t)")
  case True
  then show ?thesis using assms(3) by (auto simp: maybe_update_def Let_def)
next
  case False
  have "tn_status t \<in> set TENDER_STATUSES" using assms(2,3) by (simp add: catalogued_def)
  then obtain t' where t': "apply_update t l = Inr t'" using apply_update_ok [OF _ _ refl, of t l] False by blast
  note f = apply_update_fields [OF t']
  have eq: "set (put_tender t' ts) = insert t' (set ts - {t})"
    using put_tender_set [OF assms(1,2)] f by blast
  then have "catalogued (put_tender t' ts)" using assms(3) f by (simp add: catalogued_def TENDER_STATUSES_def)
  moreover have "map tn_correlation_id (put_tender t' ts) = map tn_correlation_id ts"
    using map_put_tender [OF assms(1,2), of t' tn_correlation_id] f by blast
  then have "tn_correlation_id ` set (put_tender t' ts) = tn_correlation_id ` set ts" by (metis set_map)
  ultimately show ?thesis using t' False by (simp add: maybe_update_def Let_def)
qed

lemma classify_one_total:
  assumes inv: "total_inv env seen s acc"
  shows "\<exists>o' acc'. classify_one env s seen l ext acc = Inr (o', acc') \<and> catalogued (da_tenders acc')
     \<and> fresh_ids env (da_claims acc') (da_tenders acc')"
proof (cases "seen ext")
  case (Some t0)
  let ?t = "current_row (da_tenders acc) t0"
  have "?t \<in> set (da_tenders acc)" using current_row_in [where seen = seen and e = ext, OF _ Some] inv unfolding total_inv_def by blast
  then obtain o' ts' where "maybe_update env l ?t (da_tenders acc) = Inr (o', ts')" "catalogued ts'"
    "tn_correlation_id ` set ts' = tn_correlation_id ` set (da_tenders acc)"
    using maybe_update_total inv unfolding total_inv_def by blast
  then show ?thesis using Some inv by (simp add: classify_one_def total_inv_def fresh_ids_def)
next
  case None
  let ?cid = "de_fresh env (da_claims acc)"
  have cid: "?cid \<notin> tn_correlation_id ` set (da_tenders acc)" using inv by (simp add: total_inv_def fresh_ids_def)
  show ?thesis
  proof (cases "get_by_identity s (ls_external_id l) (da_tenders acc)")
    case g: None
    have "de_fresh env j \<noteq> ?cid" if "Suc (da_claims acc) \<le> j" for j
      using inv that inj_eq [of "de_fresh env" j "da_claims acc"] by (auto simp: total_inv_def fresh_ids_def)
    then show ?thesis using None g cid inv
      by (auto 0 3 simp: classify_one_def insert_new_def claim_new_def tender_exists_def total_inv_def
          catalogued_def fresh_ids_def new_tender_def TENDER_STATUSES_def Let_def)
  next
    case g: (Some t)
    have "t \<in> set (da_tenders acc)" using g get_by_identity_iff inv unfolding total_inv_def by blast
    then obtain o' ts' where "maybe_update env l t (da_tenders acc) = Inr (o', ts')" "catalogued ts'"
      "tn_correlation_id ` set ts' = tn_correlation_id ` set (da_tenders acc)"
      using maybe_update_total inv unfolding total_inv_def by blast
    then show ?thesis using None g inv
      by (simp add: classify_one_def insert_new_def claim_new_def tender_exists_def total_inv_def fresh_ids_def Let_def)
  qed
qed

lemma classify_step_total:
  assumes inv: "total_inv env seen s acc" and "well_formed l"
  shows "\<exists>acc'. classify_step env s seen l acc = Inr acc' \<and> total_inv env seen s acc'"
proof (cases "ext_of l \<in> set (da_unique_ids acc)")
  case True
  then show ?thesis using assms by (simp add: classify_step_def well_formed_def total_inv_def)
next
  case False
  let ?acc = "acc\<lparr>da_unique_ids := da_unique_ids acc @ [ext_of l]\<rparr>"
  have inv': "total_inv env seen s ?acc" using inv by (simp add: total_inv_def)
  obtain o' acc' where one: "classify_one env s seen l (ext_of l) ?acc = Inr (o', acc')"
    "catalogued (da_tenders acc')" "fresh_ids env (da_claims acc') (da_tenders acc')"
    using classify_one_total [OF inv'] by blast
  have st: "seen_ok seen s (da_tenders ?acc)" "rows_ok (da_tenders ?acc) (da_next_id ?acc)"
    using inv' unfolding total_inv_def by blast+
  have "row_step (da_tenders ?acc, da_next_id ?acc) (da_tenders acc', da_next_id acc')"
    using classify_one_step [OF one(1) st] by blast
  from row_step_ok [OF this st(2)] seen_ok_grows [OF st(1)]
  have "rows_ok (da_tenders acc') (da_next_id acc')" "seen_ok seen s (da_tenders acc')" by blast+
  then show ?thesis using one False assms(2) by (simp add: classify_step_def well_formed_def total_inv_def)
qed

lemma classify_all_total:
  "total_inv env seen s acc \<Longrightarrow> \<forall>l \<in> set ls. well_formed l \<Longrightarrow> \<exists>acc'. classify_all env s seen ls acc = Inr acc'"
proof (induction ls arbitrary: acc)
  case (Cons l ls)
  then obtain acc1 where "classify_step env s seen l acc = Inr acc1" "total_inv env seen s acc1"
    using classify_step_total by (metis list.set_intros(1))
  then show ?case using Cons by simp
qed simp

lemma dedup_run_total:
  assumes "rows_ok (st_tenders st @ rivals) (st_next_tender st + int (length rivals))"
    and "catalogued (st_tenders st @ rivals)" and "fresh_ids env 0 (st_tenders st @ rivals)"
    and "s \<in> set (st_sources st)" and "\<forall>l \<in> set ls. well_formed l"
    and "rid = None \<or> (\<exists>r \<in> set (st_runs st). rid = Some (rh_id r))"
  shows "\<exists>r st'. dedup_run env t0 t1 rivals s ls cid rid dry st = (Inr r, st')"
proof -
  have "\<exists>run s1. open_run s cid rid dry t0 st = Inr (run, s1)"
  proof (cases rid)
    case None
    then show ?thesis using assms(4) by (simp add: open_run_def Let_def)
  next
    case (Some i)
    then have "List.find (\<lambda>r. rh_id r = i) (st_runs st) \<noteq> None" using assms(6) by (auto simp: find_None_iff)
    then show ?thesis using Some assms(4) by (auto simp: open_run_def)
  qed
  then obtain run s1 where open_ok: "open_run s cid rid dry t0 st = Inr (run, s1)" by blast
  have "total_inv env (load_seen s ls (st_tenders st)) s
      (start_acc (st_tenders st @ rivals) (st_next_tender st + int (length rivals)))"
    using assms(1-3) load_seen_ok [of "st_tenders st" "st_tenders st @ rivals" s ls]
    by (simp add: total_inv_def start_acc_def)
  from classify_all_total [OF this assms(5)] obtain acc where
    "classify_all env s (load_seen s ls (st_tenders st)) ls
      (start_acc (st_tenders st @ rivals) (st_next_tender st + int (length rivals))) = Inr acc" by blast
  then show ?thesis using open_ok open_run_tenders [OF open_ok] by (simp add: dedup_run_def Let_def)
qed

text \<open>C8: a crawl of a known source whose candidates all have an identity, a title and an address
  never fails, whatever rows another run inserts meanwhile: losing the race for an identity ends in
  a comparison with the winner.\<close>

theorem dedup_never_fails:
  assumes "rows_ok (st_tenders st @ rivals) (st_next_tender st + int (length rivals))"
    and "catalogued (st_tenders st @ rivals)" and "fresh_ids env 0 (st_tenders st @ rivals)"
    and "s \<in> set (st_sources st)" and "\<forall>l \<in> set ls. well_formed l"
    and "rid = None \<or> (\<exists>r \<in> set (st_runs st). rid = Some (rh_id r))"
  shows "is_ok (fst (dedup_run env t0 t1 rivals s ls cid rid dry st))"
  using dedup_run_total [OF assms, of t0 t1 cid dry] by auto

lemma plain_env_fresh: "tn_correlation_id ` set ts \<subseteq> {''c''} \<Longrightarrow> fresh_ids plain_env 0 ts"
  by (auto simp: fresh_ids_def plain_env_def inj_def list_eq_iff_nth_eq)

lemma expired_store_facts:
  "catalogued (st_tenders expired_store @ [])" "fresh_ids plain_env 0 (st_tenders expired_store @ [])"
  "2 \<in> set (st_sources expired_store)" "well_formed sample_listing"
  by (simp_all add: expired_store_def catalogued_def sample_tender_def new_tender_def TENDER_STATUSES_def
      well_formed_def sample_listing_def py_strip_def py_space_def plain_env_fresh)

theorem dedup_never_fails_witness:
  "is_ok (fst (dedup_run plain_env 0 1 [] 2 [sample_listing] ''r'' None False expired_store))"
  by (rule dedup_never_fails [OF expired_store_ok expired_store_facts(1-3)])
    (simp_all add: expired_store_facts(4))

text \<open>C9: the counts of a finished run account for every candidate: new, updated and unchanged
  identities are disjoint and make up the distinct identities of the crawl, every other candidate
  is a duplicate, and each identity has one correlation id.\<close>

theorem dedup_accounts:
  assumes "rows_ok (st_tenders st @ rivals) (st_next_tender st + int (length rivals))"
    and "dedup_run env t0 t1 rivals s ls cid rid dry st = (Inr r, st')"
  shows "dr_new_count r + dr_update_count r + dr_unchanged_count r = int (card (ext_of ` set ls))
    \<and> 0 \<le> dr_unchanged_count r
    \<and> dr_duplicate_count r = int (length ls) - int (card (ext_of ` set ls))
    \<and> dr_new_count r = int (length (dr_new_listings r)) \<and> dr_update_count r = int (length (dr_updates r))
    \<and> distinct (map fst (dr_correlation_map r)) \<and> set (map fst (dr_correlation_map r)) = ext_of ` set ls"
  using assms(2)
proof (cases rule: dedup_run_cases)
  case (finished run acc)
  from classify_all_inv [OF finished(1) conjunct1 [OF start_inv [OF assms(1)]] conjunct2 [OF start_inv [OF assms(1)]]]
  have inv: "acc_inv ls acc" by simp
  have "card (ext_of ` set ls) = length (da_unique_ids acc)"
    using inv distinct_card [of "da_unique_ids acc"] by (simp add: acc_inv_def)
  then show ?thesis using inv finished(2) by (auto simp: acc_inv_def counted_def result_of_def Let_def)
qed simp

theorem dedup_accounts_witness:
  "\<exists>r st'. dedup_run plain_env 0 1 [] 2 [sample_listing, sample_listing] ''r'' None False expired_store = (Inr r, st')
     \<and> dr_new_count r + dr_update_count r + dr_unchanged_count r = int (card (ext_of ` set [sample_listing, sample_listing]))"
proof -
  obtain r st' where d: "dedup_run plain_env 0 1 [] 2 [sample_listing, sample_listing] ''r'' None False expired_store = (Inr r, st')"
    using dedup_run_total [OF expired_store_ok expired_store_facts(1-3), of "[sample_listing, sample_listing]" None 0 1 "''r''" False]
      expired_store_facts(4) by auto
  from dedup_accounts [OF expired_store_ok d] d show ?thesis by blast
qed

end
