(* ===== verification/DedupRerun.thy ===== *)
theory DedupRerun
  imports DedupProps
begin

text \<open>
  A crawl repeated without any change at the source: every candidate of the first run is settled
  in the store it leaves, so that the second run finds no new and no updated tender and writes
  nothing to the tender table.
\<close>

section \<open>Settled candidates\<close>

definition accepts :: "dedup_env \<Rightarrow> tender_listing \<Rightarrow> tender \<Rightarrow> bool" where
  "accepts env l t \<longleftrightarrow> terminal (tn_status t)
     \<or> classification (compare (de_repr_of env) (de_material_fields env) l t) = ''UNCHANGED''"

definition settled_in :: "dedup_env \<Rightarrow> int \<Rightarrow> tender list \<Rightarrow> tender_listing \<Rightarrow> bool" where
  "settled_in env s ts l \<longleftrightarrow> (\<exists>t. get_by_identity s (ls_external_id l) ts = Some t \<and> accepts env l t)"

text \<open>A candidate that brings what the comparison reads: distinct metadata keys, and a value for
  every compared key that the stored row has one for.\<close>

definition self_contained :: "dedup_env \<Rightarrow> int \<Rightarrow> tender list \<Rightarrow> tender_listing \<Rightarrow> bool" where
  "self_contained env s ts l \<longleftrightarrow> distinct (map fst (ls_raw_metadata l)) \<and> py_strip (ls_external_id l) = ls_external_id l
     \<and> (\<forall>key \<in> {''reference'', ADDENDUM_MARKER_KEY}. carries key l
        \<or> (\<forall>t. get_by_identity s (ls_external_id l) ts = Some t \<longrightarrow>
             norm_key (de_repr_of env) key (case tn_raw_metadata t of None \<Rightarrow> [] | Some m \<Rightarrow> m) = []))"

fun first_listings :: "string list \<Rightarrow> tender_listing list \<Rightarrow> tender_listing list" where
  "first_listings seen [] = []"
| "first_listings seen (l # ls) =
     (if ext_of l \<in> set seen then first_listings seen ls
      else l # first_listings (seen @ [ext_of l]) ls)"

lemma accepts_unchanged: "accepts env l t \<Longrightarrow> maybe_update env l t ts = Inr (unchanged_outcome l t, ts)"
  by (auto simp: accepts_def maybe_update_def Let_def)

lemma accepts_new: "accepts env l (new_tender i s l c now)"
proof -
  have "normalize_tender r (new_tender i s l c now) = normalize_listing r l" for r
    by (simp add: normalize_tender_def normalize_listing_def new_tender_def Let_def)
  then show ?thesis by (simp add: accepts_def classification_def compare_simps)
qed

lemma stable_update:
  assumes "apply_update t l = Inr t'" and "self_contained env s ts l" and "get_by_identity s (ls_external_id l) ts = Some t"
  shows "accepts env l t'"
proof -
  let ?old = "case tn_raw_metadata t of None \<Rightarrow> [] | Some m \<Rightarrow> m" and ?r = "de_repr_of env"
  have t': "tn_title t' = ls_title l" "tn_url t' = ls_url l" "tn_published_date t' = ls_published_at l"
    "tn_deadline t' = ls_deadline_at l" "tn_deadline_timezone t' = ls_deadline_timezone l"
    "tn_raw_metadata t' = Some (obj_update ?old (ls_raw_metadata l))"
    using assms(1) by (auto simp: apply_update_def set_status_def bind_result_eq_Inr Let_def)
  have "norm_key ?r k (obj_update ?old (ls_raw_metadata l)) = norm_key ?r k (ls_raw_metadata l)"
    if k: "k \<in> {''reference'', ADDENDUM_MARKER_KEY}" for k
  proof (cases "carries k l")
    case True
    then show ?thesis using assms(2) by (simp add: self_contained_def carries_def norm_key_update_in)
  next
    case False
    then have "norm_key ?r k ?old = []" using assms(2,3) k unfolding self_contained_def by blast
    then show ?thesis using False norm_key_absent [OF False] by (simp add: carries_def norm_key_update_notin)
  qed
  then have "normalize_tender ?r t' = normalize_listing ?r l"
    by (simp add: normalize_tender_def normalize_listing_def t' Let_def)
  then show ?thesis by (simp add: accepts_def classification_def compare_simps)
qed

lemma get_put_tender:
  assumes ok: "rows_ok ts n" and t: "t \<in> set ts" and id: "tn_id t' = tn_id t" and key: "tender_key t' = tender_key t"
    and corr: "tn_correlation_id t' = tn_correlation_id t"
  shows "get_by_identity s e (put_tender t' ts) = (if tender_key t = (s, e) then Some t' else get_by_identity s e ts)"
proof -
  have ok': "rows_ok (put_tender t' ts) n" by (rule put_tender_rows_ok [OF ok t id key corr])
  have set': "set (put_tender t' ts) = insert t' (set ts - {t})" by (rule put_tender_set [OF ok t id])
  show ?thesis
  proof (cases "tender_key t = (s, e)")
    case True
    then show ?thesis using get_by_identity_iff [OF ok', of s e t'] set' key by simp
  next
    case False
    have "get_by_identity s e (put_tender t' ts) = Some u \<longleftrightarrow> get_by_identity s e ts = Some u" for u
      unfolding get_by_identity_iff [OF ok'] get_by_identity_iff [OF ok] set' using False key t by auto
    then show ?thesis using False by (metis not_None_eq)
  qed
qed

lemma get_append_new:
  "get_by_identity s e (ts @ [t]) = (case get_by_identity s e ts of Some u \<Rightarrow> Some u
     | None \<Rightarrow> if tender_key t = (s, e) then Some t else None)"
  unfolding get_by_identity_def by (induction ts) auto

text \<open>What one candidate does to the row of its identity, and that it touches no other.\<close>

lemma classify_one_row:
  assumes one: "classify_one env s seen l (ls_external_id l) acc = Inr (o', acc')"
    and ok: "rows_ok (da_tenders acc) (da_next_id acc)" and seen: "seen_ok seen s (da_tenders acc)"
    and sc: "self_contained env s (da_tenders acc) l"
  shows "settled_in env s (da_tenders acc') l
     \<and> (\<forall>e. e \<noteq> ls_external_id l \<longrightarrow> get_by_identity s e (da_tenders acc') = get_by_identity s e (da_tenders acc))"
proof (cases "get_by_identity s (ls_external_id l) (da_tenders acc)")
  case (Some t)
  have t: "t \<in> set (da_tenders acc)" "tender_key t = (s, ls_external_id l)"
    using Some get_by_identity_iff [OF ok] by blast+
  have "tn_id t0 = tn_id t" if s0: "seen (ls_external_id l) = Some t0" for t0
  proof -
    obtain u where u: "u \<in> set (da_tenders acc)" "tn_id u = tn_id t0" "tender_key u = (s, ls_external_id l)"
      using seen s0 unfolding seen_ok_def by blast
    then have "u = t" using Some get_by_identity_iff [OF ok] by (metis option.inject)
    with u show ?thesis by simp
  qed
  from classify_one_present [where seen = seen and ext = "ls_external_id l" and env = env, OF ok Some this]
  obtain k where "bind_result (maybe_update env l t (da_tenders acc)) (set_tenders (acc\<lparr>da_claims := k\<rparr>)) = Inr (o', acc')"
    using one by auto
  then obtain ts' where m: "maybe_update env l t (da_tenders acc) = Inr (o', ts')" "da_tenders acc' = ts'"
    by (auto simp: bind_result_eq_Inr set_tenders_def)
  show ?thesis
    using m(1)
  proof (cases rule: maybe_update_cases)
    case same
    then show ?thesis using m(2) Some by (auto simp: settled_in_def accepts_def)
  next
    case (updated t')
    note f = apply_update_fields [OF updated(1)]
    have get: "get_by_identity s e ts' = (if tender_key t = (s, e) then Some t' else get_by_identity s e (da_tenders acc))" for e
      unfolding updated(2) using get_put_tender [OF ok t(1)] f by blast
    have "accepts env l t'" by (rule stable_update [OF updated(1) sc Some])
    then show ?thesis using get t(2) m(2) by (simp add: settled_in_def)
  qed
next
  case None
  have "seen (ls_external_id l) = None"
  proof (rule ccontr)
    assume "seen (ls_external_id l) \<noteq> None"
    then obtain u where "u \<in> set (da_tenders acc)" "tender_key u = (s, ls_external_id l)"
      using seen unfolding seen_ok_def by blast
    then show False using None get_by_identity_iff [OF ok] by (metis option.distinct(1))
  qed
  then obtain c now where ts': "da_tenders acc' = da_tenders acc @ [new_tender (da_next_id acc) s l c now]"
    using one None by (auto simp: classify_one_def insert_new_def claim_new_def tender_exists_def Let_def
        split: if_splits)
  have key: "tender_key (new_tender (da_next_id acc) s l c now) = (s, ls_external_id l)" by (simp add: new_tender_def)
  show ?thesis unfolding ts' settled_in_def get_append_new None key
    using accepts_new by (auto split: option.split)
qed

section \<open>The first run settles, the second finds nothing\<close>

lemma self_contained_same:
  "get_by_identity s (ls_external_id l) ts' = get_by_identity s (ls_external_id l) ts \<Longrightarrow>
     self_contained env s ts l \<Longrightarrow> self_contained env s ts' l"
  by (simp add: self_contained_def)

lemma settled_in_same:
  "get_by_identity s (ls_external_id l) ts' = get_by_identity s (ls_external_id l) ts \<Longrightarrow>
     settled_in env s ts' l = settled_in env s ts l"
  by (simp add: settled_in_def)

lemma first_listings_sub: "set (first_listings seen ls) \<subseteq> set ls"
  by (induction ls arbitrary: seen) auto

lemma first_listings_new: "l \<in> set (first_listings seen ls) \<Longrightarrow> ext_of l \<notin> set seen"
proof (induction ls arbitrary: seen)
  case (Cons a ls)
  then show ?case using Cons.IH [of seen] Cons.IH [of "seen @ [ext_of a]"] by (auto split: if_splits)
qed simp

lemma classify_all_settles:
  assumes "classify_all env s seen ls acc = Inr acc'" and "table_inv seen s ts0 acc"
    and "\<forall>l \<in> set (first_listings (da_unique_ids acc) ls). self_contained env s (da_tenders acc) l"
  shows "(\<forall>l \<in> set (first_listings (da_unique_ids acc) ls). settled_in env s (da_tenders acc') l)
     \<and> (\<forall>e \<in> set (da_unique_ids acc). get_by_identity s e (da_tenders acc') = get_by_identity s e (da_tenders acc))"
  using assms
proof (induction ls arbitrary: acc)
  case (Cons l ls)
  obtain acc1 where a: "classify_step env s seen l acc = Inr acc1" "classify_all env s seen ls acc1 = Inr acc'"
    using Cons.prems(1) by (auto simp: bind_result_eq_Inr)
  show ?case
    using a(1)
  proof (cases rule: classify_step_cases)
    case duplicate
    then have "table_inv seen s ts0 acc1" using Cons.prems(2) by (simp add: table_inv_def)
    from Cons.IH [OF a(2) this] duplicate Cons.prems(3) show ?thesis by simp
  next
    case (fresh o' acc2)
    let ?acc = "acc\<lparr>da_unique_ids := da_unique_ids acc @ [ext_of l]\<rparr>"
    have sc: "self_contained env s (da_tenders acc) l" using Cons.prems(3) fresh(1) by simp
    then have ext: "ext_of l = ls_external_id l" by (simp add: self_contained_def)
    have inv: "rows_ok (da_tenders ?acc) (da_next_id ?acc)" "seen_ok seen s (da_tenders ?acc)"
      using Cons.prems(2) by (simp_all add: table_inv_def)
    have sc': "self_contained env s (da_tenders ?acc) l" using sc by simp
    have one: "classify_one env s seen l (ls_external_id l) ?acc = Inr (o', acc2)" using fresh(2) ext by simp
    note row = classify_one_row [OF one inv sc']
    note step = classify_one_step [OF one inv(2,1)]
    have acc1: "da_tenders acc1 = da_tenders acc2" "da_next_id acc1 = da_next_id acc2"
      "da_unique_ids acc1 = da_unique_ids acc @ [ext_of l]"
      using fresh(3) step by simp_all
    have "rows_ok (da_tenders acc2) (da_next_id acc2)" and gr: "grows (da_tenders ?acc) (da_tenders acc2)"
      using row_step_ok [OF conjunct1 [OF step] inv(1)] by blast+
    moreover have "grows ts0 (da_tenders acc2)"
      using grows_trans [OF _ gr] Cons.prems(2) by (simp add: table_inv_def)
    ultimately have ti: "table_inv seen s ts0 acc1"
      using seen_ok_grows [OF inv(2) gr] by (simp add: table_inv_def acc1)
    have others: "get_by_identity s e (da_tenders acc1) = get_by_identity s e (da_tenders acc)" if "e \<noteq> ext_of l" for e
      using row that ext acc1 by simp
    have rest: "\<forall>k \<in> set (first_listings (da_unique_ids acc1) ls). self_contained env s (da_tenders acc1) k"
    proof
      fix k assume k: "k \<in> set (first_listings (da_unique_ids acc1) ls)"
      then have "self_contained env s (da_tenders acc) k" using Cons.prems(3) fresh(1) acc1(3) by simp
      moreover from this have "ls_external_id k \<noteq> ext_of l"
        using first_listings_new [OF k] acc1(3) by (simp add: self_contained_def)
      ultimately show "self_contained env s (da_tenders acc1) k" using self_contained_same others by blast
    qed
    from Cons.IH [OF a(2) ti rest] have IH: "\<forall>k \<in> set (first_listings (da_unique_ids acc1) ls). settled_in env s (da_tenders acc') k"
      "\<forall>e \<in> set (da_unique_ids acc1). get_by_identity s e (da_tenders acc') = get_by_identity s e (da_tenders acc1)" by blast+
    have "settled_in env s (da_tenders acc1) l" using row acc1(1) by simp
    then have "settled_in env s (da_tenders acc') l"
      using settled_in_same IH(2) ext acc1(3) by (metis in_set_conv_decomp)
    moreover have "\<forall>e \<in> set (da_unique_ids acc). get_by_identity s e (da_tenders acc') = get_by_identity s e (da_tenders acc)"
    proof
      fix e assume e: "e \<in> set (da_unique_ids acc)"
      then have "e \<noteq> ext_of l" using fresh(1) by metis
      then show "get_by_identity s e (da_tenders acc') = get_by_identity s e (da_tenders acc)"
        using IH(2) others e acc1(3) by simp
    qed
    ultimately show ?thesis using IH(1) fresh(1) acc1(3) by simp
  qed
qed simp

lemma classify_all_idle:
  assumes "\<forall>l \<in> set (first_listings (da_unique_ids acc) ls). settled_in env s (da_tenders acc) l
       \<and> ext_of l = ls_external_id l \<and> well_formed l"
    and "\<forall>l \<in> set ls. well_formed l"
    and "rows_ok (da_tenders acc) (da_next_id acc)" and "seen_ok seen s (da_tenders acc)"
  shows "\<exists>acc'. classify_all env s seen ls acc = Inr acc' \<and> da_tenders acc' = da_tenders acc
     \<and> da_next_id acc' = da_next_id acc \<and> da_outcomes acc' = da_outcomes acc
     \<and> da_new_listings acc' = da_new_listings acc"
  using assms
proof (induction ls arbitrary: acc)
  case (Cons l ls)
  show ?case
  proof (cases "ext_of l \<in> set (da_unique_ids acc)")
    case True
    let ?acc1 = "acc\<lparr>da_duplicates := da_duplicates acc + 1\<rparr>"
    have step: "classify_step env s seen l acc = Inr ?acc1"
      using True Cons.prems(2) by (simp add: classify_step_def well_formed_def)
    have "\<exists>acc'. classify_all env s seen ls ?acc1 = Inr acc' \<and> da_tenders acc' = da_tenders ?acc1
     \<and> da_next_id acc' = da_next_id ?acc1 \<and> da_outcomes acc' = da_outcomes ?acc1
     \<and> da_new_listings acc' = da_new_listings ?acc1"
      by (rule Cons.IH) (use Cons.prems True in simp_all)
    then show ?thesis using step by simp
  next
    case False
    let ?acc = "acc\<lparr>da_unique_ids := da_unique_ids acc @ [ext_of l]\<rparr>"
    have l: "settled_in env s (da_tenders acc) l" "ext_of l = ls_external_id l" "well_formed l"
      using Cons.prems(1) False by simp_all
    then obtain t where t: "get_by_identity s (ls_external_id l) (da_tenders ?acc) = Some t" "accepts env l t"
      by (auto simp: settled_in_def)
    have ok: "rows_ok (da_tenders ?acc) (da_next_id acc)" using Cons.prems(3) by simp
    have "tn_id t0 = tn_id t" if s0: "seen (ls_external_id l) = Some t0" for t0
    proof -
      obtain u where u: "u \<in> set (da_tenders ?acc)" "tn_id u = tn_id t0" "tender_key u = (s, ls_external_id l)"
        using Cons.prems(4) s0 unfolding seen_ok_def by auto
      then have "u = t" using t(1) get_by_identity_iff [OF ok] by (metis option.inject)
      with u show ?thesis by simp
    qed
    from classify_one_present [where seen = seen and ext = "ls_external_id l" and env = env, OF ok t(1) this]
    obtain k where one: "classify_one env s seen l (ls_external_id l) ?acc = Inr (unchanged_outcome l t, ?acc\<lparr>da_claims := k\<rparr>)"
      using accepts_unchanged [OF t(2)] by (auto simp: set_tenders_def)
    let ?acc1 = "?acc\<lparr>da_claims := k, da_correlation_map := da_correlation_map acc @ [(ext_of l, tn_correlation_id t)]\<rparr>"
    have step: "classify_step env s seen l acc = Inr ?acc1"
      using False l(3) one l(2) by (simp add: classify_step_def well_formed_def unchanged_outcome_def Let_def)
    have "\<exists>acc'. classify_all env s seen ls ?acc1 = Inr acc' \<and> da_tenders acc' = da_tenders ?acc1
     \<and> da_next_id acc' = da_next_id ?acc1 \<and> da_outcomes acc' = da_outcomes ?acc1
     \<and> da_new_listings acc' = da_new_listings ?acc1"
      by (rule Cons.IH) (use Cons.prems False in simp_all)
    then show ?thesis using step by simp
  qed
qed simp

lemma classify_all_well_formed: "classify_all env s seen ls acc = Inr acc' \<Longrightarrow> \<forall>l \<in> set ls. well_formed l"
  by (induction ls arbitrary: acc) (auto simp: bind_result_eq_Inr classify_step_def well_formed_def Let_def split: if_splits)

text \<open>C1: re-running a crawl changes nothing, for candidates that bring what the comparison reads (distinct
  metadata keys, an identity without outer blanks, and a value for the reference and for the addendum marker
  wherever the stored row has one) and while no other run inserts tenders during the second run: when a run
  has finished, running the same candidates again, with any clock and any new correlation ids but the same
  material fields, reports no new and no updated tender, counts every identity as unchanged and leaves the
  tender table as it is.  Without the condition on the metadata this fails: the stored metadata is merged, so a
  listing that drops a key of its row is classified as an update each time.\<close>

theorem dedup_idempotent:
  assumes "rows_ok (st_tenders st) (st_next_tender st)"
    and "\<forall>l \<in> set ls. self_contained env s (st_tenders st) l"
    and "dedup_run env t0 t1 [] s ls cid rid False st = (Inr r, st')"
    and "de_repr_of env' = de_repr_of env" and "de_material_fields env' = de_material_fields env"
    and "s \<in> set (st_sources st')"
  shows "\<exists>r' st''. dedup_run env' t0' t1' [] s ls cid' None False st' = (Inr r', st'')
     \<and> dr_new_count r' = 0 \<and> dr_update_count r' = 0 \<and> dr_new_listings r' = [] \<and> dr_updates r' = []
     \<and> dr_unchanged_count r' = int (card (ext_of ` set ls))
     \<and> st_tenders st'' = st_tenders st' \<and> st_next_tender st'' = st_next_tender st'"
  using assms(3)
proof (cases rule: dedup_run_cases)
  case (finished run acc)
  let ?seen = "load_seen s ls (st_tenders st)" and ?start = "start_acc (st_tenders st) (st_next_tender st)"
  have all: "classify_all env s ?seen ls ?start = Inr acc" using finished(1) by simp
  have start: "table_inv ?seen s (st_tenders st) ?start \<and> acc_inv [] ?start"
    using start_inv [of "st_tenders st" "[]" "st_next_tender st" s ls] assms(1) by simp
  have tenders: "st_tenders st' = da_tenders acc" "st_next_tender st' = da_next_id acc" using finished by simp_all
  have done1: "table_inv ?seen s (st_tenders st) acc" using classify_all_inv [OF all] start by blast
  have "\<forall>l \<in> set (first_listings [] ls). self_contained env s (st_tenders st) l"
    using assms(2) first_listings_sub by blast
  then have settled: "\<forall>l \<in> set (first_listings [] ls). settled_in env s (st_tenders st') l"
    using classify_all_settles [OF all conjunct1 [OF start]] tenders(1) by (simp add: start_acc_def)
  have wf: "\<forall>l \<in> set ls. well_formed l" by (rule classify_all_well_formed [OF all])
  let ?seen' = "load_seen s ls (st_tenders st')" and ?start' = "start_acc (st_tenders st') (st_next_tender st')"
  have ok': "rows_ok (st_tenders st') (st_next_tender st')" using done1 tenders by (simp add: table_inv_def)
  have same_env: "settled_in env' s ts l = settled_in env s ts l" for ts l
    using assms(4,5) by (simp add: settled_in_def accepts_def)
  have "\<forall>l \<in> set (first_listings [] ls). settled_in env' s (st_tenders st') l \<and> ext_of l = ls_external_id l \<and> well_formed l"
    using settled same_env assms(2) wf first_listings_sub [of "[]" ls] by (auto simp: self_contained_def)
  then obtain acc' where acc': "classify_all env' s ?seen' ls ?start' = Inr acc'" "da_tenders acc' = st_tenders st'"
    "da_next_id acc' = st_next_tender st'" "da_outcomes acc' = []" "da_new_listings acc' = []"
    using classify_all_idle [of ?start' ls env' s ?seen'] wf ok' load_seen_ok [of "st_tenders st'" "st_tenders st'" s ls]
    by (auto simp: start_acc_def)
  have start': "table_inv ?seen' s (st_tenders st') ?start' \<and> acc_inv [] ?start'"
    using start_inv [of "st_tenders st'" "[]" "st_next_tender st'" s ls] ok' by simp
  have inv': "acc_inv ls acc'" using classify_all_inv [OF acc'(1) conjunct1 [OF start'] conjunct2 [OF start']] by simp
  then have ids: "length (da_unique_ids acc') = card (ext_of ` set ls)"
    using distinct_card [of "da_unique_ids acc'"] by (simp add: acc_inv_def)
  obtain run' s1 where o: "open_run s cid' None False t0' st' = Inr (run', s1)"
    using assms(6) by (simp add: open_run_def Let_def)
  note s1 = open_run_tenders [OF o]
  show ?thesis using o s1 acc' ids by (auto simp: dedup_run_def result_of_def Let_def)
qed simp

definition empty_store :: store where
  "empty_store = \<lparr>st_sources = [2], st_tenders = [], st_runs = [], st_next_tender = 1, st_next_run = 1\<rparr>"

theorem dedup_idempotent_witness:
  "\<exists>r st' r' st''. dedup_run plain_env 0 1 [] 2 [sample_listing] ''r'' None False empty_store = (Inr r, st')
     \<and> dedup_run plain_env 5 6 [] 2 [sample_listing] ''q'' None False st' = (Inr r', st'') \<and> dr_new_count r' = 0"
proof -
  have ok: "rows_ok (st_tenders empty_store) (st_next_tender empty_store)" by (simp add: empty_store_def rows_ok_def)
  have sc: "\<forall>l \<in> set [sample_listing]. self_contained plain_env 2 (st_tenders empty_store) l"
    by (simp add: self_contained_def sample_listing_def empty_store_def get_by_identity_def py_strip_def py_space_def)
  have "\<exists>r st'. dedup_run plain_env 0 1 [] 2 [sample_listing] ''r'' None False empty_store = (Inr r, st')"
    by (rule dedup_run_total) (use ok expired_store_facts(4) in
      \<open>simp_all add: empty_store_def catalogued_def plain_env_fresh\<close>)
  then obtain r st' where d: "dedup_run plain_env 0 1 [] 2 [sample_listing] ''r'' None False empty_store = (Inr r, st')" by blast
  have src: "2 \<in> set (st_sources st')"
    using d by (auto simp: dedup_run_def open_run_def with_rivals_def put_run_def empty_store_def Let_def
        split: sum.splits if_splits)
  from dedup_idempotent [OF ok sc d refl refl src, of 5 6 "''q''"] d show ?thesis by blast
qed

end
