(* ===== verification/PyText.thy ===== *)
theory PyText
  imports Prelude
begin

text \<open>
  More of Python's string operations: splitting at a separator, suffix tests, replacement of a
  character, and \<open>urllib.parse.quote\<close>, with the lemmas that a joined path splits into exactly its
  components.
\<close>

section \<open>Splitting at a separator\<close>

text \<open>\<open>s.split(d)\<close> for a separator of one character.\<close>

fun split_on :: "char \<Rightarrow> string \<Rightarrow> string list" where
  "split_on d [] = [[]]"
| "split_on d (c # cs) =
     (if c = d then [] # split_on d cs
      else case split_on d cs of [] \<Rightarrow> [[c]] | w # ws \<Rightarrow> (c # w) # ws)"

lemma split_on_never_empty [simp]: "split_on d s \<noteq> []"
  by (cases s) (auto split: list.splits)

lemma split_on_segment: "w \<in> set (split_on d s) \<Longrightarrow> d \<notin> set w \<and> set w \<subseteq> set s"
proof (induction s arbitrary: w)
  case (Cons c s)
  obtain v vs where split: "split_on d s = v # vs" by (cases "split_on d s") auto
  have IH: "\<forall>u \<in> set (v # vs). d \<notin> set u \<and> set u \<subseteq> set s" using Cons.IH split by simp
  show ?case using Cons.prems IH by (cases "c = d") (auto simp: split)
qed simp

lemma split_on_none [simp]: "d \<notin> set w \<Longrightarrow> split_on d w = [w]"
  by (induction w) auto

lemma split_on_append: "d \<notin> set w \<Longrightarrow> split_on d (w @ d # s) = w # split_on d s"
  by (induction w) auto

text \<open>\<open>s.rsplit(d, 1)[-1]\<close>, which is also \<open>posixpath.basename\<close> for the separator \<open>/\<close>.\<close>

definition after_last :: "char \<Rightarrow> string \<Rightarrow> string" where
  "after_last d s = last (split_on d s)"

lemma after_last_set: "d \<notin> set (after_last d s)" "set (after_last d s) \<subseteq> set s"
  using split_on_segment [of "after_last d s" d s] by (simp_all add: after_last_def)

text \<open>\<open>s.rsplit(sep, 1)[0]\<close> for any nonempty separator: all of \<open>s\<close> when it does not occur.\<close>

fun before_last :: "string \<Rightarrow> string \<Rightarrow> string" where
  "before_last sep [] = []"
| "before_last sep (c # cs) =
     (if contains sep cs then c # before_last sep cs else if has_prefix sep (c # cs) then [] else c # cs)"

text \<open>\<open>s.replace(a, b)\<close> for single characters, and \<open>s.endswith(suffix)\<close>.\<close>

definition replace_char :: "char \<Rightarrow> char \<Rightarrow> string \<Rightarrow> string" where
  "replace_char a b s = map (\<lambda>c. if c = a then b else c) s"

lemma replace_char_set: "a \<noteq> b \<Longrightarrow> a \<notin> set (replace_char a b s)"
  by (auto simp: replace_char_def)

definition ends_with :: "string \<Rightarrow> string \<Rightarrow> bool" where
  "ends_with suffix s = has_prefix (rev suffix) (rev s)"

definition drop_trailing :: "(char \<Rightarrow> bool) \<Rightarrow> string \<Rightarrow> string" where
  "drop_trailing P s = rev (dropWhile P (rev s))"

lemma drop_trailing_set: "set (drop_trailing P s) \<subseteq> set s"
  using set_dropWhileD [of _ P "rev s"] by (auto simp: drop_trailing_def)

lemma py_strip_set: "set (py_strip s) \<subseteq> set s"
  using set_dropWhileD [of _ py_space s] set_dropWhileD [of _ py_space "rev (dropWhile py_space s)"]
  by (auto simp: py_strip_def)

section \<open>Percent encoding\<close>

definition hex_digit :: "nat \<Rightarrow> char" where
  "hex_digit n = (if n < 10 then char_of (48 + n) else char_of (55 + n))"

definition percent_byte :: "nat \<Rightarrow> string" where
  "percent_byte n = [CHR ''%'', hex_digit (n div 16), hex_digit (n mod 16)]"

text \<open>\<open>urllib.parse.quote\<close> with its default \<open>safe="/"\<close>: letters, digits and \<open>_.-~/\<close> stay, every
  other character becomes the percent-encoded bytes of its UTF-8 form.\<close>

definition quote_safe :: "char \<Rightarrow> bool" where
  "quote_safe c = (let n = of_char c :: nat in
     (48 \<le> n \<and> n \<le> 57) \<or> (65 \<le> n \<and> n \<le> 90) \<or> (97 \<le> n \<and> n \<le> 122) \<or> c \<in> set ''_.-~/'')"

definition quote_char :: "char \<Rightarrow> string" where
  "quote_char c = (let n = of_char c :: nat in
     if quote_safe c then [c]
     else if n < 128 then percent_byte n
     else percent_byte (192 + n div 64) @ percent_byte (128 + n mod 64))"

definition url_quote :: "string \<Rightarrow> string" where
  "url_quote s = concat (map quote_char s)"

end
