(* ===== verification/Documents.thy ===== *)
theory Documents
  imports TenderStore PyText "HOL-Library.Word"
begin

text \<open>
  Documents and what acquiring them reports: the row of \<open>db/models/documents.py\<close>, the repository
  of \<open>db/repositories/documents.py\<close> with \<open>assert_valid_document_status\<close>, the attachment metadata of
  \<open>interfaces/source.py\<close>, and the result types of \<open>acquisition/service.py\<close> that travel to the
  coordinator.  A table is a list in insertion order; the time stamps of a row are left out.
\<close>

section \<open>Attachments and results\<close>

record tender_attachment =
  ta_source_url :: string
  ta_filename :: string
  ta_mime_type :: "string option"
  ta_advertised_size_bytes :: "int option"
  ta_is_zip :: bool

record acquired_document =
  ad_document_id :: int
  ad_filename :: string
  ad_source_url :: string
  ad_checksum :: string
  ad_storage_key :: string
  ad_size_bytes :: int
  ad_mime_type :: "string option"
  ad_is_archive_inner :: bool
  ad_parent_filename :: "string option"

record acquisition_failure =
  af_source_url :: string
  af_filename :: string
  af_error_code :: string
  af_category :: string
  af_retryable :: bool
  af_detail :: "string option"

record acquisition_result =
  ar_documents :: "acquired_document list"
  ar_failures :: "acquisition_failure list"

definition empty_acquisition :: acquisition_result where
  "empty_acquisition = \<lparr>ar_documents = [], ar_failures = []\<rparr>"

definition incomplete_inputs :: "acquisition_result \<Rightarrow> bool" where
  "incomplete_inputs r = (ar_failures r \<noteq> [])"

section \<open>Document rows\<close>

record document =
  dc_id :: int
  dc_tender_id :: int
  dc_filename :: string
  dc_source_url :: string
  dc_storage_path :: "string option"
  dc_mime_type :: "string option"
  dc_language :: "string option"
  dc_checksum :: "string option"
  dc_extracted_text_ref :: "string option"
  dc_download_status :: string
  dc_extraction_status :: string
  dc_extraction_error_code :: "string option"

definition DOWNLOAD_STATUSES :: "string list" where
  "DOWNLOAD_STATUSES = [''pending'', ''downloaded'', ''failed'']"

definition EXTRACTION_STATUSES :: "string list" where
  "EXTRACTION_STATUSES = [''pending'', ''extracted'', ''failed'', ''skipped'']"

definition valid_document_status :: "string \<Rightarrow> string \<Rightarrow> (persistence_error, unit) result" where
  \<comment> \<open>\<open>assert_valid_document_status\<close>\<close>
  "valid_document_status field value' =
     (case map_of [(''download_status'', DOWNLOAD_STATUSES), (''extraction_status'', EXTRACTION_STATUSES)] field of
        None \<Rightarrow> Inl (PersistenceError ''unknown document status field'' PERSISTENCE_INVALID_STATUS_TRANSITION)
      | Some allowed \<Rightarrow> if value' \<in> set allowed then Inr ()
          else Inl (PersistenceError ''invalid document status value'' PERSISTENCE_INVALID_STATUS_TRANSITION))"

text \<open>The database hands out the next integer key.\<close>

definition next_document_id :: "document list \<Rightarrow> int" where
  "next_document_id docs = fold max (map dc_id docs) 0 + 1"

definition new_document :: "int \<Rightarrow> int \<Rightarrow> string \<Rightarrow> string \<Rightarrow> string option \<Rightarrow> document" where
  \<comment> \<open>\<open>DocumentRepository.create\<close> with the arguments the acquisition passes\<close>
  "new_document did tender_id source_url filename mime =
     \<lparr>dc_id = did, dc_tender_id = tender_id, dc_filename = filename, dc_source_url = source_url,
      dc_storage_path = None, dc_mime_type = mime, dc_language = None, dc_checksum = None,
      dc_extracted_text_ref = None, dc_download_status = ''pending'', dc_extraction_status = ''pending'',
      dc_extraction_error_code = None\<rparr>"

definition get_document :: "int \<Rightarrow> document list \<Rightarrow> document option" where
  "get_document did docs = List.find (\<lambda>d. dc_id d = did) docs"

definition list_by_tender :: "int \<Rightarrow> document list \<Rightarrow> document list" where
  "list_by_tender tender_id docs = sort_key dc_id (filter (\<lambda>d. dc_tender_id d = tender_id) docs)"

definition put_document :: "document \<Rightarrow> document list \<Rightarrow> document list" where
  "put_document d docs = map (\<lambda>d'. if dc_id d' = dc_id d then d else d') docs"

definition require_document :: "int \<Rightarrow> document list \<Rightarrow> (persistence_error, document) result" where
  "require_document did docs = (case get_document did docs of
     None \<Rightarrow> Inl (PersistenceError ''document not found'' PERSISTENCE_NOT_FOUND)
   | Some d \<Rightarrow> Inr d)"

definition set_download_status :: "int \<Rightarrow> string \<Rightarrow> document list \<Rightarrow> (persistence_error, document list) result" where
  "set_download_status did status docs =
     bind_result (require_document did docs) (\<lambda>d.
     bind_result (valid_document_status ''download_status'' status) (\<lambda>_.
       Inr (put_document (d\<lparr>dc_download_status := status\<rparr>) docs)))"

definition set_extraction_status ::
  "int \<Rightarrow> string \<Rightarrow> string option \<Rightarrow> document list \<Rightarrow> (persistence_error, document list) result" where
  "set_extraction_status did status error_code docs =
     bind_result (require_document did docs) (\<lambda>d.
     bind_result (valid_document_status ''extraction_status'' status) (\<lambda>_.
       Inr (put_document (d\<lparr>dc_extraction_status := status, dc_extraction_error_code := error_code\<rparr>) docs)))"

definition set_language :: "int \<Rightarrow> string option \<Rightarrow> document list \<Rightarrow> (persistence_error, document list) result" where
  "set_language did language docs = bind_result (require_document did docs) (\<lambda>d.
     Inr (put_document (d\<lparr>dc_language := language\<rparr>) docs))"

definition set_checksum :: "int \<Rightarrow> string \<Rightarrow> document list \<Rightarrow> (persistence_error, document list) result" where
  "set_checksum did checksum docs = bind_result (require_document did docs) (\<lambda>d.
     Inr (put_document (d\<lparr>dc_checksum := Some checksum\<rparr>) docs))"

definition set_storage_path :: "int \<Rightarrow> string \<Rightarrow> document list \<Rightarrow> (persistence_error, document list) result" where
  "set_storage_path did path docs = bind_result (require_document did docs) (\<lambda>d.
     Inr (put_document (d\<lparr>dc_storage_path := Some path\<rparr>) docs))"

definition set_extracted_text_ref :: "int \<Rightarrow> string \<Rightarrow> document list \<Rightarrow> (persistence_error, document list) result" where
  "set_extracted_text_ref did ref docs = bind_result (require_document did docs) (\<lambda>d.
     Inr (put_document (d\<lparr>dc_extracted_text_ref := Some ref\<rparr>) docs))"

lemmas document_setter_defs = set_download_status_def set_extraction_status_def set_language_def
  set_checksum_def set_storage_path_def set_extracted_text_ref_def

section \<open>What the row operations keep\<close>

lemma fold_max_ge: "x \<in> set xs \<or> x = a \<Longrightarrow> (x :: int) \<le> fold max xs a"
  by (metis Max_ge List.finite_set Max.set_eq_fold insert_iff list.simps(15))

lemma next_document_id_fresh: "d \<in> set docs \<Longrightarrow> dc_id d < next_document_id docs"
  using fold_max_ge [of "dc_id d" "map dc_id docs" 0] by (simp add: next_document_id_def)

lemma next_document_id_notin [simp]: "next_document_id docs \<notin> dc_id ` set docs"
  using next_document_id_fresh by fastforce

lemma map_dc_id_put [simp]: "map dc_id (put_document d docs) = map dc_id docs"
  by (simp add: put_document_def)

lemma set_put_document:
  "set (put_document d docs) = (if dc_id d \<in> dc_id ` set docs then {d} else {}) \<union> {d' \<in> set docs. dc_id d' \<noteq> dc_id d}"
proof (cases "dc_id d \<in> dc_id ` set docs")
  case True
  then show ?thesis by (force simp: put_document_def)
next
  case False
  then have "dc_id d' \<noteq> dc_id d" if "d' \<in> set docs" for d' using that by (metis imageI)
  then show ?thesis using False by (auto simp: put_document_def)
qed

lemma get_document_present:
  assumes "distinct (map dc_id docs)" "d \<in> set docs"
  shows "get_document (dc_id d) docs = Some d"
proof -
  obtain d' where d': "get_document (dc_id d) docs = Some d'"
    using assms(2) by (cases "get_document (dc_id d) docs") (auto simp: get_document_def find_None_iff)
  then have "d' \<in> set docs" "dc_id d' = dc_id d" by (auto simp: get_document_def find_Some_iff)
  with d' assms show ?thesis by (auto simp: distinct_map dest: inj_onD)
qed

lemma put_document_twice [simp]:
  "dc_id d = dc_id d' \<Longrightarrow> put_document d (put_document d' docs) = put_document d docs"
  by (auto simp: put_document_def)

text \<open>No setter adds or removes a row, and an accepted status is one of the model's.\<close>

lemma setter_ids:
  "set_download_status did s docs = Inr docs' \<Longrightarrow> map dc_id docs' = map dc_id docs"
  "set_extraction_status did s e docs = Inr docs' \<Longrightarrow> map dc_id docs' = map dc_id docs"
  "set_language did l docs = Inr docs' \<Longrightarrow> map dc_id docs' = map dc_id docs"
  "set_checksum did c docs = Inr docs' \<Longrightarrow> map dc_id docs' = map dc_id docs"
  "set_storage_path did p docs = Inr docs' \<Longrightarrow> map dc_id docs' = map dc_id docs"
  "set_extracted_text_ref did t docs = Inr docs' \<Longrightarrow> map dc_id docs' = map dc_id docs"
  by (auto simp: document_setter_defs bind_result_eq_Inr)

end
