(* ===== verification/SafeNames.thy ===== *)
theory SafeNames
  imports Documents
begin

text \<open>
  Safe names and media types: \<open>acquisition/names.py\<close> and \<open>acquisition/mimes.py\<close>, and the keys of
  \<open>storage/local.py\<close>.  A name that comes from a web page or an archive is untrusted; what reaches the
  storage is one path component that neither separates nor climbs.
\<close>

section \<open>names.py\<close>

definition UNSAFE_CHARS :: "char list" where
  "UNSAFE_CHARS = [CHR ''<'', CHR ''>'', CHR '':'', CHR 0x22, CHR ''/'', CHR 0x5C, CHR ''|'', CHR ''?'',
     CHR ''*'', CHR 0x00]"

definition WINDOWS_DEVICE_NAMES :: "string list" where
  "WINDOWS_DEVICE_NAMES = [''con'', ''prn'', ''aux'', ''nul'']"

definition MAX_KEY_NAME_LENGTH :: nat where
  "MAX_KEY_NAME_LENGTH = 200"

definition control_char :: "char \<Rightarrow> bool" where
  "control_char c = (let n = of_char c :: nat in n < 32 \<or> n = 127)"

definition sanitize_storage_name :: "string \<Rightarrow> string" where
  "sanitize_storage_name filename =
     (let base = after_last (CHR ''/'') (replace_char (CHR 0x5C) (CHR ''/'') filename);
          base = filter (\<lambda>c. \<not> control_char c) base;
          cleaned = filter (\<lambda>c. c \<notin> set UNSAFE_CHARS) base;
          cleaned = py_strip (drop_trailing (\<lambda>c. c = CHR ''.'' \<or> c = CHR '' '') cleaned);
          cleaned = (if py_lower cleaned \<in> set WINDOWS_DEVICE_NAMES then CHR ''_'' # cleaned else cleaned);
          cleaned = (if cleaned \<in> {'''', ''.'', ''..''} then ''file'' else cleaned);
          cleaned = (if length cleaned > MAX_KEY_NAME_LENGTH then take MAX_KEY_NAME_LENGTH cleaned else cleaned)
      in if cleaned = [] then ''file'' else cleaned)"

definition storage_key :: "int \<Rightarrow> string \<Rightarrow> string \<Rightarrow> string" where
  "storage_key tender_id checksum filename =
     ''tenders/'' @ int_str tender_id @ ''/attachments/'' @ checksum @ ''/'' @ sanitize_storage_name filename"

section \<open>mimes.py\<close>

definition POSIX_MIME_MAP :: "(string \<times> string) list" where
  "POSIX_MIME_MAP =
    [(''.docx'', ''application/vnd.openxmlformats-officedocument.wordprocessingml.document''),
     (''.xlsx'', ''application/vnd.openxmlformats-officedocument.spreadsheetml.sheet''),
     (''.pptx'', ''application/vnd.openxmlformats-officedocument.presentationml.presentation''),
     (''.zip'', ''application/zip''), (''.rar'', ''application/vnd.rar''),
     (''.7z'', ''application/x-7z-compressed''),
     (''.odt'', ''application/vnd.oasis.opendocument.text''),
     (''.ods'', ''application/vnd.oasis.opendocument.spreadsheet''),
     (''.odp'', ''application/vnd.oasis.opendocument.presentation'')]"

text \<open>\<open>mimetypes.guess_type\<close> reads the tables of the host and is an argument.\<close>

definition guess_mime :: "(string \<Rightarrow> string option) \<Rightarrow> string option \<Rightarrow> string option" where
  "guess_mime guess_type filename = (case filename of None \<Rightarrow> None | Some name \<Rightarrow>
     if name = [] then None
     else let ext = (if CHR ''.'' \<in> set name then CHR ''.'' # py_lower (after_last (CHR ''.'') name) else [])
          in case map_of POSIX_MIME_MAP ext of Some m \<Rightarrow> Some m | None \<Rightarrow> guess_type name)"

definition media_part :: "string \<Rightarrow> string" where
  \<comment> \<open>\<open>value.split(";", 1)[0].strip().lower()\<close>\<close>
  "media_part v = py_lower (py_strip (hd (split_on (CHR '';'') v)))"

definition bare_media_type :: "string option \<Rightarrow> string option" where
  "bare_media_type content_type = (case content_type of None \<Rightarrow> None | Some v \<Rightarrow>
     if v = [] \<or> media_part v = [] then None else Some (media_part v))"

section \<open>The keys of the file storage\<close>

text \<open>\<open>LocalFileSystemStorage._resolve\<close>: an absolute key or one with a \<open>..\<close> component is refused; the
  file is named by the components of the key, of which \<open>pathlib\<close> drops the empty and the \<open>.\<close> ones.\<close>

definition resolve_key :: "string \<Rightarrow> string list option" where
  "resolve_key key = (let parts = filter (\<lambda>p. p \<noteq> [] \<and> p \<noteq> ''.'') (split_on (CHR ''/'') key)
     in if has_prefix ''/'' key \<or> ''..'' \<in> set parts then None else Some parts)"

section \<open>What a sanitised name is\<close>

definition safe_char :: "char \<Rightarrow> bool" where
  "safe_char c \<longleftrightarrow> \<not> control_char c \<and> c \<notin> set UNSAFE_CHARS"

definition safe_component :: "string \<Rightarrow> bool" where
  "safe_component s \<longleftrightarrow> s \<noteq> [] \<and> length s \<le> MAX_KEY_NAME_LENGTH \<and> s \<noteq> ''.'' \<and> s \<noteq> ''..''
     \<and> (\<forall>c \<in> set s. safe_char c) \<and> py_lower s \<notin> set WINDOWS_DEVICE_NAMES"

lemma safe_char_word [simp]: "\<forall>c \<in> set ''file''. safe_char c" "safe_char (CHR ''_'')"
  by (simp_all add: safe_char_def control_char_def UNSAFE_CHARS_def)

lemma safe_char_separator: "\<not> safe_char (CHR ''/'')" "\<not> safe_char (CHR 0x5C)"
  by (simp_all add: safe_char_def control_char_def UNSAFE_CHARS_def)

lemma length_py_lower [simp]: "length (py_lower s) = length s"
  by (simp add: py_lower_def)

lemma device_length: "s \<in> set WINDOWS_DEVICE_NAMES \<Longrightarrow> length s = 3"
  by (auto simp: WINDOWS_DEVICE_NAMES_def)

lemma sanitize_safe: "safe_component (sanitize_storage_name filename)"
proof -
  define c0 where "c0 = filter (\<lambda>c. c \<notin> set UNSAFE_CHARS) (filter (\<lambda>c. \<not> control_char c)
     (after_last (CHR ''/'') (replace_char (CHR 0x5C) (CHR ''/'') filename)))"
  define c1 where "c1 = py_strip (drop_trailing (\<lambda>c. c = CHR ''.'' \<or> c = CHR '' '') c0)"
  define c2 where "c2 = (if py_lower c1 \<in> set WINDOWS_DEVICE_NAMES then CHR ''_'' # c1 else c1)"
  define c3 where "c3 = (if c2 \<in> {'''', ''.'', ''..''} then ''file'' else c2)"
  have c0: "\<forall>c \<in> set c0. safe_char c" by (simp add: c0_def safe_char_def)
  have "set c1 \<subseteq> set c0" unfolding c1_def
    by (rule order_trans [OF py_strip_set drop_trailing_set])
  then have "\<forall>c \<in> set c2. safe_char c" using c0 by (auto simp: c2_def)
  then have c3: "\<forall>c \<in> set c3. safe_char c" by (simp add: c3_def)
  have c3': "c3 \<noteq> []" "c3 \<noteq> ''.''" "c3 \<noteq> ''..''" by (auto simp: c3_def)
  have c2': "py_lower c2 \<notin> set WINDOWS_DEVICE_NAMES"
    using device_length [of "py_lower c2"] device_length [of "py_lower c1"] by (auto simp: c2_def)
  have "py_lower ''file'' \<notin> set WINDOWS_DEVICE_NAMES"
    using device_length [of "py_lower ''file''"] by auto
  with c2' have dev: "py_lower c3 \<notin> set WINDOWS_DEVICE_NAMES" by (simp add: c3_def)
  have eq: "sanitize_storage_name filename = (if length c3 > MAX_KEY_NAME_LENGTH then take MAX_KEY_NAME_LENGTH c3 else c3)"
    using c3'(1) unfolding sanitize_storage_name_def Let_def c0_def c1_def c2_def c3_def
    by (simp add: MAX_KEY_NAME_LENGTH_def)
  show ?thesis
  proof (cases "length c3 > MAX_KEY_NAME_LENGTH")
    case False
    then show ?thesis using c3 c3' dev by (simp add: eq safe_component_def)
  next
    case True
    let ?t = "take MAX_KEY_NAME_LENGTH c3"
    have len: "length ?t = 200" using True by (simp add: MAX_KEY_NAME_LENGTH_def)
    have "\<forall>c \<in> set ?t. safe_char c" using c3 by (meson in_set_takeD)
    moreover have "?t \<noteq> []" "?t \<noteq> ''.''" "?t \<noteq> ''..''" using len by (metis len list.size(3) zero_neq_numeral,
        auto dest!: arg_cong [where f = length])
    moreover have "py_lower ?t \<notin> set WINDOWS_DEVICE_NAMES"
      using device_length [of "py_lower ?t"] len by auto
    ultimately show ?thesis using True len by (simp add: eq safe_component_def MAX_KEY_NAME_LENGTH_def)
  qed
qed

lemma safe_component_no_slash: "safe_component s \<Longrightarrow> CHR ''/'' \<notin> set s"
  using safe_char_separator by (auto simp: safe_component_def)

section \<open>What a storage key is\<close>

lemma nat_str_digits: "\<forall>c \<in> set (nat_str n). (48 :: nat) \<le> of_char c \<and> (of_char c :: nat) \<le> 57"
proof (induction n rule: nat_str.induct)
  case (1 n)
  have digit: "m < 10 \<Longrightarrow> (of_char (char_of (48 + m) :: char) :: nat) = 48 + m" for m :: nat by simp
  show ?case
  proof (cases "n < 10")
    case True
    then show ?thesis using digit by (subst nat_str.simps) simp
  next
    case False
    with 1 digit [of "n mod 10"] show ?thesis by (subst nat_str.simps) simp
  qed
qed

lemma int_str_plain: "CHR ''/'' \<notin> set (int_str n)" "int_str n \<noteq> []" "int_str n \<noteq> ''.''" "int_str n \<noteq> ''..''"
proof -
  have digits: "c \<in> set (nat_str m) \<Longrightarrow> c \<noteq> CHR ''/'' \<and> c \<noteq> CHR ''.''" for c m
    using nat_str_digits [of m] by force
  show "CHR ''/'' \<notin> set (int_str n)" using digits by (auto simp: int_str_def)
  show "int_str n \<noteq> []" using nat_str_nonempty by (simp add: int_str_def)
  have "CHR ''.'' \<notin> set (int_str n)" using digits by (auto simp: int_str_def)
  then show "int_str n \<noteq> ''.''" "int_str n \<noteq> ''..''" by auto
qed

lemma storage_key_segments:
  assumes "CHR ''/'' \<notin> set checksum"
  shows "split_on (CHR ''/'') (storage_key tid checksum filename)
    = [''tenders'', int_str tid, ''attachments'', checksum, sanitize_storage_name filename]"
proof -
  let ?name = "sanitize_storage_name filename"
  have name: "split_on (CHR ''/'') ?name = [?name]"
    using safe_component_no_slash [OF sanitize_safe] by simp
  have words: "CHR ''/'' \<notin> set ''attachments''" "CHR ''/'' \<notin> set ''tenders''" by simp_all
  have "split_on (CHR ''/'') (checksum @ CHR ''/'' # ?name) = [checksum, ?name]"
    using split_on_append [OF assms] name by simp
  then have "split_on (CHR ''/'') (''attachments'' @ CHR ''/'' # (checksum @ CHR ''/'' # ?name))
      = [''attachments'', checksum, ?name]"
    by (simp only: split_on_append [OF words(1)])
  then have "split_on (CHR ''/'') (int_str tid @ CHR ''/'' # (''attachments'' @ CHR ''/'' # (checksum @ CHR ''/'' # ?name)))
      = [int_str tid, ''attachments'', checksum, ?name]"
    by (simp only: split_on_append [OF int_str_plain(1)])
  then have "split_on (CHR ''/'') (''tenders'' @ CHR ''/'' # (int_str tid @ CHR ''/'' # (''attachments'' @ CHR ''/'' # (checksum @ CHR ''/'' # ?name))))
      = [''tenders'', int_str tid, ''attachments'', checksum, ?name]"
    by (simp only: split_on_append [OF words(2)])
  then show ?thesis by (simp only: storage_key_def append.simps append_assoc append_Cons append_Nil)
qed

definition plain_segment :: "string \<Rightarrow> bool" where
  "plain_segment s \<longleftrightarrow> CHR ''/'' \<notin> set s \<and> s \<noteq> [] \<and> s \<noteq> ''.'' \<and> s \<noteq> ''..''"

lemma storage_key_resolves:
  assumes "plain_segment checksum"
  shows "resolve_key (storage_key tid checksum filename)
      = Some [''tenders'', int_str tid, ''attachments'', checksum, sanitize_storage_name filename]"
proof -
  have safe: "safe_component (sanitize_storage_name filename)" by (rule sanitize_safe)
  then have name: "sanitize_storage_name filename \<noteq> []" "sanitize_storage_name filename \<noteq> ''.''"
    "sanitize_storage_name filename \<noteq> ''..''" by (simp_all add: safe_component_def)
  have "\<not> has_prefix ''/'' (storage_key tid checksum filename)" by (simp add: storage_key_def)
  moreover have "split_on (CHR ''/'') (storage_key tid checksum filename)
    = [''tenders'', int_str tid, ''attachments'', checksum, sanitize_storage_name filename]"
    using assms by (intro storage_key_segments) (simp add: plain_segment_def)
  ultimately show ?thesis using safe name int_str_plain [of tid] assms
    by (auto simp: resolve_key_def plain_segment_def)
qed

text \<open>C16: whatever the remote name of a document is, its storage key has exactly the five components
  \<open>tenders/id/attachments/checksum/name\<close>, the storage accepts it and keeps the object under those
  components, and the name is not empty, at most 200 characters long, no dot component, no Windows
  device name, and free of separators, control and other unsafe characters.\<close>

theorem storage_key_stays_inside:
  assumes "plain_segment checksum"
  shows "resolve_key (storage_key tid checksum filename)
      = Some [''tenders'', int_str tid, ''attachments'', checksum, sanitize_storage_name filename]
    \<and> safe_component (sanitize_storage_name filename)"
  using storage_key_resolves [OF assms] sanitize_safe by blast

theorem storage_key_stays_inside_witness:
  "resolve_key (storage_key 7 ''ab'' ''../../etc/passwd'') \<noteq> None"
  using storage_key_stays_inside [of "''ab''" 7 "''../../etc/passwd''"] by (simp add: plain_segment_def)

end
