(* ===== verification/Archive.thy ===== *)
theory Archive
  imports SafeNames
begin

text \<open>
  ZIP extraction, \<open>acquisition/zip.py\<close>, and the acquisition errors of \<open>acquisition/errors.py\<close>.  The
  format itself is read by the \<open>zipfile\<close> module: opening an archive and reading a member are
  arguments.  What is modelled is everything the code decides about a member: its name, its kind,
  its declared sizes and the limits of the archive as a whole.
\<close>

unbundle bit_operations_syntax

type_synonym octets = "8 word list"

section \<open>errors.py\<close>

record acquisition_error =
  ae_message :: string
  ae_code :: string
  ae_category :: string
  ae_retryable :: bool
  ae_context :: "(string \<times> json) list"

definition set_default :: "(string \<times> json) list \<Rightarrow> string \<Rightarrow> json \<Rightarrow> (string \<times> json) list" where
  "set_default d k v = (if k \<in> fst ` set d then d else d @ [(k, v)])"

definition DocumentAcquisitionError ::
  "string \<Rightarrow> string \<Rightarrow> string \<Rightarrow> bool \<Rightarrow> (string \<times> json) list \<Rightarrow> acquisition_error" where
  "DocumentAcquisitionError message error_code category retryable context' =
     \<lparr>ae_message = message, ae_code = error_code, ae_category = category, ae_retryable = retryable,
      ae_context = set_default (set_default (set_default context' ''error_code'' (JStr error_code))
        ''category'' (JStr category)) ''retryable'' (JBool retryable)\<rparr>"

text \<open>What acquiring may raise: its own error, or any other exception, of which only the type counts.\<close>

datatype acquire_exn = Acquisition acquisition_error | OtherExn string

section \<open>Limits, members and reports\<close>

record zip_limits =
  zl_max_members :: int
  zl_max_total_uncompressed_bytes :: int
  zl_max_compression_ratio :: int
  zl_max_single_member_bytes :: int
  zl_max_name_length :: int
  zl_max_nested_depth :: int

definition default_limits :: zip_limits where
  "default_limits = \<lparr>zl_max_members = 200, zl_max_total_uncompressed_bytes = 512 * 1024 * 1024,
     zl_max_compression_ratio = 200, zl_max_single_member_bytes = 256 * 1024 * 1024,
     zl_max_name_length = 255, zl_max_nested_depth = 2\<rparr>"

record zip_info =
  zi_filename :: string
  zi_external_attr :: "32 word"
  zi_file_size :: int
  zi_compress_size :: int

record zip_entry =
  ze_name :: string
  ze_data :: octets
  ze_is_nested_zip :: bool

record zip_member_failure =
  zf_member_name :: string
  zf_reason :: string

record zip_report =
  zr_entries :: "zip_entry list"
  zr_member_failures :: "zip_member_failure list"

text \<open>The exceptions of \<open>zipfile\<close> that the code distinguishes from all others.\<close>

datatype zip_exn = BadZipFile | LargeZipFile | ZipNotImplemented | ZipOther string

record zip_library =
  zb_open :: "octets \<Rightarrow> (zip_exn, zip_info list) result"
  zb_read :: "octets \<Rightarrow> zip_info \<Rightarrow> (zip_exn, octets) result"

section \<open>Tests on a member\<close>

definition looks_like_zip :: "octets \<Rightarrow> bool" where
  "looks_like_zip data = (take 4 data \<in> {[0x50, 0x4B, 3, 4], [0x50, 0x4B, 5, 6], [0x50, 0x4B, 7, 8]})"

definition is_symlink :: "zip_info \<Rightarrow> bool" where
  "is_symlink info = (let unix_mode = drop_bit 16 (zi_external_attr info) AND 0xFFFF
     in unix_mode AND 0xF000 = 0xA000)"

definition ascii_letter :: "char \<Rightarrow> bool" where
  "ascii_letter c = (let n = of_char (py_lower_char c) :: nat in 97 \<le> n \<and> n \<le> 122)"

definition unsafe_member_name :: "string \<Rightarrow> string option" where
  "unsafe_member_name name =
     (let parts = split_on (CHR ''/'') (replace_char (CHR 0x5C) (CHR ''/'') name); head = hd parts
      in if has_prefix ''/'' name then Some ''absolute path''
         else if list_ex (\<lambda>p. p \<in> {'''', ''.'', ''..''}) parts then Some ''empty-or-dot path segment''
         else if length head = 2 \<and> head ! 1 = CHR '':'' \<and> ascii_letter (head ! 0) then Some ''windows drive-letter path''
         else if contains ''//'' head then Some ''windows UNC path''
         else None)"

section \<open>safe_extract_archive\<close>

definition archive_error :: "string \<Rightarrow> string \<Rightarrow> (string \<times> json) list \<Rightarrow> acquire_exn" where
  "archive_error message category context' =
     Acquisition (DocumentAcquisitionError message DOCUMENT_DOWNLOAD_FAILED category False context')"

definition member_failure :: "string \<Rightarrow> string \<Rightarrow> zip_report \<Rightarrow> zip_report" where
  "member_failure name reason r =
     r\<lparr>zr_member_failures := zr_member_failures r @ [\<lparr>zf_member_name = name, zf_reason = reason\<rparr>]\<rparr>"

definition add_entry :: "string \<Rightarrow> octets \<Rightarrow> zip_report \<Rightarrow> zip_report" where
  "add_entry name data r =
     r\<lparr>zr_entries := zr_entries r @ [\<lparr>ze_name = name, ze_data = data, ze_is_nested_zip = looks_like_zip data\<rparr>]\<rparr>"

definition is_directory :: "string \<Rightarrow> bool" where
  "is_directory name = (ends_with ''/'' name \<or> ends_with [CHR 0x5C] name)"

text \<open>The checks before the sizes: the reason for which a member is rejected by its name or kind.\<close>

definition rejected_by_name :: "zip_limits \<Rightarrow> zip_info \<Rightarrow> string option" where
  "rejected_by_name limits info =
     (let name = zi_filename info in
      if int (length name) > zl_max_name_length limits
      then Some (''name exceeds '' @ int_str (zl_max_name_length limits) @ '' chars'')
      else case unsafe_member_name name of Some reason \<Rightarrow> Some reason
        | None \<Rightarrow> if is_symlink info then Some ''symlink/link entry is not allowed'' else None)"

definition rejected_by_size :: "zip_limits \<Rightarrow> zip_info \<Rightarrow> string option" where
  "rejected_by_size limits info =
     (if zi_file_size info > zl_max_single_member_bytes limits then Some ''member exceeds the single-file size limit''
      else if zl_max_compression_ratio limits > 0
          \<and> zi_file_size info > zl_max_compression_ratio limits * max (zi_compress_size info) 1
        then Some ''compression ratio too high'' else None)"

fun zip_exn_name :: "zip_exn \<Rightarrow> string" where
  "zip_exn_name BadZipFile = ''BadZipFile''"
| "zip_exn_name LargeZipFile = ''LargeZipFile''"
| "zip_exn_name ZipNotImplemented = ''NotImplementedError''"
| "zip_exn_name (ZipOther t) = t"

text \<open>The loop over the members.  \<open>zipfile.error\<close> is \<open>BadZipFile\<close>: reading a member may raise other
  exceptions, which the loop does not catch.\<close>

fun extract_infos ::
  "zip_library \<Rightarrow> zip_limits \<Rightarrow> octets \<Rightarrow> zip_info list \<Rightarrow> int \<Rightarrow> zip_report \<Rightarrow> (acquire_exn, zip_report) result" where
  "extract_infos lib limits data [] seen r = Inr r"
| "extract_infos lib limits data (info # infos) seen r =
     (let name = zi_filename info in
      if is_directory name then extract_infos lib limits data infos seen r
      else case rejected_by_name limits info of
        Some reason \<Rightarrow> extract_infos lib limits data infos seen (member_failure name reason r)
      | None \<Rightarrow>
          let seen' = seen + zi_file_size info in
          if seen' > zl_max_total_uncompressed_bytes limits
          then Inl (archive_error ''ZIP archive exceeds the total uncompressed-size limit'' ''archive_limit''
            [(''total_uncompressed_bytes'', JInt seen'), (''limit_bytes'', JInt (zl_max_total_uncompressed_bytes limits))])
          else case rejected_by_size limits info of
            Some reason \<Rightarrow> extract_infos lib limits data infos seen' (member_failure name reason r)
          | None \<Rightarrow> (case zb_read lib data info of
                Inl BadZipFile \<Rightarrow> extract_infos lib limits data infos seen'
                  (member_failure name (''corrupt member: '' @ zip_exn_name BadZipFile) r)
              | Inl e \<Rightarrow> Inl (OtherExn (zip_exn_name e))
              | Inr member \<Rightarrow> extract_infos lib limits data infos seen' (add_entry name member r)))"

definition empty_report :: zip_report where
  "empty_report = \<lparr>zr_entries = [], zr_member_failures = []\<rparr>"

definition safe_extract_archive :: "zip_library \<Rightarrow> zip_limits \<Rightarrow> octets \<Rightarrow> (acquire_exn, zip_report) result" where
  "safe_extract_archive lib limits data = (case zb_open lib data of
     Inl BadZipFile \<Rightarrow> Inl (archive_error ''malformed ZIP archive'' ''invalid_archive'' [(''reason'', JStr ''bad_zip'')])
   | Inl (ZipOther t) \<Rightarrow> Inl (OtherExn t)
   | Inl e \<Rightarrow> Inl (archive_error ''ZIP archive uses unsupported/large features'' ''invalid_archive''
       [(''reason'', JStr (zip_exn_name e))])
   | Inr infos \<Rightarrow>
       if int (length infos) > zl_max_members limits
       then Inl (archive_error ''ZIP archive exceeds the member-count limit'' ''archive_limit''
         [(''members'', JInt (int (length infos))), (''limit'', JInt (zl_max_members limits))])
       else extract_infos lib limits data infos 0 empty_report)"

definition recurse_depth_exceeded :: "zip_limits \<Rightarrow> int \<Rightarrow> bool" where
  "recurse_depth_exceeded limits depth = (depth > zl_max_nested_depth limits)"

section \<open>What an extraction gives\<close>

text \<open>A member that the limits admit.\<close>

definition admitted :: "zip_limits \<Rightarrow> zip_info \<Rightarrow> bool" where
  "admitted limits info \<longleftrightarrow> \<not> is_directory (zi_filename info) \<and> rejected_by_name limits info = None
     \<and> rejected_by_size limits info = None"

definition file_members :: "zip_info list \<Rightarrow> zip_info list" where
  "file_members infos = filter (\<lambda>i. \<not> is_directory (zi_filename i)) infos"

text \<open>The members that reach the running total.\<close>

definition counted :: "zip_limits \<Rightarrow> zip_info list \<Rightarrow> zip_info list" where
  "counted limits infos = filter (\<lambda>i. rejected_by_name limits i = None) (file_members infos)"

definition readable :: "zip_library \<Rightarrow> octets \<Rightarrow> zip_info \<Rightarrow> bool" where
  "readable lib data info = is_ok (zb_read lib data info)"

abbreviation entry_of :: "zip_library \<Rightarrow> octets \<Rightarrow> zip_info \<Rightarrow> zip_entry" where
  "entry_of lib data i \<equiv> \<lparr>ze_name = zi_filename i,
     ze_data = (case zb_read lib data i of Inr b \<Rightarrow> b | Inl _ \<Rightarrow> []),
     ze_is_nested_zip = looks_like_zip (case zb_read lib data i of Inr b \<Rightarrow> b | Inl _ \<Rightarrow> [])\<rparr>"

lemma extract_infos_exact:
  "extract_infos lib limits data infos seen r = Inr r' \<Longrightarrow>
     zr_entries r' = zr_entries r @ map (entry_of lib data)
         (filter (\<lambda>i. admitted limits i \<and> readable lib data i) infos)
     \<and> map zf_member_name (zr_member_failures r') = map zf_member_name (zr_member_failures r)
         @ map zi_filename (filter (\<lambda>i. \<not> is_directory (zi_filename i) \<and> \<not> (admitted limits i \<and> readable lib data i)) infos)
     \<and> (counted limits infos \<noteq> [] \<longrightarrow>
          seen + sum_list (map zi_file_size (counted limits infos)) \<le> zl_max_total_uncompressed_bytes limits)"
proof (induction infos arbitrary: seen r)
  case Nil
  then show ?case by (simp add: counted_def file_members_def)
next
  case (Cons info infos)
  show ?case
  proof (cases "is_directory (zi_filename info)")
    case True
    then show ?thesis using Cons by (simp add: admitted_def counted_def file_members_def)
  next
    case doc: False
    show ?thesis
    proof (cases "rejected_by_name limits info")
      case (Some reason)
      then show ?thesis using Cons doc
        by (simp add: admitted_def counted_def file_members_def member_failure_def Let_def)
    next
      case named: None
      define seen' where "seen' = seen + zi_file_size info"
      have le: "seen' \<le> zl_max_total_uncompressed_bytes limits"
        using Cons.prems doc named by (auto simp: Let_def seen'_def split: if_splits)
      have sums: "counted limits (info # infos) = info # counted limits infos"
        using doc named by (simp add: counted_def file_members_def)
      have goal3: "(counted limits infos \<noteq> [] \<longrightarrow>
          seen' + sum_list (map zi_file_size (counted limits infos)) \<le> zl_max_total_uncompressed_bytes limits)
          \<Longrightarrow> seen + sum_list (map zi_file_size (counted limits (info # infos))) \<le> zl_max_total_uncompressed_bytes limits"
        using le by (cases "counted limits infos = []") (simp_all add: sums seen'_def)
      show ?thesis
      proof (cases "rejected_by_size limits info")
        case (Some reason)
        then have "extract_infos lib limits data infos seen' (member_failure (zi_filename info) reason r) = Inr r'"
          using Cons.prems doc named le by (simp add: Let_def seen'_def)
        from Cons.IH [OF this] show ?thesis using Some doc goal3
          by (simp add: admitted_def member_failure_def)
      next
        case sized: None
        show ?thesis
        proof (cases "zb_read lib data info")
          case (Inr member)
          then have "extract_infos lib limits data infos seen' (add_entry (zi_filename info) member r) = Inr r'"
            using Cons.prems doc named le sized by (simp add: Let_def seen'_def)
          from Cons.IH [OF this] show ?thesis using doc named sized Inr goal3
            by (simp add: admitted_def readable_def add_entry_def)
        next
          case (Inl e)
          then have bad: "e = BadZipFile"
            using Cons.prems doc named le sized by (cases e) (simp_all add: Let_def seen'_def)
          then have "extract_infos lib limits data infos seen'
              (member_failure (zi_filename info) (''corrupt member: '' @ zip_exn_name BadZipFile) r) = Inr r'"
            using Cons.prems doc named le sized Inl by (simp add: Let_def seen'_def)
          from Cons.IH [OF this] show ?thesis using doc named sized Inl bad goal3
            by (simp add: admitted_def readable_def member_failure_def)
        qed
      qed
    qed
  qed
qed

text \<open>A name whose components, whichever separator it uses, neither are empty nor climb.\<close>

definition inside_path :: "string \<Rightarrow> bool" where
  "inside_path name \<longleftrightarrow> \<not> has_prefix ''/'' name
     \<and> (\<forall>p \<in> set (split_on (CHR ''/'') (replace_char (CHR 0x5C) (CHR ''/'') name)). p \<notin> {'''', ''.'', ''..''})"

lemma admitted_bounds:
  assumes "admitted limits i"
  shows "inside_path (zi_filename i)" "\<not> is_symlink i" "int (length (zi_filename i)) \<le> zl_max_name_length limits"
    "zi_file_size i \<le> zl_max_single_member_bytes limits"
    "zl_max_compression_ratio limits > 0 \<Longrightarrow> zi_file_size i \<le> zl_max_compression_ratio limits * max (zi_compress_size i) 1"
proof -
  have named: "rejected_by_name limits i = None" and sized: "rejected_by_size limits i = None"
    using assms by (simp_all add: admitted_def)
  then have "unsafe_member_name (zi_filename i) = None"
    by (simp add: rejected_by_name_def Let_def split: if_splits option.splits)
  then show "inside_path (zi_filename i)"
    by (auto simp: unsafe_member_name_def inside_path_def Let_def list_ex_iff split: if_splits)
  show "\<not> is_symlink i" "int (length (zi_filename i)) \<le> zl_max_name_length limits"
    using named by (auto simp: rejected_by_name_def Let_def split: if_splits option.splits)
  show "zi_file_size i \<le> zl_max_single_member_bytes limits"
    "zl_max_compression_ratio limits > 0 \<Longrightarrow> zi_file_size i \<le> zl_max_compression_ratio limits * max (zi_compress_size i) 1"
    using sized by (auto simp: rejected_by_size_def split: if_splits)
qed

lemma sum_list_filter_le:
  "\<forall>x \<in> set xs. Q x \<longrightarrow> P x \<Longrightarrow> \<forall>x \<in> set xs. 0 \<le> (f x :: int)
     \<Longrightarrow> sum_list (map f (filter Q xs)) \<le> sum_list (map f (filter P xs))"
  by (induction xs) (auto simp: add_increasing)

definition honest_library :: "zip_library \<Rightarrow> octets \<Rightarrow> bool" where
  \<comment> \<open>sizes are unsigned, and \<open>ZipFile.read\<close> returns at most the declared number of bytes\<close>
  "honest_library lib data \<longleftrightarrow> (\<forall>infos. zb_open lib data = Inr infos \<longrightarrow>
     (\<forall>i \<in> set infos. 0 \<le> zi_file_size i \<and> (\<forall>b. zb_read lib data i = Inr b \<longrightarrow> int (length b) \<le> zi_file_size i)))"

lemma extract_result:
  assumes "safe_extract_archive lib limits data = Inr r"
  obtains infos where "zb_open lib data = Inr infos" "int (length infos) \<le> zl_max_members limits"
    "extract_infos lib limits data infos 0 empty_report = Inr r"
  using assms that
  by (auto simp: safe_extract_archive_def split: sum.splits zip_exn.splits if_splits)

text \<open>C15: an extraction that succeeds surfaces exactly the members the limits admit and \<open>zipfile\<close> can
  read, in the order of the archive, and reports every other member that is no directory as
  rejected.  No surfaced member has a path that leaves the archive, is a link, is longer than the
  limit for one member or decompresses beyond the ratio, and together the surfaced bytes stay within
  the limit of the whole archive.\<close>

theorem extraction_exact:
  assumes "safe_extract_archive lib limits data = Inr r" "honest_library lib data"
    and "0 \<le> zl_max_total_uncompressed_bytes limits"
  shows "\<exists>infos. zb_open lib data = Inr infos \<and> int (length infos) \<le> zl_max_members limits
    \<and> zr_entries r = map (entry_of lib data) (filter (\<lambda>i. admitted limits i \<and> readable lib data i) infos)
    \<and> map zf_member_name (zr_member_failures r) = map zi_filename
        (filter (\<lambda>i. \<not> is_directory (zi_filename i) \<and> \<not> (admitted limits i \<and> readable lib data i)) infos)
    \<and> (\<forall>i \<in> set infos. admitted limits i \<longrightarrow> \<not> is_symlink i \<and> inside_path (zi_filename i)
        \<and> (zl_max_compression_ratio limits > 0 \<longrightarrow>
            zi_file_size i \<le> zl_max_compression_ratio limits * max (zi_compress_size i) 1))
    \<and> (\<forall>e \<in> set (zr_entries r). inside_path (ze_name e)
        \<and> int (length (ze_data e)) \<le> zl_max_single_member_bytes limits)
    \<and> (\<Sum>e \<leftarrow> zr_entries r. int (length (ze_data e))) \<le> zl_max_total_uncompressed_bytes limits"
proof -
  obtain infos where infos: "zb_open lib data = Inr infos" "int (length infos) \<le> zl_max_members limits"
    "extract_infos lib limits data infos 0 empty_report = Inr r" using extract_result [OF assms(1)] .
  let ?in = "\<lambda>i. admitted limits i \<and> readable lib data i"
  have exact: "zr_entries r = map (entry_of lib data) (filter ?in infos)"
    "map zf_member_name (zr_member_failures r) = map zi_filename (filter (\<lambda>i. \<not> is_directory (zi_filename i) \<and> \<not> ?in i) infos)"
    "counted limits infos \<noteq> [] \<longrightarrow> sum_list (map zi_file_size (counted limits infos)) \<le> zl_max_total_uncompressed_bytes limits"
    using extract_infos_exact [OF infos(3)] by (simp_all add: empty_report_def)
  have sizes: "i \<in> set infos \<Longrightarrow> 0 \<le> zi_file_size i" for i
    using assms(2) infos(1) by (simp add: honest_library_def)
  have len: "i \<in> set infos \<Longrightarrow> readable lib data i \<Longrightarrow> int (length (ze_data (entry_of lib data i))) \<le> zi_file_size i" for i
    using assms(2) infos(1) by (auto simp: honest_library_def readable_def split: sum.splits)
  have members: "\<forall>i \<in> set infos. admitted limits i \<longrightarrow> \<not> is_symlink i \<and> inside_path (zi_filename i)
        \<and> (zl_max_compression_ratio limits > 0 \<longrightarrow>
            zi_file_size i \<le> zl_max_compression_ratio limits * max (zi_compress_size i) 1)"
    using admitted_bounds by blast
  have each: "inside_path (ze_name e) \<and> int (length (ze_data e)) \<le> zl_max_single_member_bytes limits"
    if "e \<in> set (zr_entries r)" for e
  proof -
    obtain i where i: "i \<in> set infos" "admitted limits i" "readable lib data i" "e = entry_of lib data i"
      using \<open>e \<in> set (zr_entries r)\<close> unfolding exact(1) set_map set_filter by blast
    then show ?thesis using admitted_bounds(1,4) [OF i(2)] len [OF i(1,3)] by simp
  qed
  have "(\<Sum>e \<leftarrow> zr_entries r. int (length (ze_data e))) = (\<Sum>i \<leftarrow> filter ?in infos. int (length (ze_data (entry_of lib data i))))"
    by (simp add: exact(1) comp_def)
  also have "\<dots> \<le> sum_list (map zi_file_size (filter ?in infos))"
    by (rule sum_list_mono) (use len in auto)
  also have "\<dots> \<le> sum_list (map zi_file_size (counted limits infos))"
    unfolding counted_def file_members_def filter_filter
    by (rule sum_list_filter_le) (use sizes in \<open>auto simp: admitted_def\<close>)
  also have "\<dots> \<le> zl_max_total_uncompressed_bytes limits"
    using exact(3) assms(3) by (cases "counted limits infos = []") simp_all
  finally show ?thesis using infos exact(1,2) each members by blast
qed

text \<open>An archive of two files of which one climbs out.\<close>

definition demo_zip :: zip_library where
  "demo_zip = \<lparr>zb_open = (\<lambda>b. Inr [
       \<lparr>zi_filename = ''a.txt'', zi_external_attr = 0, zi_file_size = 2, zi_compress_size = 2\<rparr>,
       \<lparr>zi_filename = ''../b'', zi_external_attr = 0, zi_file_size = 2, zi_compress_size = 2\<rparr>]),
     zb_read = (\<lambda>b i. Inr [1, 2])\<rparr>"

lemma demo_zip_extract:
  "safe_extract_archive demo_zip default_limits [1] = Inr \<lparr>zr_entries = [\<lparr>ze_name = ''a.txt'', ze_data = [1, 2],
     ze_is_nested_zip = False\<rparr>],
     zr_member_failures = [\<lparr>zf_member_name = ''../b'', zf_reason = ''empty-or-dot path segment''\<rparr>]\<rparr>"
  by code_simp

theorem extraction_exact_witness:
  "\<exists>infos. zb_open demo_zip [1] = Inr infos \<and> int (length infos) \<le> zl_max_members default_limits"
proof -
  have "honest_library demo_zip [1]" by (simp add: honest_library_def demo_zip_def)
  from extraction_exact [OF demo_zip_extract this]
  show ?thesis by (auto simp: default_limits_def)
qed

end
