(* ===== verification/Fetcher.thy ===== *)
theory Fetcher
  imports Archive
begin

text \<open>
  The document fetcher, \<open>acquisition/fetcher.py\<close>, with the crawl policy of \<open>sources/policy.py\<close>: scheme
  check, pacing, retries with backoff, and the size limits.  The HTTP client, the clock, the sleep and
  the functions of \<open>urllib.parse\<close> are the fields of an environment; the client raises one of the
  transport errors the loop retries, or anything else.
\<close>

section \<open>Policy, responses and environment\<close>

record crawl_policy =
  cp_user_agent :: string
  cp_timeout_seconds :: real
  cp_request_interval_seconds :: real
  cp_max_retries :: int
  cp_backoff_base_seconds :: real
  cp_backoff_max_seconds :: real
  cp_respect_robots :: bool
  cp_retry_statuses :: "int list"
  cp_max_pages :: int

definition default_crawl_policy :: "string \<Rightarrow> crawl_policy" where
  "default_crawl_policy user_agent = \<lparr>cp_user_agent = user_agent, cp_timeout_seconds = 20,
     cp_request_interval_seconds = 2, cp_max_retries = 3, cp_backoff_base_seconds = 1,
     cp_backoff_max_seconds = 60, cp_respect_robots = True, cp_retry_statuses = [429, 500, 502, 503, 504],
     cp_max_pages = 15\<rparr>"

record document_response =
  dr_status_code :: int
  dr_headers :: "(string \<times> string) list"
  dr_content :: octets
  dr_url :: string

text \<open>\<open>DocumentResponse.content_type\<close>; the header names of a response are in lower case.\<close>

definition content_type :: "document_response \<Rightarrow> string option" where
  "content_type r = (case map_of (dr_headers r) ''content-type'' of None \<Rightarrow> None
     | Some v \<Rightarrow> if v = [] then None else Some (media_part v))"

definition HTML_MEDIA_TYPES :: "string list" where
  "HTML_MEDIA_TYPES = [''text/html'', ''application/xhtml+xml'']"

definition response_is_html :: "document_response \<Rightarrow> bool" where
  "response_is_html r = (case content_type r of None \<Rightarrow> False | Some m \<Rightarrow> m \<in> set HTML_MEDIA_TYPES)"

record url_parts =
  up_scheme :: string
  up_netloc :: string
  up_path :: string
  up_query :: string
  up_username :: "string option"
  up_password :: "string option"

datatype get_exn = TransportError string | GetRaised string

record 'w fetch_env =
  fe_urlsplit :: "string \<Rightarrow> (string, url_parts) result"
  fe_parse_qsl :: "string \<Rightarrow> (string \<times> string) list"
  fe_urlencode :: "(string \<times> string) list \<Rightarrow> string"
  fe_urlunsplit :: "string \<Rightarrow> string \<Rightarrow> string \<Rightarrow> string \<Rightarrow> string"
  fe_repr :: "string \<Rightarrow> string"
  fe_float :: "string \<Rightarrow> real option"
  fe_get :: "string \<Rightarrow> 'w \<Rightarrow> (get_exn, document_response) result \<times> 'w"
  fe_monotonic :: "'w \<Rightarrow> real"
  fe_sleep :: "real \<Rightarrow> 'w \<Rightarrow> 'w"
  fe_policy :: crawl_policy
  fe_max_response_bytes :: int

record 'w fetch_world =
  fw_last_request_at :: real
  fw_ext :: 'w

definition ALLOWED_SCHEMES :: "string list" where
  "ALLOWED_SCHEMES = [''http'', ''https'']"

definition SENSITIVE_QUERY_NAMES :: "string list" where
  "SENSITIVE_QUERY_NAMES = [''token'', ''access_token'', ''auth'', ''authorization'', ''signature'', ''sig'',
     ''x-amz-signature'', ''x-amz-credential'', ''x-amz-security-token'', ''key'', ''credential'', ''apikey'',
     ''api_key'', ''secret'', ''password'', ''passwd'', ''x-goog-signature'', ''sas'', ''se'', ''sp'', ''sv'', ''si'']"

definition redact_url :: "'w fetch_env \<Rightarrow> string \<Rightarrow> (string, string) result" where
  "redact_url env url = bind_result (fe_urlsplit env url) (\<lambda>p.
     let kept = filter (\<lambda>(key, _). py_lower key \<notin> set SENSITIVE_QUERY_NAMES) (fe_parse_qsl env (up_query p));
         query = (if kept = [] then [] else fe_urlencode env kept);
         netloc = (if up_username p \<noteq> None \<or> up_password p \<noteq> None
                   then ''****@'' @ after_last (CHR ''@'') (up_netloc p) else up_netloc p)
     in Inr (fe_urlunsplit env (up_scheme p) netloc (up_path p) query))"

section \<open>Pacing and backoff\<close>

definition pace :: "'w fetch_env \<Rightarrow> 'w fetch_world \<Rightarrow> 'w fetch_world" where
  "pace env w = (let interval = cp_request_interval_seconds (fe_policy env) in
     if interval \<le> 0 then w
     else let elapsed = fe_monotonic env (fw_ext w) - fw_last_request_at w;
              ext = (if fw_last_request_at w \<noteq> 0 \<and> elapsed < interval
                     then fe_sleep env (interval - elapsed) (fw_ext w) else fw_ext w)
          in \<lparr>fw_last_request_at = fe_monotonic env ext, fw_ext = ext\<rparr>)"

definition backoff_delay :: "'w fetch_env \<Rightarrow> int \<Rightarrow> string option \<Rightarrow> real" where
  "backoff_delay env attempt retry_after =
     (case Option.bind retry_after (fe_float env) of
        Some seconds \<Rightarrow> max 0 seconds
      | None \<Rightarrow> min (cp_backoff_max_seconds (fe_policy env))
          (cp_backoff_base_seconds (fe_policy env) * 2 ^ nat (attempt - 1)))"

definition backoff :: "'w fetch_env \<Rightarrow> int \<Rightarrow> string option \<Rightarrow> 'w fetch_world \<Rightarrow> 'w fetch_world" where
  "backoff env attempt retry_after w =
     w\<lparr>fw_ext := fe_sleep env (backoff_delay env attempt retry_after) (fw_ext w)\<rparr>"

section \<open>The request loop\<close>

text \<open>\<open>str.isdigit\<close> and \<open>int\<close> on the code points 0 to 255: the superscripts are digits that \<open>int\<close>
  refuses.\<close>

definition py_isdigit :: "string \<Rightarrow> bool" where
  "py_isdigit s = (s \<noteq> [] \<and> list_all (\<lambda>c. let n = of_char c :: nat in
     (48 \<le> n \<and> n \<le> 57) \<or> n = 178 \<or> n = 179 \<or> n = 185) s)"

definition py_int_digits :: "string \<Rightarrow> int option" where
  "py_int_digits s = (if s \<noteq> [] \<and> list_all (\<lambda>c. let n = of_char c :: nat in 48 \<le> n \<and> n \<le> 57) s
     then Some (foldl (\<lambda>acc c. acc * 10 + int (of_char c) - 48) 0 s) else None)"

text \<open>Raising an acquisition error evaluates \<open>redact_url\<close> for its context first.\<close>

definition fetch_error ::
  "'w fetch_env \<Rightarrow> string \<Rightarrow> string \<Rightarrow> string \<Rightarrow> bool \<Rightarrow> (string \<times> json) list \<Rightarrow> acquire_exn" where
  "fetch_error env url message category retryable context' = (case redact_url env url of
     Inl t \<Rightarrow> OtherExn t
   | Inr safe \<Rightarrow> Acquisition (DocumentAcquisitionError message DOCUMENT_DOWNLOAD_FAILED category retryable
       ((''url'', JStr safe) # context')))"

definition http_failure :: "'w fetch_env \<Rightarrow> string \<Rightarrow> int \<Rightarrow> int \<Rightarrow> acquire_exn" where
  "http_failure env url status attempts =
     (let retryable = status \<in> set (cp_retry_statuses (fe_policy env))
      in fetch_error env url (''document fetch failed with HTTP '' @ int_str status) ''http_error'' retryable
           [(''status_code'', JInt status),
            (''status_category'', JStr (if retryable then ''server_error'' else ''client_error'')),
            (''attempts'', JInt attempts)])"

text \<open>What the loop does with a response that is neither retried nor an HTTP error.\<close>

definition accept_response :: "'w fetch_env \<Rightarrow> string \<Rightarrow> document_response \<Rightarrow> (acquire_exn, document_response) result" where
  "accept_response env url r =
     (let limit = fe_max_response_bytes env;
          too_large = (\<lambda>key n. Inl (fetch_error env url ''document response exceeds the configured size limit''
            ''response_too_large'' False [(key, JInt n), (''limit_bytes'', JInt limit)]));
          by_content = (if int (length (dr_content r)) > limit
            then too_large ''actual_bytes'' (int (length (dr_content r))) else Inr r)
      in case map_of (dr_headers r) ''content-length'' of
          None \<Rightarrow> by_content
        | Some v \<Rightarrow> if py_isdigit v
            then (case py_int_digits v of None \<Rightarrow> Inl (OtherExn ''ValueError'')
              | Some n \<Rightarrow> if n > limit then too_large ''declared_bytes'' n else by_content)
            else by_content)"

function fetch_loop ::
  "'w fetch_env \<Rightarrow> string \<Rightarrow> int \<Rightarrow> 'w fetch_world \<Rightarrow> (acquire_exn, document_response) result \<times> 'w fetch_world" where
  "fetch_loop env url attempt w =
     (let w1 = pace env w; (got, ext) = fe_get env url (fw_ext w1); w2 = w1\<lparr>fw_ext := ext\<rparr>;
          policy = fe_policy env
      in case got of
          Inl (GetRaised t) \<Rightarrow> (Inl (OtherExn t), w2)
        | Inl (TransportError t) \<Rightarrow>
            if attempt \<ge> cp_max_retries policy
            then (Inl (fetch_error env url (''document fetch failed: '' @ fe_repr env url) ''transport'' True
              [(''attempts'', JInt (attempt + 1)), (''last_error'', JStr t)]), w2)
            else fetch_loop env url (attempt + 1) (backoff env (attempt + 1) None w2)
        | Inr r \<Rightarrow>
            if dr_status_code r \<in> set (cp_retry_statuses policy)
            then if attempt \<ge> cp_max_retries policy
              then (Inl (http_failure env url (dr_status_code r) (attempt + 1)), w2)
              else fetch_loop env url (attempt + 1)
                (backoff env (attempt + 1) (map_of (dr_headers r) ''retry-after'') w2)
            else if dr_status_code r \<ge> 400 then (Inl (http_failure env url (dr_status_code r) (attempt + 1)), w2)
            else (accept_response env url r, w2))"
  by pat_completeness auto
termination
  by (relation "measure (\<lambda>(env, url, attempt, w). nat (cp_max_retries (fe_policy env) - attempt))") auto

declare fetch_loop.simps [simp del]

text \<open>A URL that \<open>urlsplit\<close> refuses raises before any check.\<close>

definition fetch :: "'w fetch_env \<Rightarrow> string \<Rightarrow> 'w fetch_world \<Rightarrow> (acquire_exn, document_response) result \<times> 'w fetch_world" where
  "fetch env url w = (case fe_urlsplit env url of
     Inl t \<Rightarrow> (Inl (OtherExn t), w)
   | Inr p \<Rightarrow> let scheme = py_lower (up_scheme p) in
       if scheme \<notin> set ALLOWED_SCHEMES
       then (Inl (fetch_error env url (''unsupported URL scheme '' @ fe_repr env scheme) ''unsupported_scheme'' False
         [(''scheme'', JStr scheme)]), w)
       else fetch_loop env url 0 w)"

section \<open>What a fetch gives\<close>

lemma accept_response_ok:
  "accept_response env url r = Inr r' \<Longrightarrow> r' = r \<and> int (length (dr_content r)) \<le> fe_max_response_bytes env"
  by (auto simp: accept_response_def Let_def split: option.splits if_splits)

lemma fetch_loop_ok:
  "fetch_loop env url attempt w = (Inr r, w') \<Longrightarrow>
     dr_status_code r < 400 \<and> dr_status_code r \<notin> set (cp_retry_statuses (fe_policy env))
     \<and> int (length (dr_content r)) \<le> fe_max_response_bytes env"
proof (induction env url attempt w rule: fetch_loop.induct)
  case (1 env url attempt w)
  obtain got ext where got: "fe_get env url (fw_ext (pace env w)) = (got, ext)" by fastforce
  show ?case
  proof (cases got)
    case (Inl e)
    show ?thesis
    proof (cases e)
      case (GetRaised t)
      then show ?thesis using 1(3) Inl got by (subst (asm) fetch_loop.simps) (simp add: Let_def)
    next
      case (TransportError t)
      then have again: "\<not> attempt \<ge> cp_max_retries (fe_policy env)"
        "fetch_loop env url (attempt + 1) (backoff env (attempt + 1) None ((pace env w)\<lparr>fw_ext := ext\<rparr>)) = (Inr r, w')"
        using 1(3) Inl got by (auto simp: fetch_loop.simps [of env url attempt w] Let_def split: if_splits)
      show ?thesis by (rule 1(1) [OF refl refl got [symmetric] refl refl Inl TransportError again])
    qed
  next
    case (Inr q)
    show ?thesis
    proof (cases "dr_status_code q \<in> set (cp_retry_statuses (fe_policy env))")
      case True
      then have again: "\<not> attempt \<ge> cp_max_retries (fe_policy env)"
        "fetch_loop env url (attempt + 1) (backoff env (attempt + 1) (map_of (dr_headers q) ''retry-after'')
           ((pace env w)\<lparr>fw_ext := ext\<rparr>)) = (Inr r, w')"
        using 1(3) Inr got by (auto simp: fetch_loop.simps [of env url attempt w] Let_def split: if_splits)
      show ?thesis by (rule 1(2) [OF refl refl got [symmetric] refl refl Inr True again])
    next
      case False
      then have "dr_status_code q < 400 \<and> accept_response env url q = Inr r"
        using 1(3) Inr got by (auto simp: fetch_loop.simps [of env url attempt w] Let_def split: if_splits)
      then show ?thesis using accept_response_ok False by blast
    qed
  qed
qed

text \<open>Requests are counted by any measure of the world that a request raises by one and a sleep leaves.\<close>

definition counts_requests :: "('w \<Rightarrow> nat) \<Rightarrow> 'w fetch_env \<Rightarrow> bool" where
  "counts_requests n env \<longleftrightarrow> (\<forall>url w. n (snd (fe_get env url w)) = n w + 1) \<and> (\<forall>s w. n (fe_sleep env s w) = n w)"

lemma pace_counts: "counts_requests n env \<Longrightarrow> n (fw_ext (pace env w)) = n (fw_ext w)"
  by (simp add: counts_requests_def pace_def Let_def)

lemma backoff_counts: "counts_requests n env \<Longrightarrow> n (fw_ext (backoff env k ra w)) = n (fw_ext w)"
  by (simp add: counts_requests_def backoff_def)

lemma fetch_loop_counts:
  "counts_requests n env \<Longrightarrow> attempt \<le> max 0 (cp_max_retries (fe_policy env)) \<Longrightarrow>
     n (fw_ext w) < n (fw_ext (snd (fetch_loop env url attempt w)))
     \<and> int (n (fw_ext (snd (fetch_loop env url attempt w)))) + attempt
       \<le> int (n (fw_ext w)) + max 0 (cp_max_retries (fe_policy env)) + 1"
proof (induction env url attempt w rule: fetch_loop.induct)
  case (1 env url attempt w)
  obtain got ext where got: "fe_get env url (fw_ext (pace env w)) = (got, ext)" by fastforce
  have one: "n ext = n (fw_ext w) + 1"
    using 1(3) pace_counts [OF 1(3), of w] got unfolding counts_requests_def by (metis snd_conv)
  let ?w2 = "(pace env w)\<lparr>fw_ext := ext\<rparr>"
  have slept: "n (fw_ext (backoff env k ra ?w2)) = n (fw_ext w) + 1" for k ra
    using backoff_counts [OF 1(3), of k ra ?w2] one by simp
  note step = fetch_loop.simps [of env url attempt w]
  have stop: ?case if "snd (fetch_loop env url attempt w) = ?w2" using that one 1(4) by simp
  show ?case
  proof (cases got)
    case (Inl e)
    show ?thesis
    proof (cases e)
      case (GetRaised t)
      then show ?thesis using Inl got by (intro stop) (simp add: step Let_def)
    next
      case (TransportError t)
      show ?thesis
      proof (cases "attempt \<ge> cp_max_retries (fe_policy env)")
        case True
        then show ?thesis using Inl got TransportError by (intro stop) (simp add: step Let_def)
      next
        case False
        then have eq: "fetch_loop env url attempt w = fetch_loop env url (attempt + 1) (backoff env (attempt + 1) None ?w2)"
          using Inl got TransportError by (simp add: step Let_def)
        have le: "attempt + 1 \<le> max 0 (cp_max_retries (fe_policy env))" using False by simp
        show ?thesis unfolding eq
          using 1(1) [OF refl refl got [symmetric] refl refl Inl TransportError False 1(3) le] by (simp add: slept)
      qed
    qed
  next
    case (Inr q)
    show ?thesis
    proof (cases "dr_status_code q \<in> set (cp_retry_statuses (fe_policy env)) \<and> \<not> attempt \<ge> cp_max_retries (fe_policy env)")
      case False
      then show ?thesis using Inr got by (intro stop) (auto simp: step Let_def)
    next
      case True
      let ?ra = "map_of (dr_headers q) ''retry-after''"
      have eq: "fetch_loop env url attempt w = fetch_loop env url (attempt + 1) (backoff env (attempt + 1) ?ra ?w2)"
        using Inr got True by (simp add: step Let_def)
      have le: "attempt + 1 \<le> max 0 (cp_max_retries (fe_policy env))" using True by auto
      show ?thesis unfolding eq
        using 1(2) [OF refl refl got [symmetric] refl refl Inr conjunct1 [OF True] conjunct2 [OF True] 1(3) le] by (simp add: slept)
    qed
  qed
qed

text \<open>C17: one fetch makes at most one request more than the retries of the policy, and none at all for a
  URL whose scheme is not \<open>http\<close> or \<open>https\<close>; what it returns has a status below 400 that the policy
  does not retry and is within the size limit, and a fetch that fails says so as an error, never as
  a partial document.\<close>

theorem fetch_bounded:
  assumes "counts_requests n env"
  shows "int (n (fw_ext (snd (fetch env url w)))) \<le> int (n (fw_ext w)) + max 0 (cp_max_retries (fe_policy env)) + 1
    \<and> ((\<exists>p. fe_urlsplit env url = Inr p \<and> py_lower (up_scheme p) \<in> set ALLOWED_SCHEMES)
        \<or> n (fw_ext (snd (fetch env url w))) = n (fw_ext w) \<and> \<not> is_ok (fst (fetch env url w)))
    \<and> (\<forall>r. fst (fetch env url w) = Inr r \<longrightarrow> dr_status_code r < 400
        \<and> dr_status_code r \<notin> set (cp_retry_statuses (fe_policy env))
        \<and> int (length (dr_content r)) \<le> fe_max_response_bytes env)"
proof (cases "\<exists>p. fe_urlsplit env url = Inr p \<and> py_lower (up_scheme p) \<in> set ALLOWED_SCHEMES")
  case True
  then have eq: "fetch env url w = fetch_loop env url 0 w" by (auto simp: fetch_def Let_def)
  have "\<forall>r. fst (fetch_loop env url 0 w) = Inr r \<longrightarrow> dr_status_code r < 400
        \<and> dr_status_code r \<notin> set (cp_retry_statuses (fe_policy env))
        \<and> int (length (dr_content r)) \<le> fe_max_response_bytes env"
    using fetch_loop_ok by (metis prod.collapse)
  then show ?thesis using fetch_loop_counts [OF assms, of 0 w url] True unfolding eq by simp
next
  case False
  then have "snd (fetch env url w) = w \<and> \<not> is_ok (fst (fetch env url w))"
    by (auto simp: fetch_def Let_def split: sum.splits)
  then show ?thesis using False by (auto simp: is_ok_def split: sum.splits)
qed

text \<open>A server that always answers 503, asked under the default policy.\<close>

definition demo_fetch_env :: "nat fetch_env" where
  "demo_fetch_env = \<lparr>fe_urlsplit = (\<lambda>u. Inr \<lparr>up_scheme = ''http'', up_netloc = ''h'', up_path = ''/p'', up_query = [],
       up_username = None, up_password = None\<rparr>),
     fe_parse_qsl = (\<lambda>q. []), fe_urlencode = (\<lambda>q. []), fe_urlunsplit = (\<lambda>s n p q. s @ ''://'' @ n @ p),
     fe_repr = (\<lambda>s. s), fe_float = (\<lambda>s. None),
     fe_get = (\<lambda>u n. (Inr \<lparr>dr_status_code = 503, dr_headers = [], dr_content = [], dr_url = u\<rparr>, n + 1)),
     fe_monotonic = (\<lambda>n. real n), fe_sleep = (\<lambda>s n. n), fe_policy = default_crawl_policy ''ua'',
     fe_max_response_bytes = 1024\<rparr>"

theorem fetch_bounded_witness:
  "fw_ext (snd (fetch demo_fetch_env ''http://h/p'' \<lparr>fw_last_request_at = 0, fw_ext = 0\<rparr>)) \<le> 4"
proof -
  have "counts_requests (\<lambda>n. n) demo_fetch_env" by (simp add: counts_requests_def demo_fetch_env_def)
  from fetch_bounded [OF this, of "''http://h/p''" "\<lparr>fw_last_request_at = 0, fw_ext = 0\<rparr>"]
  show ?thesis by (simp add: demo_fetch_env_def default_crawl_policy_def)
qed

end
