(* ===== verification/Acquire.thy ===== *)
theory Acquire
  imports Fetcher
begin

text \<open>
  The acquisition service, \<open>acquisition/service.py\<close>: one attachment is fetched, validated, unpacked
  when it is an archive, stored under its checksum and recorded as document rows.  The world holds the
  document table and the objects of the file storage; the fetcher, the archive library, SHA-256, the
  percent decoding and the host's media types are an environment, as are the faults of the
  database and of the file system.  The unique constraint on (tender, checksum) is the one of the
  table, checked at the commit.
\<close>

section \<open>World, environment, storage\<close>

record 'w acquire_world =
  qw_documents :: "document list"
  qw_objects :: "string list \<Rightarrow> octets option"
  qw_ext :: 'w

datatype acquire_db_use = DbLineage string | DbFindAcquired string string | DbPersist string string
  | DbMarkFailed string string

record 'w acquire_env =
  sv_fetch :: "string \<Rightarrow> 'w \<Rightarrow> (acquire_exn, document_response) result \<times> 'w"
  sv_zip :: zip_library
  sv_limits :: zip_limits
  sv_checksum :: "octets \<Rightarrow> string"
  sv_guess_type :: "string \<Rightarrow> string option"
  sv_unquote :: "string \<Rightarrow> string"
  sv_put_fault :: "string \<Rightarrow> 'w acquire_world \<Rightarrow> string option"
  sv_db_fault :: "acquire_db_use \<Rightarrow> 'w acquire_world \<Rightarrow> string option"

text \<open>The methods of \<open>LocalFileSystemStorage\<close>; they return the type of the exception they raise.\<close>

definition storage_put :: "'w acquire_env \<Rightarrow> string \<Rightarrow> octets \<Rightarrow> 'w acquire_world \<Rightarrow> (string, int) result \<times> 'w acquire_world" where
  "storage_put env key data w = (case resolve_key key of
     None \<Rightarrow> (Inl ''ValueError'', w)
   | Some parts \<Rightarrow> (case sv_put_fault env key w of
       Some t \<Rightarrow> (Inl t, w)
     | None \<Rightarrow> (Inr (int (length data)), w\<lparr>qw_objects := (qw_objects w)(parts \<mapsto> data)\<rparr>)))"

definition storage_size_of :: "string \<Rightarrow> 'w acquire_world \<Rightarrow> (string, int) result" where
  "storage_size_of key w = (case resolve_key key of
     None \<Rightarrow> Inl ''ValueError''
   | Some parts \<Rightarrow> (case qw_objects w parts of None \<Rightarrow> Inl ''KeyError'' | Some data \<Rightarrow> Inr (int (length data))))"

definition storage_exists :: "string \<Rightarrow> 'w acquire_world \<Rightarrow> (string, bool) result" where
  "storage_exists key w = (case resolve_key key of
     None \<Rightarrow> Inl ''ValueError'' | Some parts \<Rightarrow> Inr (qw_objects w parts \<noteq> None))"

section \<open>Reads\<close>

definition find_row :: "int \<Rightarrow> string \<Rightarrow> string \<Rightarrow> document list \<Rightarrow> document option" where
  "find_row tender_id source_url filename docs =
     (let rows = filter (\<lambda>d. dc_tender_id d = tender_id \<and> dc_source_url d = source_url \<and> dc_filename d = filename) docs
      in if rows = [] then None else Some (last (sort_key dc_id rows)))"

definition find_by_checksum :: "int \<Rightarrow> string \<Rightarrow> document list \<Rightarrow> document option" where
  "find_by_checksum tender_id checksum docs =
     List.find (\<lambda>d. dc_tender_id d = tender_id \<and> dc_checksum d = Some checksum) docs"

definition row_is_acquired :: "document \<Rightarrow> 'w acquire_world \<Rightarrow> (string, bool) result" where
  "row_is_acquired row w =
     (if dc_download_status row = ''downloaded'' \<and> py_truthy (dc_checksum row) \<and> py_truthy (dc_storage_path row)
      then storage_exists (the (dc_storage_path row)) w else Inr False)"

fun all_acquired :: "document list \<Rightarrow> 'w acquire_world \<Rightarrow> (string, bool) result" where
  "all_acquired [] w = Inr True"
| "all_acquired (row # rows) w =
     bind_result (row_is_acquired row w) (\<lambda>ok. if ok then all_acquired rows w else Inr False)"

definition raised :: "(string, 'a) result \<Rightarrow> (acquire_exn, 'a) result" where
  "raised r = (case r of Inl t \<Rightarrow> Inl (OtherExn t) | Inr a \<Rightarrow> Inr a)"

definition find_acquired ::
  "'w acquire_env \<Rightarrow> int \<Rightarrow> string \<Rightarrow> string \<Rightarrow> 'w acquire_world \<Rightarrow> (acquire_exn, document option) result" where
  "find_acquired env tender_id source_url filename w = (case sv_db_fault env (DbFindAcquired source_url filename) w of
     Some t \<Rightarrow> Inl (OtherExn t)
   | None \<Rightarrow> (case find_row tender_id source_url filename (qw_documents w) of
       None \<Rightarrow> Inr None
     | Some row \<Rightarrow> bind_result (raised (row_is_acquired row w)) (\<lambda>ok. Inr (if ok then Some row else None))))"

definition lineage_rows :: "int \<Rightarrow> string \<Rightarrow> document list \<Rightarrow> document list" where
  "lineage_rows tender_id source_url docs =
     sort_key dc_id (filter (\<lambda>d. dc_tender_id d = tender_id
       \<and> (dc_source_url d = source_url \<or> has_prefix (source_url @ ''!/'') (dc_source_url d))) docs)"

definition lineage_acquired :: "'w acquire_env \<Rightarrow> int \<Rightarrow> string \<Rightarrow> 'w acquire_world \<Rightarrow> (acquire_exn, bool) result" where
  "lineage_acquired env tender_id source_url w = (case sv_db_fault env (DbLineage source_url) w of
     Some t \<Rightarrow> Inl (OtherExn t)
   | None \<Rightarrow> let rows = lineage_rows tender_id source_url (qw_documents w)
       in if rows = [] then Inr False else raised (all_acquired rows w))"

definition acquired_from_row :: "'w acquire_env \<Rightarrow> document \<Rightarrow> 'w acquire_world \<Rightarrow> (acquire_exn, acquired_document) result" where
  "acquired_from_row env row w =
     (let path = py_or (dc_storage_path row) [];
          inner = contains ''!/'' (dc_source_url row)
      in bind_result (raised (storage_size_of path w)) (\<lambda>size'. Inr
        \<lparr>ad_document_id = dc_id row, ad_filename = dc_filename row, ad_source_url = dc_source_url row,
         ad_checksum = py_or (dc_checksum row) [], ad_storage_key = path, ad_size_bytes = size',
         ad_mime_type = dc_mime_type row, ad_is_archive_inner = inner,
         ad_parent_filename = (if inner
           then Some (sv_unquote env (after_last (CHR ''/'') (before_last ''!/'' (dc_source_url row)))) else None)\<rparr>))"

fun rows_to_documents ::
  "'w acquire_env \<Rightarrow> document list \<Rightarrow> 'w acquire_world \<Rightarrow> (acquire_exn, acquired_document list) result" where
  "rows_to_documents env [] w = Inr []"
| "rows_to_documents env (row # rows) w =
     bind_result (acquired_from_row env row w) (\<lambda>d. bind_result (rows_to_documents env rows w) (\<lambda>ds. Inr (d # ds)))"

definition reused_lineage ::
  "'w acquire_env \<Rightarrow> int \<Rightarrow> string \<Rightarrow> 'w acquire_world \<Rightarrow> (acquire_exn, acquisition_result) result" where
  "reused_lineage env tender_id source_url w = (case sv_db_fault env (DbLineage source_url) w of
     Some t \<Rightarrow> Inl (OtherExn t)
   | None \<Rightarrow> bind_result (rows_to_documents env (lineage_rows tender_id source_url (qw_documents w)) w)
       (\<lambda>ds. Inr \<lparr>ar_documents = ds, ar_failures = []\<rparr>))"

section \<open>Writes\<close>

definition checksum_conflict :: "int \<Rightarrow> int \<Rightarrow> string \<Rightarrow> document list \<Rightarrow> bool" where
  "checksum_conflict did tender_id checksum docs =
     list_ex (\<lambda>d. dc_id d \<noteq> did \<and> dc_tender_id d = tender_id \<and> dc_checksum d = Some checksum) docs"

text \<open>The row of the acquisition, found or created, and the table after the setters.\<close>

definition staged_row ::
  "int \<Rightarrow> string \<Rightarrow> string \<Rightarrow> string option \<Rightarrow> document list \<Rightarrow> document \<times> document list" where
  "staged_row tender_id source_url filename mime docs = (case find_row tender_id source_url filename docs of
     None \<Rightarrow> let row = new_document (next_document_id docs) tender_id source_url filename mime in (row, docs @ [row])
   | Some row \<Rightarrow> let row' = row\<lparr>dc_mime_type := mime\<rparr> in (row', put_document row' docs))"

definition record_download :: "int \<Rightarrow> string \<Rightarrow> string \<Rightarrow> document list \<Rightarrow> (persistence_error, document list) result" where
  "record_download did checksum storage_path docs =
     bind_result (set_checksum did checksum docs) (\<lambda>docs1.
     bind_result (set_storage_path did storage_path docs1) (\<lambda>docs2.
       set_download_status did ''downloaded'' docs2))"

definition persistence_failure :: "string \<Rightarrow> int \<Rightarrow> string \<Rightarrow> acquire_exn" where
  "persistence_failure type_name tender_id source_url = Acquisition (DocumentAcquisitionError
     (''document persistence failed: '' @ type_name) DOCUMENT_DOWNLOAD_FAILED ''persistence_failed'' True
     [(''tender_id'', JInt tender_id), (''source_url'', JStr source_url)])"

definition persist_acquired ::
  "'w acquire_env \<Rightarrow> int \<Rightarrow> string \<Rightarrow> string \<Rightarrow> string \<Rightarrow> string \<Rightarrow> string option \<Rightarrow> int \<Rightarrow> string option
     \<Rightarrow> 'w acquire_world \<Rightarrow> (acquire_exn, acquired_document) result \<times> 'w acquire_world" where
  "persist_acquired env tender_id source_url filename checksum storage_path mime size_bytes parent_filename w =
     (case sv_db_fault env (DbPersist source_url filename) w of
        Some t \<Rightarrow> (Inl (persistence_failure t tender_id source_url), w)
      | None \<Rightarrow> let (row, docs) = staged_row tender_id source_url filename mime (qw_documents w) in
        (case record_download (dc_id row) checksum storage_path docs of
           Inl _ \<Rightarrow> (Inl (persistence_failure ''PersistenceError'' tender_id source_url), w)
         | Inr docs' \<Rightarrow>
           if checksum_conflict (dc_id row) tender_id checksum docs'
           then (case find_by_checksum tender_id checksum (qw_documents w) of
               None \<Rightarrow> (Inl (persistence_failure ''IntegrityError'' tender_id source_url), w)
             | Some existing \<Rightarrow> (Inr
                 \<lparr>ad_document_id = dc_id existing, ad_filename = dc_filename existing,
                  ad_source_url = dc_source_url existing,
                  ad_checksum = (case dc_checksum existing of None \<Rightarrow> ''None'' | Some c \<Rightarrow> c),
                  ad_storage_key = (case dc_storage_path existing of None \<Rightarrow> ''None'' | Some p \<Rightarrow> p),
                  ad_size_bytes = size_bytes, ad_mime_type = dc_mime_type existing,
                  ad_is_archive_inner = (parent_filename \<noteq> None), ad_parent_filename = parent_filename\<rparr>, w))
           else (Inr \<lparr>ad_document_id = dc_id row, ad_filename = filename, ad_source_url = source_url,
               ad_checksum = checksum, ad_storage_key = storage_path, ad_size_bytes = size_bytes,
               ad_mime_type = mime, ad_is_archive_inner = (parent_filename \<noteq> None),
               ad_parent_filename = parent_filename\<rparr>, w\<lparr>qw_documents := docs'\<rparr>)))"

text \<open>\<open>_mark_failed\<close>: whatever its own session raises is logged and swallowed.\<close>

definition mark_failed :: "'w acquire_env \<Rightarrow> int \<Rightarrow> string \<Rightarrow> string \<Rightarrow> 'w acquire_world \<Rightarrow> 'w acquire_world" where
  "mark_failed env tender_id source_url filename w =
     (case sv_db_fault env (DbMarkFailed source_url filename) w of
        Some _ \<Rightarrow> w
      | None \<Rightarrow> let (row, docs) = (case find_row tender_id source_url filename (qw_documents w) of
            None \<Rightarrow> let row = new_document (next_document_id (qw_documents w)) tender_id source_url filename None
              in (row, qw_documents w @ [row])
          | Some row \<Rightarrow> (row, qw_documents w))
        in (case set_download_status (dc_id row) ''failed'' docs of
            Inl _ \<Rightarrow> w | Inr docs' \<Rightarrow> w\<lparr>qw_documents := docs'\<rparr>))"

section \<open>Failures\<close>

fun context_str :: "json \<Rightarrow> string" where
  \<comment> \<open>\<open>str\<close> of a context value; contexts hold no lists and no dictionaries\<close>
  "context_str (JStr s) = s"
| "context_str (JInt n) = int_str n"
| "context_str (JBool b) = (if b then ''True'' else ''False'')"
| "context_str _ = ''None''"

definition failure_detail :: "acquisition_error \<Rightarrow> string" where
  "failure_detail e =
     (if ae_category e = ''http_error'' \<and> obj_get (ae_context e) ''status_code'' \<noteq> JNull
      then ''http '' @ context_str (obj_get (ae_context e) ''status_code'')
      else if obj_get (ae_context e) ''reason'' \<noteq> JNull then context_str (obj_get (ae_context e) ''reason'')
      else ae_category e)"

definition acquisition_failure_of :: "acquisition_error \<Rightarrow> string \<Rightarrow> string \<Rightarrow> acquisition_failure" where
  "acquisition_failure_of e source_url filename = \<lparr>af_source_url = source_url, af_filename = filename,
     af_error_code = ae_code e, af_category = ae_category e, af_retryable = ae_retryable e,
     af_detail = Some (failure_detail e)\<rparr>"

definition member_url :: "string \<Rightarrow> string \<Rightarrow> string" where
  "member_url parent_url name = parent_url @ ''!/'' @ url_quote name"

definition member_failures :: "string \<Rightarrow> zip_report \<Rightarrow> acquisition_failure list" where
  "member_failures parent_url report = map (\<lambda>m.
     \<lparr>af_source_url = member_url parent_url (zf_member_name m), af_filename = zf_member_name m,
      af_error_code = DOCUMENT_DOWNLOAD_FAILED, af_category = ''unsafe_archive_member'', af_retryable = False,
      af_detail = Some (zf_reason m)\<rparr>) (zr_member_failures report)"

section \<open>Files\<close>

definition acquire_file ::
  "'w acquire_env \<Rightarrow> int \<Rightarrow> string \<Rightarrow> string \<Rightarrow> octets \<Rightarrow> string option \<Rightarrow> string option
     \<Rightarrow> 'w acquire_world \<Rightarrow> (acquire_exn, acquisition_result) result \<times> 'w acquire_world" where
  "acquire_file env tender_id source_url filename content mime parent_filename w =
     (case find_acquired env tender_id source_url filename w of
        Inl e \<Rightarrow> (Inl e, w)
      | Inr (Some existing) \<Rightarrow>
          (bind_result (acquired_from_row env existing w) (\<lambda>d. Inr \<lparr>ar_documents = [d], ar_failures = []\<rparr>), w)
      | Inr None \<Rightarrow>
          let checksum = sv_checksum env content; key = storage_key tender_id checksum filename in
          (case storage_put env key content w of
             (Inl t, w1) \<Rightarrow> (Inl (Acquisition (DocumentAcquisitionError (''storage write failed: '' @ t)
               DOCUMENT_DOWNLOAD_FAILED ''storage_failed'' True [(''key'', JStr key)])), w1)
           | (Inr size', w1) \<Rightarrow>
             (case persist_acquired env tender_id source_url filename checksum key mime size' parent_filename w1 of
                (Inl e, w2) \<Rightarrow> (Inl e, w2)
              | (Inr d, w2) \<Rightarrow> (Inr \<lparr>ar_documents = [d], ar_failures = []\<rparr>, w2))))"

section \<open>Archives\<close>

definition merge_results :: "acquisition_result \<Rightarrow> acquisition_result \<Rightarrow> acquisition_result" where
  "merge_results a b = \<lparr>ar_documents = ar_documents a @ ar_documents b, ar_failures = ar_failures a @ ar_failures b\<rparr>"

definition add_failures :: "acquisition_failure list \<Rightarrow> acquisition_result \<Rightarrow> acquisition_result" where
  "add_failures fs a = a\<lparr>ar_failures := ar_failures a @ fs\<rparr>"

text \<open>The loop over the extracted members.  The exception a member raised is kept beside what was
  collected before it; only an acquisition error lets the loop go on.\<close>

function extract_members ::
  "'w acquire_env \<Rightarrow> int \<Rightarrow> string \<Rightarrow> string \<Rightarrow> int \<Rightarrow> zip_entry list \<Rightarrow> acquisition_result
     \<Rightarrow> 'w acquire_world \<Rightarrow> (acquire_exn, acquisition_result) result \<times> 'w acquire_world" where
  "extract_members env tid parent_url parent_filename depth [] acc w = (Inr acc, w)"
| "extract_members env tid parent_url parent_filename depth (entry # entries) acc w =
     (let name = ze_name entry; inner_url = member_url parent_url name;
          (ex, acc', w') =
            (case acquire_file env tid inner_url name (ze_data entry) (guess_mime (sv_guess_type env) (Some name))
                (Some parent_filename) w of
               (Inl e, w1) \<Rightarrow> (Some e, acc, w1)
             | (Inr r, w1) \<Rightarrow>
               let acc1 = merge_results acc r in
               if \<not> ze_is_nested_zip entry \<or> recurse_depth_exceeded (sv_limits env) (depth + 1) then (None, acc1, w1)
               else (case safe_extract_archive (sv_zip env) (sv_limits env) (ze_data entry) of
                   Inl e \<Rightarrow> (Some e, acc1, w1)
                 | Inr report \<Rightarrow>
                   let acc2 = add_failures (member_failures inner_url report) acc1 in
                   (case extract_members env tid inner_url name (depth + 1) (zr_entries report) empty_acquisition w1 of
                      (Inl e, w2) \<Rightarrow> (Some e, acc2, w2)
                    | (Inr sub, w2) \<Rightarrow> (None, merge_results acc2 sub, w2))))
      in case ex of
          Some (OtherExn t) \<Rightarrow> (Inl (OtherExn t), w')
        | Some (Acquisition e) \<Rightarrow> extract_members env tid parent_url parent_filename depth entries
            (add_failures [acquisition_failure_of e inner_url name] acc') (mark_failed env tid inner_url name w')
        | None \<Rightarrow> extract_members env tid parent_url parent_filename depth entries acc' w')"
  by pat_completeness auto
termination
  by (relation "measures [\<lambda>(env, tid, pu, pf, depth, entries, acc, w). nat (zl_max_nested_depth (sv_limits env) - depth),
       \<lambda>(env, tid, pu, pf, depth, entries, acc, w). length entries]")
    (auto simp: recurse_depth_exceeded_def)

declare extract_members.simps(2) [simp del]

definition mime_for :: "'w acquire_env \<Rightarrow> document_response \<Rightarrow> string \<Rightarrow> string option" where
  "mime_for env response filename = (case bare_media_type (content_type response) of
     Some m \<Rightarrow> Some m | None \<Rightarrow> guess_mime (sv_guess_type env) (Some filename))"

definition acquire_archive ::
  "'w acquire_env \<Rightarrow> int \<Rightarrow> tender_attachment \<Rightarrow> document_response
     \<Rightarrow> 'w acquire_world \<Rightarrow> (acquire_exn, acquisition_result) result \<times> 'w acquire_world" where
  "acquire_archive env tid att response w =
     (case safe_extract_archive (sv_zip env) (sv_limits env) (dr_content response) of
        Inl e \<Rightarrow> (Inl e, w)
      | Inr report \<Rightarrow>
        (case acquire_file env tid (ta_source_url att) (ta_filename att) (dr_content response)
            (mime_for env response (ta_filename att)) None w of
           (Inl e, w1) \<Rightarrow> (Inl e, w1)
         | (Inr r, w1) \<Rightarrow>
           (case extract_members env tid (ta_source_url att) (ta_filename att) 1 (zr_entries report) empty_acquisition w1 of
              (Inl e, w2) \<Rightarrow> (Inl e, w2)
            | (Inr members, w2) \<Rightarrow>
                (Inr (merge_results (add_failures (member_failures (ta_source_url att) report) r) members), w2))))"

section \<open>Attachments\<close>

definition BINARY_SUFFIXES :: "string list" where
  "BINARY_SUFFIXES = [''.pdf'', ''.doc'', ''.docx'', ''.xls'', ''.xlsx'', ''.ppt'', ''.pptx'', ''.zip'', ''.rar'',
     ''.7z'', ''.odt'', ''.ods'', ''.odp'']"

definition is_archive :: "tender_attachment \<Rightarrow> document_response \<Rightarrow> bool" where
  "is_archive att response = (ta_is_zip att
     \<or> ends_with ''.zip'' (py_lower (ta_filename att)) \<or> ends_with ''.zipx'' (py_lower (ta_filename att))
     \<or> content_type response \<in> {Some ''application/zip'', Some ''application/x-zip-compressed'',
          Some ''application/x-7z-compressed''}
     \<or> looks_like_zip (dr_content response))"

text \<open>\<open>_validate_response\<close>; the comparison with the advertised size only logs.\<close>

definition validate_response :: "document_response \<Rightarrow> tender_attachment \<Rightarrow> (acquire_exn, unit) result" where
  "validate_response response att =
     (let name = py_lower (ta_filename att);
          suffix = (if CHR ''.'' \<in> set name then after_last (CHR ''.'') name else [])
      in if response_is_html response \<and> (CHR ''.'' # suffix) \<in> set BINARY_SUFFIXES
         then Inl (Acquisition (DocumentAcquisitionError
           ''response is HTML but the attachment is a binary document (error page?)'' DOCUMENT_DOWNLOAD_FAILED
           ''invalid_response'' False
           [(''url'', JStr (ta_source_url att)),
            (''content_type'', JStr (case content_type response of Some m \<Rightarrow> m | None \<Rightarrow> [])),
            (''filename'', JStr (ta_filename att))]))
         else Inr ())"

definition acquire_fetched ::
  "'w acquire_env \<Rightarrow> int \<Rightarrow> tender_attachment \<Rightarrow> 'w acquire_world
     \<Rightarrow> (acquire_exn, acquisition_result) result \<times> 'w acquire_world" where
  \<comment> \<open>the \<open>try\<close> block of \<open>_acquire_attachment\<close>\<close>
  "acquire_fetched env tid att w =
     (case sv_fetch env (ta_source_url att) (qw_ext w) of
        (Inl e, ext) \<Rightarrow> (Inl e, w\<lparr>qw_ext := ext\<rparr>)
      | (Inr response, ext) \<Rightarrow>
        let w1 = w\<lparr>qw_ext := ext\<rparr> in
        (case validate_response response att of
           Inl e \<Rightarrow> (Inl e, w1)
         | Inr _ \<Rightarrow>
           if is_archive att response then acquire_archive env tid att response w1
           else acquire_file env tid (ta_source_url att) (ta_filename att) (dr_content response)
             (mime_for env response (ta_filename att)) None w1))"

definition acquire_attachment ::
  "'w acquire_env \<Rightarrow> int \<Rightarrow> tender_attachment \<Rightarrow> 'w acquire_world
     \<Rightarrow> (acquire_exn, acquisition_result) result \<times> 'w acquire_world" where
  "acquire_attachment env tid att w = (case lineage_acquired env tid (ta_source_url att) w of
     Inl e \<Rightarrow> (Inl e, w)
   | Inr True \<Rightarrow> (reused_lineage env tid (ta_source_url att) w, w)
   | Inr False \<Rightarrow> (case acquire_fetched env tid att w of
       (Inl (Acquisition e), w1) \<Rightarrow>
         (Inr \<lparr>ar_documents = [], ar_failures = [acquisition_failure_of e (ta_source_url att) (ta_filename att)]\<rparr>,
          mark_failed env tid (ta_source_url att) (ta_filename att) w1)
     | (Inl (OtherExn t), w1) \<Rightarrow> (Inl (OtherExn t), w1)
     | (Inr r, w1) \<Rightarrow> (Inr r, w1)))"

fun acquire_each ::
  "'w acquire_env \<Rightarrow> int \<Rightarrow> tender_attachment list \<Rightarrow> acquisition_result \<Rightarrow> 'w acquire_world
     \<Rightarrow> (acquire_exn, acquisition_result) result \<times> 'w acquire_world" where
  "acquire_each env tid [] acc w = (Inr acc, w)"
| "acquire_each env tid (att # atts) acc w = (case acquire_attachment env tid att w of
     (Inl e, w1) \<Rightarrow> (Inl e, w1)
   | (Inr r, w1) \<Rightarrow> acquire_each env tid atts (merge_results acc r) w1)"

definition acquire ::
  "'w acquire_env \<Rightarrow> int \<Rightarrow> tender_attachment list \<Rightarrow> 'w acquire_world
     \<Rightarrow> (acquire_exn, acquisition_result) result \<times> 'w acquire_world" where
  "acquire env tid atts w = acquire_each env tid atts empty_acquisition w"

end
