(* ===== verification/AcquireInv.thy ===== *)
theory AcquireInv
  imports Acquire
begin

text \<open>
  The invariant of the document table and the object storage under the acquisition service: ids are
  unique, a tender has each content once, a row with a checksum names the key of that checksum under
  its own tender and the object is there, a row says \<open>downloaded\<close> only with a checksum, and every
  stored object has the checksum its key names.  Each function of \<open>Acquire\<close> takes a world to one that
  extends it: rows of other tenders stay, rows never disappear, objects are never lost.
\<close>

section \<open>Invariant and extension\<close>

definition key_parts :: "int \<Rightarrow> string \<Rightarrow> string \<Rightarrow> string list" where
  "key_parts tid checksum name = [''tenders'', int_str tid, ''attachments'', checksum, sanitize_storage_name name]"

definition holds_object :: "string list \<Rightarrow> 'w acquire_world \<Rightarrow> bool" where
  "holds_object parts w \<longleftrightarrow> qw_objects w parts \<noteq> None"

definition row_ok :: "'w acquire_world \<Rightarrow> document \<Rightarrow> bool" where
  "row_ok w d \<longleftrightarrow> dc_download_status d \<in> set DOWNLOAD_STATUSES
     \<and> (dc_download_status d = ''downloaded'' \<longrightarrow> dc_checksum d \<noteq> None)
     \<and> (\<forall>c. dc_checksum d = Some c \<longrightarrow> (\<exists>name. dc_storage_path d = Some (storage_key (dc_tender_id d) c name)
          \<and> holds_object (key_parts (dc_tender_id d) c name) w))"

definition objects_ok :: "(octets \<Rightarrow> string) \<Rightarrow> 'w acquire_world \<Rightarrow> bool" where
  "objects_ok chk w \<longleftrightarrow> (\<forall>tid c name data. qw_objects w (key_parts tid c name) = Some data \<longrightarrow> chk data = c)"

definition checksums_unique :: "document list \<Rightarrow> bool" where
  "checksums_unique docs \<longleftrightarrow> (\<forall>d \<in> set docs. \<forall>d' \<in> set docs.
     dc_tender_id d = dc_tender_id d' \<and> dc_checksum d = dc_checksum d' \<and> dc_checksum d \<noteq> None \<longrightarrow> dc_id d = dc_id d')"

definition documents_inv :: "(octets \<Rightarrow> string) \<Rightarrow> 'w acquire_world \<Rightarrow> bool" where
  "documents_inv chk w \<longleftrightarrow> distinct (map dc_id (qw_documents w)) \<and> checksums_unique (qw_documents w)
     \<and> (\<forall>d \<in> set (qw_documents w). row_ok w d) \<and> objects_ok chk w"

text \<open>SHA-256 in hexadecimal is never empty, never a dot and has no separator.\<close>

definition hex_checksum :: "(octets \<Rightarrow> string) \<Rightarrow> bool" where
  "hex_checksum chk \<longleftrightarrow> (\<forall>data. plain_segment (chk data))"

definition other_tenders :: "int \<Rightarrow> document list \<Rightarrow> document list" where
  "other_tenders tid docs = filter (\<lambda>d. dc_tender_id d \<noteq> tid) docs"

definition extends :: "int \<Rightarrow> 'w acquire_world \<Rightarrow> 'w acquire_world \<Rightarrow> bool" where
  "extends tid w w' \<longleftrightarrow> other_tenders tid (qw_documents w') = other_tenders tid (qw_documents w)
     \<and> (\<forall>d \<in> set (qw_documents w). \<exists>d' \<in> set (qw_documents w'). dc_id d' = dc_id d \<and> dc_tender_id d' = dc_tender_id d)
     \<and> (\<forall>parts. holds_object parts w \<longrightarrow> holds_object parts w')"

lemma extends_refl [simp]: "extends tid w w"
  by (auto simp: extends_def)

lemma extends_trans: "extends tid w w1 \<Longrightarrow> extends tid w1 w2 \<Longrightarrow> extends tid w w2"
  unfolding extends_def by (metis (no_types, lifting))

text \<open>A reported document is a row of the tender and its object is stored under the checksum it reports.\<close>

definition reported_ok :: "int \<Rightarrow> 'w acquire_world \<Rightarrow> acquired_document \<Rightarrow> bool" where
  "reported_ok tid w a \<longleftrightarrow> (\<exists>d \<in> set (qw_documents w). dc_id d = ad_document_id a \<and> dc_tender_id d = tid)
     \<and> (\<exists>name. ad_storage_key a = storage_key tid (ad_checksum a) name \<and> holds_object (key_parts tid (ad_checksum a) name) w)"

lemma reported_mono: "extends tid w w' \<Longrightarrow> reported_ok tid w a \<Longrightarrow> reported_ok tid w' a"
  unfolding extends_def reported_ok_def by metis

text \<open>What each step of the service gives.\<close>

definition step_ok ::
  "(octets \<Rightarrow> string) \<Rightarrow> int \<Rightarrow> 'w acquire_world \<Rightarrow> 'w acquire_world \<Rightarrow> acquired_document list \<Rightarrow> bool" where
  "step_ok chk tid w w' ds \<longleftrightarrow> documents_inv chk w' \<and> extends tid w w' \<and> (\<forall>a \<in> set ds. reported_ok tid w' a)"

lemma step_ok_refl: "documents_inv chk w \<Longrightarrow> step_ok chk tid w w []"
  by (simp add: step_ok_def)

lemma step_ok_trans:
  "step_ok chk tid w w1 ds \<Longrightarrow> step_ok chk tid w1 w2 es \<Longrightarrow> step_ok chk tid w w2 (ds @ es)"
  unfolding step_ok_def by (auto intro: extends_trans reported_mono)

lemma step_ok_weaken: "step_ok chk tid w w' ds \<Longrightarrow> set es \<subseteq> set ds \<Longrightarrow> step_ok chk tid w w' es"
  by (auto simp: step_ok_def)

lemma step_ok_mono:
  "step_ok chk tid w w' ds \<Longrightarrow> \<forall>a \<in> set as. reported_ok tid w a \<Longrightarrow> \<forall>a \<in> set as. reported_ok tid w' a"
  unfolding step_ok_def by (blast intro: reported_mono)

section \<open>Keys and objects\<close>

lemma resolve_storage_key:
  "plain_segment c \<Longrightarrow> resolve_key (storage_key tid c name) = Some (key_parts tid c name)"
  using storage_key_resolves by (simp add: key_parts_def)

lemma checksum_of_object: "objects_ok chk w \<Longrightarrow> hex_checksum chk \<Longrightarrow> holds_object (key_parts tid c name) w \<Longrightarrow> plain_segment c"
  unfolding objects_ok_def hex_checksum_def holds_object_def by fastforce

lemma row_ok_objects: "row_ok w d \<Longrightarrow> \<forall>parts. holds_object parts w \<longrightarrow> holds_object parts w' \<Longrightarrow> row_ok w' d"
  unfolding row_ok_def by blast

lemma storage_put_ok:
  assumes "documents_inv chk w" "hex_checksum chk"
    and "storage_put env (storage_key tid (chk data) name) data w = (res, w')"
  shows "documents_inv chk w' \<and> extends tid w w' \<and> qw_documents w' = qw_documents w
    \<and> (is_ok res \<longrightarrow> holds_object (key_parts tid (chk data) name) w')"
proof -
  have resolved: "resolve_key (storage_key tid (chk data) name) = Some (key_parts tid (chk data) name)"
    using assms(2) by (intro resolve_storage_key) (simp add: hex_checksum_def)
  show ?thesis
  proof (cases "sv_put_fault env (storage_key tid (chk data) name) w")
    case (Some t)
    then show ?thesis using assms by (simp add: storage_put_def resolved) force
  next
    case None
    then have res: "is_ok res" and w': "w' = w\<lparr>qw_objects := (qw_objects w)(key_parts tid (chk data) name \<mapsto> data)\<rparr>"
      using assms(3) by (auto simp: storage_put_def resolved)
    have grow: "\<forall>parts. holds_object parts w \<longrightarrow> holds_object parts w'" by (simp add: w' holds_object_def)
    have "objects_ok chk w'" using assms(1)
      by (auto simp: documents_inv_def objects_ok_def w' key_parts_def split: if_splits)
    then have "documents_inv chk w'" using assms(1) row_ok_objects [OF _ grow]
      by (simp add: documents_inv_def w')
    moreover have "extends tid w w'" using grow by (auto simp: extends_def w')
    ultimately show ?thesis by (simp add: w' holds_object_def)
  qed
qed

section \<open>Writing a row\<close>

lemma find_row_some:
  "find_row tid url name docs = Some row \<Longrightarrow>
     row \<in> set docs \<and> dc_tender_id row = tid \<and> dc_source_url row = url \<and> dc_filename row = name"
proof -
  assume found: "find_row tid url name docs = Some row"
  define rows where "rows = filter (\<lambda>d. dc_tender_id d = tid \<and> dc_source_url d = url \<and> dc_filename d = name) docs"
  have eq: "find_row tid url name docs = (if rows = [] then None else Some (last (sort_key dc_id rows)))"
    by (simp add: find_row_def rows_def)
  then have rows: "rows \<noteq> []" "row = last (sort_key dc_id rows)" using found by (cases "rows = []", simp_all)+
  then have "sort_key dc_id rows \<noteq> []" by (metis set_empty set_sort)
  then have "row \<in> set rows" using rows(2) last_in_set set_sort by metis
  then show ?thesis by (simp add: rows_def)
qed

lemma staged_row_spec:
  assumes "staged_row tid url name mime docs = (row, docs1)" "distinct (map dc_id docs)"
  shows "distinct (map dc_id docs1)" "row \<in> set docs1" "dc_tender_id row = tid"
    "other_tenders tid docs1 = other_tenders tid docs"
    "{d \<in> set docs1. dc_id d \<noteq> dc_id row} = {d \<in> set docs. dc_id d \<noteq> dc_id row}"
    "\<forall>d \<in> set docs. dc_id d = dc_id row \<longrightarrow> dc_tender_id d = tid"
proof -
  have "distinct (map dc_id docs1) \<and> row \<in> set docs1 \<and> dc_tender_id row = tid
    \<and> other_tenders tid docs1 = other_tenders tid docs
    \<and> {d \<in> set docs1. dc_id d \<noteq> dc_id row} = {d \<in> set docs. dc_id d \<noteq> dc_id row}
    \<and> (\<forall>d \<in> set docs. dc_id d = dc_id row \<longrightarrow> dc_tender_id d = tid)"
  proof (cases "find_row tid url name docs")
    case None
    then have row: "row = new_document (next_document_id docs) tid url name mime" and docs1: "docs1 = docs @ [row]"
      using assms(1) by (auto simp: staged_row_def Let_def)
    have fresh: "dc_id d \<noteq> dc_id row" if "d \<in> set docs" for d
      using next_document_id_fresh [OF that] by (simp add: row new_document_def)
    show ?thesis using assms(2) fresh
      by (auto simp: docs1 other_tenders_def) (auto simp: row new_document_def)
  next
    case (Some old)
    then have old: "old \<in> set docs" "dc_tender_id old = tid" using find_row_some by blast+
    have row: "row = old\<lparr>dc_mime_type := mime\<rparr>" and docs1: "docs1 = put_document row docs"
      using assms(1) Some by (auto simp: staged_row_def Let_def)
    have same: "d = old" if "d \<in> set docs" "dc_id d = dc_id old" for d
      using that old(1) assms(2) by (simp add: distinct_map inj_on_def)
    have others: "other_tenders tid (put_document row ds) = other_tenders tid ds"
      if "\<forall>d \<in> set ds. dc_id d = dc_id old \<longrightarrow> dc_tender_id d = tid" for ds
      using that by (induction ds) (auto simp: other_tenders_def put_document_def row old(2))
    have "other_tenders tid docs1 = other_tenders tid docs"
      unfolding docs1 by (rule others) (use same old(2) in blast)
    moreover have "dc_id row = dc_id old" "dc_tender_id row = tid" by (simp_all add: row old(2))
    moreover have "row \<in> set docs1" using old(1) by (force simp: docs1 set_put_document row)
    moreover have "distinct (map dc_id docs1)" using assms(2) by (simp add: docs1)
    moreover have "{d \<in> set docs1. dc_id d \<noteq> dc_id row} = {d \<in> set docs. dc_id d \<noteq> dc_id row}"
      by (auto simp: docs1 set_put_document)
    ultimately show ?thesis using same old(2) by metis
  qed
  then show "distinct (map dc_id docs1)" "row \<in> set docs1" "dc_tender_id row = tid"
    "other_tenders tid docs1 = other_tenders tid docs"
    "{d \<in> set docs1. dc_id d \<noteq> dc_id row} = {d \<in> set docs. dc_id d \<noteq> dc_id row}"
    "\<forall>d \<in> set docs. dc_id d = dc_id row \<longrightarrow> dc_tender_id d = tid" by blast+
qed

lemma put_other_tenders:
  "dc_tender_id d = tid \<Longrightarrow> \<forall>e \<in> set docs. dc_id e = dc_id d \<longrightarrow> dc_tender_id e = tid
     \<Longrightarrow> other_tenders tid (put_document d docs) = other_tenders tid docs"
  by (induction docs) (auto simp: other_tenders_def put_document_def)

lemma record_download_row:
  assumes "distinct (map dc_id docs)" "row \<in> set docs"
  shows "record_download (dc_id row) checksum path docs = Inr (put_document
    (row\<lparr>dc_checksum := Some checksum, dc_storage_path := Some path, dc_download_status := ''downloaded''\<rparr>) docs)"
proof -
  let ?r1 = "row\<lparr>dc_checksum := Some checksum\<rparr>" let ?r2 = "?r1\<lparr>dc_storage_path := Some path\<rparr>"
  have g: "get_document (dc_id row) docs = Some row" by (rule get_document_present [OF assms])
  have d1: "distinct (map dc_id (put_document ?r1 docs))" using assms(1) by simp
  have "?r1 \<in> set (put_document ?r1 docs)" using assms(2) by (auto simp: set_put_document)
  from get_document_present [OF d1 this] have g1: "get_document (dc_id row) (put_document ?r1 docs) = Some ?r1" by simp
  have d2: "distinct (map dc_id (put_document ?r2 (put_document ?r1 docs)))" using assms(1) by simp
  have "?r2 \<in> set (put_document ?r2 docs)" using assms(2) by (auto simp: set_put_document)
  then have "?r2 \<in> set (put_document ?r2 (put_document ?r1 docs))" by simp
  from get_document_present [OF d2 this] have g2: "get_document (dc_id row) (put_document ?r2 docs) = Some ?r2" by simp
  show ?thesis using g g1 g2
    by (simp add: record_download_def document_setter_defs require_document_def valid_document_status_def
        DOWNLOAD_STATUSES_def)
qed

text \<open>A table in which one row is replaced or added.\<close>

lemma checksums_unique_insert:
  assumes "checksums_unique docs" "set docs' = insert new {d \<in> set docs. dc_id d \<noteq> dc_id new}"
    and "\<forall>d \<in> set docs. dc_id d \<noteq> dc_id new \<longrightarrow> \<not> (dc_tender_id d = dc_tender_id new
      \<and> dc_checksum d = dc_checksum new \<and> dc_checksum new \<noteq> None)"
  shows "checksums_unique docs'"
  unfolding checksums_unique_def
proof (intro ballI impI)
  fix d d'
  assume in': "d \<in> set docs'" "d' \<in> set docs'"
    and same: "dc_tender_id d = dc_tender_id d' \<and> dc_checksum d = dc_checksum d' \<and> dc_checksum d \<noteq> None"
  consider "d = new" "d' = new" | "d = new" "d' \<in> set docs" "dc_id d' \<noteq> dc_id new"
    | "d' = new" "d \<in> set docs" "dc_id d \<noteq> dc_id new" | "d \<in> set docs" "d' \<in> set docs"
    using in' unfolding assms(2) by blast
  then show "dc_id d = dc_id d'"
  proof cases
    case 2
    then show ?thesis using assms(3) same by metis
  next
    case 3
    then show ?thesis using assms(3) same by metis
  next
    case 4
    then show ?thesis using assms(1) same unfolding checksums_unique_def by blast
  qed simp
qed

lemma checksums_unique_row:
  "checksums_unique docs \<Longrightarrow> row \<in> set docs \<Longrightarrow> \<forall>d \<in> set docs. dc_id d \<noteq> dc_id row \<longrightarrow>
     dc_tender_id d = dc_tender_id row \<longrightarrow> dc_checksum d = dc_checksum row \<longrightarrow> dc_checksum row = None"
  unfolding checksums_unique_def by metis

lemma extends_insert:
  assumes "set (qw_documents w') = insert new {d \<in> set docs. dc_id d \<noteq> dc_id new}" "dc_tender_id new = tid"
    and "\<forall>d \<in> set (qw_documents w). dc_id d = dc_id new \<longrightarrow> dc_tender_id d = tid"
    and "\<forall>d \<in> set (qw_documents w). dc_id d \<noteq> dc_id new \<longrightarrow> d \<in> set docs"
    and "other_tenders tid (qw_documents w') = other_tenders tid (qw_documents w)"
    and "\<forall>parts. holds_object parts w' = holds_object parts w"
  shows "extends tid w w'"
  unfolding extends_def
proof (intro conjI ballI)
  fix d assume d: "d \<in> set (qw_documents w)"
  show "\<exists>d' \<in> set (qw_documents w'). dc_id d' = dc_id d \<and> dc_tender_id d' = dc_tender_id d"
  proof (cases "dc_id d = dc_id new")
    case True
    then show ?thesis using assms(1,2,3) d by (intro bexI [of _ new]) simp_all
  next
    case False
    then show ?thesis using assms(1,4) d by (intro bexI [of _ d]) simp_all
  qed
qed (use assms(5,6) in simp_all)

text \<open>The row that a download leaves, in the table it leaves.\<close>

lemma downloaded_row_ok:
  assumes inv: "documents_inv chk w" and staged: "staged_row tid url name mime (qw_documents w) = (row, docs)"
    and obj: "holds_object (key_parts tid c file) w"
    and free: "\<not> checksum_conflict (dc_id row) tid c
        (put_document (row\<lparr>dc_checksum := Some c, dc_storage_path := Some (storage_key tid c file),
           dc_download_status := ''downloaded''\<rparr>) docs)"
    and w': "w' = w\<lparr>qw_documents := put_document (row\<lparr>dc_checksum := Some c,
           dc_storage_path := Some (storage_key tid c file), dc_download_status := ''downloaded''\<rparr>) docs\<rparr>"
  shows "documents_inv chk w' \<and> extends tid w w'
    \<and> (\<exists>d \<in> set (qw_documents w'). dc_id d = dc_id row \<and> dc_tender_id d = tid)"
proof -
  let ?new = "row\<lparr>dc_checksum := Some c, dc_storage_path := Some (storage_key tid c file), dc_download_status := ''downloaded''\<rparr>"
  let ?rest = "{d \<in> set (qw_documents w). dc_id d \<noteq> dc_id row}"
  have dist: "distinct (map dc_id (qw_documents w))" using inv by (simp add: documents_inv_def)
  note spec = staged_row_spec [OF staged dist]
  have docs': "set (qw_documents w') = insert ?new ?rest"
    using spec(2,5) by (auto simp: w' set_put_document)
  have tid: "dc_tender_id ?new = tid" using spec(3) by simp
  have objs: "holds_object parts w' = holds_object parts w" for parts by (simp add: w' holds_object_def)
  have rest_ok: "\<forall>d \<in> ?rest. row_ok w' d"
    using inv row_ok_objects [of w _ w'] by (auto simp: documents_inv_def objs)
  have "row_ok w' ?new" using obj tid by (auto simp: row_ok_def DOWNLOAD_STATUSES_def objs)
  then have rows: "\<forall>d \<in> set (qw_documents w'). row_ok w' d"
    unfolding docs' using rest_ok by (metis (no_types, lifting) insert_iff)
  have none: "\<forall>d \<in> ?rest. \<not> (dc_tender_id d = tid \<and> dc_checksum d = Some c)"
    using free docs' by (auto simp: checksum_conflict_def list_ex_iff w')
  have "checksums_unique (qw_documents w)" using inv by (simp add: documents_inv_def)
  then have uni: "checksums_unique (qw_documents w')"
    by (rule checksums_unique_insert [where new = ?new]) (use docs' none tid in auto)
  have "objects_ok chk w'" using inv by (simp add: documents_inv_def objects_ok_def w')
  moreover have "distinct (map dc_id (qw_documents w'))" using spec(1) by (simp add: w')
  ultimately have "documents_inv chk w'" using rows uni by (simp add: documents_inv_def)
  moreover have "other_tenders tid (qw_documents w') = other_tenders tid docs"
  proof -
    have "\<forall>e \<in> set docs. dc_id e = dc_id row \<longrightarrow> dc_tender_id e = tid"
      using spec(1-3) by (auto simp: distinct_map inj_on_def)
    then show ?thesis unfolding w' using tid by (auto intro!: put_other_tenders)
  qed
  then have others: "other_tenders tid (qw_documents w') = other_tenders tid (qw_documents w)" using spec(4) by simp
  have "extends tid w w'"
  proof (rule extends_insert)
    show "set (qw_documents w') = insert ?new {d \<in> set (qw_documents w). dc_id d \<noteq> dc_id ?new}" using docs' by simp
    show "\<forall>d \<in> set (qw_documents w). dc_id d = dc_id ?new \<longrightarrow> dc_tender_id d = tid" using spec(6) by simp
  qed (use tid others objs in simp_all)
  moreover have "?new \<in> set (qw_documents w')" "dc_id ?new = dc_id row" unfolding docs' by simp_all
  ultimately show ?thesis using tid by blast
qed

lemma find_by_checksum_some:
  "find_by_checksum tid c docs = Some d \<Longrightarrow> d \<in> set docs \<and> dc_tender_id d = tid \<and> dc_checksum d = Some c"
  by (auto simp: find_by_checksum_def find_Some_iff)

lemma persist_acquired_ok:
  assumes inv: "documents_inv chk w" and obj: "holds_object (key_parts tid c name) w"
    and run: "persist_acquired env tid url name c (storage_key tid c name) mime n parent w = (res, w')"
  shows "step_ok chk tid w w' (case res of Inl _ \<Rightarrow> [] | Inr a \<Rightarrow> [a])"
proof (cases "sv_db_fault env (DbPersist url name) w")
  case (Some t)
  then show ?thesis using run inv by (auto simp: persist_acquired_def step_ok_refl)
next
  case None
  obtain row docs where staged: "staged_row tid url name mime (qw_documents w) = (row, docs)" by fastforce
  have dist: "distinct (map dc_id (qw_documents w))" using inv by (simp add: documents_inv_def)
  note spec = staged_row_spec [OF staged dist]
  let ?docs = "put_document (row\<lparr>dc_checksum := Some c, dc_storage_path := Some (storage_key tid c name),
      dc_download_status := ''downloaded''\<rparr>) docs"
  have rec: "record_download (dc_id row) c (storage_key tid c name) docs = Inr ?docs"
    by (rule record_download_row [OF spec(1,2)])
  show ?thesis
  proof (cases "checksum_conflict (dc_id row) tid c ?docs")
    case False
    let ?w1 = "w\<lparr>qw_documents := ?docs\<rparr>"
    have w': "w' = ?w1" and res: "\<exists>a. res = Inr a \<and> ad_document_id a = dc_id row \<and> ad_checksum a = c
        \<and> ad_storage_key a = storage_key tid c name"
      using run None staged rec False by (auto simp: persist_acquired_def)
    have "holds_object (key_parts tid c name) ?w1" using obj by (simp add: holds_object_def)
    then show ?thesis using res downloaded_row_ok [OF inv staged obj False refl]
      unfolding w' step_ok_def reported_ok_def by auto
  next
    case True
    show ?thesis
    proof (cases "find_by_checksum tid c (qw_documents w)")
      case None
      then show ?thesis using run \<open>sv_db_fault env (DbPersist url name) w = None\<close> staged rec True inv
        by (auto simp: persist_acquired_def step_ok_refl)
    next
      case (Some d)
      then have d: "d \<in> set (qw_documents w)" "dc_tender_id d = tid" "dc_checksum d = Some c"
        using find_by_checksum_some by blast+
      then obtain name' where path: "dc_storage_path d = Some (storage_key tid c name')"
        "holds_object (key_parts tid c name') w" using inv by (auto simp: documents_inv_def row_ok_def)
      have "w' = w" "\<exists>a. res = Inr a \<and> ad_document_id a = dc_id d \<and> ad_checksum a = c
          \<and> ad_storage_key a = storage_key tid c name'"
        using run None staged rec True Some d path(1) \<open>sv_db_fault env (DbPersist url name) w = None\<close>
        by (auto simp: persist_acquired_def)
      then show ?thesis using inv d path(2) by (auto simp: step_ok_def reported_ok_def)
    qed
  qed
qed

lemma checksums_unique_snoc:
  "checksums_unique docs \<Longrightarrow> dc_checksum d = None \<Longrightarrow> checksums_unique (docs @ [d])"
  unfolding checksums_unique_def by (metis Un_iff empty_iff empty_set list.simps(15) insert_iff set_append)

lemma mark_failed_ok:
  assumes inv: "documents_inv chk w"
  shows "step_ok chk tid w (mark_failed env tid url name w) []"
proof (cases "sv_db_fault env (DbMarkFailed url name) w")
  case (Some t)
  then show ?thesis using inv by (simp add: mark_failed_def step_ok_refl)
next
  case None
  obtain row docs where staged: "(case find_row tid url name (qw_documents w) of
            None \<Rightarrow> let row = new_document (next_document_id (qw_documents w)) tid url name None
              in (row, qw_documents w @ [row])
          | Some row \<Rightarrow> (row, qw_documents w)) = (row, docs)" by fastforce
  have dist: "distinct (map dc_id (qw_documents w))" using inv by (simp add: documents_inv_def)
  have fresh: "dc_id d \<noteq> next_document_id (qw_documents w)" if "d \<in> set (qw_documents w)" for d
    using next_document_id_fresh [OF that] by simp
  have docs: "docs = qw_documents w \<and> row \<in> set docs \<and> dc_tender_id row = tid
      \<or> docs = qw_documents w @ [row] \<and> row = new_document (next_document_id (qw_documents w)) tid url name None"
    using staged find_row_some by (auto simp: Let_def split: option.splits)
  have dist': "distinct (map dc_id docs)" and row: "row \<in> set docs" and tid: "dc_tender_id row = tid"
    using docs dist fresh by (auto simp: new_document_def)
  let ?new = "row\<lparr>dc_download_status := ''failed''\<rparr>"
  let ?w' = "w\<lparr>qw_documents := put_document ?new docs\<rparr>"
  have eq: "mark_failed env tid url name w = ?w'"
    using None staged get_document_present [OF dist' row]
    by (simp add: mark_failed_def set_download_status_def require_document_def valid_document_status_def
        DOWNLOAD_STATUSES_def)
  have row_ok: "row_ok w row" using docs inv
    by (auto simp: documents_inv_def row_ok_def new_document_def DOWNLOAD_STATUSES_def)
  have objs: "holds_object parts ?w' = holds_object parts w" for parts by (simp add: holds_object_def)
  have set': "set (qw_documents ?w') = insert ?new {d \<in> set docs. dc_id d \<noteq> dc_id row}"
    using row by (auto simp: set_put_document)
  have docs_ok: "\<forall>d \<in> set docs. row_ok w d" using docs row_ok inv by (auto simp: documents_inv_def)
  have "row_ok ?w' ?new" using row_ok by (auto simp: row_ok_def objs DOWNLOAD_STATUSES_def)
  moreover have "\<forall>d \<in> set docs. row_ok ?w' d" using docs_ok row_ok_objects [of w _ ?w'] by (simp add: objs)
  ultimately have rows: "\<forall>d \<in> set (qw_documents ?w'). row_ok ?w' d" unfolding set' by blast
  have uni: "checksums_unique (qw_documents w)" using inv by (simp add: documents_inv_def)
  have "checksums_unique docs" using docs
  proof (elim disjE conjE)
    assume "docs = qw_documents w" then show ?thesis using uni by simp
  next
    assume snoc: "docs = qw_documents w @ [row]"
      "row = new_document (next_document_id (qw_documents w)) tid url name None"
    then have "dc_checksum row = None" by (simp add: new_document_def)
    then show ?thesis unfolding snoc(1) by (rule checksums_unique_snoc [OF uni])
  qed
  then have "checksums_unique (qw_documents ?w')"
  proof (rule checksums_unique_insert [where new = ?new])
    show "\<forall>d \<in> set docs. dc_id d \<noteq> dc_id ?new \<longrightarrow> \<not> (dc_tender_id d = dc_tender_id ?new
        \<and> dc_checksum d = dc_checksum ?new \<and> dc_checksum ?new \<noteq> None)"
      using checksums_unique_row [OF \<open>checksums_unique docs\<close> row] by simp
  qed (use set' in simp)
  moreover have "objects_ok chk ?w'" using inv by (simp add: documents_inv_def objects_ok_def)
  ultimately have inv': "documents_inv chk ?w'" using rows dist' by (simp add: documents_inv_def)
  have others: "other_tenders tid (qw_documents ?w') = other_tenders tid (qw_documents w)"
  proof -
    have "\<forall>e \<in> set docs. dc_id e = dc_id row \<longrightarrow> dc_tender_id e = tid"
      using dist' row tid by (auto simp: distinct_map inj_on_def)
    then have "other_tenders tid (put_document ?new docs) = other_tenders tid docs" using tid by (intro put_other_tenders) auto
    then show ?thesis using docs tid by (auto simp: other_tenders_def)
  qed
  have "extends tid w ?w'"
  proof (rule extends_insert)
    show "\<forall>d \<in> set (qw_documents w). dc_id d = dc_id ?new \<longrightarrow> dc_tender_id d = tid"
      using docs dist' row tid by (auto simp: distinct_map inj_on_def)
    show "\<forall>d \<in> set (qw_documents w). dc_id d \<noteq> dc_id ?new \<longrightarrow> d \<in> set docs" using docs by auto
    show "set (qw_documents ?w') = insert ?new {d \<in> set docs. dc_id d \<noteq> dc_id ?new}" using set' by simp
  qed (use tid others objs in simp_all)
  then show ?thesis using inv' unfolding eq step_ok_def by simp
qed

section \<open>Reporting a stored row\<close>

definition docs_of :: "(acquire_exn, acquisition_result) result \<Rightarrow> acquired_document list" where
  "docs_of res = (case res of Inl _ \<Rightarrow> [] | Inr r \<Rightarrow> ar_documents r)"

lemma docs_of_simps [simp]: "docs_of (Inl e) = []" "docs_of (Inr r) = ar_documents r"
  by (simp_all add: docs_of_def)

lemma acquired_row_reported:
  assumes "documents_inv chk w" "d \<in> set (qw_documents w)" "dc_tender_id d = tid"
    and "row_is_acquired d w = Inr True" "acquired_from_row env d w = Inr a"
  shows "reported_ok tid w a"
proof -
  obtain c where c: "dc_checksum d = Some c" "c \<noteq> []"
    using assms(4) by (auto simp: row_is_acquired_def py_truthy_def split: if_splits option.splits)
  obtain name where name: "dc_storage_path d = Some (storage_key tid c name)" "holds_object (key_parts tid c name) w"
    using assms(1-3) c(1) by (auto simp: documents_inv_def row_ok_def)
  have "ad_document_id a = dc_id d \<and> ad_checksum a = c \<and> ad_storage_key a = storage_key tid c name"
    using assms(5) c name by (auto simp: acquired_from_row_def bind_result_eq_Inr py_or_def Let_def)
  then show ?thesis using assms(2,3) name(2) unfolding reported_ok_def by metis
qed

lemma rows_reported:
  assumes "documents_inv chk w"
  shows "\<forall>d \<in> set rows. d \<in> set (qw_documents w) \<and> dc_tender_id d = tid \<Longrightarrow> all_acquired rows w = Inr True
    \<Longrightarrow> rows_to_documents env rows w = Inr ds \<Longrightarrow> \<forall>a \<in> set ds. reported_ok tid w a"
proof (induction rows arbitrary: ds)
  case (Cons d rows)
  from Cons.prems(2) have acq: "row_is_acquired d w = Inr True" "all_acquired rows w = Inr True"
    by (auto simp: bind_result_eq_Inr split: if_splits)
  from Cons.prems(3) obtain a as where as: "acquired_from_row env d w = Inr a"
    "rows_to_documents env rows w = Inr as" "ds = a # as" by (auto simp: bind_result_eq_Inr)
  have "reported_ok tid w a" using acquired_row_reported [OF assms _ _ acq(1) as(1)] Cons.prems(1) by simp
  then show ?case using Cons.IH [OF _ acq(2) as(2)] Cons.prems(1) as(3) by simp
qed simp

section \<open>The operations of the service\<close>

lemma acquire_file_ok:
  assumes inv: "documents_inv (sv_checksum env) w" and hex: "hex_checksum (sv_checksum env)"
    and run: "acquire_file env tid url name content mime parent w = (res, w')"
  shows "step_ok (sv_checksum env) tid w w' (docs_of res)"
proof -
  let ?chk = "sv_checksum env" and ?c = "sv_checksum env content"
  consider (raised) e where "find_acquired env tid url name w = Inl e"
    | (reused) d where "find_acquired env tid url name w = Inr (Some d)"
    | (fresh) "find_acquired env tid url name w = Inr None"
    by (metis (no_types) old.sum.exhaust option.exhaust)
  then show ?thesis
  proof cases
    case raised
    then show ?thesis using run inv by (auto simp: acquire_file_def step_ok_refl)
  next
    case reused
    then have d: "find_row tid url name (qw_documents w) = Some d" "row_is_acquired d w = Inr True"
      by (auto simp: find_acquired_def bind_result_eq_Inr raised_def split: option.splits sum.splits if_splits)
    have "w' = w" using run reused by (simp add: acquire_file_def)
    moreover have "\<forall>a \<in> set (docs_of res). reported_ok tid w a"
      using run reused acquired_row_reported [OF inv _ _ d(2)] find_row_some [OF d(1)]
      by (cases "acquired_from_row env d w") (auto simp: acquire_file_def)
    ultimately show ?thesis using inv by (simp add: step_ok_def)
  next
    case fresh
    obtain put w1 where put: "storage_put env (storage_key tid ?c name) content w = (put, w1)" by fastforce
    note stored = storage_put_ok [OF inv hex put]
    show ?thesis
    proof (cases put)
      case (Inl t)
      then have "w' = w1" "docs_of res = []" using run fresh put by (auto simp: acquire_file_def Let_def)
      then show ?thesis using stored by (simp add: step_ok_def)
    next
      case (Inr n)
      obtain per w2 where per: "persist_acquired env tid url name ?c (storage_key tid ?c name) mime n parent w1 = (per, w2)"
        by fastforce
      have "step_ok ?chk tid w1 w2 (case per of Inl _ \<Rightarrow> [] | Inr a \<Rightarrow> [a])"
        by (rule persist_acquired_ok [OF _ _ per]) (use stored Inr in auto)
      moreover have "w' = w2 \<and> docs_of res = (case per of Inl _ \<Rightarrow> [] | Inr a \<Rightarrow> [a])"
        using run fresh put Inr per by (cases per) (auto simp: acquire_file_def Let_def)
      moreover have "step_ok ?chk tid w w1 []" using stored by (simp add: step_ok_def)
      ultimately show ?thesis using step_ok_trans by fastforce
    qed
  qed
qed

lemma merge_results_simps [simp]:
  "ar_documents (merge_results a b) = ar_documents a @ ar_documents b"
  "ar_failures (merge_results a b) = ar_failures a @ ar_failures b"
  "ar_documents (add_failures fs a) = ar_documents a"
  "ar_failures (add_failures fs a) = ar_failures a @ fs"
  "ar_documents empty_acquisition = []" "ar_failures empty_acquisition = []"
  by (simp_all add: merge_results_def add_failures_def empty_acquisition_def)

lemma extract_members_ok:
  assumes hex: "hex_checksum (sv_checksum env)"
  shows "documents_inv (sv_checksum env) w \<Longrightarrow> \<forall>a \<in> set (ar_documents acc). reported_ok tid w a \<Longrightarrow>
     extract_members env tid pu pf depth entries acc w = (res, w') \<Longrightarrow>
     step_ok (sv_checksum env) tid w w' (docs_of res)"
proof (induction "nat (zl_max_nested_depth (sv_limits env) - depth)" arbitrary: pu pf depth entries acc w res w'
    rule: less_induct)
  case less
  note deeper = less.hyps
  show ?case using less.prems
  proof (induction entries arbitrary: acc w)
    case Nil
    then have "w' = w" "docs_of res = ar_documents acc" by auto
    then show ?case using Nil.prems by (simp add: step_ok_def)
  next
    case (Cons entry entries)
    let ?chk = "sv_checksum env" and ?name = "ze_name entry" and ?url = "member_url pu (ze_name entry)"
    obtain got w1 where got: "acquire_file env tid ?url ?name (ze_data entry)
        (guess_mime (sv_guess_type env) (Some ?name)) (Some pf) w = (got, w1)" by fastforce
    note first = acquire_file_ok [OF Cons.prems(1) hex got]
    have acc_w1: "\<forall>a \<in> set (ar_documents acc). reported_ok tid w1 a"
      by (rule step_ok_mono [OF first Cons.prems(2)])
    define go where "go = (\<lambda>(ex, acc', w2). case ex of
          Some (OtherExn t) \<Rightarrow> (Inl (OtherExn t), w2)
        | Some (Acquisition e) \<Rightarrow> extract_members env tid pu pf depth entries
            (add_failures [acquisition_failure_of e ?url ?name] acc') (mark_failed env tid ?url ?name w2)
        | None \<Rightarrow> extract_members env tid pu pf depth entries acc' w2)"
    have continue: "step_ok ?chk tid w w' (docs_of res)"
      if eq: "(res, w') = go (ex, acc', w2)" and ok: "step_ok ?chk tid w w2 (ar_documents acc')" for ex acc' w2
    proof -
      have inv2: "documents_inv ?chk w2" and acc2: "\<forall>a \<in> set (ar_documents acc'). reported_ok tid w2 a"
        using ok by (simp_all add: step_ok_def)
      have quiet: "step_ok ?chk tid w w2 []" using ok by (rule step_ok_weaken) simp
      consider "ex = None" | t where "ex = Some (OtherExn t)" | e where "ex = Some (Acquisition e)"
        by (metis acquire_exn.exhaust option.exhaust)
      then show ?thesis
      proof cases
        case 1
        then have "step_ok ?chk tid w2 w' (docs_of res)" using eq by (intro Cons.IH [OF inv2 acc2]) (simp add: go_def)
        then show ?thesis using step_ok_trans [OF quiet] by fastforce
      next
        case 2
        then show ?thesis using eq quiet by (simp add: go_def)
      next
        case 3
        let ?w3 = "mark_failed env tid ?url ?name w2" and ?acc3 = "add_failures [acquisition_failure_of e ?url ?name] acc'"
        have marked: "step_ok ?chk tid w2 ?w3 []" by (rule mark_failed_ok [OF inv2])
        then have "documents_inv ?chk ?w3" "\<forall>a \<in> set (ar_documents ?acc3). reported_ok tid ?w3 a"
          using step_ok_mono [OF marked acc2] by (simp_all add: step_ok_def)
        then have "step_ok ?chk tid ?w3 w' (docs_of res)" using 3 eq by (intro Cons.IH) (simp_all add: go_def)
        then show ?thesis using step_ok_trans [OF step_ok_trans [OF quiet marked]] by fastforce
      qed
    qed
    show ?case
    proof (cases got)
      case (Inl e)
      have "(res, w') = go (Some e, acc, w1)"
        using Cons.prems(3) Inl got by (simp add: extract_members.simps(2) go_def Let_def)
      then show ?thesis by (rule continue) (use first acc_w1 in \<open>simp add: step_ok_def\<close>)
    next
      case (Inr r)
      let ?acc1 = "merge_results acc r"
      have ok1: "step_ok ?chk tid w w1 (ar_documents ?acc1)" using first acc_w1 Inr by (auto simp: step_ok_def)
      show ?thesis
      proof (cases "\<not> ze_is_nested_zip entry \<or> recurse_depth_exceeded (sv_limits env) (depth + 1)")
        case True
        then have "(res, w') = go (None, ?acc1, w1)"
          using Cons.prems(3) Inr got by (simp add: extract_members.simps(2) go_def Let_def)
        then show ?thesis by (rule continue) (rule ok1)
      next
        case nested: False
        show ?thesis
        proof (cases "safe_extract_archive (sv_zip env) (sv_limits env) (ze_data entry)")
          case (Inl e)
          then have "(res, w') = go (Some e, ?acc1, w1)"
            using Cons.prems(3) Inr got nested by (simp add: extract_members.simps(2) go_def Let_def)
          then show ?thesis by (rule continue) (rule ok1)
        next
          case report: (Inr report)
          let ?acc2 = "add_failures (member_failures ?url report) ?acc1"
          obtain sub w2 where sub: "extract_members env tid ?url ?name (depth + 1) (zr_entries report) empty_acquisition w1
              = (sub, w2)" by fastforce
          have smaller: "nat (zl_max_nested_depth (sv_limits env) - (depth + 1)) < nat (zl_max_nested_depth (sv_limits env) - depth)"
            using nested by (auto simp: recurse_depth_exceeded_def)
          have inner: "step_ok ?chk tid w1 w2 (docs_of sub)"
            by (rule deeper [OF smaller _ _ sub]) (use ok1 in \<open>simp_all add: step_ok_def\<close>)
          have ok2: "step_ok ?chk tid w w2 (ar_documents ?acc2 @ docs_of sub)"
            using step_ok_trans [OF ok1 inner] by simp
          show ?thesis
          proof (cases sub)
            case (Inl e)
            then have "(res, w') = go (Some e, ?acc2, w2)"
              using Cons.prems(3) Inr got nested report sub by (simp add: extract_members.simps(2) go_def Let_def)
            then show ?thesis by (rule continue) (use ok2 Inl in simp)
          next
            case inner': (Inr members)
            then have "(res, w') = go (None, merge_results ?acc2 members, w2)"
              using Cons.prems(3) Inr got nested report sub by (simp add: extract_members.simps(2) go_def Let_def)
            then show ?thesis by (rule continue) (use ok2 inner' in simp)
          qed
        qed
      qed
    qed
  qed
qed

lemma acquire_archive_ok:
  assumes inv: "documents_inv (sv_checksum env) w" and hex: "hex_checksum (sv_checksum env)"
    and run: "acquire_archive env tid att response w = (res, w')"
  shows "step_ok (sv_checksum env) tid w w' (docs_of res)"
proof (cases "safe_extract_archive (sv_zip env) (sv_limits env) (dr_content response)")
  case (Inl e)
  then show ?thesis using run inv by (auto simp: acquire_archive_def step_ok_refl)
next
  case (Inr report)
  obtain got w1 where got: "acquire_file env tid (ta_source_url att) (ta_filename att) (dr_content response)
      (mime_for env response (ta_filename att)) None w = (got, w1)" by fastforce
  note first = acquire_file_ok [OF inv hex got]
  obtain sub w2 where sub: "extract_members env tid (ta_source_url att) (ta_filename att) 1 (zr_entries report)
      empty_acquisition w1 = (sub, w2)" by fastforce
  have "documents_inv (sv_checksum env) w1" using first by (simp add: step_ok_def)
  from extract_members_ok [OF hex this _ sub] have second: "step_ok (sv_checksum env) tid w1 w2 (docs_of sub)" by simp
  note both = step_ok_trans [OF first second]
  show ?thesis
  proof (cases got)
    case f: (Inl e)
    then have "w' = w1 \<and> docs_of res = []" using run Inr got by (auto simp: acquire_archive_def)
    then show ?thesis using first f by simp
  next
    case f: (Inr r)
    show ?thesis
    proof (cases sub)
      case (Inl e)
      then have "w' = w2 \<and> docs_of res = []" using run \<open>safe_extract_archive _ _ _ = Inr report\<close> got f sub
        by (auto simp: acquire_archive_def)
      then show ?thesis using step_ok_weaken [OF both] by simp
    next
      case s: (Inr members)
      then have "w' = w2 \<and> docs_of res = ar_documents r @ ar_documents members"
        using run Inr got f sub by (auto simp: acquire_archive_def)
      then show ?thesis using both f s by simp
    qed
  qed
qed

lemma acquire_attachment_ok:
  assumes inv: "documents_inv (sv_checksum env) w" and hex: "hex_checksum (sv_checksum env)"
    and run: "acquire_attachment env tid att w = (res, w')"
  shows "step_ok (sv_checksum env) tid w w' (docs_of res)"
proof -
  let ?chk = "sv_checksum env" and ?url = "ta_source_url att"
  consider e where "lineage_acquired env tid ?url w = Inl e" | "lineage_acquired env tid ?url w = Inr True"
    | "lineage_acquired env tid ?url w = Inr False" by (metis (full_types) old.sum.exhaust)
  then show ?thesis
  proof cases
    case 1
    then show ?thesis using run inv by (auto simp: acquire_attachment_def step_ok_refl)
  next
    case 2
    let ?rows = "lineage_rows tid ?url (qw_documents w)"
    have acq: "all_acquired ?rows w = Inr True"
      using 2 by (auto simp: lineage_acquired_def raised_def Let_def split: option.splits if_splits sum.splits)
    have rows: "\<forall>d \<in> set ?rows. d \<in> set (qw_documents w) \<and> dc_tender_id d = tid" by (simp add: lineage_rows_def)
    have eq: "w' = w" "res = reused_lineage env tid ?url w" using run 2 by (auto simp: acquire_attachment_def)
    have "\<forall>a \<in> set (docs_of res). reported_ok tid w a"
    proof (cases "rows_to_documents env ?rows w")
      case (Inl e)
      then show ?thesis by (auto simp: eq(2) reused_lineage_def split: option.splits)
    next
      case (Inr ds)
      then show ?thesis using rows_reported [OF inv rows acq Inr]
        by (auto simp: eq(2) reused_lineage_def split: option.splits)
    qed
    then show ?thesis using inv eq(1) by (simp add: step_ok_def)
  next
    case 3
    obtain got w1 where got: "acquire_fetched env tid att w = (got, w1)" by fastforce
    obtain fetched ext where fetched: "sv_fetch env ?url (qw_ext w) = (fetched, ext)" by fastforce
    let ?w0 = "w\<lparr>qw_ext := ext\<rparr>"
    have inv0: "documents_inv ?chk ?w0"
      using inv by (simp add: documents_inv_def row_ok_def objects_ok_def holds_object_def)
    have start: "step_ok ?chk tid w ?w0 []" using inv0 by (auto simp: step_ok_def extends_def holds_object_def)
    have body: "step_ok ?chk tid w w1 (docs_of got)"
    proof (cases fetched)
      case (Inl e)
      then show ?thesis using got fetched start by (auto simp: acquire_fetched_def)
    next
      case (Inr response)
      show ?thesis
      proof (cases "validate_response response att")
        case (Inl e)
        then show ?thesis using got fetched start Inr by (auto simp: acquire_fetched_def Let_def)
      next
        case valid: (Inr u)
        have "step_ok ?chk tid ?w0 w1 (docs_of got)"
        proof (cases "is_archive att response")
          case True
          then have "acquire_archive env tid att response ?w0 = (got, w1)"
            using got fetched Inr valid by (simp add: acquire_fetched_def Let_def)
          then show ?thesis by (rule acquire_archive_ok [OF inv0 hex])
        next
          case False
          then have "acquire_file env tid ?url (ta_filename att) (dr_content response)
              (mime_for env response (ta_filename att)) None ?w0 = (got, w1)"
            using got fetched Inr valid by (simp add: acquire_fetched_def Let_def)
          then show ?thesis by (rule acquire_file_ok [OF inv0 hex])
        qed
        then show ?thesis using step_ok_trans [OF start] by fastforce
      qed
    qed
    have quiet: "step_ok ?chk tid w w1 []" using body by (rule step_ok_weaken) simp
    then have inv1: "documents_inv ?chk w1" by (simp add: step_ok_def)
    note marked = step_ok_trans [OF quiet mark_failed_ok [OF inv1, of tid env ?url "ta_filename att"]]
    consider r where "got = Inr r" | t where "got = Inl (OtherExn t)" | e where "got = Inl (Acquisition e)"
      by (metis acquire_exn.exhaust old.sum.exhaust)
    then show ?thesis
    proof cases
      case 1
      then show ?thesis using run 3 got body by (auto simp: acquire_attachment_def)
    next
      case 2
      then show ?thesis using run 3 got quiet by (auto simp: acquire_attachment_def)
    next
      case (3 e)
      then have "w' = mark_failed env tid ?url (ta_filename att) w1 \<and> docs_of res = []"
        using run \<open>lineage_acquired env tid ?url w = Inr False\<close> got by (auto simp: acquire_attachment_def)
      then show ?thesis using marked by simp
    qed
  qed
qed

lemma acquire_each_ok:
  assumes hex: "hex_checksum (sv_checksum env)"
  shows "documents_inv (sv_checksum env) w \<Longrightarrow> \<forall>a \<in> set (ar_documents acc). reported_ok tid w a \<Longrightarrow>
     acquire_each env tid atts acc w = (res, w') \<Longrightarrow> step_ok (sv_checksum env) tid w w' (docs_of res)"
proof (induction atts arbitrary: acc w)
  case Nil
  then have "w' = w" "docs_of res = ar_documents acc" by auto
  then show ?case using Nil.prems by (simp add: step_ok_def)
next
  case (Cons att atts)
  obtain r w1 where r: "acquire_attachment env tid att w = (r, w1)" by fastforce
  note first = acquire_attachment_ok [OF Cons.prems(1) hex r]
  show ?case
  proof (cases r)
    case (Inl e)
    then show ?thesis using Cons.prems(3) r first by auto
  next
    case (Inr d)
    let ?acc = "merge_results acc d"
    have ok1: "step_ok (sv_checksum env) tid w w1 []" using first by (rule step_ok_weaken) simp
    have "documents_inv (sv_checksum env) w1" "\<forall>a \<in> set (ar_documents ?acc). reported_ok tid w1 a"
      using first step_ok_mono [OF first Cons.prems(2)] Inr by (auto simp: step_ok_def)
    then have "step_ok (sv_checksum env) tid w1 w' (docs_of res)"
      using Cons.prems(3) r Inr by (intro Cons.IH) simp_all
    then show ?thesis using step_ok_trans [OF ok1] by fastforce
  qed
qed

text \<open>C14: whatever an acquisition meets, failures of the network, of archives, of the storage and of
  the database included, it leaves the documents well formed: ids stay unique, a tender holds each
  content in one row, a row marked as downloaded has a checksum, and every row with a checksum names
  an object that is stored and has that checksum.  The rows of other tenders are untouched, no row
  and no object is lost, and every document it reports is a row of the tender whose object is stored
  under the reported checksum.\<close>

theorem acquire_keeps_documents:
  assumes "documents_inv (sv_checksum env) w" "hex_checksum (sv_checksum env)"
    and "acquire env tid atts w = (res, w')"
  shows "documents_inv (sv_checksum env) w'
    \<and> other_tenders tid (qw_documents w') = other_tenders tid (qw_documents w)
    \<and> dc_id ` set (qw_documents w) \<subseteq> dc_id ` set (qw_documents w')
    \<and> (\<forall>parts. qw_objects w parts \<noteq> None \<longrightarrow> qw_objects w' parts \<noteq> None)
    \<and> (\<forall>r. res = Inr r \<longrightarrow> (\<forall>a \<in> set (ar_documents r). reported_ok tid w' a))"
proof -
  have ok: "step_ok (sv_checksum env) tid w w' (docs_of res)"
    using assms(3) acquire_each_ok [OF assms(2,1), of empty_acquisition tid atts res w'] by (simp add: acquire_def)
  then have ext: "extends tid w w'" and inv: "documents_inv (sv_checksum env) w'"
    and rep: "\<forall>a \<in> set (docs_of res). reported_ok tid w' a" by (simp_all add: step_ok_def)
  have "dc_id ` set (qw_documents w) \<subseteq> dc_id ` set (qw_documents w')"
    using ext unfolding extends_def by (metis (no_types, lifting) image_iff image_subsetI)
  then show ?thesis using ext inv rep by (auto simp: extends_def holds_object_def)
qed

text \<open>A server that has one text file, and an empty database.\<close>

definition demo_acquire_env :: "nat acquire_env" where
  "demo_acquire_env = \<lparr>sv_fetch = (\<lambda>u n. (Inr \<lparr>dr_status_code = 200, dr_headers = [], dr_content = [7, 7], dr_url = u\<rparr>, n + 1)),
     sv_zip = demo_zip, sv_limits = default_limits, sv_checksum = (\<lambda>b. ''c''), sv_guess_type = (\<lambda>s. None),
     sv_unquote = (\<lambda>s. s), sv_put_fault = (\<lambda>k w. None), sv_db_fault = (\<lambda>u w. None)\<rparr>"

definition demo_acquire_world :: "nat acquire_world" where
  "demo_acquire_world = \<lparr>qw_documents = [], qw_objects = (\<lambda>p. None), qw_ext = 0\<rparr>"

abbreviation demo_attachment :: "bool \<Rightarrow> tender_attachment" where
  "demo_attachment archived \<equiv> \<lparr>ta_source_url = ''http://h/a'', ta_filename = ''a.txt'', ta_mime_type = None,
     ta_advertised_size_bytes = None, ta_is_zip = archived\<rparr>"

lemma demo_acquire_start:
  "documents_inv (sv_checksum demo_acquire_env) demo_acquire_world" "hex_checksum (sv_checksum demo_acquire_env)"
  by (simp_all add: documents_inv_def checksums_unique_def objects_ok_def demo_acquire_world_def
      hex_checksum_def plain_segment_def demo_acquire_env_def)

theorem acquire_keeps_documents_witness:
  "documents_inv (sv_checksum demo_acquire_env)
     (snd (acquire demo_acquire_env 3 [demo_attachment False] demo_acquire_world))"
proof -
  obtain res w' where run: "acquire demo_acquire_env 3 [demo_attachment False] demo_acquire_world = (res, w')" by fastforce
  from acquire_keeps_documents [OF demo_acquire_start this] show ?thesis by (simp add: run)
qed

end
