(* ===== verification/AcquireProps.thy ===== *)
theory AcquireProps
  imports AcquireInv
begin

text \<open>
  Re-running the acquisition: an attachment whose stored rows are all acquired is reported without
  a fetch; what the service does with bytes the tender already has under another address, with an
  archive whose members were rejected, and with a member that \<open>zipfile\<close> cannot read.
\<close>

section \<open>Reuse\<close>

definition no_faults :: "'w acquire_env \<Rightarrow> bool" where
  "no_faults env \<longleftrightarrow> (\<forall>u w. sv_db_fault env u w = None) \<and> (\<forall>k w. sv_put_fault env k w = None)"

lemma row_acquired_size:
  assumes "row_is_acquired d w = Inr True"
  shows "\<exists>a. acquired_from_row env d w = Inr a \<and> ad_document_id a = dc_id d \<and> ad_source_url a = dc_source_url d
     \<and> ad_filename a = dc_filename d \<and> Some (ad_checksum a) = dc_checksum d"
proof -
  obtain c p where c: "dc_checksum d = Some c" "c \<noteq> []" "dc_storage_path d = Some p" "p \<noteq> []"
    "storage_exists p w = Inr True"
    using assms by (auto simp: row_is_acquired_def py_truthy_def split: if_splits option.splits)
  then obtain n where "storage_size_of p w = Inr n"
    by (auto simp: storage_exists_def storage_size_of_def split: option.splits)
  then show ?thesis using c by (simp add: acquired_from_row_def raised_def Let_def)
qed

lemma rows_to_documents_acquired:
  "all_acquired rows w = Inr True \<Longrightarrow>
     \<exists>ds. rows_to_documents env rows w = Inr ds \<and> map ad_document_id ds = map dc_id rows"
proof (induction rows)
  case (Cons d rows)
  then have "row_is_acquired d w = Inr True" "all_acquired rows w = Inr True"
    by (auto simp: bind_result_eq_Inr split: if_splits)
  then show ?case using Cons.IH row_acquired_size [of d w env] by auto
qed simp

lemma lineage_reused:
  assumes "lineage_acquired env tid (ta_source_url att) w = Inr True"
  shows "\<exists>ds. acquire_attachment env tid att w = (Inr \<lparr>ar_documents = ds, ar_failures = []\<rparr>, w)
    \<and> map ad_document_id ds = map dc_id (lineage_rows tid (ta_source_url att) (qw_documents w))"
proof -
  let ?rows = "lineage_rows tid (ta_source_url att) (qw_documents w)"
  have acq: "all_acquired ?rows w = Inr True" and nofault: "sv_db_fault env (DbLineage (ta_source_url att)) w = None"
    using assms by (auto simp: lineage_acquired_def raised_def Let_def split: option.splits if_splits sum.splits)
  from rows_to_documents_acquired [OF acq, of env] show ?thesis
    using assms nofault by (auto simp: acquire_attachment_def reused_lineage_def)
qed

lemma acquire_each_reused:
  "\<forall>att \<in> set atts. lineage_acquired env tid (ta_source_url att) w = Inr True \<Longrightarrow>
     \<exists>ds. acquire_each env tid atts acc w
        = (Inr \<lparr>ar_documents = ar_documents acc @ ds, ar_failures = ar_failures acc\<rparr>, w)
      \<and> map ad_document_id ds = concat (map (\<lambda>att. map dc_id (lineage_rows tid (ta_source_url att) (qw_documents w))) atts)"
proof (induction atts arbitrary: acc)
  case (Cons att atts)
  obtain ds where ds: "acquire_attachment env tid att w = (Inr \<lparr>ar_documents = ds, ar_failures = []\<rparr>, w)"
    "map ad_document_id ds = map dc_id (lineage_rows tid (ta_source_url att) (qw_documents w))"
    using lineage_reused Cons.prems by (metis list.set_intros(1))
  let ?acc = "merge_results acc \<lparr>ar_documents = ds, ar_failures = []\<rparr>"
  obtain es where es: "acquire_each env tid atts ?acc w
        = (Inr \<lparr>ar_documents = ar_documents ?acc @ es, ar_failures = ar_failures ?acc\<rparr>, w)"
      "map ad_document_id es = concat (map (\<lambda>att. map dc_id (lineage_rows tid (ta_source_url att) (qw_documents w))) atts)"
    using Cons.IH [of ?acc] Cons.prems by auto
  show ?case using ds es by (intro exI [of _ "ds @ es"]) simp
qed simp

text \<open>Acquiring attachments that are already acquired fetches nothing and writes nothing, the network
  and the database are left exactly as they were, and the result names the stored documents of each
  attachment, archive and members included, in the order of their rows, with no failure.\<close>

lemma reacquire_reuses:
  assumes "\<forall>att \<in> set atts. lineage_acquired env tid (ta_source_url att) w = Inr True"
  shows "\<exists>r. acquire env tid atts w = (Inr r, w) \<and> ar_failures r = []
    \<and> map ad_document_id (ar_documents r)
      = concat (map (\<lambda>att. map dc_id (lineage_rows tid (ta_source_url att) (qw_documents w))) atts)"
  using acquire_each_reused [OF assms, of empty_acquisition] by (auto simp: acquire_def)

definition demo_acquired_world :: "nat acquire_world" where
  "demo_acquired_world = \<lparr>qw_documents = [(new_document 1 3 ''http://h/a'' ''a.txt'' None)
       \<lparr>dc_checksum := Some ''c'', dc_storage_path := Some ''k'', dc_download_status := ''downloaded''\<rparr>],
     qw_objects = (\<lambda>p. if p = [''k''] then Some [7, 7] else None), qw_ext = 0\<rparr>"

lemma demo_acquired_lineage:
  "lineage_rows 3 ''http://h/a'' (qw_documents demo_acquired_world) = qw_documents demo_acquired_world"
  by (simp add: lineage_rows_def demo_acquired_world_def new_document_def)

lemma demo_faultless: "no_faults demo_acquire_env"
  by (simp add: no_faults_def demo_acquire_env_def)

lemma demo_acquired_nonempty: "qw_documents demo_acquired_world \<noteq> []"
  by (simp add: demo_acquired_world_def)

lemma demo_key: "resolve_key ''k'' = Some [''k'']"
  by (simp add: resolve_key_def)

section \<open>Bytes the tender already has\<close>

lemma sort_key_empty_iff: "sort_key f xs = [] \<longleftrightarrow> xs = []"
  by (metis set_empty set_sort)

lemma lineage_empty_find: "lineage_rows tid url docs = [] \<Longrightarrow> find_row tid url name docs = None"
proof -
  assume empty: "lineage_rows tid url docs = []"
  have "filter (\<lambda>d. dc_tender_id d = tid \<and> (dc_source_url d = url \<or> has_prefix (url @ ''!/'') (dc_source_url d))) docs = []"
    using empty unfolding lineage_rows_def sort_key_empty_iff .
  then have "\<forall>d \<in> set docs. \<not> (dc_tender_id d = tid \<and> dc_source_url d = url \<and> dc_filename d = name)"
    unfolding filter_empty_conv by blast
  then have "filter (\<lambda>d. dc_tender_id d = tid \<and> dc_source_url d = url \<and> dc_filename d = name) docs = []"
    unfolding filter_empty_conv .
  then show ?thesis by (simp only: find_row_def Let_def) simp
qed

lemma fetched_file:
  assumes "no_faults env" "lineage_rows tid (ta_source_url att) (qw_documents w) = []"
    and "sv_fetch env (ta_source_url att) (qw_ext w) = (Inr response, ext)"
    and "validate_response response att = Inr ()" "\<not> is_archive att response"
  shows "acquire_attachment env tid att w = (case acquire_file env tid (ta_source_url att) (ta_filename att)
      (dr_content response) (mime_for env response (ta_filename att)) None (w\<lparr>qw_ext := ext\<rparr>) of
        (Inl (Acquisition e), w1) \<Rightarrow>
         (Inr \<lparr>ar_documents = [], ar_failures = [acquisition_failure_of e (ta_source_url att) (ta_filename att)]\<rparr>,
          mark_failed env tid (ta_source_url att) (ta_filename att) w1)
     | (Inl (OtherExn t), w1) \<Rightarrow> (Inl (OtherExn t), w1)
     | (Inr r, w1) \<Rightarrow> (Inr r, w1))"
  using assms by (simp add: acquire_attachment_def lineage_acquired_def no_faults_def acquire_fetched_def Let_def)

lemma persist_conflict:
  assumes "sv_db_fault env (DbPersist url name) w = None" "staged_row tid url name mime (qw_documents w) = (row, docs)"
    and "record_download (dc_id row) c key docs = Inr docs'" "checksum_conflict (dc_id row) tid c docs'"
    and "find_by_checksum tid c (qw_documents w) = Some e"
  shows "\<exists>a. persist_acquired env tid url name c key mime n parent w = (Inr a, w)
    \<and> ad_document_id a = dc_id e \<and> ad_source_url a = dc_source_url e"
  unfolding persist_acquired_def assms(1) option.case assms(2) Let_def prod.case assms(3) sum.case
  using assms(4,5) by simp

text \<open>When an attachment delivers bytes that another row of the tender already has, that row is
  reported, and nothing is recorded under the attachment's own address: the table is as before and
  the attachment still counts as not acquired, so every later run fetches it again.\<close>

lemma duplicate_bytes_never_recorded:
  assumes "documents_inv (sv_checksum env) w" "hex_checksum (sv_checksum env)" "no_faults env"
    and "lineage_rows tid (ta_source_url att) (qw_documents w) = []"
    and "sv_fetch env (ta_source_url att) (qw_ext w) = (Inr response, ext)"
    and "validate_response response att = Inr ()" "\<not> is_archive att response"
    and "d \<in> set (qw_documents w)" "dc_tender_id d = tid" "dc_checksum d = Some (sv_checksum env (dr_content response))"
  shows "\<exists>a w'. acquire_attachment env tid att w = (Inr \<lparr>ar_documents = [a], ar_failures = []\<rparr>, w')
    \<and> ad_document_id a = dc_id d \<and> ad_source_url a = dc_source_url d
    \<and> qw_documents w' = qw_documents w \<and> qw_ext w' = ext
    \<and> lineage_acquired env tid (ta_source_url att) w' = Inr False"
proof -
  let ?url = "ta_source_url att" and ?name = "ta_filename att" and ?c = "sv_checksum env (dr_content response)"
  let ?key = "storage_key tid ?c ?name" and ?mime = "mime_for env response ?name"
  let ?w0 = "w\<lparr>qw_ext := ext\<rparr>"
  let ?w1 = "?w0\<lparr>qw_objects := (qw_objects w)(key_parts tid ?c ?name \<mapsto> dr_content response)\<rparr>"
  have dist: "distinct (map dc_id (qw_documents w))" and uni: "checksums_unique (qw_documents w)"
    using assms(1) by (simp_all add: documents_inv_def)
  have none: "find_row tid ?url ?name (qw_documents w) = None" by (rule lineage_empty_find [OF assms(4)])
  have put: "storage_put env ?key (dr_content response) ?w0 = (Inr (int (length (dr_content response))), ?w1)"
    using assms(2,3) resolve_storage_key [of ?c tid ?name] by (simp add: storage_put_def no_faults_def hex_checksum_def)
  obtain row docs where staged: "staged_row tid ?url ?name ?mime (qw_documents w) = (row, docs)" by fastforce
  note spec = staged_row_spec [OF staged dist]
  have row: "dc_id row = next_document_id (qw_documents w)"
    using staged none by (auto simp: staged_row_def Let_def new_document_def)
  have old: "dc_id d \<noteq> dc_id row" using next_document_id_fresh [OF assms(8)] row by simp
  let ?new = "row\<lparr>dc_checksum := Some ?c, dc_storage_path := Some ?key, dc_download_status := ''downloaded''\<rparr>"
  have "d \<in> set docs" using spec(5) assms(8) old by blast
  then have conflict: "checksum_conflict (dc_id row) tid ?c (put_document ?new docs)"
    using old assms(9,10) by (auto simp: checksum_conflict_def list_ex_iff set_put_document)
  obtain e where e: "find_by_checksum tid ?c (qw_documents w) = Some e"
    using assms(8-10) by (cases "find_by_checksum tid ?c (qw_documents w)") (auto simp: find_by_checksum_def find_None_iff)
  then have in': "e \<in> set (qw_documents w)" "dc_tender_id e = tid" "dc_checksum e = Some ?c"
    using find_by_checksum_some by blast+
  then have "dc_id e = dc_id d"
    using checksums_unique_row [OF uni assms(8)] assms(9,10) by (metis option.distinct(1))
  then have "e = d"
    using get_document_present [OF dist in'(1)] get_document_present [OF dist assms(8)] by (metis option.inject)
  have nofault: "sv_db_fault env (DbPersist ?url ?name) ?w1 = None" using assms(3) by (simp add: no_faults_def)
  have staged1: "staged_row tid ?url ?name ?mime (qw_documents ?w1) = (row, docs)" using staged by simp
  have found1: "find_by_checksum tid ?c (qw_documents ?w1) = Some d" using e \<open>e = d\<close> by simp
  have "\<exists>a. persist_acquired env tid ?url ?name ?c ?key ?mime (int (length (dr_content response))) None ?w1
      = (Inr a, ?w1) \<and> ad_document_id a = dc_id d \<and> ad_source_url a = dc_source_url d"
    by (rule persist_conflict [OF nofault staged1 record_download_row [OF spec(1,2)] conflict found1])
  then obtain a where a: "persist_acquired env tid ?url ?name ?c ?key ?mime (int (length (dr_content response))) None ?w1
      = (Inr a, ?w1)" "ad_document_id a = dc_id d" "ad_source_url a = dc_source_url d" by blast
  have "acquire_file env tid ?url ?name (dr_content response) ?mime None ?w0
      = (Inr \<lparr>ar_documents = [a], ar_failures = []\<rparr>, ?w1)"
    using none put a(1) assms(3) by (simp add: acquire_file_def find_acquired_def no_faults_def Let_def)
  then have "acquire_attachment env tid att w = (Inr \<lparr>ar_documents = [a], ar_failures = []\<rparr>, ?w1)"
    using fetched_file [OF assms(3-7)] by simp
  moreover have "lineage_acquired env tid ?url ?w1 = Inr False"
    using assms(3,4) by (simp add: lineage_acquired_def no_faults_def)
  ultimately show ?thesis using a(2,3) by (intro exI [of _ a] exI [of _ ?w1]) simp
qed

text \<open>A second address of the file that \<open>demo_acquired_world\<close> holds, and that file's own bytes.\<close>

definition demo_same_bytes :: tender_attachment where
  "demo_same_bytes = \<lparr>ta_source_url = ''http://h/b'', ta_filename = ''b.txt'', ta_mime_type = None,
     ta_advertised_size_bytes = None, ta_is_zip = False\<rparr>"

definition demo_held_world :: "nat acquire_world" where
  "demo_held_world = \<lparr>qw_documents = [(new_document 1 3 ''http://h/a'' ''a.txt'' None)
       \<lparr>dc_checksum := Some ''c'', dc_storage_path := Some (storage_key 3 ''c'' ''a.txt''), dc_download_status := ''downloaded''\<rparr>],
     qw_objects = (\<lambda>p. if p = key_parts 3 ''c'' ''a.txt'' then Some [7, 7] else None), qw_ext = 0\<rparr>"

lemma demo_held_inv: "documents_inv (sv_checksum demo_acquire_env) demo_held_world"
  by (auto simp: documents_inv_def checksums_unique_def row_ok_def objects_ok_def holds_object_def demo_held_world_def
      demo_acquire_env_def new_document_def DOWNLOAD_STATUSES_def key_parts_def)

lemma demo_held_rows: "lineage_rows 3 ''http://h/b'' (qw_documents demo_held_world) = []"
  by (simp add: lineage_rows_def demo_held_world_def new_document_def)

lemma demo_plain: "validate_response \<lparr>dr_status_code = 200, dr_headers = [], dr_content = [7, 7], dr_url = u\<rparr> demo_same_bytes = Inr ()"
  "\<not> is_archive demo_same_bytes \<lparr>dr_status_code = 200, dr_headers = [], dr_content = [7, 7], dr_url = u\<rparr>"
  by (simp_all add: validate_response_def response_is_html_def content_type_def is_archive_def demo_same_bytes_def
      ends_with_def py_lower_def py_lower_char_def looks_like_zip_def)

section \<open>Members that were rejected or cannot be read\<close>

lemma put_document_last:
  "\<forall>e \<in> set docs. dc_id e \<noteq> dc_id d \<Longrightarrow> dc_id d = dc_id row \<Longrightarrow> put_document d (docs @ [row]) = docs @ [d]"
  by (auto simp: put_document_def intro: map_idI)

lemma acquire_file_fresh:
  assumes "documents_inv (sv_checksum env) w" "hex_checksum (sv_checksum env)" "no_faults env"
    and "find_row tid url name (qw_documents w) = None"
    and "find_by_checksum tid (sv_checksum env content) (qw_documents w) = None"
  shows "\<exists>a d w'. acquire_file env tid url name content mime parent w = (Inr \<lparr>ar_documents = [a], ar_failures = []\<rparr>, w')
    \<and> qw_documents w' = qw_documents w @ [d] \<and> dc_tender_id d = tid \<and> dc_source_url d = url
    \<and> row_is_acquired d w' = Inr True \<and> qw_ext w' = qw_ext w"
proof -
  let ?c = "sv_checksum env content" and ?docs = "qw_documents w"
  let ?key = "storage_key tid ?c name" and ?row = "new_document (next_document_id (qw_documents w)) tid url name mime"
  let ?new = "?row\<lparr>dc_checksum := Some ?c, dc_storage_path := Some ?key, dc_download_status := ''downloaded''\<rparr>"
  let ?w1 = "w\<lparr>qw_objects := (qw_objects w)(key_parts tid ?c name \<mapsto> content)\<rparr>"
  let ?w2 = "?w1\<lparr>qw_documents := ?docs @ [?new]\<rparr>"
  have plain: "plain_segment ?c" using assms(2) by (simp add: hex_checksum_def)
  have put: "storage_put env ?key content w = (Inr (int (length content)), ?w1)"
    using assms(3) resolve_storage_key [OF plain] by (simp add: storage_put_def no_faults_def)
  have dist: "distinct (map dc_id ?docs)" using assms(1) by (simp add: documents_inv_def)
  have fresh: "\<forall>e \<in> set ?docs. dc_id e \<noteq> dc_id ?new" using next_document_id_fresh by (fastforce simp: new_document_def)
  have staged: "staged_row tid url name mime (qw_documents ?w1) = (?row, ?docs @ [?row])"
    using assms(4) by (simp add: staged_row_def Let_def)
  have dist1: "distinct (map dc_id (?docs @ [?row]))" using dist fresh by auto
  have rec: "record_download (dc_id ?row) ?c ?key (?docs @ [?row]) = Inr (?docs @ [?new])"
    using record_download_row [OF dist1, of ?row ?c ?key] put_document_last [OF fresh, of ?row] by simp
  have free: "\<not> checksum_conflict (dc_id ?row) tid ?c (?docs @ [?new])"
    using assms(5) by (auto simp: checksum_conflict_def list_ex_iff find_by_checksum_def find_None_iff)
  have nofault: "sv_db_fault env (DbPersist url name) ?w1 = None" using assms(3) by (simp add: no_faults_def)
  have "\<exists>a. persist_acquired env tid url name ?c ?key mime (int (length content)) parent ?w1 = (Inr a, ?w2)"
    unfolding persist_acquired_def nofault option.case staged Let_def prod.case rec sum.case using free by simp
  then obtain a where per: "persist_acquired env tid url name ?c ?key mime (int (length content)) parent ?w1 = (Inr a, ?w2)"
    by blast
  have "acquire_file env tid url name content mime parent w = (Inr \<lparr>ar_documents = [a], ar_failures = []\<rparr>, ?w2)"
    using assms(3,4) put per by (simp add: acquire_file_def find_acquired_def no_faults_def Let_def)
  moreover have "row_is_acquired ?new ?w2 = Inr True"
    using plain resolve_storage_key [OF plain, of tid name]
    by (simp add: row_is_acquired_def storage_exists_def plain_segment_def storage_key_def)
  moreover have "qw_documents ?w2 = ?docs @ [?new]" "dc_tender_id ?new = tid" "dc_source_url ?new = url" "qw_ext ?w2 = qw_ext w"
    by (simp_all add: new_document_def)
  ultimately show ?thesis by blast
qed

text \<open>An archive whose members are all rejected is reported with a failure for each of them on the
  first run only: the archive's own row is all that is stored, so the next run finds the attachment
  acquired, fetches nothing and reports no failure.\<close>

lemma rejected_members_forgotten:
  assumes "documents_inv (sv_checksum env) w" "hex_checksum (sv_checksum env)" "no_faults env"
    and "lineage_rows tid (ta_source_url att) (qw_documents w) = []"
    and "sv_fetch env (ta_source_url att) (qw_ext w) = (Inr response, ext)"
    and "validate_response response att = Inr ()" "is_archive att response"
    and "find_by_checksum tid (sv_checksum env (dr_content response)) (qw_documents w) = None"
    and "safe_extract_archive (sv_zip env) (sv_limits env) (dr_content response) = Inr report"
    and "zr_entries report = []" "zr_member_failures report \<noteq> []"
  shows "\<exists>r w' r'. acquire_attachment env tid att w = (Inr r, w')
    \<and> length (ar_failures r) = length (zr_member_failures report)
    \<and> acquire_attachment env tid att w' = (Inr r', w') \<and> ar_failures r' = []"
proof -
  let ?url = "ta_source_url att" and ?name = "ta_filename att"
  let ?w0 = "w\<lparr>qw_ext := ext\<rparr>"
  have inv0: "documents_inv (sv_checksum env) ?w0"
    using assms(1) by (simp add: documents_inv_def row_ok_def objects_ok_def holds_object_def)
  have none: "find_row tid ?url ?name (qw_documents ?w0) = None" using lineage_empty_find [OF assms(4)] by simp
  have none': "find_by_checksum tid (sv_checksum env (dr_content response)) (qw_documents ?w0) = None" using assms(8) by simp
  obtain a d w' where stored: "acquire_file env tid ?url ?name (dr_content response) (mime_for env response ?name) None ?w0
      = (Inr \<lparr>ar_documents = [a], ar_failures = []\<rparr>, w')"
    and docs: "qw_documents w' = qw_documents ?w0 @ [d]" "dc_tender_id d = tid" "dc_source_url d = ?url"
    and acq: "row_is_acquired d w' = Inr True"
    using acquire_file_fresh [OF inv0 assms(2,3) none none', of "mime_for env response ?name" None] by blast
  let ?r = "merge_results (add_failures (member_failures ?url report) \<lparr>ar_documents = [a], ar_failures = []\<rparr>) empty_acquisition"
  have "acquire_archive env tid att response ?w0 = (Inr ?r, w')"
    using assms(9,10) stored by (simp add: acquire_archive_def)
  then have first: "acquire_attachment env tid att w = (Inr ?r, w')"
    using assms(3-7) by (simp add: acquire_attachment_def lineage_acquired_def no_faults_def acquire_fetched_def Let_def)
  have "lineage_rows tid ?url (qw_documents w') = [d]"
    using assms(4) docs unfolding lineage_rows_def by (simp add: sort_key_empty_iff)
  then have "lineage_acquired env tid ?url w' = Inr True"
    using assms(3) acq by (simp add: lineage_acquired_def no_faults_def raised_def)
  from lineage_reused [OF this] first show ?thesis by (auto simp: member_failures_def)
qed

lemma acquire_each_append:
  "acquire_each env tid (as @ bs) acc w = (case acquire_each env tid as acc w of
     (Inl e, w1) \<Rightarrow> (Inl e, w1) | (Inr acc', w1) \<Rightarrow> acquire_each env tid bs acc' w1)"
  by (induction as arbitrary: acc w) (auto split: prod.splits sum.splits)

text \<open>The members before the one that cannot be read may be of any kind the loop survives.\<close>

lemma extract_infos_escapes:
  assumes "\<forall>i \<in> set before. 0 \<le> zi_file_size i
      \<and> (admitted limits i \<longrightarrow> readable lib data i \<or> zb_read lib data i = Inl BadZipFile)"
    and "admitted limits info" "zb_read lib data info = Inl e" "e \<noteq> BadZipFile"
  shows "0 \<le> zi_file_size info \<Longrightarrow>
     seen + sum_list (map zi_file_size (counted limits (before @ [info]))) \<le> zl_max_total_uncompressed_bytes limits \<Longrightarrow>
     extract_infos lib limits data (before @ info # after') seen r = Inl (OtherExn (zip_exn_name e))"
  using assms(1)
proof (induction before arbitrary: seen r)
  case Nil
  then show ?case using assms(2-4) by (cases e) (simp_all add: admitted_def counted_def file_members_def Let_def)
next
  case (Cons i before)
  have rest: "0 \<le> sum_list (map zi_file_size (counted limits (before @ [info])))"
    using Cons.prems(1,3) by (intro sum_list_nonneg) (auto simp: counted_def file_members_def split: if_splits)
  note IH = Cons.IH [OF Cons.prems(1)]
  show ?case
  proof (cases "is_directory (zi_filename i) \<or> rejected_by_name limits i \<noteq> None")
    case True
    then have count: "counted limits ((i # before) @ [info]) = counted limits (before @ [info])"
      by (auto simp: counted_def file_members_def)
    have seen: "seen + sum_list (map zi_file_size (counted limits (before @ [info]))) \<le> zl_max_total_uncompressed_bytes limits"
      using Cons.prems(2) unfolding count .
    have others: "\<forall>i \<in> set before. 0 \<le> zi_file_size i
      \<and> (admitted limits i \<longrightarrow> readable lib data i \<or> zb_read lib data i = Inl BadZipFile)" using Cons.prems(3) by simp
    show ?thesis
    proof (cases "is_directory (zi_filename i)")
      case True
      then show ?thesis by (simp add: IH [OF seen others])
    next
      case False
      then obtain reason where "rejected_by_name limits i = Some reason" using True by auto
      then show ?thesis using False by (simp add: IH [OF seen others])
    qed
  next
    case False
    then have count: "counted limits ((i # before) @ [info]) = i # counted limits (before @ [info])"
      by (simp add: counted_def file_members_def)
    have within: "\<not> seen + zi_file_size i > zl_max_total_uncompressed_bytes limits"
      using Cons.prems(2) rest unfolding count by simp
    have seen': "seen + zi_file_size i + sum_list (map zi_file_size (counted limits (before @ [info]))) \<le> zl_max_total_uncompressed_bytes limits"
      using Cons.prems(2) unfolding count by simp
    have others: "\<forall>i \<in> set before. 0 \<le> zi_file_size i
      \<and> (admitted limits i \<longrightarrow> readable lib data i \<or> zb_read lib data i = Inl BadZipFile)" using Cons.prems(3) by simp
    show ?thesis
    proof (cases "rejected_by_size limits i")
      case None
      then have "admitted limits i" using False by (simp add: admitted_def)
      then have "readable lib data i \<or> zb_read lib data i = Inl BadZipFile" using Cons.prems(3) by simp
      then show ?thesis using False None within IH [OF seen' others]
        by (auto simp: readable_def is_ok_def Let_def split: sum.splits)
    next
      case (Some reason)
      then show ?thesis using False within IH [OF seen' others] by (auto simp: Let_def)
    qed
  qed
qed

text \<open>C18: the first member of an attachment's archive whose read raises something other than \<open>BadZipFile\<close> (an
  encrypted member raises \<open>RuntimeError\<close>, a compression method the interpreter lacks \<open>NotImplementedError\<close>),
  after any members that were read, rejected or corrupt, ends the acquisition of the whole tender: the call
  raises, what the earlier attachments gave is not reported, the later ones are not tried, and the
  failed attachment leaves no row.\<close>

theorem unreadable_member_escapes:
  assumes "acquire_each env tid atts empty_acquisition w = (Inr acc, w1)"
    and "lineage_acquired env tid (ta_source_url att) w1 = Inr False"
    and "sv_fetch env (ta_source_url att) (qw_ext w1) = (Inr response, ext)"
    and "validate_response response att = Inr ()" "is_archive att response"
    and "zb_open (sv_zip env) (dr_content response) = Inr (before @ info # after')"
    and "int (length (before @ info # after')) \<le> zl_max_members (sv_limits env)"
    and "sum_list (map zi_file_size (counted (sv_limits env) (before @ [info]))) \<le> zl_max_total_uncompressed_bytes (sv_limits env)"
    and "\<forall>i \<in> set before. 0 \<le> zi_file_size i \<and> (admitted (sv_limits env) i \<longrightarrow>
        readable (sv_zip env) (dr_content response) i \<or> zb_read (sv_zip env) (dr_content response) i = Inl BadZipFile)"
    and "admitted (sv_limits env) info" "0 \<le> zi_file_size info"
    and "zb_read (sv_zip env) (dr_content response) info = Inl e" "e \<noteq> BadZipFile"
  shows "acquire env tid (atts @ att # later) w = (Inl (OtherExn (zip_exn_name e)), w1\<lparr>qw_ext := ext\<rparr>)"
proof -
  have "extract_infos (sv_zip env) (sv_limits env) (dr_content response) (before @ info # after') 0 empty_report
      = Inl (OtherExn (zip_exn_name e))"
    by (rule extract_infos_escapes) (use assms(8-13) in simp_all)
  then have "safe_extract_archive (sv_zip env) (sv_limits env) (dr_content response) = Inl (OtherExn (zip_exn_name e))"
    using assms(6,7) by (simp add: safe_extract_archive_def)
  then have "acquire_attachment env tid att w1 = (Inl (OtherExn (zip_exn_name e)), w1\<lparr>qw_ext := ext\<rparr>)"
    using assms(2-5) by (simp add: acquire_attachment_def acquire_fetched_def acquire_archive_def Let_def)
  then show ?thesis using assms(1) by (simp add: acquire_def acquire_each_append)
qed

text \<open>An archive with one member, rejected by its name, and one with an encrypted member.\<close>

definition demo_archive_env :: "string \<Rightarrow> nat acquire_env" where
  "demo_archive_env name = demo_acquire_env\<lparr>sv_zip := \<lparr>zb_open = (\<lambda>b. Inr [\<lparr>zi_filename = name,
       zi_external_attr = 0, zi_file_size = 2, zi_compress_size = 2\<rparr>]),
     zb_read = (\<lambda>b i. Inl (ZipOther ''RuntimeError''))\<rparr>\<rparr>"

lemma demo_archive_parts:
  "no_faults (demo_archive_env n)" "sv_limits (demo_archive_env n) = default_limits"
  "sv_checksum (demo_archive_env n) = (\<lambda>b. ''c'')"
  "sv_fetch (demo_archive_env n) u k = (Inr \<lparr>dr_status_code = 200, dr_headers = [], dr_content = [7, 7], dr_url = u\<rparr>, k + 1)"
  by (simp_all add: demo_archive_env_def demo_acquire_env_def no_faults_def)

lemma demo_archive_valid:
  "validate_response \<lparr>dr_status_code = 200, dr_headers = [], dr_content = [7, 7], dr_url = u\<rparr> (demo_attachment True) = Inr ()"
  "is_archive (demo_attachment True) r"
  by (simp_all add: validate_response_def response_is_html_def content_type_def is_archive_def)

theorem unreadable_member_escapes_witness:
  "fst (acquire (demo_archive_env ''x'') 3 ([] @ demo_attachment True # [demo_same_bytes]) demo_acquire_world)
     = Inl (OtherExn ''RuntimeError'')"
proof -
  let ?info = "\<lparr>zi_filename = ''x'', zi_external_attr = 0, zi_file_size = 2, zi_compress_size = 2\<rparr> :: zip_info"
  have each: "acquire_each (demo_archive_env ''x'') 3 [] empty_acquisition demo_acquire_world = (Inr empty_acquisition, demo_acquire_world)"
    by simp
  have "rejected_by_name default_limits ?info = None" "rejected_by_size default_limits ?info = None"
    "\<not> is_directory (zi_filename ?info)" by code_simp+
  then have adm: "admitted (sv_limits (demo_archive_env ''x'')) ?info"
    unfolding demo_archive_parts(2) admitted_def by blast
  have rows: "lineage_rows 3 (ta_source_url (demo_attachment True)) (qw_documents demo_acquire_world) = []"
    by (simp add: demo_acquire_world_def lineage_rows_def)
  have zip: "zb_open (sv_zip (demo_archive_env ''x'')) b = Inr [?info]"
    "zb_read (sv_zip (demo_archive_env ''x'')) b ?info = Inl (ZipOther ''RuntimeError'')" for b
    by (simp_all add: demo_archive_env_def)
  have lineage: "lineage_acquired (demo_archive_env ''x'') 3 (ta_source_url (demo_attachment True)) demo_acquire_world = Inr False"
    using rows demo_archive_parts(1) [of "''x''"] by (simp add: lineage_acquired_def no_faults_def)
  have "counted (sv_limits (demo_archive_env ''x'')) ([] @ [?info]) = [?info]"
    using adm by (simp add: counted_def file_members_def admitted_def)
  then have small: "sum_list (map zi_file_size (counted (sv_limits (demo_archive_env ''x'')) ([] @ [?info])))
      \<le> zl_max_total_uncompressed_bytes (sv_limits (demo_archive_env ''x''))"
    by (simp add: demo_archive_parts(2) default_limits_def)
  have members: "int (length ([] @ [?info])) \<le> zl_max_members (sv_limits (demo_archive_env ''x''))"
    by (simp add: demo_archive_parts(2) default_limits_def)
  have "zb_open (sv_zip (demo_archive_env ''x'')) b = Inr ([] @ [?info])" for b using zip(1) by simp
  from unreadable_member_escapes [OF each lineage demo_archive_parts(4) demo_archive_valid this members small _ adm _ zip(2),
      of "[demo_same_bytes]"]
  show ?thesis by simp
qed

end
