(* ===== verification/Stages.thy ===== *)
theory Stages
  imports Backoff
begin

text \<open>
  The vocabulary of a pipeline run, \<open>orchestrator/status.py\<close>, and the runner that executes one
  stage, \<open>orchestrator/stages.py\<close>.  A stage acts on the caller's world and either returns its
  report with a payload or raises; the runner turns both into a recorded outcome.  The clock is a
  reading of the world and the ambient correlation id an argument.
\<close>

section \<open>Exceptions\<close>

text \<open>What the code reads of an exception: the name of its type, and its \<open>error_code\<close> and
  \<open>message\<close> attributes, \<open>None\<close> where it has no such attribute.\<close>

record exn =
  ex_type :: string
  ex_code :: "string option"
  ex_message :: "string option"

type_synonym ('w, 'a) action = "'w \<Rightarrow> (exn, 'a) result \<times> 'w"

definition error_code_of :: "exn \<Rightarrow> string" where
  "error_code_of x = py_or (ex_code x) STAGE_FAILED"

definition MAX_MESSAGE_CHARS :: nat where
  "MAX_MESSAGE_CHARS = 300"

definition safe_message :: "exn \<Rightarrow> string" where
  "safe_message x =
     (let text = collapse_space (py_or (ex_message x) (ex_type x))
      in if length text > MAX_MESSAGE_CHARS then take (MAX_MESSAGE_CHARS - 3) text @ ''...'' else text)"

lemma safe_message_bounded: "length (safe_message x) \<le> MAX_MESSAGE_CHARS"
  by (simp add: safe_message_def Let_def MAX_MESSAGE_CHARS_def)

lemma error_code_of_nonempty: "error_code_of x \<noteq> []"
  by (simp add: error_code_of_def py_or_nonempty)

section \<open>Stages and statuses\<close>

datatype stage_status = SPending | SRunning | SCompleted | SPartial | SFailed | SSkippedNotImplemented

definition stage_status_value :: "stage_status \<Rightarrow> string" where
  "stage_status_value s = (case s of SPending \<Rightarrow> ''PENDING'' | SRunning \<Rightarrow> ''RUNNING''
     | SCompleted \<Rightarrow> ''COMPLETED'' | SPartial \<Rightarrow> ''PARTIAL'' | SFailed \<Rightarrow> ''FAILED''
     | SSkippedNotImplemented \<Rightarrow> ''SKIPPED_NOT_IMPLEMENTED'')"

datatype run_status = RRunning | RCompleted | RPartial | RFailed | RDryRun

definition run_status_value :: "run_status \<Rightarrow> string" where
  "run_status_value s = (case s of RRunning \<Rightarrow> ''RUNNING'' | RCompleted \<Rightarrow> ''COMPLETED''
     | RPartial \<Rightarrow> ''PARTIAL'' | RFailed \<Rightarrow> ''FAILED'' | RDryRun \<Rightarrow> ''DRY_RUN'')"

datatype stage_number = Discovery | Deduplication | Persistence | Detail | Acquisition | Processing
  | Triage | Verdict | Notification

definition stage_value :: "stage_number \<Rightarrow> string" where
  "stage_value s = (case s of Discovery \<Rightarrow> ''04-discovery'' | Deduplication \<Rightarrow> ''05-dedup''
     | Persistence \<Rightarrow> ''06-persistence'' | Detail \<Rightarrow> ''07-detail-document-discovery''
     | Acquisition \<Rightarrow> ''08-acquisition'' | Processing \<Rightarrow> ''09-processing'' | Triage \<Rightarrow> ''13-triage''
     | Verdict \<Rightarrow> ''14-verdict'' | Notification \<Rightarrow> ''15-notification'')"

definition STAGE_ORDER :: "stage_number list" where
  "STAGE_ORDER = [Discovery, Deduplication, Persistence, Detail, Acquisition, Processing, Triage,
     Verdict, Notification]"

text \<open>The order of declaration is the order of execution: stages are ordered by it.\<close>

primrec stage_rank :: "stage_number \<Rightarrow> nat" where
  "stage_rank Discovery = 0"
| "stage_rank Deduplication = 1"
| "stage_rank Persistence = 2"
| "stage_rank Detail = 3"
| "stage_rank Acquisition = 4"
| "stage_rank Processing = 5"
| "stage_rank Triage = 6"
| "stage_rank Verdict = 7"
| "stage_rank Notification = 8"

lemma stage_rank_inj: "stage_rank s = stage_rank t \<Longrightarrow> s = t"
  by (cases s; cases t) simp_all

instantiation stage_number :: linorder
begin

definition less_eq_stage_number :: "stage_number \<Rightarrow> stage_number \<Rightarrow> bool" where
  "less_eq_stage_number s t = (stage_rank s \<le> stage_rank t)"

definition less_stage_number :: "stage_number \<Rightarrow> stage_number \<Rightarrow> bool" where
  "less_stage_number s t = (stage_rank s < stage_rank t)"

instance
  by standard (auto simp: less_eq_stage_number_def less_stage_number_def stage_rank_inj)

end

lemma stage_order_all: "s \<in> set STAGE_ORDER"
  by (cases s) (simp_all add: STAGE_ORDER_def)

lemma stage_order_sorted: "sorted STAGE_ORDER" "distinct STAGE_ORDER"
  by (simp_all add: STAGE_ORDER_def less_eq_stage_number_def)

lemma stage_value_inj: "stage_value s = stage_value t \<Longrightarrow> s = t"
  by (cases s; cases t) (simp_all add: stage_value_def)

text \<open>A list of stages in strictly increasing order with every stage in it is \<open>STAGE_ORDER\<close>.\<close>

lemma stages_in_order:
  assumes "sorted xs" "distinct xs" "set xs = UNIV"
  shows "xs = STAGE_ORDER"
  using sorted_distinct_set_unique [OF assms(1,2) stage_order_sorted] assms(3) stage_order_all by auto

section \<open>What is recorded of a stage and of a run\<close>

record stage_outcome =
  so_stage :: stage_number
  so_status :: stage_status
  so_correlation_id :: string
  so_started_at :: instant
  so_ended_at :: instant
  so_error_code :: "string option"
  so_message :: "string option"
  so_detail :: "string option"
  so_item_count :: int
  so_failed_items :: int
  so_attempts :: int

definition stage_duration_seconds :: "stage_outcome \<Rightarrow> real" where
  "stage_duration_seconds o' = max 0 (real_of_int (so_ended_at o' - so_started_at o') / 1000000)"

record run_report =
  rr_source_id :: int
  rr_source_name :: string
  rr_correlation_id :: string
  rr_status :: run_status
  rr_started_at :: instant
  rr_ended_at :: instant
  rr_stages :: "stage_outcome list"
  rr_run_history_id :: "int option"
  rr_config_version :: "int option"
  rr_failed_stage :: "stage_number option"
  rr_error_code :: "string option"
  rr_tenders_considered :: int
  rr_documents_acquired :: int
  rr_documents_processed :: int
  rr_dry_run :: bool
  rr_planned_actions :: "string list"

definition report_stage :: "run_report \<Rightarrow> stage_number \<Rightarrow> stage_outcome option" where
  "report_stage r s = List.find (\<lambda>o'. so_stage o' = s) (rr_stages r)"

definition stage_map :: "stage_outcome list \<Rightarrow> (string \<times> string) list" where
  "stage_map os = map (\<lambda>o'. (stage_value (so_stage o'), stage_status_value (so_status o'))) os"

definition report_duration_seconds :: "run_report \<Rightarrow> real" where
  "report_duration_seconds r = max 0 (real_of_int (rr_ended_at r - rr_started_at r) / 1000000)"

section \<open>Running one stage\<close>

record stage_report =
  sg_detail :: "string option"
  sg_item_count :: int
  sg_failed_items :: int
  sg_status :: "stage_status option"
  sg_attempts :: int
  sg_message :: "string option"

definition stage_report_default :: stage_report where
  "stage_report_default = \<lparr>sg_detail = None, sg_item_count = 0, sg_failed_items = 0,
     sg_status = None, sg_attempts = 1, sg_message = None\<rparr>"

record 'a stage_execution =
  se_outcome :: stage_outcome
  se_payload :: "'a option"

definition run_stage ::
  "('w \<Rightarrow> instant) \<Rightarrow> string \<Rightarrow> stage_number \<Rightarrow> ('w, stage_report \<times> 'a) action \<Rightarrow> 'w
     \<Rightarrow> 'a stage_execution \<times> 'w" where
  "run_stage clock cid stage act w =
     (let started = clock w in
      case act w of
        (Inl x, w') \<Rightarrow>
          (\<lparr>se_outcome = \<lparr>so_stage = stage, so_status = SFailed, so_correlation_id = cid,
              so_started_at = started, so_ended_at = clock w',
              so_error_code = Some (error_code_of x), so_message = Some (safe_message x),
              so_detail = None, so_item_count = 0, so_failed_items = 0, so_attempts = 0\<rparr>,
            se_payload = None\<rparr>, w')
      | (Inr (r, payload), w') \<Rightarrow>
          (\<lparr>se_outcome = \<lparr>so_stage = stage,
              so_status = (case sg_status r of Some s \<Rightarrow> s
                 | None \<Rightarrow> if sg_failed_items r > 0 then SPartial else SCompleted),
              so_correlation_id = cid, so_started_at = started, so_ended_at = clock w',
              so_error_code = None, so_message = sg_message r, so_detail = sg_detail r,
              so_item_count = sg_item_count r, so_failed_items = sg_failed_items r,
              so_attempts = sg_attempts r\<rparr>,
            se_payload = Some payload\<rparr>, w'))"

text \<open>An execution has its stage, runs the action once, and is failed exactly when it raised
  (for an action that does not itself report failure).\<close>

lemma run_stage_world: "snd (run_stage clock cid stage act w) = snd (act w)"
  by (simp add: run_stage_def Let_def split: prod.splits sum.splits)

lemma run_stage_stage [simp]: "so_stage (se_outcome (fst (run_stage clock cid stage act w))) = stage"
  by (simp add: run_stage_def Let_def split: prod.splits sum.splits)

lemma run_stage_raises:
  "act w = (Inl x, w') \<Longrightarrow> so_status (se_outcome (fst (run_stage clock cid stage act w))) = SFailed
     \<and> so_error_code (se_outcome (fst (run_stage clock cid stage act w))) = Some (error_code_of x)
     \<and> se_payload (fst (run_stage clock cid stage act w)) = None"
  by (simp add: run_stage_def Let_def)

lemma run_stage_returns:
  "act w = (Inr (r, a), w') \<Longrightarrow>
     so_status (se_outcome (fst (run_stage clock cid stage act w)))
       = (case sg_status r of Some s \<Rightarrow> s | None \<Rightarrow> if sg_failed_items r > 0 then SPartial else SCompleted)
     \<and> so_error_code (se_outcome (fst (run_stage clock cid stage act w))) = None
     \<and> se_payload (fst (run_stage clock cid stage act w)) = Some a"
  by (simp add: run_stage_def Let_def)

lemma run_stage_failed_iff:
  assumes "\<And>r a w'. act w = (Inr (r, a), w') \<Longrightarrow> sg_status r \<noteq> Some SFailed"
  shows "so_status (se_outcome (fst (run_stage clock cid stage act w))) = SFailed
    \<longleftrightarrow> se_payload (fst (run_stage clock cid stage act w)) = None"
  using assms by (auto simp: run_stage_def Let_def split: prod.splits sum.splits option.splits)

end
