(* ===== verification/Scheduler.thy ===== *)
theory Scheduler
  imports TenderStore
begin

text \<open>
  Due-ness of sources: \<open>orchestrator/scheduler.py\<close> on the rows of \<open>db/models/sources.py\<close> and the
  operations of \<open>db/repositories/sources.py\<close> it rests on.
\<close>

section \<open>Rows and snapshots\<close>

record source_row =
  sw_id :: int
  sw_name :: string
  sw_source_type :: string
  sw_base_url :: string
  sw_listing_url :: "string option"
  sw_parser_config :: "(string \<times> json) list option"
  sw_crawl_frequency_minutes :: "int option"
  sw_active :: bool
  sw_last_run_at :: "py_datetime option"
  sw_last_error :: "string option"

record source_spec =
  ss_id :: int
  ss_name :: string
  ss_source_type :: string
  ss_base_url :: string
  ss_listing_url :: "string option"
  ss_active :: bool
  ss_crawl_frequency_minutes :: "int option"
  ss_last_run_at :: "instant option"
  ss_parser_config :: "(string \<times> json) list"

definition spec_of_row :: "source_row \<Rightarrow> source_spec" where
  "spec_of_row r = \<lparr>ss_id = sw_id r, ss_name = sw_name r, ss_source_type = sw_source_type r,
     ss_base_url = sw_base_url r,
     ss_listing_url = (if py_truthy (sw_listing_url r) then sw_listing_url r else None),
     ss_active = sw_active r, ss_crawl_frequency_minutes = sw_crawl_frequency_minutes r,
     ss_last_run_at = map_option instant_of (sw_last_run_at r),
     ss_parser_config = (case sw_parser_config r of None \<Rightarrow> [] | Some c \<Rightarrow> c)\<rparr>"

section \<open>\<open>SourceRepository\<close>\<close>

definition get_source :: "int \<Rightarrow> source_row list \<Rightarrow> source_row option" where
  "get_source sid rows = List.find (\<lambda>r. sw_id r = sid) rows"

definition list_runnable :: "source_row list \<Rightarrow> source_row list" where
  "list_runnable rows = sort_key sw_id (filter sw_active rows)"

definition mark_run :: "int \<Rightarrow> instant \<Rightarrow> string option \<Rightarrow> source_row list \<Rightarrow> source_row list" where
  "mark_run sid stamp error rows = map (\<lambda>r. if sw_id r = sid
     then r\<lparr>sw_last_run_at := Some (Aware stamp 0), sw_last_error := error\<rparr> else r) rows"

section \<open>Decisions\<close>

record schedule_decision =
  sd_spec :: source_spec
  sd_due :: bool
  sd_reason :: string
  sd_next_due_at :: "instant option"

definition minutes :: "int \<Rightarrow> int" where
  "minutes m = m * 60000000"

definition decide :: "source_spec \<Rightarrow> instant \<Rightarrow> schedule_decision" where
  "decide spec now =
     (if \<not> ss_active spec then \<lparr>sd_spec = spec, sd_due = False, sd_reason = ''source is inactive'',
        sd_next_due_at = None\<rparr>
      else case ss_last_run_at spec of
        None \<Rightarrow> \<lparr>sd_spec = spec, sd_due = True, sd_reason = ''source has never run'', sd_next_due_at = None\<rparr>
      | Some last_run \<Rightarrow>
          (let frequency = (case ss_crawl_frequency_minutes spec of None \<Rightarrow> 0 | Some f \<Rightarrow> f) in
           if frequency \<le> 0 then \<lparr>sd_spec = spec, sd_due = True,
             sd_reason = ''no crawl frequency configured; always due'', sd_next_due_at = Some now\<rparr>
           else (let next_due = last_run + minutes frequency in
             if now \<ge> next_due then \<lparr>sd_spec = spec, sd_due = True, sd_reason = ''crawl interval elapsed'',
               sd_next_due_at = Some next_due\<rparr>
             else \<lparr>sd_spec = spec, sd_due = False, sd_reason = ''crawled within its configured interval'',
               sd_next_due_at = Some next_due\<rparr>)))"

definition decisions :: "instant \<Rightarrow> source_row list \<Rightarrow> schedule_decision list" where
  "decisions now rows = map (\<lambda>r. decide (spec_of_row r) now) (list_runnable rows)"

definition due_sources :: "instant \<Rightarrow> source_row list \<Rightarrow> source_spec list" where
  "due_sources now rows = map sd_spec (filter sd_due (decisions now rows))"

definition get_decision :: "instant \<Rightarrow> int \<Rightarrow> source_row list \<Rightarrow> schedule_decision option" where
  "get_decision now sid rows = map_option (\<lambda>r. decide (spec_of_row r) now) (get_source sid rows)"

section \<open>What is due\<close>

lemma decide_spec [simp]: "sd_spec (decide spec now) = spec"
  by (simp add: decide_def Let_def split: option.splits)

lemma decide_due_iff:
  "sd_due (decide spec now) \<longleftrightarrow> ss_active spec \<and>
     (case (ss_last_run_at spec, ss_crawl_frequency_minutes spec) of
        (Some last_run, Some f) \<Rightarrow> 0 < f \<longrightarrow> last_run + minutes f \<le> now
      | _ \<Rightarrow> True)"
  by (auto simp: decide_def Let_def split: option.splits)

lemma decide_due_mono: "sd_due (decide spec now) \<Longrightarrow> now \<le> later \<Longrightarrow> sd_due (decide spec later)"
  by (auto simp: decide_due_iff split: option.splits)

lemma list_runnable_set: "set (list_runnable rows) = {r \<in> set rows. sw_active r}"
  by (simp add: list_runnable_def)

lemma due_sources_iff:
  "spec \<in> set (due_sources now rows) \<longleftrightarrow>
     (\<exists>r \<in> set rows. sw_active r \<and> spec = spec_of_row r \<and> sd_due (decide spec now))"
  by (force simp: due_sources_def decisions_def list_runnable_set image_iff)

lemma mark_run_ids [simp]: "map sw_id (mark_run sid stamp e rows) = map sw_id rows"
  by (simp add: mark_run_def)

lemma get_source_mark_run:
  "get_source sid (mark_run sid stamp e rows) = map_option
     (\<lambda>r. r\<lparr>sw_last_run_at := Some (Aware stamp 0), sw_last_error := e\<rparr>) (get_source sid rows)"
  by (induction rows) (auto simp: get_source_def mark_run_def)

lemma get_source_mark_other:
  "sid \<noteq> sid' \<Longrightarrow> get_source sid (mark_run sid' stamp e rows) = get_source sid rows"
  by (induction rows) (auto simp: get_source_def mark_run_def)

lemma instant_of_utc [simp]: "instant_of (Aware t 0) = t"
  by (simp add: instant_of_def)

text \<open>A source that ends a run at an instant is due again exactly when it is active and its
  crawl interval, if it has a positive one, has elapsed since; the stamp leaves every other
  source's decision as it was, and the sources of a pass come in the order of their ids.\<close>

lemma due_after_run:
  assumes "get_source sid rows = Some r"
  shows "map_option sd_due (get_decision now sid (mark_run sid stamp error rows)) = Some (sw_active r
      \<and> (case sw_crawl_frequency_minutes r of None \<Rightarrow> True | Some f \<Rightarrow> f \<le> 0 \<or> stamp + minutes f \<le> now))
    \<and> (\<forall>other. other \<noteq> sid \<longrightarrow>
         get_decision now other (mark_run sid stamp error rows) = get_decision now other rows)
    \<and> sorted (map ss_id (due_sources now rows))"
proof (intro conjI allI impI)
  show "map_option sd_due (get_decision now sid (mark_run sid stamp error rows)) = Some (sw_active r
      \<and> (case sw_crawl_frequency_minutes r of None \<Rightarrow> True | Some f \<Rightarrow> f \<le> 0 \<or> stamp + minutes f \<le> now))"
    using assms by (auto simp: get_decision_def get_source_mark_run decide_due_iff spec_of_row_def
        split: option.splits)
  show "get_decision now other (mark_run sid stamp error rows) = get_decision now other rows"
    if "other \<noteq> sid" for other
    using that by (simp add: get_decision_def get_source_mark_other)
  have "map ss_id (due_sources now rows)
      = map sw_id (filter (\<lambda>r. sd_due (decide (spec_of_row r) now)) (list_runnable rows))"
    by (simp add: due_sources_def decisions_def filter_map comp_def spec_of_row_def)
  then show "sorted (map ss_id (due_sources now rows))"
    by (simp add: list_runnable_def sorted_filter)
qed

end
