(* ===== verification/Registry.thy ===== *)
theory Registry
  imports Stages Scheduler "HOL-Library.AList" "HOL-Library.List_Lexorder" "HOL-Library.Char_ord"
begin

text \<open>
  From a source row to a discovery adapter, \<open>orchestrator/registry.py\<close>, the orchestrator's own
  errors, \<open>orchestrator/errors.py\<close>, and the per-run configuration snapshot,
  \<open>orchestrator/config.py\<close> with \<open>config/loader.py\<close>.  The adapter classes are the argument \<open>mk\<close> of
  \<open>default_registry\<close>; \<open>repr()\<close> of a string and \<open>datetime.fromisoformat\<close> are arguments too.
\<close>

section \<open>Errors\<close>

definition source_not_runnable :: "string \<Rightarrow> exn" where
  "source_not_runnable msg =
     \<lparr>ex_type = ''SourceNotRunnableError'', ex_code = Some SOURCE_NOT_RUNNABLE, ex_message = Some msg\<rparr>"

definition configuration_load_error :: "string \<Rightarrow> exn" where
  "configuration_load_error msg =
     \<lparr>ex_type = ''ConfigurationLoadError'', ex_code = Some CONFIGURATION_LOAD_FAILED, ex_message = Some msg\<rparr>"

section \<open>Configuration\<close>

record setting_row =
  se_test_mode :: bool
  se_test_mode_reason :: "string option"
  se_test_mode_enabled_at :: "string option"
  se_test_mode_enabled_by :: "string option"
  se_updated_at :: "string option"
  se_version :: "int option"

record runtime_config =
  rc_test_mode :: bool
  rc_test_mode_reason :: string
  rc_test_mode_enabled_at :: "string option"
  rc_test_mode_enabled_by :: "string option"
  rc_config_changed_at :: "string option"
  rc_row_version :: int

definition default_runtime_config :: runtime_config where
  "default_runtime_config = \<lparr>rc_test_mode = True, rc_test_mode_reason = ''seeded default: test mode on'',
     rc_test_mode_enabled_at = None, rc_test_mode_enabled_by = None, rc_config_changed_at = None,
     rc_row_version = 0\<rparr>"

text \<open>\<open>load_runtime_config\<close>; the instants of a row are given in their ISO form.\<close>

definition load_runtime_config :: "setting_row option \<Rightarrow> runtime_config" where
  "load_runtime_config row = (case row of None \<Rightarrow> default_runtime_config
     | Some r \<Rightarrow> \<lparr>rc_test_mode = se_test_mode r, rc_test_mode_reason = py_or (se_test_mode_reason r) [],
         rc_test_mode_enabled_at = se_test_mode_enabled_at r,
         rc_test_mode_enabled_by = se_test_mode_enabled_by r,
         rc_config_changed_at = se_updated_at r,
         rc_row_version = (case se_version r of None \<Rightarrow> 0 | Some v \<Rightarrow> v)\<rparr>)"

definition UNSEEDED_CONFIG_VERSION :: int where
  "UNSEEDED_CONFIG_VERSION = 0"

record config_snapshot =
  cf_version :: int
  cf_test_mode :: bool
  cf_test_mode_reason :: string
  cf_changed_at :: "instant option"

definition is_seeded :: "config_snapshot \<Rightarrow> bool" where
  "is_seeded c = (cf_version c > UNSEEDED_CONFIG_VERSION)"

definition parse_iso :: "(string \<Rightarrow> instant option) \<Rightarrow> string option \<Rightarrow> instant option" where
  "parse_iso fromisoformat v = (case v of None \<Rightarrow> None | Some s \<Rightarrow> if s = [] then None else fromisoformat s)"

definition config_snapshot_of :: "(string \<Rightarrow> instant option) \<Rightarrow> runtime_config \<Rightarrow> config_snapshot" where
  "config_snapshot_of fromisoformat r = \<lparr>cf_version = rc_row_version r, cf_test_mode = rc_test_mode r,
     cf_test_mode_reason = rc_test_mode_reason r,
     cf_changed_at = parse_iso fromisoformat (rc_config_changed_at r)\<rparr>"

text \<open>\<open>ConfigLoader.load\<close>: the read of the settings row returns it or raises a database error of the
  given type name.\<close>

definition load_config ::
  "(string \<Rightarrow> instant option) \<Rightarrow> (string, setting_row option) result \<Rightarrow> (exn, config_snapshot) result" where
  "load_config fromisoformat read = (case read of
     Inl type_name \<Rightarrow> Inl (configuration_load_error (''configuration could not be read: '' @ type_name))
   | Inr row \<Rightarrow> Inr (config_snapshot_of fromisoformat (load_runtime_config row)))"

lemma unseeded_is_test_mode:
  "load_config f (Inr None) = Inr c \<Longrightarrow> cf_test_mode c \<and> \<not> is_seeded c"
  by (auto simp: load_config_def load_runtime_config_def default_runtime_config_def config_snapshot_of_def
      is_seeded_def UNSEEDED_CONFIG_VERSION_def)

section \<open>The adapter registry\<close>

datatype source_type = PaginatedHtml | FilteredHtml | SearchForm | RssAtom | JsonApi

definition source_type_value :: "source_type \<Rightarrow> string" where
  "source_type_value t = (case t of PaginatedHtml \<Rightarrow> ''paginated_html_list''
     | FilteredHtml \<Rightarrow> ''filtered_html'' | SearchForm \<Rightarrow> ''search_form'' | RssAtom \<Rightarrow> ''rss_atom''
     | JsonApi \<Rightarrow> ''json_api'')"

type_synonym 'a factory = "source_spec \<Rightarrow> (exn, 'a) result"
type_synonym 'a registry = "(string \<times> 'a factory) list"

definition registry_key :: "string \<Rightarrow> string" where
  "registry_key source_type = py_lower (py_strip source_type)"

definition register :: "string \<Rightarrow> 'a factory \<Rightarrow> 'a registry \<Rightarrow> 'a registry" where
  "register source_type factory reg = AList.update (registry_key source_type) factory reg"

definition supports :: "string \<Rightarrow> 'a registry \<Rightarrow> bool" where
  "supports source_type reg \<longleftrightarrow> registry_key source_type \<in> fst ` set reg"

definition source_types :: "'a registry \<Rightarrow> string list" where
  "source_types reg = sort (map fst reg)"

definition build :: "(string \<Rightarrow> string) \<Rightarrow> 'a registry \<Rightarrow> source_spec \<Rightarrow> (exn, 'a) result" where
  "build repr_str reg spec =
     (case map_of reg (registry_key (ss_source_type spec)) of
        None \<Rightarrow> Inl (source_not_runnable
          (''no discovery adapter registered for source_type '' @ repr_str (ss_source_type spec)))
      | Some factory \<Rightarrow> factory spec)"

definition entry_url :: "source_spec \<Rightarrow> (exn, string) result" where
  "entry_url spec = (case ss_listing_url spec of
     None \<Rightarrow> Inl (source_not_runnable ''source has no listing_url configured'')
   | Some u \<Rightarrow> if u = [] then Inl (source_not_runnable ''source has no listing_url configured'') else Inr u)"

definition none_if_empty :: "'b list \<Rightarrow> 'b list option" where
  "none_if_empty s = (if s = [] then None else Some s)"

definition PAGINATED_HTML_ALIASES :: "string list" where
  "PAGINATED_HTML_ALIASES = [''wahoo'']"

definition default_registry ::
  "(source_type \<Rightarrow> string \<Rightarrow> string option \<Rightarrow> (string \<times> json) list option \<Rightarrow> (exn, 'a) result) \<Rightarrow> 'a registry" where
  "default_registry mk =
     (let builder = (\<lambda>t spec. bind_result (entry_url spec)
            (\<lambda>url. mk t url (none_if_empty (ss_base_url spec)) (none_if_empty (ss_parser_config spec))));
          reg = register (source_type_value PaginatedHtml) (builder PaginatedHtml) [];
          reg = register (source_type_value FilteredHtml) (builder FilteredHtml) reg;
          reg = register (source_type_value SearchForm) (builder SearchForm) reg;
          reg = register (source_type_value RssAtom) (builder RssAtom) reg;
          reg = register (source_type_value JsonApi) (builder JsonApi) reg
      in fold (\<lambda>alias. register alias (builder PaginatedHtml)) PAGINATED_HTML_ALIASES reg)"

lemma registry_key_literals:
  "registry_key ''paginated_html_list'' = ''paginated_html_list''"
  "registry_key ''filtered_html'' = ''filtered_html''"
  "registry_key ''search_form'' = ''search_form''"
  "registry_key ''rss_atom'' = ''rss_atom''"
  "registry_key ''json_api'' = ''json_api''"
  "registry_key ''wahoo'' = ''wahoo''"
  by code_simp+

lemma build_register:
  "build repr_str (register t f reg) spec =
     (if registry_key (ss_source_type spec) = registry_key t then f spec else build repr_str reg spec)"
  by (simp add: build_def register_def update_conv)

text \<open>The types a source can have in the default registry, and what they are built by.\<close>

definition default_type :: "string \<Rightarrow> source_type option" where
  "default_type key = map_of
     [(''paginated_html_list'', PaginatedHtml), (''filtered_html'', FilteredHtml),
      (''search_form'', SearchForm), (''rss_atom'', RssAtom), (''json_api'', JsonApi),
      (''wahoo'', PaginatedHtml)] key"

lemma build_default:
  "build repr_str (default_registry mk) spec =
     (case default_type (registry_key (ss_source_type spec)) of
        None \<Rightarrow> Inl (source_not_runnable
          (''no discovery adapter registered for source_type '' @ repr_str (ss_source_type spec)))
      | Some t \<Rightarrow> bind_result (entry_url spec)
          (\<lambda>url. mk t url (none_if_empty (ss_base_url spec)) (none_if_empty (ss_parser_config spec))))"
  by (simp add: default_registry_def Let_def PAGINATED_HTML_ALIASES_def build_register
      source_type_value_def registry_key_literals default_type_def)
    (simp add: build_def)

lemma build_default_error:
  assumes "build repr_str (default_registry mk) spec = Inl x"
    and mk_ok: "\<And>t url b c. is_ok (mk t url b c)"
  shows "ex_code x = Some SOURCE_NOT_RUNNABLE
    \<and> (default_type (registry_key (ss_source_type spec)) = None \<or> ss_listing_url spec \<in> {None, Some []})"
proof (cases "default_type (registry_key (ss_source_type spec))")
  case None
  then show ?thesis using assms(1) by (auto simp: build_default source_not_runnable_def)
next
  case (Some t)
  have "mk t url b c \<noteq> Inl y" for url b c y
    using mk_ok [of t url b c] by (cases "mk t url b c") auto
  then show ?thesis using assms(1) Some
    by (auto simp: build_default entry_url_def source_not_runnable_def split: option.splits if_splits)
qed

end
