(* ===== verification/RunState.thy ===== *)
theory RunState
  imports Registry Dedup Documents
begin

text \<open>
  The accumulator of one run, \<open>_RunState\<close> of \<open>orchestrator/coordinator.py\<close>, with the helper
  functions of that module that do not touch the database, and the world a run acts on: the
  database tables the coordinator and the deduplication write, and the rest of the world \<open>'w\<close>
  that the injected services act on.
\<close>

section \<open>The world and the values that travel between stages\<close>

record 'w world =
  wl_store :: store
  wl_sources :: "source_row list"
  wl_ext :: 'w

record work_item =
  wi_tender_id :: int
  wi_external_id :: string
  wi_correlation_id :: string
  wi_is_update :: bool

definition is_retryable_acquisition :: "acquisition_result \<Rightarrow> bool" where
  "is_retryable_acquisition r =
     (if ar_failures r = [] then False
      else list_all (\<lambda>f. af_retryable f \<and> List.member STAGE_LOCAL_RETRYABLE_CATEGORIES (af_category f))
        (ar_failures r))"

definition ordered_ids :: "string list \<Rightarrow> string list" where
  "ordered_ids ids = fold (\<lambda>e ordered. if e \<noteq> [] \<and> e \<notin> set ordered then ordered @ [e] else ordered) ids []"

definition work_external_ids :: "dedup_result option \<Rightarrow> string list" where
  "work_external_ids result = (case result of None \<Rightarrow> []
     | Some r \<Rightarrow> ordered_ids (map ls_external_id (dr_new_listings r)
         @ map (\<lambda>o'. ls_external_id (do_listing o')) (dr_updates r)))"

lemma ordered_ids_fold:
  "distinct acc \<Longrightarrow> [] \<notin> set acc \<Longrightarrow>
     (let r = fold (\<lambda>e ordered. if e \<noteq> [] \<and> e \<notin> set ordered then ordered @ [e] else ordered) ids acc
      in distinct r \<and> set r = set acc \<union> (set ids - {[]}))"
  by (induction ids arbitrary: acc) (auto simp: Let_def)

lemma ordered_ids: "distinct (ordered_ids ids)" "set (ordered_ids ids) = set ids - {[]}"
  using ordered_ids_fold [of "[]" ids] by (simp_all add: ordered_ids_def Let_def)

section \<open>The run state\<close>

record run_state =
  rs_run_cid :: string
  rs_dry_run :: bool
  rs_outcomes :: "stage_outcome list"
  rs_listings_found :: int
  rs_new_count :: int
  rs_update_count :: int
  rs_unchanged_count :: int
  rs_work :: "work_item list"
  rs_planned_actions :: "string list"
  rs_documents_acquired :: int
  rs_documents_processed :: int
  rs_failed_stage :: "stage_number option"
  rs_error_code :: "string option"
  rs_ended_at :: "instant option"

definition new_run_state :: "string \<Rightarrow> bool \<Rightarrow> run_state" where
  "new_run_state run_cid dry_run = \<lparr>rs_run_cid = run_cid, rs_dry_run = dry_run, rs_outcomes = [],
     rs_listings_found = 0, rs_new_count = 0, rs_update_count = 0, rs_unchanged_count = 0,
     rs_work = [], rs_planned_actions = [], rs_documents_acquired = 0, rs_documents_processed = 0,
     rs_failed_stage = None, rs_error_code = None, rs_ended_at = None\<rparr>"

definition mark_ended :: "instant \<Rightarrow> run_state \<Rightarrow> run_state" where
  "mark_ended moment st = (case rs_ended_at st of
     None \<Rightarrow> st\<lparr>rs_ended_at := Some moment\<rparr>
   | Some e \<Rightarrow> if moment > e then st\<lparr>rs_ended_at := Some moment\<rparr> else st)"

text \<open>\<open>record\<close>; what the progress callback raises is swallowed, what it does to the world is not.\<close>

definition record_state :: "stage_outcome \<Rightarrow> run_state \<Rightarrow> run_state" where
  "record_state o' st =
     (let st1 = st\<lparr>rs_outcomes := rs_outcomes st @ [o']\<rparr>;
          st2 = (if so_status o' = SFailed \<and> rs_failed_stage st1 = None
                 then st1\<lparr>rs_failed_stage := Some (so_stage o'), rs_error_code := so_error_code o'\<rparr> else st1)
      in mark_ended (so_ended_at o') st2)"

definition record_outcome ::
  "(stage_outcome \<Rightarrow> 'w world \<Rightarrow> 'w world) option \<Rightarrow> stage_outcome \<Rightarrow> run_state \<Rightarrow> 'w world
     \<Rightarrow> run_state \<times> 'w world" where
  "record_outcome progress o' st w =
     (record_state o' st, case progress of None \<Rightarrow> w | Some f \<Rightarrow> f o' w)"

definition record_dedup :: "dedup_result \<Rightarrow> run_state \<Rightarrow> run_state" where
  "record_dedup r st = st\<lparr>rs_new_count := dr_new_count r, rs_update_count := dr_update_count r,
     rs_unchanged_count := dr_unchanged_count r,
     rs_listings_found := dr_new_count r + dr_update_count r + dr_unchanged_count r\<rparr>"

definition unreached_outcome :: "stage_status \<Rightarrow> instant \<Rightarrow> run_state \<Rightarrow> stage_number \<Rightarrow> string \<Rightarrow> stage_outcome" where
  "unreached_outcome status now st stage detail =
     (let moment = (case rs_ended_at st of None \<Rightarrow> now | Some e \<Rightarrow> e)
      in \<lparr>so_stage = stage, so_status = status, so_correlation_id = rs_run_cid st,
          so_started_at = moment, so_ended_at = moment, so_error_code = None, so_message = None,
          so_detail = Some detail, so_item_count = 0, so_failed_items = 0, so_attempts = 0\<rparr>)"

definition record_pending :: "instant \<Rightarrow> stage_number \<Rightarrow> string \<Rightarrow> run_state \<Rightarrow> run_state" where
  "record_pending now stage detail st =
     st\<lparr>rs_outcomes := rs_outcomes st @ [unreached_outcome SPending now st stage detail]\<rparr>"

definition record_skipped :: "instant \<Rightarrow> stage_number \<Rightarrow> string \<Rightarrow> run_state \<Rightarrow> run_state" where
  "record_skipped now stage detail st =
     st\<lparr>rs_outcomes := rs_outcomes st @ [unreached_outcome SSkippedNotImplemented now st stage detail]\<rparr>"

definition state_bounds :: "instant \<Rightarrow> run_state \<Rightarrow> instant \<times> instant" where
  "state_bounds started st = (let ended = (case rs_ended_at st of None \<Rightarrow> started | Some e \<Rightarrow> e)
     in (min started ended, ended))"

definition state_counts :: "run_state \<Rightarrow> run_counts" where
  "state_counts st = \<lparr>rn_listings_found = rs_listings_found st, rn_new_count = rs_new_count st,
     rn_update_count = rs_update_count st, rn_unchanged_count = rs_unchanged_count st\<rparr>"

text \<open>The \<open>str\<close> of an optional code in \<open>source_error\<close>.\<close>

definition opt_str :: "string option \<Rightarrow> string" where
  "opt_str v = (case v of None \<Rightarrow> ''None'' | Some s \<Rightarrow> s)"

definition source_error :: "run_state \<Rightarrow> string option" where
  "source_error st = (case rs_failed_stage st of None \<Rightarrow> None
     | Some s \<Rightarrow> Some (stage_value s @ '' failed ('' @ opt_str (rs_error_code st) @ '')''))"

definition pending_remaining :: "instant \<Rightarrow> string \<Rightarrow> run_state \<Rightarrow> run_state" where
  "pending_remaining now reason st =
     (let recorded = map so_stage (rs_outcomes st)
      in fold (\<lambda>s st'. if s \<notin> set recorded then record_pending now s reason st' else st') STAGE_ORDER st)"

definition derived_status :: "stage_outcome list \<Rightarrow> run_status" where
  \<comment> \<open>\<open>_run_status\<close>\<close>
  "derived_status os = (if list_ex (\<lambda>o'. so_status o' = SFailed) os then RFailed
     else if list_ex (\<lambda>o'. so_status o' = SPartial) os then RPartial else RCompleted)"

section \<open>What the recording functions keep\<close>

abbreviation recorded :: "run_state \<Rightarrow> stage_number list" where
  "recorded st \<equiv> map so_stage (rs_outcomes st)"

lemma mark_ended_simps [simp]:
  "rs_outcomes (mark_ended m st) = rs_outcomes st" "rs_failed_stage (mark_ended m st) = rs_failed_stage st"
  "rs_error_code (mark_ended m st) = rs_error_code st" "rs_work (mark_ended m st) = rs_work st"
  "rs_dry_run (mark_ended m st) = rs_dry_run st" "rs_run_cid (mark_ended m st) = rs_run_cid st"
  "rs_ended_at (mark_ended m st) = Some (case rs_ended_at st of None \<Rightarrow> m | Some e \<Rightarrow> max m e)"
  by (simp_all add: mark_ended_def max_def split: option.splits)

lemma record_state_simps [simp]:
  "rs_outcomes (record_state o' st) = rs_outcomes st @ [o']"
  "rs_work (record_state o' st) = rs_work st"
  "rs_dry_run (record_state o' st) = rs_dry_run st"
  "rs_run_cid (record_state o' st) = rs_run_cid st"
  by (simp_all add: record_state_def Let_def)

lemma record_state_failure:
  "rs_failed_stage (record_state o' st) = (if so_status o' = SFailed \<and> rs_failed_stage st = None
     then Some (so_stage o') else rs_failed_stage st)"
  "rs_error_code (record_state o' st) = (if so_status o' = SFailed \<and> rs_failed_stage st = None
     then so_error_code o' else rs_error_code st)"
  by (simp_all add: record_state_def Let_def)

lemma record_unreached_simps [simp]:
  "rs_outcomes (record_pending n s d st) = rs_outcomes st @ [unreached_outcome SPending n st s d]"
  "rs_outcomes (record_skipped n s d st) = rs_outcomes st @ [unreached_outcome SSkippedNotImplemented n st s d]"
  "rs_failed_stage (record_pending n s d st) = rs_failed_stage st"
  "rs_failed_stage (record_skipped n s d st) = rs_failed_stage st"
  "rs_error_code (record_pending n s d st) = rs_error_code st"
  "rs_error_code (record_skipped n s d st) = rs_error_code st"
  "rs_work (record_pending n s d st) = rs_work st" "rs_work (record_skipped n s d st) = rs_work st"
  "rs_ended_at (record_pending n s d st) = rs_ended_at st"
  "rs_ended_at (record_skipped n s d st) = rs_ended_at st"
  "rs_dry_run (record_pending n s d st) = rs_dry_run st" "rs_dry_run (record_skipped n s d st) = rs_dry_run st"
  "rs_run_cid (record_pending n s d st) = rs_run_cid st" "rs_run_cid (record_skipped n s d st) = rs_run_cid st"
  by (simp_all add: record_pending_def record_skipped_def)

lemma unreached_outcome_simps [simp]:
  "so_stage (unreached_outcome status n st s d) = s" "so_status (unreached_outcome status n st s d) = status"
  by (simp_all add: unreached_outcome_def Let_def)

lemma pending_fold:
  "rs_outcomes (fold (\<lambda>s st'. if s \<notin> R then record_pending n s d st' else st') ss st)
     = rs_outcomes st @ map (\<lambda>s. unreached_outcome SPending n st s d) (filter (\<lambda>s. s \<notin> R) ss)"
proof (induction ss arbitrary: st)
  case (Cons s ss)
  have "unreached_outcome SPending n (record_pending n s d st) s' d = unreached_outcome SPending n st s' d" for s'
    by (simp add: unreached_outcome_def)
  with Cons show ?case by simp
qed simp

lemma pending_fold_keeps:
  "rs_failed_stage (fold (\<lambda>s st'. if s \<notin> R then record_pending n s d st' else st') ss st) = rs_failed_stage st
   \<and> rs_error_code (fold (\<lambda>s st'. if s \<notin> R then record_pending n s d st' else st') ss st) = rs_error_code st
   \<and> rs_ended_at (fold (\<lambda>s st'. if s \<notin> R then record_pending n s d st' else st') ss st) = rs_ended_at st
   \<and> rs_work (fold (\<lambda>s st'. if s \<notin> R then record_pending n s d st' else st') ss st) = rs_work st"
  by (induction ss arbitrary: st) auto

lemma pending_remaining_outcomes:
  "rs_outcomes (pending_remaining n d st) = rs_outcomes st
     @ map (\<lambda>s. unreached_outcome SPending n st s d) (filter (\<lambda>s. s \<notin> set (recorded st)) STAGE_ORDER)"
  unfolding pending_remaining_def Let_def by (rule pending_fold)

lemma pending_remaining_keeps [simp]:
  "rs_failed_stage (pending_remaining n d st) = rs_failed_stage st"
  "rs_error_code (pending_remaining n d st) = rs_error_code st"
  "rs_ended_at (pending_remaining n d st) = rs_ended_at st"
  "rs_work (pending_remaining n d st) = rs_work st"
  using pending_fold_keeps [of "set (recorded st)" n d STAGE_ORDER st]
  by (simp_all add: pending_remaining_def Let_def)

text \<open>A state that has recorded a first part of the stages has recorded all of them, in order,
  once the rest is marked pending.\<close>

lemma pending_remaining_complete:
  assumes "recorded st = take k STAGE_ORDER"
  shows "recorded (pending_remaining n d st) = STAGE_ORDER"
proof -
  have "filter (\<lambda>s. s \<notin> set (take k STAGE_ORDER)) STAGE_ORDER = drop k STAGE_ORDER"
  proof -
    have "set (take k STAGE_ORDER) \<inter> set (drop k STAGE_ORDER) = {}"
      using stage_order_sorted(2) by (metis append_take_drop_id distinct_append)
    then have "filter (\<lambda>s. s \<notin> set (take k STAGE_ORDER)) (drop k STAGE_ORDER) = drop k STAGE_ORDER"
      by (auto simp: filter_id_conv)
    moreover have "filter (\<lambda>s. s \<notin> set (take k STAGE_ORDER)) (take k STAGE_ORDER) = []"
      by (simp add: filter_empty_conv)
    moreover have "STAGE_ORDER = take k STAGE_ORDER @ drop k STAGE_ORDER" by simp
    ultimately show ?thesis by (metis filter_append append_Nil)
  qed
  then show ?thesis by (simp add: pending_remaining_outcomes assms comp_def)
qed

text \<open>The first failed outcome is the failed stage, with its code.\<close>

definition failure_ok :: "run_state \<Rightarrow> bool" where
  "failure_ok st \<longleftrightarrow> rs_failed_stage st = map_option so_stage (List.find (\<lambda>o'. so_status o' = SFailed) (rs_outcomes st))"

lemma find_append: "List.find P (xs @ ys) = (case List.find P xs of None \<Rightarrow> List.find P ys | Some x \<Rightarrow> Some x)"
  by (induction xs) auto

lemma record_state_failure_ok: "failure_ok st \<Longrightarrow> failure_ok (record_state o' st)"
  by (auto simp: failure_ok_def record_state_failure find_append split: option.splits)

lemma record_unreached_failure_ok:
  "failure_ok st \<Longrightarrow> failure_ok (record_pending n s d st)"
  "failure_ok st \<Longrightarrow> failure_ok (record_skipped n s d st)"
  by (auto simp: failure_ok_def find_append split: option.splits)

lemma pending_remaining_failure_ok:
  assumes "failure_ok st"
  shows "failure_ok (pending_remaining n d st)"
proof -
  have "List.find (\<lambda>o'. so_status o' = SFailed)
      (map (\<lambda>s. unreached_outcome SPending n st s d) ss) = None" for ss
    by (induction ss) auto
  then show ?thesis using assms
    by (auto simp: failure_ok_def pending_remaining_outcomes find_append split: option.splits)
qed

lemma derived_status_failed:
  "derived_status os = RFailed \<longleftrightarrow> List.find (\<lambda>o'. so_status o' = SFailed) os \<noteq> None"
  by (auto simp: derived_status_def list_ex_iff find_None_iff)

end
