(* ===== verification/StageBodies.thy ===== *)
theory StageBodies
  imports RunState
begin

text \<open>
  The bodies of the nine stages of \<open>orchestrator/coordinator.py\<close> and the selection of the tenders a
  run works on.  The services a coordinator is constructed with (source adapters, acquisition,
  processing, deadline resolution, triage, verdict engine, notification dispatcher, clocks,
  sleeper, alert hook) are the fields of an environment: each is a function that acts on the
  world and returns or raises.  \<open>ce_db_fault\<close> tells whether a database session of the coordinator
  itself raises, and then before its commit.  Deduplication is the modelled \<open>dedup_run\<close>.
\<close>

section \<open>What the services exchange\<close>

record tender_detail =
  td_listing :: tender_listing
  td_procuring_body :: "string option"
  td_reference_numbers :: "string list"
  td_scope :: "string option"
  td_requirements_hints :: "string list"
  td_attachments :: "tender_attachment list"
  td_raw_html :: "string option"
  td_body_text :: "string option"

record 'w adapter =
  ad_name :: string
  ad_list_new_tenders :: "('w world, tender_listing list) action"
  ad_get_detail :: "string \<Rightarrow> ('w world, tender_detail) action"

record notice_source =
  ns_title :: string
  ns_source_url :: string
  ns_procuring_body :: "string option"
  ns_reference_numbers :: "string list"
  ns_requirements_hints :: "string list"
  ns_scope :: "string option"
  ns_published_at :: "py_datetime option"
  ns_deadline_at :: "py_datetime option"
  ns_deadline_timezone :: "string option"
  ns_language :: json
  ns_body_text :: "string option"

record deadline_result =
  dl_status :: string
  dl_source :: string
  dl_deadline_utc :: "instant option"
  dl_deadline_timezone :: "string option"
  dl_evidence :: "(string \<times> json) list"

text \<open>Of an extracted document the coordinator reads the metadata only.\<close>

record tender_bundle =
  bn_documents :: "(string \<times> json) list list"
  bn_incomplete_inputs :: bool

record triage_decision =
  tr_tender_id :: int
  tr_correlation_id :: string
  tr_status :: string
  tr_error_code :: "string option"

text \<open>\<open>vo_status\<close> is \<open>None\<close> when the outcome has no status with a value.\<close>

record verdict_outcome =
  vo_status :: "string option"
  vo_verdict_id :: "int option"
  vo_error_code :: "string option"

datatype notification_kind = NKNew | NKUpdate | NKRawNotice

record notification_event =
  ne_tender_id :: int
  ne_verdict_id :: "int option"
  ne_kind :: notification_kind
  ne_material_change :: bool
  ne_change_types :: "string list"
  ne_change_details :: "(string \<times> string) list"
  ne_correlation_id :: string
  ne_unavailability_reason :: "string option"

record alert_notice =
  an_source_id :: int
  an_source_name :: string
  an_correlation_id :: string
  an_error_code :: string
  an_stage :: "string option"
  an_run_history_id :: "int option"
  an_message :: string

datatype db_use = DbOpenRun | DbFindTender | DbDeadline int | DbResolveWork | DbRecover
  | DbFinalize | DbStamp | DbGetSource int | DbSelect "int option"

record 'w coord_env =
  ce_build :: "source_spec \<Rightarrow> (exn, 'w adapter) result"
  ce_dedup :: "'w world \<Rightarrow> dedup_env \<times> instant \<times> instant \<times> tender list"
  ce_deadline :: "tender_listing \<Rightarrow> tender_detail \<Rightarrow> string \<Rightarrow> ('w world, deadline_result) action"
  ce_apply_deadline :: "tender \<Rightarrow> deadline_result \<Rightarrow> instant \<Rightarrow> 'w world \<Rightarrow> 'w world"
  ce_acquire :: "int \<Rightarrow> tender_attachment list \<Rightarrow> string \<Rightarrow> ('w world, acquisition_result) action"
  ce_process :: "int \<Rightarrow> string \<Rightarrow> notice_source option \<Rightarrow> ('w world, tender_bundle) action"
  ce_triage :: "int option \<Rightarrow> int \<Rightarrow> ('w world, triage_decision) action"
  ce_triage_handoff :: "(triage_decision \<Rightarrow> ('w world, unit) action) option"
  ce_verdict_handoff :: "(triage_decision \<Rightarrow> ('w world, verdict_outcome) action) option"
  ce_dispatch :: "(notification_event \<Rightarrow> ('w world, string) action) option"
  ce_str_pair :: "field_value \<times> field_value \<Rightarrow> string"
  ce_alert :: "alert_notice \<Rightarrow> 'w world \<Rightarrow> 'w world"
  ce_db_fault :: "db_use \<Rightarrow> 'w world \<Rightarrow> exn option"
  ce_load_config :: "'w world \<Rightarrow> (exn, config_snapshot) result"
  ce_new_correlation_id :: "'w world \<Rightarrow> string"
  ce_clock :: "'w world \<Rightarrow> instant"
  ce_runner_clock :: "'w world \<Rightarrow> instant"
  ce_now :: "'w world \<Rightarrow> instant"
  ce_sleep :: "real \<Rightarrow> 'w world \<Rightarrow> 'w world"
  ce_retry :: retry_policy
  ce_recovery_limit :: int

section \<open>Stages 04 to 06\<close>

record 'w discovery =
  ds_adapter :: "'w adapter"
  ds_listings :: "tender_listing list"

definition stage_discovery :: "'w coord_env \<Rightarrow> source_spec \<Rightarrow> ('w world, stage_report \<times> 'w discovery) action" where
  "stage_discovery env spec w =
     (case ce_build env spec of
        Inl x \<Rightarrow> (Inl x, w)
      | Inr ad \<Rightarrow> (case ad_list_new_tenders ad w of
          (Inl x, w') \<Rightarrow> (Inl x, w')
        | (Inr ls, w') \<Rightarrow> (Inr (stage_report_default\<lparr>
              sg_detail := Some (''adapter '' @ ad_name ad @ '' returned '' @ int_str (int (length ls)) @ '' listing(s)''),
              sg_item_count := int (length ls)\<rparr>, \<lparr>ds_adapter = ad, ds_listings = ls\<rparr>), w')))"

definition dedup_exn :: "dedup_error \<Rightarrow> exn" where
  "dedup_exn e = (case e of DedupError msg code \<Rightarrow>
     \<lparr>ex_type = ''DedupError'', ex_code = Some code, ex_message = Some msg\<rparr>)"

definition stage_dedup ::
  "'w coord_env \<Rightarrow> source_spec \<Rightarrow> tender_listing list \<Rightarrow> string \<Rightarrow> int option \<Rightarrow> bool
     \<Rightarrow> ('w world, stage_report \<times> dedup_result) action" where
  "stage_dedup env spec ls run_cid run_id dry_run w =
     (case ce_dedup env w of (denv, started, ended, rivals) \<Rightarrow>
      case dedup_run denv started ended rivals (ss_id spec) ls run_cid run_id dry_run (wl_store w) of
        (Inl e, s) \<Rightarrow> (Inl (dedup_exn e), w\<lparr>wl_store := s\<rparr>)
      | (Inr r, s) \<Rightarrow> (Inr (stage_report_default\<lparr>
            sg_detail := Some (int_str (dr_new_count r) @ '' new, '' @ int_str (dr_update_count r) @ '' update, ''
              @ int_str (dr_unchanged_count r) @ '' unchanged, '' @ int_str (dr_duplicate_count r) @ '' duplicate''
              @ (if dry_run then '' (dry run: nothing persisted)'' else [])),
            sg_item_count := dr_new_count r + dr_update_count r, sg_status := Some SCompleted\<rparr>, r),
          w\<lparr>wl_store := s\<rparr>))"

definition stage_persistence :: "dedup_result option \<Rightarrow> ('w world, stage_report \<times> unit) action" where
  "stage_persistence result w =
     (let written = (case result of None \<Rightarrow> 0 | Some r \<Rightarrow> dr_new_count r + dr_update_count r)
      in (Inr (stage_report_default\<lparr>
            sg_detail := Some (''realised inside stage 05's transaction (claim_new/apply_update); ''
              @ int_str written @ '' tender row(s) written''),
            sg_item_count := written, sg_status := Some SCompleted\<rparr>, ()), w))"

section \<open>The work of a run\<close>

definition work_item_of :: "string \<Rightarrow> tender \<Rightarrow> work_item" where
  "work_item_of run_cid t = \<lparr>wi_tender_id = tn_id t, wi_external_id = tn_external_id t,
     wi_correlation_id = py_or (Some (tn_correlation_id t)) run_cid, wi_is_update = tn_is_update t\<rparr>"

definition resolve_work ::
  "'w coord_env \<Rightarrow> source_spec \<Rightarrow> string list \<Rightarrow> string \<Rightarrow> 'w world \<Rightarrow> (exn, work_item list) result" where
  "resolve_work env spec external_ids run_cid w =
     (if external_ids = [] then Inr []
      else case ce_db_fault env DbResolveWork w of
        Some x \<Rightarrow> Inl x
      | None \<Rightarrow> (let rows = get_many_by_identity (ss_id spec) external_ids (st_tenders (wl_store w))
          in Inr (sort_key wi_external_id
               (map (work_item_of run_cid) (List.map_filter rows (remdups external_ids))))))"

definition recover_unprocessed ::
  "'w coord_env \<Rightarrow> source_spec \<Rightarrow> string \<Rightarrow> int set \<Rightarrow> 'w world \<Rightarrow> (exn, work_item list) result" where
  "recover_unprocessed env spec run_cid selected w =
     (let limit = max 0 (ce_recovery_limit env) in
      if limit \<le> 0 then Inr []
      else case ce_db_fault env DbRecover w of
        Some x \<Rightarrow> Inl x
      | None \<Rightarrow> (let rows = list_unprocessed (ss_id spec) (Some (nat limit)) (ce_now env w) (st_tenders (wl_store w))
          in Inr (map (work_item_of run_cid) (filter (\<lambda>t. tn_id t \<notin> selected) rows))))"

section \<open>Stage 07\<close>

record detail_product =
  dp_attachments :: "(int \<times> tender_attachment list) list"
  dp_details :: "(int \<times> tender_detail) list"

definition empty_product :: detail_product where
  "empty_product = \<lparr>dp_attachments = [], dp_details = []\<rparr>"

definition RESOLVED :: string where
  "RESOLVED = ''resolved''"

definition resolve_deadline ::
  "'w coord_env \<Rightarrow> work_item \<Rightarrow> tender_detail \<Rightarrow> 'w world \<Rightarrow> bool \<times> 'w world" where
  "resolve_deadline env item detail w =
     (case ce_db_fault env (DbDeadline (wi_tender_id item)) w of
        Some _ \<Rightarrow> (False, w)
      | None \<Rightarrow> (case List.find (\<lambda>t. tn_id t = wi_tender_id item) (st_tenders (wl_store w)) of
          None \<Rightarrow> (False, w)
        | Some t \<Rightarrow>
            (let listing = \<lparr>ls_external_id = tn_external_id t, ls_title = tn_title t, ls_url = tn_url t,
                   ls_published_at = None, ls_deadline_at = tn_deadline t,
                   ls_deadline_timezone = tn_deadline_timezone t,
                   ls_raw_metadata = (case tn_raw_metadata t of None \<Rightarrow> [] | Some m \<Rightarrow> m)\<rparr>
             in case ce_deadline env listing detail (wi_correlation_id item) w of
               (Inl x, w') \<Rightarrow> (False, w')
             | (Inr r, w') \<Rightarrow> (dl_status r = RESOLVED, ce_apply_deadline env t r (ce_clock env w') w'))))"

record detail_acc =
  da_product :: detail_product
  da_failures :: int
  da_resolved :: int
  da_unresolved :: int

fun detail_loop ::
  "'w coord_env \<Rightarrow> 'w adapter \<Rightarrow> work_item list \<Rightarrow> detail_acc \<Rightarrow> 'w world \<Rightarrow> detail_acc \<times> 'w world" where
  "detail_loop env ad [] acc w = (acc, w)"
| "detail_loop env ad (item # items) acc w =
     (case ad_get_detail ad (wi_external_id item) w of
        (Inl x, w') \<Rightarrow> detail_loop env ad items (acc\<lparr>da_failures := da_failures acc + 1,
            da_product := (da_product acc)\<lparr>dp_attachments :=
              AList.update (wi_tender_id item) [] (dp_attachments (da_product acc))\<rparr>\<rparr>) w'
      | (Inr d, w') \<Rightarrow>
          (let product = \<lparr>dp_attachments = AList.update (wi_tender_id item) (td_attachments d) (dp_attachments (da_product acc)),
                          dp_details = AList.update (wi_tender_id item) d (dp_details (da_product acc))\<rparr>
           in case resolve_deadline env item d w' of
             (resolved, w'') \<Rightarrow> detail_loop env ad items (acc\<lparr>da_product := product,
               da_resolved := da_resolved acc + (if resolved then 1 else 0),
               da_unresolved := da_unresolved acc + (if resolved then 0 else 1)\<rparr>) w''))"

definition stage_detail ::
  "'w coord_env \<Rightarrow> 'w adapter \<Rightarrow> work_item list \<Rightarrow> ('w world, stage_report \<times> detail_product) action" where
  "stage_detail env ad work w =
     (case detail_loop env ad work \<lparr>da_product = empty_product, da_failures = 0, da_resolved = 0, da_unresolved = 0\<rparr> w of
        (acc, w') \<Rightarrow>
          (let found = sum_list (map (\<lambda>p. int (length (snd p))) (dp_attachments (da_product acc)))
           in (Inr (stage_report_default\<lparr>
                 sg_detail := Some (int_str found @ '' attachment(s) across '' @ int_str (int (length work))
                   @ '' tender(s); '' @ int_str (da_resolved acc) @ '' deadline(s) resolved, ''
                   @ int_str (da_unresolved acc) @ '' unresolved''),
                 sg_item_count := int (length work), sg_failed_items := da_failures acc\<rparr>,
               da_product acc), w')))"

definition stage_manual_detail ::
  "'w coord_env \<Rightarrow> source_spec \<Rightarrow> work_item list \<Rightarrow> ('w world, stage_report \<times> detail_product) action" where
  "stage_manual_detail env spec work w =
     (case ce_build env spec of
        Inl x \<Rightarrow> (Inl x, w)
      | Inr ad \<Rightarrow> (case stage_detail env ad work w of
          (Inl x, w') \<Rightarrow> (Inl x, w')
        | (Inr (r, found), w') \<Rightarrow> (Inr (stage_report_default\<lparr>
              sg_detail := Some (''manual Process Now: '' @ opt_str (sg_detail r)),
              sg_item_count := sg_item_count r, sg_failed_items := sg_failed_items r,
              sg_attempts := sg_attempts r, sg_status := sg_status r\<rparr>, found), w')))"

definition notice_for :: "work_item \<Rightarrow> (int \<times> tender_detail) list \<Rightarrow> notice_source option" where
  "notice_for item details = (case map_of details (wi_tender_id item) of
     None \<Rightarrow> None
   | Some d \<Rightarrow> (let l = td_listing d in Some \<lparr>ns_title = ls_title l, ns_source_url = ls_url l,
       ns_procuring_body = td_procuring_body d, ns_reference_numbers = td_reference_numbers d,
       ns_requirements_hints = td_requirements_hints d, ns_scope = td_scope d,
       ns_published_at = ls_published_at l, ns_deadline_at = ls_deadline_at l,
       ns_deadline_timezone = ls_deadline_timezone l,
       ns_language = obj_get (ls_raw_metadata l) ''language'', ns_body_text = td_body_text d\<rparr>))"

section \<open>Stage 08\<close>

datatype acquisition_exn = RetryableAcquisitionError acquisition_result | AcquisitionRaised exn

definition acquire_attempt ::
  "'w coord_env \<Rightarrow> work_item \<Rightarrow> tender_attachment list \<Rightarrow> 'w world
     \<Rightarrow> (acquisition_exn, acquisition_result) result \<times> 'w world" where
  "acquire_attempt env item attachments w =
     (case ce_acquire env (wi_tender_id item) attachments (wi_correlation_id item) w of
        (Inl x, w') \<Rightarrow> (Inl (AcquisitionRaised x), w')
      | (Inr r, w') \<Rightarrow> if is_retryable_acquisition r then (Inl (RetryableAcquisitionError r), w') else (Inr r, w'))"

definition is_retryable_exn :: "acquisition_exn \<Rightarrow> bool" where
  "is_retryable_exn x = (case x of RetryableAcquisitionError _ \<Rightarrow> True | AcquisitionRaised _ \<Rightarrow> False)"

definition acquire_one ::
  "'w coord_env \<Rightarrow> work_item \<Rightarrow> tender_attachment list \<Rightarrow> ('w world, acquisition_result \<times> int) action" where
  "acquire_one env item attachments w =
     (if attachments = [] then (Inr (empty_acquisition, 0), w)
      else case run_with_retry (acquire_attempt env item attachments) (ce_retry env) is_retryable_exn (ce_sleep env) w of
        (outcome, w') \<Rightarrow>
          (case ro_value outcome of
             Some r \<Rightarrow> (Inr (r, ro_attempts outcome), w')
           | None \<Rightarrow> (case ro_error outcome of
               Some (RetryableAcquisitionError r) \<Rightarrow> (Inr (r, ro_attempts outcome), w')
             | Some (AcquisitionRaised x) \<Rightarrow> (Inl x, w')
             | None \<Rightarrow> (Inl \<lparr>ex_type = ''RuntimeError'', ex_code = None, ex_message = None\<rparr>, w'))))"

record acquisition_acc =
  aa_acquired :: int
  aa_failed_items :: int
  aa_failures :: int
  aa_attempts :: int

fun acquisition_loop ::
  "'w coord_env \<Rightarrow> (int \<times> tender_attachment list) list \<Rightarrow> work_item list \<Rightarrow> acquisition_acc \<Rightarrow> 'w world
     \<Rightarrow> acquisition_acc \<times> 'w world" where
  "acquisition_loop env attachments [] acc w = (acc, w)"
| "acquisition_loop env attachments (item # items) acc w =
     (case acquire_one env item (case map_of attachments (wi_tender_id item) of None \<Rightarrow> [] | Some a \<Rightarrow> a) w of
        (Inl x, w') \<Rightarrow> acquisition_loop env attachments items (acc\<lparr>aa_failed_items := aa_failed_items acc + 1\<rparr>) w'
      | (Inr (r, n), w') \<Rightarrow> acquisition_loop env attachments items
          (acc\<lparr>aa_attempts := aa_attempts acc + n, aa_acquired := aa_acquired acc + int (length (ar_documents r)),
             aa_failures := aa_failures acc + int (length (ar_failures r)),
             aa_failed_items := aa_failed_items acc + (if ar_failures r \<noteq> [] then 1 else 0)\<rparr>) w')"

definition stage_acquisition ::
  "'w coord_env \<Rightarrow> work_item list \<Rightarrow> (int \<times> tender_attachment list) list \<Rightarrow> ('w world, stage_report \<times> int) action" where
  "stage_acquisition env work attachments w =
     (case acquisition_loop env attachments work \<lparr>aa_acquired = 0, aa_failed_items = 0, aa_failures = 0, aa_attempts = 0\<rparr> w of
        (acc, w') \<Rightarrow> (Inr (stage_report_default\<lparr>
            sg_detail := Some (int_str (aa_acquired acc) @ '' document(s) acquired for '' @ int_str (int (length work))
              @ '' tender(s); '' @ int_str (aa_failures acc) @ '' attachment failure(s), ''
              @ int_str (aa_attempts acc) @ '' acquisition attempt(s)''),
            sg_item_count := int (length work), sg_failed_items := aa_failed_items acc,
            sg_attempts := aa_attempts acc\<rparr>, aa_acquired acc), w'))"

end
