(* ===== verification/LateStages.thy ===== *)
theory LateStages
  imports StageBodies
begin

text \<open>
  Stages 09 to 15 of \<open>orchestrator/coordinator.py\<close>: processing, triage, verdict and notification.
  Each stage walks over its items and contains the failure of every single one.
\<close>

section \<open>Stage 09\<close>

record processing_tally =
  pt_documents :: int
  pt_bundles_complete :: int
  pt_bundles_incomplete :: int
  pt_notice_only :: int

definition is_notice :: "(string \<times> json) list \<Rightarrow> bool" where
  "is_notice metadata = (obj_get metadata ''notice_text'' = JStr ''1'')"

fun processing_loop ::
  "'w coord_env \<Rightarrow> (int \<times> tender_detail) list \<Rightarrow> work_item list \<Rightarrow> processing_tally \<times> int \<Rightarrow> 'w world
     \<Rightarrow> (processing_tally \<times> int) \<times> 'w world" where
  "processing_loop env details [] acc w = (acc, w)"
| "processing_loop env details (item # items) (t, failures) w =
     (case ce_process env (wi_tender_id item) (wi_correlation_id item) (notice_for item details) w of
        (Inl x, w') \<Rightarrow> processing_loop env details items (t, failures + 1) w'
      | (Inr b, w') \<Rightarrow> processing_loop env details items
          (t\<lparr>pt_documents := pt_documents t + int (length (bn_documents b)),
             pt_notice_only := pt_notice_only t + (if list_ex is_notice (bn_documents b) then 1 else 0),
             pt_bundles_incomplete := pt_bundles_incomplete t + (if bn_incomplete_inputs b then 1 else 0),
             pt_bundles_complete := pt_bundles_complete t + (if bn_incomplete_inputs b then 0 else 1)\<rparr>,
           failures) w')"

definition stage_processing ::
  "'w coord_env \<Rightarrow> work_item list \<Rightarrow> (int \<times> tender_detail) list \<Rightarrow> ('w world, stage_report \<times> processing_tally) action" where
  "stage_processing env work details w =
     (case processing_loop env details work (\<lparr>pt_documents = 0, pt_bundles_complete = 0,
          pt_bundles_incomplete = 0, pt_notice_only = 0\<rparr>, 0) w of
        ((t, failures), w') \<Rightarrow> (Inr (stage_report_default\<lparr>
            sg_detail := Some (int_str (pt_documents t) @ '' document(s) across '' @ int_str (int (length work))
              @ '' tender(s); '' @ int_str (pt_bundles_complete t) @ '' complete bundle(s), ''
              @ int_str (pt_bundles_incomplete t) @ '' incomplete, '' @ int_str failures
              @ '' tender-level failure(s)''
              @ (if pt_notice_only t = 0 then []
                 else '', '' @ int_str (pt_notice_only t) @ '' assessed from the published notice alone'')),
            sg_item_count := int (length work),
            sg_failed_items := failures + pt_bundles_incomplete t\<rparr>, t), w'))"

section \<open>Stage 13\<close>

record triage_acc =
  ta_passed :: "triage_decision list"
  ta_discarded :: int
  ta_failed :: int

fun triage_loop ::
  "'w coord_env \<Rightarrow> int option \<Rightarrow> work_item list \<Rightarrow> triage_acc \<Rightarrow> 'w world \<Rightarrow> triage_acc \<times> 'w world" where
  "triage_loop env run_id [] acc w = (acc, w)"
| "triage_loop env run_id (item # items) acc w =
     (case ce_triage env run_id (wi_tender_id item) w of
        (Inl x, w') \<Rightarrow> triage_loop env run_id items (acc\<lparr>ta_failed := ta_failed acc + 1\<rparr>) w'
      | (Inr d, w') \<Rightarrow>
          if tr_status d = ''passed'' then
            (let acc1 = acc\<lparr>ta_passed := ta_passed acc @ [d]\<rparr> in
             case ce_triage_handoff env of
               None \<Rightarrow> triage_loop env run_id items acc1 w'
             | Some handoff \<Rightarrow> (case handoff d w' of
                 (Inr _, w'') \<Rightarrow> triage_loop env run_id items acc1 w''
               | (Inl x, w'') \<Rightarrow> triage_loop env run_id items (acc1\<lparr>ta_failed := ta_failed acc1 + 1\<rparr>) w''))
          else if tr_status d = ''triage_discarded''
          then triage_loop env run_id items (acc\<lparr>ta_discarded := ta_discarded acc + 1\<rparr>) w'
          else triage_loop env run_id items (acc\<lparr>ta_failed := ta_failed acc + 1\<rparr>) w')"

definition stage_triage ::
  "'w coord_env \<Rightarrow> work_item list \<Rightarrow> int option \<Rightarrow> ('w world, stage_report \<times> triage_decision list) action" where
  "stage_triage env work run_id w =
     (case triage_loop env run_id work \<lparr>ta_passed = [], ta_discarded = 0, ta_failed = 0\<rparr> w of
        (acc, w') \<Rightarrow> (Inr (stage_report_default\<lparr>
            sg_detail := Some (int_str (int (length (ta_passed acc))) @ '' passed, '' @ int_str (ta_discarded acc)
              @ '' discarded, '' @ int_str (ta_failed acc) @ '' failed across '' @ int_str (int (length work))
              @ '' tender(s)''),
            sg_item_count := int (length work), sg_failed_items := ta_failed acc\<rparr>, ta_passed acc), w'))"

section \<open>Stage 14\<close>

record raw_notice_candidate =
  rn_decision :: triage_decision
  rn_reason :: string

record verdict_batch =
  vb_available :: "(triage_decision \<times> verdict_outcome) list"
  vb_unavailable :: "raw_notice_candidate list"

definition empty_batch :: verdict_batch where
  "empty_batch = \<lparr>vb_available = [], vb_unavailable = []\<rparr>"

record verdict_acc =
  va_succeeded :: int
  va_failed :: int
  va_batch :: verdict_batch

definition verdict_missing :: "triage_decision \<Rightarrow> string \<Rightarrow> verdict_acc \<Rightarrow> verdict_acc" where
  "verdict_missing d reason acc = acc\<lparr>va_failed := va_failed acc + 1,
     va_batch := (va_batch acc)\<lparr>vb_unavailable := vb_unavailable (va_batch acc)
       @ [\<lparr>rn_decision = d, rn_reason = reason\<rparr>]\<rparr>\<rparr>"

definition verdict_step :: "triage_decision \<Rightarrow> (exn, verdict_outcome) result \<Rightarrow> verdict_acc \<Rightarrow> verdict_acc" where
  "verdict_step d r acc = (case r of
     Inl x \<Rightarrow> verdict_missing d (case ex_code x of None \<Rightarrow> ''verdict_failed'' | Some c \<Rightarrow> c) acc
   | Inr v \<Rightarrow>
       if vo_status v \<noteq> None \<and> vo_status v \<noteq> Some ''VERDICT_AVAILABLE''
       then verdict_missing d (py_or (vo_error_code v) ''verdict_unavailable'') acc
       else acc\<lparr>va_succeeded := va_succeeded acc + 1,
              va_batch := (if vo_status v = Some ''VERDICT_AVAILABLE'' \<and> vo_verdict_id v \<notin> {None, Some 0}
                 then (va_batch acc)\<lparr>vb_available := vb_available (va_batch acc) @ [(d, v)]\<rparr>
                 else va_batch acc)\<rparr>)"

fun verdict_loop ::
  "(triage_decision \<Rightarrow> ('w world, verdict_outcome) action) \<Rightarrow> triage_decision list \<Rightarrow> verdict_acc \<Rightarrow> 'w world
     \<Rightarrow> verdict_acc \<times> 'w world" where
  "verdict_loop handoff [] acc w = (acc, w)"
| "verdict_loop handoff (d # ds) acc w =
     (case handoff d w of (r, w') \<Rightarrow> verdict_loop handoff ds (verdict_step d r acc) w')"

definition stage_verdict ::
  "(triage_decision \<Rightarrow> ('w world, verdict_outcome) action) \<Rightarrow> triage_decision list
     \<Rightarrow> ('w world, stage_report \<times> verdict_batch) action" where
  "stage_verdict handoff ds w =
     (case verdict_loop handoff ds \<lparr>va_succeeded = 0, va_failed = 0, va_batch = empty_batch\<rparr> w of
        (acc, w') \<Rightarrow> (Inr (stage_report_default\<lparr>
            sg_detail := Some (int_str (va_succeeded acc) @ '' completed, '' @ int_str (va_failed acc) @ '' failed''),
            sg_item_count := int (length ds), sg_failed_items := va_failed acc\<rparr>, va_batch acc), w'))"

section \<open>Stage 15\<close>

definition last_of :: "('k \<times> 'v) list \<Rightarrow> 'k \<Rightarrow> 'v option" where
  \<comment> \<open>a dictionary built from pairs: a later pair replaces an earlier one\<close>
  "last_of ps = map_of (rev ps)"

definition delivered :: "(exn, string) result \<Rightarrow> bool" where
  "delivered r = (case r of Inl _ \<Rightarrow> False
     | Inr status \<Rightarrow> List.member [''sent'', ''already_notified'', ''dry_run''] status)"

definition verdict_event ::
  "('w coord_env) \<Rightarrow> (string \<Rightarrow> dedup_outcome option) \<Rightarrow> string set \<Rightarrow> bool \<Rightarrow> work_item \<Rightarrow> verdict_outcome
     \<Rightarrow> notification_event option" where
  "verdict_event env updates new_ids manual item v =
     (let update = updates (wi_external_id item) in
      if update = None \<and> wi_external_id item \<notin> new_ids \<and> \<not> manual then None
      else Some \<lparr>ne_tender_id = wi_tender_id item, ne_verdict_id = vo_verdict_id v,
        ne_kind = (if update \<noteq> None \<or> (manual \<and> wi_is_update item) then NKUpdate else NKNew),
        ne_material_change = (case update of Some u \<Rightarrow> do_material_change u | None \<Rightarrow> manual \<and> wi_is_update item),
        ne_change_types = (case update of Some u \<Rightarrow> do_change_types u | None \<Rightarrow> []),
        ne_change_details = (case update of
            Some u \<Rightarrow> map (\<lambda>(f, seen, current). (f, ce_str_pair env (seen, current))) (do_change_details u)
          | None \<Rightarrow> []),
        ne_correlation_id = wi_correlation_id item, ne_unavailability_reason = None\<rparr>)"

fun notify_verdicts ::
  "'w coord_env \<Rightarrow> (notification_event \<Rightarrow> ('w world, string) action) \<Rightarrow> (string \<Rightarrow> dedup_outcome option)
     \<Rightarrow> string set \<Rightarrow> bool \<Rightarrow> (int \<Rightarrow> work_item option) \<Rightarrow> (triage_decision \<times> verdict_outcome) list
     \<Rightarrow> int \<times> int \<Rightarrow> 'w world \<Rightarrow> (int \<times> int) \<times> 'w world" where
  "notify_verdicts env send updates new_ids manual work [] acc w = (acc, w)"
| "notify_verdicts env send updates new_ids manual work ((d, v) # vs) (succeeded, failed) w =
     (case work (tr_tender_id d) of
        None \<Rightarrow> notify_verdicts env send updates new_ids manual work vs (succeeded, failed + 1) w
      | Some item \<Rightarrow> (case verdict_event env updates new_ids manual item v of
          None \<Rightarrow> notify_verdicts env send updates new_ids manual work vs (succeeded, failed + 1) w
        | Some event \<Rightarrow> (case send event w of (r, w') \<Rightarrow>
            notify_verdicts env send updates new_ids manual work vs
              (if delivered r then (succeeded + 1, failed) else (succeeded, failed + 1)) w')))"

definition raw_notice_event :: "work_item \<Rightarrow> string \<Rightarrow> notification_event" where
  "raw_notice_event item reason = \<lparr>ne_tender_id = wi_tender_id item, ne_verdict_id = None,
     ne_kind = NKRawNotice, ne_material_change = False, ne_change_types = [], ne_change_details = [],
     ne_correlation_id = wi_correlation_id item, ne_unavailability_reason = Some reason\<rparr>"

fun notify_raw ::
  "(notification_event \<Rightarrow> ('w world, string) action) \<Rightarrow> (int \<Rightarrow> work_item option)
     \<Rightarrow> raw_notice_candidate list \<Rightarrow> int \<times> int \<Rightarrow> 'w world \<Rightarrow> (int \<times> int) \<times> 'w world" where
  "notify_raw send work [] acc w = (acc, w)"
| "notify_raw send work (c # cs) (raw_sent, failed) w =
     (case work (tr_tender_id (rn_decision c)) of
        None \<Rightarrow> notify_raw send work cs (raw_sent, failed + 1) w
      | Some item \<Rightarrow> (case send (raw_notice_event item (rn_reason c)) w of (r, w') \<Rightarrow>
          notify_raw send work cs (if delivered r then (raw_sent + 1, failed) else (raw_sent, failed + 1)) w'))"

definition stage_notifications ::
  "'w coord_env \<Rightarrow> (notification_event \<Rightarrow> ('w world, string) action)
     \<Rightarrow> (triage_decision \<times> verdict_outcome) list \<Rightarrow> dedup_result option \<Rightarrow> work_item list \<Rightarrow> bool
     \<Rightarrow> raw_notice_candidate list \<Rightarrow> ('w world, stage_report \<times> int) action" where
  "stage_notifications env send verdicts result items manual raw w =
     (let updates = last_of (map (\<lambda>o'. (ls_external_id (do_listing o'), o'))
            (case result of None \<Rightarrow> [] | Some r \<Rightarrow> dr_updates r));
          new_ids = ls_external_id ` set (case result of None \<Rightarrow> [] | Some r \<Rightarrow> dr_new_listings r);
          work = last_of (map (\<lambda>i. (wi_tender_id i, i)) items)
      in case notify_verdicts env send updates new_ids manual work verdicts (0, 0) w of
        ((succeeded, failed), w1) \<Rightarrow>
      case notify_raw send work raw (0, failed) w1 of
        ((raw_sent, failed2), w2) \<Rightarrow> (Inr (stage_report_default\<lparr>
            sg_detail := Some (int_str (succeeded + raw_sent) @ '' delivered or already notified, '' @ int_str failed2
              @ '' failed'' @ (if raw_sent = 0 then []
                  else ''; '' @ int_str raw_sent @ '' raw notice(s) for unavailable assessments'')),
            sg_item_count := int (length verdicts) + int (length raw), sg_failed_items := failed2\<rparr>,
          succeeded + raw_sent), w2))"

section \<open>Bodies that contain every failure\<close>

definition contained :: "('w world, stage_report \<times> 'a) action \<Rightarrow> bool" where
  "contained act \<longleftrightarrow> (\<forall>w. \<exists>r a w'. act w = (Inr (r, a), w') \<and> sg_status r \<in> {None, Some SCompleted})"

lemma stage_report_default_status [simp]: "sg_status stage_report_default = None"
  by (simp add: stage_report_default_def)

lemma contained_bodies:
  "contained (stage_persistence res)"
  "contained (stage_detail env ad work)"
  "contained (stage_acquisition env work atts)"
  "contained (stage_processing env work details)"
  "contained (stage_triage env work run_id)"
  "contained (stage_verdict handoff ds)"
  "contained (stage_notifications env send vs result items manual raw)"
  by (auto simp: contained_def stage_persistence_def stage_detail_def stage_acquisition_def
      stage_processing_def stage_triage_def stage_verdict_def stage_notifications_def Let_def
      split: prod.splits)

lemma contained_run_stage:
  assumes "contained act"
  shows "so_status (se_outcome (fst (run_stage clock cid stage act w))) \<in> {SCompleted, SPartial}"
    and "se_payload (fst (run_stage clock cid stage act w)) \<noteq> None"
proof -
  obtain r a w' where "act w = (Inr (r, a), w')" "sg_status r \<in> {None, Some SCompleted}"
    using assms unfolding contained_def by blast
  then show "so_status (se_outcome (fst (run_stage clock cid stage act w))) \<in> {SCompleted, SPartial}"
    and "se_payload (fst (run_stage clock cid stage act w)) \<noteq> None"
    using run_stage_returns [of act w r a w' clock cid stage] by auto
qed

text \<open>Every triaged decision that Stage B could not assess is queued with a reason, and the
  decisions of the stage are split between assessed and unassessed ones.\<close>

lemma verdict_loop_batch:
  assumes "verdict_loop handoff ds acc w = (acc', w')"
  shows "va_succeeded acc' + va_failed acc' = va_succeeded acc + va_failed acc + int (length ds)"
    "int (length (vb_unavailable (va_batch acc'))) - int (length (vb_unavailable (va_batch acc)))
       = va_failed acc' - va_failed acc"
  using assms
  by (induction ds arbitrary: acc w)
    (auto simp: verdict_step_def verdict_missing_def split: prod.splits sum.splits if_splits,
      force+)

end
