(* ===== verification/Coordinator.thy ===== *)
theory Coordinator
  imports LateStages
begin

text \<open>
  Runs of the pipeline, \<open>RunCoordinator\<close> of \<open>orchestrator/coordinator.py\<close>: the order of the
  stages, the run row, the end of a run and the two entry points \<open>run_source\<close> and
  \<open>run_existing_tender\<close>.  The ambient correlation id of a stage is the run's.  What can escape from
  \<open>_drive\<close> is a failure of the two database reads that select the work of the run; the handler of
  \<open>run_existing_tender\<close> has nothing to catch here, because nothing outside its stages raises.
\<close>

section \<open>Stages in order\<close>

type_synonym 'w progress = "(stage_outcome \<Rightarrow> 'w world \<Rightarrow> 'w world) option"

definition run_recorded ::
  "'w coord_env \<Rightarrow> 'w progress \<Rightarrow> stage_number \<Rightarrow> ('w world, stage_report \<times> 'a) action \<Rightarrow> run_state \<Rightarrow> 'w world
     \<Rightarrow> 'a stage_execution \<times> run_state \<times> 'w world" where
  "run_recorded env progress stage act st w =
     (case run_stage (ce_runner_clock env) (rs_run_cid st) stage act w of
        (ex, w1) \<Rightarrow> (ex, record_outcome progress (se_outcome ex) st w1))"

definition drive_notification ::
  "'w coord_env \<Rightarrow> 'w progress \<Rightarrow> verdict_batch \<Rightarrow> dedup_result option \<Rightarrow> bool \<Rightarrow> run_state \<Rightarrow> 'w world
     \<Rightarrow> run_state \<times> 'w world" where
  "drive_notification env progress batch result manual st w =
     (case ce_dispatch env of
        None \<Rightarrow> (record_skipped (ce_now env w) Notification ''no notification channel configured'' st, w)
      | Some send \<Rightarrow> snd (run_recorded env progress Notification
          (stage_notifications env send (vb_available batch) result (rs_work st) manual (vb_unavailable batch)) st w))"

definition drive_verdict ::
  "'w coord_env \<Rightarrow> 'w progress \<Rightarrow> triage_decision list \<Rightarrow> dedup_result option \<Rightarrow> bool \<Rightarrow> run_state \<Rightarrow> 'w world
     \<Rightarrow> run_state \<times> 'w world" where
  "drive_verdict env progress passed result manual st w =
     (case ce_verdict_handoff env of
        None \<Rightarrow> (record_skipped (ce_now env w) Notification ''no Stage B verdicts to notify''
                  (record_skipped (ce_now env w) Verdict ''no Stage B engine configured'' st), w)
      | Some handoff \<Rightarrow>
          (case run_recorded env progress Verdict (stage_verdict handoff passed) st w of
            (ex, st1, w1) \<Rightarrow> drive_notification env progress
              (case se_payload ex of None \<Rightarrow> empty_batch | Some b \<Rightarrow> b) result manual st1 w1))"

definition drive_after_detail ::
  "'w coord_env \<Rightarrow> 'w progress \<Rightarrow> int option \<Rightarrow> detail_product \<Rightarrow> dedup_result option \<Rightarrow> bool \<Rightarrow> run_state
     \<Rightarrow> 'w world \<Rightarrow> run_state \<times> 'w world" where
  "drive_after_detail env progress run_id found result manual st w =
     (case run_recorded env progress Acquisition (stage_acquisition env (rs_work st) (dp_attachments found)) st w of
        (acq, st1, w1) \<Rightarrow>
      (let st2 = (case se_payload acq of None \<Rightarrow> st1 | Some n \<Rightarrow> st1\<lparr>rs_documents_acquired := n\<rparr>) in
       case run_recorded env progress Processing (stage_processing env (rs_work st2) (dp_details found)) st2 w1 of
        (pro, st3, w3) \<Rightarrow>
      (let st4 = (case se_payload pro of None \<Rightarrow> st3 | Some t \<Rightarrow> st3\<lparr>rs_documents_processed := pt_documents t\<rparr>) in
       case run_recorded env progress Triage (stage_triage env (rs_work st4) run_id) st4 w3 of
        (tri, st5, w5) \<Rightarrow> drive_verdict env progress (case se_payload tri of None \<Rightarrow> [] | Some p \<Rightarrow> p)
          result manual st5 w5)))"

definition drive_downstream ::
  "'w coord_env \<Rightarrow> 'w progress \<Rightarrow> int option \<Rightarrow> 'w adapter \<Rightarrow> dedup_result option \<Rightarrow> run_state \<Rightarrow> 'w world
     \<Rightarrow> run_state \<times> 'w world" where
  "drive_downstream env progress run_id ad result st w =
     (case run_recorded env progress Detail (stage_detail env ad (rs_work st)) st w of
        (ex, st1, w1) \<Rightarrow>
          if so_status (se_outcome ex) = SFailed then (st1, w1)
          else drive_after_detail env progress run_id
            (case se_payload ex of None \<Rightarrow> empty_product | Some p \<Rightarrow> p) result False st1 w1)"

definition drive_existing_tender ::
  "'w coord_env \<Rightarrow> 'w progress \<Rightarrow> source_spec \<Rightarrow> work_item \<Rightarrow> int option \<Rightarrow> run_state \<Rightarrow> 'w world
     \<Rightarrow> run_state \<times> 'w world" where
  "drive_existing_tender env progress spec item run_id st w =
     (case run_recorded env progress Detail (stage_manual_detail env spec [item]) st w of
        (ex, st1, w1) \<Rightarrow>
          if so_status (se_outcome ex) = SFailed then (st1, w1)
          else drive_after_detail env progress run_id
            (case se_payload ex of None \<Rightarrow> empty_product | Some p \<Rightarrow> p) None True st1 w1)"

definition plan_remaining :: "instant \<Rightarrow> dedup_result option \<Rightarrow> run_state \<Rightarrow> run_state" where
  "plan_remaining now result st =
     (let planned = work_external_ids result;
          st1 = fold (\<lambda>s. record_pending now s ''dry run: no writes and no fetches beyond discovery'')
            [Detail, Acquisition, Processing, Triage, Verdict] st
      in st1\<lparr>rs_planned_actions := (if planned \<noteq> []
         then [''would fetch attachment metadata for '' @ int_str (int (length planned)) @ '' tender(s)'',
               ''would acquire those attachments into object storage'',
               ''would extract text and tables into per-tender bundles'',
               ''would evaluate configurable Stage A triage rules'']
         else [''no new or changed tenders; nothing further to do''])\<rparr>)"

definition drive_work ::
  "'w coord_env \<Rightarrow> 'w progress \<Rightarrow> source_spec \<Rightarrow> int option \<Rightarrow> 'w adapter \<Rightarrow> dedup_result option \<Rightarrow> run_state
     \<Rightarrow> 'w world \<Rightarrow> exn option \<times> run_state \<times> 'w world" where
  "drive_work env progress spec run_id ad result st w =
     (case resolve_work env spec (work_external_ids result) (rs_run_cid st) w of
        Inl x \<Rightarrow> (Some x, st, w)
      | Inr work \<Rightarrow>
          (let st1 = st\<lparr>rs_work := work\<rparr> in
           case recover_unprocessed env spec (rs_run_cid st) (wi_tender_id ` set work) w of
             Inl x \<Rightarrow> (Some x, st1, w)
           | Inr recovered \<Rightarrow>
               (let st2 = st1\<lparr>rs_work := work @ recovered\<rparr> in
                if rs_work st2 = [] then (None, st2, w)
                else (None, drive_downstream env progress run_id ad result st2 w))))"

definition drive ::
  "'w coord_env \<Rightarrow> 'w progress \<Rightarrow> source_spec \<Rightarrow> int option \<Rightarrow> run_state \<Rightarrow> 'w world
     \<Rightarrow> exn option \<times> run_state \<times> 'w world" where
  "drive env progress spec run_id st w =
     (case run_recorded env progress Discovery (stage_discovery env spec) st w of (dis, st1, w1) \<Rightarrow>
      case se_payload dis of
        None \<Rightarrow> (None, st1, w1)
      | Some found \<Rightarrow>
      if so_status (se_outcome dis) = SFailed then (None, st1, w1) else
      (case run_recorded env progress Deduplication
              (stage_dedup env spec (ds_listings found) (rs_run_cid st1) run_id (rs_dry_run st1)) st1 w1 of
         (ded, st2, w2) \<Rightarrow>
       if so_status (se_outcome ded) = SFailed then (None, st2, w2) else
       (let result = se_payload ded;
            st3 = (case result of None \<Rightarrow> st2 | Some r \<Rightarrow> record_dedup r st2) in
        case run_recorded env progress Persistence (stage_persistence result) st3 w2 of (per, st4, w4) \<Rightarrow>
        if rs_dry_run st4 then (None, plan_remaining (ce_now env w4) result st4, w4)
        else drive_work env progress spec run_id (ds_adapter found) result st4 w4)))"

section \<open>The run row\<close>

definition coord_open_run ::
  "'w coord_env \<Rightarrow> source_spec \<Rightarrow> string \<Rightarrow> config_snapshot \<Rightarrow> string \<Rightarrow> int option \<Rightarrow> ('w world, int) action" where
  "coord_open_run env spec run_cid config trigger tender_id w =
     (case ce_db_fault env DbOpenRun w of
        Some x \<Rightarrow> (Inl x, w)
      | None \<Rightarrow>
          (let s = wl_store w;
               row = (create_run (st_next_run s) (ss_id spec) run_cid None (ce_now env w))
                 \<lparr>rh_config_version := Some (cf_version config), rh_trigger := Some trigger, rh_tender_id := tender_id\<rparr>
           in (Inr (rh_id row), w\<lparr>wl_store := s\<lparr>st_runs := st_runs s @ [row], st_next_run := st_next_run s + 1\<rparr>\<rparr>)))"

definition finalized ::
  "instant \<Rightarrow> string \<Rightarrow> run_state \<Rightarrow> run_status \<Rightarrow> config_snapshot \<Rightarrow> run_history \<Rightarrow> run_history" where
  "finalized now run_cid st status config row =
     record_stages (stage_map (rs_outcomes st)) (Some (cf_version config))
       (map_option stage_value (rs_failed_stage st)) (rs_error_code st)
       (if status = RFailed then mark_errored run_cid (Some (state_counts st)) now row
        else complete_run (state_counts st) None now row)"

definition finalize_run ::
  "'w coord_env \<Rightarrow> int \<Rightarrow> string \<Rightarrow> run_state \<Rightarrow> run_status \<Rightarrow> config_snapshot \<Rightarrow> 'w world \<Rightarrow> 'w world" where
  "finalize_run env run_id run_cid st status config w =
     (case ce_db_fault env DbFinalize w of
        Some _ \<Rightarrow> w
      | None \<Rightarrow> (case List.find (\<lambda>r. rh_id r = run_id) (st_runs (wl_store w)) of
          None \<Rightarrow> w
        | Some row \<Rightarrow> w\<lparr>wl_store := put_run (finalized (ce_now env w) run_cid st status config row) (wl_store w)\<rparr>))"

definition stamp_source :: "'w coord_env \<Rightarrow> int \<Rightarrow> run_state \<Rightarrow> 'w world \<Rightarrow> 'w world" where
  "stamp_source env sid st w =
     (case ce_db_fault env DbStamp w of
        Some _ \<Rightarrow> w
      | None \<Rightarrow> w\<lparr>wl_sources := mark_run sid
          (case rs_ended_at st of None \<Rightarrow> ce_clock env w | Some e \<Rightarrow> e) (source_error st) (wl_sources w)\<rparr>)"

definition send_alert :: "'w coord_env \<Rightarrow> run_report \<Rightarrow> 'w world \<Rightarrow> 'w world" where
  "send_alert env r = ce_alert env \<lparr>an_source_id = rr_source_id r, an_source_name = rr_source_name r,
     an_correlation_id = rr_correlation_id r, an_error_code = py_or (rr_error_code r) STAGE_FAILED,
     an_stage = map_option stage_value (rr_failed_stage r), an_run_history_id = rr_run_history_id r,
     an_message = ''pipeline run failed with status '' @ run_status_value (rr_status r)\<rparr>"

section \<open>The entry points\<close>

text \<open>The end of \<open>_execute\<close>, once \<open>_drive\<close> has returned or raised.\<close>

definition contain_drive :: "'w coord_env \<Rightarrow> exn option \<Rightarrow> run_state \<Rightarrow> 'w world \<Rightarrow> run_state" where
  "contain_drive env escaped st w = (case escaped of None \<Rightarrow> st
     | Some _ \<Rightarrow> mark_ended (ce_clock env w)
         (if rs_error_code st = None then st\<lparr>rs_error_code := Some STAGE_FAILED\<rparr> else st))"

definition report_of ::
  "source_spec \<Rightarrow> string \<Rightarrow> run_status \<Rightarrow> instant \<Rightarrow> run_state \<Rightarrow> int option \<Rightarrow> config_snapshot \<Rightarrow> bool \<Rightarrow> int
     \<Rightarrow> run_report" where
  "report_of spec run_cid status started st run_id config dry_run considered =
     \<lparr>rr_source_id = ss_id spec, rr_source_name = ss_name spec, rr_correlation_id = run_cid,
      rr_status = status, rr_started_at = fst (state_bounds started st), rr_ended_at = snd (state_bounds started st),
      rr_stages = rs_outcomes st, rr_run_history_id = run_id, rr_config_version = Some (cf_version config),
      rr_failed_stage = rs_failed_stage st, rr_error_code = rs_error_code st,
      rr_tenders_considered = considered, rr_documents_acquired = rs_documents_acquired st,
      rr_documents_processed = rs_documents_processed st, rr_dry_run = dry_run,
      rr_planned_actions = rs_planned_actions st\<rparr>"

definition finish_run ::
  "'w coord_env \<Rightarrow> source_spec \<Rightarrow> config_snapshot \<Rightarrow> string \<Rightarrow> bool \<Rightarrow> int option \<Rightarrow> instant
     \<Rightarrow> exn option \<times> run_state \<times> 'w world \<Rightarrow> run_report \<times> 'w world" where
  "finish_run env spec config run_cid dry_run run_id started d =
     (case d of (escaped, st, w1) \<Rightarrow>
      (let st2 = pending_remaining (ce_now env w1) ''run stopped before this stage'' (contain_drive env escaped st w1);
           status = (if dry_run then RDryRun else derived_status (rs_outcomes st2));
           w2 = (case run_id of None \<Rightarrow> w1
             | Some rid \<Rightarrow> stamp_source env (ss_id spec) st2 (finalize_run env rid run_cid st2 status config w1));
           report = report_of spec run_cid status started st2 run_id config dry_run (int (length (rs_work st2)))
       in (report, if status = RFailed then send_alert env report w2 else w2)))"

definition execute_run ::
  "'w coord_env \<Rightarrow> 'w progress \<Rightarrow> source_spec \<Rightarrow> config_snapshot \<Rightarrow> string \<Rightarrow> bool \<Rightarrow> string
     \<Rightarrow> ('w world, run_report) action" where
  "execute_run env progress spec config run_cid dry_run trigger w =
     (let started = ce_clock env w in
      case (if dry_run then (Inr None, w)
            else case coord_open_run env spec run_cid config trigger None w of
              (Inl x, w') \<Rightarrow> (Inl x, w') | (Inr rid, w') \<Rightarrow> (Inr (Some rid), w')) of
        (Inl x, w1) \<Rightarrow> (Inl x, w1)
      | (Inr run_id, w1) \<Rightarrow>
          (case finish_run env spec config run_cid dry_run run_id started
                  (drive env progress spec run_id (new_run_state run_cid dry_run) w1) of
             (report, w2) \<Rightarrow> (Inr report, w2)))"

definition run_source ::
  "'w coord_env \<Rightarrow> 'w progress \<Rightarrow> int \<Rightarrow> bool \<Rightarrow> bool \<Rightarrow> string \<Rightarrow> string option \<Rightarrow> ('w world, run_report) action" where
  "run_source env progress sid dry_run force_run trigger correlation_id w =
     (case ce_db_fault env (DbGetSource sid) w of Some x \<Rightarrow> (Inl x, w) | None \<Rightarrow>
      case get_decision (ce_now env w) sid (wl_sources w) of
        None \<Rightarrow> (Inl (source_not_runnable (''unknown source_id '' @ int_str sid)), w)
      | Some d \<Rightarrow>
          if \<not> ss_active (sd_spec d) \<and> \<not> force_run
          then (Inl (source_not_runnable ''source is inactive''), w)
          else (case ce_load_config env w of
            Inl x \<Rightarrow> (Inl x, w)
          | Inr config \<Rightarrow> execute_run env progress (sd_spec d) config
              (py_or correlation_id (ce_new_correlation_id env w)) dry_run trigger w))"

definition run_one_tender ::
  "'w coord_env \<Rightarrow> 'w progress \<Rightarrow> source_spec \<Rightarrow> config_snapshot \<Rightarrow> string \<Rightarrow> work_item \<Rightarrow> ('w world, run_report) action" where
  "run_one_tender env progress spec config run_cid item w =
     (let started = ce_clock env w in
      case coord_open_run env spec run_cid config ''manual_tender'' (Some (wi_tender_id item)) w of
        (Inl x, w1) \<Rightarrow> (Inl x, w1)
      | (Inr rid, w1) \<Rightarrow>
          (let reason = ''manual Process Now selected an existing tender; discovery and deduplication were not run'';
               st0 = fold (\<lambda>s. record_pending (ce_now env w1) s reason) [Discovery, Deduplication, Persistence]
                 ((new_run_state run_cid False)\<lparr>rs_work := [item]\<rparr>)
           in case drive_existing_tender env progress spec item (Some rid) st0 w1 of (st, w2) \<Rightarrow>
             (let st2 = pending_remaining (ce_now env w2) ''run stopped before this stage'' st;
                  status = (if py_truthy (rs_error_code st2) then RFailed else derived_status (rs_outcomes st2));
                  w3 = finalize_run env rid run_cid st2 status config w2;
                  report = report_of spec run_cid status started st2 (Some rid) config False 1
              in (Inr report, if status = RFailed then send_alert env report w3 else w3))))"

definition run_existing_tender ::
  "'w coord_env \<Rightarrow> 'w progress \<Rightarrow> int \<Rightarrow> string option \<Rightarrow> ('w world, run_report) action" where
  "run_existing_tender env progress tender_id correlation_id w =
     (case ce_db_fault env DbFindTender w of
        Some x \<Rightarrow> (Inl x, w)
      | None \<Rightarrow> (case List.find (\<lambda>t. tn_id t = tender_id) (st_tenders (wl_store w)) of
          None \<Rightarrow> (Inl (source_not_runnable ''unknown tender''), w)
        | Some t \<Rightarrow>
            if terminal (tn_status t)
            then (Inl (source_not_runnable ''tender is terminal and cannot be re-run''), w)
            else (case ce_db_fault env (DbGetSource (tn_source_id t)) w of Some x \<Rightarrow> (Inl x, w) | None \<Rightarrow>
              case get_decision (ce_now env w) (tn_source_id t) (wl_sources w) of
              None \<Rightarrow> (Inl (source_not_runnable ''tender source is unavailable''), w)
            | Some d \<Rightarrow> (case ce_load_config env w of
                Inl x \<Rightarrow> (Inl x, w)
              | Inr config \<Rightarrow> run_one_tender env progress (sd_spec d) config
                  (py_or correlation_id (ce_new_correlation_id env w))
                  \<lparr>wi_tender_id = tn_id t, wi_external_id = tn_external_id t,
                   wi_correlation_id = tn_correlation_id t, wi_is_update = tn_is_update t\<rparr> w))))"

end
