(* ===== verification/CoordinatorProps.thy ===== *)
theory CoordinatorProps
  imports Coordinator DedupRerun
begin

text \<open>
  What every run reports: all stages once and in order, the failed stage, and a status that is
  \<open>FAILED\<close> only for the stages that can stop a run.  The lemmas follow the composition of
  \<open>Coordinator\<close>: each part of the drive takes a state that has recorded a first part of the
  stages to one that has recorded more, and no stage after deduplication fails.
\<close>

section \<open>One recorded stage\<close>

lemma run_recorded_cases:
  assumes "run_recorded env progress stage act st w = (ex, st1, w1)"
  shows "st1 = record_state (se_outcome ex) st" "so_stage (se_outcome ex) = stage"
    "so_status (se_outcome ex) = SFailed \<longrightarrow> so_error_code (se_outcome ex) \<noteq> None
       \<or> (\<exists>r a w'. act w = (Inr (r, a), w') \<and> sg_status r = Some SFailed)"
proof -
  obtain e w0 where ex: "run_stage (ce_runner_clock env) (rs_run_cid st) stage act w = (e, w0)" by fastforce
  then have eq: "ex = e" "st1 = record_state (se_outcome ex) st"
    using assms by (auto simp: run_recorded_def record_outcome_def)
  show "st1 = record_state (se_outcome ex) st" by (rule eq(2))
  show "so_stage (se_outcome ex) = stage"
    using run_stage_stage [of "ce_runner_clock env" "rs_run_cid st" stage act w] ex eq(1) by simp
  show "so_status (se_outcome ex) = SFailed \<longrightarrow> so_error_code (se_outcome ex) \<noteq> None
       \<or> (\<exists>r a w'. act w = (Inr (r, a), w') \<and> sg_status r = Some SFailed)"
    using ex eq(1) by (auto simp: run_stage_def Let_def split: prod.splits sum.splits option.splits if_splits)
qed

lemma run_recorded_contained:
  assumes "run_recorded env progress stage act st w = (ex, st1, w1)" and "contained act"
  shows "so_status (se_outcome ex) \<in> {SCompleted, SPartial}" "se_payload ex \<noteq> None"
  using contained_run_stage [OF assms(2), of "ce_runner_clock env" "rs_run_cid st" stage w] assms(1)
  by (auto simp: run_recorded_def record_outcome_def split: prod.splits)

section \<open>The invariant of a drive\<close>

text \<open>The stages recorded are the first of the order, and the stage that failed, if any, is the
  first failed one, is in \<open>F\<close>, and left a code.\<close>

definition tracked :: "stage_number set \<Rightarrow> run_state \<Rightarrow> bool" where
  "tracked F st \<longleftrightarrow> failure_ok st
     \<and> (\<forall>o' \<in> set (rs_outcomes st). so_status o' = SFailed \<longrightarrow> so_stage o' \<in> F)
     \<and> (rs_failed_stage st \<noteq> None \<longrightarrow> rs_error_code st \<noteq> None)
     \<and> (rs_failed_stage st = None \<longrightarrow> rs_error_code st = None)"

lemma tracked_update [simp]:
  "tracked F (st\<lparr>rs_documents_acquired := n\<rparr>) = tracked F st"
  "tracked F (st\<lparr>rs_documents_processed := n\<rparr>) = tracked F st"
  "tracked F (st\<lparr>rs_work := ws\<rparr>) = tracked F st"
  "tracked F (st\<lparr>rs_planned_actions := ps\<rparr>) = tracked F st"
  "tracked F (record_dedup r st) = tracked F st"
  by (simp_all add: tracked_def failure_ok_def record_dedup_def)

lemma record_dedup_outcomes [simp]: "rs_outcomes (record_dedup r st) = rs_outcomes st"
  "rs_dry_run (record_dedup r st) = rs_dry_run st" "rs_run_cid (record_dedup r st) = rs_run_cid st"
  by (simp_all add: record_dedup_def)

lemma tracked_unreached [simp]:
  "tracked F st \<Longrightarrow> tracked F (record_pending n s d st)"
  "tracked F st \<Longrightarrow> tracked F (record_skipped n s d st)"
  by (auto simp: tracked_def record_unreached_failure_ok)

lemma tracked_record:
  assumes "tracked F st" "so_status o' = SFailed \<longrightarrow> so_stage o' \<in> F \<and> so_error_code o' \<noteq> None"
  shows "tracked F (record_state o' st)"
  using assms by (auto simp: tracked_def record_state_failure_ok record_state_failure)

lemma tracked_contained:
  assumes "run_recorded env progress stage act st w = (ex, st1, w1)" "contained act" "tracked F st"
  shows "tracked F st1"
  using run_recorded_cases(1) [OF assms(1)] run_recorded_contained(1) [OF assms(1,2)] assms(3)
  by (auto intro: tracked_record)

lemma tracked_pending_remaining: "tracked F st \<Longrightarrow> tracked F (pending_remaining n d st)"
  by (auto simp: tracked_def pending_remaining_failure_ok pending_remaining_outcomes)

section \<open>The parts of a drive\<close>

lemma drive_notification_tracked:
  assumes "drive_notification env progress batch result manual st w = (st', w')" "tracked F st"
  shows "tracked F st' \<and> recorded st' = recorded st @ [Notification]"
proof (cases "ce_dispatch env")
  case None
  then show ?thesis using assms by (auto simp: drive_notification_def)
next
  case (Some send)
  then obtain ex where "run_recorded env progress Notification (stage_notifications env send
      (vb_available batch) result (rs_work st) manual (vb_unavailable batch)) st w = (ex, st', w')"
    using assms(1) by (auto simp: drive_notification_def prod_eq_iff)
  then show ?thesis
    using tracked_contained [OF _ contained_bodies(7) assms(2)] run_recorded_cases(1,2) by fastforce
qed

lemma drive_verdict_tracked:
  assumes "drive_verdict env progress passed result manual st w = (st', w')" "tracked F st"
  shows "tracked F st' \<and> recorded st' = recorded st @ [Verdict, Notification]"
proof (cases "ce_verdict_handoff env")
  case None
  then show ?thesis using assms by (auto simp: drive_verdict_def)
next
  case (Some handoff)
  obtain ex st1 w1 where ver: "run_recorded env progress Verdict (stage_verdict handoff passed) st w = (ex, st1, w1)"
    using prod_cases3 by blast
  then have "drive_notification env progress (case se_payload ex of None \<Rightarrow> empty_batch | Some b \<Rightarrow> b)
      result manual st1 w1 = (st', w')"
    using assms(1) Some by (simp add: drive_verdict_def)
  then have "tracked F st' \<and> recorded st' = recorded st1 @ [Notification]"
    using drive_notification_tracked tracked_contained [OF ver contained_bodies(6) assms(2)] by blast
  then show ?thesis using run_recorded_cases(1,2) [OF ver] by simp
qed

lemma drive_after_detail_tracked:
  assumes "drive_after_detail env progress run_id found result manual st w = (st', w')" "tracked F st"
  shows "tracked F st' \<and> recorded st' = recorded st @ [Acquisition, Processing, Triage, Verdict, Notification]"
proof -
  obtain acq st1 w1 where acq: "run_recorded env progress Acquisition
      (stage_acquisition env (rs_work st) (dp_attachments found)) st w = (acq, st1, w1)" using prod_cases3 by blast
  define st2 where "st2 = (case se_payload acq of None \<Rightarrow> st1 | Some n \<Rightarrow> st1\<lparr>rs_documents_acquired := n\<rparr>)"
  obtain pro st3 w3 where pro: "run_recorded env progress Processing
      (stage_processing env (rs_work st2) (dp_details found)) st2 w1 = (pro, st3, w3)" using prod_cases3 by blast
  define st4 where "st4 = (case se_payload pro of None \<Rightarrow> st3 | Some t \<Rightarrow> st3\<lparr>rs_documents_processed := pt_documents t\<rparr>)"
  obtain tri st5 w5 where tri: "run_recorded env progress Triage
      (stage_triage env (rs_work st4) run_id) st4 w3 = (tri, st5, w5)" using prod_cases3 by blast
  have ver: "drive_verdict env progress (case se_payload tri of None \<Rightarrow> [] | Some p \<Rightarrow> p) result manual st5 w5 = (st', w')"
    using assms(1) acq pro tri by (simp add: drive_after_detail_def Let_def st2_def st4_def)
  have "tracked F st2" "recorded st2 = recorded st @ [Acquisition]"
    using tracked_contained [OF acq contained_bodies(3) assms(2)] run_recorded_cases(1,2) [OF acq]
    by (auto simp: st2_def split: option.splits)
  moreover from this have "tracked F st4" "recorded st4 = recorded st2 @ [Processing]"
    using tracked_contained [OF pro contained_bodies(4)] run_recorded_cases(1,2) [OF pro]
    by (auto simp: st4_def split: option.splits)
  moreover from this have "tracked F st5" "recorded st5 = recorded st4 @ [Triage]"
    using tracked_contained [OF tri contained_bodies(5)] run_recorded_cases(1,2) [OF tri] by auto
  ultimately show ?thesis using drive_verdict_tracked [OF ver] by simp
qed

lemma drive_downstream_tracked:
  assumes "drive_downstream env progress run_id ad result st w = (st', w')" "tracked F st"
  shows "tracked F st' \<and> recorded st' = recorded st @ [Detail, Acquisition, Processing, Triage, Verdict, Notification]"
proof -
  obtain ex st1 w1 where det: "run_recorded env progress Detail (stage_detail env ad (rs_work st)) st w = (ex, st1, w1)"
    using prod_cases3 by blast
  have "so_status (se_outcome ex) \<noteq> SFailed" using run_recorded_contained(1) [OF det contained_bodies(2)] by auto
  then have "drive_after_detail env progress run_id (case se_payload ex of None \<Rightarrow> empty_product | Some p \<Rightarrow> p)
      result False st1 w1 = (st', w')"
    using assms(1) det by (simp add: drive_downstream_def)
  then show ?thesis
    using drive_after_detail_tracked [OF _ tracked_contained [OF det contained_bodies(2) assms(2)]]
      run_recorded_cases(1,2) [OF det] by fastforce
qed

lemma drive_work_tracked:
  assumes run: "drive_work env progress spec run_id ad result st w = (x, st', w')" and "tracked F st"
    and start: "recorded st = take 3 STAGE_ORDER"
  shows "tracked F st' \<and> (\<exists>k. recorded st' = take k STAGE_ORDER) \<and> (x \<noteq> None \<longrightarrow> recorded st' = take 3 STAGE_ORDER)"
proof (cases "resolve_work env spec (work_external_ids result) (rs_run_cid st) w")
  case (Inl y)
  then show ?thesis using assms by (auto simp: drive_work_def)
next
  case resolved: (Inr work)
  show ?thesis
  proof (cases "recover_unprocessed env spec (rs_run_cid st) (wi_tender_id ` set work) w")
    case (Inl y)
    then show ?thesis using assms resolved by (auto simp: drive_work_def Let_def)
  next
    case (Inr recovered)
    let ?st = "st\<lparr>rs_work := work @ recovered\<rparr>"
    show ?thesis
    proof (cases "work @ recovered = []")
      case True
      then show ?thesis using assms Inr resolved by (auto simp: drive_work_def Let_def)
    next
      case False
      then have none: "x = None" and down: "drive_downstream env progress run_id ad result ?st w = (st', w')"
        using run Inr resolved by (auto simp: drive_work_def Let_def)
      have "tracked F ?st" using assms(2) by simp
      from drive_downstream_tracked [OF down this]
      have "tracked F st'" "recorded st' = take 9 STAGE_ORDER" using start by (simp_all add: STAGE_ORDER_def)
      then show ?thesis using none by blast
    qed
  qed
qed

lemma plan_remaining_tracked:
  assumes "tracked F st" "recorded st = take 3 STAGE_ORDER"
  shows "tracked F (plan_remaining n result st) \<and> recorded (plan_remaining n result st) = take 8 STAGE_ORDER"
  using assms by (simp add: plan_remaining_def Let_def STAGE_ORDER_def)

text \<open>A stage run when nothing has failed: it fails and is the failed stage, or nothing has failed.\<close>

lemma run_recorded_first:
  assumes ex: "run_recorded env progress stage act st w = (ex, st1, w1)" and "tracked {} st"
    and ok: "\<forall>r a w'. act w = (Inr (r, a), w') \<longrightarrow> sg_status r \<noteq> Some SFailed"
  shows "recorded st1 = recorded st @ [stage]"
    and "so_status (se_outcome ex) = SFailed \<Longrightarrow> tracked {stage} st1 \<and> rs_failed_stage st1 = Some stage"
    and "so_status (se_outcome ex) \<noteq> SFailed \<Longrightarrow> tracked {} st1"
    and "so_status (se_outcome ex) = SFailed \<longleftrightarrow> se_payload ex = None"
proof -
  note cases = run_recorded_cases [OF ex]
  have none: "rs_failed_stage st = None"
    using assms(2) unfolding tracked_def failure_ok_def by (auto simp: find_None_iff)
  show "recorded st1 = recorded st @ [stage]" using cases(1,2) by simp
  show "tracked {stage} st1 \<and> rs_failed_stage st1 = Some stage" if "so_status (se_outcome ex) = SFailed"
  proof
    have "tracked {stage} st" using assms(2) by (auto simp: tracked_def)
    then show "tracked {stage} st1" using cases that ok by (auto intro: tracked_record)
    show "rs_failed_stage st1 = Some stage" using cases(1,2) that none by (simp add: record_state_failure)
  qed
  show "tracked {} st1" if "so_status (se_outcome ex) \<noteq> SFailed"
    using cases(1) that assms(2) by (auto intro: tracked_record)
  obtain e w0 where e: "run_stage (ce_runner_clock env) (rs_run_cid st) stage act w = (e, w0)" by fastforce
  then have "e = ex" using ex by (simp add: run_recorded_def)
  then show "so_status (se_outcome ex) = SFailed \<longleftrightarrow> se_payload ex = None"
    using run_stage_failed_iff [of act w "ce_runner_clock env" "rs_run_cid st" stage] ok e by simp
qed

lemma stage_discovery_status:
  "\<forall>r a w'. stage_discovery env spec w = (Inr (r, a), w') \<longrightarrow> sg_status r \<noteq> Some SFailed"
  by (auto simp: stage_discovery_def split: sum.splits prod.splits)

lemma stage_dedup_status:
  "\<forall>r a w'. stage_dedup env spec ls cid rid dry w = (Inr (r, a), w') \<longrightarrow> sg_status r \<noteq> Some SFailed"
  by (auto simp: stage_dedup_def split: sum.splits prod.splits)

text \<open>How a drive ends: at the stage that failed, or with nothing failed.\<close>

definition stopped_at :: "stage_number \<Rightarrow> run_state \<Rightarrow> bool" where
  "stopped_at s st \<longleftrightarrow> tracked {s} st \<and> rs_failed_stage st = Some s
     \<and> recorded st = take (Suc (stage_rank s)) STAGE_ORDER"

definition went_on :: "run_state \<Rightarrow> bool" where
  "went_on st \<longleftrightarrow> tracked {} st \<and> (\<exists>k. recorded st = take k STAGE_ORDER)"

lemma drive_ends:
  assumes drv: "drive env progress spec run_id st w = (x, st', w')" and st: "tracked {} st" "recorded st = []"
  shows "x = None \<and> (stopped_at Discovery st' \<or> stopped_at Deduplication st')
    \<or> went_on st' \<and> (x \<noteq> None \<longrightarrow> recorded st' = take 3 STAGE_ORDER)"
proof -
  obtain dis st1 w1 where dis: "run_recorded env progress Discovery (stage_discovery env spec) st w = (dis, st1, w1)"
    using prod_cases3 by blast
  note first = run_recorded_first [OF dis st(1) stage_discovery_status]
  have st1: "recorded st1 = take 1 STAGE_ORDER" using first(1) st(2) by (simp add: STAGE_ORDER_def)
  show ?thesis
  proof (cases "so_status (se_outcome dis) = SFailed")
    case True
    then have "x = None" "st' = st1" using drv dis by (auto simp: drive_def split: option.splits)
    moreover have "stopped_at Discovery st1" using first(2) True st1 by (simp add: stopped_at_def)
    ultimately show ?thesis by blast
  next
    case False
    then obtain found where found: "se_payload dis = Some found" using first(4) by auto
    obtain ded st2 w2 where ded: "run_recorded env progress Deduplication
        (stage_dedup env spec (ds_listings found) (rs_run_cid st1) run_id (rs_dry_run st1)) st1 w1 = (ded, st2, w2)"
      using prod_cases3 by blast
    note second = run_recorded_first [OF ded first(3) [OF False] stage_dedup_status]
    have st2: "recorded st2 = take 2 STAGE_ORDER" using second(1) st1 by (simp add: STAGE_ORDER_def)
    show ?thesis
    proof (cases "so_status (se_outcome ded) = SFailed")
      case True
      then have "x = None" "st' = st2" using drv dis found False ded by (auto simp: drive_def)
      moreover have "stopped_at Deduplication st2" using second(2) True st2 by (simp add: stopped_at_def numeral_2_eq_2)
      ultimately show ?thesis by blast
    next
      case dedup_ok: False
      define st3 where "st3 = (case se_payload ded of None \<Rightarrow> st2 | Some r \<Rightarrow> record_dedup r st2)"
      obtain per st4 w4 where per: "run_recorded env progress Persistence
          (stage_persistence (se_payload ded)) st3 w2 = (per, st4, w4)" using prod_cases3 by blast
      have st3: "tracked {} st3" "recorded st3 = take 2 STAGE_ORDER"
        using second(3) [OF dedup_ok] st2 by (auto simp: st3_def split: option.splits)
      have st4: "tracked {} st4" "recorded st4 = take 3 STAGE_ORDER"
        using tracked_contained [OF per contained_bodies(1) st3(1)] run_recorded_cases(1,2) [OF per] st3(2)
        by (auto simp: STAGE_ORDER_def)
      have rest: "(x, st', w') = (if rs_dry_run st4 then (None, plan_remaining (ce_now env w4) (se_payload ded) st4, w4)
          else drive_work env progress spec run_id (ds_adapter found) (se_payload ded) st4 w4)"
        using drv dis found False ded dedup_ok per by (simp add: drive_def Let_def st3_def)
      show ?thesis
      proof (cases "rs_dry_run st4")
        case True
        then show ?thesis using rest plan_remaining_tracked [OF st4] by (auto simp: went_on_def)
      next
        case False
        with rest have "drive_work env progress spec run_id (ds_adapter found) (se_payload ded) st4 w4 = (x, st', w')"
          by simp
        from drive_work_tracked [OF this st4] show ?thesis unfolding went_on_def by blast
      qed
    qed
  qed
qed

lemma drive_existing_ends:
  assumes drv: "drive_existing_tender env progress spec item run_id st w = (st', w')"
    and st: "tracked {} st" "recorded st = take 3 STAGE_ORDER"
  shows "stopped_at Detail st' \<or> went_on st'"
proof -
  obtain det st1 w1 where det: "run_recorded env progress Detail (stage_manual_detail env spec [item]) st w = (det, st1, w1)"
    using prod_cases3 by blast
  have "\<forall>r a w'. stage_manual_detail env spec [item] w = (Inr (r, a), w') \<longrightarrow> sg_status r \<noteq> Some SFailed"
    by (auto simp: stage_manual_detail_def stage_detail_def Let_def split: sum.splits prod.splits)
  note first = run_recorded_first [OF det st(1) this]
  have st1: "recorded st1 = take 4 STAGE_ORDER" using first(1) st(2) by (simp add: STAGE_ORDER_def)
  show ?thesis
  proof (cases "so_status (se_outcome det) = SFailed")
    case True
    then have "st' = st1" using drv det by (auto simp: drive_existing_tender_def)
    then show ?thesis using first(2) True st1 by (simp add: stopped_at_def)
  next
    case False
    then have "drive_after_detail env progress run_id (case se_payload det of None \<Rightarrow> empty_product | Some p \<Rightarrow> p)
        None True st1 w1 = (st', w')"
      using drv det by (simp add: drive_existing_tender_def)
    from drive_after_detail_tracked [OF this first(3) [OF False]] st1
    have "tracked {} st'" "recorded st' = take 9 STAGE_ORDER" by (simp_all add: STAGE_ORDER_def)
    then show ?thesis unfolding went_on_def by blast
  qed
qed

section \<open>Reports\<close>

lemma new_run_state_tracked [simp]:
  "tracked {} (new_run_state cid dry)" "recorded (new_run_state cid dry) = []"
  by (simp_all add: tracked_def failure_ok_def new_run_state_def)

text \<open>The state a report is made of: what \<open>drive\<close> left, with the rest marked pending.\<close>

lemma run_source_report:
  assumes "run_source env progress sid dry force_run trigger cid w = (Inr r, w')"
  obtains spec config run_id started run_cid w1 x st w2 st2
  where "drive env progress spec run_id (new_run_state run_cid dry) w1 = (x, st, w2)"
    "st2 = pending_remaining (ce_now env w2) ''run stopped before this stage'' (contain_drive env x st w2)"
    "r = report_of spec run_cid (if dry then RDryRun else derived_status (rs_outcomes st2)) started st2
       run_id config dry (int (length (rs_work st2)))"
    "ss_id spec = sid"
proof -
  obtain d config where d: "get_decision (ce_now env w) sid (wl_sources w) = Some d"
    and run: "execute_run env progress (sd_spec d) config (py_or cid (ce_new_correlation_id env w)) dry trigger w = (Inr r, w')"
    using assms by (auto simp: run_source_def split: option.splits if_splits sum.splits)
  have "ss_id (sd_spec d) = sid"
    using d by (auto simp: get_decision_def get_source_def spec_of_row_def find_Some_iff)
  moreover obtain run_id w1 where "finish_run env (sd_spec d) config (py_or cid (ce_new_correlation_id env w)) dry run_id
        (ce_clock env w) (drive env progress (sd_spec d) run_id (new_run_state (py_or cid (ce_new_correlation_id env w)) dry) w1)
      = (r, w')"
    using run by (auto simp: execute_run_def Let_def split: prod.splits sum.splits if_splits)
  moreover obtain x st w2 where "drive env progress (sd_spec d) run_id
      (new_run_state (py_or cid (ce_new_correlation_id env w)) dry) w1 = (x, st, w2)" using prod_cases3 by blast
  ultimately show ?thesis using that by (auto simp: finish_run_def Let_def)
qed

lemma stopped_at_contain: "stopped_at s st \<Longrightarrow> contain_drive env None st w = st"
  by (simp add: contain_drive_def)

lemma contain_drive_simps [simp]:
  "rs_outcomes (contain_drive env x st w) = rs_outcomes st"
  "rs_failed_stage (contain_drive env x st w) = rs_failed_stage st"
  "rs_work (contain_drive env x st w) = rs_work st"
  by (simp_all add: contain_drive_def split: option.splits)

lemma pending_after:
  assumes "o' \<in> set (rs_outcomes (pending_remaining n d st))"
  shows "o' \<in> set (rs_outcomes st) \<or> so_status o' = SPending"
  using assms by (auto simp: pending_remaining_outcomes)

lemma stopped_at_report:
  assumes st: "stopped_at s st" and o': "o' \<in> set (rs_outcomes (pending_remaining n d st))" "s < so_stage o'"
  shows "so_status o' = SPending"
proof (rule ccontr)
  assume "so_status o' \<noteq> SPending"
  then have "so_stage o' \<in> set (recorded st)" using pending_after [OF o'(1)] by auto
  then have "so_stage o' \<in> set (take (Suc (stage_rank s)) STAGE_ORDER)"
    using st unfolding stopped_at_def by metis
  moreover have "\<forall>t \<in> set (take (Suc (stage_rank s)) STAGE_ORDER). stage_rank t \<le> stage_rank s"
    by (cases s) (simp_all add: STAGE_ORDER_def)
  ultimately show False using o'(2) by (auto simp: less_stage_number_def)
qed

lemma tracked_status:
  "tracked F st \<Longrightarrow> (derived_status (rs_outcomes st) = RFailed) = (rs_failed_stage st \<noteq> None)"
  by (auto simp: tracked_def failure_ok_def derived_status_failed)

lemma tracked_none: "tracked {} st \<Longrightarrow> rs_failed_stage st = None \<and> rs_error_code st = None"
  by (auto simp: tracked_def failure_ok_def find_None_iff)

section \<open>A coordinator for the witnesses\<close>

text \<open>Services that do nothing to the world, an adapter with a given list of listings, and database
  sessions that fail where told.\<close>

definition demo_detail :: "tender_listing \<Rightarrow> tender_detail" where
  "demo_detail l = \<lparr>td_listing = l, td_procuring_body = None, td_reference_numbers = [], td_scope = None,
     td_requirements_hints = [], td_attachments = [], td_raw_html = None, td_body_text = None\<rparr>"

definition demo_env :: "tender_listing list \<Rightarrow> (db_use \<Rightarrow> exn option) \<Rightarrow> unit coord_env" where
  "demo_env ls faults = \<lparr>
     ce_build = (\<lambda>spec. Inr \<lparr>ad_name = ''Demo'', ad_list_new_tenders = (\<lambda>w. (Inr ls, w)),
        ad_get_detail = (\<lambda>e w. (Inr (demo_detail (hd ls)), w))\<rparr>),
     ce_dedup = (\<lambda>w. (plain_env, 0, 1, [])),
     ce_deadline = (\<lambda>l d c w. (Inr \<lparr>dl_status = ''unresolved'', dl_source = ''unresolved'',
        dl_deadline_utc = None, dl_deadline_timezone = None, dl_evidence = []\<rparr>, w)),
     ce_apply_deadline = (\<lambda>t r at' w. w),
     ce_acquire = (\<lambda>t a c w. (Inr empty_acquisition, w)),
     ce_process = (\<lambda>t c n w. (Inr \<lparr>bn_documents = [], bn_incomplete_inputs = False\<rparr>, w)),
     ce_triage = (\<lambda>r t w. (Inr \<lparr>tr_tender_id = t, tr_correlation_id = ''c'', tr_status = ''passed'', tr_error_code = None\<rparr>, w)),
     ce_triage_handoff = None,
     ce_verdict_handoff = Some (\<lambda>d w. (Inr \<lparr>vo_status = Some ''VERDICT_AVAILABLE'', vo_verdict_id = Some 5, vo_error_code = None\<rparr>, w)),
     ce_dispatch = Some (\<lambda>e w. (Inr ''sent'', w)),
     ce_str_pair = (\<lambda>p. []),
     ce_alert = (\<lambda>a w. w),
     ce_db_fault = (\<lambda>u w. faults u),
     ce_load_config = (\<lambda>w. Inr \<lparr>cf_version = 1, cf_test_mode = False, cf_test_mode_reason = [], cf_changed_at = None\<rparr>),
     ce_new_correlation_id = (\<lambda>w. ''run''),
     ce_clock = (\<lambda>w. 10), ce_runner_clock = (\<lambda>w. 20), ce_now = (\<lambda>w. 30),
     ce_sleep = (\<lambda>s w. w), ce_retry = default_retry_policy, ce_recovery_limit = 0\<rparr>"

definition demo_source :: source_row where
  "demo_source = \<lparr>sw_id = 2, sw_name = ''demo'', sw_source_type = ''json_api'', sw_base_url = ''u'',
     sw_listing_url = Some ''u'', sw_parser_config = None, sw_crawl_frequency_minutes = Some 60,
     sw_active = True, sw_last_run_at = None, sw_last_error = None\<rparr>"

definition demo_world :: "unit world" where
  "demo_world = \<lparr>wl_store = empty_store, wl_sources = [demo_source], wl_ext = ()\<rparr>"



section \<open>The report of a run\<close>

text \<open>C10: every run that returns a report accounts for all nine stages, once each and in order.  The
  only stages that can fail are discovery and deduplication: a failed one is the failed stage of the
  report, has an error code, and every stage after it is pending; and a live run is FAILED exactly
  when there is one, whatever the later services do.\<close>

theorem run_reports_every_stage:
  assumes run: "run_source env progress sid dry_run force_run trigger cid w = (Inr r, w')"
  shows "map so_stage (rr_stages r) = STAGE_ORDER \<and> rr_source_id r = sid
    \<and> (\<forall>s. rr_failed_stage r = Some s \<longrightarrow> s \<in> {Discovery, Deduplication} \<and> rr_error_code r \<noteq> None
         \<and> (\<forall>o' \<in> set (rr_stages r). s < so_stage o' \<longrightarrow> so_status o' = SPending))
    \<and> (\<not> dry_run \<longrightarrow> (rr_status r = RFailed) = (rr_failed_stage r \<noteq> None))"
proof -
  from run obtain spec config run_id started run_cid w1 x st w2 st2
    where drv: "drive env progress spec run_id (new_run_state run_cid dry_run) w1 = (x, st, w2)"
      and st2: "st2 = pending_remaining (ce_now env w2) ''run stopped before this stage'' (contain_drive env x st w2)"
      and r: "r = report_of spec run_cid (if dry_run then RDryRun else derived_status (rs_outcomes st2)) started st2
       run_id config dry_run (int (length (rs_work st2)))" and sid: "ss_id spec = sid"
    by (rule run_source_report)
  have ends: "x = None \<and> (\<exists>s \<in> {Discovery, Deduplication}. stopped_at s st) \<or> went_on st"
    using drive_ends [OF drv] by auto
  then obtain k where "recorded (contain_drive env x st w2) = take k STAGE_ORDER"
    by (auto simp: stopped_at_def went_on_def)
  then have all: "recorded st2 = STAGE_ORDER" unfolding st2 by (rule pending_remaining_complete)
  from ends show ?thesis
  proof
    assume "x = None \<and> (\<exists>s \<in> {Discovery, Deduplication}. stopped_at s st)"
    then obtain s where s: "s \<in> {Discovery, Deduplication}" "stopped_at s st" and x: "x = None" by blast
    have st2': "st2 = pending_remaining (ce_now env w2) ''run stopped before this stage'' st"
      using st2 x by (simp add: contain_drive_def)
    have "tracked {s} st2" unfolding st2' using s(2) by (simp add: stopped_at_def tracked_pending_remaining)
    moreover have "rs_failed_stage st2 = Some s" using s(2) by (simp add: st2' stopped_at_def)
    moreover have "\<forall>o' \<in> set (rs_outcomes st2). s < so_stage o' \<longrightarrow> so_status o' = SPending"
      unfolding st2' using stopped_at_report [OF s(2)] by blast
    moreover have "rs_error_code st2 \<noteq> None" using calculation(1,2) by (simp add: tracked_def)
    moreover have "(derived_status (rs_outcomes st2) = RFailed) = (rs_failed_stage st2 \<noteq> None)"
      using calculation(1) by (rule tracked_status)
    ultimately show ?thesis
      using all s(1) sid unfolding r by (simp add: report_of_def)
  next
    assume "went_on st"
    then have "tracked {} st" by (simp add: went_on_def)
    then have none: "\<forall>o' \<in> set (rs_outcomes st). so_status o' \<noteq> SFailed" "rs_failed_stage st = None"
      unfolding tracked_def using tracked_none [OF \<open>tracked {} st\<close>] by blast+
    have "rs_failed_stage st2 = None" using none(2) by (simp add: st2)
    moreover have "\<forall>o' \<in> set (rs_outcomes st2). so_status o' \<noteq> SFailed"
    proof
      fix o' assume "o' \<in> set (rs_outcomes st2)"
      from pending_after [OF this [unfolded st2]] show "so_status o' \<noteq> SFailed" using none(1) by auto
    qed
    then have "derived_status (rs_outcomes st2) \<noteq> RFailed" by (simp add: derived_status_failed find_None_iff)
    ultimately show ?thesis using all sid unfolding r by (simp add: report_of_def)
  qed
qed

theorem run_reports_every_stage_witness:
  "\<exists>r w'. run_source ((demo_env [] (\<lambda>_. None))\<lparr>ce_build := \<lambda>_. Inl (source_not_runnable ''no adapter'')\<rparr>)
       None 2 False False ''scheduled'' None demo_world = (Inr r, w')
     \<and> rr_failed_stage r = Some Discovery \<and> rr_status r = RFailed \<and> map so_stage (rr_stages r) = STAGE_ORDER"
proof -
  let ?env = "(demo_env [] (\<lambda>_. None))\<lparr>ce_build := \<lambda>_. Inl (source_not_runnable ''no adapter'')\<rparr>"
  have "\<exists>r w'. run_source ?env None 2 False False ''scheduled'' None demo_world = (Inr r, w')
      \<and> rr_failed_stage r = Some Discovery"
    by (simp add: run_source_def get_decision_def get_source_def demo_world_def demo_source_def decide_def
        spec_of_row_def demo_env_def execute_run_def coord_open_run_def Let_def drive_def run_recorded_def
        run_stage_def stage_discovery_def record_outcome_def finish_run_def report_of_def new_run_state_def
        record_state_failure)
  then obtain r w' where r: "run_source ?env None 2 False False ''scheduled'' None demo_world = (Inr r, w')"
    "rr_failed_stage r = Some Discovery" by blast
  from run_reports_every_stage [OF r(1)] r show ?thesis by auto
qed

text \<open>Reprocessing one tender reports all nine stages; it is FAILED exactly when the detail stage
  could not be entered, which is then its failed stage, and a report exists only for a tender that is
  stored and not at a dead end of its lifecycle, under the tender's own source.\<close>

lemma manual_run_reports:
  assumes run: "run_existing_tender env progress tid cid w = (Inr r, w')"
  shows "map so_stage (rr_stages r) = STAGE_ORDER
    \<and> (rr_status r = RFailed) = (rr_failed_stage r \<noteq> None)
    \<and> rr_failed_stage r \<in> {None, Some Detail}
    \<and> (\<exists>t \<in> set (st_tenders (wl_store w)). tn_id t = tid \<and> \<not> terminal (tn_status t)
         \<and> rr_source_id r = tn_source_id t)"
proof -
  obtain t d config item run_cid where t: "List.find (\<lambda>t. tn_id t = tid) (st_tenders (wl_store w)) = Some t"
      "\<not> terminal (tn_status t)"
    and d: "get_decision (ce_now env w) (tn_source_id t) (wl_sources w) = Some d"
    and one: "run_one_tender env progress (sd_spec d) config run_cid item w = (Inr r, w')"
    using run by (auto simp: run_existing_tender_def split: option.splits if_splits sum.splits)
  let ?reason = "''manual Process Now selected an existing tender; discovery and deduplication were not run''"
  obtain w1 where "\<exists>rid. coord_open_run env (sd_spec d) run_cid config ''manual_tender'' (Some (wi_tender_id item)) w = (Inr rid, w1)"
    using one by (auto simp: run_one_tender_def split: prod.splits sum.splits)
  then obtain rid where w1: "coord_open_run env (sd_spec d) run_cid config ''manual_tender'' (Some (wi_tender_id item)) w
      = (Inr rid, w1)" by blast
  define st0 where "st0 = fold (\<lambda>s. record_pending (ce_now env w1) s ?reason) [Discovery, Deduplication, Persistence]
      ((new_run_state run_cid False)\<lparr>rs_work := [item]\<rparr>)"
  obtain st w2 where drv: "drive_existing_tender env progress (sd_spec d) item (Some rid) st0 w1 = (st, w2)" by fastforce
  define st2 where "st2 = pending_remaining (ce_now env w2) ''run stopped before this stage'' st"
  have "r = report_of (sd_spec d) run_cid (if py_truthy (rs_error_code st2) then RFailed else derived_status (rs_outcomes st2))
      (ce_clock env w) st2 (Some rid) config False 1"
    using one w1 drv by (auto simp: run_one_tender_def Let_def st0_def st2_def)
  then have r: "rr_stages r = rs_outcomes st2" "rr_failed_stage r = rs_failed_stage st2" "rr_source_id r = ss_id (sd_spec d)"
    "rr_status r = (if py_truthy (rs_error_code st2) then RFailed else derived_status (rs_outcomes st2))"
    by (simp_all add: report_of_def)
  have st0: "tracked {} st0" "recorded st0 = take 3 STAGE_ORDER"
    by (simp_all add: st0_def STAGE_ORDER_def)
  have ends: "stopped_at Detail st \<or> went_on st" by (rule drive_existing_ends [OF drv st0])
  then obtain k F where k: "recorded st = take k STAGE_ORDER" and F: "tracked F st" "F \<subseteq> {Detail}"
    unfolding stopped_at_def went_on_def by blast
  have all: "recorded st2 = STAGE_ORDER" unfolding st2_def by (rule pending_remaining_complete [OF k])
  have st2: "tracked F st2" unfolding st2_def by (rule tracked_pending_remaining [OF F(1)])
  have failed: "rs_failed_stage st2 \<in> {None, Some Detail}"
    using ends tracked_none [of st] by (auto simp: st2_def stopped_at_def went_on_def)
  have status: "(rr_status r = RFailed) = (rs_failed_stage st2 \<noteq> None)"
    using tracked_status [OF st2] st2 by (auto simp: r(4) tracked_def)
  have "ss_id (sd_spec d) = tn_source_id t"
    using d by (auto simp: get_decision_def get_source_def spec_of_row_def find_Some_iff)
  moreover have "t \<in> set (st_tenders (wl_store w)) \<and> tn_id t = tid" using t(1) by (auto simp: find_Some_iff)
  ultimately show ?thesis using all failed status r t(2) by auto
qed

text \<open>C27: when the database read that selects the work of a run fails, the run is not FAILED and has no
  failed stage although its error code says so: the alert hook is not called, the source row is stamped
  without an error.\<close>

theorem lookup_failure_completes_run:
  assumes drv: "drive env progress spec run_id (new_run_state cid False) w1 = (Some x, st, w2)"
    and fin: "finish_run env spec config cid False run_id started (Some x, st, w2) = (r, w3)"
    and stamped: "run_id = Some rid" "\<forall>v. ce_db_fault env DbStamp v = None"
  shows "rr_error_code r = Some STAGE_FAILED \<and> rr_failed_stage r = None \<and> rr_status r \<noteq> RFailed
    \<and> wl_ext w3 = wl_ext w2
    \<and> (\<forall>row. get_source (ss_id spec) (wl_sources w3) = Some row \<longrightarrow> sw_last_error row = None)"
proof -
  have "went_on st" using drive_ends [OF drv] by auto
  then have t: "tracked {} st" by (simp add: went_on_def)
  define st2 where "st2 = pending_remaining (ce_now env w2) ''run stopped before this stage'' (contain_drive env (Some x) st w2)"
  have none: "rs_failed_stage st = None" "rs_error_code st = None" using tracked_none [OF t] by auto
  have code: "rs_error_code st2 = Some STAGE_FAILED" "rs_failed_stage st2 = None"
    using none by (simp_all add: st2_def contain_drive_def)
  have "\<forall>o' \<in> set (rs_outcomes st2). so_status o' \<noteq> SFailed"
  proof
    fix o' assume "o' \<in> set (rs_outcomes st2)"
    from pending_after [OF this [unfolded st2_def]] show "so_status o' \<noteq> SFailed"
      using t unfolding tracked_def by auto
  qed
  then have status: "derived_status (rs_outcomes st2) \<noteq> RFailed" by (simp add: derived_status_failed find_None_iff)
  have "finish_run env spec config cid False run_id started (Some x, st, w2)
      = (report_of spec cid (derived_status (rs_outcomes st2)) started st2 run_id config False (int (length (rs_work st2))),
         stamp_source env (ss_id spec) st2 (finalize_run env rid cid st2 (derived_status (rs_outcomes st2)) config w2))"
    using status stamped(1) unfolding st2_def by (simp add: finish_run_def Let_def)
  then have r: "r = report_of spec cid (derived_status (rs_outcomes st2)) started st2 run_id config False (int (length (rs_work st2)))"
    and w3: "w3 = stamp_source env (ss_id spec) st2 (finalize_run env rid cid st2 (derived_status (rs_outcomes st2)) config w2)"
    using fin by simp_all
  have "wl_ext w3 = wl_ext w2"
    by (auto simp: w3 stamp_source_def finalize_run_def split: option.splits)
  moreover have "sw_last_error row = None" if "get_source (ss_id spec) (wl_sources w3) = Some row" for row
    using that code(2) stamped(2) by (auto simp: w3 stamp_source_def source_error_def get_source_mark_run)
  ultimately show ?thesis using code status by (auto simp: r report_of_def)
qed

text \<open>A live run whose first two stages return comes to the selection of its work.\<close>

lemma run_recorded_returns:
  assumes "act w = (Inr (r, a), w')"
  obtains ex where "run_recorded env None stage act st w = (ex, record_state (se_outcome ex) st, w')"
    "se_payload ex = Some a"
    "so_status (se_outcome ex) = (case sg_status r of Some s \<Rightarrow> s | None \<Rightarrow> if sg_failed_items r > 0 then SPartial else SCompleted)"
proof -
  have "snd (run_stage (ce_runner_clock env) (rs_run_cid st) stage act w) = w'"
    using assms by (simp add: run_stage_world)
  then show ?thesis
    using that [of "fst (run_stage (ce_runner_clock env) (rs_run_cid st) stage act w)"]
      run_stage_returns [of act w r a w' "ce_runner_clock env" "rs_run_cid st" stage] assms
    by (auto simp: run_recorded_def record_outcome_def split: prod.splits)
qed

lemma drive_live:
  assumes build: "ce_build env spec = Inr ad" "ad_list_new_tenders ad w = (Inr ls, w1)"
    and dedup: "ce_dedup env w1 = (denv, started, ended, rivals)"
      "dedup_run denv started ended rivals (ss_id spec) ls cid run_id False (wl_store w1) = (Inr res, s)"
  obtains st where "drive env None spec run_id (new_run_state cid False) w
      = drive_work env None spec run_id ad (Some res) st (w1\<lparr>wl_store := s\<rparr>)" "rs_run_cid st = cid"
proof -
  let ?st = "new_run_state cid False"
  have init: "rs_run_cid ?st = cid" "rs_dry_run ?st = False" by (simp_all add: new_run_state_def)
  obtain r1 where r1: "stage_discovery env spec w = (Inr (r1, \<lparr>ds_adapter = ad, ds_listings = ls\<rparr>), w1)" "sg_status r1 = None"
    using build by (simp add: stage_discovery_def)
  obtain ex1 where ex1: "run_recorded env None Discovery (stage_discovery env spec) ?st w
      = (ex1, record_state (se_outcome ex1) ?st, w1)" "se_payload ex1 = Some \<lparr>ds_adapter = ad, ds_listings = ls\<rparr>"
    "so_status (se_outcome ex1) \<noteq> SFailed"
    by (rule run_recorded_returns [where act = "stage_discovery env spec" and env = env and stage = Discovery and st = ?st, OF r1(1)]) (simp add: r1(2) split: if_splits)
  let ?st1 = "record_state (se_outcome ex1) ?st"
  obtain r2 where r2: "stage_dedup env spec ls (rs_run_cid ?st1) run_id (rs_dry_run ?st1) w1 = (Inr (r2, res), w1\<lparr>wl_store := s\<rparr>)"
    "sg_status r2 = Some SCompleted"
    using dedup by (simp add: stage_dedup_def init)
  obtain ex2 where ex2: "run_recorded env None Deduplication
      (stage_dedup env spec ls (rs_run_cid ?st1) run_id (rs_dry_run ?st1)) ?st1 w1
      = (ex2, record_state (se_outcome ex2) ?st1, w1\<lparr>wl_store := s\<rparr>)" "se_payload ex2 = Some res"
    "so_status (se_outcome ex2) \<noteq> SFailed"
    by (rule run_recorded_returns [where env = env and stage = Deduplication and st = ?st1 and w = w1
        and act = "stage_dedup env spec ls (rs_run_cid ?st1) run_id (rs_dry_run ?st1)", OF r2(1)]) (simp add: r2(2))
  let ?st2 = "record_dedup res (record_state (se_outcome ex2) ?st1)"
  obtain r3 where r3: "stage_persistence (Some res) (w1\<lparr>wl_store := s\<rparr>) = (Inr (r3, ()), w1\<lparr>wl_store := s\<rparr>)"
    by (simp add: stage_persistence_def Let_def)
  obtain ex3 where ex3: "run_recorded env None Persistence (stage_persistence (Some res)) ?st2 (w1\<lparr>wl_store := s\<rparr>)
      = (ex3, record_state (se_outcome ex3) ?st2, w1\<lparr>wl_store := s\<rparr>)"
    by (rule run_recorded_returns [where act = "stage_persistence (Some res)" and env = env and stage = Persistence and st = ?st2, OF r3])
  let ?st3 = "record_state (se_outcome ex3) ?st2"
  have fields: "rs_dry_run ?st3 = False" "rs_run_cid ?st3 = cid" by (simp_all add: init)
  have "drive env None spec run_id ?st w = drive_work env None spec run_id ad (Some res) ?st3 (w1\<lparr>wl_store := s\<rparr>)"
    unfolding drive_def ex1(1) using ex1(2,3) ex2 ex3 fields(1) by (simp add: Let_def)
  then show ?thesis using that fields(2) by blast
qed

definition demo_store :: store where
  "demo_store = empty_store\<lparr>st_runs := [create_run 1 2 ''run'' None 0]\<rparr>"

definition demo_spec :: source_spec where
  "demo_spec = spec_of_row demo_source"

lemma demo_dedup:
  obtains r s where "dedup_run plain_env 0 1 [] 2 [sample_listing] ''run'' (Some 1) False demo_store = (Inr r, s)"
    "dr_new_listings r = [sample_listing]"
proof -
  have "map_option dr_new_listings (case fst (dedup_run plain_env 0 1 [] 2 [sample_listing] ''run'' (Some 1) False demo_store)
      of Inl _ \<Rightarrow> None | Inr r \<Rightarrow> Some r) = Some [sample_listing]" by code_simp
  then show ?thesis
    using that by (cases "dedup_run plain_env 0 1 [] 2 [sample_listing] ''run'' (Some 1) False demo_store")
      (auto split: sum.splits)
qed

theorem lookup_failure_completes_run_witness:
  "\<exists>x st w2 (r :: run_report) w3. drive (demo_env [sample_listing] (\<lambda>u. if u = DbResolveWork then Some (source_not_runnable ''db'') else None))
       None demo_spec (Some 1) (new_run_state ''run'' False) (demo_world\<lparr>wl_store := demo_store\<rparr>) = (Some x, st, w2)
     \<and> rr_error_code r = Some STAGE_FAILED \<and> rr_status r \<noteq> RFailed \<and> wl_ext w3 = wl_ext w2"
proof -
  let ?env = "demo_env [sample_listing] (\<lambda>u. if u = DbResolveWork then Some (source_not_runnable ''db'') else None)"
  let ?w = "demo_world\<lparr>wl_store := demo_store\<rparr>"
  obtain res s where d: "dedup_run plain_env 0 1 [] 2 [sample_listing] ''run'' (Some 1) False demo_store = (Inr res, s)"
    "dr_new_listings res = [sample_listing]" by (rule demo_dedup)
  then have "''T-1'' \<in> set (work_external_ids (Some res))"
    by (simp add: work_external_ids_def ordered_ids sample_listing_def)
  then have ids: "work_external_ids (Some res) \<noteq> []" by auto
  have "resolve_work ?env demo_spec (work_external_ids (Some res)) ''run'' v = Inl (source_not_runnable ''db'')" for v
    using ids by (simp add: resolve_work_def demo_env_def)
  then have work: "drive_work ?env None demo_spec (Some 1) ad (Some res) st0 v = (Some (source_not_runnable ''db''), st0, v)"
    if "rs_run_cid st0 = ''run''" for ad st0 v
    using that by (simp add: drive_work_def)
  obtain ad where ad: "ce_build ?env demo_spec = Inr ad" "ad_list_new_tenders ad ?w = (Inr [sample_listing], ?w)"
    by (simp add: demo_env_def)
  have env: "ce_dedup ?env ?w = (plain_env, 0, 1, [])" by (simp add: demo_env_def)
  have "dedup_run plain_env 0 1 [] (ss_id demo_spec) [sample_listing] ''run'' (Some 1) False (wl_store ?w) = (Inr res, s)"
    using d(1) by (simp add: demo_spec_def spec_of_row_def demo_source_def)
  from drive_live [OF ad env this]
  have "\<exists>x st w2. drive ?env None demo_spec (Some 1) (new_run_state ''run'' False) ?w = (Some x, st, w2)"
    using work by metis
  then obtain x st w2 where drv: "drive ?env None demo_spec (Some 1) (new_run_state ''run'' False) ?w = (Some x, st, w2)"
    by blast
  obtain r w3 where fin: "finish_run ?env demo_spec \<lparr>cf_version = 1, cf_test_mode = False, cf_test_mode_reason = [],
      cf_changed_at = None\<rparr> ''run'' False (Some 1) 10 (Some x, st, w2) = (r, w3)" by fastforce
  have "\<forall>v. ce_db_fault ?env DbStamp v = None" by (simp add: demo_env_def)
  from lookup_failure_completes_run [OF drv fin refl this] drv show ?thesis
    by (intro exI [of _ x] exI [of _ st] exI [of _ w2] exI [of _ r] exI [of _ w3]) simp
qed

end
