(* ===== verification/CoordinatorFrame.thy ===== *)
theory CoordinatorFrame
  imports CoordinatorProps
begin

text \<open>
  What a run does to the tables.  A predicate on worlds that every service keeps is kept by the
  whole drive; with it, the run row of a live run holds everything its report says, and a dry run
  writes nothing.  The last part is about the tenders a run recovers from an interrupted one.
\<close>

section \<open>Predicates the services keep\<close>

definition keeps :: "('w \<Rightarrow> bool) \<Rightarrow> ('w \<Rightarrow> 'r \<times> 'w) \<Rightarrow> bool" where
  "keeps P act \<longleftrightarrow> (\<forall>w. P w \<longrightarrow> P (snd (act w)))"

definition discovery_keeps :: "('w world \<Rightarrow> bool) \<Rightarrow> 'w coord_env \<Rightarrow> 'w progress \<Rightarrow> bool" where
  "discovery_keeps P env progress \<longleftrightarrow>
     (\<forall>spec ad. ce_build env spec = Inr ad \<longrightarrow> keeps P (ad_list_new_tenders ad))
     \<and> (\<forall>f o' w. progress = Some f \<longrightarrow> P w \<longrightarrow> P (f o' w))"

definition services_keep :: "('w world \<Rightarrow> bool) \<Rightarrow> 'w coord_env \<Rightarrow> 'w progress \<Rightarrow> bool" where
  "services_keep P env progress \<longleftrightarrow> discovery_keeps P env progress
     \<and> (\<forall>spec ad e. ce_build env spec = Inr ad \<longrightarrow> keeps P (ad_get_detail ad e))
     \<and> (\<forall>l d c. keeps P (ce_deadline env l d c))
     \<and> (\<forall>t r n w. P w \<longrightarrow> P (ce_apply_deadline env t r n w))
     \<and> (\<forall>t a c. keeps P (ce_acquire env t a c)) \<and> (\<forall>s w. P w \<longrightarrow> P (ce_sleep env s w))
     \<and> (\<forall>t c n. keeps P (ce_process env t c n)) \<and> (\<forall>r t. keeps P (ce_triage env r t))
     \<and> (\<forall>f d. ce_triage_handoff env = Some f \<longrightarrow> keeps P (f d))
     \<and> (\<forall>f d. ce_verdict_handoff env = Some f \<longrightarrow> keeps P (f d))
     \<and> (\<forall>f e. ce_dispatch env = Some f \<longrightarrow> keeps P (f e))
     \<and> (\<forall>a w. P w \<longrightarrow> P (ce_alert env a w))"

lemma keepsD: "keeps P act \<Longrightarrow> act w = (r, w') \<Longrightarrow> P w \<Longrightarrow> P w'"
  unfolding keeps_def by (metis snd_conv)

lemma run_recorded_leads:
  assumes "run_recorded env progress stage act st w = (ex, st1, w1)" "\<And>v. P v \<Longrightarrow> Q (snd (act v))"
    "discovery_keeps Q env progress" "P w"
  shows "Q w1"
proof -
  have "Q (snd (run_stage (ce_runner_clock env) (rs_run_cid st) stage act w))"
    using assms(2,4) by (simp add: run_stage_world)
  then show ?thesis using assms(1,3)
    by (auto simp: run_recorded_def record_outcome_def discovery_keeps_def split: prod.splits option.splits)
qed

lemma run_recorded_keeps:
  assumes "run_recorded env progress stage act st w = (ex, st1, w1)" "keeps P act"
    "discovery_keeps P env progress" "P w"
  shows "P w1"
  by (rule run_recorded_leads [where P = P and Q = P, OF assms(1) _ assms(3,4)]) (use assms(2) in \<open>simp add: keeps_def\<close>)

section \<open>The loops of the stages\<close>

text \<open>What the contract says of each service, as facts to chain with.\<close>

lemma services_keep_facts:
  assumes "services_keep P env progress"
  shows "discovery_keeps P env progress"
    and "ce_build env spec = Inr ad \<Longrightarrow> keeps P (ad_get_detail ad e)"
    and "keeps P (ce_deadline env l d c)" and "P w \<Longrightarrow> P (ce_apply_deadline env t r n w)"
    and "keeps P (ce_acquire env i a c)" and "P w \<Longrightarrow> P (ce_sleep env s w)"
    and "keeps P (ce_process env i c ns)" and "keeps P (ce_triage env rid i)"
    and "ce_triage_handoff env = Some hf \<Longrightarrow> keeps P (hf td)"
    and "ce_verdict_handoff env = Some vf \<Longrightarrow> keeps P (vf td)"
    and "ce_dispatch env = Some sf \<Longrightarrow> keeps P (sf ev)"
    and "P w \<Longrightarrow> P (ce_alert env al w)"
  using assms by (simp_all add: services_keep_def)

lemma resolve_deadline_keeps:
  assumes S: "services_keep P env progress" and "P w"
  shows "P (snd (resolve_deadline env item d w))"
proof -
  have "P w'" if "ce_deadline env l d c w = (r, w')" for l c r w'
    using keepsD [OF services_keep_facts(3) [OF S] that assms(2)] .
  then show ?thesis using assms(2) services_keep_facts(4) [OF S]
    by (auto simp: resolve_deadline_def Let_def split: option.splits prod.splits sum.splits)
qed

lemma detail_loop_keeps:
  assumes S: "services_keep P env progress" and ad: "\<And>e. keeps P (ad_get_detail ad e)"
  shows "P w \<Longrightarrow> P (snd (detail_loop env ad items acc w))"
proof (induction items arbitrary: acc w)
  case (Cons item items)
  obtain r w1 where r: "ad_get_detail ad (wi_external_id item) w = (r, w1)" by fastforce
  have w1: "P w1" using keepsD [OF ad r Cons.prems] .
  show ?case
  proof (cases r)
    case (Inl x)
    then show ?thesis using Cons.IH [OF w1] r by simp
  next
    case (Inr d)
    obtain b w2 where b: "resolve_deadline env item d w1 = (b, w2)" by fastforce
    then have "P w2" using resolve_deadline_keeps [OF S w1, of item d] by simp
    then show ?thesis using Cons.IH r Inr b by (simp add: Let_def)
  qed
qed simp

lemma retry_loop_keeps:
  "keeps P op \<Longrightarrow> \<forall>s v. P v \<longrightarrow> P (sl s v) \<Longrightarrow> P w \<Longrightarrow> P (snd (retry_loop op p sr sl n ds w))"
proof (induction op p sr sl n ds w rule: retry_loop.induct)
  case (1 op p sr sl n ds w)
  obtain r w1 where op: "op w = (r, w1)" by fastforce
  have w1: "P w1" using keepsD [OF "1.prems"(1) op "1.prems"(3)] .
  show ?case
  proof (cases r)
    case (Inr a)
    then show ?thesis using op w1 by (simp add: retry_loop_returns)
  next
    case (Inl x)
    show ?thesis
    proof (cases "rp_attempts p \<le> n \<or> \<not> sr x")
      case True
      then show ?thesis using op Inl w1 by (simp add: retry_loop_gives_up)
    next
      case False
      have "P (sl (delay_for p n) w1)" using "1.prems"(2) w1 by blast
      then have "P (snd (retry_loop op p sr sl (n + 1) (ds @ [delay_for p n]) (sl (delay_for p n) w1)))"
        using "1.IH" [OF op [symmetric] Inl False] "1.prems"(1,2) by blast
      then show ?thesis using op Inl False by (simp add: retry_loop_retries)
    qed
  qed
qed

lemma acquire_one_keeps:
  assumes S: "services_keep P env progress" and "P w"
  shows "P (snd (acquire_one env item atts w))"
proof -
  have "P w'" if "P v" "ce_acquire env t a c v = (r, w')" for t a c v r w'
    using keepsD [OF services_keep_facts(5) [OF S] that(2,1)] .
  then have "keeps P (acquire_attempt env item atts)"
    unfolding keeps_def acquire_attempt_def by (auto split: prod.splits sum.splits)
  moreover have "\<forall>s v. P v \<longrightarrow> P (ce_sleep env s v)" using services_keep_facts(6) [OF S] by blast
  ultimately have "P (snd (run_with_retry (acquire_attempt env item atts) (ce_retry env) is_retryable_exn (ce_sleep env) w))"
    unfolding run_with_retry_def using assms(2) by (rule retry_loop_keeps)
  then show ?thesis using assms(2)
    by (auto simp: acquire_one_def split: prod.splits option.splits acquisition_exn.splits)
qed

lemma acquisition_loop_keeps:
  assumes S: "services_keep P env progress"
  shows "P w \<Longrightarrow> P (snd (acquisition_loop env atts items acc w))"
proof (induction items arbitrary: acc w)
  case (Cons item items)
  let ?a = "case map_of atts (wi_tender_id item) of None \<Rightarrow> [] | Some a \<Rightarrow> a"
  obtain r w1 where r: "acquire_one env item ?a w = (r, w1)" by fastforce
  then have "P w1" using acquire_one_keeps [OF S Cons.prems, of item ?a] by simp
  then show ?case using Cons.IH r by (auto split: sum.splits prod.splits)
qed simp

lemma processing_loop_keeps:
  assumes "services_keep P env progress"
  shows "P w \<Longrightarrow> P (snd (processing_loop env details items acc w))"
proof (induction items arbitrary: acc w)
  case (Cons item items)
  obtain t f where acc: "acc = (t, f)" by fastforce
  obtain r w1 where r: "ce_process env (wi_tender_id item) (wi_correlation_id item) (notice_for item details) w = (r, w1)"
    by fastforce
  have "P w1" using keepsD [OF services_keep_facts(7) [OF assms] r Cons.prems] .
  then show ?case using Cons.IH r acc by (auto split: sum.splits)
qed simp

lemma triage_loop_keeps:
  assumes S: "services_keep P env progress"
  shows "P w \<Longrightarrow> P (snd (triage_loop env run_id items acc w))"
proof (induction items arbitrary: acc w)
  case (Cons item items)
  obtain r w1 where r: "ce_triage env run_id (wi_tender_id item) w = (r, w1)" by fastforce
  have w1: "P w1" using keepsD [OF services_keep_facts(8) [OF S] r Cons.prems] .
  have handoff: "P w2" if "ce_triage_handoff env = Some f" "f d w1 = (x, w2)" for f d x w2
    using keepsD [OF services_keep_facts(9) [OF S that(1)] that(2) w1] .
  show ?case using Cons.IH r w1 handoff
    by (auto simp: Let_def split: sum.splits option.splits prod.splits)
qed simp

lemma verdict_loop_keeps:
  assumes "\<And>d. keeps P (handoff d)"
  shows "P w \<Longrightarrow> P (snd (verdict_loop handoff ds acc w))"
proof (induction ds arbitrary: acc w)
  case (Cons d ds)
  obtain r w1 where r: "handoff d w = (r, w1)" by fastforce
  then show ?case using Cons.IH keepsD [OF assms r Cons.prems] by simp
qed simp

lemma notify_keeps:
  assumes "\<And>e. keeps P (send e)"
  shows "P w \<Longrightarrow> P (snd (notify_verdicts env send updates new_ids manual work vs acc w))"
    and "P w \<Longrightarrow> P (snd (notify_raw send work raw acc w))"
proof -
  show "P w \<Longrightarrow> P (snd (notify_verdicts env send updates new_ids manual work vs acc w))"
  proof (induction vs arbitrary: acc w)
    case (Cons v vs)
    obtain d v' s f where "v = (d, v')" "acc = (s, f)" by fastforce
    moreover have "P (snd (send e w))" for e using assms Cons.prems by (simp add: keeps_def)
    ultimately show ?case using Cons by (auto split: option.splits prod.splits) (metis snd_conv)+
  qed simp
  show "P w \<Longrightarrow> P (snd (notify_raw send work raw acc w))"
  proof (induction raw arbitrary: acc w)
    case (Cons c raw)
    obtain s f where "acc = (s, f)" by fastforce
    moreover have "P (snd (send e w))" for e using assms Cons.prems by (simp add: keeps_def)
    ultimately show ?case using Cons by (auto split: option.splits prod.splits) (metis snd_conv)+
  qed simp
qed

section \<open>The bodies of the stages\<close>

lemma bodies_keep:
  assumes S: "services_keep P env progress"
  shows "\<forall>e. keeps P (ad_get_detail ad e) \<Longrightarrow> keeps P (stage_detail env ad work)"
    and "keeps P (stage_acquisition env work atts)"
    and "keeps P (stage_processing env work details)"
    and "keeps P (stage_triage env work run_id)"
  unfolding keeps_def stage_detail_def stage_acquisition_def stage_processing_def stage_triage_def Let_def
  using detail_loop_keeps [OF S] acquisition_loop_keeps [OF S] processing_loop_keeps [OF S]
    triage_loop_keeps [OF S]
  by (auto simp: keeps_def split: prod.split) (metis snd_conv)+

lemma stage_verdict_keeps:
  assumes S: "services_keep P env progress" and f: "ce_verdict_handoff env = Some f"
  shows "keeps P (stage_verdict f ds)"
proof -
  have "P (snd (verdict_loop f ds acc w))" if "P w" for acc w
    using verdict_loop_keeps [OF services_keep_facts(10) [OF S f] that] .
  then show ?thesis unfolding keeps_def stage_verdict_def by (simp add: case_prod_beta)
qed

lemma stage_notifications_keeps:
  assumes S: "services_keep P env progress" and g: "ce_dispatch env = Some g"
  shows "keeps P (stage_notifications env g vs res work manual raw)"
proof -
  note loops = notify_keeps [where P = P and send = g, OF services_keep_facts(11) [OF S g]]
  show ?thesis unfolding keeps_def stage_notifications_def Let_def
    by (simp add: case_prod_beta loops)
qed

section \<open>The drive\<close>

lemma drive_verdict_keeps:
  assumes S: "services_keep P env progress" and "P w"
    and drv: "drive_verdict env progress passed result manual st w = (st', w')"
  shows "P w'"
proof (cases "ce_verdict_handoff env")
  case None
  then show ?thesis using drv assms(2) by (simp add: drive_verdict_def)
next
  case (Some f)
  obtain ex st1 w1 where ver: "run_recorded env progress Verdict (stage_verdict f passed) st w = (ex, st1, w1)"
    using prod_cases3 by blast
  have w1: "P w1"
    by (rule run_recorded_keeps [OF ver stage_verdict_keeps [OF S Some] services_keep_facts(1) [OF S] assms(2)])
  let ?b = "case se_payload ex of None \<Rightarrow> empty_batch | Some b \<Rightarrow> b"
  have noti: "drive_notification env progress ?b result manual st1 w1 = (st', w')"
    using drv Some ver by (simp add: drive_verdict_def)
  show ?thesis
  proof (cases "ce_dispatch env")
    case None
    then show ?thesis using noti w1 by (simp add: drive_notification_def)
  next
    case disp: (Some g)
    let ?act = "stage_notifications env g (vb_available ?b) result (rs_work st1) manual (vb_unavailable ?b)"
    obtain ex2 where "run_recorded env progress Notification ?act st1 w1 = (ex2, st', w')"
      using noti disp by (auto simp: drive_notification_def prod_eq_iff)
    then show ?thesis
      by (rule run_recorded_keeps [OF _ stage_notifications_keeps [OF S disp] services_keep_facts(1) [OF S] w1])
  qed
qed

lemma drive_after_detail_keeps:
  assumes S: "services_keep P env progress" and "P w"
    and drv: "drive_after_detail env progress run_id found result manual st w = (st', w')"
  shows "P w'"
proof -
  note D = services_keep_facts(1) [OF S]
  obtain acq st1 w1 where acq: "run_recorded env progress Acquisition
      (stage_acquisition env (rs_work st) (dp_attachments found)) st w = (acq, st1, w1)" using prod_cases3 by blast
  define st2 where "st2 = (case se_payload acq of None \<Rightarrow> st1 | Some n \<Rightarrow> st1\<lparr>rs_documents_acquired := n\<rparr>)"
  obtain pro st3 w3 where pro: "run_recorded env progress Processing
      (stage_processing env (rs_work st2) (dp_details found)) st2 w1 = (pro, st3, w3)" using prod_cases3 by blast
  define st4 where "st4 = (case se_payload pro of None \<Rightarrow> st3 | Some t \<Rightarrow> st3\<lparr>rs_documents_processed := pt_documents t\<rparr>)"
  obtain tri st5 w5 where tri: "run_recorded env progress Triage
      (stage_triage env (rs_work st4) run_id) st4 w3 = (tri, st5, w5)" using prod_cases3 by blast
  have "P w1" by (rule run_recorded_keeps [OF acq bodies_keep(2) [OF S] D assms(2)])
  then have "P w3" by (rule run_recorded_keeps [OF pro bodies_keep(3) [OF S] D])
  then have "P w5" by (rule run_recorded_keeps [OF tri bodies_keep(4) [OF S] D])
  moreover have "drive_verdict env progress (case se_payload tri of None \<Rightarrow> [] | Some p \<Rightarrow> p) result manual st5 w5 = (st', w')"
    using drv acq pro tri by (simp add: drive_after_detail_def Let_def st2_def st4_def)
  ultimately show ?thesis using drive_verdict_keeps [OF S] by blast
qed

lemma drive_downstream_keeps:
  assumes S: "services_keep P env progress" and "P w" and ad: "ce_build env spec = Inr ad"
    and drv: "drive_downstream env progress run_id ad result st w = (st', w')"
  shows "P w'"
proof -
  obtain ex st1 w1 where det: "run_recorded env progress Detail (stage_detail env ad (rs_work st)) st w = (ex, st1, w1)"
    using prod_cases3 by blast
  have "\<forall>e. keeps P (ad_get_detail ad e)" using services_keep_facts(2) [OF S ad] by blast
  then have w1: "P w1"
    by (rule run_recorded_keeps [OF det bodies_keep(1) [OF S] services_keep_facts(1) [OF S] assms(2)])
  show ?thesis
  proof (cases "so_status (se_outcome ex) = SFailed")
    case True
    then show ?thesis using drv det w1 by (simp add: drive_downstream_def)
  next
    case False
    then have "drive_after_detail env progress run_id (case se_payload ex of None \<Rightarrow> empty_product | Some p \<Rightarrow> p)
        result False st1 w1 = (st', w')"
      using drv det by (simp add: drive_downstream_def)
    then show ?thesis by (rule drive_after_detail_keeps [OF S w1])
  qed
qed

lemma drive_work_keeps:
  assumes S: "services_keep P env progress" and "P w" and ad: "ce_build env spec' = Inr ad"
    and drv: "drive_work env progress spec run_id ad result st w = (x, st', w')"
  shows "P w'"
  using drv assms(2) drive_downstream_keeps [OF S assms(2) ad]
  by (auto simp: drive_work_def Let_def split: sum.splits if_splits)

lemma stage_discovery_adapter:
  "stage_discovery env spec w = (Inr (r, found), w') \<Longrightarrow> ce_build env spec = Inr (ds_adapter found)"
  by (auto simp: stage_discovery_def split: sum.splits prod.splits)

lemma run_recorded_payload:
  assumes "run_recorded env progress stage act st w = (ex, st1, w1)" "se_payload ex = Some a"
  shows "\<exists>r w'. act w = (Inr (r, a), w')"
  using assms by (auto simp: run_recorded_def run_stage_def Let_def split: prod.splits sum.splits)

text \<open>From the listing to the deduplication a drive keeps one predicate, from there on another; after the
  deduplication a dry drive uses no service.\<close>

lemma drive_phases:
  assumes D: "discovery_keeps P env progress" "discovery_keeps Q env progress" "\<And>v. P v \<Longrightarrow> Q v"
    and S: "\<not> rs_dry_run st \<Longrightarrow> services_keep Q env progress"
    and dedup: "\<And>ls v. P v \<Longrightarrow> Q (snd (stage_dedup env spec ls (rs_run_cid st) run_id (rs_dry_run st) v))" and "P w"
    and drv: "drive env progress spec run_id st w = (x, st', w')"
  shows "Q w'"
proof -
  obtain dis st1 w1 where dis: "run_recorded env progress Discovery (stage_discovery env spec) st w = (dis, st1, w1)"
    using prod_cases3 by blast
  have "keeps P (stage_discovery env spec)" unfolding keeps_def
  proof (intro allI impI)
    fix v assume v: "P v"
    show "P (snd (stage_discovery env spec v))"
    proof (cases "ce_build env spec")
      case (Inr ad)
      then have "P (snd (ad_list_new_tenders ad v))" using D(1) v by (simp add: discovery_keeps_def keeps_def)
      then show ?thesis using Inr v by (auto simp: stage_discovery_def split: sum.splits prod.splits)
    qed (simp add: stage_discovery_def v)
  qed
  then have w1: "P w1" by (rule run_recorded_keeps [OF dis _ D(1) assms(6)])
  have st1: "rs_dry_run st1 = rs_dry_run st" "rs_run_cid st1 = rs_run_cid st"
    using run_recorded_cases(1) [OF dis] by simp_all
  show ?thesis
  proof (cases "se_payload dis = None \<or> so_status (se_outcome dis) = SFailed")
    case True
    then show ?thesis using drv dis D(3) [OF w1] by (auto simp: drive_def split: option.splits)
  next
    case False
    then obtain found where found: "se_payload dis = Some found" "so_status (se_outcome dis) \<noteq> SFailed" by auto
    obtain ded st2 w2 where ded: "run_recorded env progress Deduplication
        (stage_dedup env spec (ds_listings found) (rs_run_cid st1) run_id (rs_dry_run st1)) st1 w1 = (ded, st2, w2)"
      using prod_cases3 by blast
    have w2: "Q w2" by (rule run_recorded_leads [where P = P and Q = Q, OF ded _ D(2) w1]) (rule dedup [folded st1])
    show ?thesis
    proof (cases "so_status (se_outcome ded) = SFailed")
      case True
      then show ?thesis using drv dis found ded w2 by (simp add: drive_def)
    next
      case dedup_ok: False
      define st3 where "st3 = (case se_payload ded of None \<Rightarrow> st2 | Some r \<Rightarrow> record_dedup r st2)"
      obtain per st4 w4 where per: "run_recorded env progress Persistence
          (stage_persistence (se_payload ded)) st3 w2 = (per, st4, w4)" using prod_cases3 by blast
      have "keeps Q (stage_persistence (se_payload ded))" by (simp add: keeps_def stage_persistence_def Let_def)
      then have w4: "Q w4" by (rule run_recorded_keeps [OF per _ D(2) w2])
      have dry: "rs_dry_run st4 = rs_dry_run st"
        using run_recorded_cases(1) [OF per] run_recorded_cases(1) [OF ded] st1 by (simp add: st3_def split: option.splits)
      have rest: "(x, st', w') = (if rs_dry_run st4 then (None, plan_remaining (ce_now env w4) (se_payload ded) st4, w4)
          else drive_work env progress spec run_id (ds_adapter found) (se_payload ded) st4 w4)"
        using drv dis found ded dedup_ok per by (simp add: drive_def Let_def st3_def)
      show ?thesis
      proof (cases "rs_dry_run st4")
        case True
        then show ?thesis using rest w4 by simp
      next
        case False
        have "ce_build env spec = Inr (ds_adapter found)"
          using run_recorded_payload [OF dis found(1)] stage_discovery_adapter by blast
        moreover have "drive_work env progress spec run_id (ds_adapter found) (se_payload ded) st4 w4 = (x, st', w')"
          using rest False by simp
        ultimately show ?thesis using drive_work_keeps [OF S] w4 False dry by blast
      qed
    qed
  qed
qed

lemma drive_keeps:
  assumes D: "discovery_keeps P env progress" and S: "\<not> rs_dry_run st \<Longrightarrow> services_keep P env progress"
    and dedup: "\<And>ls. keeps P (stage_dedup env spec ls (rs_run_cid st) run_id (rs_dry_run st))" and "P w"
    and drv: "drive env progress spec run_id st w = (x, st', w')"
  shows "P w'"
  by (rule drive_phases [where P = P and Q = P, OF D D _ S _ assms(4) drv]) (use dedup in \<open>simp_all add: keeps_def\<close>)

section \<open>The run row\<close>

lemma put_run_last:
  assumes "\<forall>r \<in> set rs. rh_id r \<noteq> rh_id row'" "rh_id row' = rh_id row"
  shows "map (\<lambda>r'. if rh_id r' = rh_id row' then row' else r') (rs @ [row]) = rs @ [row']"
proof -
  have "map (\<lambda>r'. if rh_id r' = rh_id row' then row' else r') rs = rs"
    using assms(1) by (intro map_idI) auto
  then show ?thesis using assms(2) by simp
qed

lemma find_last:
  assumes "\<forall>r \<in> set rs. rh_id r \<noteq> rid" "rh_id row = rid"
  shows "List.find (\<lambda>r. rh_id r = rid) (rs @ [row]) = Some row"
proof -
  have "List.find (\<lambda>r. rh_id r = rid) rs = None" using assms(1) by (auto simp: find_None_iff)
  then show ?thesis using assms(2) by (simp add: find_append)
qed

lemma dedup_keeps_run_row:
  assumes runs: "st_runs s = rs @ [row]" "\<forall>r \<in> set rs. rh_id r \<noteq> rh_id row"
  shows "st_runs (snd (dedup_run denv started ended rivals sid ls cid (Some (rh_id row)) False s)) = st_runs s"
proof (cases "sid \<in> set (st_sources s)")
  case False
  then show ?thesis by (simp add: dedup_run_def open_run_def with_rivals_def)
next
  case True
  then have opened: "open_run sid cid (Some (rh_id row)) False started s = Inr (row, s)"
    using runs find_last [of rs "rh_id row" row] by (simp add: open_run_def)
  have put: "st_runs (put_run row s') = st_runs s" if "st_runs s' = st_runs s" for s'
    using that runs put_run_last [of rs row row] by (simp add: put_run_def)
  show ?thesis
    unfolding dedup_run_def opened
    by (simp add: Let_def with_rivals_def put split: sum.split)
qed

lemma stage_dedup_keeps_run_row:
  assumes "\<forall>r \<in> set rs. rh_id r \<noteq> rh_id row"
  shows "keeps (\<lambda>v. st_runs (wl_store v) = rs @ [row]) (stage_dedup env spec ls cid (Some (rh_id row)) False)"
  unfolding keeps_def
proof (intro allI impI)
  fix v :: "'a world" assume v: "st_runs (wl_store v) = rs @ [row]"
  obtain denv started ended rivals where c: "ce_dedup env v = (denv, started, ended, rivals)" by (metis prod_cases4)
  show "st_runs (wl_store (snd (stage_dedup env spec ls cid (Some (rh_id row)) False v))) = rs @ [row]"
    using dedup_keeps_run_row [OF v assms, of denv started ended rivals "ss_id spec" ls cid] v
    by (auto simp: stage_dedup_def c split: prod.split sum.split)
qed

lemma finalized_facts:
  assumes "rh_ended_at row = None" "rh_error_count row = 0"
  shows "rh_id (finalized now cid st status config row) = rh_id row"
    "rh_source_id (finalized now cid st status config row) = rh_source_id row"
    "rh_correlation_id (finalized now cid st status config row) = rh_correlation_id row"
    "rh_ended_at (finalized now cid st status config row) \<noteq> None"
    "rh_stages (finalized now cid st status config row) = Some (stage_map (rs_outcomes st))"
    "rh_failed_stage (finalized now cid st status config row) = map_option stage_value (rs_failed_stage st)"
    "rh_error_code (finalized now cid st status config row) = rs_error_code st"
    "rh_config_version (finalized now cid st status config row) = Some (cf_version config)"
    "rh_trigger (finalized now cid st status config row) = rh_trigger row"
    "derive_run_status (finalized now cid st status config row) = (if status = RFailed then ''ERRORED'' else ''COMPLETED'')"
  using assms by (simp_all add: finalized_def record_stages_def mark_errored_def complete_run_def
      with_counts_def Let_def derive_run_status_def)

lemma finish_run_row:
  assumes S: "services_keep (\<lambda>v. st_runs (wl_store v) = rs @ [finalized (ce_now env w2) cid st2 status config row]) env progress"
    and runs: "st_runs (wl_store w2) = rs @ [row]" "\<forall>r \<in> set rs. rh_id r \<noteq> rh_id row"
    and row: "rh_ended_at row = None" "rh_error_count row = 0"
    and ok: "\<forall>v. ce_db_fault env DbFinalize v = None"
    and st2: "st2 = pending_remaining (ce_now env w2) ''run stopped before this stage'' (contain_drive env x st w2)"
    and status: "status = derived_status (rs_outcomes st2)"
    and fin: "finish_run env spec config cid False (Some (rh_id row)) started (x, st, w2) = (r, w3)"
  shows "st_runs (wl_store w3) = rs @ [finalized (ce_now env w2) cid st2 status config row]"
proof -
  let ?row = "finalized (ce_now env w2) cid st2 status config row"
  have id: "rh_id ?row = rh_id row" by (rule finalized_facts(1) [OF row])
  have fin_runs: "st_runs (wl_store (finalize_run env (rh_id row) cid st2 status config w2)) = rs @ [?row]"
    using ok runs find_last [OF runs(2) refl] put_run_last [of rs ?row row] id
    by (simp add: finalize_run_def put_run_def)
  define w4 where "w4 = stamp_source env (ss_id spec) st2 (finalize_run env (rh_id row) cid st2 status config w2)"
  have w4: "st_runs (wl_store w4) = rs @ [?row]"
    using fin_runs by (simp add: w4_def stamp_source_def split: option.split)
  have "w3 = (if status = RFailed then send_alert env r w4 else w4)"
    using fin by (auto simp: finish_run_def Let_def w4_def st2 status)
  then show ?thesis using w4 services_keep_facts(12) [OF S] by (auto simp: send_alert_def)
qed

text \<open>C11: what a run did can be read from its row.  A live run adds exactly one row to the run table, under
  the id it reports.  When its last write succeeds, no service touches the run table and row ids are fresh,
  that row has ended and holds the source, the correlation id, the status of every stage, the failed stage,
  the error code, the trigger and the configuration version of the report, and its derived status is
  ERRORED exactly for a FAILED run.  The document counts and planned actions of the report are not stored.\<close>

theorem run_row_reconstructs:
  assumes run: "run_source env progress sid False force_run trigger cid w = (Inr r, w')"
    and fresh: "\<forall>row \<in> set (st_runs (wl_store w)). rh_id row < st_next_run (wl_store w)"
    and services: "\<forall>rs. services_keep (\<lambda>v. st_runs (wl_store v) = rs) env progress"
    and written: "\<forall>v. ce_db_fault env DbFinalize v = None"
  shows "\<exists>row. st_runs (wl_store w') = st_runs (wl_store w) @ [row]
    \<and> rr_run_history_id r = Some (rh_id row) \<and> rh_ended_at row \<noteq> None
    \<and> rh_source_id row = rr_source_id r \<and> rh_correlation_id row = Some (rr_correlation_id r)
    \<and> rh_stages row = Some (stage_map (rr_stages r))
    \<and> rh_failed_stage row = map_option stage_value (rr_failed_stage r)
    \<and> rh_error_code row = rr_error_code r \<and> rh_config_version row = rr_config_version r
    \<and> rh_trigger row = Some trigger
    \<and> derive_run_status row = (if rr_status r = RFailed then ''ERRORED'' else ''COMPLETED'')"
proof -
  obtain d :: schedule_decision and config run_cid where
    run1: "execute_run env progress (sd_spec d) config run_cid False trigger w = (Inr r, w')"
    using run by (auto simp: run_source_def split: option.splits if_splits sum.splits)
  let ?s = "wl_store w" and ?rs = "st_runs (wl_store w)"
  define row where "row = (create_run (st_next_run ?s) (ss_id (sd_spec d)) run_cid None (ce_now env w))
     \<lparr>rh_config_version := Some (cf_version config), rh_trigger := Some trigger, rh_tender_id := None\<rparr>"
  define w1 where "w1 = w\<lparr>wl_store := ?s\<lparr>st_runs := ?rs @ [row], st_next_run := st_next_run ?s + 1\<rparr>\<rparr>"
  have row: "rh_ended_at row = None" "rh_error_count row = 0" "rh_trigger row = Some trigger" "rh_id row = st_next_run ?s"
    "rh_source_id row = ss_id (sd_spec d)" "rh_correlation_id row = Some run_cid"
    by (simp_all add: row_def create_run_def)
  have new: "\<forall>q \<in> set ?rs. rh_id q \<noteq> rh_id row" using fresh row(4) by auto
  obtain x st w2 where drv: "drive env progress (sd_spec d) (Some (rh_id row)) (new_run_state run_cid False) w1 = (x, st, w2)"
    using prod_cases3 by blast
  have fin: "finish_run env (sd_spec d) config run_cid False (Some (rh_id row)) (ce_clock env w) (x, st, w2) = (r, w')"
    using run1 drv by (auto simp: execute_run_def Let_def coord_open_run_def row_def w1_def
        split: option.splits prod.splits)
  have dry: "rs_dry_run (new_run_state run_cid False) = False" by (simp add: new_run_state_def)
  have "keeps (\<lambda>v. st_runs (wl_store v) = ?rs @ [row])
      (stage_dedup env (sd_spec d) ls (rs_run_cid (new_run_state run_cid False)) (Some (rh_id row)) (rs_dry_run (new_run_state run_cid False)))" for ls
    unfolding dry by (rule stage_dedup_keeps_run_row [OF new])
  moreover have "st_runs (wl_store w1) = ?rs @ [row]" by (simp add: w1_def)
  ultimately have w2: "st_runs (wl_store w2) = ?rs @ [row]"
    using drive_keeps [where P = "\<lambda>v. st_runs (wl_store v) = ?rs @ [row]", OF _ _ _ _ drv]
      services services_keep_facts(1) by blast
  define st2 where "st2 = pending_remaining (ce_now env w2) ''run stopped before this stage'' (contain_drive env x st w2)"
  let ?status = "derived_status (rs_outcomes st2)"
  let ?row = "finalized (ce_now env w2) run_cid st2 ?status config row"
  have final: "st_runs (wl_store w') = ?rs @ [?row]"
    by (rule finish_run_row [OF spec [OF services] w2 new row(1,2) written st2_def refl fin])
  have r: "r = report_of (sd_spec d) run_cid ?status (ce_clock env w) st2 (Some (rh_id row)) config False (int (length (rs_work st2)))"
    using fin by (auto simp: finish_run_def Let_def st2_def)
  show ?thesis
    by (rule exI [of _ ?row]) (simp add: final r report_of_def finalized_facts [OF row(1,2)] row(3,5,6))
qed

lemma demo_env_services: "services_keep P (demo_env ls f) None"
  by (simp add: services_keep_def discovery_keeps_def demo_env_def keeps_def)

theorem run_row_reconstructs_witness:
  "\<exists>(r :: run_report) w' row. run_source (demo_env [sample_listing] (\<lambda>_. None)) None 2 False False ''scheduled'' None demo_world
       = (Inr r, w') \<and> st_runs (wl_store w') = [row] \<and> rh_ended_at row \<noteq> None"
proof -
  let ?env = "demo_env [sample_listing] (\<lambda>_. None)"
  have "\<exists>(r :: run_report) w'. run_source ?env None 2 False False ''scheduled'' None demo_world = (Inr r, w')"
    by (simp add: run_source_def get_decision_def get_source_def demo_world_def demo_source_def
        decide_def spec_of_row_def demo_env_def execute_run_def coord_open_run_def Let_def split: prod.split)
  then obtain r :: run_report and w' where run: "run_source ?env None 2 False False ''scheduled'' None demo_world = (Inr r, w')"
    by blast
  have "st_runs (wl_store demo_world) = []" by (simp add: demo_world_def empty_store_def)
  then have "\<forall>row \<in> set (st_runs (wl_store demo_world)). rh_id row < st_next_run (wl_store demo_world)" by simp
  moreover have "\<forall>v. ce_db_fault ?env DbFinalize v = None" by (simp add: demo_env_def)
  moreover have "\<forall>rs. services_keep (\<lambda>v. st_runs (wl_store v) = rs) ?env None" by (simp add: demo_env_services)
  ultimately show ?thesis
    using run_row_reconstructs [OF run] run \<open>st_runs (wl_store demo_world) = []\<close> by auto
qed

section \<open>Dry runs\<close>

lemma dedup_dry_run:
  "snd (dedup_run denv started ended rivals sid ls cid None True s) = with_rivals rivals s"
  by (simp add: dedup_run_def open_run_def Let_def split: sum.split)

text \<open>A listing service and a progress callback that write none of the tables.\<close>

definition listing_reads_only :: "'w coord_env \<Rightarrow> 'w progress \<Rightarrow> bool" where
  "listing_reads_only env progress \<longleftrightarrow>
     (\<forall>s rows. discovery_keeps (\<lambda>v. wl_store v = s \<and> wl_sources v = rows) env progress)"

text \<open>The rows that others insert while a deduplication runs on the tables of a world.\<close>

definition inserted_by_others :: "'w coord_env \<Rightarrow> 'w world \<Rightarrow> tender list \<Rightarrow> bool" where
  "inserted_by_others env w rivals \<longleftrightarrow> rivals = []
     \<or> (\<exists>v denv started ended. ce_dedup env v = (denv, started, ended, rivals)
          \<and> wl_store v = wl_store w \<and> wl_sources v = wl_sources w)"

text \<open>The environment with every service a dry run has no use for replaced.\<close>

definition other_services :: "'w coord_env \<Rightarrow> 'w coord_env \<Rightarrow> 'w coord_env" where
  "other_services env e = env\<lparr>ce_deadline := ce_deadline e, ce_apply_deadline := ce_apply_deadline e,
     ce_acquire := ce_acquire e, ce_process := ce_process e, ce_triage := ce_triage e,
     ce_triage_handoff := ce_triage_handoff e, ce_verdict_handoff := ce_verdict_handoff e,
     ce_dispatch := ce_dispatch e, ce_alert := ce_alert e, ce_sleep := ce_sleep e\<rparr>"

lemma other_services_simps [simp]:
  "ce_build (other_services env e) = ce_build env" "ce_dedup (other_services env e) = ce_dedup env"
  "ce_db_fault (other_services env e) = ce_db_fault env" "ce_load_config (other_services env e) = ce_load_config env"
  "ce_new_correlation_id (other_services env e) = ce_new_correlation_id env" "ce_clock (other_services env e) = ce_clock env"
  "ce_runner_clock (other_services env e) = ce_runner_clock env" "ce_now (other_services env e) = ce_now env"
  by (simp_all add: other_services_def)

lemma same_stages:
  "run_recorded (other_services env e) progress stage act st w = run_recorded env progress stage act st w"
  "stage_discovery (other_services env e) spec = stage_discovery env spec"
  "stage_dedup (other_services env e) spec ls c rid dry = stage_dedup env spec ls c rid dry"
  "contain_drive (other_services env e) x st w = contain_drive env x st w"
  by (simp_all add: run_recorded_def record_outcome_def stage_discovery_def stage_dedup_def contain_drive_def fun_eq_iff
      split: option.split)

lemma dry_drive_services:
  assumes "rs_dry_run st"
  shows "drive (other_services env e) progress spec run_id st w = drive env progress spec run_id st w"
proof -
  obtain dis st1 w1 where dis: "run_recorded env progress Discovery (stage_discovery env spec) st w = (dis, st1, w1)"
    using prod_cases3 by blast
  have st1: "rs_dry_run st1" using run_recorded_cases(1) [OF dis] assms by simp
  show ?thesis
  proof (cases "se_payload dis")
    case None
    then show ?thesis using dis by (simp add: drive_def same_stages)
  next
    case (Some found)
    obtain ded st2 w2 where ded: "run_recorded env progress Deduplication
        (stage_dedup env spec (ds_listings found) (rs_run_cid st1) run_id (rs_dry_run st1)) st1 w1 = (ded, st2, w2)"
      using prod_cases3 by blast
    define st3 where "st3 = (case se_payload ded of None \<Rightarrow> st2 | Some r \<Rightarrow> record_dedup r st2)"
    obtain per st4 w4 where per: "run_recorded env progress Persistence
        (stage_persistence (se_payload ded)) st3 w2 = (per, st4, w4)" using prod_cases3 by blast
    have "rs_dry_run st4"
      using run_recorded_cases(1) [OF per] run_recorded_cases(1) [OF ded] st1 by (simp add: st3_def split: option.splits)
    then show ?thesis using dis Some ded per by (simp add: drive_def same_stages Let_def st3_def)
  qed
qed

text \<open>C12: a dry run writes nothing.  It has no run row and reports DRY_RUN; the source table, with its
  stamps, is the one before, and so is every other table but for the tenders that other runs inserted
  meanwhile.  It uses none of the services behind the listing and the deduplication: whatever deadline
  resolution, acquisition, processing, triage, assessment, dispatch and alerting would do, the run is the same.
  The adapter's listing and the progress callback are assumed to write none of the tables.\<close>

theorem dry_run_writes_nothing:
  assumes run: "run_source env progress sid True force_run trigger cid w = (Inr r, w')"
    and listing: "listing_reads_only env progress"
  shows "rr_status r = RDryRun \<and> rr_run_history_id r = None \<and> wl_sources w' = wl_sources w
    \<and> (\<exists>rivals. inserted_by_others env w rivals \<and> wl_store w' = with_rivals rivals (wl_store w))
    \<and> (\<forall>e. run_source (other_services env e) progress sid True force_run trigger cid w = (Inr r, w'))"
proof -
  obtain d :: schedule_decision and config run_cid where
    run1: "execute_run env progress (sd_spec d) config run_cid True trigger w = (Inr r, w')"
    using run by (auto simp: run_source_def split: option.splits if_splits sum.splits)
  obtain x st w2 where drv: "drive env progress (sd_spec d) None (new_run_state run_cid True) w = (x, st, w2)"
    using prod_cases3 by blast
  have fin: "r = report_of (sd_spec d) run_cid RDryRun (ce_clock env w)
      (pending_remaining (ce_now env w2) ''run stopped before this stage'' (contain_drive env x st w2)) None config True
      (int (length (rs_work st)))" "w' = w2"
    using run1 drv by (auto simp: execute_run_def Let_def finish_run_def)
  let ?P = "\<lambda>v. wl_store v = wl_store w \<and> wl_sources v = wl_sources w"
  let ?Q = "\<lambda>v. wl_sources v = wl_sources w
     \<and> (\<exists>rivals. inserted_by_others env w rivals \<and> wl_store v = with_rivals rivals (wl_store w))"
  have D: "discovery_keeps ?P env progress" using listing unfolding listing_reads_only_def by blast
  have D2: "discovery_keeps ?Q env progress"
    using listing unfolding listing_reads_only_def discovery_keeps_def keeps_def by metis
  have weak: "?Q v" if "?P v" for v
    using that by (auto simp: inserted_by_others_def with_rivals_def intro!: exI [of _ "[]"])
  have dedup: "?Q (snd (stage_dedup env (sd_spec d) ls c None True v))" if "?P v" for ls c v
  proof -
    obtain denv started ended rivals where c: "ce_dedup env v = (denv, started, ended, rivals)" by (metis prod_cases4)
    then have "inserted_by_others env w rivals" using that by (auto simp: inserted_by_others_def)
    moreover have "wl_store (snd (stage_dedup env (sd_spec d) ls c None True v)) = with_rivals rivals (wl_store v)"
      "wl_sources (snd (stage_dedup env (sd_spec d) ls c None True v)) = wl_sources v"
      using dedup_dry_run [of denv started ended rivals "ss_id (sd_spec d)" ls c "wl_store v"]
      by (auto simp: stage_dedup_def \<open>ce_dedup env v = _\<close> split: prod.splits sum.splits)
    ultimately show ?thesis using that by auto
  qed
  have dry: "rs_dry_run (new_run_state run_cid True)" by (simp add: new_run_state_def)
  have "?Q w2"
    by (rule drive_phases [where P = ?P and Q = ?Q, OF D D2 weak _ _ _ drv]) (use dry dedup in simp_all)
  moreover have "run_source (other_services env e) progress sid True force_run trigger cid w = (Inr r, w')" for e
  proof -
    have "drive (other_services env e) progress spec None (new_run_state c True) w = drive env progress spec None (new_run_state c True) w"
      for spec c by (rule dry_drive_services) (simp add: new_run_state_def)
    then have "execute_run (other_services env e) progress spec config c True trigger w
        = execute_run env progress spec config c True trigger w" for spec config c
      by (simp add: execute_run_def finish_run_def same_stages(4) case_prod_beta Let_def)
    then show ?thesis using run by (auto simp: run_source_def split: option.splits if_splits sum.splits)
  qed
  ultimately show ?thesis by (simp add: fin report_of_def)
qed

theorem dry_run_writes_nothing_witness:
  "\<exists>(r :: run_report) w'. run_source (demo_env [sample_listing] (\<lambda>_. None)) None 2 True False ''t'' None demo_world = (Inr r, w')
     \<and> rr_status r = RDryRun \<and> wl_sources w' = wl_sources demo_world
     \<and> wl_store w' = wl_store demo_world"
proof -
  let ?env = "demo_env [sample_listing] (\<lambda>_. None)"
  have "\<exists>(r :: run_report) w'. run_source ?env None 2 True False ''t'' None demo_world = (Inr r, w')"
    by (simp add: run_source_def get_decision_def get_source_def demo_world_def demo_source_def
        decide_def spec_of_row_def demo_env_def execute_run_def Let_def split: prod.split)
  then obtain r :: run_report and w' where run: "run_source ?env None 2 True False ''t'' None demo_world = (Inr r, w')"
    by blast
  have "listing_reads_only ?env None"
    using demo_env_services services_keep_facts(1) unfolding listing_reads_only_def by blast
  moreover have "rivals = []" if "inserted_by_others ?env demo_world rivals" for rivals
    using that by (auto simp: inserted_by_others_def demo_env_def)
  moreover have "with_rivals [] s = s" for s by (simp add: with_rivals_def)
  ultimately show ?thesis using dry_run_writes_nothing [OF run] run by metis
qed

section \<open>Recovered tenders\<close>

lemma last_of_None: "last_of (map (\<lambda>x. (f x, g x)) xs) k = None \<longleftrightarrow> k \<notin> f ` set xs"
  by (auto simp: last_of_def map_of_eq_None_iff image_iff)

lemma resolve_work_ids:
  assumes "resolve_work env spec ids cid w = Inr work" and ok: "rows_ok (st_tenders (wl_store w)) n"
    and t: "t \<in> set (st_tenders (wl_store w))" "tn_source_id t = ss_id spec" "tn_external_id t \<in> set ids"
      "py_strip (tn_external_id t) \<noteq> []"
  shows "tn_id t \<in> wi_tender_id ` set work"
proof -
  let ?ts = "st_tenders (wl_store w)" and ?e = "tn_external_id t"
  let ?hits = "filter (\<lambda>t. tn_source_id t = ss_id spec \<and> tn_external_id t \<in> set (filter (\<lambda>e. py_strip e \<noteq> []) ids)) ?ts"
  have "t \<in> set ?hits" using t by auto
  then have "?e \<in> fst ` set (map (\<lambda>t. (tn_external_id t, t)) ?hits)" by force
  then have "get_many_by_identity (ss_id spec) ids ?ts ?e \<noteq> None"
    by (simp add: get_many_by_identity_def map_of_eq_None_iff)
  then obtain u where u: "get_many_by_identity (ss_id spec) ids ?ts ?e = Some u" by auto
  then have "(?e, u) \<in> set (map (\<lambda>t. (tn_external_id t, t)) ?hits)"
    by (auto simp: get_many_by_identity_def Let_def dest!: map_of_SomeD)
  then have "u \<in> set ?ts" "tender_key u = tender_key t" using t(2) by auto
  then have "u = t" using ok t(1) by (auto simp: rows_ok_def distinct_map dest: inj_onD)
  then have "t \<in> set (List.map_filter (get_many_by_identity (ss_id spec) ids ?ts) (remdups ids))"
    using u t(3) by (force simp: List.map_filter_def)
  moreover have "ids \<noteq> []" using t(3) by auto
  then have "wi_tender_id ` set work
      = tn_id ` set (List.map_filter (get_many_by_identity (ss_id spec) ids ?ts) (remdups ids))"
    using assms(1) by (auto simp: resolve_work_def Let_def work_item_of_def image_image split: option.splits)
  ultimately show ?thesis by blast
qed

text \<open>The verdicts of tenders that none of the given work items is for.\<close>

definition verdicts_beside ::
  "work_item list \<Rightarrow> (triage_decision \<times> verdict_outcome) list \<Rightarrow> (triage_decision \<times> verdict_outcome) list" where
  "verdicts_beside items vs = filter (\<lambda>(d, v). tr_tender_id d \<notin> wi_tender_id ` set items) vs"

lemma notify_raw_shift:
  "notify_raw send work raw (s, f + k) w = (case notify_raw send work raw (s, f) w of ((s', f'), w') \<Rightarrow> ((s', f' + k), w'))"
proof (induction raw arbitrary: s f w)
  case (Cons c raw)
  have "f + k + 1 = (f + 1) + k" by simp
  have step: "notify_raw send work raw (s, f + k + 1) v
      = (case notify_raw send work raw (s, f + 1) v of ((s', f'), w') \<Rightarrow> ((s', f' + k), w'))" for v
    unfolding \<open>f + k + 1 = (f + 1) + k\<close> by (rule Cons)
  show ?case by (auto simp: Cons step split: option.split prod.split)
qed simp

lemma notify_verdicts_beside:
  assumes none: "\<And>d v i. (d, v) \<in> set vs \<Longrightarrow> tr_tender_id d \<in> wi_tender_id ` set items \<Longrightarrow> work (tr_tender_id d) = Some i
      \<Longrightarrow> verdict_event env updates new_ids manual i v = None"
  shows "notify_verdicts env send updates new_ids manual work vs (s, f + k) w
     = (case notify_verdicts env send updates new_ids manual work (verdicts_beside items vs) (s, f) w of
          ((s', f'), w') \<Rightarrow> ((s', f' + k + int (length vs - length (verdicts_beside items vs))), w'))"
  using none
proof (induction vs arbitrary: s f k w)
  case (Cons dv vs)
  obtain d v where dv: "dv = (d, v)" by fastforce
  have le: "length (verdicts_beside items vs) \<le> length vs" by (simp add: verdicts_beside_def)
  note IH = Cons.IH [OF Cons.prems(1) [OF list.set_intros(2)]]
  show ?case
  proof (cases "tr_tender_id d \<in> wi_tender_id ` set items")
    case True
    have beside: "verdicts_beside items (dv # vs) = verdicts_beside items vs" using True by (simp add: verdicts_beside_def dv)
    have "notify_verdicts env send updates new_ids manual work (dv # vs) (s, f + k) w
        = notify_verdicts env send updates new_ids manual work vs (s, f + (k + 1)) w"
      using True Cons.prems [of d v] by (auto simp: dv add.assoc split: option.split)
    also have "\<dots> = (case notify_verdicts env send updates new_ids manual work (verdicts_beside items vs) (s, f) w of
          ((s', f'), w') \<Rightarrow> ((s', f' + (k + 1) + int (length vs - length (verdicts_beside items vs))), w'))"
      by (rule IH)
    finally show ?thesis using le by (simp add: beside Suc_diff_le algebra_simps split: prod.split)
  next
    case False
    then have beside: "verdicts_beside items ((d, v) # vs) = (d, v) # verdicts_beside items vs" by (simp add: verdicts_beside_def)
    have step: "f + k + 1 = (f + 1) + k" by simp
    show ?thesis unfolding dv beside
      by (auto simp: IH step split: option.split prod.split simp del: notify_raw.simps)
  qed
qed (simp add: verdicts_beside_def)

lemma pair_and_world: "(\<And>a b v. x = ((a, b), v) \<Longrightarrow> thesis) \<Longrightarrow> thesis"
  by (cases x) auto

lemma stage_notifications_loops:
  assumes "notify_verdicts env send (last_of (map (\<lambda>o'. (ls_external_id (do_listing o'), o')) (dr_updates res)))
      (ls_external_id ` set (dr_new_listings res)) manual (last_of (map (\<lambda>i. (wi_tender_id i, i)) items)) vs (0, 0) w
      = ((s, f), w2)"
    and "notify_raw send (last_of (map (\<lambda>i. (wi_tender_id i, i)) items)) raw (0, f) w2 = ((rs, rf), w3)"
  shows "\<exists>rep. stage_notifications env send vs (Some res) items manual raw w = (Inr (rep, s + rs), w3)
    \<and> sg_failed_items rep = rf"
  unfolding stage_notifications_def Let_def option.case assms prod.case by simp

text \<open>C28: the assessment of a tender that a run recovers from an interrupted one is never announced.  In any
  batch, with other verdicts and with raw notices beside it, the notification stage does exactly what it
  would do without the verdicts of recovered tenders, to the world and to the count of deliveries, and counts
  each of those verdicts as failed, because a recovered tender is by construction neither new nor updated for
  the deduplication of this run.  A raw notice of an unavailable assessment is not concerned.\<close>

theorem recovered_never_announced:
  assumes work: "resolve_work env spec (work_external_ids (Some res)) cid w = Inr work"
    and recovered: "recover_unprocessed env spec cid (wi_tender_id ` set work) w = Inr items"
    and ok: "rows_ok (st_tenders (wl_store w)) n"
      "\<forall>t \<in> set (st_tenders (wl_store w)). py_strip (tn_external_id t) \<noteq> []"
  shows "\<exists>rep rep' sent w2. stage_notifications env send vs (Some res) (work @ items) False raw w1 = (Inr (rep, sent), w2)
    \<and> stage_notifications env send (verdicts_beside items vs) (Some res) (work @ items) False raw w1 = (Inr (rep', sent), w2)
    \<and> sg_failed_items rep = sg_failed_items rep' + int (length vs - length (verdicts_beside items vs))"
proof -
  let ?ts = "st_tenders (wl_store w)" and ?work = "last_of (map (\<lambda>i. (wi_tender_id i, i)) (work @ items))"
  let ?updates = "last_of (map (\<lambda>o'. (ls_external_id (do_listing o'), o')) (dr_updates res))"
  let ?new = "ls_external_id ` set (dr_new_listings res)"
  have none: "verdict_event env ?updates ?new False i v = None" if i: "i \<in> set items" for i v
  proof -
    obtain t where t: "t \<in> set ?ts" "tn_source_id t = ss_id spec" "wi_external_id i = tn_external_id t"
      "tn_id t \<notin> wi_tender_id ` set work"
      using recovered i by (auto simp: recover_unprocessed_def Let_def list_unprocessed_def limited_def
          work_item_of_def dest!: in_set_takeD split: option.splits if_splits)
    have nonempty: "tn_external_id t \<noteq> []" using ok(2) t(1) by (auto simp: py_strip_def)
    have "tn_external_id t \<notin> set (work_external_ids (Some res))"
      using resolve_work_ids [OF work ok(1) t(1,2)] ok(2) t(1,4) by blast
    then have "tn_external_id t \<notin> ?new" "tn_external_id t \<notin> (\<lambda>o'. ls_external_id (do_listing o')) ` set (dr_updates res)"
      using nonempty by (auto simp: work_external_ids_def ordered_ids)
    then show ?thesis by (simp add: verdict_event_def t(3) last_of_None)
  qed
  have lookup: "i \<in> set items" if k: "k \<in> wi_tender_id ` set items" "?work k = Some i" for k i
  proof -
    have "map_of (rev (map (\<lambda>i. (wi_tender_id i, i)) items)) k \<noteq> None"
      using k(1) by (auto simp: map_of_eq_None_iff image_iff)
    then obtain j where j: "map_of (rev (map (\<lambda>i. (wi_tender_id i, i)) items)) k = Some j" by auto
    then have "j \<in> set items" by (auto dest!: map_of_SomeD)
    moreover have "?work k = Some j" using j by (simp add: last_of_def map_add_def)
    ultimately show ?thesis using k(2) by simp
  qed
  let ?gone = "int (length vs - length (verdicts_beside items vs))"
  obtain s f w2 where kept: "notify_verdicts env send ?updates ?new False ?work (verdicts_beside items vs) (0, 0) w1 = ((s, f), w2)"
    by (rule pair_and_world)
  have all: "notify_verdicts env send ?updates ?new False ?work vs (0, 0) w1 = ((s, f + ?gone), w2)"
    using notify_verdicts_beside [of vs items ?work env ?updates ?new False send 0 0 0 w1, OF none [OF lookup]]
    by (simp only: kept prod.case add_0_right)
  obtain rs rf w3 where raws: "notify_raw send ?work raw (0, f) w2 = ((rs, rf), w3)"
    by (rule pair_and_world)
  have "notify_raw send ?work raw (0, f + ?gone) w2 = ((rs, rf + ?gone), w3)"
    using raws by (simp add: notify_raw_shift)
  note ends = stage_notifications_loops [OF all this] stage_notifications_loops [OF kept raws]
  obtain rep where rep: "stage_notifications env send vs (Some res) (work @ items) False raw w1 = (Inr (rep, s + rs), w3)"
    "sg_failed_items rep = rf + ?gone" using ends(1) by (elim exE conjE)
  obtain rep' where rep': "stage_notifications env send (verdicts_beside items vs) (Some res) (work @ items) False raw w1
      = (Inr (rep', s + rs), w3)" "sg_failed_items rep' = rf" using ends(2) by (elim exE conjE)
  show ?thesis by (intro exI conjI, rule rep(1), rule rep'(1)) (simp only: rep(2) rep'(2))
qed

definition unchanged_result :: dedup_result where
  "unchanged_result = \<lparr>dr_run_correlation_id = ''run'', dr_run_history_id = 1, dr_run_status = ''RUNNING'',
     dr_new_listings = [], dr_updates = [], dr_unchanged_count = 1, dr_new_count = 0, dr_update_count = 0,
     dr_duplicate_count = 0, dr_correlation_map = []\<rparr>"

theorem recovered_never_announced_witness:
  "\<exists>items rep. recover_unprocessed ((demo_env [] (\<lambda>_. None))\<lparr>ce_recovery_limit := 5\<rparr>) demo_spec ''run'' {}
       (demo_world\<lparr>wl_store := empty_store\<lparr>st_tenders := [sample_tender\<lparr>tn_deadline := None\<rparr>]\<rparr>\<rparr>) = Inr items
     \<and> length items = 1
     \<and> stage_notifications ((demo_env [] (\<lambda>_. None))\<lparr>ce_recovery_limit := 5\<rparr>) (\<lambda>e v. (Inr ''sent'', v))
         [(\<lparr>tr_tender_id = 1, tr_correlation_id = ''c'', tr_status = ''passed'', tr_error_code = None\<rparr>,
           \<lparr>vo_status = Some ''VERDICT_AVAILABLE'', vo_verdict_id = Some 5, vo_error_code = None\<rparr>)]
         (Some unchanged_result) ([] @ items) False [] demo_world = (Inr (rep, 0), demo_world)
     \<and> sg_failed_items (rep :: stage_report) = 1"
proof -
  let ?env = "(demo_env [] (\<lambda>_. None))\<lparr>ce_recovery_limit := 5\<rparr>"
  let ?w = "demo_world\<lparr>wl_store := empty_store\<lparr>st_tenders := [sample_tender\<lparr>tn_deadline := None\<rparr>]\<rparr>\<rparr>"
  let ?items = "[work_item_of ''run'' (sample_tender\<lparr>tn_deadline := None\<rparr>)]"
  let ?vs = "[(\<lparr>tr_tender_id = 1, tr_correlation_id = ''c'', tr_status = ''passed'', tr_error_code = None\<rparr>,
      \<lparr>vo_status = Some ''VERDICT_AVAILABLE'', vo_verdict_id = Some 5, vo_error_code = None\<rparr>)]"
  have spec: "ss_id demo_spec = 2" by (simp add: demo_spec_def spec_of_row_def demo_source_def)
  have work: "resolve_work ?env demo_spec (work_external_ids (Some unchanged_result)) ''run'' ?w = Inr []"
    by (simp add: resolve_work_def work_external_ids_def unchanged_result_def ordered_ids_def)
  have rec: "recover_unprocessed ?env demo_spec ''run'' (wi_tender_id ` set []) ?w = Inr ?items"
    by (simp add: recover_unprocessed_def demo_env_def demo_world_def list_unprocessed_def limited_def spec
        sample_tender_def new_tender_def)
  have ok: "rows_ok (st_tenders (wl_store ?w)) 2" "\<forall>t \<in> set (st_tenders (wl_store ?w)). py_strip (tn_external_id t) \<noteq> []"
    by (simp_all add: rows_ok_def sample_tender_def new_tender_def sample_listing_def py_strip_def py_space_def)
  have gone: "verdicts_beside ?items ?vs = []"
    by (simp add: verdicts_beside_def work_item_of_def sample_tender_def new_tender_def)
  have rest: "stage_notifications ?env (\<lambda>e v. (Inr ''sent'', v)) [] (Some unchanged_result) ([] @ ?items) False [] demo_world
      = (Inr (rep', sent), w2) \<Longrightarrow> sent = 0 \<and> w2 = demo_world \<and> sg_failed_items rep' = 0" for rep' :: stage_report and sent w2
    by (auto simp: stage_notifications_def)
  from recovered_never_announced [OF work rec ok, of "\<lambda>e v. (Inr ''sent'', v)" ?vs "[]" demo_world] rec rest
  show ?thesis unfolding gone by fastforce
qed

end
