(* ===== verification/WorkerPass.thy ===== *)
theory WorkerPass
  imports CoordinatorProps "HOL-Library.Multiset"
begin

text \<open>
  One pass over the due sources, \<open>orchestrator/worker.py\<close>: the selection, the loop that isolates
  every source from the failure of another, and the drain of the mail outbox after the pass.
\<close>

record source_failure =
  sf_source_id :: int
  sf_source_name :: string
  sf_error_code :: string
  sf_message :: string

record worker_report =
  wr_correlation_id :: string
  wr_started_at :: instant
  wr_ended_at :: instant
  wr_runs :: "run_report list"
  wr_failures :: "source_failure list"
  wr_skipped :: "source_spec list"
  wr_dry_run :: bool

definition worker_ran :: "worker_report \<Rightarrow> int" where
  "worker_ran r = int (length (wr_runs r))"

definition worker_failed :: "worker_report \<Rightarrow> int" where
  "worker_failed r = int (length (filter (\<lambda>q. rr_status q = RFailed) (wr_runs r))) + int (length (wr_failures r))"

definition worker_succeeded :: "worker_report \<Rightarrow> bool" where
  "worker_succeeded r = (worker_failed r = 0)"

definition run_for :: "int \<Rightarrow> worker_report \<Rightarrow> run_report option" where
  "run_for sid r = List.find (\<lambda>q. rr_source_id q = sid) (wr_runs r)"

definition unknown_source :: "int \<Rightarrow> source_failure" where
  "unknown_source sid = \<lparr>sf_source_id = sid, sf_source_name = ''source-'' @ int_str sid,
     sf_error_code = SOURCE_NOT_RUNNABLE, sf_message = ''unknown source_id '' @ int_str sid\<rparr>"

text \<open>\<open>_select\<close>: the reads of the source table stand outside every \<open>try\<close> of the pass, so an error of one of them
  is the error of the selection.\<close>

fun select_explicit ::
  "'w coord_env \<Rightarrow> 'w world \<Rightarrow> int list \<Rightarrow> (exn, source_spec list \<times> source_spec list \<times> source_failure list) result" where
  "select_explicit env w [] = Inr ([], [], [])"
| "select_explicit env w (sid # sids) =
     (case ce_db_fault env (DbSelect (Some sid)) w of Some x \<Rightarrow> Inl x | None \<Rightarrow>
      case select_explicit env w sids of Inl x \<Rightarrow> Inl x | Inr (selected, skipped, refusals) \<Rightarrow>
      case get_decision (ce_now env w) sid (wl_sources w) of
        None \<Rightarrow> Inr (selected, skipped, unknown_source sid # refusals)
      | Some d \<Rightarrow> Inr (sd_spec d # selected, if sd_due d then skipped else sd_spec d # skipped, refusals))"

definition select_sources ::
  "'w coord_env \<Rightarrow> int list option \<Rightarrow> 'w world
     \<Rightarrow> (exn, source_spec list \<times> source_spec list \<times> source_failure list) result" where
  "select_sources env source_ids w = (case source_ids of
     None \<Rightarrow> (case ce_db_fault env (DbSelect None) w of Some x \<Rightarrow> Inl x | None \<Rightarrow>
       (let ds = decisions (ce_now env w) (wl_sources w)
        in Inr (map sd_spec (filter sd_due ds), map sd_spec (filter (\<lambda>d. \<not> sd_due d) ds), [])))
   | Some sids \<Rightarrow> select_explicit env w sids)"

definition failure_of :: "source_spec \<Rightarrow> exn \<Rightarrow> source_failure" where
  "failure_of spec x = \<lparr>sf_source_id = ss_id spec, sf_source_name = ss_name spec,
     sf_error_code = py_or (ex_code x) STAGE_FAILED, sf_message = py_or (ex_message x) (ex_type x)\<rparr>"

fun run_selected ::
  "'w coord_env \<Rightarrow> bool \<Rightarrow> bool \<Rightarrow> source_spec list \<Rightarrow> run_report list \<times> source_failure list \<Rightarrow> 'w world
     \<Rightarrow> (run_report list \<times> source_failure list) \<times> 'w world" where
  "run_selected env dry_run force_run [] acc w = (acc, w)"
| "run_selected env dry_run force_run (spec # specs) (runs, failures) w =
     (case run_source env None (ss_id spec) dry_run force_run ''scheduled'' None w of
        (Inr r, w') \<Rightarrow> run_selected env dry_run force_run specs (runs @ [r], failures) w'
      | (Inl x, w') \<Rightarrow> run_selected env dry_run force_run specs (runs, failures @ [failure_of spec x]) w')"

text \<open>\<open>_flush_outbox\<close>: what the flusher returns or raises does not matter, what it does to the world does.\<close>

definition flush_outbox :: "('w world \<Rightarrow> (exn, unit) result \<times> 'w world) option \<Rightarrow> 'w world \<Rightarrow> 'w world" where
  "flush_outbox flusher w = (case flusher of None \<Rightarrow> w | Some f \<Rightarrow> snd (f w))"

definition run_once ::
  "'w coord_env \<Rightarrow> ('w world \<Rightarrow> (exn, unit) result \<times> 'w world) option \<Rightarrow> bool \<Rightarrow> int list option \<Rightarrow> bool
     \<Rightarrow> ('w world, worker_report) action" where
  "run_once env flusher dry_run source_ids force_run w =
     (case select_sources env source_ids w of
        Inl x \<Rightarrow> (Inl x, w)
      | Inr (selected, skipped, refusals) \<Rightarrow>
      (case run_selected env dry_run force_run selected ([], refusals) w of ((runs, failures), w1) \<Rightarrow>
       (let w2 = (if dry_run then w1 else flush_outbox flusher w1)
        in (Inr \<lparr>wr_correlation_id = ce_new_correlation_id env w, wr_started_at = ce_clock env w,
             wr_ended_at = ce_clock env w2, wr_runs = runs, wr_failures = failures, wr_skipped = skipped,
             wr_dry_run = dry_run\<rparr>, w2))))"

section \<open>Isolation\<close>

lemma run_source_id: "run_source env progress sid dry f t cid w = (Inr r, w') \<Longrightarrow> rr_source_id r = sid"
  by (erule run_source_report) (simp add: report_of_def)

lemma run_selected_accounts:
  assumes "run_selected env dry f specs (runs, failures) w = ((runs', failures'), w')"
  shows "\<exists>new_runs new_failures. runs' = runs @ new_runs \<and> failures' = failures @ new_failures
    \<and> mset (map rr_source_id new_runs) + mset (map sf_source_id new_failures) = mset (map ss_id specs)"
  using assms
proof (induction specs arbitrary: runs failures w)
  case (Cons spec specs)
  obtain r w1 where r: "run_source env None (ss_id spec) dry f ''scheduled'' None w = (r, w1)" by fastforce
  show ?case
  proof (cases r)
    case (Inr q)
    then have "run_selected env dry f specs (runs @ [q], failures) w1 = ((runs', failures'), w')"
      using Cons.prems r by simp
    from Cons.IH [OF this] obtain new_runs new_failures where
      new: "runs' = (runs @ [q]) @ new_runs" "failures' = failures @ new_failures"
        "mset (map rr_source_id new_runs) + mset (map sf_source_id new_failures) = mset (map ss_id specs)" by blast
    have "rr_source_id q = ss_id spec" using run_source_id r Inr by blast
    then show ?thesis using new by (intro exI [of _ "q # new_runs"] exI [of _ new_failures]) simp
  next
    case (Inl x)
    then have "run_selected env dry f specs (runs, failures @ [failure_of spec x]) w1 = ((runs', failures'), w')"
      using Cons.prems r by simp
    from Cons.IH [OF this] obtain new_runs new_failures where
      new: "runs' = runs @ new_runs" "failures' = (failures @ [failure_of spec x]) @ new_failures"
        "mset (map rr_source_id new_runs) + mset (map sf_source_id new_failures) = mset (map ss_id specs)" by blast
    have "sf_source_id (failure_of spec x) = ss_id spec" by (simp add: failure_of_def)
    then show ?thesis using new
      by (intro exI [of _ new_runs] exI [of _ "failure_of spec x # new_failures"]) simp
  qed
qed simp

lemma select_explicit_accounts:
  "select_explicit env w sids = Inr (selected, skipped, refusals) \<Longrightarrow>
     mset (map ss_id selected) + mset (map sf_source_id refusals) = mset sids"
proof (induction sids arbitrary: selected skipped refusals)
  case (Cons sid sids)
  obtain a b c where abc: "select_explicit env w sids = Inr (a, b, c)"
    using Cons.prems by (auto split: option.splits sum.splits)
  have "ss_id (sd_spec d) = sid" if "get_decision (ce_now env w) sid (wl_sources w) = Some d" for d
    using that by (auto simp: get_decision_def get_source_def spec_of_row_def find_Some_iff)
  then show ?case using Cons abc by (auto simp: unknown_source_def split: option.splits if_splits)
qed simp

lemma select_explicit_ok:
  "is_ok (select_explicit env w sids) \<longleftrightarrow> (\<forall>sid \<in> set sids. ce_db_fault env (DbSelect (Some sid)) w = None)"
  by (induction sids) (auto simp: is_ok_def split: option.splits sum.splits)

text \<open>The sources a pass is to run: those named by the operator, each as often as it was named, or those due.\<close>

definition asked_sources :: "'w coord_env \<Rightarrow> int list option \<Rightarrow> 'w world \<Rightarrow> int list" where
  "asked_sources env source_ids w = (case source_ids of Some sids \<Rightarrow> sids
     | None \<Rightarrow> map ss_id (due_sources (ce_now env w) (wl_sources w)))"

definition selection_reads :: "int list option \<Rightarrow> db_use list" where
  "selection_reads source_ids = (case source_ids of None \<Rightarrow> [DbSelect None] | Some sids \<Rightarrow> map (\<lambda>sid. DbSelect (Some sid)) sids)"

lemma select_sources_ok:
  "is_ok (select_sources env source_ids w) \<longleftrightarrow> list_all (\<lambda>u. ce_db_fault env u w = None) (selection_reads source_ids)"
proof (cases source_ids)
  case None
  then show ?thesis by (simp add: select_sources_def selection_reads_def is_ok_def Let_def split: option.split)
next
  case (Some sids)
  then show ?thesis by (simp add: select_sources_def selection_reads_def list_all_iff select_explicit_ok)
qed

lemma select_sources_accounts:
  assumes "select_sources env source_ids w = Inr (selected, skipped, refusals)"
  shows "mset (map ss_id selected) + mset (map sf_source_id refusals) = mset (asked_sources env source_ids w)"
  using assms select_explicit_accounts
  by (auto simp: select_sources_def asked_sources_def due_sources_def Let_def image_mset.compositionality comp_def
      split: option.splits)

text \<open>C13: a pass of the worker ends with a report whenever the sources to run can be read from the database,
  and then every one of them is in the report exactly once, as a run or as a failure, whatever the
  coordinator does for any of them: the sources named by the operator, each as often as it was named, or
  else the sources due at the start of the pass.  A failing source never removes another.  Only a read of
  the selection that fails ends the pass without a report, and then nothing was run.\<close>

theorem worker_isolates_sources:
  assumes pass: "run_once env flusher dry_run source_ids force_run w = (res, w')"
  shows "(is_ok res \<longleftrightarrow> list_all (\<lambda>u. ce_db_fault env u w = None) (selection_reads source_ids))
    \<and> (\<forall>x. res = Inl x \<longrightarrow> w' = w)
    \<and> (\<forall>report. res = Inr report \<longrightarrow>
        mset (map rr_source_id (wr_runs report)) + mset (map sf_source_id (wr_failures report))
          = mset (asked_sources env source_ids w)
        \<and> (worker_succeeded report \<longleftrightarrow> wr_failures report = []
             \<and> list_all (\<lambda>q. rr_status q \<noteq> RFailed) (wr_runs report)))"
proof (cases "select_sources env source_ids w")
  case (Inl x)
  then show ?thesis using pass select_sources_ok [of env source_ids w] by (auto simp: run_once_def is_ok_def)
next
  case (Inr sel3)
  then obtain selected skipped refusals where sel: "select_sources env source_ids w = Inr (selected, skipped, refusals)"
    by (cases sel3) auto
  obtain runs failures w1 where loop: "run_selected env dry_run force_run selected ([], refusals) w = ((runs, failures), w1)"
    by (metis prod.collapse)
  obtain report where report: "res = Inr report" "wr_runs report = runs" "wr_failures report = failures"
    using pass sel loop by (auto simp: run_once_def Let_def)
  have "mset (map rr_source_id runs) + mset (map sf_source_id failures)
      = mset (map ss_id selected) + mset (map sf_source_id refusals)"
    using run_selected_accounts [OF loop] by auto
  then have counts: "mset (map rr_source_id runs) + mset (map sf_source_id failures) = mset (asked_sources env source_ids w)"
    using select_sources_accounts [OF sel] by simp
  have "worker_succeeded report \<longleftrightarrow> failures = [] \<and> list_all (\<lambda>q. rr_status q \<noteq> RFailed) runs"
    by (simp add: worker_succeeded_def worker_failed_def report list_all_iff filter_empty_conv
        add_nonneg_eq_0_iff flip: of_nat_add) blast
  with counts show ?thesis using report select_sources_ok [of env source_ids w] sel by (simp add: is_ok_def)
qed

theorem worker_isolates_sources_witness:
  "\<exists>report w'. run_once (demo_env [] (\<lambda>_. None)) None True (Some [2, 9]) False demo_world = (Inr report, w')
     \<and> mset (map rr_source_id (wr_runs report)) + mset (map sf_source_id (wr_failures report)) = {#2, 9#}
     \<and> length (wr_runs report) = 1"
proof -
  let ?env = "demo_env [] (\<lambda>_. None)"
  have "\<exists>(r :: run_report) v. run_source ?env None 2 True False ''scheduled'' None demo_world = (Inr r, v)"
    by (simp add: run_source_def get_decision_def get_source_def demo_world_def demo_source_def
        decide_def spec_of_row_def demo_env_def execute_run_def Let_def split: prod.split)
  then obtain r :: run_report and v where run: "run_source ?env None 2 True False ''scheduled'' None demo_world = (Inr r, v)"
    by blast
  obtain res w' where pass: "run_once ?env None True (Some [2, 9]) False demo_world = (res, w')" by fastforce
  note fact = worker_isolates_sources [OF this]
  have "list_all (\<lambda>u. ce_db_fault ?env u demo_world = None) (selection_reads (Some [2, 9]))"
    by (simp add: demo_env_def selection_reads_def)
  then obtain report where report: "res = Inr report" using fact by (cases res) (auto simp: is_ok_def)
  obtain d where d: "get_decision 30 2 [demo_source] = Some d" "ss_id (sd_spec d) = 2" "get_decision 30 9 [demo_source] = None"
    by (simp add: get_decision_def get_source_def demo_source_def decide_def spec_of_row_def)
  have "ce_now ?env demo_world = 30" "\<And>u. ce_db_fault ?env u demo_world = None" "wl_sources demo_world = [demo_source]"
    by (simp_all add: demo_env_def demo_world_def)
  then have "wr_runs report = [r]"
    using pass report run d by (auto simp: run_once_def select_sources_def Let_def)
  then show ?thesis using pass report fact by (simp add: asked_sources_def)
qed

end
