(* ===== verification/Alerts.thy ===== *)
theory Alerts
  imports RunState Router Outbox
begin

text \<open>
  Alerts: \<open>audit/alert_manager.py\<close>, \<open>audit/alert_delivery.py\<close> and \<open>audit/health_digest.py\<close> over the rows of
  \<open>db/models/alerts.py\<close>.  The manager writes naive local times; what the database gives back for a
  column declared with a time zone depends on the driver, and is the function \<open>az_load\<close>: the
  identity for SQLite, an aware value for PostgreSQL.  Comparing the two kinds raises \<open>TypeError\<close>.  An
  operation reads its clock once, and each runs in a session of its own.
\<close>

section \<open>Rows, triggers, times\<close>

record alert_event =
  av_id :: int
  av_type :: string
  av_severity :: string
  av_source_id :: "int option"
  av_correlation_id :: "string option"
  av_state :: string
  av_message :: "string option"
  av_first_raised_at :: py_datetime
  av_last_reminded_at :: "py_datetime option"
  av_resolved_at :: "py_datetime option"

definition ALERT_TYPES :: "string list" where
  "ALERT_TYPES = [''source_failed'', ''parser_mismatch'', ''ai_failure'', ''invalid_ai_output'',
     ''budget_80_percent'', ''budget_100_percent'', ''email_all_providers_failed'',
     ''provider_circuit_breaker_opened'', ''daily_health_digest'']"

record alert_trigger =
  ag_alert_type :: string
  ag_severity :: string
  ag_source_id :: "int option"
  ag_correlation_id :: "string option"
  ag_run_id :: "int option"
  ag_tender_id :: "int option"
  ag_message :: string

record 'w alert_env =
  az_load :: "py_datetime \<Rightarrow> py_datetime"
  az_send :: "string \<Rightarrow> string \<Rightarrow> string \<Rightarrow> string option \<Rightarrow> 'w \<Rightarrow> 'w"
  az_reminder_interval :: int

record 'w alert_world =
  ax_alerts :: "alert_event list"
  ax_ext :: 'w

text \<open>\<open>a >= b\<close> and \<open>a + timedelta\<close> on \<open>datetime\<close>.\<close>

fun dt_ge :: "py_datetime \<Rightarrow> py_datetime \<Rightarrow> (string, bool) result" where
  "dt_ge (Naive a) (Naive b) = Inr (a \<ge> b)"
| "dt_ge (Aware a off) (Aware b off') = Inr (a - off \<ge> b - off')"
| "dt_ge _ _ = Inl ''TypeError''"

fun dt_plus :: "py_datetime \<Rightarrow> int \<Rightarrow> py_datetime" where
  "dt_plus (Naive a) d = Naive (a + d)"
| "dt_plus (Aware a off) d = Aware (a + d) off"

section \<open>AlertManager\<close>

definition build_identity_key :: "alert_trigger \<Rightarrow> string" where
  "build_identity_key e = join_with '':'' ([ag_alert_type e]
     @ (case ag_source_id e of None \<Rightarrow> [] | Some s \<Rightarrow> [''source:'' @ int_str s])
     @ (case ag_correlation_id e of None \<Rightarrow> [] | Some c \<Rightarrow> [''corr:'' @ c])
     @ (case ag_tender_id e of None \<Rightarrow> [] | Some t \<Rightarrow> [''tender:'' @ int_str t]))"

text \<open>The query both \<open>_find_open_alert\<close> and \<open>mark_recovered\<close> run: a missing source or correlation id adds no
  condition, and the identity key is not used.\<close>

definition open_match :: "string \<Rightarrow> int option \<Rightarrow> string option \<Rightarrow> alert_event \<Rightarrow> bool" where
  "open_match type_name source_id correlation_id a \<longleftrightarrow> av_type a = type_name \<and> av_state a = ''open''
     \<and> (source_id = None \<or> av_source_id a = source_id) \<and> (correlation_id = None \<or> av_correlation_id a = correlation_id)"

definition find_open_alert :: "alert_trigger \<Rightarrow> alert_event list \<Rightarrow> alert_event option" where
  "find_open_alert e alerts = List.find (open_match (ag_alert_type e) (ag_source_id e) (ag_correlation_id e)) alerts"

definition should_send_reminder :: "'w alert_env \<Rightarrow> py_datetime \<Rightarrow> alert_event \<Rightarrow> (string, bool) result" where
  "should_send_reminder env now a = (case av_last_reminded_at a of
     None \<Rightarrow> dt_ge now (dt_plus (az_load env (av_first_raised_at a)) (az_reminder_interval env))
   | Some t \<Rightarrow> dt_ge now (dt_plus (az_load env t) (az_reminder_interval env)))"

definition deep_link_of :: "alert_trigger \<Rightarrow> string option" where
  "deep_link_of e =
     (if py_truthy (ag_correlation_id e) then Some (''/admin/timeline/'' @ the (ag_correlation_id e))
      else case ag_tender_id e of
        Some t \<Rightarrow> if t \<noteq> 0 then Some (''/admin/tenders/'' @ int_str t @ ''/timeline'')
          else (case ag_run_id e of Some r \<Rightarrow> if r \<noteq> 0 then Some (''/admin/runs/'' @ int_str r) else None | None \<Rightarrow> None)
      | None \<Rightarrow> (case ag_run_id e of Some r \<Rightarrow> if r \<noteq> 0 then Some (''/admin/runs/'' @ int_str r) else None | None \<Rightarrow> None))"

definition deliver_alert :: "'w alert_env \<Rightarrow> alert_trigger \<Rightarrow> bool \<Rightarrow> 'w alert_world \<Rightarrow> 'w alert_world" where
  "deliver_alert env e is_reminder w =
     w\<lparr>ax_ext := az_send env (ag_alert_type e) (ag_severity e)
         (if is_reminder then ''[REMINDER] '' @ ag_message e else ag_message e) (deep_link_of e) (ax_ext w)\<rparr>"

definition next_alert_id :: "alert_event list \<Rightarrow> int" where
  "next_alert_id alerts = fold max (map av_id alerts) 0 + 1"

definition put_alert :: "alert_event \<Rightarrow> alert_event list \<Rightarrow> alert_event list" where
  "put_alert a alerts = map (\<lambda>a'. if av_id a' = av_id a then a else a') alerts"

definition new_alert :: "int \<Rightarrow> py_datetime \<Rightarrow> alert_trigger \<Rightarrow> alert_event" where
  "new_alert i now e = \<lparr>av_id = i, av_type = ag_alert_type e, av_severity = ag_severity e,
     av_source_id = ag_source_id e, av_correlation_id = ag_correlation_id e, av_state = ''open'',
     av_message = Some (ag_message e), av_first_raised_at = now, av_last_reminded_at = None, av_resolved_at = None\<rparr>"

definition trigger :: "'w alert_env \<Rightarrow> py_datetime \<Rightarrow> alert_trigger \<Rightarrow> 'w alert_world
    \<Rightarrow> (string, alert_event) result \<times> 'w alert_world" where
  "trigger env now e w =
     (if ag_alert_type e \<notin> set ALERT_TYPES then (Inl ''ValueError'', w)
      else case find_open_alert e (ax_alerts w) of
        Some a \<Rightarrow> (case should_send_reminder env now a of
            Inl t \<Rightarrow> (Inl t, w)
          | Inr True \<Rightarrow> let a' = a\<lparr>av_last_reminded_at := Some now\<rparr>
              in (Inr a', deliver_alert env e True (w\<lparr>ax_alerts := put_alert a' (ax_alerts w)\<rparr>))
          | Inr False \<Rightarrow> (Inr a, w))
      | None \<Rightarrow> let a = new_alert (next_alert_id (ax_alerts w)) now e
          in (Inr a, deliver_alert env e False (w\<lparr>ax_alerts := ax_alerts w @ [a]\<rparr>)))"

definition mark_recovered :: "'w alert_env \<Rightarrow> py_datetime \<Rightarrow> string \<Rightarrow> int option \<Rightarrow> string option \<Rightarrow> 'w alert_world
    \<Rightarrow> alert_event option \<times> 'w alert_world" where
  "mark_recovered env now type_name source_id correlation_id w =
     (case List.find (open_match type_name source_id correlation_id) (ax_alerts w) of
        None \<Rightarrow> (None, w)
      | Some a \<Rightarrow>
          let alerts = put_alert (a\<lparr>av_state := ''recovered'', av_resolved_at := Some now\<rparr>) (ax_alerts w);
              e = \<lparr>ag_alert_type = type_name @ ''_recovered'', ag_severity = ''info'', ag_source_id = source_id,
                   ag_correlation_id = correlation_id, ag_run_id = None, ag_tender_id = None,
                   ag_message = ''Recovered: '' @ opt_str (av_message a)\<rparr>;
              recovery = new_alert (next_alert_id alerts) now e
          in (Some recovery, deliver_alert env e False (w\<lparr>ax_alerts := alerts @ [recovery]\<rparr>)))"

section \<open>AlertDeliveryAdapter\<close>

text \<open>\<open>str.upper\<close> on the code points 0 to 255, except for the two letters whose upper case is beyond them.\<close>

definition py_upper_char :: "char \<Rightarrow> string" where
  "py_upper_char c = (let n = of_char c :: nat in
     if n = 223 then ''SS''
     else if (97 \<le> n \<and> n \<le> 122) \<or> (224 \<le> n \<and> n \<le> 254 \<and> n \<noteq> 247) then [char_of (n - 32)] else [c])"

definition py_upper :: "string \<Rightarrow> string" where
  "py_upper s = concat (map py_upper_char s)"

record alert_box =
  ab_recipients :: "recipient list"
  ab_outbox :: outbox

definition alert_dedupe_key :: "(string \<Rightarrow> string) \<Rightarrow> string \<Rightarrow> string \<Rightarrow> string" where
  "alert_dedupe_key sha256_hex alert_type message =
     ''alert:'' @ alert_type @ '':'' @ take 32 (sha256_hex message)"

definition opt_json :: "string option \<Rightarrow> json" where
  "opt_json v = (case v of None \<Rightarrow> JNull | Some s \<Rightarrow> JStr s)"

definition alert_body :: "string \<Rightarrow> string \<Rightarrow> string \<Rightarrow> string option \<Rightarrow> string" where
  "alert_body alert_type severity message deep_link = join_with [CHR 0x0A]
     ([''Alert Type: '' @ alert_type, ''Severity: '' @ py_upper severity, [], message]
       @ (if py_truthy deep_link then [[], ''View details: '' @ the deep_link] else []))"

definition queue_alert ::
  "(string \<Rightarrow> string) \<Rightarrow> instant \<Rightarrow> string \<Rightarrow> string \<Rightarrow> string \<Rightarrow> string option \<Rightarrow> alert_box \<Rightarrow> alert_box" where
  "queue_alert sha256_hex now alert_type severity message deep_link box =
     (let devs = filter (\<lambda>r. rc_list_type r = ''dev_alert'' \<and> rc_active r) (ab_recipients box);
          key = alert_dedupe_key sha256_hex alert_type message;
          snapshot = JList (map (\<lambda>r. JObj [(''email'', JStr (rc_email r)), (''name'', JStr (py_or (rc_name r) [])),
              (''delivery'', JStr (py_or (Some (rc_delivery r)) ''to''))]) devs);
          payload = JObj [(''subject'', JStr (''[ALERT] '' @ alert_type)),
              (''body'', JStr (alert_body alert_type severity message deep_link)),
              (''alert_type'', JStr alert_type), (''severity'', JStr severity), (''deep_link'', opt_json deep_link)]
      in if devs = [] then box
         else if get_by_dedupe_key key (ab_outbox box) \<noteq> None then box
         else case create_pending now key None None None snapshot (JList []) (JList []) payload ''alert''
             (if severity = ''critical'' then 10 else 50) (ab_outbox box) of
             Inl _ \<Rightarrow> box
           | Inr (row, ob) \<Rightarrow> box\<lparr>ab_outbox := ob\<rparr>)"

section \<open>Daily health digest\<close>

record digest_failure =
  df_source_id :: int
  df_run_id :: int
  df_failed_stage :: "string option"
  df_error_code :: "string option"
  df_started_at :: string

record health_summary =
  hs_period_start :: instant
  hs_period_end :: instant
  hs_total_runs :: int
  hs_successful_runs :: int
  hs_failed_runs :: int
  hs_source_failures :: "digest_failure list"
  hs_parser_mismatches :: int
  hs_ai_failures :: int
  hs_email_failures :: int
  hs_recovery_events :: int
  hs_new_open_alerts :: int

definition count_if :: "('a \<Rightarrow> bool) \<Rightarrow> 'a list \<Rightarrow> int" where
  "count_if P xs = int (length (filter P xs))"

definition run_failed :: "run_history \<Rightarrow> bool" where
  "run_failed r \<longleftrightarrow> rh_error_count r > 0 \<or> py_truthy (rh_failed_stage r)"

definition build_digest ::
  "(instant \<Rightarrow> string) \<Rightarrow> instant \<Rightarrow> instant \<Rightarrow> run_history list \<Rightarrow> alert_event list \<Rightarrow> outbox \<Rightarrow> health_summary" where
  "build_digest isoformat start end' all_runs all_alerts ob =
     (let runs = filter (\<lambda>r. start \<le> rh_started_at r \<and> rh_started_at r < end') all_runs;
          alerts = filter (\<lambda>a. start \<le> instant_of (av_first_raised_at a) \<and> instant_of (av_first_raised_at a) < end') all_alerts
      in \<lparr>hs_period_start = start, hs_period_end = end', hs_total_runs = int (length runs),
          hs_successful_runs = count_if (\<lambda>r. rh_ended_at r \<noteq> None \<and> rh_error_count r = 0) runs,
          hs_failed_runs = count_if run_failed runs,
          hs_source_failures = map (\<lambda>r. \<lparr>df_source_id = rh_source_id r, df_run_id = rh_id r,
            df_failed_stage = rh_failed_stage r, df_error_code = rh_error_code r,
            df_started_at = isoformat (rh_started_at r)\<rparr>) (filter run_failed runs),
          hs_parser_mismatches = count_if (\<lambda>a. av_type a = ''parser_mismatch'') alerts,
          hs_ai_failures = count_if (\<lambda>a. av_type a \<in> {''ai_failure'', ''invalid_ai_output''}) alerts,
          hs_email_failures = count_if (\<lambda>n. start \<le> nl_created_at n \<and> nl_created_at n < end' \<and> nl_status n = ''failed'')
            (ob_rows ob),
          hs_recovery_events = count_if (\<lambda>a. av_state a = ''recovered'') alerts,
          hs_new_open_alerts = count_if (\<lambda>a. av_state a = ''open'') alerts\<rparr>)"

definition format_digest_text :: "(instant \<Rightarrow> string) \<Rightarrow> health_summary \<Rightarrow> string" where
  "format_digest_text strftime s = join_with [CHR 0x0A]
     ([''Daily Health Digest'', replicate 60 (CHR ''=''),
       ''Period: '' @ strftime (hs_period_start s) @ '' to '' @ strftime (hs_period_end s), [], ''Run Summary:'',
       ''  Total runs: '' @ int_str (hs_total_runs s), ''  Successful: '' @ int_str (hs_successful_runs s),
       ''  Failed: '' @ int_str (hs_failed_runs s), []]
      @ (if hs_source_failures s = [] then []
         else [''Source Failures:''] @ map (\<lambda>f. ''  - Source '' @ int_str (df_source_id f) @ '', Run '' @ int_str (df_run_id f)
               @ '': '' @ opt_str (df_failed_stage f) @ '' ('' @ opt_str (df_error_code f) @ '')'') (take 10 (hs_source_failures s))
           @ (if length (hs_source_failures s) > 10
              then [''  ... and '' @ int_str (int (length (hs_source_failures s)) - 10) @ '' more''] else []) @ [[]])
      @ (if hs_parser_mismatches s > 0 then [''Parser Mismatches: '' @ int_str (hs_parser_mismatches s)] else [])
      @ (if hs_ai_failures s > 0 then [''AI Failures: '' @ int_str (hs_ai_failures s)] else [])
      @ (if hs_email_failures s > 0 then [''Email Failures: '' @ int_str (hs_email_failures s)] else [])
      @ (if hs_recovery_events s > 0 then [CHR 0x0A # ''Recoveries: '' @ int_str (hs_recovery_events s)] else [])
      @ (if hs_new_open_alerts s > 0 then [''New Open Alerts: '' @ int_str (hs_new_open_alerts s)] else [])
      @ [[], ''End of Digest''])"

section \<open>Throttling\<close>

text \<open>A driver that gives naive values back.\<close>

definition naive_store :: "'w alert_env \<Rightarrow> bool" where
  "naive_store env \<longleftrightarrow> (\<forall>t. az_load env (Naive t) = Naive t)"

definition counts_sends :: "('w \<Rightarrow> nat) \<Rightarrow> 'w alert_env \<Rightarrow> bool" where
  "counts_sends n env \<longleftrightarrow> (\<forall>ty sev msg link w. n (az_send env ty sev msg link w) = n w + 1)"

definition trigger_all :: "'w alert_env \<Rightarrow> alert_trigger \<Rightarrow> instant list \<Rightarrow> 'w alert_world \<Rightarrow> 'w alert_world" where
  "trigger_all env e ts w = foldl (\<lambda>w t. snd (trigger env (Naive t) e w)) w ts"

text \<open>The open alert of a trigger, last in its table and last announced at \<open>since\<close>.\<close>

definition pending_alert :: "alert_trigger \<Rightarrow> instant \<Rightarrow> alert_event list \<Rightarrow> alert_event list \<Rightarrow> alert_event \<Rightarrow> bool" where
  "pending_alert e since before alerts a \<longleftrightarrow> alerts = before @ [a] \<and> find_open_alert e alerts = Some a
     \<and> (\<forall>b \<in> set before. av_id b \<noteq> av_id a)
     \<and> (case av_last_reminded_at a of None \<Rightarrow> av_first_raised_at a = Naive since | Some t \<Rightarrow> t = Naive since)"

lemma find_none_append: "List.find P xs = None \<Longrightarrow> List.find P (xs @ [x]) = (if P x then Some x else None)"
  by (simp add: find_append)

lemma next_alert_id_fresh: "b \<in> set alerts \<Longrightarrow> av_id b \<noteq> next_alert_id alerts"
  using fold_max_ge [of "av_id b" "map av_id alerts" 0] by (auto simp: next_alert_id_def)

lemma first_trigger:
  assumes "ag_alert_type e \<in> set ALERT_TYPES" "find_open_alert e (ax_alerts w) = None"
  shows "\<exists>a. pending_alert e t (ax_alerts w) (ax_alerts (snd (trigger env (Naive t) e w))) a
    \<and> ax_ext (snd (trigger env (Naive t) e w)) = az_send env (ag_alert_type e) (ag_severity e) (ag_message e) (deep_link_of e) (ax_ext w)"
proof -
  let ?a = "new_alert (next_alert_id (ax_alerts w)) (Naive t) e"
  have "open_match (ag_alert_type e) (ag_source_id e) (ag_correlation_id e) ?a"
    by (simp add: open_match_def new_alert_def)
  then have "find_open_alert e (ax_alerts w @ [?a]) = Some ?a"
    using assms(2) by (simp add: find_open_alert_def find_none_append)
  then show ?thesis using assms next_alert_id_fresh [of _ "ax_alerts w"]
    by (intro exI [of _ ?a]) (auto simp: trigger_def deliver_alert_def pending_alert_def Let_def new_alert_def)
qed

lemma later_trigger:
  assumes "naive_store env" "ag_alert_type e \<in> set ALERT_TYPES" "pending_alert e since before (ax_alerts w) a"
  shows "(if t \<ge> since + az_reminder_interval env
      then \<exists>a'. pending_alert e t before (ax_alerts (snd (trigger env (Naive t) e w))) a'
        \<and> (\<exists>msg. ax_ext (snd (trigger env (Naive t) e w)) = az_send env (ag_alert_type e) (ag_severity e) msg (deep_link_of e) (ax_ext w))
      else snd (trigger env (Naive t) e w) = w)"
proof -
  have found: "find_open_alert e (ax_alerts w) = Some a" and alerts: "ax_alerts w = before @ [a]"
    and ids: "\<forall>b \<in> set before. av_id b \<noteq> av_id a" using assms(3) by (auto simp: pending_alert_def)
  have due: "should_send_reminder env (Naive t) a = Inr (t \<ge> since + az_reminder_interval env)"
    using assms(1,3) by (auto simp: should_send_reminder_def naive_store_def pending_alert_def split: option.splits)
  show ?thesis
  proof (cases "t \<ge> since + az_reminder_interval env")
    case False
    then show ?thesis using assms(2) found due by (simp add: trigger_def)
  next
    case True
    let ?a = "a\<lparr>av_last_reminded_at := Some (Naive t)\<rparr>"
    have put: "put_alert ?a (before @ [a]) = before @ [?a]"
      using ids by (auto simp: put_alert_def intro: map_idI)
    have prior: "List.find (open_match (ag_alert_type e) (ag_source_id e) (ag_correlation_id e)) before = None"
    proof (cases "List.find (open_match (ag_alert_type e) (ag_source_id e) (ag_correlation_id e)) before")
      case (Some b)
      then have "b = a" using found alerts by (simp add: find_open_alert_def find_append)
      moreover have "b \<in> set before" using Some by (auto simp: find_Some_iff)
      ultimately show ?thesis using ids by blast
    qed
    have "open_match (ag_alert_type e) (ag_source_id e) (ag_correlation_id e) a"
      using found by (auto simp: find_open_alert_def find_Some_iff)
    then have "find_open_alert e (before @ [?a]) = Some ?a"
      using prior by (simp add: find_open_alert_def find_none_append open_match_def)
    then have "pending_alert e t before (before @ [?a]) ?a" using ids by (simp add: pending_alert_def)
    moreover have "trigger env (Naive t) e w = (Inr ?a, deliver_alert env e True (w\<lparr>ax_alerts := before @ [?a]\<rparr>))"
      using assms(2) found due True put by (simp add: trigger_def alerts Let_def)
    ultimately show ?thesis using True by (auto simp: deliver_alert_def)
  qed
qed

text \<open>The instants of the reports that lead to a delivery, and those a throttle lets through: after a delivery
  nothing until the interval has passed.\<close>

fun delivered_at :: "('w \<Rightarrow> nat) \<Rightarrow> 'w alert_env \<Rightarrow> alert_trigger \<Rightarrow> instant list \<Rightarrow> 'w alert_world \<Rightarrow> instant list" where
  "delivered_at n env e [] w = []"
| "delivered_at n env e (t # ts) w =
     (if n (ax_ext (snd (trigger env (Naive t) e w))) = n (ax_ext w) then [] else [t])
     @ delivered_at n env e ts (snd (trigger env (Naive t) e w))"

fun throttled :: "int \<Rightarrow> instant \<Rightarrow> instant list \<Rightarrow> instant list" where
  "throttled gap since [] = []"
| "throttled gap since (t # ts) = (if since + gap \<le> t then t # throttled gap t ts else throttled gap since ts)"

lemma throttled_spaced: "0 \<le> gap \<Longrightarrow> sorted_wrt (\<lambda>a b. a + gap \<le> b) (since # throttled gap since ts)"
proof (induction ts arbitrary: since)
  case (Cons t ts)
  show ?case using Cons.IH [OF Cons.prems, of t] Cons.IH [OF Cons.prems, of since] Cons.prems by force
qed simp

lemma pending_throttled:
  assumes "naive_store env" "ag_alert_type e \<in> set ALERT_TYPES" "counts_sends n env"
  shows "pending_alert e since before (ax_alerts w) a \<Longrightarrow>
     (\<exists>a'. ax_alerts (trigger_all env e ts w) = before @ [a'])
     \<and> delivered_at n env e ts w = throttled (az_reminder_interval env) since ts"
proof (induction ts arbitrary: since w a)
  case Nil
  then show ?case by (simp add: trigger_all_def pending_alert_def)
next
  case (Cons t ts)
  let ?w = "snd (trigger env (Naive t) e w)"
  have step: "trigger_all env e (t # ts) w = trigger_all env e ts ?w" by (simp add: trigger_all_def)
  show ?case
  proof (cases "t \<ge> since + az_reminder_interval env")
    case True
    then obtain a' msg where a': "pending_alert e t before (ax_alerts ?w) a'"
      "ax_ext ?w = az_send env (ag_alert_type e) (ag_severity e) msg (deep_link_of e) (ax_ext w)"
      using later_trigger [OF assms(1,2) Cons.prems, of t] by auto
    then have "n (ax_ext ?w) = n (ax_ext w) + 1" using assms(3) by (simp add: counts_sends_def)
    then show ?thesis using Cons.IH [OF a'(1)] True unfolding step by simp
  next
    case False
    then have "?w = w" using later_trigger [OF assms(1,2) Cons.prems, of t] by simp
    then show ?thesis using Cons.IH [OF Cons.prems] False unfolding step by simp
  qed
qed

text \<open>C26: however often a condition is reported while it lasts, one alert is opened, the first report is
  delivered at once, and of the later ones exactly those are delivered, as reminders, that come at least one
  reminder interval after the delivery before: any two deliveries are an interval apart.  This is for a driver
  that gives naive times back; with aware ones every later report raises.\<close>

theorem alert_reminders_spaced:
  assumes "naive_store env" "counts_sends n env" "0 \<le> az_reminder_interval env"
    and "ag_alert_type e \<in> set ALERT_TYPES" "find_open_alert e (ax_alerts w) = None"
  shows "(\<exists>a. ax_alerts (trigger_all env e (t # ts) w) = ax_alerts w @ [a])
    \<and> delivered_at n env e (t # ts) w = t # throttled (az_reminder_interval env) t ts
    \<and> sorted_wrt (\<lambda>t1 t2. t1 + az_reminder_interval env \<le> t2) (delivered_at n env e (t # ts) w)"
proof -
  let ?w = "snd (trigger env (Naive t) e w)"
  obtain a where a: "pending_alert e t (ax_alerts w) (ax_alerts ?w) a"
    "ax_ext ?w = az_send env (ag_alert_type e) (ag_severity e) (ag_message e) (deep_link_of e) (ax_ext w)"
    using first_trigger [OF assms(4,5)] by blast
  have one: "n (ax_ext ?w) = n (ax_ext w) + 1" using a(2) assms(2) by (simp add: counts_sends_def)
  have step: "trigger_all env e (t # ts) w = trigger_all env e ts ?w" by (simp add: trigger_all_def)
  note later = pending_throttled [OF assms(1,4,2) a(1), of ts]
  have "delivered_at n env e (t # ts) w = t # throttled (az_reminder_interval env) t ts" using later one by simp
  then show ?thesis using later throttled_spaced [OF assms(3), of t ts] unfolding step by simp
qed

definition demo_alert_env :: "(py_datetime \<Rightarrow> py_datetime) \<Rightarrow> nat alert_env" where
  "demo_alert_env load = \<lparr>az_load = load, az_send = (\<lambda>ty sev msg link n. n + 1), az_reminder_interval = usecs 86400\<rparr>"

definition demo_trigger :: alert_trigger where
  "demo_trigger = \<lparr>ag_alert_type = ''source_failed'', ag_severity = ''critical'', ag_source_id = Some 4,
     ag_correlation_id = None, ag_run_id = None, ag_tender_id = None, ag_message = ''down''\<rparr>"

theorem alert_reminders_spaced_witness:
  "delivered_at (\<lambda>n. n) (demo_alert_env id) demo_trigger [0, usecs 60, usecs 90000, usecs 90060] \<lparr>ax_alerts = [], ax_ext = 0\<rparr>
    = [0, usecs 90000]"
proof -
  have "naive_store (demo_alert_env id)" "counts_sends (\<lambda>n. n) (demo_alert_env id)"
    "0 \<le> az_reminder_interval (demo_alert_env id)" "ag_alert_type demo_trigger \<in> set ALERT_TYPES"
    by (simp_all add: naive_store_def counts_sends_def demo_alert_env_def demo_trigger_def ALERT_TYPES_def)
  from alert_reminders_spaced [OF this, of "\<lparr>ax_alerts = [], ax_ext = 0\<rparr>" 0 "[usecs 60, usecs 90000, usecs 90060]"]
  show ?thesis by (simp add: find_open_alert_def demo_alert_env_def)
qed

section \<open>Departures\<close>

text \<open>With a driver that returns aware times for a column with a time zone, every report of a
  condition whose alert is already open raises \<open>TypeError\<close>: nothing is written and no reminder is ever
  delivered.\<close>

lemma aware_store_breaks_reminders:
  assumes "\<forall>t. \<exists>u off. az_load env (Naive t) = Aware u off"
    and "ag_alert_type e \<in> set ALERT_TYPES" "find_open_alert e (ax_alerts w) = None"
  shows "fst (trigger env (Naive t2) e (snd (trigger env (Naive t1) e w))) = Inl ''TypeError''
    \<and> snd (trigger env (Naive t2) e (snd (trigger env (Naive t1) e w))) = snd (trigger env (Naive t1) e w)"
proof -
  let ?w = "snd (trigger env (Naive t1) e w)"
  obtain a where a: "pending_alert e t1 (ax_alerts w) (ax_alerts ?w) a" using first_trigger [OF assms(2,3)] by blast
  then have found: "find_open_alert e (ax_alerts ?w) = Some a" unfolding pending_alert_def by blast
  have "should_send_reminder env (Naive t2) a = Inl ''TypeError''"
  proof (cases "av_last_reminded_at a")
    case None
    obtain u off where "az_load env (Naive t1) = Aware u off" using assms(1) by blast
    then show ?thesis using a None by (simp add: should_send_reminder_def pending_alert_def)
  next
    case (Some x)
    obtain u off where "az_load env (Naive t1) = Aware u off" using assms(1) by blast
    then show ?thesis using a Some by (simp add: should_send_reminder_def pending_alert_def)
  qed
  then have "trigger env (Naive t2) e ?w = (Inl ''TypeError'', ?w)" using assms(2) found unfolding trigger_def by simp
  then show ?thesis by simp
qed

text \<open>The adapter queues a given text of an alert type once and for all: when a row with its key exists,
  sent long ago or not, the same text is never queued again.  Every reminder of an alert has the same
  text, so only the first is ever mailed, and an alert raised again after a recovery with the same
  text is not mailed at all.\<close>

lemma repeated_alert_never_mailed:
  assumes "ab_outbox box1 = ab_outbox (queue_alert sha now1 ty sev1 msg link1 box)"
    and "\<exists>r \<in> set (ab_recipients box). rc_list_type r = ''dev_alert'' \<and> rc_active r"
  shows "(\<exists>row. get_by_dedupe_key (alert_dedupe_key sha ty msg) (ab_outbox box1) = Some row)
    \<and> queue_alert sha now2 ty sev2 msg link2 box1 = box1"
proof -
  let ?key = "alert_dedupe_key sha ty msg"
  have devs: "filter (\<lambda>r. rc_list_type r = ''dev_alert'' \<and> rc_active r) (ab_recipients box) \<noteq> []"
    using assms(2) by (simp add: filter_empty_conv)
  have "get_by_dedupe_key ?key (ab_outbox box1) \<noteq> None"
  proof (cases "get_by_dedupe_key ?key (ab_outbox box)")
    case (Some row)
    then show ?thesis using assms(1) devs by (simp add: queue_alert_def Let_def)
  next
    case None
    have "?key \<noteq> []" by (simp add: alert_dedupe_key_def)
    then show ?thesis using assms(1) devs None
      by (simp add: queue_alert_def Let_def create_pending_def get_by_dedupe_key_def find_none_append)
  qed
  then show ?thesis by (auto simp: queue_alert_def Let_def)
qed

definition demo_dev :: recipient where
  "demo_dev = \<lparr>rc_id = 1, rc_email = ''d@x'', rc_name = None, rc_role = None, rc_list_type = ''dev_alert'',
     rc_delivery = ''to'', rc_source_scope = None, rc_receives_filter = None, rc_alert_types = None,
     rc_min_severity = None, rc_active = True\<rparr>"

text \<open>An open alert of one source hides the same condition without a source, or of another tender: the
  identity keys differ, the query does not look at them.\<close>

lemma identity_ignored:
  assumes "naive_store env" "ag_alert_type e \<in> set ALERT_TYPES" "find_open_alert e (ax_alerts w) = None"
    and "t2 < t1 + az_reminder_interval env"
  shows "snd (trigger env (Naive t2) (e\<lparr>ag_source_id := None, ag_correlation_id := None, ag_tender_id := x\<rparr>)
      (snd (trigger env (Naive t1) e w))) = snd (trigger env (Naive t1) e w)
    \<or> (\<exists>a \<in> set (ax_alerts w). av_type a = ag_alert_type e \<and> av_state a = ''open'')"
proof (cases "\<exists>a \<in> set (ax_alerts w). av_type a = ag_alert_type e \<and> av_state a = ''open''")
  case False
  let ?e = "e\<lparr>ag_source_id := None, ag_correlation_id := None, ag_tender_id := x\<rparr>"
  let ?a = "new_alert (next_alert_id (ax_alerts w)) (Naive t1) e"
  have none: "find_open_alert ?e (ax_alerts w) = None"
    using False by (auto simp: find_open_alert_def find_None_iff open_match_def)
  then have "find_open_alert ?e (ax_alerts w @ [?a]) = Some ?a"
    by (simp add: find_open_alert_def find_none_append open_match_def new_alert_def)
  then have "trigger env (Naive t2) ?e (snd (trigger env (Naive t1) e w)) = (Inr ?a, snd (trigger env (Naive t1) e w))"
    using assms by (simp add: trigger_def deliver_alert_def Let_def should_send_reminder_def new_alert_def naive_store_def)
  then show ?thesis by simp
qed blast

text \<open>A recovery closes one alert and opens one, the recovery itself, which nothing ever closes.\<close>

lemma recovery_stays_open:
  assumes "distinct (map av_id (ax_alerts w))"
  shows "count_if (\<lambda>a. av_state a = ''open'') (ax_alerts (snd (mark_recovered env now ty s c w)))
    = count_if (\<lambda>a. av_state a = ''open'') (ax_alerts w)"
proof (cases "List.find (open_match ty s c) (ax_alerts w)")
  case None
  then show ?thesis by (simp add: mark_recovered_def)
next
  case (Some a)
  then have a: "a \<in> set (ax_alerts w)" "av_state a = ''open''"
    by (auto simp: find_Some_iff open_match_def)
  let ?a = "a\<lparr>av_state := ''recovered'', av_resolved_at := Some now\<rparr>"
  have dec: "count_if (\<lambda>a. av_state a = ''open'') (put_alert ?a as) + 1 = count_if (\<lambda>a. av_state a = ''open'') as"
    if "a \<in> set as" "distinct (map av_id as)" for as
    using that
  proof (induction as)
    case (Cons b bs)
    show ?case
    proof (cases "b = a")
      case True
      then have "\<forall>x \<in> set bs. av_id x \<noteq> av_id a" using Cons.prems(2) by (simp, metis imageI)
      then have "put_alert ?a bs = bs" by (auto simp: put_alert_def intro!: map_idI)
      then show ?thesis using True a(2) by (simp add: put_alert_def count_if_def)
    next
      case False
      then have "a \<in> set bs" "av_id b \<noteq> av_id a" using Cons.prems by auto
      then show ?thesis using Cons by (simp add: put_alert_def count_if_def)
    qed
  qed simp
  show ?thesis using dec [OF a(1) assms] Some
    by (simp add: mark_recovered_def Let_def deliver_alert_def count_if_def new_alert_def)
qed

end
