(* ===== verification/Triage.thy ===== *)
theory Triage
  imports StageBodies
begin

text \<open>
  Stage A triage, \<open>triage/service.py\<close>, over \<open>db/models/triage.py\<close> and the profile, assignment and call
  rows of \<open>db/models/llm.py\<close>: the rules, the model with its retries and its fallback, and the one row
  an evaluation leaves.  The model client, the clock, the sleep, \<open>json\<close> and the printing of floats and
  containers are an environment.  A finite float is its real value, and the conversion of an integer
  to a float keeps the value: the rounding of integers above \<open>2 ^ 53\<close> is left out, the \<open>OverflowError\<close> of
  integers beyond the range of floats is not.  A JSON number is never infinite or not-a-number here; a
  contract value given as text may be.
\<close>

section \<open>Rows, environment, world\<close>

text \<open>What \<open>float\<close> returns, and the integers it cannot convert: those that round to \<open>2 ^ 1024\<close> or more.\<close>

datatype py_float = FFinite real | FPlusInf | FMinusInf | FNaN

fun float_less :: "py_float \<Rightarrow> py_float \<Rightarrow> bool" where
  "float_less (FFinite x) (FFinite y) = (x < y)"
| "float_less (FFinite x) FPlusInf = True"
| "float_less FMinusInf (FFinite y) = True"
| "float_less FMinusInf FPlusInf = True"
| "float_less _ _ = False"

definition float_overflows :: "int \<Rightarrow> bool" where
  "float_overflows n \<longleftrightarrow> 2 ^ 1024 - 2 ^ 970 \<le> \<bar>n\<bar>"

datatype conversion = Converted py_float | Unconvertible | TooLarge

record llm_profile =
  lp_id :: int
  lp_model :: string
  lp_active :: bool
  lp_max_output_tokens :: "int option"
  lp_temperature :: "real option"
  lp_top_p :: "real option"
  lp_reasoning_budget :: "int option"
  lp_enable_thinking :: bool

record llm_role_assignment =
  la_role :: string
  la_profile_id :: int
  la_fallback_profile_id :: "int option"

record llm_usage =
  lu_prompt_tokens :: "int option"
  lu_completion_tokens :: "int option"
  lu_estimated_cost_usd :: "real option"

record llm_response =
  lr_content :: string
  lr_usage :: "llm_usage option"
  lr_raw :: "(string \<times> json) list"

record llm_call =
  lc_correlation_id :: string
  lc_role :: string
  lc_profile_id :: "int option"
  lc_tokens_in :: "int option"
  lc_tokens_out :: "int option"
  lc_latency_ms :: "int option"
  lc_est_cost :: "real option"
  lc_status :: string
  lc_error_code :: "string option"
  lc_request_config :: json

record triage_result_row =
  tq_id :: int
  tq_tender_id :: int
  tq_run_id :: "int option"
  tq_correlation_id :: string
  tq_status :: string
  tq_score :: "real option"
  tq_mode :: string
  tq_reasons :: "string list"
  tq_llm_profile_id :: "int option"
  tq_model :: "string option"
  tq_error_code :: "string option"

record triage_settings =
  tg_triage_rules :: "json option"
  tg_triage_threshold :: "real option"

datatype chat_exn = LLMError string | ChatRaised string

record 'w triage_env =
  te_settings :: "triage_settings option"
  te_assignments :: "llm_role_assignment list"
  te_profiles :: "llm_profile list"
  te_chat :: "(llm_profile \<Rightarrow> (string \<times> string) list \<Rightarrow> 'w \<Rightarrow> (chat_exn, llm_response) result \<times> 'w) option"
  te_json_loads :: "string \<Rightarrow> json option"
  te_json_dumps :: "json \<Rightarrow> string"
  te_str_other :: "json \<Rightarrow> string"
  te_float_of_str :: "string \<Rightarrow> py_float option"
  te_clock :: "'w \<Rightarrow> real"
  te_sleep :: "real \<Rightarrow> 'w \<Rightarrow> 'w"
  te_run_id :: "int option"

record 'w triage_world =
  tw_tenders :: "tender list"
  tw_results :: "triage_result_row list"
  tw_calls :: "llm_call list"
  tw_ext :: 'w

definition TRIAGE_STATUSES :: "string list" where
  "TRIAGE_STATUSES = [''passed'', ''triage_discarded'', ''triage_failed'']"

abbreviation "TPASS \<equiv> ''passed''"
abbreviation "TDISCARDED \<equiv> ''triage_discarded''"
abbreviation "TFAILED \<equiv> ''triage_failed''"

text \<open>\<open>TriageDecision\<close>, \<open>_RuleDecision\<close> and what an evaluation can raise: \<open>TriageError\<close> with its code, and the
  \<open>OverflowError\<close> of an integer beyond the range of floats, which nothing in the service catches outside
  the attempts at the model.\<close>

record stage_a_decision =
  sa_tender_id :: int
  sa_correlation_id :: string
  sa_run_id :: "int option"
  sa_status :: string
  sa_score :: "real option"
  sa_mode :: string
  sa_reasons :: "string list"
  sa_result_id :: int
  sa_llm_profile_id :: "int option"
  sa_model :: "string option"
  sa_error_code :: "string option"

definition proceeds_to_verdict :: "stage_a_decision \<Rightarrow> bool" where
  "proceeds_to_verdict d = (sa_status d = TPASS)"

record rule_decision =
  ru_status :: string
  ru_score :: "real option"
  ru_reasons :: "string list"

datatype triage_error = TriageError string string | OverflowRaised

section \<open>Configuration\<close>

definition keyword_keys :: "string list" where
  "keyword_keys = [''include_keywords'', ''exclude_keywords'', ''target_sectors'', ''target_regions'']"

fun valid_keywords :: "json \<Rightarrow> bool" where
  "valid_keywords JNull = True"
| "valid_keywords (JList items) = list_all (\<lambda>i. case i of JStr s \<Rightarrow> py_strip s \<noteq> [] | _ \<Rightarrow> False) items"
| "valid_keywords _ = False"

fun valid_number :: "json \<Rightarrow> (triage_error, bool) result" where
  \<comment> \<open>\<open>math.isfinite\<close> converts an integer to a float\<close>
  "valid_number JNull = Inr True"
| "valid_number (JInt n) = (if float_overflows n then Inl OverflowRaised else Inr True)"
| "valid_number (JFloat _) = Inr True"
| "valid_number _ = Inr False"

definition triage_rules :: "'w triage_env \<Rightarrow> (triage_error, (string \<times> json) list \<times> real option) result" where
  \<comment> \<open>\<open>_rules\<close>\<close>
  "triage_rules env = (case te_settings env of None \<Rightarrow> Inr ([], None)
   | Some s \<Rightarrow>
      (let raw = (case tg_triage_rules s of None \<Rightarrow> JNull | Some j \<Rightarrow> j);
           invalid = Inl (TriageError ''invalid triage rules configuration'' ''triage_invalid_config'');
           checked = (\<lambda>rules. if \<not> list_all (\<lambda>k. valid_keywords (obj_get rules k)) keyword_keys then invalid
             else case valid_number (obj_get rules ''minimum_contract_value'') of
               Inl e \<Rightarrow> Inl e
             | Inr ok \<Rightarrow> if ok then Inr (rules, tg_triage_threshold s) else invalid)
       in case raw of JNull \<Rightarrow> checked [] | JObj rules \<Rightarrow> checked rules | _ \<Rightarrow> invalid))"

section \<open>Rules\<close>

text \<open>\<open>str.casefold\<close> on the code points 0 to 255, but for the micro sign, whose folding is beyond them.\<close>

definition casefold_char :: "char \<Rightarrow> string" where
  "casefold_char c = (if (of_char c :: nat) = 223 then ''ss'' else [py_lower_char c])"

definition casefold :: "string \<Rightarrow> string" where
  "casefold s = concat (map casefold_char s)"

fun json_str :: "'w triage_env \<Rightarrow> json \<Rightarrow> string" where
  "json_str env (JStr s) = s"
| "json_str env (JInt n) = int_str n"
| "json_str env (JBool b) = (if b then ''True'' else ''False'')"
| "json_str env JNull = ''None''"
| "json_str env j = te_str_other env j"

fun is_scalar :: "json \<Rightarrow> bool" where
  \<comment> \<open>\<open>isinstance(value, (str, int, float))\<close>: a \<open>bool\<close> is an \<open>int\<close>\<close>
  "is_scalar (JStr _) = True"
| "is_scalar (JInt _) = True"
| "is_scalar (JFloat _) = True"
| "is_scalar (JBool _) = True"
| "is_scalar _ = False"

definition rule_strings :: "'w triage_env \<Rightarrow> json \<Rightarrow> string list" where
  \<comment> \<open>\<open>_strings\<close>\<close>
  "rule_strings env value' = (case value' of
     JList items \<Rightarrow> map (\<lambda>s. py_lower (py_strip s)) (filter (\<lambda>s. py_strip s \<noteq> []) (map (json_str env) items))
   | _ \<Rightarrow> [])"

definition public_metadata :: "(string \<times> json) list \<Rightarrow> (string \<times> json) list" where
  "public_metadata metadata = filter (\<lambda>(k, v). k \<in> {''source_name'', ''sector'', ''region'', ''contract_value'', ''notice_text''}) metadata"

definition text_values :: "'w triage_env \<Rightarrow> (string \<times> json) list \<Rightarrow> string list" where
  "text_values env metadata = map (\<lambda>(k, v). json_str env v) (filter (\<lambda>(k, v). is_scalar v) metadata)"

definition tender_metadata :: "tender \<Rightarrow> (string \<times> json) list" where
  "tender_metadata t = public_metadata (case tn_raw_metadata t of None \<Rightarrow> [] | Some m \<Rightarrow> m)"

definition tender_text :: "'w triage_env \<Rightarrow> tender \<Rightarrow> string" where
  "tender_text env t = casefold (join_with '' '' (tn_title t # text_values env (tender_metadata t)))"

definition discard :: "string \<Rightarrow> rule_decision" where
  "discard reason = \<lparr>ru_status = TDISCARDED, ru_score = None, ru_reasons = [reason]\<rparr>"

text \<open>One pass of the loop over sectors and regions: a reason to discard, or the reasons so far.\<close>

definition match_target ::
  "'w triage_env \<Rightarrow> tender \<Rightarrow> (string \<times> json) list \<Rightarrow> string \<times> string \<Rightarrow> string list \<Rightarrow> (string, string list) result" where
  "match_target env t rules = (\<lambda>(key, reason) reasons.
     (let targets = rule_strings env (obj_get rules key);
          metadata = tender_metadata t;
          candidate = casefold (case map_of metadata reason of None \<Rightarrow> [] | Some v \<Rightarrow> json_str env v)
      in if targets = [] then Inr reasons
         else if candidate = [] \<or> \<not> list_ex (\<lambda>v. contains v candidate \<or> contains v (tender_text env t)) targets
         then Inl (reason @ ''_outside_target'')
         else Inr (reasons @ [reason @ ''_target_match''])))"

fun contract_number :: "'w triage_env \<Rightarrow> json \<Rightarrow> conversion" where
  \<comment> \<open>\<open>float(raw)\<close>; \<open>Unconvertible\<close> is its \<open>TypeError\<close> or \<open>ValueError\<close>, \<open>TooLarge\<close> its \<open>OverflowError\<close>\<close>
  "contract_number env (JInt n) = (if float_overflows n then TooLarge else Converted (FFinite (of_int n)))"
| "contract_number env (JFloat x) = Converted (FFinite x)"
| "contract_number env (JBool b) = Converted (FFinite (if b then 1 else 0))"
| "contract_number env (JStr s) = (case te_float_of_str env s of None \<Rightarrow> Unconvertible | Some x \<Rightarrow> Converted x)"
| "contract_number env _ = Unconvertible"

definition evaluate_rules :: "'w triage_env \<Rightarrow> tender \<Rightarrow> (string \<times> json) list \<Rightarrow> (triage_error, rule_decision) result" where
  "evaluate_rules env t rules =
     (let text' = tender_text env t in
      if list_ex (\<lambda>v. contains v text') (rule_strings env (obj_get rules ''exclude_keywords''))
      then Inr (discard ''exclude_keyword'')
      else
        let reasons = (if list_ex (\<lambda>v. contains v text') (rule_strings env (obj_get rules ''include_keywords''))
              then [''include_keyword''] else [])
        in case bind_result (match_target env t rules (''target_sectors'', ''sector'') reasons)
               (match_target env t rules (''target_regions'', ''region'')) of
          Inl reason \<Rightarrow> Inr (discard reason)
        | Inr reasons \<Rightarrow>
          let minimum = obj_get rules ''minimum_contract_value'';
              finish = (\<lambda>rs. Inr \<lparr>ru_status = TPASS, ru_score = None, ru_reasons = (if rs = [] then [''no_rule_disqualifier''] else rs)\<rparr>)
          in if minimum = JNull then finish reasons
             else case contract_number env (obj_get (tender_metadata t) ''contract_value'') of
                 TooLarge \<Rightarrow> Inl OverflowRaised
               | Unconvertible \<Rightarrow> finish (reasons @ [''contract_value_unavailable''])
               | Converted v \<Rightarrow> (case contract_number env minimum of
                     TooLarge \<Rightarrow> Inl OverflowRaised
                   | Unconvertible \<Rightarrow> finish (reasons @ [''contract_value_unavailable''])
                   | Converted m \<Rightarrow> if float_less v m then Inr (discard ''contract_value_below_minimum'')
                       else finish (reasons @ [''contract_value_meets_minimum''])))"

section \<open>The model\<close>

definition model_messages :: "'w triage_env \<Rightarrow> tender \<Rightarrow> rule_decision \<Rightarrow> (string \<times> string) list" where
  "model_messages env t rd =
     [(''system'', ''Classify this public tender notice for relevance. Return only JSON with '' @ [CHR 0x22]
         @ ''decision'' @ [CHR 0x22] @ '' set to '' @ [CHR 0x22] @ ''pass'' @ [CHR 0x22] @ '' or '' @ [CHR 0x22]
         @ ''discard'' @ [CHR 0x22] @ '', and optional numeric '' @ [CHR 0x22] @ ''score'' @ [CHR 0x22] @ ''.''),
      (''user'', te_json_dumps env (JObj [(''title'', JStr (tn_title t)),
         (''source_metadata'', JObj (filter (\<lambda>(k, v). is_scalar v) (tender_metadata t))),
         (''rule_score'', (case ru_score rd of None \<Rightarrow> JNull | Some x \<Rightarrow> JFloat x))]))]"

text \<open>\<open>_parse_model_response\<close>: a decision that is a list or an object cannot be looked up in a set and
  raises \<open>TypeError\<close>, an integer score beyond the range of floats \<open>OverflowError\<close>: the \<open>Inl None\<close> here.\<close>

definition parse_model_response :: "'w triage_env \<Rightarrow> string \<Rightarrow> (triage_error option, string \<times> real option) result" where
  "parse_model_response env content =
     (let invalid = (\<lambda>m. Inl (Some (TriageError m ''triage_invalid_output''))) in
      case te_json_loads env content of
        Some (JObj d) \<Rightarrow>
          (case obj_get d ''decision'' of
             JStr s \<Rightarrow>
               if s \<notin> {''pass'', ''discard''} then invalid ''triage model returned invalid decision''
               else (case obj_get d ''score'' of
                   JNull \<Rightarrow> Inr (s, None)
                 | JInt n \<Rightarrow> if float_overflows n then Inl None else Inr (s, Some (of_int n))
                 | JFloat x \<Rightarrow> Inr (s, Some x)
                 | _ \<Rightarrow> invalid ''triage model returned invalid score'')
           | JList _ \<Rightarrow> Inl None
           | JObj _ \<Rightarrow> Inl None
           | _ \<Rightarrow> invalid ''triage model returned invalid decision'')
      | None \<Rightarrow> invalid ''triage model returned invalid JSON''
      | Some _ \<Rightarrow> invalid ''triage model returned invalid decision'')"

text \<open>\<open>round\<close> of Python, half to even.\<close>

definition py_round :: "real \<Rightarrow> int" where
  "py_round x = (let f = \<lfloor>x\<rfloor>; d = x - of_int f in
     if d < 1/2 then f else if d > 1/2 then f + 1 else if even f then f else f + 1)"

definition triage_elapsed_ms :: "real \<Rightarrow> real \<Rightarrow> int" where
  "triage_elapsed_ms started ended = max 0 (py_round ((ended - started) * 1000))"

definition opt_int_json :: "int option \<Rightarrow> json" where
  "opt_int_json v = (case v of None \<Rightarrow> JNull | Some n \<Rightarrow> JInt n)"

definition opt_real_json :: "real option \<Rightarrow> json" where
  "opt_real_json v = (case v of None \<Rightarrow> JNull | Some x \<Rightarrow> JFloat x)"

definition record_call ::
  "tender \<Rightarrow> llm_profile \<Rightarrow> string \<Rightarrow> string option \<Rightarrow> int \<Rightarrow> llm_usage option \<Rightarrow> json \<Rightarrow> 'w triage_world \<Rightarrow> 'w triage_world" where
  "record_call t p status error_code duration usage request_config w =
     w\<lparr>tw_calls := tw_calls w @ [\<lparr>lc_correlation_id = tn_correlation_id t, lc_role = ''triage'',
        lc_profile_id = Some (lp_id p), lc_tokens_in = Option.bind usage lu_prompt_tokens,
        lc_tokens_out = Option.bind usage lu_completion_tokens, lc_latency_ms = Some duration,
        lc_est_cost = Option.bind usage lu_estimated_cost_usd, lc_status = status, lc_error_code = error_code,
        lc_request_config = (if json_truthy request_config then request_config
          else JObj [(''temperature'', opt_real_json (lp_temperature p)), (''top_p'', opt_real_json (lp_top_p p)),
            (''max_tokens'', opt_int_json (lp_max_output_tokens p)), (''enable_thinking'', JBool (lp_enable_thinking p)),
            (''reasoning_budget'', opt_int_json (lp_reasoning_budget p))])\<rparr>]\<rparr>"

definition DEFAULT_MODEL_RETRIES :: nat where
  "DEFAULT_MODEL_RETRIES = 2"

definition transient :: "string \<Rightarrow> bool" where
  "transient code \<longleftrightarrow> code \<in> {AI_CALL_TIMEOUT, ''provider_unreachable'', ''timeout_before_http_response''}"

text \<open>How the attempts at one candidate end: with an answer, with a failure that ends the evaluation, or
  with a transient error after the last retry.\<close>

datatype candidate_end = Answered string "real option" "real option" | Stopped string | Exhausted string

definition judge_response :: "'w triage_env \<Rightarrow> llm_response \<Rightarrow> (string, string \<times> real option \<times> real option) result" where
  "judge_response env r = (case parse_model_response env (lr_content r) of
     Inl None \<Rightarrow> Inl AI_CALL_TIMEOUT
   | Inl (Some (TriageError _ code)) \<Rightarrow> Inl code
   | Inl (Some OverflowRaised) \<Rightarrow> Inl AI_CALL_TIMEOUT
   | Inr (decision, score) \<Rightarrow> (case triage_rules env of
       Inl (TriageError _ code) \<Rightarrow> Inl code
     | Inl OverflowRaised \<Rightarrow> Inl AI_CALL_TIMEOUT
     | Inr (_, threshold) \<Rightarrow>
         if threshold \<noteq> None \<and> score = None then Inl ''triage_missing_score'' else Inr (decision, score, threshold)))"

fun try_candidate ::
  "'w triage_env \<Rightarrow> (llm_profile \<Rightarrow> (string \<times> string) list \<Rightarrow> 'w \<Rightarrow> (chat_exn, llm_response) result \<times> 'w)
     \<Rightarrow> tender \<Rightarrow> rule_decision \<Rightarrow> llm_profile \<Rightarrow> nat list \<Rightarrow> 'w triage_world \<Rightarrow> candidate_end \<times> 'w triage_world" where
  "try_candidate env chat t rd p [] w = (Exhausted AI_CALL_TIMEOUT, w)"
| "try_candidate env chat t rd p (retry # retries) w =
     (let started = te_clock env (tw_ext w);
          (got, ext) = chat p (model_messages env t rd) (tw_ext w);
          duration = triage_elapsed_ms started (te_clock env ext);
          w1 = w\<lparr>tw_ext := ext\<rparr>
      in case got of
          Inl (ChatRaised _) \<Rightarrow>
            (Stopped AI_CALL_TIMEOUT, record_call t p ''failed'' (Some AI_CALL_TIMEOUT) duration None JNull w1)
        | Inl (LLMError code) \<Rightarrow>
            (let w2 = record_call t p ''failed'' (Some code) duration None JNull w1 in
             if transient code \<and> retry < DEFAULT_MODEL_RETRIES
             then try_candidate env chat t rd p retries (w2\<lparr>tw_ext := te_sleep env (1/4 * 2 ^ retry) (tw_ext w2)\<rparr>)
             else if transient code then (Exhausted code, w2)
             else (Stopped code, w2))
        | Inr r \<Rightarrow> (case judge_response env r of
            Inl code \<Rightarrow> (Stopped code, record_call t p ''failed'' (Some code) duration None JNull w1)
          | Inr (decision, score, threshold) \<Rightarrow>
              (Answered decision score threshold,
               record_call t p ''success'' None duration (lr_usage r) (obj_get (lr_raw r) ''request_config'') w1)))"

text \<open>The loop over the candidates: the end of the last one tried, with its profile.\<close>

fun try_candidates ::
  "'w triage_env \<Rightarrow> (llm_profile \<Rightarrow> (string \<times> string) list \<Rightarrow> 'w \<Rightarrow> (chat_exn, llm_response) result \<times> 'w)
     \<Rightarrow> tender \<Rightarrow> rule_decision \<Rightarrow> llm_profile \<Rightarrow> llm_profile list \<Rightarrow> 'w triage_world
     \<Rightarrow> (candidate_end \<times> llm_profile) \<times> 'w triage_world" where
  "try_candidates env chat t rd p ps w =
     (case try_candidate env chat t rd p [0..<DEFAULT_MODEL_RETRIES + 1] w of
        (Exhausted code, w1) \<Rightarrow>
          (case ps of [] \<Rightarrow> ((Exhausted code, p), w1) | q # qs \<Rightarrow> try_candidates env chat t rd q qs w1)
      | (ended, w1) \<Rightarrow> ((ended, p), w1))"

section \<open>Persistence and evaluation\<close>

definition next_result_id :: "triage_result_row list \<Rightarrow> int" where
  "next_result_id rows = fold max (map tq_id rows) 0 + 1"

definition persist_result ::
  "'w triage_env \<Rightarrow> tender \<Rightarrow> rule_decision \<Rightarrow> string \<Rightarrow> llm_profile option \<Rightarrow> string option \<Rightarrow> 'w triage_world
     \<Rightarrow> stage_a_decision \<times> 'w triage_world" where
  "persist_result env t rd mode profile error_code w =
     (let i = next_result_id (tw_results w);
          row = \<lparr>tq_id = i, tq_tender_id = tn_id t, tq_run_id = te_run_id env, tq_correlation_id = tn_correlation_id t,
             tq_status = ru_status rd, tq_score = ru_score rd, tq_mode = mode, tq_reasons = ru_reasons rd,
             tq_llm_profile_id = map_option lp_id profile, tq_model = map_option lp_model profile,
             tq_error_code = error_code\<rparr>
      in (\<lparr>sa_tender_id = tn_id t, sa_correlation_id = tn_correlation_id t, sa_run_id = te_run_id env,
           sa_status = ru_status rd, sa_score = ru_score rd, sa_mode = mode, sa_reasons = ru_reasons rd,
           sa_result_id = i, sa_llm_profile_id = map_option lp_id profile, sa_model = map_option lp_model profile,
           sa_error_code = error_code\<rparr>, w\<lparr>tw_results := tw_results w @ [row]\<rparr>))"

definition persist_failure ::
  "'w triage_env \<Rightarrow> tender \<Rightarrow> string \<Rightarrow> string \<Rightarrow> llm_profile option \<Rightarrow> 'w triage_world \<Rightarrow> stage_a_decision \<times> 'w triage_world" where
  "persist_failure env t mode error_code profile w =
     persist_result env t \<lparr>ru_status = TFAILED, ru_score = None, ru_reasons = [''evaluation_failed'']\<rparr> mode profile
       (Some error_code) w"

definition model_decision :: "string \<Rightarrow> real option \<Rightarrow> real option \<Rightarrow> rule_decision" where
  "model_decision decision score threshold =
     \<lparr>ru_status = (if decision = ''discard''
          \<or> (case threshold of None \<Rightarrow> False | Some m \<Rightarrow> (case score of None \<Rightarrow> False | Some x \<Rightarrow> x < m))
        then TDISCARDED else TPASS),
      ru_score = score, ru_reasons = [if decision = ''pass'' then ''model_pass'' else ''model_discard'']\<rparr>"

definition evaluate_model ::
  "'w triage_env \<Rightarrow> (llm_profile \<Rightarrow> (string \<times> string) list \<Rightarrow> 'w \<Rightarrow> (chat_exn, llm_response) result \<times> 'w)
     \<Rightarrow> tender \<Rightarrow> llm_profile \<Rightarrow> rule_decision \<Rightarrow> llm_profile option \<Rightarrow> 'w triage_world \<Rightarrow> stage_a_decision \<times> 'w triage_world" where
  "evaluate_model env chat t p rd fallback w =
     (case try_candidates env chat t rd p (case fallback of None \<Rightarrow> [] | Some f \<Rightarrow> [f]) w of
        ((Answered decision score threshold, q), w1) \<Rightarrow>
          persist_result env t (model_decision decision score threshold) ''model'' (Some q) None w1
      | ((Stopped code, q), w1) \<Rightarrow> persist_failure env t ''model'' code (Some q) w1
      | ((Exhausted code, q), w1) \<Rightarrow> persist_failure env t ''model'' code (Some q) w1)"

definition get_profile :: "int \<Rightarrow> llm_profile list \<Rightarrow> llm_profile option" where
  "get_profile i ps = List.find (\<lambda>p. lp_id p = i) ps"

definition usable_fallback :: "'w triage_env \<Rightarrow> llm_role_assignment \<Rightarrow> llm_profile \<Rightarrow> llm_profile option" where
  "usable_fallback env a p = (case Option.bind (la_fallback_profile_id a) (\<lambda>i. get_profile i (te_profiles env)) of
     None \<Rightarrow> None | Some f \<Rightarrow> if \<not> lp_active f \<or> lp_id f = lp_id p then None else Some f)"

definition triage_decide ::
  "'w triage_env \<Rightarrow> tender \<Rightarrow> rule_decision \<Rightarrow> 'w triage_world \<Rightarrow> stage_a_decision \<times> 'w triage_world" where
  "triage_decide env t rd w =
     (case List.find (\<lambda>a. la_role a = ''triage'') (te_assignments env) of
        None \<Rightarrow> persist_result env t rd ''rules'' None None w
      | Some a \<Rightarrow> (case te_chat env of
          None \<Rightarrow> persist_failure env t ''model'' ''triage_client_unavailable'' None w
        | Some chat \<Rightarrow> (case get_profile (la_profile_id a) (te_profiles env) of
            None \<Rightarrow> persist_failure env t ''model'' ''triage_profile_unavailable'' None w
          | Some p \<Rightarrow> if \<not> lp_active p then persist_failure env t ''model'' ''triage_profile_unavailable'' None w
              else evaluate_model env chat t p rd (usable_fallback env a p) w)))"

definition triage_evaluate ::
  "'w triage_env \<Rightarrow> int \<Rightarrow> 'w triage_world \<Rightarrow> (triage_error, stage_a_decision) result \<times> 'w triage_world" where
  "triage_evaluate env tender_id w = (case List.find (\<lambda>t. tn_id t = tender_id) (tw_tenders w) of
     None \<Rightarrow> (Inl (TriageError (''unknown tender '' @ int_str tender_id) ''triage_tender_not_found''), w)
   | Some t \<Rightarrow> (case triage_rules env of
       Inl OverflowRaised \<Rightarrow> (Inl OverflowRaised, w)
     | Inl (TriageError _ code) \<Rightarrow> map_prod Inr id (persist_failure env t ''rules'' code None w)
     | Inr (rules, threshold) \<Rightarrow> (case evaluate_rules env t rules of
         Inl e \<Rightarrow> (Inl e, w)
       | Inr rd \<Rightarrow> map_prod Inr id (triage_decide env t rd w))))"

text \<open>The service as the coordinator calls it.\<close>

definition triage_stage :: "'v triage_env \<Rightarrow> int \<Rightarrow> ('v triage_world world, triage_decision) action" where
  "triage_stage env tender_id w = (case triage_evaluate env tender_id (wl_ext w) of
     (Inl (TriageError m code), v) \<Rightarrow>
       (Inl \<lparr>ex_type = ''TriageError'', ex_code = Some code, ex_message = Some m\<rparr>, w\<lparr>wl_ext := v\<rparr>)
   | (Inl OverflowRaised, v) \<Rightarrow>
       (Inl \<lparr>ex_type = ''OverflowError'', ex_code = None, ex_message = Some ''int too large to convert to float''\<rparr>, w\<lparr>wl_ext := v\<rparr>)
   | (Inr d, v) \<Rightarrow> (Inr \<lparr>tr_tender_id = sa_tender_id d, tr_correlation_id = sa_correlation_id d,
       tr_status = sa_status d, tr_error_code = sa_error_code d\<rparr>, w\<lparr>wl_ext := v\<rparr>))"

end
