(* ===== verification/TriageProps.thy ===== *)
theory TriageProps
  imports Triage
begin

text \<open>
  What a triage evaluation leaves: exactly one result row that says what the returned decision says, at
  most three requests per profile and one call row for each, and a pass only on the word of the rules
  or of a valid model answer.
\<close>

section \<open>Requests and call rows\<close>

definition counts_chats :: "('w \<Rightarrow> nat) \<Rightarrow> 'w triage_env \<Rightarrow> bool" where
  "counts_chats n env \<longleftrightarrow> (\<forall>chat p ms w. te_chat env = Some chat \<longrightarrow> n (snd (chat p ms w)) = n w + 1)
     \<and> (\<forall>s w. n (te_sleep env s w) = n w)"

text \<open>Between two worlds of one evaluation only calls are added, one for each request, at most \<open>k\<close>.\<close>

definition only_calls :: "('w \<Rightarrow> nat) \<Rightarrow> nat \<Rightarrow> 'w triage_world \<Rightarrow> 'w triage_world \<Rightarrow> bool" where
  "only_calls n k w w' \<longleftrightarrow> tw_tenders w' = tw_tenders w \<and> tw_results w' = tw_results w
     \<and> (\<exists>new. tw_calls w' = tw_calls w @ new \<and> length new \<le> k \<and> n (tw_ext w') = n (tw_ext w) + length new
          \<and> (\<forall>c \<in> set new. lc_role c = ''triage''))"

lemma only_calls_refl [simp]: "only_calls n k w w"
  by (simp add: only_calls_def)

lemma only_calls_trans: "only_calls n j w w1 \<Longrightarrow> only_calls n k w1 w2 \<Longrightarrow> only_calls n (j + k) w w2"
  by (fastforce simp: only_calls_def)

lemma only_calls_mono: "only_calls n j w w' \<Longrightarrow> j \<le> k \<Longrightarrow> only_calls n k w w'"
  by (fastforce simp: only_calls_def)

lemma record_call_simps [simp]:
  "tw_tenders (record_call t p s e d u c w) = tw_tenders w" "tw_results (record_call t p s e d u c w) = tw_results w"
  "tw_ext (record_call t p s e d u c w) = tw_ext w"
  by (simp_all add: record_call_def)

lemma one_request:
  assumes "n (snd (chat p ms (tw_ext w))) = n (tw_ext w) + 1" "chat p ms (tw_ext w) = (got, ext)"
  shows "only_calls n 1 w (record_call t p s e d u c (w\<lparr>tw_ext := ext\<rparr>))"
  using assms by (auto simp: only_calls_def record_call_def)

definition good_answer ::
  "'w triage_env \<Rightarrow> (llm_profile \<Rightarrow> (string \<times> string) list \<Rightarrow> 'w \<Rightarrow> (chat_exn, llm_response) result \<times> 'w)
     \<Rightarrow> tender \<Rightarrow> rule_decision \<Rightarrow> llm_profile \<Rightarrow> string \<Rightarrow> real option \<Rightarrow> real option \<Rightarrow> bool" where
  "good_answer env chat t rd p decision score threshold \<longleftrightarrow>
     (\<exists>v v' r. chat p (model_messages env t rd) v = (Inr r, v') \<and> judge_response env r = Inr (decision, score, threshold))"

lemma try_candidate_spec:
  assumes "counts_chats n env" "te_chat env = Some chat"
  shows "try_candidate env chat t rd p retries w = (ended, w') \<Longrightarrow>
     only_calls n (length retries) w w'
     \<and> (\<forall>d s th. ended = Answered d s th \<longrightarrow> good_answer env chat t rd p d s th)"
proof (induction retries arbitrary: w)
  case Nil
  then show ?case by auto
next
  case (Cons retry retries)
  obtain got ext where got: "chat p (model_messages env t rd) (tw_ext w) = (got, ext)" by fastforce
  have one: "n (snd (chat p (model_messages env t rd) (tw_ext w))) = n (tw_ext w) + 1"
    using assms by (simp add: counts_chats_def)
  note req = one_request [of n chat p "model_messages env t rd" w got ext t, OF one got]
  let ?dur = "triage_elapsed_ms (te_clock env (tw_ext w)) (te_clock env ext)"
  have le: "only_calls n (length (retry # retries)) w (record_call t p s e ?dur u c (w\<lparr>tw_ext := ext\<rparr>))" for s e u c
    by (rule only_calls_mono [OF req]) simp
  show ?case
  proof (cases got)
    case (Inr r)
    show ?thesis
    proof (cases "judge_response env r")
      case (Inl code)
      then show ?thesis using Cons.prems got \<open>got = Inr r\<close> le by auto
    next
      case (Inr a)
      then obtain d s th where "judge_response env r = Inr (d, s, th)" by (cases a) auto
      then show ?thesis using Cons.prems got \<open>got = Inr r\<close> le unfolding good_answer_def by auto
    qed
  next
    case (Inl e)
    show ?thesis
    proof (cases e)
      case (ChatRaised m)
      then show ?thesis using Cons.prems got Inl le by auto
    next
      case (LLMError code)
      let ?w2 = "record_call t p ''failed'' (Some code) ?dur None JNull (w\<lparr>tw_ext := ext\<rparr>)"
      let ?w3 = "?w2\<lparr>tw_ext := te_sleep env (1/4 * 2 ^ retry) (tw_ext ?w2)\<rparr>"
      show ?thesis
      proof (cases "transient code \<and> retry < DEFAULT_MODEL_RETRIES")
        case False
        then show ?thesis using Cons.prems got Inl LLMError le by (auto simp: Let_def split: if_splits)
      next
        case True
        then have rec: "try_candidate env chat t rd p retries ?w3 = (ended, w')"
          using Cons.prems got Inl LLMError by (simp add: Let_def)
        have "only_calls n 1 ?w2 ?w2" by simp
        then have "only_calls n 1 w ?w3" using req [of "''failed''" "Some code" ?dur None JNull] assms(1)
          unfolding only_calls_def counts_chats_def by simp
        then show ?thesis using Cons.IH [OF rec] only_calls_trans [of n 1 w ?w3 "length retries" w'] by simp
      qed
    qed
  qed
qed

lemma three_attempts:
  assumes "counts_chats n env" "te_chat env = Some chat"
    and "try_candidate env chat t rd p [0..<DEFAULT_MODEL_RETRIES + 1] w = (e, w1)"
  shows "only_calls n 3 w w1" "\<forall>d s th. e = Answered d s th \<longrightarrow> good_answer env chat t rd p d s th"
proof -
  have three: "length [0..<DEFAULT_MODEL_RETRIES + 1] = 3" by (simp add: DEFAULT_MODEL_RETRIES_def)
  show "only_calls n 3 w w1" "\<forall>d s th. e = Answered d s th \<longrightarrow> good_answer env chat t rd p d s th"
    using try_candidate_spec [OF assms] unfolding three by blast+
qed

lemma try_candidates_spec:
  assumes "counts_chats n env" "te_chat env = Some chat"
  shows "try_candidates env chat t rd p ps w = ((ended, q), w') \<Longrightarrow>
     only_calls n (3 * (1 + length ps)) w w' \<and> q \<in> set (p # ps)
     \<and> (\<forall>d s th. ended = Answered d s th \<longrightarrow> good_answer env chat t rd q d s th)"
proof (induction ps arbitrary: p w)
  case Nil
  obtain e w1 where e: "try_candidate env chat t rd p [0..<DEFAULT_MODEL_RETRIES + 1] w = (e, w1)" by fastforce
  have "ended = e" "q = p" "w' = w1" using Nil e by (cases e; simp)+
  then show ?case using three_attempts [OF assms e] by simp
next
  case (Cons x ps)
  obtain e w1 where e: "try_candidate env chat t rd p [0..<DEFAULT_MODEL_RETRIES + 1] w = (e, w1)" by fastforce
  note first = three_attempts [OF assms e]
  show ?case
  proof (cases e)
    case (Exhausted code)
    then have rec: "try_candidates env chat t rd x ps w1 = ((ended, q), w')" using Cons.prems e by simp
    show ?thesis using Cons.IH [OF rec] only_calls_trans [OF first(1), of "3 * (1 + length ps)" w'] by simp
  next
    case (Answered d s th)
    then have "ended = e" "q = p" "w' = w1" using Cons.prems e by auto
    then show ?thesis using first only_calls_mono [OF first(1), of "3 * (1 + length (x # ps))"] by simp
  next
    case (Stopped code)
    then have "ended = e" "q = p" "w' = w1" using Cons.prems e by auto
    then show ?thesis using first only_calls_mono [OF first(1), of "3 * (1 + length (x # ps))"] by simp
  qed
qed

section \<open>The evaluation\<close>

definition recorded_as :: "triage_result_row \<Rightarrow> stage_a_decision \<Rightarrow> bool" where
  "recorded_as row d \<longleftrightarrow> tq_id row = sa_result_id d \<and> tq_tender_id row = sa_tender_id d \<and> tq_run_id row = sa_run_id d
     \<and> tq_correlation_id row = sa_correlation_id d \<and> tq_status row = sa_status d \<and> tq_score row = sa_score d
     \<and> tq_mode row = sa_mode d \<and> tq_reasons row = sa_reasons d \<and> tq_llm_profile_id row = sa_llm_profile_id d
     \<and> tq_model row = sa_model d \<and> tq_error_code row = sa_error_code d"

lemma persist_result_spec:
  assumes "persist_result env t rd mode profile err w = (d, w')"
  shows "\<exists>row. tw_results w' = tw_results w @ [row] \<and> recorded_as row d \<and> tw_calls w' = tw_calls w
    \<and> tw_tenders w' = tw_tenders w \<and> tw_ext w' = tw_ext w \<and> sa_tender_id d = tn_id t \<and> sa_status d = ru_status rd
    \<and> sa_mode d = mode \<and> sa_error_code d = err"
  using assms by (auto simp: persist_result_def recorded_as_def Let_def)

lemma rule_status: "evaluate_rules env t rules = Inr rd \<Longrightarrow> ru_status rd \<in> {TPASS, TDISCARDED} \<and> ru_score rd = None"
  by (auto simp: evaluate_rules_def discard_def Let_def split: sum.splits conversion.splits if_splits)

text \<open>The integers an evaluation has to convert to floats: the configured minimum and the tender's value.\<close>

fun beyond_floats :: "json \<Rightarrow> bool" where
  "beyond_floats (JInt n) = float_overflows n"
| "beyond_floats _ = False"

definition configured_minimum :: "'w triage_env \<Rightarrow> json" where
  "configured_minimum env = (case te_settings env of None \<Rightarrow> JNull
     | Some s \<Rightarrow> (case tg_triage_rules s of Some (JObj rules) \<Rightarrow> obj_get rules ''minimum_contract_value'' | _ \<Rightarrow> JNull))"

definition contract_value :: "tender \<Rightarrow> json" where
  "contract_value t = obj_get (case tn_raw_metadata t of None \<Rightarrow> [] | Some m \<Rightarrow> m) ''contract_value''"

lemma contract_value_public: "obj_get (tender_metadata t) ''contract_value'' = contract_value t"
proof -
  have "map_of (public_metadata m) ''contract_value'' = map_of m ''contract_value''" for m
    by (induction m) (auto simp: public_metadata_def)
  then show ?thesis by (simp add: tender_metadata_def contract_value_def obj_get_def)
qed

lemma number_check:
  "valid_number j = Inl e \<Longrightarrow> e = OverflowRaised \<and> beyond_floats j" "valid_number j = Inr True \<Longrightarrow> \<not> beyond_floats j"
  by (cases j; simp split: if_splits)+

lemma conversion_overflow: "contract_number env j = TooLarge \<longleftrightarrow> beyond_floats j"
  by (cases j) (auto split: option.splits)

lemma minimum_null: "obj_get [] k = JNull"
  by (simp add: obj_get_def)

lemma rules_overflow: "triage_rules env = Inl OverflowRaised \<Longrightarrow> beyond_floats (configured_minimum env)"
  by (auto simp: triage_rules_def configured_minimum_def minimum_null Let_def dest: number_check(1)
      split: option.splits json.splits if_splits sum.splits)

lemma rules_minimum: "triage_rules env = Inr (rules, th) \<Longrightarrow> \<not> beyond_floats (obj_get rules ''minimum_contract_value'')"
  by (auto simp: triage_rules_def minimum_null Let_def dest: number_check(2)
      split: option.splits json.splits if_splits sum.splits)

lemma evaluate_overflow:
  assumes "evaluate_rules env t rules = Inl e" "triage_rules env = Inr (rules, th)"
  shows "e = OverflowRaised" "beyond_floats (contract_value t)"
proof -
  have "e = OverflowRaised \<and> (beyond_floats (contract_value t) \<or> beyond_floats (obj_get rules ''minimum_contract_value''))"
    using assms(1) by (auto simp: evaluate_rules_def Let_def contract_value_public conversion_overflow
        split: sum.splits conversion.splits if_splits)
  then show "e = OverflowRaised" "beyond_floats (contract_value t)" using rules_minimum [OF assms(2)] by blast+
qed

lemma model_status: "ru_status (model_decision d s th) \<in> {TPASS, TDISCARDED}"
  by (simp add: model_decision_def)

text \<open>What may let a tender through.\<close>

definition model_passes :: "'w triage_env \<Rightarrow> tender \<Rightarrow> bool" where
  "model_passes env t \<longleftrightarrow> (\<exists>chat rd p score threshold. te_chat env = Some chat
     \<and> good_answer env chat t rd p ''pass'' score threshold
     \<and> (\<forall>m. threshold = Some m \<longrightarrow> (\<exists>x. score = Some x \<and> m \<le> x)))"

lemma judged_decision: "judge_response env r = Inr (d, s, th) \<Longrightarrow> d \<in> {''pass'', ''discard''} \<and> (th \<noteq> None \<longrightarrow> s \<noteq> None)"
  by (auto simp: judge_response_def parse_model_response_def Let_def
      split: sum.splits option.splits triage_error.splits json.splits if_splits)

lemma model_pass:
  assumes "good_answer env chat t rd p d s th" "te_chat env = Some chat" "ru_status (model_decision d s th) = TPASS"
  shows "model_passes env t"
proof -
  have "d \<in> {''pass'', ''discard''}" "th \<noteq> None \<longrightarrow> s \<noteq> None"
    using assms(1) judged_decision unfolding good_answer_def by blast+
  moreover have "d \<noteq> ''discard''" "\<forall>m x. th = Some m \<longrightarrow> s = Some x \<longrightarrow> m \<le> x"
    using assms(3) by (auto simp: model_decision_def split: if_splits option.splits)
  ultimately have "d = ''pass''" "\<forall>m. th = Some m \<longrightarrow> (\<exists>x. s = Some x \<and> m \<le> x)" by auto
  then show ?thesis using assms(1,2) unfolding model_passes_def by blast
qed

definition evaluation_ok ::
  "('w \<Rightarrow> nat) \<Rightarrow> 'w triage_env \<Rightarrow> tender \<Rightarrow> stage_a_decision \<Rightarrow> 'w triage_world \<Rightarrow> 'w triage_world \<Rightarrow> bool" where
  "evaluation_ok n env t d w w' \<longleftrightarrow>
     (\<exists>row new. tw_results w' = tw_results w @ [row] \<and> recorded_as row d
       \<and> tw_calls w' = tw_calls w @ new \<and> length new \<le> 6 \<and> n (tw_ext w') = n (tw_ext w) + length new
       \<and> (sa_mode d = ''rules'' \<longrightarrow> new = []))
     \<and> tw_tenders w' = tw_tenders w \<and> sa_tender_id d = tn_id t \<and> sa_status d \<in> set TRIAGE_STATUSES
     \<and> (sa_status d = TFAILED) = (sa_error_code d \<noteq> None)
     \<and> (proceeds_to_verdict d \<longrightarrow> (sa_mode d = ''rules'' \<and> (\<exists>rules th. triage_rules env = Inr (rules, th)
            \<and> (\<exists>rd. evaluate_rules env t rules = Inr rd \<and> ru_status rd = TPASS))) \<or> (sa_mode d = ''model'' \<and> model_passes env t))"

lemma persist_failure_ok:
  assumes "only_calls n 6 w w1" "persist_failure env t mode code profile w1 = (d, w')" "mode = ''rules'' \<Longrightarrow> w1 = w"
  shows "evaluation_ok n env t d w w'"
proof -
  from assms(1) obtain new where new: "tw_calls w1 = tw_calls w @ new" "length new \<le> 6"
    "n (tw_ext w1) = n (tw_ext w) + length new" "tw_tenders w1 = tw_tenders w" "tw_results w1 = tw_results w"
    by (auto simp: only_calls_def)
  from persist_result_spec [OF assms(2) [unfolded persist_failure_def]]
  show ?thesis using new assms(3) unfolding evaluation_ok_def
    by (auto simp: TRIAGE_STATUSES_def proceeds_to_verdict_def)
qed

lemma evaluate_model_ok:
  assumes "counts_chats n env" "te_chat env = Some chat" "evaluate_model env chat t p rd fb w = (d, w')"
  shows "evaluation_ok n env t d w w'"
proof -
  let ?ps = "case fb of None \<Rightarrow> [] | Some f \<Rightarrow> [f]"
  obtain ended q w1 where tried: "try_candidates env chat t rd p ?ps w = ((ended, q), w1)" by (metis prod.exhaust)
  note spec = try_candidates_spec [OF assms(1,2) tried]
  have "3 * (1 + length ?ps) \<le> 6" by (simp split: option.split)
  then have calls: "only_calls n 6 w w1" using spec only_calls_mono by blast
  show ?thesis
  proof (cases ended)
    case (Answered dec s th)
    then have per: "persist_result env t (model_decision dec s th) ''model'' (Some q) None w1 = (d, w')"
      using assms(3) tried by (simp add: evaluate_model_def)
    from calls obtain new where new: "tw_calls w1 = tw_calls w @ new" "length new \<le> 6"
      "n (tw_ext w1) = n (tw_ext w) + length new" "tw_tenders w1 = tw_tenders w" "tw_results w1 = tw_results w"
      by (auto simp: only_calls_def)
    have "good_answer env chat t rd q dec s th" using spec Answered by blast
    then have "ru_status (model_decision dec s th) = TPASS \<longrightarrow> model_passes env t" using model_pass assms(2) by blast
    then show ?thesis using persist_result_spec [OF per] new model_status [of dec s th] unfolding evaluation_ok_def
      by (auto simp: TRIAGE_STATUSES_def proceeds_to_verdict_def)
  next
    case (Stopped code)
    then have "persist_failure env t ''model'' code (Some q) w1 = (d, w')" using assms(3) tried by (simp add: evaluate_model_def)
    then show ?thesis by (rule persist_failure_ok [OF calls]) simp
  next
    case (Exhausted code)
    then have "persist_failure env t ''model'' code (Some q) w1 = (d, w')" using assms(3) tried by (simp add: evaluate_model_def)
    then show ?thesis by (rule persist_failure_ok [OF calls]) simp
  qed
qed

lemma triage_decide_ok:
  assumes "counts_chats n env" "triage_rules env = Inr (rules, th)" "evaluate_rules env t rules = Inr rd"
    and "triage_decide env t rd w = (d, w')"
  shows "evaluation_ok n env t d w w'"
proof (cases "List.find (\<lambda>a. la_role a = ''triage'') (te_assignments env)")
  case None
  then have per: "persist_result env t rd ''rules'' None None w = (d, w')" using assms(4) by (simp add: triage_decide_def)
  show ?thesis using persist_result_spec [OF per] assms(2,3) rule_status [OF assms(3)] unfolding evaluation_ok_def
    by (auto simp: TRIAGE_STATUSES_def proceeds_to_verdict_def)
next
  case (Some a)
  have failed: "evaluation_ok n env t d w w'" if "persist_failure env t mode code None w = (d, w')" for mode code
    using persist_failure_ok [OF only_calls_refl that] by simp
  show ?thesis
  proof (cases "\<exists>chat p. te_chat env = Some chat \<and> get_profile (la_profile_id a) (te_profiles env) = Some p \<and> lp_active p")
    case True
    then obtain chat p where cp: "te_chat env = Some chat" "get_profile (la_profile_id a) (te_profiles env) = Some p" "lp_active p"
      by blast
    then have "evaluate_model env chat t p rd (usable_fallback env a p) w = (d, w')"
      using assms(4) Some by (simp add: triage_decide_def)
    then show ?thesis by (rule evaluate_model_ok [OF assms(1) cp(1)])
  next
    case False
    then show ?thesis using assms(4) Some failed by (auto simp: triage_decide_def split: option.splits)
  qed
qed

text \<open>C19: an evaluation of a known tender decides, whatever the model or its client do: it adds one
  result row that says what the decision says, sends at most six requests and records each of them,
  none in rule mode; it is a failure exactly when it carries an error code, and only the rules or a
  valid model answer that clears the threshold let the tender through.  The one exception is an integer
  beyond the range of floats as the configured minimum or as the tender's contract value: then the
  evaluation may raise \<open>OverflowError\<close>, with nothing sent and nothing written.  An unknown tender raises and
  nothing is written.\<close>

theorem triage_decides_once:
  assumes "counts_chats n env" "triage_evaluate env tid w = (res, w')"
  shows "(\<forall>t. List.find (\<lambda>t. tn_id t = tid) (tw_tenders w) = Some t \<longrightarrow>
      (\<exists>d. res = Inr d \<and> evaluation_ok n env t d w w')
      \<or> (res = Inl OverflowRaised \<and> w' = w
         \<and> (beyond_floats (configured_minimum env) \<or> beyond_floats (contract_value t))))
    \<and> (List.find (\<lambda>t. tn_id t = tid) (tw_tenders w) = None \<longrightarrow> \<not> is_ok res \<and> w' = w)"
proof (cases "List.find (\<lambda>t. tn_id t = tid) (tw_tenders w)")
  case None
  then show ?thesis using assms(2) by (auto simp: triage_evaluate_def)
next
  case (Some t)
  consider (overflow) "triage_rules env = Inl OverflowRaised"
    | (invalid) m code where "triage_rules env = Inl (TriageError m code)"
    | (rules) rules th where "triage_rules env = Inr (rules, th)"
    by (metis sum.exhaust triage_error.exhaust prod.exhaust)
  then show ?thesis
  proof cases
    case overflow
    then show ?thesis using assms(2) Some rules_overflow [OF overflow] by (simp add: triage_evaluate_def)
  next
    case invalid
    obtain d w1 where d: "persist_failure env t ''rules'' code None w = (d, w1)" by fastforce
    then show ?thesis using assms(2) Some invalid persist_failure_ok [OF only_calls_refl d, of n]
      by (auto simp: triage_evaluate_def)
  next
    case rules
    show ?thesis
    proof (cases "evaluate_rules env t rules")
      case (Inl e)
      then show ?thesis using assms(2) Some rules evaluate_overflow [OF Inl rules] by (simp add: triage_evaluate_def)
    next
      case (Inr rd)
      obtain d w1 where d: "triage_decide env t rd w = (d, w1)" by fastforce
      then show ?thesis using assms(2) Some rules Inr triage_decide_ok [OF assms(1) rules Inr d]
        by (auto simp: triage_evaluate_def)
    qed
  qed
qed

text \<open>The exception is real: with a value beyond the range of floats no row is written.\<close>

lemma huge_value_raises:
  assumes "List.find (\<lambda>t. tn_id t = tid) (tw_tenders w) = Some t"
    and "te_settings env = Some \<lparr>tg_triage_rules = Some (JObj [(''minimum_contract_value'', JInt 0)]), tg_triage_threshold = None\<rparr>"
    and "contract_value t = JInt n" "float_overflows n"
  shows "triage_evaluate env tid w = (Inl OverflowRaised, w)"
proof -
  have rules: "triage_rules env = Inr ([(''minimum_contract_value'', JInt 0)], None)"
    using assms(2) by (simp add: triage_rules_def obj_get_def keyword_keys_def float_overflows_def)
  have "match_target env t [(''minimum_contract_value'', JInt 0)] (k, r) rs = Inr rs" if "k \<noteq> ''minimum_contract_value''" for k r rs
    using that by (simp add: match_target_def rule_strings_def obj_get_def)
  then have "evaluate_rules env t [(''minimum_contract_value'', JInt 0)] = Inl OverflowRaised"
    using assms(3,4) by (simp add: evaluate_rules_def rule_strings_def obj_get_def contract_value_public
        bind_result_def contract_value_public [unfolded obj_get_def])
  then show ?thesis using assms(1) rules by (simp add: triage_evaluate_def)
qed

definition demo_tender :: tender where
  "demo_tender = \<lparr>tn_id = 5, tn_source_id = 1, tn_external_id = ''x'', tn_url = ''u'', tn_title = ''Road works'',
     tn_published_date = None, tn_deadline = None, tn_deadline_timezone = None, tn_raw_metadata = None,
     tn_status = ''new'', tn_first_seen_at = 0, tn_correlation_id = ''c'', tn_is_update = False\<rparr>"

definition demo_triage_world :: "nat triage_world" where
  "demo_triage_world = \<lparr>tw_tenders = [demo_tender], tw_results = [], tw_calls = [], tw_ext = 0\<rparr>"

definition demo_profile :: llm_profile where
  "demo_profile = \<lparr>lp_id = 2, lp_model = ''m'', lp_active = True, lp_max_output_tokens = None, lp_temperature = None,
     lp_top_p = None, lp_reasoning_budget = None, lp_enable_thinking = False\<rparr>"

text \<open>A model that never answers.\<close>

definition demo_triage_env :: "json option \<Rightarrow> nat triage_env" where
  "demo_triage_env rules = \<lparr>te_settings = Some \<lparr>tg_triage_rules = rules, tg_triage_threshold = None\<rparr>,
     te_assignments = [\<lparr>la_role = ''triage'', la_profile_id = 2, la_fallback_profile_id = None\<rparr>],
     te_profiles = [demo_profile], te_chat = Some (\<lambda>p ms n. (Inl (LLMError AI_CALL_TIMEOUT), n + 1)),
     te_json_loads = (\<lambda>s. None), te_json_dumps = (\<lambda>j. []), te_str_other = (\<lambda>j. []), te_float_of_str = (\<lambda>s. None),
     te_clock = (\<lambda>n. 0), te_sleep = (\<lambda>s n. n), te_run_id = None\<rparr>"

theorem triage_decides_once_witness:
  "\<exists>d. fst (triage_evaluate (demo_triage_env None) 5 demo_triage_world) = Inr d \<and> sa_tender_id d = 5"
proof -
  obtain res w' where run: "triage_evaluate (demo_triage_env None) 5 demo_triage_world = (res, w')" by fastforce
  have "counts_chats (\<lambda>n. n) (demo_triage_env None)" by (simp add: counts_chats_def demo_triage_env_def)
  from triage_decides_once [OF this run] show ?thesis unfolding run fst_conv
    by (auto simp: evaluation_ok_def demo_triage_world_def demo_tender_def configured_minimum_def contract_value_def
        demo_triage_env_def obj_get_def)
qed

section \<open>Rules and model\<close>

lemma model_messages_score: "ru_score rd = ru_score rd' \<Longrightarrow> model_messages env t rd = model_messages env t rd'"
  by (simp add: model_messages_def)

lemma try_candidate_cong:
  assumes "model_messages env t rd = model_messages env' t rd'" "\<And>r. judge_response env r = judge_response env' r"
    and "te_clock env = te_clock env'" "te_sleep env = te_sleep env'"
  shows "try_candidate env chat t rd p retries w = try_candidate env' chat t rd' p retries w"
proof (induction retries arbitrary: w)
  case (Cons retry retries)
  show ?case unfolding try_candidate.simps assms Cons ..
qed simp

lemma try_candidates_cong:
  assumes "model_messages env t rd = model_messages env' t rd'" "\<And>r. judge_response env r = judge_response env' r"
    and "te_clock env = te_clock env'" "te_sleep env = te_sleep env'"
  shows "try_candidates env chat t rd p ps w = try_candidates env' chat t rd' p ps w"
proof (induction ps arbitrary: p w)
  case Nil
  show ?case by (subst (1 2) try_candidates.simps) (simp only: list.case try_candidate_cong [OF assms, of chat p])
next
  case (Cons q qs)
  show ?case by (subst (1 2) try_candidates.simps) (simp only: list.case try_candidate_cong [OF assms, of chat p] Cons)
qed

text \<open>C20: with a model assigned the configured rules decide nothing: under any two valid rule sets the same
  requests are sent, the same rows are written and the same decision is returned, even for a tender
  that one of them excludes by keyword.  The tender's contract value must not be an integer beyond the range
  of floats, which raises under the rule sets that ask for a minimum.\<close>

theorem model_mode_ignores_rules:
  assumes "te_settings env = Some s" "List.find (\<lambda>a. la_role a = ''triage'') (te_assignments env) = Some a"
    and "is_ok (triage_rules env)" "is_ok (triage_rules (env\<lparr>te_settings := Some (s\<lparr>tg_triage_rules := rules'\<rparr>)\<rparr>))"
    and "\<And>t. List.find (\<lambda>t. tn_id t = tid) (tw_tenders w) = Some t \<Longrightarrow> \<not> beyond_floats (contract_value t)"
  shows "triage_evaluate (env\<lparr>te_settings := Some (s\<lparr>tg_triage_rules := rules'\<rparr>)\<rparr>) tid w = triage_evaluate env tid w"
proof (cases "List.find (\<lambda>t. tn_id t = tid) (tw_tenders w)")
  case None
  then show ?thesis by (simp add: triage_evaluate_def)
next
  case (Some t)
  let ?env = "env\<lparr>te_settings := Some (s\<lparr>tg_triage_rules := rules'\<rparr>)\<rparr>"
  obtain r1 where r1: "triage_rules env = Inr (r1, tg_triage_threshold s)"
    using assms(1,3) by (auto simp: triage_rules_def Let_def is_ok_def split: json.splits if_splits option.splits sum.splits)
  obtain r2 where r2: "triage_rules ?env = Inr (r2, tg_triage_threshold s)"
    using assms(4) by (auto simp: triage_rules_def Let_def is_ok_def split: json.splits if_splits option.splits sum.splits)
  have ok: "\<exists>rd. evaluate_rules e t r = Inr rd \<and> ru_score rd = None" if "triage_rules e = Inr (r, th)" for e :: "'a triage_env" and r th
    using evaluate_overflow(2) [OF _ that] rule_status assms(5) [OF Some] by (cases "evaluate_rules e t r") blast+
  obtain d1 where d1: "evaluate_rules env t r1 = Inr d1" "ru_score d1 = None" using ok [OF r1] by blast
  obtain d2 where d2: "evaluate_rules ?env t r2 = Inr d2" "ru_score d2 = None" using ok [OF r2] by blast
  have parse: "parse_model_response ?env = parse_model_response env" by (simp add: parse_model_response_def fun_eq_iff)
  have judge: "judge_response ?env r = judge_response env r" for r
    unfolding judge_response_def parse r1 r2 sum.case prod.case ..
  have per: "persist_result ?env = persist_result env" "persist_failure ?env = persist_failure env"
    by (simp_all add: fun_eq_iff persist_result_def persist_failure_def)
  have msgs: "model_messages ?env t d2 = model_messages env t d1"
    by (simp add: model_messages_def d1(2) d2(2))
  have tried: "try_candidates ?env chat t d2 p ps w = try_candidates env chat t d1 p ps w" for chat p ps w
    by (rule try_candidates_cong [OF msgs judge]) simp_all
  have model: "evaluate_model ?env chat t p d2 fb w = evaluate_model env chat t p d1 fb w" for chat p fb
    unfolding evaluate_model_def tried per ..
  have fb: "usable_fallback ?env = usable_fallback env" by (simp add: usable_fallback_def fun_eq_iff)
  have same: "te_assignments ?env = te_assignments env" "te_chat ?env = te_chat env" "te_profiles ?env = te_profiles env"
    by simp_all
  have "triage_decide ?env t d2 w = triage_decide env t d1 w"
    unfolding triage_decide_def same assms(2) option.case per fb model ..
  then show ?thesis using Some r1 r2 d1(1) d2(1) by (simp add: triage_evaluate_def)
qed

theorem model_mode_ignores_rules_witness:
  "triage_evaluate ((demo_triage_env None)\<lparr>te_settings := Some \<lparr>tg_triage_rules =
      Some (JObj [(''exclude_keywords'', JList [JStr ''road''])]), tg_triage_threshold = None\<rparr>\<rparr>) 5 demo_triage_world
    = triage_evaluate (demo_triage_env None) 5 demo_triage_world"
proof -
  let ?s = "\<lparr>tg_triage_rules = None, tg_triage_threshold = None\<rparr> :: triage_settings"
  let ?r = "Some (JObj [(''exclude_keywords'', JList [JStr ''road''])])"
  have s: "te_settings (demo_triage_env None) = Some ?s" by (simp add: demo_triage_env_def)
  have a: "List.find (\<lambda>a. la_role a = ''triage'') (te_assignments (demo_triage_env None))
      = Some \<lparr>la_role = ''triage'', la_profile_id = 2, la_fallback_profile_id = None\<rparr>" by (simp add: demo_triage_env_def)
  have ok: "is_ok (triage_rules (demo_triage_env None))"
    by (simp add: triage_rules_def demo_triage_env_def obj_get_def keyword_keys_def)
  have "py_strip ''road'' \<noteq> []" by code_simp
  then have ok': "is_ok (triage_rules ((demo_triage_env None)\<lparr>te_settings := Some (?s\<lparr>tg_triage_rules := ?r\<rparr>)\<rparr>))"
    by (simp add: triage_rules_def demo_triage_env_def obj_get_def keyword_keys_def)
  have small: "\<not> beyond_floats (contract_value t)"
    if "List.find (\<lambda>t. tn_id t = 5) (tw_tenders demo_triage_world) = Some t" for t
    using that by (auto simp: demo_triage_world_def demo_tender_def contract_value_def obj_get_def)
  from model_mode_ignores_rules [OF s a ok ok' small] show ?thesis by simp
qed

text \<open>Keywords are lowered, the text is case-folded: a keyword with a sharp s occurs in no text.\<close>

lemma casefold_no_sharp_s: "CHR 0xDF \<notin> set (casefold s)"
proof -
  have "(CHR 0xDF) \<notin> set (casefold_char c)" for c
  proof (cases "(of_char c :: nat) = 223")
    case False
    have lower: "py_lower_char c \<noteq> CHR 0xDF"
    proof
      assume eq: "py_lower_char c = CHR 0xDF"
      show False
      proof (cases "(65 \<le> (of_char c :: nat) \<and> (of_char c :: nat) \<le> 90) \<or> (192 \<le> (of_char c :: nat) \<and> (of_char c :: nat) \<le> 222 \<and> (of_char c :: nat) \<noteq> 215)")
        case True
        then have "(of_char (py_lower_char c) :: nat) = of_char c + 32"
          by (auto simp: py_lower_char_def Let_def)
        then show False using eq True by simp
      next
        case other: False
        then have "py_lower_char c = c" by (auto simp: py_lower_char_def Let_def)
        then have "c = CHR 0xDF" using eq by simp
        then have "(of_char c :: nat) = of_char (CHR 0xDF)" by (rule arg_cong)
        also have "\<dots> = 223" by code_simp
        finally show False using False by simp
      qed
    qed
    then show ?thesis using False by (auto simp: casefold_char_def)
  qed (simp add: casefold_char_def)
  then show ?thesis by (auto simp: casefold_def)
qed

lemma contains_set: "contains p s \<Longrightarrow> set p \<subseteq> set s"
proof (induction s)
  case (Cons c s)
  have "set p \<subseteq> set (c # s)" if "has_prefix p (c # s)"
    using that unfolding has_prefix_iff by (metis Un_upper1 set_append)
  then show ?case using Cons by auto
qed simp

lemma sharp_s_never_matches: "CHR 0xDF \<in> set keyword \<Longrightarrow> \<not> contains keyword (tender_text env t)"
  using casefold_no_sharp_s contains_set unfolding tender_text_def by blast

end
