(* ===== verification/Regex.thy ===== *)
theory Regex
  imports PyText
begin

text \<open>
  The fragment of Python's \<open>re\<close> that the modelled code uses: a backtracking matcher that lists the
  ways a pattern matches at a position in the order in which Python tries them, so that the first
  one is the match that Python reports.  A pattern is built from classes of characters, bounded
  runs of a class, concatenation, alternatives, optional parts and named groups.  With it the
  civil calendar of \<open>datetime\<close>: the instant of a date and time, and the rendering of numbers with
  leading zeros.
\<close>

section \<open>Patterns\<close>

text \<open>\<open>Run lo hi P\<close> is \<open>[P]{lo,hi}\<close>, greedy; without a bound \<open>hi\<close> is \<open>None\<close>.\<close>

datatype rx = Cls "char \<Rightarrow> bool" | Run nat "nat option" "char \<Rightarrow> bool" | Cat rx rx | Alt rx rx
  | Opt rx | Grp string rx

type_synonym captures = "(string \<times> string) list"

fun prefix_len :: "(char \<Rightarrow> bool) \<Rightarrow> string \<Rightarrow> nat" where
  "prefix_len P [] = 0"
| "prefix_len P (c # cs) = (if P c then Suc (prefix_len P cs) else 0)"

text \<open>The lengths a run may take at a position, longest first.\<close>

definition run_lengths :: "nat \<Rightarrow> nat option \<Rightarrow> nat \<Rightarrow> nat list" where
  "run_lengths lo hi n = rev [lo..<Suc (case hi of None \<Rightarrow> n | Some h \<Rightarrow> min h n)]"

fun rx_match :: "rx \<Rightarrow> string \<times> captures \<Rightarrow> (string \<times> captures) list" where
  "rx_match (Cls P) (s, g) = (case s of [] \<Rightarrow> [] | c # cs \<Rightarrow> if P c then [(cs, g)] else [])"
| "rx_match (Run lo hi P) (s, g) = map (\<lambda>k. (drop k s, g)) (run_lengths lo hi (prefix_len P s))"
| "rx_match (Cat p q) s = concat (map (rx_match q) (rx_match p s))"
| "rx_match (Alt p q) s = rx_match p s @ rx_match q s"
| "rx_match (Opt p) s = rx_match p s @ [s]"
| "rx_match (Grp name p) (s, g) =
     map (\<lambda>(r, h). (r, (name, take (length s - length r) s) # h)) (rx_match p (s, g))"

text \<open>\<open>pattern.match(text)\<close> and \<open>pattern.search(text)\<close>: the groups of the match, if there is one.\<close>

definition rx_at_start :: "rx \<Rightarrow> string \<Rightarrow> captures option" where
  "rx_at_start p s = (case rx_match p (s, []) of [] \<Rightarrow> None | (r, g) # _ \<Rightarrow> Some g)"

fun rx_search :: "rx \<Rightarrow> string \<Rightarrow> captures option" where
  "rx_search p [] = rx_at_start p []"
| "rx_search p (c # cs) = (case rx_at_start p (c # cs) of Some g \<Rightarrow> Some g | None \<Rightarrow> rx_search p cs)"

text \<open>\<open>m.group(name)\<close>: \<open>None\<close> for a group that took no part in the match.\<close>

definition group_of :: "captures \<Rightarrow> string \<Rightarrow> string option" where
  "group_of g name = map_of g name"


fun cats :: "rx list \<Rightarrow> rx" where
  "cats [] = Run 0 (Some 0) (\<lambda>_. True)"
| "cats [p] = p"
| "cats (p # ps) = Cat p (cats ps)"

text \<open>A literal under \<open>IGNORECASE\<close>, on the code points 0 to 255.\<close>

definition lit :: "char \<Rightarrow> rx" where
  "lit c = Cls (\<lambda>d. py_lower_char d = py_lower_char c)"

definition lits :: "string \<Rightarrow> rx" where
  "lits s = cats (map lit s)"

fun alts :: "rx list \<Rightarrow> rx" where
  "alts [] = Run 1 (Some 0) (\<lambda>_. True)"
| "alts [p] = p"
| "alts (p # ps) = Alt p (alts ps)"

abbreviation spaces :: rx where "spaces \<equiv> Run 0 None py_space"
abbreviation spaces1 :: rx where "spaces1 \<equiv> Run 1 None py_space"

definition is_digit :: "char \<Rightarrow> bool" where
  "is_digit c = (let n = of_char c :: nat in 48 \<le> n \<and> n \<le> 57)"

abbreviation digits :: "nat \<Rightarrow> nat \<Rightarrow> rx" where "digits lo hi \<equiv> Run lo (Some hi) is_digit"

section \<open>What a match is\<close>

text \<open>A match consumes a prefix and keeps the groups it started with.\<close>

lemma rx_match_suffix: "(r, h) \<in> set (rx_match p (s, g)) \<Longrightarrow> \<exists>t. s = t @ r"
proof (induction p arbitrary: r h s g)
  case (Cls P)
  then show ?case by (cases s) (auto split: if_splits)
next
  case (Run lo hi P)
  then obtain k where "r = drop k s" by auto
  then show ?case using append_take_drop_id [of k s] by metis
next
  case (Cat p q)
  then obtain s' g' where a: "(s', g') \<in> set (rx_match p (s, g))" and b: "(r, h) \<in> set (rx_match q (s', g'))"
    by auto
  obtain t u where "s = t @ s'" "s' = u @ r" using Cat.IH(1) [OF a] Cat.IH(2) [OF b] by blast
  then show ?case by simp
next
  case (Alt p q)
  from Alt.prems have "(r, h) \<in> set (rx_match p (s, g)) \<or> (r, h) \<in> set (rx_match q (s, g))" by simp
  then show ?case using Alt.IH by blast
next
  case (Opt p)
  from Opt.prems have "(r, h) \<in> set (rx_match p (s, g)) \<or> r = s" by auto
  then show ?case using Opt.IH by auto
next
  case (Grp name p)
  then obtain h' where "(r, h') \<in> set (rx_match p (s, g))" by auto
  then show ?case using Grp.IH by blast
qed

lemma prefix_len_le: "prefix_len P s \<le> length s"
  by (induction s) auto

lemma prefix_len_all: "k \<le> prefix_len P s \<Longrightarrow> \<forall>c \<in> set (take k s). P c"
proof (induction s arbitrary: k)
  case (Cons c cs)
  then show ?case by (cases k) (auto split: if_splits)
qed simp

lemma prefix_len_append:
  "\<forall>c \<in> set w. P c \<Longrightarrow> prefix_len P (w @ s) = length w + prefix_len P s"
  by (induction w) auto

lemma run_lengths_exact: "lo \<le> n \<Longrightarrow> run_lengths lo (Some lo) n = [lo]"
  by (simp add: run_lengths_def min_def)

text \<open>A run of exactly as many characters as there are takes them all.\<close>

lemma rx_match_exact:
  "\<forall>c \<in> set w. P c \<Longrightarrow> rx_match (Run (length w) (Some (length w)) P) (w @ s, g) = [(s, g)]"
  by (simp add: prefix_len_append run_lengths_exact)

section \<open>Numbers\<close>

definition digit_value :: "char \<Rightarrow> int" where
  "digit_value c = of_char c - 48"

text \<open>\<open>int(s)\<close> on a string of digits.\<close>

definition digits_value :: "string \<Rightarrow> int" where
  "digits_value s = foldl (\<lambda>v c. 10 * v + digit_value c) 0 s"

text \<open>\<open>f"{n:0kd}"\<close> for a number of at most \<open>k\<close> digits.\<close>

fun padded :: "nat \<Rightarrow> nat \<Rightarrow> string" where
  "padded 0 n = []"
| "padded (Suc k) n = padded k (n div 10) @ [char_of (48 + n mod 10)]"

lemma length_padded [simp]: "length (padded k n) = k"
  by (induction k arbitrary: n) auto

lemma digit_char: "n < 10 \<Longrightarrow> is_digit (char_of (48 + n :: nat)) \<and> digit_value (char_of (48 + n)) = int n"
proof -
  assume n: "n < 10"
  have nat: "(of_char (char_of (48 + n) :: char) :: nat) = 48 + n" using n by simp
  have "(of_char c :: int) = int (of_char c :: nat)" for c :: char by (cases c) simp
  with nat have "(of_char (char_of (48 + n) :: char) :: int) = 48 + int n" by simp
  with nat n show ?thesis by (simp only: is_digit_def digit_value_def Let_def) simp
qed

lemma padded_digits: "c \<in> set (padded k n) \<Longrightarrow> is_digit c"
  by (induction k arbitrary: n) (auto simp: digit_char)

lemma digits_value_padded: "n < 10 ^ k \<Longrightarrow> digits_value (padded k n) = int n"
proof (induction k arbitrary: n)
  case (Suc k)
  then have "n div 10 < 10 ^ k" by simp
  then show ?case using Suc.IH [of "n div 10"] digit_char [of "n mod 10"]
    by (simp add: digits_value_def of_nat_mod of_nat_div)
qed (simp add: digits_value_def)

section \<open>The civil calendar\<close>

definition leap_year :: "int \<Rightarrow> bool" where
  "leap_year y = (y mod 4 = 0 \<and> (y mod 100 \<noteq> 0 \<or> y mod 400 = 0))"

definition days_in_month :: "int \<Rightarrow> int \<Rightarrow> int" where
  "days_in_month y m = (if m = 2 then (if leap_year y then 29 else 28)
     else if m \<in> {4, 6, 9, 11} then 30 else 31)"

text \<open>\<open>date.toordinal()\<close> less the ordinal of 1 January 1970.\<close>

definition civil_days :: "int \<Rightarrow> int \<Rightarrow> int \<Rightarrow> int" where
  "civil_days y m d = 365 * (y - 1) + (y - 1) div 4 - (y - 1) div 100 + (y - 1) div 400
     + sum_list (map (days_in_month y) [1..m - 1]) + d - 719163"

definition valid_civil :: "int \<Rightarrow> int \<Rightarrow> int \<Rightarrow> int \<Rightarrow> int \<Rightarrow> bool" where
  "valid_civil y m d h mi \<longleftrightarrow> 1 \<le> y \<and> y \<le> 9999 \<and> 1 \<le> m \<and> m \<le> 12 \<and> 1 \<le> d \<and> d \<le> days_in_month y m
     \<and> 0 \<le> h \<and> h \<le> 23 \<and> 0 \<le> mi \<and> mi \<le> 59"

text \<open>The wall clock reading in microseconds; \<open>datetime(...)\<close> raises \<open>ValueError\<close>, here \<open>None\<close>, when
  a field is out of range.\<close>

definition civil_usecs :: "int \<Rightarrow> int \<Rightarrow> int \<Rightarrow> int \<Rightarrow> int \<Rightarrow> int" where
  "civil_usecs y m d h mi = usecs (60 * (mi + 60 * (h + 24 * civil_days y m d)))"

definition make_datetime :: "int \<Rightarrow> int \<Rightarrow> int \<Rightarrow> int \<Rightarrow> int \<Rightarrow> int option" where
  "make_datetime y m d h mi = (if valid_civil y m d h mi then Some (civil_usecs y m d h mi) else None)"

definition MIN_INSTANT :: instant where
  "MIN_INSTANT = usecs (- 62135596800)"

definition MAX_INSTANT :: instant where
  "MAX_INSTANT = usecs 253402300800 - 1"

lemma epoch: "civil_days 1970 1 1 = 0" "civil_usecs 1 1 1 0 0 = MIN_INSTANT"
    "civil_usecs 9999 12 31 23 59 + usecs 60 - 1 = MAX_INSTANT"
  by code_simp+

end
