(* ===== verification/Deadline.thy ===== *)
theory Deadline
  imports StageBodies Regex
begin

text \<open>
  \<open>deadline/model.py\<close>, \<open>deadline/extractor.py\<close>, \<open>deadline/service.py\<close> and the rows of
  \<open>db/models/deadline.py\<close> with the operation of \<open>TenderRepository\<close> that writes them: the result
  of a resolution, the dates read out of a document's text, the hierarchy of sources, and the
  table of resolutions.  What the host supplies is an environment: the offset of its local time
  zone (\<open>astimezone\<close> reads a naive value as local time), \<open>str()\<close> of a container or float, and
  \<open>isoformat\<close>.  Texts are over the code points 0 to 255.
\<close>

section \<open>Results\<close>

definition UNRESOLVED :: string where "UNRESOLVED = ''unresolved''"
definition CONFLICTING :: string where "CONFLICTING = ''conflicting''"

definition EVIDENCE_TEXT_LIMIT :: nat where "EVIDENCE_TEXT_LIMIT = 200"

abbreviation "REASON_MISSING_TIMEZONE \<equiv> ''MISSING_TIMEZONE''"
abbreviation "REASON_NOT_FOUND_IN_DOCUMENTS \<equiv> ''NOT_FOUND_IN_DOCUMENTS''"
abbreviation "REASON_NOT_PRESENT_ON_DETAIL \<equiv> ''NOT_PRESENT_ON_DETAIL''"
abbreviation "REASON_NOT_PRESENT_ON_LISTING \<equiv> ''NOT_PRESENT_ON_LISTING''"
abbreviation "REASON_UNPARSEABLE \<equiv> ''UNPARSEABLE''"
abbreviation "REASON_CONFLICTING_SOURCES \<equiv> ''CONFLICTING_SOURCES''"

definition DEADLINE_SOURCES :: "string list" where
  "DEADLINE_SOURCES = [''listing_page'', ''detail_page'', ''document'', ''conflicting'', ''unresolved'']"

definition raised :: "string \<Rightarrow> exn" where
  "raised name = \<lparr>ex_type = name, ex_code = None, ex_message = None\<rparr>"

text \<open>\<open>DeadlineResult(...)\<close> with its \<open>__post_init__\<close>.\<close>

definition check_deadline_result :: "deadline_result \<Rightarrow> (exn, deadline_result) result" where
  "check_deadline_result r =
     (if dl_status r \<notin> {RESOLVED, UNRESOLVED, CONFLICTING} then Inl (raised ''ValueError'')
      else if dl_status r = RESOLVED \<and> dl_deadline_utc r = None then Inl (raised ''ValueError'')
      else if dl_status r \<noteq> RESOLVED \<and> dl_deadline_utc r \<noteq> None then Inl (raised ''ValueError'')
      else Inr r)"

text \<open>\<open>value[:200]\<close> on a truthy value.\<close>

fun excerpt :: "json \<Rightarrow> (exn, json) result" where
  "excerpt (JStr s) = Inr (JStr (take EVIDENCE_TEXT_LIMIT s))"
| "excerpt (JList l) = Inr (JList (take EVIDENCE_TEXT_LIMIT l))"
| "excerpt (JObj d) = Inl (raised ''KeyError'')"
| "excerpt _ = Inl (raised ''TypeError'')"

definition opt_str_json :: "string option \<Rightarrow> json" where
  "opt_str_json v = (case v of None \<Rightarrow> JNull | Some s \<Rightarrow> JStr s)"

definition resolved ::
  "instant \<Rightarrow> string \<Rightarrow> string option \<Rightarrow> json \<Rightarrow> string option \<Rightarrow> int option \<Rightarrow> string option
     \<Rightarrow> (exn, deadline_result) result" where
  "resolved deadline_utc source deadline_timezone original_text source_url document_id filename =
     bind_result (if json_truthy original_text
         then bind_result (excerpt original_text) (\<lambda>v. Inr [(''original_text'', v)]) else Inr [])
       (\<lambda>text. check_deadline_result
         \<lparr>dl_status = RESOLVED, dl_source = source, dl_deadline_utc = Some deadline_utc,
          dl_deadline_timezone = deadline_timezone,
          dl_evidence = text
            @ (if py_truthy source_url then [(''source_url'', opt_str_json source_url)] else [])
            @ (case document_id of None \<Rightarrow> [] | Some i \<Rightarrow> [(''document_id'', JInt i)])
            @ (if py_truthy filename then [(''filename'', opt_str_json filename)] else [])\<rparr>)"

definition unresolved :: "string \<Rightarrow> (string \<times> json) list \<Rightarrow> (exn, deadline_result) result" where
  "unresolved reason_code extra = check_deadline_result
     \<lparr>dl_status = UNRESOLVED, dl_source = ''unresolved'', dl_deadline_utc = None, dl_deadline_timezone = None,
      dl_evidence = obj_update [(''reason_code'', JStr reason_code)] extra\<rparr>"

definition conflicting :: "(string \<times> json) list \<Rightarrow> (string \<times> json) list \<Rightarrow> (exn, deadline_result) result" where
  "conflicting conflict_a conflict_b = check_deadline_result
     \<lparr>dl_status = CONFLICTING, dl_source = ''conflicting'', dl_deadline_utc = None, dl_deadline_timezone = None,
      dl_evidence = [(''reason_code'', JStr REASON_CONFLICTING_SOURCES), (''conflict_a'', JObj conflict_a),
                     (''conflict_b'', JObj conflict_b)]\<rparr>"

section \<open>Dates in the text of a document\<close>

abbreviation chr :: "nat \<Rightarrow> char" where "chr n \<equiv> char_of n"

definition TZ_OFFSETS :: "(string \<times> int) list" where
  "TZ_OFFSETS = [(''GMT'', 0), (''UTC'', 0), (''WAT'', 1), (''CET'', 1), (''CEST'', 2), (''EAT'', 3)]"

definition MONTHS :: "(string \<times> int) list" where
  "MONTHS = [
     (''january'', 1), (''janvier'', 1), (''janeiro'', 1), (''janv'', 1),
     (''february'', 2), (''f'' @ chr 233 # ''vrier'', 2), (''fevereiro'', 2), (''fev'', 2),
     (''march'', 3), (''mars'', 3), (''mar'' @ chr 231 # ''o'', 3), (''marco'', 3),
     (''april'', 4), (''avril'', 4), (''abril'', 4),
     (''may'', 5), (''mai'', 5), (''maio'', 5),
     (''june'', 6), (''juin'', 6), (''junho'', 6),
     (''july'', 7), (''juillet'', 7), (''julho'', 7),
     (''august'', 8), (''ao'' @ chr 251 # ''t'', 8), (''aout'', 8), (''agosto'', 8),
     (''september'', 9), (''septembre'', 9), (''setembro'', 9), (''sept'', 9), (''sep'', 9),
     (''october'', 10), (''octobre'', 10), (''outubro'', 10), (''oct'', 10),
     (''november'', 11), (''novembre'', 11), (''novembro'', 11), (''nov'', 11),
     (''december'', 12), (''d'' @ chr 233 # ''cembre'', 12), (''dezembro'', 12), (''dec'', 12)]"

definition DEADLINE_LABELS :: "string list" where
  "DEADLINE_LABELS = [
     ''deadline for submission of applications'', ''deadline for submission'', ''deadline for proposals'',
     ''submission deadline'', ''closing date'', ''proposals must be received no later than'',
     ''proposals must be submitted'', ''deadline'',
     ''date limite de d'' @ chr 233 # ''p'' @ chr 244 # ''t des candidatures'',
     ''date limite de soumission des offres'', ''date limite de soumission'', ''date limite'',
     ''date de cl'' @ chr 244 # ''ture'',
     ''toutes les offres doivent '' @ chr 234 # ''tre re'' @ chr 231 # ''ues au plus tard'',
     ''toutes les offres doivent etre recues au plus tard'', ''date limite de remise des offres'',
     ''prazo para apresenta'' @ chr 231 # chr 227 # ''o de propostas'',
     ''prazo para submiss'' @ chr 227 # ''o de propostas'',
     ''prazo para apresenta'' @ chr 231 # chr 227 # ''o'', ''prazo de submiss'' @ chr 227 # ''o'',
     ''data limite'', ''prazo'']"

definition ISO_DATETIME_RE :: rx where
  "ISO_DATETIME_RE = cats [Grp ''year'' (digits 4 4), lit (CHR ''-''), Grp ''month_num'' (digits 2 2), lit (CHR ''-''),
     Grp ''day'' (digits 2 2), Cls (\<lambda>c. py_lower_char c \<in> {CHR ''t'', CHR '' ''}),
     Grp ''hour'' (digits 2 2), lit (CHR '':''), Grp ''minute'' (digits 2 2), Opt (Cat (lit (CHR '':'')) (digits 2 2)),
     spaces, Opt (Grp ''tz'' (alts [lits ''UTC'', lits ''GMT'', lits ''Z'']))]"

definition month_letter :: "char \<Rightarrow> bool" where
  "month_letter c = (let n = of_char c :: nat in
     (65 \<le> n \<and> n \<le> 90) \<or> (97 \<le> n \<and> n \<le> 122) \<or> 192 \<le> n)"

definition ascii_letter :: "char \<Rightarrow> bool" where
  "ascii_letter c = (let n = of_char c :: nat in (65 \<le> n \<and> n \<le> 90) \<or> (97 \<le> n \<and> n \<le> 122))"

definition a_grave :: string where "a_grave = [chr 224]"

definition day_month_year :: rx where
  "day_month_year = cats [Grp ''day'' (digits 1 2), spaces1, Grp ''month'' (Run 1 None month_letter), spaces1,
     Grp ''year'' (digits 4 4)]"

definition TEXTUAL_DATE_RE :: rx where
  "TEXTUAL_DATE_RE = cats [day_month_year,
     Opt (cats [spaces1,
       alts [lits ''at'', lits a_grave, lits ''le'', Cat (lits a_grave) (Opt (lit (CHR ''s''))), lits ''em''],
       spaces, Grp ''hour'' (digits 1 2), Cls (\<lambda>c. py_lower_char c \<in> {CHR ''h'', CHR '':'', CHR ''.''}),
       Grp ''minute'' (digits 2 2), spaces,
       Opt (Grp ''ampm'' (cats [Cls (\<lambda>c. py_lower_char c \<in> {CHR ''a'', CHR ''p''}), Opt (lit (CHR ''.'')),
         lit (CHR ''m''), Opt (lit (CHR ''.''))]))]),
     spaces, Opt (Grp ''tz'' (Run 2 (Some 4) ascii_letter))]"

definition FRENCH_HHMM_RE :: rx where
  "FRENCH_HHMM_RE = cats [day_month_year,
     Opt (cats [spaces1, lits a_grave, spaces1, Grp ''hour'' (digits 1 2), spaces, lit (CHR ''h''), spaces,
       Grp ''minute'' (digits 2 2)]),
     spaces, Opt (Grp ''tz'' (Run 2 (Some 4) ascii_letter))]"

text \<open>\<open>str.upper\<close> on a string of ASCII letters, which is all a zone group can hold.\<close>

definition ascii_upper :: "string \<Rightarrow> string" where
  "ascii_upper s = map (\<lambda>c. let n = of_char c :: nat in if 97 \<le> n \<and> n \<le> 122 then char_of (n - 32) else c) s"

definition number_of :: "captures \<Rightarrow> string \<Rightarrow> int" where
  \<comment> \<open>\<open>int(m.group(name))\<close> of a group of digits; 0 where the code defaults to 0\<close>
  "number_of g name = (case group_of g name of None \<Rightarrow> 0 | Some s \<Rightarrow> digits_value s)"

definition to_utc :: "int \<Rightarrow> int \<Rightarrow> (exn, instant) result" where
  \<comment> \<open>\<open>astimezone(UTC)\<close> of a wall clock reading and its offset\<close>
  "to_utc wall offset = (let t = wall - offset in
     if MIN_INSTANT \<le> t \<and> t \<le> MAX_INSTANT then Inr t else Inl (raised ''OverflowError''))"

abbreviation hours :: "int \<Rightarrow> int" where "hours n \<equiv> usecs (3600 * n)"

definition parse_iso_stamp :: "string \<Rightarrow> (exn, (instant \<times> string) option) result" where
  "parse_iso_stamp text = (case rx_at_start ISO_DATETIME_RE text of
     None \<Rightarrow> Inr None
   | Some g \<Rightarrow> (case make_datetime (number_of g ''year'') (number_of g ''month_num'') (number_of g ''day'')
         (number_of g ''hour'') (number_of g ''minute'') of
       None \<Rightarrow> Inr None
     | Some naive \<Rightarrow>
         (let tz_str = concat (map (\<lambda>c. if c = CHR ''Z'' then ''UTC'' else [c]) (ascii_upper (py_or (group_of g ''tz'') [])))
          in case map_of TZ_OFFSETS tz_str of
              None \<Rightarrow> Inr None
            | Some off \<Rightarrow> bind_result (to_utc naive (hours off)) (\<lambda>t. Inr (Some (t, tz_str))))))"

definition clock_hour :: "string option \<Rightarrow> int \<Rightarrow> int" where
  "clock_hour ampm hour = (case map_option (\<lambda>s. py_lower (filter (\<lambda>c. c \<noteq> CHR ''.'') s)) ampm of
     None \<Rightarrow> hour
   | Some a \<Rightarrow> if a = ''pm'' \<and> hour \<noteq> 12 then hour + 12 else if a = ''am'' \<and> hour = 12 then 0 else hour)"

definition NOT_A_ZONE :: "string list" where
  "NOT_A_ZONE = [''AT'', ''LE'', [chr 192], ''DE'', ''AUX'', ''LES'']"

text \<open>One turn of the loop over the two patterns.\<close>

definition textual_candidate :: "rx \<Rightarrow> string \<Rightarrow> (exn, (instant \<times> string) option) result" where
  "textual_candidate pattern text = (case rx_search pattern text of
     None \<Rightarrow> Inr None
   | Some g \<Rightarrow> (case map_of MONTHS (py_lower (py_or (group_of g ''month'') [])) of
       None \<Rightarrow> Inr None
     | Some month \<Rightarrow>
         (let hour = clock_hour (group_of g ''ampm'') (number_of g ''hour'');
              tz = ascii_upper (py_or (group_of g ''tz'') []);
              tz_str = (if tz \<in> set NOT_A_ZONE then [] else tz)
          in case map_of TZ_OFFSETS tz_str of
              None \<Rightarrow> Inr None
            | Some off \<Rightarrow> (case make_datetime (number_of g ''year'') month (number_of g ''day'') hour
                  (number_of g ''minute'') of
                None \<Rightarrow> Inr None
              | Some wall \<Rightarrow> bind_result (to_utc wall (hours off)) (\<lambda>t. Inr (Some (t, tz_str)))))))"

definition parse_textual :: "string \<Rightarrow> (exn, (instant \<times> string) option) result" where
  "parse_textual text =
     bind_result (textual_candidate TEXTUAL_DATE_RE text) (\<lambda>a.
       bind_result (textual_candidate FRENCH_HHMM_RE text) (\<lambda>b.
         Inr (case a of Some r \<Rightarrow> Some r | None \<Rightarrow> b)))"

definition extract_from_segment :: "string \<Rightarrow> (exn, (instant \<times> string \<times> string) option) result" where
  "extract_from_segment segment =
     bind_result (parse_iso_stamp segment) (\<lambda>a. case a of
       Some (t, tz) \<Rightarrow> Inr (Some (t, tz, take EVIDENCE_TEXT_LIMIT segment))
     | None \<Rightarrow> bind_result (parse_textual segment) (\<lambda>b. case b of
         Some (t, tz) \<Rightarrow> Inr (Some (t, tz, take EVIDENCE_TEXT_LIMIT segment))
       | None \<Rightarrow> Inr None))"

text \<open>\<open>text.find(needle)\<close>, \<open>None\<close> for -1.\<close>

fun find_in :: "string \<Rightarrow> string \<Rightarrow> nat option" where
  "find_in needle [] = (if needle = [] then Some 0 else None)"
| "find_in needle (c # cs) = (if has_prefix needle (c # cs) then Some 0 else map_option Suc (find_in needle cs))"

text \<open>The text after the label: 250 characters at most, stripped, without leading punctuation.\<close>

definition segment_after :: "string \<Rightarrow> nat \<Rightarrow> string \<Rightarrow> string" where
  "segment_after label i text =
     py_strip (dropWhile (\<lambda>c. c \<in> set '':;,. '') (py_strip (take 250 (drop (i + length label) text))))"

fun try_labels :: "string list \<Rightarrow> string \<Rightarrow> int \<Rightarrow> string \<Rightarrow> (exn, deadline_result option) result" where
  "try_labels [] text document_id filename = Inr None"
| "try_labels (label # labels) text document_id filename = (case find_in (py_lower label) (py_lower text) of
     None \<Rightarrow> try_labels labels text document_id filename
   | Some i \<Rightarrow>
       (let segment = segment_after label i text
        in if segment = [] then try_labels labels text document_id filename
           else bind_result (extract_from_segment segment) (\<lambda>found. case found of
               Some (t, tz, original) \<Rightarrow>
                 bind_result (resolved t ''document'' (Some tz) (JStr original) None (Some document_id) (Some filename))
                   (\<lambda>r. Inr (Some r))
             | None \<Rightarrow> bind_result (unresolved REASON_UNPARSEABLE
                   [(''original_text'', JStr (take EVIDENCE_TEXT_LIMIT (label @ '' '' @ segment))),
                    (''document_id'', JInt document_id), (''filename'', JStr filename)]) (\<lambda>r. Inr (Some r)))))"

definition extract_deadline_from_text :: "string \<Rightarrow> int \<Rightarrow> string \<Rightarrow> (exn, deadline_result option) result" where
  "extract_deadline_from_text text document_id filename =
     (if text = [] then Inr None else try_labels DEADLINE_LABELS text document_id filename)"

section \<open>The hierarchy of sources\<close>

record deadline_env =
  de_local_offset :: "int \<Rightarrow> int"
  de_repr :: "json \<Rightarrow> string"
  de_isoformat :: "instant \<Rightarrow> string"

definition CONFLICT_TOLERANCE :: int where
  "CONFLICT_TOLERANCE = usecs 900"

definition astimezone_utc :: "deadline_env \<Rightarrow> py_datetime \<Rightarrow> (exn, instant) result" where
  "astimezone_utc env d = (case d of Naive t \<Rightarrow> to_utc t (de_local_offset env t) | Aware t off \<Rightarrow> to_utc t off)"

definition deadline_from_listing ::
  "deadline_env \<Rightarrow> tender_listing \<Rightarrow> string \<Rightarrow> (exn, deadline_result option) result" where
  "deadline_from_listing env l source =
     (let raw = obj_get (ls_raw_metadata l) ''deadline_raw''
      in case ls_deadline_at l of
          Some d \<Rightarrow> bind_result (astimezone_utc env d) (\<lambda>t.
            bind_result (resolved t source (ls_deadline_timezone l) raw (Some (ls_url l)) None None) (\<lambda>r. Inr (Some r)))
        | None \<Rightarrow> if json_truthy raw
            then bind_result (unresolved REASON_MISSING_TIMEZONE
                [(''original_text'', JStr (take 200 (py_str (de_repr env) raw))), (''source_url'', JStr (ls_url l))])
              (\<lambda>r. Inr (Some r))
            else Inr None)"

definition deadline_from_detail :: "deadline_env \<Rightarrow> tender_detail \<Rightarrow> (exn, deadline_result option) result" where
  "deadline_from_detail env d = deadline_from_listing env (td_listing d) ''detail_page''"

definition is_resolved :: "deadline_result option \<Rightarrow> bool" where
  "is_resolved r = (case r of None \<Rightarrow> False | Some d \<Rightarrow> dl_status d = RESOLVED)"

definition deadlines_conflict :: "deadline_result \<Rightarrow> deadline_result \<Rightarrow> bool" where
  "deadlines_conflict a b = (case (dl_deadline_utc a, dl_deadline_utc b) of
     (Some s, Some t) \<Rightarrow> \<bar>s - t\<bar> > CONFLICT_TOLERANCE | _ \<Rightarrow> False)"

definition evidence_for :: "deadline_env \<Rightarrow> deadline_result \<Rightarrow> (exn, (string \<times> json) list) result" where
  "evidence_for env r =
     bind_result (case map_of (dl_evidence r) ''original_text'' of None \<Rightarrow> Inr (JStr []) | Some v \<Rightarrow> excerpt v)
       (\<lambda>text. Inr [(''source'', JStr (dl_source r)),
          (''deadline_utc'', case dl_deadline_utc r of None \<Rightarrow> JNull | Some t \<Rightarrow> JStr (de_isoformat env t)),
          (''deadline_timezone'', opt_str_json (dl_deadline_timezone r)), (''original_text'', text),
          (''source_url'', case map_of (dl_evidence r) ''source_url'' of None \<Rightarrow> JStr [] | Some v \<Rightarrow> v)])"

text \<open>The loop over the documents: the first one with a date.\<close>

fun search_documents :: "(int \<times> string \<times> string) list \<Rightarrow> (exn, deadline_result option) result" where
  "search_documents [] = Inr None"
| "search_documents ((i, filename, text) # docs) =
     (if text = [] then search_documents docs
      else bind_result (extract_deadline_from_text text i filename) (\<lambda>r.
        if is_resolved r then Inr r else search_documents docs))"

definition reason_of :: "deadline_result \<Rightarrow> string \<Rightarrow> string" where
  "reason_of r fallback = (case map_of (dl_evidence r) ''reason_code'' of Some (JStr s) \<Rightarrow> s | _ \<Rightarrow> fallback)"

definition resolve_tender_deadline ::
  "deadline_env \<Rightarrow> tender_listing \<Rightarrow> tender_detail option \<Rightarrow> (int \<times> string \<times> string) list
     \<Rightarrow> (exn, deadline_result) result" where
  "resolve_tender_deadline env listing detail docs =
     bind_result (deadline_from_listing env listing ''listing_page'') (\<lambda>l.
     bind_result (case detail of None \<Rightarrow> Inr None | Some d \<Rightarrow> deadline_from_detail env d) (\<lambda>d.
       if is_resolved l \<and> is_resolved d \<and> deadlines_conflict (the l) (the d)
       then bind_result (evidence_for env (the l)) (\<lambda>a. bind_result (evidence_for env (the d)) (conflicting a))
       else if is_resolved l then Inr (the l)
       else if is_resolved d then Inr (the d)
       else bind_result (search_documents docs) (\<lambda>found. case found of
           Some r \<Rightarrow> Inr r
         | None \<Rightarrow> (case l of
             Some r \<Rightarrow> unresolved (reason_of r REASON_MISSING_TIMEZONE) (dl_evidence r)
           | None \<Rightarrow> (case d of
               Some r \<Rightarrow> unresolved (reason_of r REASON_NOT_PRESENT_ON_DETAIL) (dl_evidence r)
             | None \<Rightarrow> unresolved (if docs \<noteq> [] then REASON_NOT_FOUND_IN_DOCUMENTS
                 else REASON_NOT_PRESENT_ON_LISTING) [])))))"

section \<open>The table of resolutions\<close>

record deadline_row =
  dr_tender_id :: int
  dr_deadline_resolved :: "instant option"
  dr_deadline_source :: string
  dr_deadline_timezone :: "string option"
  dr_deadline_evidence :: "(string \<times> json) list"
  dr_deadline_resolved_at :: instant

definition deadline_row_of :: "int \<Rightarrow> deadline_result \<Rightarrow> instant \<Rightarrow> deadline_row" where
  "deadline_row_of tender_id r resolved_at =
     \<lparr>dr_tender_id = tender_id,
      dr_deadline_resolved = (if dl_status r = RESOLVED then dl_deadline_utc r else None),
      dr_deadline_source = dl_source r, dr_deadline_timezone = dl_deadline_timezone r,
      dr_deadline_evidence = dl_evidence r, dr_deadline_resolved_at = resolved_at\<rparr>"

definition apply_deadline_resolution ::
  "int \<Rightarrow> deadline_result \<Rightarrow> instant \<Rightarrow> deadline_row list \<Rightarrow> deadline_row list" where
  "apply_deadline_resolution tender_id r resolved_at rows =
     (if tender_id \<in> dr_tender_id ` set rows
      then map (\<lambda>row. if dr_tender_id row = tender_id then deadline_row_of tender_id r resolved_at else row) rows
      else rows @ [deadline_row_of tender_id r resolved_at])"

text \<open>The service and the table as the coordinator uses them: it passes no documents.\<close>

definition deadline_stage ::
  "deadline_env \<Rightarrow> tender_listing \<Rightarrow> tender_detail \<Rightarrow> string \<Rightarrow> ('w world, deadline_result) action" where
  "deadline_stage env listing detail correlation_id w = (resolve_tender_deadline env listing (Some detail) [], w)"

definition deadline_write ::
  "tender \<Rightarrow> deadline_result \<Rightarrow> instant \<Rightarrow> deadline_row list world \<Rightarrow> deadline_row list world" where
  "deadline_write t r at_time w = w\<lparr>wl_ext := apply_deadline_resolution (tn_id t) r at_time (wl_ext w)\<rparr>"

end
