(* ===== verification/DeadlineProps.thy ===== *)
theory DeadlineProps
  imports Deadline DedupRerun
begin

text \<open>
  What a deadline resolution guarantees: every result is well formed and its excerpt bounded, the
  hierarchy of the sources is followed exactly, a timestamp written in a document is read back,
  no date is taken from a text without a known zone, and the table holds one row per tender.
\<close>

section \<open>Well-formed results\<close>

fun short_excerpt :: "json \<Rightarrow> bool" where
  "short_excerpt (JStr s) = (length s \<le> EVIDENCE_TEXT_LIMIT)"
| "short_excerpt (JList l) = (length l \<le> EVIDENCE_TEXT_LIMIT)"
| "short_excerpt _ = False"

definition excerpt_bounded :: "(string \<times> json) list \<Rightarrow> bool" where
  "excerpt_bounded e = (case map_of e ''original_text'' of None \<Rightarrow> True | Some v \<Rightarrow> short_excerpt v)"

definition status_source :: "string \<Rightarrow> string list" where
  "status_source s = (if s = RESOLVED then [''listing_page'', ''detail_page'', ''document'']
     else if s = CONFLICTING then [''conflicting''] else [''unresolved''])"

definition well_formed :: "deadline_result \<Rightarrow> bool" where
  "well_formed r \<longleftrightarrow> dl_status r \<in> {RESOLVED, UNRESOLVED, CONFLICTING}
     \<and> (dl_deadline_utc r \<noteq> None \<longleftrightarrow> dl_status r = RESOLVED)
     \<and> dl_source r \<in> set (status_source (dl_status r))
     \<and> excerpt_bounded (dl_evidence r)"

lemma statuses_distinct [simp]:
  "RESOLVED \<noteq> UNRESOLVED" "RESOLVED \<noteq> CONFLICTING" "UNRESOLVED \<noteq> CONFLICTING"
  "UNRESOLVED \<noteq> RESOLVED" "CONFLICTING \<noteq> RESOLVED" "CONFLICTING \<noteq> UNRESOLVED"
  by (simp_all add: RESOLVED_def UNRESOLVED_def CONFLICTING_def)

lemma excerpt_short: "excerpt v = Inr u \<Longrightarrow> short_excerpt u"
  by (cases v) auto

lemma resolved_shape:
  assumes "resolved t s tz text url i f = Inr r"
  shows "dl_status r = RESOLVED \<and> dl_source r = s \<and> dl_deadline_utc r = Some t \<and> dl_deadline_timezone r = tz
    \<and> excerpt_bounded (dl_evidence r)"
proof -
  obtain e where e: "dl_status r = RESOLVED" "dl_source r = s" "dl_deadline_utc r = Some t"
      "dl_deadline_timezone r = tz" "dl_evidence r = e
        @ (if py_truthy url then [(''source_url'', opt_str_json url)] else [])
        @ (case i of None \<Rightarrow> [] | Some i \<Rightarrow> [(''document_id'', JInt i)])
        @ (if py_truthy f then [(''filename'', opt_str_json f)] else [])"
      "e = [] \<or> (\<exists>v. e = [(''original_text'', v)] \<and> short_excerpt v)"
    using assms excerpt_short
    by (fastforce simp: resolved_def check_deadline_result_def bind_result_eq_Inr split: if_splits)
  have "map_of (dl_evidence r) ''original_text'' = map_of e ''original_text''"
    unfolding e(5) by (cases i) (auto simp: map_add_def split: option.splits)
  with e show ?thesis by (auto simp: excerpt_bounded_def)
qed

lemma resolved_ok: "resolved t s tz (JStr text) url i f \<noteq> Inl x"
  by (simp add: resolved_def check_deadline_result_def)

lemma obj_set_keys: "set (map fst (obj_set d k v)) = insert k (set (map fst d))"
proof (induction d)
  case (Cons p d)
  then show ?case by (cases p; cases "fst p = k") (simp_all add: insert_commute)
qed simp

lemma distinct_obj_set: "distinct (map fst d) \<Longrightarrow> distinct (map fst (obj_set d k v))"
proof (induction d)
  case (Cons p d)
  then show ?case using obj_set_keys [of d k v] by (cases p) auto
qed simp

lemma distinct_obj_update: "distinct (map fst d) \<Longrightarrow> distinct (map fst (obj_update d e))"
  unfolding obj_update_def
proof (induction e arbitrary: d)
  case (Cons p e)
  then show ?case by (cases p) (simp add: distinct_obj_set)
qed simp

lemma unresolved_shape:
  assumes "unresolved c extra = Inr r" "excerpt_bounded extra" "distinct (map fst extra)"
  shows "dl_status r = UNRESOLVED \<and> dl_source r = ''unresolved'' \<and> dl_deadline_utc r = None
    \<and> excerpt_bounded (dl_evidence r) \<and> distinct (map fst (dl_evidence r))"
proof -
  have r: "dl_status r = UNRESOLVED" "dl_source r = ''unresolved''" "dl_deadline_utc r = None"
      "dl_evidence r = obj_update [(''reason_code'', JStr c)] extra"
    using assms(1) by (auto simp: unresolved_def check_deadline_result_def split: if_splits)
  have "map_of (dl_evidence r) ''original_text'' = map_of extra ''original_text''"
  proof (cases "''original_text'' \<in> fst ` set extra")
    case True
    then show ?thesis unfolding r(4) by (rule map_of_obj_update_in [OF _ assms(3)])
  next
    case False
    have "map_of extra ''original_text'' = None" using False by (simp add: map_of_eq_None_iff)
    then show ?thesis unfolding r(4) map_of_obj_update_notin [OF False] by simp
  qed
  moreover have "distinct (map fst (dl_evidence r))" unfolding r(4) by (rule distinct_obj_update) simp
  ultimately show ?thesis using r assms(2) by (simp add: excerpt_bounded_def)
qed

lemma unresolved_ok: "\<exists>r. unresolved c extra = Inr r"
  by (simp add: unresolved_def check_deadline_result_def)

section \<open>Documents\<close>

lemma textual_zone: "textual_candidate p s = Inr (Some (t, tz)) \<Longrightarrow> tz \<in> fst ` set TZ_OFFSETS"
  by (auto simp: textual_candidate_def bind_result_eq_Inr Let_def split: option.splits
      dest!: map_of_SomeD intro!: image_eqI)

lemma iso_zone: "parse_iso_stamp s = Inr (Some (t, tz)) \<Longrightarrow> tz \<in> fst ` set TZ_OFFSETS"
  by (auto simp: parse_iso_stamp_def bind_result_eq_Inr Let_def split: option.splits
      dest!: map_of_SomeD intro!: image_eqI)

lemma segment_shape:
  assumes "extract_from_segment s = Inr (Some (t, tz, text))"
  shows "tz \<in> fst ` set TZ_OFFSETS \<and> text = take EVIDENCE_TEXT_LIMIT s"
  using assms iso_zone textual_zone [of TEXTUAL_DATE_RE] textual_zone [of FRENCH_HHMM_RE]
  by (fastforce simp: extract_from_segment_def parse_textual_def bind_result_eq_Inr split: option.splits)

definition from_document :: "deadline_result \<Rightarrow> bool" where
  "from_document r \<longleftrightarrow> excerpt_bounded (dl_evidence r)
     \<and> (dl_status r = RESOLVED \<and> dl_source r = ''document'' \<and> dl_deadline_utc r \<noteq> None
          \<and> (\<exists>tz \<in> fst ` set TZ_OFFSETS. dl_deadline_timezone r = Some tz)
        \<or> dl_status r = UNRESOLVED \<and> dl_source r = ''unresolved'' \<and> dl_deadline_utc r = None)"

lemma try_labels_shape: "try_labels labels text i f = Inr (Some r) \<Longrightarrow> from_document r"
proof (induction labels)
  case (Cons label labels)
  show ?case
  proof (cases "find_in (py_lower label) (py_lower text)")
    case None
    with Cons show ?thesis by simp
  next
    case (Some k)
    let ?s = "segment_after label k text"
    show ?thesis
    proof (cases "?s = []")
      case True
      with Some Cons show ?thesis by simp
    next
      case False
      then obtain found where found: "extract_from_segment ?s = Inr found"
        using Cons.prems Some by (auto simp: bind_result_eq_Inr Let_def)
      show ?thesis
      proof (cases found)
        case None
        then have "unresolved REASON_UNPARSEABLE
            [(''original_text'', JStr (take EVIDENCE_TEXT_LIMIT (label @ '' '' @ ?s))),
             (''document_id'', JInt i), (''filename'', JStr f)] = Inr r"
          using Cons.prems Some False found by (auto simp: bind_result_eq_Inr Let_def)
        then show ?thesis using unresolved_shape by (fastforce simp: from_document_def excerpt_bounded_def)
      next
        case [simp]: (Some e)
        obtain t tz text' where [simp]: "e = (t, tz, text')" by (cases e)
        have "resolved t ''document'' (Some tz) (JStr text') None (Some i) (Some f) = Inr r"
          using Cons.prems \<open>find_in _ _ = Some k\<close> False found by (auto simp: bind_result_eq_Inr Let_def)
        then show ?thesis using resolved_shape segment_shape found by (fastforce simp: from_document_def)
      qed
    qed
  qed
qed simp

lemma extract_shape: "extract_deadline_from_text text i f = Inr (Some r) \<Longrightarrow> from_document r"
  using try_labels_shape by (auto simp: extract_deadline_from_text_def split: if_splits)

lemma documents_shape:
  "search_documents docs = Inr (Some r) \<Longrightarrow> from_document r \<and> dl_status r = RESOLVED"
proof (induction docs)
  case (Cons d docs)
  obtain i f body where [simp]: "d = (i, f, body)" by (cases d)
  show ?case
  proof (cases "body = []")
    case False
    then obtain e where e: "extract_deadline_from_text body i f = Inr e"
        "(if is_resolved e then Inr e else search_documents docs) = Inr (Some r)"
      using Cons.prems by (auto simp: bind_result_eq_Inr)
    show ?thesis
    proof (cases "is_resolved e")
      case True
      then show ?thesis using e extract_shape by (auto simp: is_resolved_def)
    next
      case False
      then show ?thesis using e Cons.IH by simp
    qed
  qed (use Cons in simp)
qed simp

section \<open>The whole resolution\<close>

lemma listing_shape:
  assumes "deadline_from_listing env l source = Inr (Some r)"
  shows "excerpt_bounded (dl_evidence r) \<and>
     (dl_status r = RESOLVED \<and> dl_source r = source \<and> dl_deadline_utc r \<noteq> None
      \<or> dl_status r = UNRESOLVED \<and> dl_source r = ''unresolved'' \<and> dl_deadline_utc r = None
        \<and> distinct (map fst (dl_evidence r)))"
proof (cases "ls_deadline_at l")
  case None
  then have "unresolved REASON_MISSING_TIMEZONE
      [(''original_text'', JStr (take 200 (py_str (de_repr env) (obj_get (ls_raw_metadata l) ''deadline_raw'')))),
       (''source_url'', JStr (ls_url l))] = Inr r"
    using assms by (auto simp: deadline_from_listing_def Let_def bind_result_eq_Inr split: if_splits)
  then show ?thesis using unresolved_shape by (fastforce simp: excerpt_bounded_def EVIDENCE_TEXT_LIMIT_def)
next
  case (Some d)
  then show ?thesis using assms resolved_shape
    by (fastforce simp: deadline_from_listing_def Let_def bind_result_eq_Inr)
qed

lemma conflicting_shape:
  "conflicting a b = Inr r \<Longrightarrow> dl_status r = CONFLICTING \<and> dl_source r = ''conflicting'' \<and> dl_deadline_utc r = None
     \<and> excerpt_bounded (dl_evidence r)"
  by (auto simp: conflicting_def check_deadline_result_def excerpt_bounded_def split: if_splits)

lemma conflicting_ok: "\<exists>r. conflicting a b = Inr r"
  by (simp add: conflicting_def check_deadline_result_def)

text \<open>C21: whatever a tender's pages and documents say, a resolution that returns is well formed: its
  status is one of the three, it carries a deadline exactly when it is resolved, its source fits
  its status, the stored excerpt of the source text is at most 200 long, and the row written for it
  holds exactly that deadline.\<close>

theorem resolution_well_formed:
  assumes "resolve_tender_deadline env listing detail docs = Inr r"
  shows "well_formed r \<and> dl_source r \<in> set DEADLINE_SOURCES
    \<and> dr_deadline_resolved (deadline_row_of i r at_time) = dl_deadline_utc r"
proof -
  obtain l where l: "deadline_from_listing env listing ''listing_page'' = Inr l"
    using assms by (auto simp: resolve_tender_deadline_def bind_result_eq_Inr)
  obtain d where d: "(case detail of None \<Rightarrow> Inr None | Some d \<Rightarrow> deadline_from_detail env d) = Inr d"
    using assms by (auto simp: resolve_tender_deadline_def bind_result_eq_Inr l)
  have lw: "well_formed x \<and> distinct (map fst (dl_evidence x)) \<or> dl_status x = RESOLVED \<and> well_formed x" if "l = Some x" for x
    using listing_shape [of env listing "''listing_page''" x] l that
    by (auto simp: well_formed_def status_source_def)
  have dw: "well_formed x \<and> distinct (map fst (dl_evidence x)) \<or> dl_status x = RESOLVED \<and> well_formed x" if dx: "d = Some x" for x
  proof -
    obtain t where "detail = Some t" "deadline_from_detail env t = Inr (Some x)"
      using d dx by (cases detail) auto
    then show ?thesis using listing_shape [of env "td_listing t" "''detail_page''" x]
      by (auto simp: well_formed_def status_source_def deadline_from_detail_def)
  qed
  have un: "well_formed r'" if "unresolved c (dl_evidence x) = Inr r'" "well_formed x" "distinct (map fst (dl_evidence x))" for c x r'
    using unresolved_shape [OF that(1) _ that(3)] that(2) by (auto simp: well_formed_def status_source_def)
  have un0: "well_formed r'" if "unresolved c [] = Inr r'" for c r'
    using unresolved_shape [OF that] by (auto simp: well_formed_def status_source_def excerpt_bounded_def)
  have w: "well_formed r"
  proof (cases "is_resolved l \<and> is_resolved d \<and> deadlines_conflict (the l) (the d)")
    case True
    then obtain a b where "conflicting a b = Inr r"
      using assms l d by (auto simp: resolve_tender_deadline_def bind_result_eq_Inr)
    from conflicting_shape [OF this] show ?thesis by (simp add: well_formed_def status_source_def)
  next
    case conflict: False
    show ?thesis
    proof (cases "is_resolved l \<or> is_resolved d")
      case True
      then have "Some r = l \<or> Some r = d"
        using assms l d conflict by (auto simp: resolve_tender_deadline_def is_resolved_def split: option.splits if_splits)
      then show ?thesis using lw dw by metis
    next
      case False
      then obtain found where found: "search_documents docs = Inr found"
          "(case found of Some r \<Rightarrow> Inr r | None \<Rightarrow> (case l of
             Some r \<Rightarrow> unresolved (reason_of r REASON_MISSING_TIMEZONE) (dl_evidence r)
           | None \<Rightarrow> (case d of
               Some r \<Rightarrow> unresolved (reason_of r REASON_NOT_PRESENT_ON_DETAIL) (dl_evidence r)
             | None \<Rightarrow> unresolved (if docs \<noteq> [] then REASON_NOT_FOUND_IN_DOCUMENTS
                 else REASON_NOT_PRESENT_ON_LISTING) []))) = Inr r"
        using assms l d by (auto simp: resolve_tender_deadline_def bind_result_eq_Inr)
      show ?thesis
      proof (cases found)
        case (Some x)
        then have "x = r" using found(2) by simp
        then show ?thesis using documents_shape [of docs x] found(1) Some
          by (auto simp: from_document_def well_formed_def status_source_def)
      next
        case [simp]: None
        show ?thesis
        proof (cases l)
          case (Some x)
          then show ?thesis using found(2) un lw False by (auto simp: is_resolved_def)
        next
          case l: None
          show ?thesis
          proof (cases d)
            case (Some x)
            then show ?thesis using found(2) l un dw False by (auto simp: is_resolved_def)
          next
            case None
            then show ?thesis using found(2) l un0 by simp
          qed
        qed
      qed
    qed
  qed
  then have "dl_source r \<in> set DEADLINE_SOURCES"
    by (auto simp: well_formed_def status_source_def DEADLINE_SOURCES_def split: if_splits)
  moreover have "dr_deadline_resolved (deadline_row_of i r at_time) = dl_deadline_utc r"
    using w by (cases "dl_deadline_utc r") (auto simp: well_formed_def deadline_row_of_def)
  ultimately show ?thesis using w by simp
qed

definition demo_deadline_env :: deadline_env where
  "demo_deadline_env = \<lparr>de_local_offset = (\<lambda>_. hours 1), de_repr = (\<lambda>_. []), de_isoformat = (\<lambda>_. [])\<rparr>"

definition listing_due :: "py_datetime option \<Rightarrow> tender_listing" where
  "listing_due d = \<lparr>ls_external_id = ''x'', ls_title = ''t'', ls_url = ''u'', ls_published_at = None,
     ls_deadline_at = d, ls_deadline_timezone = Some ''GMT'', ls_raw_metadata = []\<rparr>"

theorem resolution_well_formed_witness:
  "\<exists>r. resolve_tender_deadline demo_deadline_env (listing_due (Some (Aware 5 0))) None [] = Inr r \<and> well_formed r"
proof -
  obtain r where r: "resolve_tender_deadline demo_deadline_env (listing_due (Some (Aware 5 0))) None [] = Inr r"
    by (simp add: resolve_tender_deadline_def deadline_from_listing_def listing_due_def astimezone_utc_def to_utc_def
        MIN_INSTANT_def MAX_INSTANT_def obj_get_def resolved_def check_deadline_result_def is_resolved_def)
  from resolution_well_formed [OF this] r show ?thesis by blast
qed

section \<open>The order of the sources\<close>

text \<open>The instant a listing states: its deadline in UTC.  The raw text beside it is a string, as the
  adapters write it.\<close>

definition states :: "deadline_env \<Rightarrow> tender_listing \<Rightarrow> instant option \<Rightarrow> bool" where
  "states env l t \<longleftrightarrow> (case ls_deadline_at l of None \<Rightarrow> t = None
       | Some d \<Rightarrow> (\<exists>u. t = Some u \<and> astimezone_utc env d = Inr u))
     \<and> (obj_get (ls_raw_metadata l) ''deadline_raw'' = JNull
        \<or> (\<exists>s. obj_get (ls_raw_metadata l) ''deadline_raw'' = JStr s))"

lemma states_some:
  assumes "states env l (Some t)"
  obtains r where "deadline_from_listing env l source = Inr (Some r)" "dl_status r = RESOLVED"
    "dl_deadline_utc r = Some t" "dl_source r = source"
    "map_of (dl_evidence r) ''original_text'' = None \<or> (\<exists>s. map_of (dl_evidence r) ''original_text'' = Some (JStr s))"
proof -
  obtain d where d: "ls_deadline_at l = Some d" "astimezone_utc env d = Inr t"
    using assms by (auto simp: states_def split: option.splits)
  let ?raw = "obj_get (ls_raw_metadata l) ''deadline_raw''"
  have "?raw = JNull \<or> (\<exists>s. ?raw = JStr s)" using assms by (auto simp: states_def)
  then obtain r where r: "resolved t source (ls_deadline_timezone l) ?raw (Some (ls_url l)) None None = Inr r"
      "map_of (dl_evidence r) ''original_text'' = None \<or> (\<exists>s. map_of (dl_evidence r) ''original_text'' = Some (JStr s))"
    by (cases "json_truthy ?raw") (auto simp: resolved_def check_deadline_result_def)
  have "deadline_from_listing env l source = Inr (Some r)"
    by (simp add: deadline_from_listing_def d r Let_def)
  then show thesis using that resolved_shape [OF r(1)] r(2) by blast
qed

lemma states_none:
  assumes "states env l None"
  shows "\<exists>r. deadline_from_listing env l source = Inr r \<and> \<not> is_resolved r"
  using assms unresolved_ok unresolved_shape
  by (fastforce simp: states_def deadline_from_listing_def Let_def is_resolved_def excerpt_bounded_def unresolved_def
      check_deadline_result_def split: option.splits)

definition concludes :: "(exn, deadline_result) result \<Rightarrow> string \<Rightarrow> string \<Rightarrow> instant option \<Rightarrow> bool" where
  "concludes res status source utc \<longleftrightarrow>
     (\<exists>r. res = Inr r \<and> dl_status r = status \<and> dl_source r = source \<and> dl_deadline_utc r = utc)"

lemma evidence_ok:
  "map_of (dl_evidence r) ''original_text'' = None \<or> (\<exists>s. map_of (dl_evidence r) ''original_text'' = Some (JStr s))
     \<Longrightarrow> \<exists>e. evidence_for env r = Inr e"
  by (auto simp: evidence_for_def)

text \<open>C22: the hierarchy of the sources, exactly: two pages that state deadlines more than 900 seconds apart
  conflict and nothing is taken; otherwise the listing's deadline is taken, whatever the detail page
  says within the tolerance; the detail page's only when the listing has none; the first document
  with a date only when neither page has one; and then the tender is unresolved.\<close>

theorem resolution_hierarchy:
  assumes listing: "states env listing lt"
    and detail: "case detail of None \<Rightarrow> dt = None | Some d \<Rightarrow> states env (td_listing d) dt"
  shows "case (lt, dt) of
      (Some a, Some b) \<Rightarrow>
        (if \<bar>a - b\<bar> > usecs 900
         then concludes (resolve_tender_deadline env listing detail docs) ''conflicting'' ''conflicting'' None
         else concludes (resolve_tender_deadline env listing detail docs) ''resolved'' ''listing_page'' (Some a))
    | (Some a, None) \<Rightarrow> concludes (resolve_tender_deadline env listing detail docs) ''resolved'' ''listing_page'' (Some a)
    | (None, Some b) \<Rightarrow> concludes (resolve_tender_deadline env listing detail docs) ''resolved'' ''detail_page'' (Some b)
    | (None, None) \<Rightarrow> (case search_documents docs of
          Inl x \<Rightarrow> resolve_tender_deadline env listing detail docs = Inl x
        | Inr (Some r) \<Rightarrow> resolve_tender_deadline env listing detail docs = Inr r
        | Inr None \<Rightarrow> concludes (resolve_tender_deadline env listing detail docs) ''unresolved'' ''unresolved'' None)"
proof -
  let ?detail = "case detail of None \<Rightarrow> Inr None | Some d \<Rightarrow> deadline_from_detail env d"
  note names = RESOLVED_def [symmetric] UNRESOLVED_def [symmetric] CONFLICTING_def [symmetric]
  have dnone: "\<exists>r. ?detail = Inr r \<and> \<not> is_resolved r" if "dt = None"
    using detail that states_none [of env] by (cases detail) (auto simp: is_resolved_def deadline_from_detail_def)
  have dsome: "\<exists>r. ?detail = Inr (Some r) \<and> dl_status r = RESOLVED \<and> dl_deadline_utc r = Some b
      \<and> dl_source r = ''detail_page'' \<and> (\<exists>e. evidence_for env r = Inr e)" if b: "dt = Some b" for b
  proof -
    obtain d where d: "detail = Some d" "states env (td_listing d) (Some b)"
      using detail b by (cases detail) auto
    show ?thesis by (rule states_some [OF d(2), of "''detail_page''"])
      (use d evidence_ok in \<open>auto simp: deadline_from_detail_def\<close>)
  qed
  show ?thesis
  proof (cases lt)
    case (Some a)
    then obtain l where l: "deadline_from_listing env listing ''listing_page'' = Inr (Some l)" "dl_status l = RESOLVED"
        "dl_deadline_utc l = Some a" "dl_source l = ''listing_page''" and el: "\<exists>e. evidence_for env l = Inr e"
      using states_some [of env listing a "''listing_page''"] listing evidence_ok by metis
    show ?thesis
    proof (cases dt)
      case None
      then obtain r where "?detail = Inr r" "\<not> is_resolved r" using dnone by blast
      then show ?thesis using l Some None
        by (simp add: resolve_tender_deadline_def is_resolved_def concludes_def flip: RESOLVED_def)
    next
      case (Some b)
      then obtain d where d: "?detail = Inr (Some d)" "dl_status d = RESOLVED" "dl_deadline_utc d = Some b"
          and ed: "\<exists>e. evidence_for env d = Inr e" using dsome by blast
      have conflict: "deadlines_conflict l d = (\<bar>a - b\<bar> > usecs 900)"
        by (simp add: deadlines_conflict_def l d CONFLICT_TOLERANCE_def)
      show ?thesis
      proof (cases "\<bar>a - b\<bar> > usecs 900")
        case True
        obtain ea eb where "evidence_for env l = Inr ea" "evidence_for env d = Inr eb" using el ed by blast
        moreover obtain r where "conflicting ea eb = Inr r" using conflicting_ok by blast
        ultimately have "resolve_tender_deadline env listing detail docs = Inr r"
          using l(1,2) d(1,2) conflict True by (simp add: resolve_tender_deadline_def is_resolved_def)
        then show ?thesis using conflicting_shape [OF \<open>conflicting ea eb = Inr r\<close>] \<open>lt = Some a\<close> Some True
          by (simp add: concludes_def flip: CONFLICTING_def)
      next
        case False
        then have "resolve_tender_deadline env listing detail docs = Inr l"
          using l(1,2) d(1,2) conflict by (simp add: resolve_tender_deadline_def is_resolved_def)
        then show ?thesis using l \<open>lt = Some a\<close> Some False by (simp add: concludes_def flip: RESOLVED_def)
      qed
    qed
  next
    case lt: None
    then obtain l where l: "deadline_from_listing env listing ''listing_page'' = Inr l" "\<not> is_resolved l"
      using states_none [of env listing] listing by blast
    show ?thesis
    proof (cases dt)
      case (Some b)
      then obtain d where d: "?detail = Inr (Some d)" "dl_status d = RESOLVED" "dl_deadline_utc d = Some b"
          "dl_source d = ''detail_page''" using dsome by blast
      then have "resolve_tender_deadline env listing detail docs = Inr d"
        using l by (simp add: resolve_tender_deadline_def is_resolved_def)
      then show ?thesis using d lt Some by (simp add: concludes_def flip: RESOLVED_def)
    next
      case None
      then obtain d where d: "?detail = Inr d" "\<not> is_resolved d" using dnone by blast
      show ?thesis
      proof (cases "search_documents docs")
        case (Inl x)
        then show ?thesis using l d lt None by (simp add: resolve_tender_deadline_def)
      next
        case (Inr found)
        have un: "concludes (unresolved c e) ''unresolved'' ''unresolved'' None" for c e
          by (simp add: concludes_def unresolved_def check_deadline_result_def flip: UNRESOLVED_def)
        show ?thesis using l d lt None Inr un
          by (cases found; cases l; cases d) (simp_all add: resolve_tender_deadline_def)
      qed
    qed
  qed
qed

theorem resolution_hierarchy_witness:
  "concludes (resolve_tender_deadline demo_deadline_env (listing_due (Some (Aware 5 0))) None []) ''resolved'' ''listing_page'' (Some 5)"
proof -
  have "states demo_deadline_env (listing_due (Some (Aware 5 0))) (Some 5)"
    by (simp add: states_def listing_due_def astimezone_utc_def to_utc_def MIN_INSTANT_def MAX_INSTANT_def obj_get_def)
  from resolution_hierarchy [OF this, of None None "[]"] show ?thesis by simp
qed

section \<open>Reading a timestamp back\<close>

definition stamp :: "int \<Rightarrow> int \<Rightarrow> int \<Rightarrow> int \<Rightarrow> int \<Rightarrow> string" where
  "stamp y m d h mi = padded 4 (nat y) @ ''-'' @ padded 2 (nat m) @ ''-'' @ padded 2 (nat d) @ '' '' @ padded 2 (nat h)
     @ '':'' @ padded 2 (nat mi) @ '' UTC''"

lemma char_classes [simp]:
  "is_digit (CHR ''-'') = False" "is_digit (CHR '' '') = False" "is_digit (CHR '':'') = False"
  "py_space (CHR ''U'') = False" "py_space (CHR ''C'') = False"
  by (simp_all add: is_digit_def py_space_def)

lemma digit_not: "is_digit c \<Longrightarrow> \<not> py_space c \<and> c \<notin> set '':;,. '' \<and> py_lower_char c = c"
  by (auto simp: is_digit_def py_space_def py_lower_char_def Let_def)

lemma match_padded:
  "rx_match (Run k (Some k) is_digit) (padded k n @ s, g) = [(s, g)]"
  using rx_match_exact [of "padded k n" is_digit s g] by (simp add: padded_digits)

lemma match_group_padded:
  "rx_match (Grp name (Run k (Some k) is_digit)) (padded k n @ s, g) = [(s, (name, padded k n) # g)]"
  unfolding rx_match.simps(6) match_padded by simp

lemma match_lit: "rx_match (lit c) (c # s, g) = [(s, g)]"
  by (simp add: lit_def)

lemma numbers_back:
  assumes "valid_civil y m d h mi"
  shows "digits_value (padded 4 (nat y)) = y" "digits_value (padded 2 (nat m)) = m" "digits_value (padded 2 (nat d)) = d"
    "digits_value (padded 2 (nat h)) = h" "digits_value (padded 2 (nat mi)) = mi"
proof -
  have "days_in_month y m \<le> 31" by (simp add: days_in_month_def)
  with assms have "nat y < 10 ^ 4" "nat m < 10 ^ 2" "nat d < 10 ^ 2" "nat h < 10 ^ 2" "nat mi < 10 ^ 2"
      "0 \<le> y" "0 \<le> m" "0 \<le> d" by (auto simp: valid_civil_def)
  with assms show "digits_value (padded 4 (nat y)) = y" "digits_value (padded 2 (nat m)) = m" "digits_value (padded 2 (nat d)) = d"
    "digits_value (padded 2 (nat h)) = h" "digits_value (padded 2 (nat mi)) = mi"
    by (simp_all add: digits_value_padded valid_civil_def del: padded.simps)
qed

lemma match_zone:
  "\<exists>rest. rx_match (Cat (Opt (Cat (lit (CHR '':'')) (digits 2 2))) (Cat spaces (Opt (Grp ''tz'' (alts [lits ''UTC'', lits ''GMT'', lits ''Z''])))))
     ('' UTC'' @ s, g) = (s, (''tz'', ''UTC'') # g) # rest"
  by (simp add: lit_def lits_def run_lengths_def py_lower_char_def)

lemma iso_groups:
  "rx_at_start ISO_DATETIME_RE (stamp y m d h mi @ s)
     = Some [(''tz'', ''UTC''), (''minute'', padded 2 (nat mi)), (''hour'', padded 2 (nat h)), (''day'', padded 2 (nat d)),
         (''month_num'', padded 2 (nat m)), (''year'', padded 4 (nat y))]"
proof -
  have sep: "rx_match (Cls (\<lambda>c. py_lower_char c \<in> {CHR ''t'', CHR '' ''})) (CHR '' '' # s, g) = [(s, g)]" for s g
    by (simp add: py_lower_char_def)
  obtain rest where "rx_match (Cat (Opt (Cat (lit (CHR '':'')) (digits 2 2))) (Cat spaces (Opt (Grp ''tz'' (alts [lits ''UTC'', lits ''GMT'', lits ''Z''])))))
     ('' UTC'' @ s, [(''minute'', padded 2 (nat mi)), (''hour'', padded 2 (nat h)), (''day'', padded 2 (nat d)),
         (''month_num'', padded 2 (nat m)), (''year'', padded 4 (nat y))]) = (s, (''tz'', ''UTC'') # [(''minute'', padded 2 (nat mi)),
         (''hour'', padded 2 (nat h)), (''day'', padded 2 (nat d)), (''month_num'', padded 2 (nat m)), (''year'', padded 4 (nat y))]) # rest"
    using match_zone by blast
  then show ?thesis
    unfolding rx_at_start_def ISO_DATETIME_RE_def stamp_def cats.simps append_assoc
    by (simp only: rx_match.simps(3) [of "Grp _ _"] rx_match.simps(3) [of "lit (CHR ''-'')"] rx_match.simps(3) [of "Cls _"]
        rx_match.simps(3) [of "lit (CHR '':'')"] append_Cons append_Nil
        match_group_padded match_lit sep list.map concat.simps append_Nil2 list.case prod.case)
qed

lemma month_start:
  assumes "1 \<le> m" "m \<le> 12"
  shows "0 \<le> sum_list (map (days_in_month y) [1..m - 1])"
    "sum_list (map (days_in_month y) [1..m - 1]) + days_in_month y m \<le> 366"
    "\<not> leap_year y \<Longrightarrow> sum_list (map (days_in_month y) [1..m - 1]) + days_in_month y m \<le> 365"
proof -
  have "m \<in> set [1..12]" using assms by simp
  then have "m = 1 \<or> m = 2 \<or> m = 3 \<or> m = 4 \<or> m = 5 \<or> m = 6 \<or> m = 7 \<or> m = 8 \<or> m = 9 \<or> m = 10 \<or> m = 11 \<or> m = 12"
    by (simp add: upto.simps)
  then show "0 \<le> sum_list (map (days_in_month y) [1..m - 1])"
    "sum_list (map (days_in_month y) [1..m - 1]) + days_in_month y m \<le> 366"
    "\<not> leap_year y \<Longrightarrow> sum_list (map (days_in_month y) [1..m - 1]) + days_in_month y m \<le> 365"
    by (elim disjE; simp add: upto.simps days_in_month_def)+
qed

lemma year_start_bounds:
  fixes z a b c :: int
  assumes "4 * a \<le> z" "z < 4 * a + 4" "100 * b \<le> z" "z < 100 * b + 100" "400 * c \<le> z" "z < 400 * c + 400" "0 \<le> z"
  shows "0 \<le> 365 * z + a - b + c" "z \<le> 9997 \<Longrightarrow> 365 * z + a - b + c \<le> 3651693"
proof -
  have "0 \<le> a" "0 \<le> c" using assms by linarith+
  then show "0 \<le> 365 * z + a - b + c" using assms by linarith
  show "z \<le> 9997 \<Longrightarrow> 365 * z + a - b + c \<le> 3651693" using assms by linarith
qed

lemma civil_days_range:
  assumes "valid_civil y m d h mi"
  shows "- 719162 \<le> civil_days y m d" "civil_days y m d \<le> 2932896"
proof -
  have v: "1 \<le> y" "y \<le> 9999" "1 \<le> m" "m \<le> 12" "1 \<le> d" "d \<le> days_in_month y m"
    using assms by (auto simp: valid_civil_def)
  note ms = month_start [OF v(3,4), of y]
  let ?D = "365 * (y - 1) + (y - 1) div 4 - (y - 1) div 100 + (y - 1) div 400"
  have quotients: "k * ((y - 1) div k) \<le> y - 1" "y - 1 < k * ((y - 1) div k) + k" if "0 < k" for k :: int
    using that mult_div_mod_eq [of k "y - 1"] pos_mod_bound [of k "y - 1"] pos_mod_sign [of k "y - 1"] by linarith+
  note q = quotients [of 4, OF zero_less_numeral] quotients [of 100, OF zero_less_numeral] quotients [of 400, OF zero_less_numeral]
  have z: "0 \<le> y - 1" using v(1) by simp
  note bounds = year_start_bounds [OF q z]
  have "0 \<le> ?D" by (rule bounds)
  then show "- 719162 \<le> civil_days y m d" using ms(1) v(5) unfolding civil_days_def by linarith
  show "civil_days y m d \<le> 2932896"
  proof (cases "y = 9999")
    case True
    then have "\<not> leap_year y" by (simp add: leap_year_def)
    moreover have "?D = 3651694" unfolding True by simp
    ultimately show ?thesis using ms(3) v(6) unfolding civil_days_def by linarith
  next
    case False
    then have "y - 1 \<le> 9997" using v(2) by simp
    then have "?D \<le> 3651693" by (rule bounds)
    then show ?thesis using ms(2) v(6) unfolding civil_days_def by linarith
  qed
qed

lemma civil_range:
  assumes "valid_civil y m d h mi"
  shows "MIN_INSTANT \<le> civil_usecs y m d h mi" "civil_usecs y m d h mi \<le> MAX_INSTANT"
  using civil_days_range [OF assms] assms
  by (simp_all add: civil_usecs_def MIN_INSTANT_def MAX_INSTANT_def valid_civil_def)

lemma parse_stamp:
  assumes "valid_civil y m d h mi"
  shows "parse_iso_stamp (stamp y m d h mi @ s) = Inr (Some (civil_usecs y m d h mi, ''UTC''))"
proof -
  note range = civil_range [OF assms]
  show ?thesis
    unfolding parse_iso_stamp_def iso_groups option.case
    using range by (simp add: number_of_def group_of_def numbers_back [OF assms] make_datetime_def assms ascii_upper_def TZ_OFFSETS_def
        to_utc_def del: padded.simps)
qed

lemma padded_Cons: "0 < k \<Longrightarrow> \<exists>c w. padded k n = c # w \<and> is_digit c"
  by (cases "padded k n") (use padded_digits [of _ k n] length_padded [of k n] in fastforce)+

lemma stamp_Cons: "\<exists>c w. stamp y m d h mi = c # w \<and> is_digit c"
  using padded_Cons [of 4 "nat y"] by (auto simp: stamp_def)

definition rstripped :: "string \<Rightarrow> string" where
  "rstripped s = rev (dropWhile py_space (rev s))"

lemma dropWhile_stop:
  "\<not> P c \<Longrightarrow> dropWhile P (xs @ c # u) = dropWhile P xs @ c # u"
  by (induction xs) simp_all

lemma rstripped_stamp:
  "rstripped (a @ stamp y m d h mi @ r) = a @ stamp y m d h mi @ rstripped r"
proof -
  obtain v where v: "stamp y m d h mi = v @ [CHR ''C'']" by (simp add: stamp_def)
  have "rev (a @ (v @ [CHR ''C'']) @ r) = rev r @ CHR ''C'' # rev (a @ v)" by simp
  then show ?thesis unfolding rstripped_def v by (simp only: dropWhile_stop char_classes(5) not_False_eq_True) simp
qed

lemma strip_stamp:
  assumes "set sep \<subseteq> set '':;,. ''"
  shows "py_strip (sep @ stamp y m d h mi @ r) = dropWhile py_space sep @ stamp y m d h mi @ rstripped r"
proof -
  obtain c w where s: "stamp y m d h mi = c # w" and c: "is_digit c" using stamp_Cons by blast
  have "dropWhile py_space (sep @ stamp y m d h mi @ r) = dropWhile py_space sep @ stamp y m d h mi @ r"
    using digit_not [OF c] unfolding s by (induction sep) auto
  then show ?thesis using rstripped_stamp by (simp add: py_strip_def rstripped_def)
qed

lemma segment_of_stamp:
  assumes "set sep \<subseteq> set '':;,. ''" "length sep \<le> 230" "length w = length label"
  shows "segment_after label (length pre) (pre @ w @ sep @ stamp y m d h mi @ suf)
    = py_strip (stamp y m d h mi @ take (230 - length sep) suf)"
proof -
  let ?s = "stamp y m d h mi" and ?r = "take (230 - length sep) suf"
  obtain c v where s: "?s = c # v" and c: "is_digit c" using stamp_Cons by blast
  have "length ?s = 20" by (simp add: stamp_def)
  then have window: "take 250 (drop (length pre + length label) (pre @ w @ sep @ ?s @ suf)) = sep @ ?s @ ?r"
    using assms(2,3) by (simp add: take_append)
  have "set (dropWhile py_space sep) \<subseteq> set '':;,. ''" using assms(1) set_dropWhileD by (metis subset_eq)
  then have punct: "dropWhile (\<lambda>c. c \<in> set '':;,. '') (dropWhile py_space sep @ ?s @ rstripped ?r) = ?s @ rstripped ?r"
    using digit_not [OF c] unfolding s
    by (subst dropWhile_append2) (use subset_iff in \<open>auto simp del: set_simps\<close>)
  have once: "py_strip (?s @ r) = ?s @ rstripped r" for r using strip_stamp [of "[]"] by simp
  have "rstripped (rstripped ?r) = rstripped ?r" by (simp add: rstripped_def)
  then show ?thesis
    unfolding segment_after_def window strip_stamp [OF assms(1)] punct once by simp
qed

lemma try_labels_skip:
  assumes "\<forall>l \<in> set earlier. find_in (py_lower l) (py_lower text) = None"
  shows "try_labels (earlier @ labels) text i f = try_labels labels text i f"
  using assms by (induction earlier) simp_all

text \<open>C23: a deadline written as a timestamp in UTC after a label is read back exactly: in a text where
  \<open>label\<close> is the first label of the list that occurs at all and its first occurrence (in any letter
  case) is followed, after any of the separators \<open>:;,.\<close> and blanks, by "YYYY-MM-DD HH:MM UTC" of a valid
  date and time, whatever the text holds before and after, the document resolves the deadline to that
  instant, with its zone, and the evidence starts with the timestamp.\<close>

theorem timestamp_read_back:
  assumes "valid_civil y m d h mi" and "f \<noteq> []"
    and "DEADLINE_LABELS = earlier @ label # later"
    and "text = pre @ w @ sep @ stamp y m d h mi @ suf"
    and "length w = length label" "set sep \<subseteq> set '':;,. ''" "length sep \<le> 230"
    and "find_in (py_lower label) (py_lower text) = Some (length pre)"
    and "\<forall>l \<in> set earlier. find_in (py_lower l) (py_lower text) = None"
  shows "extract_deadline_from_text text i f
    = Inr (Some \<lparr>dl_status = ''resolved'', dl_source = ''document'', dl_deadline_utc = Some (civil_usecs y m d h mi),
        dl_deadline_timezone = Some ''UTC'',
        dl_evidence = [(''original_text'', JStr (take 200 (py_strip (stamp y m d h mi @ take (230 - length sep) suf)))),
          (''document_id'', JInt i), (''filename'', JStr f)]\<rparr>)"
proof -
  let ?s = "stamp y m d h mi" and ?r = "rstripped (take (230 - length sep) suf)"
  define e where "e = take 200 (?s @ ?r)"
  have segment: "segment_after label (length pre) text = ?s @ ?r"
    unfolding assms(4) segment_of_stamp [OF assms(6,7,5)] using strip_stamp [of "[]"] by simp
  have ne: "?s \<noteq> []" "text \<noteq> []" "e \<noteq> []" "take 200 e = e" using assms(4) by (simp_all add: stamp_def e_def)
  have found: "extract_from_segment (?s @ ?r) = Inr (Some (civil_usecs y m d h mi, ''UTC'', e))"
    using parse_stamp [OF assms(1), of ?r] by (simp add: extract_from_segment_def EVIDENCE_TEXT_LIMIT_def e_def)
  have "try_labels DEADLINE_LABELS text i f = try_labels (label # later) text i f"
    unfolding assms(3) by (rule try_labels_skip [OF assms(9)])
  also have "\<dots> = bind_result (resolved (civil_usecs y m d h mi) ''document'' (Some ''UTC'') (JStr e) None
      (Some i) (Some f)) (\<lambda>r. Inr (Some r))"
    unfolding try_labels.simps assms(8) option.case segment Let_def found bind_result_simps prod.case using ne(1) by simp
  also have "\<dots> = Inr (Some \<lparr>dl_status = ''resolved'', dl_source = ''document'', dl_deadline_utc = Some (civil_usecs y m d h mi),
        dl_deadline_timezone = Some ''UTC'',
        dl_evidence = [(''original_text'', JStr e), (''document_id'', JInt i), (''filename'', JStr f)]\<rparr>)"
    using ne(3,4) assms(2)
    by (simp add: resolved_def check_deadline_result_def opt_str_json_def RESOLVED_def EVIDENCE_TEXT_LIMIT_def)
  finally have "extract_deadline_from_text text i f = \<dots>" using ne(2) by (simp add: extract_deadline_from_text_def)
  moreover have "e = take 200 (py_strip (?s @ take (230 - length sep) suf))" using strip_stamp [of "[]"] by (simp add: e_def)
  ultimately show ?thesis by simp
qed

theorem timestamp_read_back_witness:
  "extract_deadline_from_text (''No bids after it. Submission Deadline: 2028-02-29 23:59 UTC, by mail.'') 7 ''tor.pdf'' \<noteq> Inr None"
proof -
  let ?text = "''No bids after it. Submission Deadline: 2028-02-29 23:59 UTC, by mail.''"
    and ?earlier = "[''deadline for submission of applications'', ''deadline for submission'', ''deadline for proposals'']"
  have valid: "valid_civil 2028 2 29 23 59" by (simp add: valid_civil_def days_in_month_def leap_year_def)
  have labels: "DEADLINE_LABELS = ?earlier @ ''submission deadline'' # drop 4 DEADLINE_LABELS"
    by (simp add: DEADLINE_LABELS_def)
  have shape: "?text = ''No bids after it. '' @ ''Submission Deadline'' @ '': '' @ stamp 2028 2 29 23 59 @ '', by mail.''" by code_simp
  have first: "find_in (py_lower ''submission deadline'') (py_lower ?text) = Some (length ''No bids after it. '')"
    and absent: "\<forall>l \<in> set ?earlier. find_in (py_lower l) (py_lower ?text) = None" by code_simp+
  show ?thesis
    using timestamp_read_back [OF valid _ labels shape _ _ _ first absent, of "''tor.pdf''" 7] by simp
qed

section \<open>Naive values\<close>

text \<open>A deadline that the database returns without a zone, which change detection reads as UTC, is read
  as the host's local time here: the resolved instant is off by the host's offset.\<close>

lemma naive_deadline_follows_host:
  assumes "ls_deadline_at listing = Some (Naive t)" and "obj_get (ls_raw_metadata listing) ''deadline_raw'' = JNull"
    and "MIN_INSTANT \<le> t - de_local_offset env t" "t - de_local_offset env t \<le> MAX_INSTANT"
  shows "\<exists>r. resolve_tender_deadline env listing None docs = Inr r
    \<and> dl_deadline_utc r = Some (t - de_local_offset env t)
    \<and> (dl_deadline_utc r = norm_dt (ls_deadline_at listing) \<longleftrightarrow> de_local_offset env t = 0)"
proof -
  have "states env listing (Some (t - de_local_offset env t))"
    using assms by (simp add: states_def astimezone_utc_def to_utc_def)
  from resolution_hierarchy [OF this, of None None docs] assms(1) show ?thesis
    by (auto simp: concludes_def norm_dt_def instant_of_def)
qed

section \<open>The table behind the coordinator\<close>

lemma apply_rows:
  assumes "distinct (map dr_tender_id rows)"
  shows "distinct (map dr_tender_id (apply_deadline_resolution i r t rows))"
    "deadline_row_of i r t \<in> set (apply_deadline_resolution i r t rows)"
    "filter (\<lambda>row. dr_tender_id row \<noteq> i) (apply_deadline_resolution i r t rows) = filter (\<lambda>row. dr_tender_id row \<noteq> i) rows"
proof -
  have id: "dr_tender_id (deadline_row_of i r t) = i" by (simp add: deadline_row_of_def)
  let ?f = "\<lambda>row. if dr_tender_id row = i then deadline_row_of i r t else row"
  have keys: "map dr_tender_id (map ?f rows) = map dr_tender_id rows" using id by (auto simp: comp_def)
  have others: "filter (\<lambda>row. dr_tender_id row \<noteq> i) (map ?f rows) = filter (\<lambda>row. dr_tender_id row \<noteq> i) rows"
    using id by (induction rows) auto
  show "distinct (map dr_tender_id (apply_deadline_resolution i r t rows))"
    using assms id unfolding apply_deadline_resolution_def by (cases "i \<in> dr_tender_id ` set rows") (simp_all add: keys del: map_map)
  show "deadline_row_of i r t \<in> set (apply_deadline_resolution i r t rows)"
    by (auto simp: apply_deadline_resolution_def image_iff)
  show "filter (\<lambda>row. dr_tender_id row \<noteq> i) (apply_deadline_resolution i r t rows) = filter (\<lambda>row. dr_tender_id row \<noteq> i) rows"
    using others id by (simp add: apply_deadline_resolution_def)
qed

lemma step_calls_service:
  assumes run: "resolve_deadline env item detail w = (settled, w')" and acts: "\<not> (w' = w \<and> \<not> settled)"
  obtains t listing where "List.find (\<lambda>t. tn_id t = wi_tender_id item) (st_tenders (wl_store w)) = Some t"
    and "(case ce_deadline env listing detail (wi_correlation_id item) w of
               (Inl x, w') \<Rightarrow> (False, w')
             | (Inr r, w') \<Rightarrow> (dl_status r = RESOLVED, ce_apply_deadline env t r (ce_clock env w') w')) = (settled, w')"
proof (cases "ce_db_fault env (DbDeadline (wi_tender_id item)) w")
  case None
  show ?thesis
  proof (cases "List.find (\<lambda>t. tn_id t = wi_tender_id item) (st_tenders (wl_store w))")
    case (Some t)
    show ?thesis by (rule that [OF Some]) (use run in \<open>simp only: resolve_deadline_def None Some option.case Let_def\<close>)
  qed (use run acts None in \<open>simp add: resolve_deadline_def\<close>)
qed (use run acts in \<open>simp add: resolve_deadline_def\<close>)

text \<open>C24: the deadline step of the detail stage, with the modelled service and table: tenders, runs and
  sources stay as they were, there is still one resolution row per tender, the rows of other tenders
  are untouched, and the step counts the tender as resolved exactly when the row it has just written
  holds a deadline; when it raises or the tender is gone it writes nothing and counts nothing.\<close>

theorem deadline_step_recorded:
  assumes service: "ce_deadline env = deadline_stage denv" "ce_apply_deadline env = deadline_write"
    and rows: "distinct (map dr_tender_id (wl_ext w))"
    and run: "resolve_deadline env item detail w = (settled, w')"
  shows "wl_store w' = wl_store w \<and> wl_sources w' = wl_sources w \<and> distinct (map dr_tender_id (wl_ext w'))
    \<and> filter (\<lambda>r. dr_tender_id r \<noteq> wi_tender_id item) (wl_ext w') = filter (\<lambda>r. dr_tender_id r \<noteq> wi_tender_id item) (wl_ext w)
    \<and> (w' = w \<and> \<not> settled
       \<or> (\<exists>row \<in> set (wl_ext w'). dr_tender_id row = wi_tender_id item \<and> dr_deadline_resolved_at row = ce_clock env w
            \<and> settled = (dr_deadline_resolved row \<noteq> None)))"
proof (cases "w' = w \<and> \<not> settled")
  case True
  then show ?thesis using rows by simp
next
  case False
  obtain t listing where t: "List.find (\<lambda>t. tn_id t = wi_tender_id item) (st_tenders (wl_store w)) = Some t"
      and r: "(case ce_deadline env listing detail (wi_correlation_id item) w of
               (Inl x, w') \<Rightarrow> (False, w')
             | (Inr r, w') \<Rightarrow> (dl_status r = RESOLVED, ce_apply_deadline env t r (ce_clock env w') w')) = (settled, w')"
    by (rule step_calls_service [OF run False])
  obtain res where res: "resolve_tender_deadline denv listing (Some detail) [] = Inr res"
      "settled = (dl_status res = RESOLVED)" "w' = deadline_write t res (ce_clock env w) w"
  proof (cases "resolve_tender_deadline denv listing (Some detail) []")
    case (Inl x)
    have "(False, w) = (settled, w')" using r unfolding service deadline_stage_def Inl prod.case sum.case .
    then show ?thesis using False by simp
  next
    case (Inr res)
    have "(dl_status res = RESOLVED, deadline_write t res (ce_clock env w) w) = (settled, w')"
      using r unfolding service deadline_stage_def Inr prod.case sum.case .
    then show ?thesis using that [OF Inr] by simp
  qed
  have id: "tn_id t = wi_tender_id item" using t by (auto simp: find_Some_iff)
  let ?row = "deadline_row_of (wi_tender_id item) res (ce_clock env w)"
  have ext: "wl_ext w' = apply_deadline_resolution (wi_tender_id item) res (ce_clock env w) (wl_ext w)"
    by (simp add: res(3) deadline_write_def id)
  note table = apply_rows [OF rows, of "wi_tender_id item" res "ce_clock env w", folded ext]
  have "dr_deadline_resolved ?row = dl_deadline_utc res" "well_formed res"
    using resolution_well_formed [OF res(1)] by blast+
  then have cols: "settled = (dr_deadline_resolved ?row \<noteq> None)" by (simp add: res(2) well_formed_def)
  have cols': "dr_tender_id ?row = wi_tender_id item" "dr_deadline_resolved_at ?row = ce_clock env w"
    by (simp_all add: deadline_row_of_def)
  have frame: "wl_store w' = wl_store w" "wl_sources w' = wl_sources w" by (simp_all add: res(3) deadline_write_def)
  have "\<exists>row \<in> set (wl_ext w'). dr_tender_id row = wi_tender_id item \<and> dr_deadline_resolved_at row = ce_clock env w
      \<and> settled = (dr_deadline_resolved row \<noteq> None)"
    by (rule bexI [OF _ table(2)]) (use cols cols' in simp)
  with frame table(1,3) show ?thesis by metis
qed

text \<open>A coordinator whose deadline service and table are the modelled ones.\<close>

definition recording_env :: "deadline_env \<Rightarrow> deadline_row list coord_env" where
  "recording_env denv = \<lparr>
     ce_build = (\<lambda>spec. Inl (raised ''ConfigError'')),
     ce_dedup = (\<lambda>w. (plain_env, 0, 1, [])),
     ce_deadline = deadline_stage denv, ce_apply_deadline = deadline_write,
     ce_acquire = (\<lambda>t a c w. (Inr empty_acquisition, w)),
     ce_process = (\<lambda>t c n w. (Inr \<lparr>bn_documents = [], bn_incomplete_inputs = False\<rparr>, w)),
     ce_triage = (\<lambda>r t w. (Inr \<lparr>tr_tender_id = t, tr_correlation_id = ''c'', tr_status = ''passed'', tr_error_code = None\<rparr>, w)),
     ce_triage_handoff = None,
     ce_verdict_handoff = None,
     ce_dispatch = None,
     ce_str_pair = (\<lambda>p. []),
     ce_alert = (\<lambda>a w. w),
     ce_db_fault = (\<lambda>u w. None),
     ce_load_config = (\<lambda>w. Inr \<lparr>cf_version = 1, cf_test_mode = False, cf_test_mode_reason = [], cf_changed_at = None\<rparr>),
     ce_new_correlation_id = (\<lambda>w. ''run''),
     ce_clock = (\<lambda>w. 10), ce_runner_clock = (\<lambda>w. 20), ce_now = (\<lambda>w. 30),
     ce_sleep = (\<lambda>s w. w), ce_retry = default_retry_policy, ce_recovery_limit = 0\<rparr>"

definition due_detail :: tender_detail where
  "due_detail = \<lparr>td_listing = listing_due None, td_procuring_body = None, td_reference_numbers = [], td_scope = None,
     td_requirements_hints = [], td_attachments = [], td_raw_html = None, td_body_text = None\<rparr>"

theorem deadline_step_recorded_witness:
  "\<exists>settled w'. resolve_deadline (recording_env demo_deadline_env) (work_item_of ''run'' sample_tender) due_detail
      \<lparr>wl_store = empty_store\<lparr>st_tenders := [sample_tender]\<rparr>, wl_sources = [], wl_ext = []\<rparr> = (settled, w') \<and> distinct (map dr_tender_id (wl_ext w'))"
proof -
  let ?w = "\<lparr>wl_store = empty_store\<lparr>st_tenders := [sample_tender]\<rparr>, wl_sources = [], wl_ext = []\<rparr> :: deadline_row list world"
  obtain settled w' where run: "resolve_deadline (recording_env demo_deadline_env) (work_item_of ''run'' sample_tender) due_detail ?w
      = (settled, w')" by fastforce
  have "ce_deadline (recording_env demo_deadline_env) = deadline_stage demo_deadline_env"
    "ce_apply_deadline (recording_env demo_deadline_env) = deadline_write" "distinct (map dr_tender_id (wl_ext ?w))"
    by (simp_all add: recording_env_def)
  from deadline_step_recorded [OF this run] run show ?thesis by blast
qed

section \<open>Two texts\<close>

text \<open>The label of the tender notice is never reached: a shorter one before it in the list is found first,
  and the timestamp no longer follows the label.\<close>

lemma longer_label_shadowed:
  "\<not> is_resolved (case extract_deadline_from_text ''Date limite de remise des offres: 2026-09-24 13:00 UTC'' 1 ''f'' of
     Inr r \<Rightarrow> r | Inl x \<Rightarrow> None)"
  by code_simp

text \<open>A textual date is searched for in the whole segment, so an unrelated one is taken as the deadline.\<close>

lemma unrelated_date_taken:
  "is_resolved (case extract_deadline_from_text ''Deadline: as announced 1 March 2026 at 10:00 GMT'' 1 ''f'' of
     Inr r \<Rightarrow> r | Inl x \<Rightarrow> None)"
  by code_simp

end
