(* ===== verification/Timeline.thy ===== *)
theory Timeline
  imports Deadline Triage Alerts "HOL-Library.Char_ord" "HOL-Library.List_Lexorder" "HOL-Library.Product_Lexorder"
    "HOL-Library.Multiset"
begin

text \<open>
  \<open>audit/timeline.py\<close>: the life of a tender read back from the rows that were persisted about it.
  The tables the service reads are the rows of the components that write them, with the time stamps
  and ids that those models leave out beside them.  Instants are in UTC; \<open>isoformat\<close> is an argument.
\<close>

section \<open>The tables\<close>

record verdict_row =
  vd_id :: int
  vd_tender_id :: int
  vd_recommendation :: string
  vd_confidence :: "real option"
  vd_background_summary :: "string option"
  vd_requirements_summary :: json
  vd_gap_analysis :: json
  vd_urgency_flag :: bool
  vd_generated_at :: instant
  vd_llm_profile_id :: "int option"
  vd_model :: "string option"
  vd_knowledge_base_version_id :: "int option"
  vd_knowledge_base_evidence :: json
  vd_prompt_version :: "string option"
  vd_incomplete_inputs :: bool
  vd_schema_version :: string
  vd_provider :: "string option"
  vd_map_reduce_used :: bool
  vd_run_id :: "int option"
  vd_deadline_status :: "string option"
  vd_deadline_utc :: "string option"
  vd_deadline_date :: "string option"
  vd_deadline_time :: "string option"
  vd_deadline_timezone :: "string option"
  vd_source_timezone :: "string option"

record dated_document =
  dd_row :: document
  dd_created_at :: instant
  dd_updated_at :: instant

record timeline_db =
  tb_tenders :: "tender list"
  tb_source_name :: "int \<Rightarrow> string option"
  tb_deadlines :: "deadline_row list"
  tb_documents :: "dated_document list"
  tb_verdicts :: "verdict_row list"
  tb_triage :: "(instant \<times> triage_result_row) list"
  tb_notifications :: "notification_log list"
  tb_attempts :: "(int \<times> notification_attempt) list"
  tb_runs :: "run_history list"

record timeline_event =
  tv_timestamp :: instant
  tv_stage :: string
  tv_status :: string
  tv_correlation_id :: "string option"
  tv_tender_id :: "int option"
  tv_run_id :: "int option"
  tv_source :: "string option"
  tv_document_ids :: "int list option"
  tv_processing_info :: "(string \<times> json) list option"
  tv_incomplete_inputs :: bool
  tv_notification_id :: "int option"
  tv_provider_used :: "string option"
  tv_notification_status :: "string option"
  tv_failure_code :: "string option"
  tv_event_id :: string
  tv_sequence :: int

record timeline_query =
  ty_correlation_id :: string
  ty_events :: "timeline_event list"
  ty_tender_id :: "int option"
  ty_run_ids :: "int list option"

definition plain_event :: "instant \<Rightarrow> string \<Rightarrow> string \<Rightarrow> string option \<Rightarrow> string \<Rightarrow> int \<Rightarrow> timeline_event" where
  \<comment> \<open>\<open>TimelineEvent(...)\<close> with the defaults of its optional fields\<close>
  "plain_event timestamp stage status correlation_id event_id seq =
     \<lparr>tv_timestamp = timestamp, tv_stage = stage, tv_status = status, tv_correlation_id = correlation_id,
      tv_tender_id = None, tv_run_id = None, tv_source = None, tv_document_ids = None, tv_processing_info = None,
      tv_incomplete_inputs = False, tv_notification_id = None, tv_provider_used = None, tv_notification_status = None,
      tv_failure_code = None, tv_event_id = event_id, tv_sequence = seq\<rparr>"

text \<open>\<open>enumerate(rows, start=1)\<close>.\<close>

definition numbered :: "'a list \<Rightarrow> (int \<times> 'a) list" where
  "numbered xs = List.zip [1..int (length xs)] xs"

section \<open>The events of a row\<close>

definition tender_events :: "timeline_db \<Rightarrow> string \<Rightarrow> tender \<Rightarrow> timeline_event list" where
  "tender_events db cid t = [(plain_event (tn_first_seen_at t) ''discovery'' ''seen'' (Some cid) (''tender-'' @ int_str (tn_id t)) 0)
     \<lparr>tv_tender_id := Some (tn_id t), tv_source := tb_source_name db (tn_source_id t)\<rparr>]"

definition deadline_events :: "(instant \<Rightarrow> string) \<Rightarrow> timeline_db \<Rightarrow> string \<Rightarrow> tender \<Rightarrow> timeline_event list" where
  "deadline_events isoformat db cid t = (case List.find (\<lambda>r. dr_tender_id r = tn_id t) (tb_deadlines db) of
     None \<Rightarrow> []
   | Some r \<Rightarrow> [(plain_event (dr_deadline_resolved_at r) ''deadline_resolution'' (py_or (Some (dr_deadline_source r)) ''unresolved'')
         (Some cid) (''deadline-'' @ int_str (tn_id t)) 0)
       \<lparr>tv_tender_id := Some (tn_id t), tv_processing_info := Some
         [(''deadline_utc'', case dr_deadline_resolved r of None \<Rightarrow> JNull | Some u \<Rightarrow> JStr (isoformat u)),
          (''deadline_source'', JStr (dr_deadline_source r)), (''evidence'', JObj (dr_deadline_evidence r))]\<rparr>])"

definition document_events :: "string \<Rightarrow> tender \<Rightarrow> int \<times> dated_document \<Rightarrow> timeline_event list" where
  "document_events cid t = (\<lambda>(seq, d).
     (let r = dd_row d;
          event = (\<lambda>ts stage status name info. (plain_event ts stage status (Some cid) (name @ int_str (dc_id r)) seq)
            \<lparr>tv_tender_id := Some (tn_id t), tv_document_ids := Some [dc_id r],
             tv_processing_info := Some ((''filename'', JStr (dc_filename r)) # info)\<rparr>)
      in event (dd_created_at d) ''document_discovery'' ''discovered'' ''doc-discovery-'' [(''url'', JStr (dc_source_url r))]
         # (if dc_download_status r \<noteq> ''pending''
            then [event (dd_updated_at d) ''document_acquisition'' (dc_download_status r) ''doc-acquire-''
              [(''storage_path'', opt_json (dc_storage_path r)), (''mime_type'', opt_json (dc_mime_type r))]] else [])
         @ (if dc_extraction_status r \<noteq> ''pending''
            then [(event (dd_updated_at d) ''document_processing'' (dc_extraction_status r) ''doc-process-''
              [(''language'', opt_json (dc_language r)), (''extraction_error'', opt_json (dc_extraction_error_code r))])
              \<lparr>tv_failure_code := dc_extraction_error_code r\<rparr>] else [])))"

definition verdict_events :: "timeline_db \<Rightarrow> string \<Rightarrow> tender \<Rightarrow> timeline_event list" where
  \<comment> \<open>only the first verdict by \<open>generated_at\<close>\<close>
  "verdict_events db cid t =
     (case sort_key vd_generated_at (filter (\<lambda>v. vd_tender_id v = tn_id t) (tb_verdicts db)) of
        [] \<Rightarrow> []
      | v # _ \<Rightarrow> [(plain_event (vd_generated_at v) ''verdict'' ''completed'' (Some cid) (''verdict-'' @ int_str (vd_id v)) 0)
          \<lparr>tv_tender_id := Some (tn_id t), tv_processing_info := Some
            [(''recommendation'', JStr (vd_recommendation v)), (''confidence'', opt_real_json (vd_confidence v)),
             (''urgency'', JBool (vd_urgency_flag v)), (''model'', opt_json (vd_model v))],
           tv_incomplete_inputs := vd_incomplete_inputs v\<rparr>])"

definition triage_events :: "tender \<Rightarrow> int \<times> instant \<times> triage_result_row \<Rightarrow> timeline_event list" where
  "triage_events t = (\<lambda>(seq, created_at, r).
     [(plain_event created_at ''triage'' (tq_status r) (Some (tq_correlation_id r)) (''triage-'' @ int_str (tq_id r)) seq)
       \<lparr>tv_tender_id := Some (tn_id t), tv_run_id := tq_run_id r, tv_processing_info := Some
         [(''score'', opt_real_json (tq_score r)), (''mode'', JStr (tq_mode r)), (''reasons'', JList (map JStr (tq_reasons r))),
          (''model'', opt_json (tq_model r))], tv_failure_code := tq_error_code r\<rparr>])"

definition json_len :: "json \<Rightarrow> int" where
  \<comment> \<open>\<open>len(value or [])\<close>\<close>
  "json_len v = (case v of JList l \<Rightarrow> int (length l) | JStr s \<Rightarrow> int (length s) | JObj d \<Rightarrow> int (length d) | _ \<Rightarrow> 0)"

definition attempt_events ::
  "string \<Rightarrow> tender \<Rightarrow> notification_log \<Rightarrow> int \<times> int \<times> notification_attempt \<Rightarrow> timeline_event list" where
  "attempt_events cid t n = (\<lambda>(seq, i, a).
     [(plain_event (na_attempted_at a) ''notification_attempt'' (na_status a) (Some (py_or (na_correlation_id a) cid))
         (''notif-attempt-'' @ int_str i) seq)
       \<lparr>tv_tender_id := Some (tn_id t), tv_notification_id := Some (nl_id n), tv_provider_used := Some (na_provider_name a),
        tv_notification_status := Some (na_status a), tv_processing_info := Some
          [(''attempt_number'', JInt (na_attempt_number a)), (''duration_ms'', opt_int_json (na_duration_ms a)),
           (''provider_message_id'', opt_json (na_provider_message_id a))],
        tv_failure_code := na_error_code a\<rparr>])"

definition notification_events ::
  "timeline_db \<Rightarrow> string \<Rightarrow> tender \<Rightarrow> int \<times> notification_log \<Rightarrow> timeline_event list" where
  "notification_events db cid t = (\<lambda>(seq, n).
     (plain_event (nl_created_at n) ''notification'' (nl_status n) (Some (py_or (nl_correlation_id n) cid))
         (''notif-'' @ int_str (nl_id n)) seq)
       \<lparr>tv_tender_id := Some (tn_id t), tv_notification_id := Some (nl_id n), tv_provider_used := nl_provider_used n,
        tv_notification_status := Some (nl_status n), tv_processing_info := Some
          [(''kind'', JStr (nl_notification_kind n)), (''recipients_count'', JInt (json_len (nl_recipients_snapshot n))),
           (''attachments_count'', JInt (json_len (nl_attachments n))), (''links_count'', JInt (json_len (nl_links n))),
           (''possible_duplicate'', JBool (nl_possible_duplicate n))],
        tv_failure_code := nl_last_error_code n\<rparr>
     # concat (map (attempt_events cid t n) (numbered
         (sort_key (na_attempted_at \<circ> snd) (filter (\<lambda>(i, a). na_notification_id a = nl_id n) (tb_attempts db))))))"

definition run_events :: "run_history \<Rightarrow> timeline_event list" where
  "run_events r =
     (let event = (\<lambda>ts status name info. (plain_event ts ''run'' status (rh_correlation_id r) (name @ int_str (rh_id r)) 0)
            \<lparr>tv_run_id := Some (rh_id r), tv_source := Some (''source-'' @ int_str (rh_source_id r)), tv_processing_info := Some info\<rparr>)
      in event (rh_started_at r) ''started'' ''run-start-''
           [(''config_version'', opt_int_json (rh_config_version r)), (''trigger'', opt_json (rh_trigger r))]
         # (case rh_ended_at r of None \<Rightarrow> []
            | Some ended \<Rightarrow> [(event ended (if rh_error_count r > 0 \<or> py_truthy (rh_failed_stage r) then ''errored'' else ''completed'') ''run-end-''
                [(''listings_found'', JInt (rh_listings_found r)), (''new_count'', JInt (rh_new_count r)),
                 (''update_count'', JInt (rh_update_count r)), (''unchanged_count'', JInt (rh_unchanged_count r)),
                 (''error_count'', JInt (rh_error_count r)), (''failed_stage'', opt_json (rh_failed_stage r)),
                 (''stages'', case rh_stages r of None \<Rightarrow> JNull | Some st \<Rightarrow> JObj (map (\<lambda>(k, v). (k, JStr v)) st)),
                 (''trigger'', opt_json (rh_trigger r))])\<lparr>tv_failure_code := rh_error_code r\<rparr>]))"

section \<open>Reconstruction\<close>

definition related_runs :: "timeline_db \<Rightarrow> int option \<Rightarrow> int list" where
  "related_runs db tender_id = (case tender_id of
     None \<Rightarrow> map rh_id (filter (\<lambda>r. rh_id r = -1) (tb_runs db))
   | Some t \<Rightarrow> map rh_id (filter (\<lambda>r. rh_tender_id r = Some t) (tb_runs db))
       @ map (\<lambda>q. the (tq_run_id (snd q))) (filter (\<lambda>q. tq_tender_id (snd q) = t \<and> tq_run_id (snd q) \<noteq> None) (tb_triage db)))"

definition selected_runs :: "timeline_db \<Rightarrow> string \<Rightarrow> int option \<Rightarrow> run_history list" where
  "selected_runs db cid tender_id = sort_key rh_started_at
     (filter (\<lambda>r. rh_correlation_id r = Some cid \<or> rh_id r \<in> set (related_runs db tender_id)) (tb_runs db))"

definition tender_part :: "(instant \<Rightarrow> string) \<Rightarrow> timeline_db \<Rightarrow> string \<Rightarrow> tender \<Rightarrow> timeline_event list" where
  "tender_part isoformat db cid t =
     tender_events db cid t @ deadline_events isoformat db cid t
     @ concat (map (document_events cid t) (numbered (sort_key dd_created_at
         (filter (\<lambda>d. dc_tender_id (dd_row d) = tn_id t) (tb_documents db)))))
     @ verdict_events db cid t
     @ concat (map (triage_events t) (numbered (sort_key fst (filter (\<lambda>q. tq_tender_id (snd q) = tn_id t) (tb_triage db)))))
     @ concat (map (notification_events db cid t) (numbered (sort_key nl_created_at
         (filter (\<lambda>n. nl_tender_id n = Some (tn_id t)) (tb_notifications db)))))"

definition event_key :: "timeline_event \<Rightarrow> instant \<times> string \<times> int" where
  "event_key e = (tv_timestamp e, tv_event_id e, tv_sequence e)"

definition reconstruct_by_correlation :: "(instant \<Rightarrow> string) \<Rightarrow> timeline_db \<Rightarrow> string \<Rightarrow> timeline_query" where
  "reconstruct_by_correlation isoformat db cid =
     (let tender = List.find (\<lambda>t. tn_correlation_id t = cid) (tb_tenders db);
          tender_id = map_option tn_id tender;
          runs = selected_runs db cid tender_id;
          events = (case tender of None \<Rightarrow> [] | Some t \<Rightarrow> tender_part isoformat db cid t) @ concat (map run_events runs)
      in \<lparr>ty_correlation_id = cid, ty_events = sort_key event_key events, ty_tender_id = tender_id,
          ty_run_ids = (if runs = [] then None else Some (map rh_id runs))\<rparr>)"

definition reconstruct_by_tender :: "(instant \<Rightarrow> string) \<Rightarrow> timeline_db \<Rightarrow> int \<Rightarrow> timeline_query option" where
  "reconstruct_by_tender isoformat db tender_id = (case List.find (\<lambda>t. tn_id t = tender_id) (tb_tenders db) of
     None \<Rightarrow> None | Some t \<Rightarrow> Some (reconstruct_by_correlation isoformat db (tn_correlation_id t)))"

end
