(* ===== verification/TimelineProps.thy ===== *)
theory TimelineProps
  imports Timeline
begin

text \<open>
  What a reconstructed timeline says: exactly the persisted rows, in the order of their times and
  event ids, whatever order the database returns rows in; and where the order of the event ids is
  not the order of the events.
\<close>

section \<open>Event ids\<close>

definition PREFIXES :: "string list" where
  "PREFIXES = [''tender-'', ''deadline-'', ''doc-discovery-'', ''doc-acquire-'', ''doc-process-'', ''verdict-'', ''triage-'',
     ''notif-'', ''notif-attempt-'', ''run-start-'', ''run-end-'']"

lemma nat_str_all_digits: "c \<in> set (nat_str n) \<Longrightarrow> is_digit c"
proof (induction n rule: nat_str.induct)
  case (1 n)
  show ?case
  proof (cases "n < 10")
    case True
    then show ?thesis using 1 digit_char [of n] by (simp add: nat_str.simps [of n])
  next
    case False
    then have "c \<in> set (nat_str (n div 10)) \<or> c = char_of (48 + n mod 10)"
      using 1(2) by (auto simp add: nat_str.simps [of n])
    then show ?thesis using 1(1) [OF False] digit_char [of "n mod 10"] by fastforce
  qed
qed

lemma nat_str_value: "digits_value (nat_str n) = int n"
proof (induction n rule: nat_str.induct)
  case (1 n)
  show ?case
  proof (cases "n < 10")
    case True
    then show ?thesis using digit_char [of n] by (simp add: nat_str.simps [of n] digits_value_def)
  next
    case False
    then show ?thesis using 1 digit_char [of "n mod 10"]
      by (simp add: nat_str.simps [of n] digits_value_def of_nat_mod of_nat_div)
  qed
qed

lemma int_str_head: "\<exists>c w. int_str n = c # w \<and> (is_digit c \<or> c = CHR ''-'')"
proof (cases "n < 0")
  case False
  then have "int_str n = nat_str (nat n)" by (simp add: int_str_def)
  moreover obtain c w where "nat_str (nat n) = c # w" using nat_str_nonempty by (metis neq_Nil_conv)
  moreover from this have "is_digit c" using nat_str_all_digits [of c "nat n"] by simp
  ultimately show ?thesis by simp
qed (simp add: int_str_def)

lemma int_str_inj: "int_str m = int_str n \<longleftrightarrow> m = n"
proof
  assume eq: "int_str m = int_str n"
  have neg: "int_str k = CHR ''-'' # nat_str (nat (- k))" if "k < 0" for k using that by (simp add: int_str_def)
  have pos: "int_str k = nat_str (nat k)" if "\<not> k < 0" for k using that by (simp add: int_str_def)
  have head: "CHR ''-'' \<notin> set (nat_str k)" for k using nat_str_all_digits [of "CHR ''-''" k] by (auto simp: is_digit_def)
  show "m = n"
  proof (cases "m < 0 \<longleftrightarrow> n < 0")
    case True
    then have "nat_str (nat \<bar>m\<bar>) = nat_str (nat \<bar>n\<bar>)" using eq neg [of m] neg [of n] pos [of m] pos [of n] by (cases "m < 0") auto
    then have "int (nat \<bar>m\<bar>) = int (nat \<bar>n\<bar>)" using nat_str_value by metis
    with True show ?thesis by (cases "m < 0") auto
  next
    case False
    then show ?thesis using eq neg pos head by (metis list.set_intros(1))
  qed
qed simp

definition is_letter :: "char \<Rightarrow> bool" where
  "is_letter c \<longleftrightarrow> \<not> is_digit c \<and> c \<noteq> CHR ''-''"

lemma int_str_letters: "filter is_letter (int_str n) = []"
proof -
  have "\<forall>c \<in> set (nat_str k). \<not> is_letter c" for k using nat_str_all_digits by (auto simp: is_letter_def)
  then show ?thesis by (auto simp: int_str_def is_letter_def filter_empty_conv)
qed

lemma prefix_letters: "inj_on (filter is_letter) (set PREFIXES)"
proof -
  have "map (filter is_letter) PREFIXES = [''tender'', ''deadline'', ''docdiscovery'', ''docacquire'', ''docprocess'', ''verdict'',
      ''triage'', ''notif'', ''notifattempt'', ''runstart'', ''runend'']"
    by (simp add: PREFIXES_def is_letter_def is_digit_def)
  then have "distinct (map (filter is_letter) PREFIXES)" by simp
  then show ?thesis by (simp add: distinct_map)
qed

datatype row_kind = KTender | KDeadline | KDiscovery | KAcquire | KProcess | KVerdict | KTriage | KNotification
  | KAttempt | KStart | KEnd

fun prefix_of :: "row_kind \<Rightarrow> string" where
  "prefix_of KTender = ''tender-''"
| "prefix_of KDeadline = ''deadline-''"
| "prefix_of KDiscovery = ''doc-discovery-''"
| "prefix_of KAcquire = ''doc-acquire-''"
| "prefix_of KProcess = ''doc-process-''"
| "prefix_of KVerdict = ''verdict-''"
| "prefix_of KTriage = ''triage-''"
| "prefix_of KNotification = ''notif-''"
| "prefix_of KAttempt = ''notif-attempt-''"
| "prefix_of KStart = ''run-start-''"
| "prefix_of KEnd = ''run-end-''"

lemma prefix_of_in: "prefix_of k \<in> set PREFIXES"
  by (cases k) (simp_all add: PREFIXES_def)

lemma prefix_of_inj: "prefix_of k = prefix_of k' \<Longrightarrow> k = k'"
  by (cases k; cases k'; simp)

lemma event_id_eq: "prefix_of k @ int_str m = prefix_of k' @ int_str n \<longleftrightarrow> k = k' \<and> m = n"
proof
  assume eq: "prefix_of k @ int_str m = prefix_of k' @ int_str n"
  then have "filter is_letter (prefix_of k) = filter is_letter (prefix_of k')"
    by (metis append_Nil2 filter_append int_str_letters)
  then have "prefix_of k = prefix_of k'" using prefix_letters prefix_of_in by (auto dest: inj_onD)
  with eq show "k = k' \<and> m = n" using prefix_of_inj by (auto simp: int_str_inj)
qed simp

declare prefix_of.simps [simp del]

section \<open>The events without their numbers\<close>

definition unnumbered :: "timeline_event \<Rightarrow> timeline_event" where
  "unnumbered e = e\<lparr>tv_sequence := 0\<rparr>"

lemma unnumbered_keeps [simp]:
  "tv_timestamp (unnumbered e) = tv_timestamp e" "tv_event_id (unnumbered e) = tv_event_id e"
  "tv_sequence (unnumbered e) = 0"
  by (simp_all add: unnumbered_def)

lemma mset_numbered:
  assumes "\<And>s r. mset (map unnumbered (f (s, r))) = g r"
  shows "mset (map unnumbered (concat (map f (List.zip ns rows)))) = (\<Sum>r \<in># mset (map snd (List.zip ns rows)). g r)"
proof (induction ns arbitrary: rows)
  case (Cons n ns)
  then show ?case using assms by (cases rows) simp_all
qed simp

lemma snd_numbered: "map snd (numbered rows) = rows"
  by (simp add: numbered_def)

lemma family:
  assumes "\<And>s r. mset (map unnumbered (f (s, r))) = g r"
  shows "mset (map unnumbered (concat (map f (numbered (sort_key k rows))))) = (\<Sum>r \<in># mset rows. g r)"
  using mset_numbered [of f g "[1..int (length (sort_key k rows))]" "sort_key k rows", OF assms]
  by (simp only: numbered_def [symmetric] snd_numbered mset_sort)

definition attempts_told :: "string \<Rightarrow> tender \<Rightarrow> notification_log \<Rightarrow> int \<times> notification_attempt \<Rightarrow> timeline_event multiset" where
  "attempts_told cid t n a = mset (attempt_events cid t n (0, a))"

definition notification_told :: "timeline_db \<Rightarrow> string \<Rightarrow> tender \<Rightarrow> notification_log \<Rightarrow> timeline_event multiset" where
  "notification_told db cid t n =
     {#hd (notification_events db cid t (0, n))#}
     + (\<Sum>a \<in># filter_mset (\<lambda>(i, a). na_notification_id a = nl_id n) (mset (tb_attempts db)). attempts_told cid t n a)"

definition told :: "(instant \<Rightarrow> string) \<Rightarrow> timeline_db \<Rightarrow> string \<Rightarrow> tender \<Rightarrow> timeline_event multiset" where
  \<comment> \<open>what the rows about a tender tell, in no order\<close>
  "told isoformat db cid t =
     mset (tender_events db cid t) + mset (deadline_events isoformat db cid t)
     + (\<Sum>d \<in># filter_mset (\<lambda>d. dc_tender_id (dd_row d) = tn_id t) (mset (tb_documents db)). mset (document_events cid t (0, d)))
     + mset (verdict_events db cid t)
     + (\<Sum>q \<in># filter_mset (\<lambda>q. tq_tender_id (snd q) = tn_id t) (mset (tb_triage db)). mset (triage_events t (0, q)))
     + (\<Sum>n \<in># filter_mset (\<lambda>n. nl_tender_id n = Some (tn_id t)) (mset (tb_notifications db)). notification_told db cid t n)"

lemma document_numbers: "mset (map unnumbered (document_events cid t (s, d))) = mset (document_events cid t (0, d))"
  by (simp add: document_events_def plain_event_def unnumbered_def Let_def)

lemma triage_numbers: "mset (map unnumbered (triage_events t (s, q))) = mset (triage_events t (0, q))"
  by (cases q) (simp add: triage_events_def plain_event_def unnumbered_def)

lemma attempt_numbers: "mset (map unnumbered (attempt_events cid t n (s, a))) = attempts_told cid t n a"
  by (cases a) (simp add: attempts_told_def attempt_events_def plain_event_def unnumbered_def)

lemma notification_numbers: "mset (map unnumbered (notification_events db cid t (s, n))) = notification_told db cid t n"
proof -
  have head: "unnumbered (hd (notification_events db cid t (s, n))) = hd (notification_events db cid t (0, n))"
    by (simp add: notification_events_def plain_event_def unnumbered_def)
  have rest: "mset (map unnumbered (tl (notification_events db cid t (s, n))))
      = (\<Sum>a \<in># filter_mset (\<lambda>(i, a). na_notification_id a = nl_id n) (mset (tb_attempts db)). attempts_told cid t n a)"
    using family [of "attempt_events cid t n" "attempts_told cid t n" "na_attempted_at \<circ> snd"
        "filter (\<lambda>(i, a). na_notification_id a = nl_id n) (tb_attempts db)", OF attempt_numbers]
    by (simp add: notification_events_def)
  have "xs \<noteq> [] \<Longrightarrow> mset (map unnumbered xs) = {#unnumbered (hd xs)#} + mset (map unnumbered (tl xs))" for xs
    by (cases xs) simp_all
  moreover have "notification_events db cid t (s, n) \<noteq> []" by (simp add: notification_events_def)
  ultimately show ?thesis unfolding notification_told_def head [symmetric] rest [symmetric] by blast
qed

lemma single_numbers:
  "map unnumbered (tender_events db cid t) = tender_events db cid t"
  "map unnumbered (deadline_events isoformat db cid t) = deadline_events isoformat db cid t"
  "map unnumbered (verdict_events db cid t) = verdict_events db cid t"
  "map unnumbered (run_events r) = run_events r"
  by (simp_all add: tender_events_def deadline_events_def verdict_events_def run_events_def plain_event_def unnumbered_def
      Let_def split: option.splits list.splits)

lemma tender_part_told: "mset (map unnumbered (tender_part isoformat db cid t)) = told isoformat db cid t"
  unfolding tender_part_def told_def map_append mset_append single_numbers
    family [of "document_events cid t" "\<lambda>d. mset (document_events cid t (0, d))", OF document_numbers]
    family [of "triage_events t" "\<lambda>q. mset (triage_events t (0, q))", OF triage_numbers]
    family [of "notification_events db cid t" "notification_told db cid t", OF notification_numbers] mset_filter
  by (simp only: add.assoc)

definition runs_told :: "timeline_db \<Rightarrow> string \<Rightarrow> int option \<Rightarrow> timeline_event multiset" where
  "runs_told db cid tender_id =
     (\<Sum>r \<in># filter_mset (\<lambda>r. rh_correlation_id r = Some cid \<or> rh_id r \<in> set (related_runs db tender_id)) (mset (tb_runs db)).
        mset (run_events r))"

lemma mset_concat_map: "mset (concat (map f xs)) = (\<Sum>x \<in># mset xs. mset (f x))"
  by (induction xs) simp_all

lemma runs_part_told: "mset (map unnumbered (concat (map run_events (selected_runs db cid tender_id)))) = runs_told db cid tender_id"
proof -
  have "map unnumbered (concat (map run_events rs)) = concat (map run_events rs)" for rs
    by (simp add: map_concat single_numbers comp_def)
  then show ?thesis by (simp add: mset_concat_map runs_told_def selected_runs_def mset_filter)
qed

definition events_of :: "(instant \<Rightarrow> string) \<Rightarrow> timeline_db \<Rightarrow> string \<Rightarrow> timeline_event list" where
  "events_of isoformat db cid = ty_events (reconstruct_by_correlation isoformat db cid)"

definition all_told :: "(instant \<Rightarrow> string) \<Rightarrow> timeline_db \<Rightarrow> string \<Rightarrow> timeline_event multiset" where
  "all_told isoformat db cid =
     (case List.find (\<lambda>t. tn_correlation_id t = cid) (tb_tenders db) of None \<Rightarrow> {#} | Some t \<Rightarrow> told isoformat db cid t)
     + runs_told db cid (map_option tn_id (List.find (\<lambda>t. tn_correlation_id t = cid) (tb_tenders db)))"

lemma events_told: "mset (map unnumbered (events_of isoformat db cid)) = all_told isoformat db cid"
  by (cases "List.find (\<lambda>t. tn_correlation_id t = cid) (tb_tenders db)")
    (simp_all add: events_of_def all_told_def reconstruct_by_correlation_def Let_def runs_part_told [unfolded mset_map]
      tender_part_told [unfolded mset_map])

section \<open>An event id names one event\<close>

definition unique_rows :: "timeline_db \<Rightarrow> bool" where
  "unique_rows db \<longleftrightarrow> distinct (map tn_correlation_id (tb_tenders db)) \<and> distinct (map dr_tender_id (tb_deadlines db))
     \<and> distinct (map (\<lambda>d. dc_id (dd_row d)) (tb_documents db)) \<and> distinct (map (\<lambda>q. tq_id (snd q)) (tb_triage db))
     \<and> distinct (map nl_id (tb_notifications db)) \<and> distinct (map fst (tb_attempts db)) \<and> distinct (map rh_id (tb_runs db))
     \<and> distinct (map (\<lambda>v. (vd_tender_id v, vd_generated_at v)) (tb_verdicts db))"

lemma same_row: "distinct (map f xs) \<Longrightarrow> x \<in> set xs \<Longrightarrow> y \<in> set xs \<Longrightarrow> f x = f y \<Longrightarrow> x = y"
  by (simp add: distinct_map inj_on_def)

text \<open>Where an event comes from: the kind and the id of its row.\<close>

definition document_source :: "timeline_db \<Rightarrow> string \<Rightarrow> tender \<Rightarrow> int \<Rightarrow> timeline_event \<Rightarrow> bool" where
  "document_source db cid t i e \<longleftrightarrow>
     (\<exists>d \<in> set (tb_documents db). i = dc_id (dd_row d) \<and> e \<in> set (document_events cid t (0, d)))"

definition run_source_of :: "timeline_db \<Rightarrow> int \<Rightarrow> timeline_event \<Rightarrow> bool" where
  "run_source_of db i e \<longleftrightarrow> (\<exists>r \<in> set (tb_runs db). i = rh_id r \<and> e \<in> set (run_events r))"

fun source_of ::
  "(instant \<Rightarrow> string) \<Rightarrow> timeline_db \<Rightarrow> string \<Rightarrow> tender \<Rightarrow> row_kind \<Rightarrow> int \<Rightarrow> timeline_event \<Rightarrow> bool" where
  "source_of f db cid t KTender i e = (e \<in> set (tender_events db cid t))"
| "source_of f db cid t KDeadline i e = (e \<in> set (deadline_events f db cid t))"
| "source_of f db cid t KDiscovery i e = document_source db cid t i e"
| "source_of f db cid t KAcquire i e = document_source db cid t i e"
| "source_of f db cid t KProcess i e = document_source db cid t i e"
| "source_of f db cid t KVerdict i e = (e \<in> set (verdict_events db cid t))"
| "source_of f db cid t KTriage i e = (\<exists>q \<in> set (tb_triage db). i = tq_id (snd q) \<and> e \<in> set (triage_events t (0, q)))"
| "source_of f db cid t KNotification i e =
     (\<exists>n \<in> set (tb_notifications db). i = nl_id n \<and> e = hd (notification_events db cid t (0, n)))"
| "source_of f db cid t KAttempt i e =
     (\<exists>a \<in> set (tb_attempts db). \<exists>n \<in> set (tb_notifications db). i = fst a \<and> na_notification_id (snd a) = nl_id n
        \<and> e \<in> set (attempt_events cid t n (0, a)))"
| "source_of f db cid t KStart i e = run_source_of db i e"
| "source_of f db cid t KEnd i e = run_source_of db i e"

lemma plain_event_id: "tv_event_id (plain_event ts stage status c i seq) = i"
  by (simp add: plain_event_def)

lemma at_most_one: "length xs \<le> 1 \<Longrightarrow> x \<in> set xs \<Longrightarrow> y \<in> set xs \<Longrightarrow> x = y"
  by (cases xs) auto

lemma single_events:
  "length (tender_events db cid t) \<le> 1" "length (deadline_events f db cid t) \<le> 1" "length (verdict_events db cid t) \<le> 1"
  "length (triage_events t q) \<le> 1" "length (attempt_events cid t n a) \<le> 1"
  by (simp_all add: tender_events_def deadline_events_def verdict_events_def triage_events_def attempt_events_def
      split: option.splits list.splits prod.splits)

lemma distinct_document_ids: "distinct (map tv_event_id (document_events cid t s))"
  by (cases s) (simp add: document_events_def plain_event_id Let_def)

lemma distinct_run_ids: "distinct (map tv_event_id (run_events r))"
  by (simp add: run_events_def plain_event_id Let_def split: option.splits)

lemma source_unique:
  assumes unique: "unique_rows db" and ids: "tv_event_id e = tv_event_id e'"
    and e: "source_of f db cid t k i e" and e': "source_of f db cid t k i e'"
  shows "e = e'"
proof -
  have u: "distinct (map (\<lambda>d. dc_id (dd_row d)) (tb_documents db))" "distinct (map (\<lambda>q. tq_id (snd q)) (tb_triage db))"
      "distinct (map nl_id (tb_notifications db))" "distinct (map fst (tb_attempts db))" "distinct (map rh_id (tb_runs db))"
    using unique by (simp_all add: unique_rows_def)
  have docs: "e = e'" if d: "document_source db cid t i e" "document_source db cid t i e'"
  proof -
    obtain d d' where d: "d \<in> set (tb_documents db)" "d' \<in> set (tb_documents db)" "dc_id (dd_row d) = dc_id (dd_row d')"
        "e \<in> set (document_events cid t (0, d))" "e' \<in> set (document_events cid t (0, d'))"
      using d unfolding document_source_def by metis
    have "d = d'" by (rule same_row [OF u(1) d(1,2,3)])
    then show ?thesis using same_row [OF distinct_document_ids d(4) _ ids] d(5) by blast
  qed
  have runs: "e = e'" if r: "run_source_of db i e" "run_source_of db i e'"
  proof -
    obtain r r' where r: "r \<in> set (tb_runs db)" "r' \<in> set (tb_runs db)" "rh_id r = rh_id r'"
        "e \<in> set (run_events r)" "e' \<in> set (run_events r')"
      using r unfolding run_source_of_def by metis
    have "r = r'" by (rule same_row [OF u(5) r(1,2,3)])
    then show ?thesis using same_row [OF distinct_run_ids r(4) _ ids] r(5) by blast
  qed
  show ?thesis
  proof (cases k)
    case KTriage
    then obtain q q' where q: "q \<in> set (tb_triage db)" "q' \<in> set (tb_triage db)" "tq_id (snd q) = tq_id (snd q')"
        "e \<in> set (triage_events t (0, q))" "e' \<in> set (triage_events t (0, q'))"
      using e e' by (simp only: source_of.simps) metis
    have "q = q'" by (rule same_row [OF u(2) q(1,2,3)])
    then show ?thesis using at_most_one [OF single_events(4)] q(4,5) by blast
  next
    case KNotification
    then obtain n n' where n: "n \<in> set (tb_notifications db)" "n' \<in> set (tb_notifications db)" "nl_id n = nl_id n'"
        "e = hd (notification_events db cid t (0, n))" "e' = hd (notification_events db cid t (0, n'))"
      using e e' by (simp only: source_of.simps) metis
    have "n = n'" by (rule same_row [OF u(3) n(1,2,3)])
    then show ?thesis using n(4,5) by simp
  next
    case KAttempt
    then obtain a a' n n' where a: "a \<in> set (tb_attempts db)" "a' \<in> set (tb_attempts db)" "fst a = fst a'"
        and n: "n \<in> set (tb_notifications db)" "n' \<in> set (tb_notifications db)"
        and an: "na_notification_id (snd a) = nl_id n" "na_notification_id (snd a') = nl_id n'"
        and in_a: "e \<in> set (attempt_events cid t n (0, a))" "e' \<in> set (attempt_events cid t n' (0, a'))"
      using e e' by (simp only: source_of.simps) metis
    have "a = a'" by (rule same_row [OF u(4) a])
    moreover have "n = n'" by (rule same_row [OF u(3) n]) (use an \<open>a = a'\<close> in simp)
    ultimately show ?thesis using at_most_one [OF single_events(5)] in_a by blast
  qed (use e e' docs runs at_most_one [OF single_events(1)] at_most_one [OF single_events(2)] at_most_one [OF single_events(3)]
      in \<open>simp_all only: source_of.simps\<close>)
qed

lemma ids_of_families:
  "e \<in> set (tender_events db cid t) \<Longrightarrow> tv_event_id e = prefix_of KTender @ int_str (tn_id t)"
  "e \<in> set (deadline_events f db cid t) \<Longrightarrow> tv_event_id e = prefix_of KDeadline @ int_str (tn_id t)"
  "e \<in> set (verdict_events db cid t) \<Longrightarrow> \<exists>i. tv_event_id e = prefix_of KVerdict @ int_str i"
  "e \<in> set (triage_events t q) \<Longrightarrow> tv_event_id e = prefix_of KTriage @ int_str (tq_id (snd (snd q)))"
  "e \<in> set (attempt_events cid t n a) \<Longrightarrow> tv_event_id e = prefix_of KAttempt @ int_str (fst (snd a))"
  "tv_event_id (hd (notification_events db cid t m)) = prefix_of KNotification @ int_str (nl_id (snd m))"
  by (auto simp: prefix_of.simps tender_events_def deadline_events_def verdict_events_def triage_events_def attempt_events_def
      notification_events_def plain_event_id split: option.splits list.splits prod.splits)

lemma ids_of_documents:
  assumes "e \<in> set (document_events cid t s)"
  shows "\<exists>k \<in> {KDiscovery, KAcquire, KProcess}. tv_event_id e = prefix_of k @ int_str (dc_id (dd_row (snd s)))"
  using assms by (cases s) (auto simp: prefix_of.simps document_events_def plain_event_id Let_def split: if_splits)

lemma ids_of_runs:
  assumes "e \<in> set (run_events r)"
  shows "\<exists>k \<in> {KStart, KEnd}. tv_event_id e = prefix_of k @ int_str (rh_id r)"
  using assms by (auto simp: prefix_of.simps run_events_def plain_event_id Let_def split: option.splits)

definition sourced :: "(instant \<Rightarrow> string) \<Rightarrow> timeline_db \<Rightarrow> string \<Rightarrow> tender \<Rightarrow> timeline_event \<Rightarrow> bool" where
  "sourced f db cid t e \<longleftrightarrow> (\<exists>k i. tv_event_id e = prefix_of k @ int_str i \<and> source_of f db cid t k i e)"

lemma sourcedI: "tv_event_id e = prefix_of k @ int_str i \<Longrightarrow> source_of f db cid t k i e \<Longrightarrow> sourced f db cid t e"
  unfolding sourced_def by blast

lemma sourcedE:
  assumes "sourced f db cid t e"
  obtains k i where "tv_event_id e = prefix_of k @ int_str i" "source_of f db cid t k i e"
  using assms unfolding sourced_def by blast

lemma runs_sourced:
  assumes "e \<in># runs_told db cid tender_id"
  shows "sourced f db cid t e"
proof -
  obtain r where r: "r \<in> set (tb_runs db)" "e \<in> set (run_events r)"
    using assms by (auto simp: runs_told_def)
  then obtain k where "k \<in> {KStart, KEnd}" "tv_event_id e = prefix_of k @ int_str (rh_id r)" using ids_of_runs by blast
  moreover have "run_source_of db (rh_id r) e" using r unfolding run_source_of_def by blast
  ultimately show ?thesis by (auto intro: sourcedI [where k = k and i = "rh_id r"])
qed

lemma told_sourced:
  assumes "e \<in># told f db cid t"
  shows "sourced f db cid t e"
proof -
  consider "e \<in> set (tender_events db cid t)" | "e \<in> set (deadline_events f db cid t)"
    | d where "d \<in> set (tb_documents db)" "e \<in> set (document_events cid t (0, d))"
    | "e \<in> set (verdict_events db cid t)"
    | q where "q \<in> set (tb_triage db)" "e \<in> set (triage_events t (0, q))"
    | n where "n \<in> set (tb_notifications db)" "e \<in># notification_told db cid t n"
    using assms by (auto simp: told_def)
  then show ?thesis
  proof cases
    case 1
    show ?thesis by (rule sourcedI, rule ids_of_families(1) [OF 1]) (simp add: 1)
  next
    case 2
    show ?thesis by (rule sourcedI, rule ids_of_families(2) [OF 2]) (simp add: 2)
  next
    case (3 d)
    then obtain k where "k \<in> {KDiscovery, KAcquire, KProcess}" "tv_event_id e = prefix_of k @ int_str (dc_id (dd_row d))"
      using ids_of_documents [OF 3(2)] unfolding snd_conv by blast
    moreover have "document_source db cid t (dc_id (dd_row d)) e" using 3 unfolding document_source_def by blast
    ultimately show ?thesis by (auto intro: sourcedI [where k = k and i = "dc_id (dd_row d)"])
  next
    case 4
    then obtain i where "tv_event_id e = prefix_of KVerdict @ int_str i" using ids_of_families(3) by blast
    then show ?thesis by (rule sourcedI) (simp add: 4)
  next
    case (5 q)
    show ?thesis by (rule sourcedI [where k = KTriage], rule ids_of_families(4) [OF 5(2)]) (use 5 in auto)
  next
    case (6 n)
    then consider "e = hd (notification_events db cid t (0, n))"
      | a where "a \<in> set (tb_attempts db)" "na_notification_id (snd a) = nl_id n" "e \<in># attempts_told cid t n a"
      by (auto simp: notification_told_def)
    then show ?thesis
    proof cases
      case 1
      have "tv_event_id e = prefix_of KNotification @ int_str (nl_id n)" using ids_of_families(6) [of db cid t "(0, n)"] 1 by simp
      then show ?thesis by (rule sourcedI) (use 1 6(1) in auto)
    next
      case (2 a)
      then have a: "e \<in> set (attempt_events cid t n (0, a))" by (simp add: attempts_told_def)
      have "tv_event_id e = prefix_of KAttempt @ int_str (fst a)" using ids_of_families(5) [OF a] by simp
      then show ?thesis by (rule sourcedI) (use 2 6(1) a in auto)
    qed
  qed
qed

lemma all_told_sourced:
  assumes "e \<in># all_told f db cid"
  shows "sourced f db cid (the (List.find (\<lambda>t. tn_correlation_id t = cid) (tb_tenders db))) e"
proof (cases "List.find (\<lambda>t. tn_correlation_id t = cid) (tb_tenders db)")
  case None
  have "e \<in># runs_told db cid None" using assms by (simp add: all_told_def None)
  then show ?thesis by (rule runs_sourced)
next
  case (Some t)
  have "e \<in># told f db cid t \<or> e \<in># runs_told db cid (Some (tn_id t))" using assms by (simp add: all_told_def Some)
  then show ?thesis unfolding Some option.sel using told_sourced runs_sourced by blast
qed

lemma told_ids_unique:
  assumes "unique_rows db"
  shows "inj_on tv_event_id (set_mset (all_told f db cid))"
proof (rule inj_onI)
  fix e e'
  assume e: "e \<in># all_told f db cid" and e': "e' \<in># all_told f db cid" and ids: "tv_event_id e = tv_event_id e'"
  define t where "t = the (List.find (\<lambda>t. tn_correlation_id t = cid) (tb_tenders db))"
  have src: "sourced f db cid t e" "sourced f db cid t e'" unfolding t_def by (rule all_told_sourced [OF e], rule all_told_sourced [OF e'])
  obtain k i where k: "tv_event_id e = prefix_of k @ int_str i" "source_of f db cid t k i e" by (rule sourcedE [OF src(1)])
  obtain k' i' where k': "tv_event_id e' = prefix_of k' @ int_str i'" "source_of f db cid t k' i' e'" by (rule sourcedE [OF src(2)])
  have "prefix_of k @ int_str i = prefix_of k' @ int_str i'" unfolding k(1) [symmetric] k'(1) [symmetric] by (rule ids)
  then have "k = k'" "i = i'" unfolding event_id_eq by simp_all
  with k'(2) have "source_of f db cid t k i e'" by simp
  with k(2) show "e = e'" by (rule source_unique [OF assms ids])
qed

section \<open>The order of the timeline\<close>

definition time_and_id :: "timeline_event \<Rightarrow> instant \<times> string" where
  "time_and_id e = (tv_timestamp e, tv_event_id e)"

lemma sorted_time_and_id:
  assumes "sorted (map event_key es)"
  shows "sorted (map time_and_id (map unnumbered es))"
proof -
  have mono: "time_and_id (unnumbered e) \<le> time_and_id (unnumbered e')" if "event_key e \<le> event_key e'" for e e'
    using that by (auto simp: event_key_def time_and_id_def less_eq_prod_def)
  show ?thesis using assms unfolding map_map sorted_map comp_def
    by (rule sorted_wrt_mono_rel [rotated]) (rule mono)
qed

lemma events_sorted: "sorted (map event_key (events_of f db cid))"
  by (simp add: events_of_def reconstruct_by_correlation_def Let_def)

lemma events_by_time:
  assumes "unique_rows db" "mset es = all_told f db cid"
  shows "map unnumbered (events_of f db cid) = sort_key time_and_id es"
proof -
  have "inj_on time_and_id (set es)"
    using told_ids_unique [OF assms(1), of f cid] assms(2) unfolding inj_on_def time_and_id_def
    by (metis prod.inject set_mset_mset)
  moreover have "mset es = mset (map unnumbered (events_of f db cid))" by (simp only: events_told assms(2))
  ultimately show ?thesis using sort_key_inj_key_eq [OF _ _ sorted_time_and_id [OF events_sorted]] by metis
qed

definition same_rows :: "timeline_db \<Rightarrow> timeline_db \<Rightarrow> bool" where
  "same_rows db db' \<longleftrightarrow> tb_source_name db = tb_source_name db' \<and> mset (tb_tenders db) = mset (tb_tenders db')
     \<and> mset (tb_deadlines db) = mset (tb_deadlines db') \<and> mset (tb_documents db) = mset (tb_documents db')
     \<and> mset (tb_verdicts db) = mset (tb_verdicts db') \<and> mset (tb_triage db) = mset (tb_triage db')
     \<and> mset (tb_notifications db) = mset (tb_notifications db') \<and> mset (tb_attempts db) = mset (tb_attempts db')
     \<and> mset (tb_runs db) = mset (tb_runs db')"

lemma find_same:
  assumes "mset xs = mset ys" "distinct (map f xs)" "\<And>x. P x \<longleftrightarrow> f x = k"
  shows "List.find P xs = List.find P ys"
proof -
  have sets: "set xs = set ys" by (rule mset_eq_setD [OF assms(1)])
  have one: "x = y" if "x \<in> set xs" "y \<in> set xs" "P x" "P y" for x y
    using same_row [OF assms(2) that(1,2)] that(3,4) assms(3) by simp
  have some: "x \<in> set zs \<and> P x" if "List.find P zs = Some x" for x zs
    using that by (auto simp: find_Some_iff)
  show ?thesis
  proof (cases "List.find P xs")
    case None
    then have "List.find P ys = None" unfolding find_None_iff sets .
    with None show ?thesis by simp
  next
    case (Some x)
    then have "\<exists>x \<in> set ys. P x" using some sets by blast
    then obtain y where y: "List.find P ys = Some y" by (cases "List.find P ys") (auto simp: find_None_iff)
    then show ?thesis using Some some one sets by metis
  qed
qed

lemma same_distinct: "mset xs = mset ys \<Longrightarrow> distinct (map f xs) = distinct (map f ys)"
  by (rule mset_eq_imp_distinct_iff) simp

lemma same_rows_unique: "same_rows db db' \<Longrightarrow> unique_rows db \<Longrightarrow> unique_rows db'"
  unfolding same_rows_def unique_rows_def
  by (elim conjE, intro conjI; erule same_distinct [THEN iffD1]; assumption)

lemma same_verdicts:
  assumes "same_rows db db'" "unique_rows db"
  shows "verdict_events db cid t = verdict_events db' cid t"
proof -
  let ?vs = "\<lambda>db. filter (\<lambda>v. vd_tender_id v = tn_id t) (tb_verdicts db)"
  have "inj_on vd_generated_at (set (?vs db))"
  proof (rule inj_onI)
    fix v v'
    assume "v \<in> set (?vs db)" "v' \<in> set (?vs db)" "vd_generated_at v = vd_generated_at v'"
    moreover have "distinct (map (\<lambda>v. (vd_tender_id v, vd_generated_at v)) (tb_verdicts db))"
      using assms(2) by (simp add: unique_rows_def)
    ultimately show "v = v'" using same_row [of "\<lambda>v. (vd_tender_id v, vd_generated_at v)" "tb_verdicts db" v v'] by simp
  qed
  moreover have "mset (?vs db) = mset (sort_key vd_generated_at (?vs db'))"
    using assms(1) by (simp add: same_rows_def mset_filter)
  moreover have "sorted (map vd_generated_at (sort_key vd_generated_at (?vs db')))" by simp
  ultimately have "sort_key vd_generated_at (?vs db) = sort_key vd_generated_at (?vs db')"
    by (intro sort_key_inj_key_eq)
  then show ?thesis by (simp only: verdict_events_def)
qed

lemma same_deadlines:
  assumes "same_rows db db'" "unique_rows db"
  shows "deadline_events f db cid t = deadline_events f db' cid t"
proof -
  have "List.find (\<lambda>r. dr_tender_id r = tn_id t) (tb_deadlines db) = List.find (\<lambda>r. dr_tender_id r = tn_id t) (tb_deadlines db')"
    by (rule find_same [where f = dr_tender_id and k = "tn_id t"]) (use assms in \<open>simp_all add: same_rows_def unique_rows_def\<close>)
  then show ?thesis by (simp only: deadline_events_def)
qed

lemma same_told:
  assumes "same_rows db db'" "unique_rows db"
  shows "told f db cid t = told f db' cid t" "runs_told db cid i = runs_told db' cid i"
proof -
  have rows: "mset (tb_documents db) = mset (tb_documents db')" "mset (tb_triage db) = mset (tb_triage db')"
      "mset (tb_notifications db) = mset (tb_notifications db')" "mset (tb_attempts db) = mset (tb_attempts db')"
      "mset (tb_runs db) = mset (tb_runs db')" "tb_source_name db = tb_source_name db'"
    using assms(1) by (simp_all add: same_rows_def)
  have heads: "hd (notification_events db cid t (0, n)) = hd (notification_events db' cid t (0, n))" for n
    by (simp add: notification_events_def)
  have sources: "tender_events db cid t = tender_events db' cid t" by (simp add: tender_events_def rows(6))
  have inner: "notification_told db cid t = notification_told db' cid t"
    by (rule ext) (simp only: notification_told_def rows heads)
  show "told f db cid t = told f db' cid t"
    by (simp only: told_def rows inner sources same_deadlines [OF assms] same_verdicts [OF assms])
  have "set (related_runs db i) = set (related_runs db' i)"
    using mset_eq_setD [OF rows(5)] mset_eq_setD [OF rows(2)] by (simp add: related_runs_def split: option.splits)
  then show "runs_told db cid i = runs_told db' cid i" by (simp only: runs_told_def rows)
qed

section \<open>What the rows tell\<close>

text \<open>The time, stage, status and id of an event, and those that the persisted rows call for: every row of the
  tender, read from its table and not through the functions that make the events.\<close>

type_synonym timeline_fact = "instant \<times> string \<times> string \<times> string"

definition fact_of :: "timeline_event \<Rightarrow> timeline_fact" where
  "fact_of e = (tv_timestamp e, tv_stage e, tv_status e, tv_event_id e)"

definition document_facts :: "dated_document \<Rightarrow> timeline_fact multiset" where
  "document_facts d = (let r = dd_row d; i = int_str (dc_id r) in
     {#(dd_created_at d, ''document_discovery'', ''discovered'', ''doc-discovery-'' @ i)#}
     + (if dc_download_status r = ''pending'' then {#}
        else {#(dd_updated_at d, ''document_acquisition'', dc_download_status r, ''doc-acquire-'' @ i)#})
     + (if dc_extraction_status r = ''pending'' then {#}
        else {#(dd_updated_at d, ''document_processing'', dc_extraction_status r, ''doc-process-'' @ i)#}))"

definition earliest_verdicts :: "timeline_db \<Rightarrow> int \<Rightarrow> verdict_row multiset" where
  "earliest_verdicts db i = filter_mset (\<lambda>v. vd_tender_id v = i
       \<and> (\<forall>v' \<in> set (tb_verdicts db). vd_tender_id v' = i \<longrightarrow> vd_generated_at v \<le> vd_generated_at v')) (mset (tb_verdicts db))"

definition notification_facts :: "timeline_db \<Rightarrow> notification_log \<Rightarrow> timeline_fact multiset" where
  "notification_facts db n =
     {#(nl_created_at n, ''notification'', nl_status n, ''notif-'' @ int_str (nl_id n))#}
     + image_mset (\<lambda>a. (na_attempted_at (snd a), ''notification_attempt'', na_status (snd a), ''notif-attempt-'' @ int_str (fst a)))
         (filter_mset (\<lambda>a. na_notification_id (snd a) = nl_id n) (mset (tb_attempts db)))"

definition run_facts :: "run_history \<Rightarrow> timeline_fact multiset" where
  "run_facts r = {#(rh_started_at r, ''run'', ''started'', ''run-start-'' @ int_str (rh_id r))#}
     + (case rh_ended_at r of None \<Rightarrow> {#}
        | Some ended \<Rightarrow> {#(ended, ''run'', if rh_error_count r > 0 \<or> py_truthy (rh_failed_stage r) then ''errored'' else ''completed'',
            ''run-end-'' @ int_str (rh_id r))#})"

definition tender_facts :: "timeline_db \<Rightarrow> tender \<Rightarrow> timeline_fact multiset" where
  "tender_facts db t =
     {#(tn_first_seen_at t, ''discovery'', ''seen'', ''tender-'' @ int_str (tn_id t))#}
     + image_mset (\<lambda>r. (dr_deadline_resolved_at r, ''deadline_resolution'', py_or (Some (dr_deadline_source r)) ''unresolved'',
           ''deadline-'' @ int_str (tn_id t))) (filter_mset (\<lambda>r. dr_tender_id r = tn_id t) (mset (tb_deadlines db)))
     + (\<Sum>d \<in># filter_mset (\<lambda>d. dc_tender_id (dd_row d) = tn_id t) (mset (tb_documents db)). document_facts d)
     + image_mset (\<lambda>v. (vd_generated_at v, ''verdict'', ''completed'', ''verdict-'' @ int_str (vd_id v))) (earliest_verdicts db (tn_id t))
     + image_mset (\<lambda>q. (fst q, ''triage'', tq_status (snd q), ''triage-'' @ int_str (tq_id (snd q))))
         (filter_mset (\<lambda>q. tq_tender_id (snd q) = tn_id t) (mset (tb_triage db)))
     + (\<Sum>n \<in># filter_mset (\<lambda>n. nl_tender_id n = Some (tn_id t)) (mset (tb_notifications db)). notification_facts db n)"

text \<open>A run belongs to a timeline by its correlation id, as a run of the tender, or as the run of one of its triages.\<close>

definition run_belongs :: "timeline_db \<Rightarrow> string \<Rightarrow> tender option \<Rightarrow> run_history \<Rightarrow> bool" where
  "run_belongs db cid tender r \<longleftrightarrow> rh_correlation_id r = Some cid
     \<or> (case tender of None \<Rightarrow> rh_id r = -1
        | Some t \<Rightarrow> rh_tender_id r = Some (tn_id t)
            \<or> (\<exists>q \<in> set (tb_triage db). tq_tender_id (snd q) = tn_id t \<and> tq_run_id (snd q) = Some (rh_id r)))"

definition timeline_facts :: "timeline_db \<Rightarrow> string \<Rightarrow> timeline_fact multiset" where
  "timeline_facts db cid = (let tender = List.find (\<lambda>t. tn_correlation_id t = cid) (tb_tenders db) in
     (case tender of None \<Rightarrow> {#} | Some t \<Rightarrow> tender_facts db t)
     + (\<Sum>r \<in># filter_mset (run_belongs db cid tender) (mset (tb_runs db)). run_facts r))"

lemma image_sum_mset: "image_mset f (\<Sum>x \<in># M. g x) = (\<Sum>x \<in># M. image_mset f (g x))"
  by (induction M) simp_all

lemma filter_by_key:
  "distinct (map f xs) \<Longrightarrow> filter (\<lambda>x. f x = k) xs = (case List.find (\<lambda>x. f x = k) xs of None \<Rightarrow> [] | Some x \<Rightarrow> [x])"
proof (induction xs)
  case (Cons x xs)
  have "filter (\<lambda>y. f y = f x) xs = []" using Cons.prems by (auto simp: filter_empty_conv image_iff)
  then show ?case using Cons by auto
qed simp

lemma single_mset: "mset (map g xs) = image_mset g (mset xs)"
  by simp

lemma fact_of_plain: "fact_of (plain_event ts stage status c i seq) = (ts, stage, status, i)"
  by (simp add: fact_of_def plain_event_def)

lemma row_facts:
  "image_mset fact_of (mset (document_events cid t (s, d))) = document_facts d"
  "image_mset fact_of (mset (triage_events t (s, q))) = {#(fst q, ''triage'', tq_status (snd q), ''triage-'' @ int_str (tq_id (snd q)))#}"
  "image_mset fact_of (mset (run_events r)) = run_facts r"
  "image_mset fact_of (mset (tender_events db cid t)) = {#(tn_first_seen_at t, ''discovery'', ''seen'', ''tender-'' @ int_str (tn_id t))#}"
  "fact_of (hd (notification_events db cid t (s, n))) = (nl_created_at n, ''notification'', nl_status n, ''notif-'' @ int_str (nl_id n))"
  "image_mset fact_of (attempts_told cid t n a) = {#(na_attempted_at (snd a), ''notification_attempt'', na_status (snd a), ''notif-attempt-'' @ int_str (fst a))#}"
  by (cases q; cases a; simp add: document_events_def document_facts_def triage_events_def run_events_def run_facts_def
      tender_events_def notification_events_def attempts_told_def attempt_events_def fact_of_def plain_event_def Let_def
      split: option.split)+

lemma sum_singles: "(\<Sum>x \<in># M. {#g x#}) = image_mset g M"
  by (induction M) simp_all

lemma notification_told_facts: "image_mset fact_of (notification_told db cid t n) = notification_facts db n"
proof -
  have "(\<lambda>(i :: int, a :: notification_attempt). na_notification_id a = nl_id n) = (\<lambda>a. na_notification_id (snd a) = nl_id n)"
    by (rule ext) (simp add: case_prod_beta)
  then show ?thesis by (simp add: notification_told_def notification_facts_def image_sum_mset row_facts sum_singles)
qed

lemma deadline_told_facts:
  assumes "unique_rows db"
  shows "image_mset fact_of (mset (deadline_events f db cid t))
    = image_mset (\<lambda>r. (dr_deadline_resolved_at r, ''deadline_resolution'', py_or (Some (dr_deadline_source r)) ''unresolved'',
           ''deadline-'' @ int_str (tn_id t))) (filter_mset (\<lambda>r. dr_tender_id r = tn_id t) (mset (tb_deadlines db)))"
proof -
  have "distinct (map dr_tender_id (tb_deadlines db))" using assms by (simp add: unique_rows_def)
  from filter_by_key [OF this, of "tn_id t"] show ?thesis unfolding mset_filter [symmetric]
    by (auto simp: deadline_events_def fact_of_def plain_event_def split: option.split)
qed

lemma earliest_verdict:
  assumes "unique_rows db"
  shows "earliest_verdicts db i = mset (take 1 (sort_key vd_generated_at (filter (\<lambda>v. vd_tender_id v = i) (tb_verdicts db))))"
proof -
  let ?vs = "filter (\<lambda>v. vd_tender_id v = i) (tb_verdicts db)"
  let ?least = "\<lambda>v. \<forall>v' \<in> set (tb_verdicts db). vd_tender_id v' = i \<longrightarrow> vd_generated_at v \<le> vd_generated_at v'"
  have early: "earliest_verdicts db i = filter_mset ?least (mset (sort_key vd_generated_at ?vs))"
    by (simp add: earliest_verdicts_def mset_filter filter_filter_mset conj_commute)
  show ?thesis
  proof (cases "sort_key vd_generated_at ?vs")
    case Nil
    then show ?thesis by (simp add: early)
  next
    case (Cons v rest)
    have sets: "set (v # rest) = set ?vs" using Cons set_sort [of vd_generated_at ?vs] by simp
    have sorted: "sorted (map vd_generated_at (v # rest))" unfolding Cons [symmetric] by simp
    have "distinct (map (\<lambda>v. (vd_tender_id v, vd_generated_at v)) ?vs)"
      using assms by (simp add: unique_rows_def distinct_map_filter)
    then have "distinct (map (\<lambda>v. (vd_tender_id v, vd_generated_at v)) (v # rest))"
      using same_distinct [of ?vs "v # rest"] Cons mset_sort [of vd_generated_at ?vs] by metis
    then have other: "vd_generated_at u \<noteq> vd_generated_at v" if "u \<in> set rest" for u
    proof -
      have "vd_tender_id u = i" "vd_tender_id v = i" using that sets by auto
      then show ?thesis using that \<open>distinct (map _ (v # rest))\<close> by force
    qed
    have least: "?least v" using sorted sets by auto
    have none: "\<not> ?least u" if u: "u \<in> set rest" for u
    proof
      assume "?least u"
      moreover have "v \<in> set (tb_verdicts db)" "vd_tender_id v = i" using sets by auto
      ultimately have "vd_generated_at u \<le> vd_generated_at v" by blast
      moreover have "vd_generated_at v \<le> vd_generated_at u" using sorted u by auto
      ultimately show False using other [OF u] by simp
    qed
    then have "filter_mset ?least (mset rest) = {#}" unfolding mset_filter [symmetric] by (simp add: filter_empty_conv)
    then show ?thesis unfolding early Cons using least by simp
  qed
qed

lemma verdict_told_facts:
  assumes "unique_rows db"
  shows "image_mset fact_of (mset (verdict_events db cid t))
    = image_mset (\<lambda>v. (vd_generated_at v, ''verdict'', ''completed'', ''verdict-'' @ int_str (vd_id v))) (earliest_verdicts db (tn_id t))"
  by (simp add: earliest_verdict [OF assms] verdict_events_def fact_of_def plain_event_def split: list.split)

lemma told_facts:
  assumes "unique_rows db"
  shows "image_mset fact_of (told f db cid t) = tender_facts db t"
  by (simp add: told_def tender_facts_def image_sum_mset row_facts deadline_told_facts [OF assms] verdict_told_facts [OF assms]
      notification_told_facts sum_singles case_prod_beta)

lemma run_belongs_iff:
  assumes "unique_rows db" "r \<in> set (tb_runs db)"
  shows "run_belongs db cid tender r \<longleftrightarrow> rh_correlation_id r = Some cid \<or> rh_id r \<in> set (related_runs db (map_option tn_id tender))"
proof -
  have "distinct (map rh_id (tb_runs db))" using assms(1) by (simp add: unique_rows_def)
  from same_row [OF this assms(2)] have same: "r' = r" if "r' \<in> set (tb_runs db)" "rh_id r' = rh_id r" for r'
    using that by metis
  show ?thesis
  proof (cases tender)
    case None
    then show ?thesis using assms(2) by (auto simp: run_belongs_def related_runs_def image_iff)
  next
    case (Some t)
    have "rh_id r \<in> set (related_runs db (Some (tn_id t))) \<longleftrightarrow> rh_tender_id r = Some (tn_id t)
        \<or> (\<exists>q \<in> set (tb_triage db). tq_tender_id (snd q) = tn_id t \<and> tq_run_id (snd q) = Some (rh_id r))"
    proof -
      have "rh_id r \<in> rh_id ` {x \<in> set (tb_runs db). rh_tender_id x = Some (tn_id t)} \<longleftrightarrow> rh_tender_id r = Some (tn_id t)"
        using same assms(2) by (auto simp: image_iff)
      moreover have "rh_id r \<in> (\<lambda>q. the (tq_run_id (snd q))) ` {q \<in> set (tb_triage db). tq_tender_id (snd q) = tn_id t \<and> tq_run_id (snd q) \<noteq> None}
          \<longleftrightarrow> (\<exists>q \<in> set (tb_triage db). tq_tender_id (snd q) = tn_id t \<and> tq_run_id (snd q) = Some (rh_id r))"
        by (force simp: image_iff)
      ultimately show ?thesis by (simp add: related_runs_def)
    qed
    then show ?thesis by (simp add: run_belongs_def Some)
  qed
qed

lemma told_by_rows:
  assumes "unique_rows db"
  shows "image_mset fact_of (all_told f db cid) = timeline_facts db cid"
proof -
  have "filter_mset (run_belongs db cid tender) (mset (tb_runs db))
      = filter_mset (\<lambda>r. rh_correlation_id r = Some cid \<or> rh_id r \<in> set (related_runs db (map_option tn_id tender))) (mset (tb_runs db))" for tender
    by (rule filter_mset_cong [OF refl]) (use run_belongs_iff [OF assms] in simp)
  then show ?thesis
    by (simp add: all_told_def timeline_facts_def Let_def runs_told_def image_sum_mset row_facts told_facts [OF assms]
        split: option.split)
qed

text \<open>C25: a timeline tells the persisted rows, in the order of their times and event ids.  Its events are, one for
  one, those the rows call for: the tender's discovery, its resolved deadline, the discovery, acquisition and
  processing of each document, its earliest verdict, every triage, notification and delivery attempt, and
  the start and end of every run that belongs to it, each with its time, stage, status and id; none is
  invented, and of the rows only later verdicts are left out.  And over two databases with the same rows,
  whatever the order in which they return them, every timeline has the same events in the same order, up to
  the numbers the service gives rows in passing.  Row ids are unique, a tender has one deadline row and no two
  verdicts of the same instant.\<close>

theorem timeline_independent_of_row_order:
  assumes "unique_rows db" "same_rows db db'"
  shows "map unnumbered (ty_events (reconstruct_by_correlation f db cid)) = map unnumbered (ty_events (reconstruct_by_correlation f db' cid))
    \<and> ty_tender_id (reconstruct_by_correlation f db cid) = ty_tender_id (reconstruct_by_correlation f db' cid)
    \<and> mset (map fact_of (ty_events (reconstruct_by_correlation f db cid))) = timeline_facts db cid
    \<and> sorted (map tv_timestamp (ty_events (reconstruct_by_correlation f db cid)))"
proof -
  have tender: "List.find (\<lambda>t. tn_correlation_id t = cid) (tb_tenders db) = List.find (\<lambda>t. tn_correlation_id t = cid) (tb_tenders db')"
    by (rule find_same [where f = tn_correlation_id and k = cid]) (use assms in \<open>simp_all add: same_rows_def unique_rows_def\<close>)
  have told: "all_told f db cid = all_told f db' cid"
    by (simp only: all_told_def tender same_told [OF assms(2,1)])
  obtain es where es: "mset es = all_told f db cid" by (metis ex_mset)
  have order: "map unnumbered (events_of f db cid) = map unnumbered (events_of f db' cid)"
    using events_by_time [OF assms(1) es] events_by_time [OF same_rows_unique [OF assms(2,1)], of es f cid] es told by simp
  have "sorted (map tv_timestamp (events_of f db cid))"
  proof -
    have mono: "tv_timestamp e \<le> tv_timestamp e'" if "event_key e \<le> event_key e'" for e e'
      using that by (auto simp: event_key_def less_eq_prod_def)
    show ?thesis using events_sorted [of f db cid] unfolding sorted_map by (rule sorted_wrt_mono_rel [rotated]) (rule mono)
  qed
  moreover have "ty_tender_id (reconstruct_by_correlation f db cid) = ty_tender_id (reconstruct_by_correlation f db' cid)"
    by (simp add: reconstruct_by_correlation_def Let_def tender)
  moreover have "mset (map fact_of (events_of f db cid)) = timeline_facts db cid"
  proof -
    have "map fact_of (events_of f db cid) = map fact_of (map unnumbered (events_of f db cid))"
      by (simp add: fact_of_def unnumbered_def)
    then have "mset (map fact_of (events_of f db cid)) = image_mset fact_of (mset (map unnumbered (events_of f db cid)))"
      by (simp only: mset_map)
    also have "\<dots> = timeline_facts db cid" by (simp only: events_told told_by_rows [OF assms(1)])
    finally show ?thesis .
  qed
  ultimately show ?thesis using order unfolding events_of_def by blast
qed

definition demo_timeline :: "run_history list \<Rightarrow> timeline_db" where
  "demo_timeline runs = \<lparr>tb_tenders = [], tb_source_name = (\<lambda>_. None), tb_deadlines = [], tb_documents = [], tb_verdicts = [],
     tb_triage = [], tb_notifications = [], tb_attempts = [], tb_runs = runs\<rparr>"

theorem timeline_independent_of_row_order_witness:
  "map unnumbered (ty_events (reconstruct_by_correlation (\<lambda>t. nat_str (nat t)) (demo_timeline [create_run 1 2 ''c'' None 0, create_run 2 2 ''c'' None 0]) ''c''))
   = map unnumbered (ty_events (reconstruct_by_correlation (\<lambda>t. nat_str (nat t)) (demo_timeline [create_run 2 2 ''c'' None 0, create_run 1 2 ''c'' None 0]) ''c''))"
proof -
  let ?a = "create_run 1 2 ''c'' None 0" and ?b = "create_run 2 2 ''c'' None 0"
  have "unique_rows (demo_timeline [?a, ?b])" by (simp add: unique_rows_def demo_timeline_def create_run_def)
  moreover have "same_rows (demo_timeline [?a, ?b]) (demo_timeline [?b, ?a])" by (simp add: same_rows_def demo_timeline_def)
  ultimately show ?thesis using timeline_independent_of_row_order by blast
qed

section \<open>Equal times\<close>

text \<open>Events with the same time are in the order of their id strings: a run that ended in the instant it
  started is told as ended and then as started, and the tenth attempt of a notification comes before
  the ninth.  The sequence numbers never decide.\<close>

lemma sorted_before:
  assumes "sorted (map k xs)" "x \<in> set xs" "y \<in> set xs" "k x < k y"
  shows "\<exists>as bs cs. xs = as @ x # bs @ y # cs"
proof -
  obtain as zs where xs: "xs = as @ x # zs" using assms(2) by (auto simp: in_set_conv_decomp)
  have "y \<notin> set as" using assms(1,4) unfolding xs by (auto simp: sorted_append)
  then have "y \<in> set zs" using assms(3,4) unfolding xs by auto
  then show ?thesis unfolding xs by (auto simp: in_set_conv_decomp)
qed

lemma instant_run_told_backwards:
  assumes "r \<in> set (tb_runs db)" "rh_correlation_id r = Some cid" "rh_ended_at r = Some (rh_started_at r)"
  shows "\<exists>as e bs s cs. ty_events (reconstruct_by_correlation f db cid) = as @ e # bs @ s # cs
    \<and> tv_event_id e = ''run-end-'' @ int_str (rh_id r) \<and> tv_event_id s = ''run-start-'' @ int_str (rh_id r)"
proof -
  let ?es = "ty_events (reconstruct_by_correlation f db cid)"
  obtain s e where ev: "run_events r = [s, e]" and ids: "tv_event_id s = ''run-start-'' @ int_str (rh_id r)"
      "tv_event_id e = ''run-end-'' @ int_str (rh_id r)" "tv_timestamp s = tv_timestamp e"
    by (simp add: run_events_def assms(3) plain_event_def Let_def)
  have "r \<in> set (selected_runs db cid i)" for i using assms(1,2) by (simp add: selected_runs_def)
  then have "set (run_events r) \<subseteq> set ?es" by (auto simp: reconstruct_by_correlation_def Let_def)
  then have "s \<in> set ?es" "e \<in> set ?es" using ev by simp_all
  moreover have "event_key e < event_key s"
  proof -
    have "tv_event_id e < tv_event_id s" unfolding ids by (simp add: less_char_def)
    then show ?thesis by (simp add: event_key_def less_prod_def ids(3))
  qed
  moreover have "sorted (map event_key ?es)" using events_sorted [of f db cid] by (simp add: events_of_def)
  ultimately show ?thesis using sorted_before [of event_key ?es e s] ids(1,2) by blast
qed

end
