(* ===== verification/Links.thy ===== *)
theory Links
  imports Acquire Planner
begin

text \<open>
  Signed, expiring document links: \<open>mail/links.py\<close> and the access check that resolves one,
  \<open>notifications/archive.py\<close>.  HMAC-SHA256 and \<open>urlsplit\<close> are arguments; Base64 is written out.
  The objects of the file storage are the map of the acquisition model.
\<close>

section \<open>Base64\<close>

definition b64_char :: "nat \<Rightarrow> char" where
  \<comment> \<open>the URL-safe alphabet\<close>
  "b64_char n = (if n < 26 then char_of (65 + n) else if n < 52 then char_of (71 + n)
     else if n < 62 then char_of (n - 4) else if n = 62 then CHR ''-'' else CHR ''_'')"

fun urlsafe_b64encode :: "octets \<Rightarrow> string" where
  "urlsafe_b64encode [] = []"
| "urlsafe_b64encode [a] = (let x = unat a in [b64_char (x div 4), b64_char (x mod 4 * 16), CHR ''='', CHR ''=''])"
| "urlsafe_b64encode [a, b] = (let x = unat a; y = unat b in
     [b64_char (x div 4), b64_char (x mod 4 * 16 + y div 16), b64_char (y mod 16 * 4), CHR ''=''])"
| "urlsafe_b64encode (a # b # c # bs) = (let x = unat a; y = unat b; z = unat c in
     [b64_char (x div 4), b64_char (x mod 4 * 16 + y div 16), b64_char (y mod 16 * 4 + z div 64), b64_char (z mod 64)]
     @ urlsafe_b64encode bs)"

section \<open>\<open>SecureLinkSigner\<close>\<close>

record secure_link =
  sk_document_id :: int
  sk_filename :: string
  sk_url :: string
  sk_expires_at :: instant
  sk_expiry_days :: int

record link_signer =
  lk_mac :: "string \<Rightarrow> octets"
  lk_base_url :: string
  lk_default_expiry_days :: int

definition SIG_BYTES :: nat where "SIG_BYTES = 32"

definition new_link_signer :: "(octets \<Rightarrow> string \<Rightarrow> octets) \<Rightarrow> (string \<Rightarrow> (string, url_parts) result) \<Rightarrow> octets
    \<Rightarrow> string \<Rightarrow> int \<Rightarrow> (string, link_signer) result" where
  "new_link_signer hmac_sha256 urlsplit secret base_url default_expiry_days =
     (if secret = [] then Inl ''ValueError''
      else if default_expiry_days < 1 then Inl ''ValueError''
      else bind_result (urlsplit base_url) (\<lambda>parsed.
        if up_scheme parsed \<notin> {''http'', ''https''} \<or> up_netloc parsed = [] then Inl ''ValueError''
        else Inr \<lparr>lk_mac = hmac_sha256 secret, lk_base_url = drop_trailing (\<lambda>c. c = CHR ''/'') base_url,
                  lk_default_expiry_days = default_expiry_days\<rparr>))"

definition epoch_of :: "instant \<Rightarrow> int" where
  \<comment> \<open>\<open>int(instant.timestamp())\<close>, which truncates towards zero\<close>
  "epoch_of t = (if t \<ge> 0 then t div 1000000 else - ((- t) div 1000000))"

definition link_digest :: "link_signer \<Rightarrow> int \<Rightarrow> int \<Rightarrow> int \<Rightarrow> string" where
  "link_digest s tender_id document_id expires =
     take SIG_BYTES (drop_trailing (\<lambda>c. c = CHR ''='') (urlsafe_b64encode (lk_mac s
       (''archive/'' @ int_str tender_id @ ''/'' @ int_str document_id @ '':'' @ int_str expires))))"

text \<open>The last second \<open>datetime.fromtimestamp\<close> accepts, the end of the year 9999.\<close>

definition LAST_EPOCH :: int where
  "LAST_EPOCH = 253402300799"

definition sign_link :: "link_signer \<Rightarrow> int \<Rightarrow> int \<Rightarrow> string \<Rightarrow> int option \<Rightarrow> instant \<Rightarrow> (string, secure_link) result" where
  "sign_link s tender_id document_id filename expiry_days now =
     (if tender_id < 1 \<or> document_id < 1 then Inl ''ValueError''
      else let days = (case expiry_days of Some d \<Rightarrow> d | None \<Rightarrow> lk_default_expiry_days s) in
      if days < 1 then Inl ''ValueError''
      else let expires = epoch_of now + days * 24 * 60 * 60;
               signature = link_digest s tender_id document_id expires
           in if LAST_EPOCH < expires then Inl ''ValueError'' else Inr \<lparr>sk_document_id = document_id, sk_filename = filename,
                   sk_url = lk_base_url s @ ''/archive/'' @ int_str tender_id @ ''/'' @ int_str document_id
                     @ ''?expires='' @ int_str expires @ ''&sig='' @ signature,
                   sk_expires_at = usecs expires, sk_expiry_days = days\<rparr>)"

definition link_expired :: "int option \<Rightarrow> instant \<Rightarrow> bool" where
  "link_expired expires now = (case expires of None \<Rightarrow> True | Some e \<Rightarrow> e \<le> epoch_of now)"

definition ascii_only :: "string \<Rightarrow> bool" where
  "ascii_only s = (\<forall>c \<in> set s. (of_char c :: nat) < 128)"

text \<open>\<open>hmac.compare_digest\<close> refuses strings with characters outside ASCII.\<close>

definition compare_digest :: "string \<Rightarrow> string \<Rightarrow> (string, bool) result" where
  "compare_digest a b = (if ascii_only a \<and> ascii_only b then Inr (a = b) else Inl ''TypeError'')"

definition link_valid :: "link_signer \<Rightarrow> int \<Rightarrow> int \<Rightarrow> int \<Rightarrow> string \<Rightarrow> instant \<Rightarrow> (string, bool) result" where
  "link_valid s tender_id document_id expires signature now =
     (if signature = [] \<or> link_expired (Some expires) now then Inr False
      else compare_digest (link_digest s tender_id document_id expires) signature)"

section \<open>\<open>SecureDocumentAccess\<close>\<close>

record secure_document =
  so_document_id :: int
  so_filename :: string
  so_content :: octets
  so_content_type :: "string option"

text \<open>\<open>LocalFileSystemStorage.exists\<close> and \<open>get\<close> on the objects alone.\<close>

definition object_exists :: "string \<Rightarrow> (string list \<Rightarrow> octets option) \<Rightarrow> (string, bool) result" where
  "object_exists key objects = (case resolve_key key of
     None \<Rightarrow> Inl ''ValueError'' | Some parts \<Rightarrow> Inr (objects parts \<noteq> None))"

definition object_get :: "string \<Rightarrow> (string list \<Rightarrow> octets option) \<Rightarrow> (string, octets) result" where
  "object_get key objects = (case resolve_key key of
     None \<Rightarrow> Inl ''ValueError''
   | Some parts \<Rightarrow> (case objects parts of None \<Rightarrow> Inl ''KeyError'' | Some data \<Rightarrow> Inr data))"

definition open_secure_document :: "link_signer \<Rightarrow> int \<Rightarrow> int \<Rightarrow> int \<Rightarrow> string \<Rightarrow> instant \<Rightarrow> document list
    \<Rightarrow> (string list \<Rightarrow> octets option) \<Rightarrow> (string, secure_document) result" where
  "open_secure_document s tender_id document_id expires signature now docs objects =
     bind_result (link_valid s tender_id document_id expires signature now) (\<lambda>ok.
       if \<not> ok then Inl ''SecureLinkDenied''
       else case get_document document_id docs of
         None \<Rightarrow> Inl ''SecureLinkDenied''
       | Some d \<Rightarrow>
           if dc_tender_id d \<noteq> tender_id \<or> \<not> py_truthy (dc_storage_path d) then Inl ''SecureLinkDenied''
           else (case object_exists (the (dc_storage_path d)) objects of
               Inl t \<Rightarrow> Inl ''SecureLinkDenied''
             | Inr False \<Rightarrow> Inl ''SecureLinkDenied''
             | Inr True \<Rightarrow> (case object_get (the (dc_storage_path d)) objects of
                   Inl t \<Rightarrow> Inl ''SecureLinkDenied''
                 | Inr content \<Rightarrow> Inr \<lparr>so_document_id = document_id, so_filename = dc_filename d,
                     so_content = content, so_content_type = dc_mime_type d\<rparr>)))"

section \<open>What a signature is\<close>

lemma b64_char_ascii: "n < 64 \<Longrightarrow> (of_char (b64_char n) :: nat) < 128"
  unfolding b64_char_def by (simp, linarith)

lemma octet_bound: "unat (a :: 8 word) < 256"
  using unsigned_less [of a, where ?'a = nat] by simp

lemma sextets:
  fixes a b c :: "8 word"
  shows "unat a div 4 < 64" "unat a mod 4 * 16 < 64" "unat a mod 4 * 16 + unat b div 16 < 64" "unat b mod 16 * 4 < 64"
    "unat b mod 16 * 4 + unat c div 64 < 64" "unat c mod 64 < 64"
proof -
  have "unat a mod 4 \<le> 3" "unat b mod 16 \<le> 15" by (simp_all flip: less_Suc_eq_le)
  moreover have "unat a div 4 < 64" "unat b div 16 < 16" "unat c div 64 < 4"
    using octet_bound by (simp_all add: div_less_iff_less_mult)
  ultimately show "unat a div 4 < 64" "unat a mod 4 * 16 < 64" "unat a mod 4 * 16 + unat b div 16 < 64"
    "unat b mod 16 * 4 < 64" "unat b mod 16 * 4 + unat c div 64 < 64" "unat c mod 64 < 64" by simp_all
qed

lemma ascii_only_cons [simp]: "ascii_only []" "ascii_only (c # s) \<longleftrightarrow> (of_char c :: nat) < 128 \<and> ascii_only s"
    "ascii_only (s @ t) \<longleftrightarrow> ascii_only s \<and> ascii_only t"
  by (auto simp: ascii_only_def)

lemma b64_ascii: "ascii_only (urlsafe_b64encode bs)"
proof (induction bs rule: urlsafe_b64encode.induct)
  case (2 a)
  then show ?case by (simp only: urlsafe_b64encode.simps Let_def ascii_only_cons b64_char_ascii sextets) simp
next
  case (3 a b)
  then show ?case by (simp only: urlsafe_b64encode.simps Let_def ascii_only_cons b64_char_ascii sextets) simp
next
  case (4 a b c bs)
  then show ?case by (simp only: urlsafe_b64encode.simps Let_def ascii_only_cons b64_char_ascii sextets)
qed simp

lemma drop_trailing_subset: "set (drop_trailing P s) \<subseteq> set s"
  unfolding drop_trailing_def using set_dropWhileD by force

lemma link_digest_ascii: "ascii_only (link_digest s t d e)"
proof -
  let ?b = "urlsafe_b64encode (lk_mac s (''archive/'' @ int_str t @ ''/'' @ int_str d @ '':'' @ int_str e))"
  have "set (link_digest s t d e) \<subseteq> set ?b"
    unfolding link_digest_def by (rule subset_trans [OF set_take_subset drop_trailing_subset])
  moreover have "ascii_only ?b" by (rule b64_ascii)
  ultimately show ?thesis unfolding ascii_only_def by (meson subsetD)
qed

lemma link_valid_exact:
  "link_valid s t d e sig now = (if sig = [] \<or> e \<le> epoch_of now then Inr False
     else if ascii_only sig then Inr (sig = link_digest s t d e) else Inl ''TypeError'')"
  using link_digest_ascii by (auto simp: link_valid_def link_expired_def compare_digest_def)

lemma b64_char_no_pad: "n < 64 \<Longrightarrow> b64_char n \<noteq> CHR ''=''"
proof
  assume n: "n < 64" and "b64_char n = CHR ''=''"
  then have "(of_char (b64_char n) :: nat) = 61" by simp
  with n show False unfolding b64_char_def by (simp split: if_splits)
qed

lemma b64_first: "bs \<noteq> [] \<Longrightarrow> \<exists>c s. urlsafe_b64encode bs = c # s \<and> c \<noteq> CHR ''=''"
  using b64_char_no_pad [OF sextets(1)] by (cases bs rule: urlsafe_b64encode.cases) (auto simp: Let_def)

lemma link_digest_nonempty:
  assumes "\<forall>m. lk_mac s m \<noteq> []"
  shows "link_digest s t d e \<noteq> []"
proof -
  obtain c r where "urlsafe_b64encode (lk_mac s (''archive/'' @ int_str t @ ''/'' @ int_str d @ '':'' @ int_str e)) = c # r"
    "c \<noteq> CHR ''=''" using b64_first assms by blast
  then show ?thesis unfolding link_digest_def SIG_BYTES_def drop_trailing_def
    by (simp add: dropWhile_append)
qed

section \<open>Requests\<close>

lemma object_get_exists: "object_exists key objects = Inr True \<longleftrightarrow> (\<exists>data. object_get key objects = Inr data)"
  by (auto simp: object_exists_def object_get_def split: option.splits)

text \<open>C35: a request for an archived document is answered exactly when its signature is the one the signer
  computes for this tender, document and expiry, the expiry lies ahead, the document row belongs to that
  tender and the object it names is stored; the answer is then that object.  Every other request is
  denied, except that a live one whose signature has a character outside ASCII raises \<open>TypeError\<close>.\<close>

theorem secure_access_exact:
  "(open_secure_document s t d e sig now docs objects = Inr x \<longleftrightarrow>
      sig \<noteq> [] \<and> epoch_of now < e \<and> sig = link_digest s t d e
      \<and> (\<exists>row path. get_document d docs = Some row \<and> dc_tender_id row = t \<and> dc_storage_path row = Some path \<and> path \<noteq> []
           \<and> object_get path objects = Inr (so_content x)
           \<and> x = \<lparr>so_document_id = d, so_filename = dc_filename row, so_content = so_content x, so_content_type = dc_mime_type row\<rparr>))
   \<and> (open_secure_document s t d e sig now docs objects = Inl err \<longrightarrow>
      err = (if sig \<noteq> [] \<and> epoch_of now < e \<and> \<not> ascii_only sig then ''TypeError'' else ''SecureLinkDenied''))"
proof (cases "link_valid s t d e sig now")
  case (Inl y)
  then have "y = ''TypeError''" "sig \<noteq> []" "epoch_of now < e" "\<not> ascii_only sig"
    unfolding link_valid_exact by (simp_all split: if_splits)
  moreover from this link_digest_ascii have "sig \<noteq> link_digest s t d e" by metis
  ultimately show ?thesis using Inl by (simp add: open_secure_document_def)
next
  case (Inr ok)
  have ok: "ok \<longleftrightarrow> sig \<noteq> [] \<and> epoch_of now < e \<and> sig = link_digest s t d e"
    "\<not> (sig \<noteq> [] \<and> epoch_of now < e \<and> \<not> ascii_only sig)"
    using Inr link_digest_ascii unfolding link_valid_exact by (auto split: if_splits)
  let ?stored = "\<lambda>row path. get_document d docs = Some row \<and> dc_tender_id row = t \<and> dc_storage_path row = Some path \<and> path \<noteq> []"
  consider (found) row path data where "ok" "?stored row path" "object_get path objects = Inr data"
    | (missing) "\<not> ok \<or> (\<forall>row path. ?stored row path \<longrightarrow> \<not> (\<exists>data. object_get path objects = Inr data))" by blast
  then show ?thesis
  proof cases
    case found
    then have "object_exists path objects = Inr True" using object_get_exists by blast
    with found Inr have "open_secure_document s t d e sig now docs objects
        = Inr \<lparr>so_document_id = d, so_filename = dc_filename row, so_content = data, so_content_type = dc_mime_type row\<rparr>"
      by (simp add: open_secure_document_def)
    with found ok show ?thesis by auto
  next
    case missing
    have "open_secure_document s t d e sig now docs objects = Inl ''SecureLinkDenied''"
      using missing Inr object_get_exists
      by (auto simp: open_secure_document_def py_truthy_def split: option.splits sum.splits bool.splits)
    with missing ok show ?thesis by auto
  qed
qed

text \<open>C36: a link that is signed for an archived document opens that document until the instant it
  expires, which is the requested number of days after the whole second it was signed in, and never
  again from that instant on; its address holds the tender, the document, the expiry and the signature.\<close>

theorem signed_link_opens:
  assumes "sign_link s t d fname days now = Inr link" "0 \<le> now" "\<forall>m. lk_mac s m \<noteq> []"
    and "get_document d docs = Some row" "dc_tender_id row = t" "dc_storage_path row = Some path" "path \<noteq> []"
    and "object_get path objects = Inr data"
  shows "\<exists>e sig. sk_url link = lk_base_url s @ ''/archive/'' @ int_str t @ ''/'' @ int_str d @ ''?expires='' @ int_str e @ ''&sig='' @ sig
     \<and> sk_expires_at link = usecs e \<and> e = now div 1000000 + sk_expiry_days link * 86400
     \<and> (\<forall>later. open_secure_document s t d e sig later docs objects =
          (if later < sk_expires_at link
           then Inr \<lparr>so_document_id = d, so_filename = dc_filename row, so_content = data, so_content_type = dc_mime_type row\<rparr>
           else Inl ''SecureLinkDenied''))"
proof -
  let ?days = "case days of Some n \<Rightarrow> n | None \<Rightarrow> lk_default_expiry_days s"
  let ?e = "now div 1000000 + ?days * 86400"
  let ?link = "\<lparr>sk_document_id = d, sk_filename = fname,
      sk_url = lk_base_url s @ ''/archive/'' @ int_str t @ ''/'' @ int_str d @ ''?expires='' @ int_str ?e
        @ ''&sig='' @ link_digest s t d ?e, sk_expires_at = usecs ?e, sk_expiry_days = ?days\<rparr>"
  have "epoch_of now + ?days * 24 * 60 * 60 = ?e" using assms(2) by (simp add: epoch_of_def)
  then have "sign_link s t d fname days now = (if t < 1 \<or> d < 1 then Inl ''ValueError'' else if ?days < 1 then Inl ''ValueError''
      else if LAST_EPOCH < ?e then Inl ''ValueError'' else Inr ?link)"
    unfolding sign_link_def Let_def by presburger
  then have passed: "\<not> ?days < 1 \<and> ?link = link" using assms(1) by (auto split: if_splits)
  then have days: "1 \<le> ?days" and link: "link = ?link" by linarith (use passed in simp)
  have "0 < ?e" using days assms(2) by (simp add: add_nonneg_pos)
  then have live: "epoch_of later < ?e \<longleftrightarrow> later < usecs ?e" for later
    by (auto simp: epoch_of_def intro: order_le_less_trans)
  have "open_secure_document s t d ?e (link_digest s t d ?e) later docs objects =
      (if later < usecs ?e
       then Inr \<lparr>so_document_id = d, so_filename = dc_filename row, so_content = data, so_content_type = dc_mime_type row\<rparr>
       else Inl ''SecureLinkDenied'')" for later
    using assms(4-8) live [of later] link_digest_nonempty [OF assms(3)] link_digest_ascii object_get_exists [of path objects]
    by (auto simp: open_secure_document_def link_valid_exact)
  then show ?thesis using link by auto
qed


section \<open>A link\<close>

definition demo_signer :: link_signer where
  "demo_signer = \<lparr>lk_mac = (\<lambda>_. replicate 32 7), lk_base_url = ''https://a'', lk_default_expiry_days = 14\<rparr>"

definition demo_archived :: document where
  "demo_archived = (new_document 5 3 ''https://x/a.pdf'' ''a.pdf'' None)\<lparr>dc_storage_path := Some ''a''\<rparr>"

definition demo_objects :: "string list \<Rightarrow> octets option" where
  "demo_objects = (\<lambda>parts. if parts = [''a''] then Some [1, 2] else None)"

lemma demo_archive: "object_get ''a'' demo_objects = Inr [1, 2]" "get_document 5 [demo_archived] = Some demo_archived"
    "dc_tender_id demo_archived = 3" "dc_storage_path demo_archived = Some ''a''"
  by code_simp+

theorem secure_access_exact_witness:
  "open_secure_document demo_signer 3 5 1 ''x'' 0 [demo_archived] demo_objects = Inl ''SecureLinkDenied''"
proof (cases "open_secure_document demo_signer 3 5 1 ''x'' 0 [demo_archived] demo_objects")
  case (Inl err)
  then show ?thesis using secure_access_exact [of demo_signer 3 5 1 "''x''" 0 "[demo_archived]" demo_objects _ err]
    by (simp add: ascii_only_def)
next
  case (Inr x)
  then have "''x'' = link_digest demo_signer 3 5 1"
    using secure_access_exact [of demo_signer 3 5 1 "''x''" 0 "[demo_archived]" demo_objects x undefined] by blast
  moreover have "link_digest demo_signer 3 5 1 \<noteq> ''x''" by code_simp
  ultimately show ?thesis by simp
qed

theorem signed_link_opens_witness:
  "\<exists>link e sig. sign_link demo_signer 3 5 ''a.pdf'' None 0 = Inr link \<and> sk_expires_at link = usecs e
     \<and> is_ok (open_secure_document demo_signer 3 5 e sig (usecs e - 1) [demo_archived] demo_objects)
     \<and> open_secure_document demo_signer 3 5 e sig (usecs e) [demo_archived] demo_objects = Inl ''SecureLinkDenied''"
proof -
  have "\<exists>link. sign_link demo_signer 3 5 ''a.pdf'' None 0 = Inr link"
    by (simp add: sign_link_def demo_signer_def Let_def LAST_EPOCH_def epoch_of_def)
  then obtain link where link: "sign_link demo_signer 3 5 ''a.pdf'' None 0 = Inr link" by blast
  have "\<forall>m. lk_mac demo_signer m \<noteq> []" by (simp add: demo_signer_def)
  from signed_link_opens [OF link order_refl this demo_archive(2-4) _ demo_archive(1)]
  obtain e sig where "sk_expires_at link = usecs e" "\<forall>later. open_secure_document demo_signer 3 5 e sig later [demo_archived] demo_objects =
      (if later < sk_expires_at link
       then Inr \<lparr>so_document_id = 5, so_filename = dc_filename demo_archived, so_content = [1, 2], so_content_type = dc_mime_type demo_archived\<rparr>
       else Inl ''SecureLinkDenied'')" by blast
  then have "is_ok (open_secure_document demo_signer 3 5 e sig (usecs e - 1) [demo_archived] demo_objects)"
    "open_secure_document demo_signer 3 5 e sig (usecs e) [demo_archived] demo_objects = Inl ''SecureLinkDenied''" by simp_all
  with link \<open>sk_expires_at link = usecs e\<close> show ?thesis by blast
qed

end
