(* ===== verification/Templates.thy ===== *)
theory Templates
  imports Triage Router "HOL-Library.Char_ord" "HOL-Library.List_Lexorder"
begin

text \<open>
  \<open>mail/templates.py\<close>: subject, plain text and HTML of a tender notification, with the kinds of
  \<open>notifications/contracts.py\<close>.  The time zone database with \<open>strftime\<close>, \<open>str()\<close> of floats and the URL
  parser are a library argument, and so are the two dashes, which lie beyond the code points 0 to 255.
\<close>

section \<open>Content\<close>

datatype notification_kind = KindNew | KindUpdate | KindRawNotice

definition kind_value :: "notification_kind \<Rightarrow> string" where
  "kind_value k = (case k of KindNew \<Rightarrow> ''new'' | KindUpdate \<Rightarrow> ''update'' | KindRawNotice \<Rightarrow> ''raw_notice'')"

definition kind_of :: "string \<Rightarrow> notification_kind option" where
  \<comment> \<open>\<open>NotificationKind(value)\<close>\<close>
  "kind_of s = List.find (\<lambda>k. kind_value k = s) [KindNew, KindUpdate, KindRawNotice]"

record linked_document =
  ld_filename :: string
  ld_url :: string
  ld_expires_at :: instant
  ld_expiry_days :: int

record notification_content =
  nc_kind :: notification_kind
  nc_test_mode :: bool
  nc_source_name :: string
  nc_title :: string
  nc_urgent :: bool
  nc_verdict :: string
  nc_confidence :: "real option"
  nc_background_summary :: string
  nc_requirements_summary :: "json list"
  nc_gap_analysis :: "json list"
  nc_deadline :: "py_datetime option"
  nc_deadline_timezone :: "string option"
  nc_incomplete_inputs :: bool
  nc_attached_filenames :: "string list"
  nc_linked_documents :: "linked_document list"
  nc_failed_filenames :: "string list"
  nc_skipped_filenames :: "string list"
  nc_update_summary :: string
  nc_previous_assessment_date :: string
  nc_verdict_changed :: "bool option"
  nc_requirements_label :: string
  nc_assessment_unavailable :: bool
  nc_unavailability_reason :: "string option"
  nc_notice_only_assessment :: bool

definition default_content :: notification_content where
  "default_content = \<lparr>nc_kind = KindNew, nc_test_mode = False, nc_source_name = [], nc_title = [], nc_urgent = False,
     nc_verdict = ''APPLY'', nc_confidence = None, nc_background_summary = [], nc_requirements_summary = [],
     nc_gap_analysis = [], nc_deadline = None, nc_deadline_timezone = None, nc_incomplete_inputs = False,
     nc_attached_filenames = [], nc_linked_documents = [], nc_failed_filenames = [], nc_skipped_filenames = [],
     nc_update_summary = [], nc_previous_assessment_date = [], nc_verdict_changed = None,
     nc_requirements_label = ''Tender'', nc_assessment_unavailable = False, nc_unavailability_reason = None,
     nc_notice_only_assessment = False\<rparr>"

record template_lib =
  tl_en_dash :: string
  tl_em_dash :: string
  tl_wat_minute :: "instant \<Rightarrow> string"
  tl_wat_date :: "instant \<Rightarrow> string"
  tl_zone :: "string \<Rightarrow> (instant \<Rightarrow> string) option"
  tl_repr :: "json \<Rightarrow> string"
  tl_urlparse :: "string \<Rightarrow> (string \<times> string) option"

section \<open>Subject\<close>

definition base_subject :: "template_lib \<Rightarrow> notification_content \<Rightarrow> string" where
  "base_subject lib c =
     (let source = (let s = py_strip (nc_source_name c) in if s = [] then ''SOURCE'' else s);
          stripped = py_strip (nc_title c);
          title = (if length stripped > 60 then take 57 stripped @ ''...'' else stripped)
      in case nc_kind c of
           KindRawNotice \<Rightarrow> source @ '' RAW NOTICE (assessment unavailable): '' @ title
         | KindUpdate \<Rightarrow> (let changed = py_strip (nc_update_summary c);
                            tail = (if changed \<noteq> [] then '': '' @ changed else [])
                        in source @ '' UPDATE '' @ tl_en_dash lib @ '' '' @ title @ tail)
         | KindNew \<Rightarrow> source @ '' Expression of Interest '' @ tl_en_dash lib @ '' Assessment Report: '' @ title)"

definition subject_markers :: "template_lib \<Rightarrow> notification_content \<Rightarrow> string list" where
  "subject_markers lib c =
     (if nc_test_mode c \<and> \<not> has_test_prefix (base_subject lib c) then [TEST_PREFIX] else [])
     @ (if nc_urgent c then [''URGENT''] else [])"

definition subject :: "template_lib \<Rightarrow> notification_content \<Rightarrow> string" where
  "subject lib c = (let markers = subject_markers lib c in
     if markers \<noteq> [] then join_with '' '' markers @ '' '' @ base_subject lib c else base_subject lib c)"

section \<open>Values\<close>

definition format_deadline :: "template_lib \<Rightarrow> py_datetime \<Rightarrow> string option \<Rightarrow> string" where
  "format_deadline lib deadline source_timezone =
     (let moment = instant_of deadline;
          wat = ''Deadline: '' @ tl_wat_minute lib moment @ '' (WAT)'';
          more = (if \<not> py_truthy source_timezone then []
            else case tl_zone lib (the source_timezone) of
                Some strftime \<Rightarrow> [''stated in notice: '' @ strftime moment @ '' ('' @ the source_timezone @ '')'']
              | None \<Rightarrow> [''source timezone label: '' @ the source_timezone])
      in join_with [CHR '' '', CHR 0xB7, CHR '' ''] (wat # more))"

definition PREFERRED_KEYS :: "string list" where
  "PREFERRED_KEYS = [''text'', ''summary'', ''description'', ''analysis'', ''status'', ''result'', ''conclusion'']"

definition is_str :: "json \<Rightarrow> bool" where
  "is_str v = (case v of JStr _ \<Rightarrow> True | _ \<Rightarrow> False)"

definition ordered_chunks :: "(string \<times> bool \<times> string) list \<Rightarrow> string list" where
  \<comment> \<open>the chunks of a dictionary: key, whether the item is a string, and its rendering\<close>
  "ordered_chunks rows =
     (let preferred = concat (map (\<lambda>k. filter (\<lambda>(k', _). k' = k) rows) PREFERRED_KEYS);
          others = sort_key fst (filter (\<lambda>(k, _). k \<notin> set PREFERRED_KEYS) rows)
      in concat (map (\<lambda>(k, s, rendered). if rendered = [] then []
            else if k \<in> set PREFERRED_KEYS \<and> s then [rendered] else [k @ '': '' @ rendered]) (preferred @ others)))"

fun text_value :: "template_lib \<Rightarrow> json \<Rightarrow> string" where
  "text_value lib (JStr s) = py_strip s"
| "text_value lib JNull = []"
| "text_value lib (JObj d) = join_with ''; '' (ordered_chunks (map (\<lambda>(k, v). (k, is_str v, text_value lib v)) d))"
| "text_value lib (JList vs) = join_with ''; '' (filter (\<lambda>p. p \<noteq> []) (map (text_value lib) vs))"
| "text_value lib v = py_str (tl_repr lib) v"

definition items_text :: "template_lib \<Rightarrow> json list \<Rightarrow> string list" where
  "items_text lib vs = filter (\<lambda>t. t \<noteq> []) (map (text_value lib) vs)"

text \<open>\<open>format(x, ".0%")\<close>: the nearest whole percentage, halves to the even one.\<close>

definition round_half_even :: "real \<Rightarrow> int" where
  "round_half_even x = (let n = \<lfloor>x\<rfloor>; r = x - of_int n in
     if r < 1 / 2 then n else if r > 1 / 2 then n + 1 else if even n then n else n + 1)"

definition confidence_text :: "real option \<Rightarrow> string" where
  "confidence_text v = (case v of None \<Rightarrow> ''unknown''
     | Some x \<Rightarrow> int_str (round_half_even (100 * max 0 (min 1 x))) @ ''%'')"

definition STATUS_LABELS :: "(string \<times> string) list" where
  "STATUS_LABELS = [(''met'', ''Met''), (''partially_met'', ''Partially met''), (''not_met'', ''Not met''),
     (''unverified'', ''Unverified - no company evidence on file'')]"

definition status_label :: "template_lib \<Rightarrow> json \<Rightarrow> string" where
  "status_label lib v = (let t = py_strip (text_value lib v) in
     py_or (Some (case map_of STATUS_LABELS (casefold t) of Some l \<Rightarrow> l | None \<Rightarrow> t))
       ''Unverified - no company evidence on file'')"

section \<open>Blocks\<close>

type_synonym block = "string \<times> string list"

definition assessment_item :: "json \<Rightarrow> (string \<times> json) list option" where
  \<comment> \<open>\<open>isinstance(item, Mapping) and _is_assessment(item)\<close>\<close>
  "assessment_item v = (case v of
     JObj d \<Rightarrow> if ''requirement'' \<in> fst ` set d \<or> ''status'' \<in> fst ` set d then Some d else None
   | _ \<Rightarrow> None)"

abbreviation field_text :: "template_lib \<Rightarrow> (string \<times> json) list \<Rightarrow> string \<Rightarrow> string" where
  "field_text lib d k \<equiv> py_strip (text_value lib (obj_get d k))"

definition nonempty :: "string \<Rightarrow> string list" where
  "nonempty s = (if s = [] then [] else [s])"

definition document_label :: "template_lib \<Rightarrow> json \<Rightarrow> string" where
  "document_label lib v = (if v = JNull \<or> v = JStr [] then [] else ''document '' @ py_str (tl_repr lib) v)"

definition tender_evidence_lines :: "template_lib \<Rightarrow> json \<Rightarrow> string list" where
  \<comment> \<open>the body of the loop over \<open>tender_evidence\<close>\<close>
  "tender_evidence_lines lib citation = (case citation of
     JObj d \<Rightarrow>
       (let quote = field_text lib d ''quote'';
            location = field_text lib d ''location'';
            where' = join_with '' '' (nonempty (document_label lib (obj_get d ''document_id'')) @ nonempty location)
        in if quote \<noteq> [] \<and> where' \<noteq> [] then [''Stated in the tender: \"'' @ quote @ ''\" ('' @ where' @ '')'']
           else if quote \<noteq> [] then [''Stated in the tender: \"'' @ quote @ ''\"'']
           else if where' \<noteq> [] then [''Stated in the tender at '' @ where'] else [])
   | _ \<Rightarrow> nonempty (py_strip (text_value lib citation)))"

text \<open>\<open>for citation in item.get("tender_evidence") or ()\<close>: a list gives its elements, a string its
  characters and a dictionary its keys; a number cannot be iterated.\<close>

definition iterate :: "json \<Rightarrow> (string, json list) result" where
  "iterate v = (if \<not> json_truthy v then Inr [] else case v of
     JList vs \<Rightarrow> Inr vs | JStr s \<Rightarrow> Inr (map (\<lambda>ch. JStr [ch]) s) | JObj d \<Rightarrow> Inr (map (JStr \<circ> fst) d)
   | _ \<Rightarrow> Inl ''TypeError'')"

definition requirement_block :: "template_lib \<Rightarrow> json \<Rightarrow> (string, block list) result" where
  "requirement_block lib item = (case assessment_item item of
     None \<Rightarrow> Inr (map (\<lambda>t. (t, [])) (nonempty (py_strip (text_value lib item))))
   | Some d \<Rightarrow>
       (let requirement = field_text lib d ''requirement'' in
        if requirement = [] then Inr []
        else bind_result (iterate (obj_get d ''tender_evidence'')) (\<lambda>citations.
          Inr [(requirement, concat (map (tender_evidence_lines lib) citations))])))"

fun requirement_blocks :: "template_lib \<Rightarrow> json list \<Rightarrow> (string, block list) result" where
  "requirement_blocks lib [] = Inr []"
| "requirement_blocks lib (v # vs) = bind_result (requirement_block lib v) (\<lambda>b.
     bind_result (requirement_blocks lib vs) (\<lambda>bs. Inr (b @ bs)))"

definition company_evidence_line :: "template_lib \<Rightarrow> json \<Rightarrow> string list" where
  "company_evidence_line lib citation = (case citation of
     JObj d \<Rightarrow>
       (let quote = field_text lib d ''quote''; section' = field_text lib d ''section'' in
        if quote \<noteq> [] \<and> section' \<noteq> [] then [''Company evidence (KB \"'' @ section' @ ''\"): \"'' @ quote @ ''\"'']
        else if quote \<noteq> [] then [''Company evidence: \"'' @ quote @ ''\"'']
        else if section' \<noteq> [] then [''Company evidence (KB): '' @ section'] else [])
   | _ \<Rightarrow> nonempty (py_strip (text_value lib citation)))"

definition company_evidence_lines :: "template_lib \<Rightarrow> json \<Rightarrow> string list" where
  "company_evidence_lines lib v = (case v of JList cs \<Rightarrow> concat (map (company_evidence_line lib) cs) | _ \<Rightarrow> [])"

definition applicability_block :: "template_lib \<Rightarrow> (string \<times> json) list \<Rightarrow> block" where
  "applicability_block lib d =
     (let requirement = py_or (Some (field_text lib d ''requirement'')) ''(unnamed requirement)'';
          assessment = field_text lib d ''assessment'';
          gap = field_text lib d ''gap''
      in (requirement @ '' - '' @ status_label lib (obj_get d ''status''),
          (if assessment \<noteq> [] then [''Assessment: '' @ assessment] else [])
          @ company_evidence_lines lib (obj_get d ''company_evidence'')
          @ (if gap \<noteq> [] then [''Gap: '' @ gap] else [])))"

definition fallback_text :: "template_lib \<Rightarrow> json \<Rightarrow> string" where
  "fallback_text lib item = py_strip (text_value lib (case item of JObj d \<Rightarrow> obj_get d ''gap'' | _ \<Rightarrow> item))"

definition applicability_blocks :: "template_lib \<Rightarrow> json list \<Rightarrow> json list \<Rightarrow> block list" where
  "applicability_blocks lib items fallback =
     (let assessed = List.map_filter assessment_item items;
          blocks = map (applicability_block lib) assessed;
          claimed = set (map (\<lambda>d. field_text lib d ''gap'') assessed) - {[]}
      in if blocks = [] then map (\<lambda>t. ([], [t])) (items_text lib fallback)
         else let extra = filter (\<lambda>t. t \<noteq> [] \<and> t \<notin> claimed) (map (fallback_text lib) fallback)
              in if extra = [] then blocks else blocks @ [(''Other gaps reported'', extra)])"

section \<open>Plain text\<close>

definition render_blocks_text :: "block list \<Rightarrow> string \<Rightarrow> string list" where
  "render_blocks_text blocks placeholder =
     (if blocks = [] then [''- '' @ placeholder]
      else concat (map (\<lambda>(title, details). (if title \<noteq> [] then ''- '' @ title else ''-'') # map (\<lambda>d. ''    '' @ d) details) blocks))"

definition update_lines :: "template_lib \<Rightarrow> notification_content \<Rightarrow> string list" where
  "update_lines lib c =
     (if nc_kind c \<noteq> KindUpdate then []
      else [''What changed: '' @ py_or (Some (py_strip (nc_update_summary c))) ''Tender listing changed.'']
        @ (case nc_deadline c of None \<Rightarrow> []
           | Some d \<Rightarrow> [''Current deadline: '' @ format_deadline lib d (nc_deadline_timezone c)])
        @ [case nc_verdict_changed c of
             Some True \<Rightarrow> ''Does this change our verdict? Yes; a material re-evaluation was required.''
           | Some False \<Rightarrow> ''Does this change our verdict? No; the existing verdict remains applicable.''
           | None \<Rightarrow> ''Does this change our verdict? The change classification did not require re-evaluation.'']
        @ (if nc_previous_assessment_date c \<noteq> []
           then [''The earlier assessment (of '' @ nc_previous_assessment_date c @ '') remains valid.''] else []))"

definition expiry_label :: "template_lib \<Rightarrow> linked_document \<Rightarrow> string" where
  "expiry_label lib l = ld_filename l @ '' (expires '' @ tl_wat_date lib (ld_expires_at l) @ '')''"

definition INCOMPLETE_NOTE :: string where
  "INCOMPLETE_NOTE = ''Note: the verdict was reached on incomplete inputs. incomplete_inputs=true''"

definition NOTICE_ONLY_NOTE :: string where
  "NOTICE_ONLY_NOTE = ''Note: no downloadable source files were available; this assessment used the tender's published notice only''"

definition notes_footer :: "template_lib \<Rightarrow> notification_content \<Rightarrow> string list" where
  "notes_footer lib c =
     (if nc_attached_filenames c \<noteq> [] then [''Documents attached: '' @ join_with '', '' (nc_attached_filenames c)] else [])
     @ (if nc_linked_documents c \<noteq> []
        then [''Documents as links: '' @ join_with '', '' (map (\<lambda>l. expiry_label lib l @ '': '' @ ld_url l) (nc_linked_documents c))] else [])
     @ (if nc_failed_filenames c \<noteq> []
        then [''Documents that failed to download/extract: '' @ join_with '', '' (nc_failed_filenames c)] else [])
     @ (if nc_skipped_filenames c \<noteq> []
        then [''Documents skipped by processing: '' @ join_with '', '' (nc_skipped_filenames c)] else [])
     @ (if nc_incomplete_inputs c then [INCOMPLETE_NOTE] else [])
     @ (if nc_notice_only_assessment c \<and> \<not> nc_assessment_unavailable c then [NOTICE_ONLY_NOTE] else [])"

definition ASSESSMENT_UNAVAILABLE_BANNER :: string where
  "ASSESSMENT_UNAVAILABLE_BANNER = ''AUTOMATIC ASSESSMENT UNAVAILABLE''"

definition NO_DOWNLOADABLE_SOURCES_BANNER :: string where
  "NO_DOWNLOADABLE_SOURCES_BANNER = ''NO DOWNLOADABLE SOURCE FILES''"

definition notice_only_notice :: "template_lib \<Rightarrow> notification_content \<Rightarrow> string list" where
  "notice_only_notice lib c =
     (if \<not> nc_notice_only_assessment c \<or> nc_assessment_unavailable c then []
      else [NO_DOWNLOADABLE_SOURCES_BANNER,
        ''This assessment is based only on the tender's published notice '' @ tl_em_dash lib
        @ '' the tender document was not available for download. Eligibility, qualification and scoring criteria stated ''
        @ ''only in that document have not been assessed, and the confidence below is reduced to reflect this.''])"

definition unavailability_reason :: "notification_content \<Rightarrow> string" where
  "unavailability_reason c =
     (let reason = py_strip (py_or (nc_unavailability_reason c) []) in
      if reason = [] then ''The automated assessment could not be completed for this tender. ''
        @ ''The source notice is provided below for manual review.''
      else ''The automated assessment could not be completed ('' @ reason @ ''). ''
        @ ''The source notice is provided below for manual review.'')"

definition background_text :: "notification_content \<Rightarrow> string" where
  "background_text c = py_or (Some (py_strip (nc_background_summary c))) ''(no background summary available)''"

abbreviation newline :: string where "newline \<equiv> [CHR 0x0A]"

definition text_lines :: "template_lib \<Rightarrow> notification_content \<Rightarrow> block list \<Rightarrow> string list" where
  "text_lines lib c requirements =
     [''Subject: '' @ subject lib c, []]
     @ (if nc_assessment_unavailable c then [ASSESSMENT_UNAVAILABLE_BANNER, unavailability_reason c, []] else [])
     @ (let n = notice_only_notice lib c in if n \<noteq> [] then n @ [[]] else [])
     @ [''1. Background'', background_text c, [], ''2. Requirements for '' @ nc_requirements_label c]
     @ render_blocks_text requirements ''(no requirements summary available)''
     @ (case nc_deadline c of None \<Rightarrow> [] | Some d \<Rightarrow> [format_deadline lib d (nc_deadline_timezone c)])
     @ [[], ''3. Why We Can / Cannot Apply'']
     @ render_blocks_text (applicability_blocks lib (nc_requirements_summary c) (nc_gap_analysis c)) ''(no comparison analysis available)''
     @ [if nc_assessment_unavailable c then ''Final verdict: NOT ASSESSED (automatic assessment unavailable)''
        else ''Final verdict: '' @ nc_verdict c @ '' (confidence '' @ confidence_text (nc_confidence c) @ '')'']
     @ (let u = update_lines lib c in if u \<noteq> [] then [] # u else [])
     @ (let n = notes_footer lib c in if n \<noteq> [] then [[], ''Notes:''] @ map (\<lambda>x. ''- '' @ x) n else [])"

definition render_text :: "template_lib \<Rightarrow> notification_content \<Rightarrow> (string, string) result" where
  "render_text lib c = bind_result (requirement_blocks lib (nc_requirements_summary c)) (\<lambda>requirements.
     Inr (drop_trailing py_space (join_with newline (text_lines lib c requirements)) @ newline))"

section \<open>HTML\<close>

definition escape_char :: "char \<Rightarrow> string" where
  "escape_char ch = (if ch = CHR ''&'' then ''&amp;'' else if ch = CHR ''<'' then ''&lt;'' else if ch = CHR ''>'' then ''&gt;''
     else if ch = CHR 0x22 then ''&quot;'' else if ch = CHR 0x27 then ''&#x27;'' else [ch])"

definition html_escape :: "string \<Rightarrow> string" where
  "html_escape s = concat (map escape_char s)"

definition render_blocks_html :: "block list \<Rightarrow> string \<Rightarrow> string" where
  "render_blocks_html blocks placeholder =
     (if blocks = [] then ''<ul><li>'' @ html_escape placeholder @ ''</li></ul>''
      else ''<ul>'' @ concat (map (\<lambda>(title, details).
          ''<li>'' @ join_with ''<br>'' (map html_escape (nonempty title) @ map html_escape details) @ ''</li>'') blocks) @ ''</ul>'')"

definition list_item :: "string \<Rightarrow> string list \<Rightarrow> string" where
  "list_item label names = (if names = [] then [] else ''<li>'' @ label @ html_escape (join_with '', '' names) @ ''</li>'')"

definition web_url :: "template_lib \<Rightarrow> string \<Rightarrow> bool" where
  \<comment> \<open>\<open>_safe_link\<close>, on the scheme and the network location that \<open>urlparse\<close> finds; \<open>None\<close> is its \<open>ValueError\<close>,
    which leaves \<open>render_html\<close>\<close>
  "web_url lib url = (case tl_urlparse lib url of None \<Rightarrow> False
     | Some (scheme, netloc) \<Rightarrow> scheme \<in> {''http'', ''https''} \<and> netloc \<noteq> [])"

definition link_item :: "template_lib \<Rightarrow> linked_document \<Rightarrow> string" where
  "link_item lib l = ''<li>Documents as links: '' @ html_escape (expiry_label lib l)
     @ (if web_url lib (ld_url l) then '': <a href=\"'' @ html_escape (ld_url l) @ ''\">secure download</a></li>'' else ''</li>'')"

definition notes_footer_html :: "template_lib \<Rightarrow> notification_content \<Rightarrow> string" where
  "notes_footer_html lib c =
     list_item ''Documents attached: '' (nc_attached_filenames c)
     @ concat (map (link_item lib) (nc_linked_documents c))
     @ list_item ''Documents that failed to download/extract: '' (nc_failed_filenames c)
     @ list_item ''Documents skipped by processing: '' (nc_skipped_filenames c)
     @ (if nc_incomplete_inputs c then ''<li>'' @ INCOMPLETE_NOTE @ ''</li>'' else [])
     @ (if nc_notice_only_assessment c \<and> \<not> nc_assessment_unavailable c then ''<li>'' @ NOTICE_ONLY_NOTE @ ''</li>'' else [])"

definition html_head :: "template_lib \<Rightarrow> notification_content \<Rightarrow> string" where
  "html_head lib c =
     ''<h1>'' @ html_escape (subject lib c) @ ''</h1>''
     @ (if nc_assessment_unavailable c
        then ''<p style=\"background:#fff3cd;border:1px solid #ffe08a;padding:12px;font-weight:bold;\">''
          @ html_escape ASSESSMENT_UNAVAILABLE_BANNER @ ''</p><p>'' @ html_escape (unavailability_reason c) @ ''</p>'' else [])
     @ (case notice_only_notice lib c of [] \<Rightarrow> []
        | banner # rest \<Rightarrow> ''<p style=\"background:#e8f4fd;border:1px solid #9ec9e8;padding:12px;font-weight:bold;\">''
          @ html_escape banner @ ''</p><p>'' @ html_escape (join_with '' '' rest) @ ''</p>'')"

definition html_requirements :: "template_lib \<Rightarrow> notification_content \<Rightarrow> block list \<Rightarrow> string" where
  "html_requirements lib c requirements =
     ''<h2>1. Background</h2><p>'' @ html_escape (background_text c) @ ''</p><h2>2. Requirements for ''
     @ html_escape (nc_requirements_label c) @ ''</h2>''
     @ render_blocks_html requirements ''(no requirements summary available)''
     @ (case nc_deadline c of None \<Rightarrow> []
        | Some d \<Rightarrow> ''<p><strong>'' @ html_escape (format_deadline lib d (nc_deadline_timezone c)) @ ''</strong></p>'')"

definition html_verdict :: "template_lib \<Rightarrow> notification_content \<Rightarrow> string" where
  "html_verdict lib c =
     ''<h2>3. Why We Can / Cannot Apply</h2>''
     @ render_blocks_html (applicability_blocks lib (nc_requirements_summary c) (nc_gap_analysis c)) ''(no comparison analysis available)''
     @ (if nc_assessment_unavailable c
        then ''<p><strong>Final verdict: NOT ASSESSED (automatic assessment unavailable)</strong></p>''
        else ''<p><strong>Final verdict: '' @ html_escape (nc_verdict c) @ ''</strong> (confidence '' @ confidence_text (nc_confidence c) @ '')</p>'')"

definition html_notes :: "template_lib \<Rightarrow> notification_content \<Rightarrow> string" where
  "html_notes lib c =
     (let u = update_lines lib c in if u \<noteq> []
        then ''<h2>Tender update</h2><ul>'' @ concat (map (\<lambda>l. ''<li>'' @ html_escape l @ ''</li>'') u) @ ''</ul>'' else [])
     @ (let n = notes_footer_html lib c in if n \<noteq> [] then ''<h2>Notes</h2><ul>'' @ n @ ''</ul>'' else [])"

definition render_html :: "template_lib \<Rightarrow> notification_content \<Rightarrow> (string, string) result" where
  "render_html lib c = bind_result (requirement_blocks lib (nc_requirements_summary c)) (\<lambda>requirements.
     if list_ex (\<lambda>l. tl_urlparse lib (ld_url l) = None) (nc_linked_documents c) then Inl ''ValueError''
     else Inr (''<html><body>'' @ html_head lib c @ html_requirements lib c requirements @ html_verdict lib c @ html_notes lib c
       @ ''</body></html>''))"

end
