(* ===== verification/TemplateProps.thy ===== *)
theory TemplateProps
  imports Templates SafeNames
begin

text \<open>
  What a rendered notification is: its HTML has the tags of the template and links to web addresses
  only, whatever text the tender and the verdict hold, and its plain text keeps every gap and every
  quotation of the assessment.
\<close>

section \<open>The tags of a page\<close>

text \<open>Every \<open><\<close> opens a tag that is closed and allowed.\<close>

fun only_tags :: "(string \<Rightarrow> bool) \<Rightarrow> string \<Rightarrow> bool" where
  "only_tags T [] = True"
| "only_tags T (ch # s) =
     (if ch = CHR ''<'' then CHR ''>'' \<in> set s \<and> T (takeWhile (\<lambda>x. x \<noteq> CHR ''>'') s) \<and> only_tags T s else only_tags T s)"

named_theorems page_intros

lemma only_tags_append [page_intros]: "only_tags T a \<Longrightarrow> only_tags T b \<Longrightarrow> only_tags T (a @ b)"
  by (induction a) auto

lemma only_tags_plain: "CHR ''<'' \<notin> set s \<Longrightarrow> only_tags T s"
  by (induction s) auto

lemma only_tags_concat [page_intros]: "(\<And>x. x \<in> set xs \<Longrightarrow> only_tags T (f x)) \<Longrightarrow> only_tags T (concat (map f xs))"
  by (induction xs) (auto intro: only_tags_append)

lemma only_tags_join: "only_tags T sep \<Longrightarrow> (\<forall>x \<in> set xs. only_tags T x) \<Longrightarrow> only_tags T (join_with sep xs)"
  by (induction sep xs rule: join_with.induct) (auto intro: only_tags_append)

lemma escape_char_plain: "CHR ''<'' \<notin> set (escape_char ch)"
  by (simp add: escape_char_def)

lemma only_tags_escape [page_intros]: "only_tags T (html_escape s)"
  using escape_char_plain by (intro only_tags_plain) (auto simp: html_escape_def)

lemma only_tags_if [page_intros]: "(b \<Longrightarrow> only_tags T x) \<Longrightarrow> (\<not> b \<Longrightarrow> only_tags T y) \<Longrightarrow> only_tags T (if b then x else y)"
  by simp

lemma int_str_tag_free: "CHR ''<'' \<notin> set (int_str n)"
proof -
  have "CHR ''<'' \<notin> set (nat_str m)" for m
  proof
    assume "CHR ''<'' \<in> set (nat_str m)"
    with nat_str_digits [of m] have "(of_char (CHR ''<'') :: nat) \<le> 57" by blast
    then show False by simp
  qed
  then show ?thesis by (simp add: int_str_def)
qed

lemma only_tags_confidence [page_intros]: "only_tags T (confidence_text v)"
  using int_str_tag_free by (intro only_tags_plain) (auto simp: confidence_text_def split: option.split)

definition TEMPLATE_TAGS :: "string list" where
  "TEMPLATE_TAGS = concat (map (\<lambda>t. [t, CHR ''/'' # t]) [''html'', ''body'', ''h1'', ''h2'', ''p'', ''ul'', ''li'', ''strong''])
     @ [''br'', ''/a'', ''p style=\"background:#fff3cd;border:1px solid #ffe08a;padding:12px;font-weight:bold;\"'',
        ''p style=\"background:#e8f4fd;border:1px solid #9ec9e8;padding:12px;font-weight:bold;\"'']"

definition link_tag :: "template_lib \<Rightarrow> notification_content \<Rightarrow> string \<Rightarrow> bool" where
  "link_tag lib c t \<longleftrightarrow> (\<exists>l \<in> set (nc_linked_documents c). web_url lib (ld_url l) \<and> t = ''a href=\"'' @ html_escape (ld_url l) @ ''\"'')"

abbreviation page_tag :: "template_lib \<Rightarrow> notification_content \<Rightarrow> string \<Rightarrow> bool" where
  "page_tag lib c t \<equiv> t \<in> set TEMPLATE_TAGS \<or> link_tag lib c t"

lemma template_tags [simp]:
  "''html'' \<in> set TEMPLATE_TAGS" "''/html'' \<in> set TEMPLATE_TAGS" "''body'' \<in> set TEMPLATE_TAGS" "''/body'' \<in> set TEMPLATE_TAGS"
  "''h1'' \<in> set TEMPLATE_TAGS" "''/h1'' \<in> set TEMPLATE_TAGS" "''h2'' \<in> set TEMPLATE_TAGS" "''/h2'' \<in> set TEMPLATE_TAGS"
  "''p'' \<in> set TEMPLATE_TAGS" "''/p'' \<in> set TEMPLATE_TAGS" "''ul'' \<in> set TEMPLATE_TAGS" "''/ul'' \<in> set TEMPLATE_TAGS"
  "''li'' \<in> set TEMPLATE_TAGS" "''/li'' \<in> set TEMPLATE_TAGS" "''strong'' \<in> set TEMPLATE_TAGS" "''/strong'' \<in> set TEMPLATE_TAGS"
  "''br'' \<in> set TEMPLATE_TAGS" "''/a'' \<in> set TEMPLATE_TAGS"
  by (simp_all add: TEMPLATE_TAGS_def)

lemma only_tags_option [page_intros]: "only_tags T a \<Longrightarrow> (\<And>x. only_tags T (f x)) \<Longrightarrow> only_tags T (case v of None \<Rightarrow> a | Some x \<Rightarrow> f x)"
  by (cases v) auto

lemma only_tags_lists [page_intros]:
  "only_tags T a \<Longrightarrow> (\<And>x xs. only_tags T (f x xs)) \<Longrightarrow> only_tags T (case v of [] \<Rightarrow> a | x # xs \<Rightarrow> f x xs)"
  by (cases v) auto

lemma page_blocks [page_intros]: "only_tags (page_tag lib c) (render_blocks_html blocks placeholder)"
proof -
  have br: "only_tags (page_tag lib c) ''<br>''" by simp
  have "only_tags (page_tag lib c) (join_with ''<br>'' (map html_escape (nonempty t) @ map html_escape ds))" for t ds
    by (rule only_tags_join [OF br]) (auto intro: only_tags_escape)
  then show ?thesis unfolding render_blocks_html_def
    by (auto intro!: page_intros)
qed

lemma page_list_item [page_intros]: "CHR ''<'' \<notin> set label \<Longrightarrow> only_tags (page_tag lib c) (list_item label names)"
  unfolding list_item_def by (intro page_intros only_tags_plain [of label]) simp_all

lemma page_link: "l \<in> set (nc_linked_documents c) \<Longrightarrow> only_tags (page_tag lib c) (link_item lib l)"
proof (cases "web_url lib (ld_url l)")
  case True
  assume "l \<in> set (nc_linked_documents c)"
  with True have tag: "page_tag lib c (''a href=\"'' @ html_escape (ld_url l) @ ''\"'')" unfolding link_tag_def by blast
  let ?url = "html_escape (ld_url l)"
  have gt: "CHR ''>'' \<notin> set (escape_char ch)" for ch by (simp add: escape_char_def)
  have no_gt: "CHR ''>'' \<notin> set ?url" using gt by (auto simp: html_escape_def)
  then have "takeWhile (\<lambda>x. x \<noteq> CHR ''>'') (?url @ x) = ?url @ takeWhile (\<lambda>x. x \<noteq> CHR ''>'') x" for x
    by (intro takeWhile_append2) auto
  moreover have "only_tags (page_tag lib c) (?url @ ''\">secure download</a></li>'')"
    by (intro page_intros) simp
  ultimately have "only_tags (page_tag lib c) ('': <a href=\"'' @ ?url @ ''\">secure download</a></li>'')"
    using tag by simp
  then show ?thesis using True unfolding link_item_def
    by (simp only: if_True) (rule only_tags_append, simp, rule only_tags_append, rule only_tags_escape)
next
  case False
  then show ?thesis unfolding link_item_def by (simp only: if_False) (intro page_intros; simp)
qed

lemma page_notes [page_intros]: "only_tags T INCOMPLETE_NOTE" "only_tags T NOTICE_ONLY_NOTE"
  by (rule only_tags_plain, code_simp)+

lemma page_footer [page_intros]: "only_tags (page_tag lib c) (notes_footer_html lib c)"
  unfolding notes_footer_html_def by (intro page_intros page_link; simp)

lemma only_tags_mono: "only_tags T s \<Longrightarrow> (\<And>t. T t \<Longrightarrow> T' t) \<Longrightarrow> only_tags T' s"
  by (induction s) auto

lemma page_literal: "only_tags (\<lambda>t. t \<in> set TEMPLATE_TAGS) s \<Longrightarrow> only_tags (page_tag lib c) s"
  by (erule only_tags_mono) simp

lemma page_head [page_intros]: "only_tags (page_tag lib c) (html_head lib c)"
  unfolding html_head_def by (intro page_intros; rule page_literal, code_simp)

lemma page_requirements [page_intros]: "only_tags (page_tag lib c) (html_requirements lib c bs)"
  unfolding html_requirements_def by (intro page_intros; rule page_literal, code_simp)

lemma page_verdict [page_intros]: "only_tags (page_tag lib c) (html_verdict lib c)"
  unfolding html_verdict_def by (intro page_intros; rule page_literal, code_simp)

lemma page_tail [page_intros]: "only_tags (page_tag lib c) (html_notes lib c)"
  unfolding html_notes_def Let_def by (intro page_intros; rule page_literal, code_simp)

text \<open>C37: whatever text the tender, the verdict and the file names hold, every tag of a rendered HTML
  notification is one of the fixed tags of the template or a link to the address of one of its
  documents, and that one only when the address is a web address.\<close>

theorem html_tags_fixed:
  assumes "render_html lib c = Inr h"
  shows "only_tags (page_tag lib c) h"
proof -
  obtain bs where h: "h = ''<html><body>'' @ html_head lib c @ html_requirements lib c bs @ html_verdict lib c
      @ html_notes lib c @ ''</body></html>''"
    using assms unfolding render_html_def bind_result_eq_Inr by (auto split: if_splits)
  show ?thesis unfolding h by (intro page_intros; rule page_literal, code_simp)
qed

definition demo_lib :: template_lib where
  "demo_lib = \<lparr>tl_en_dash = ''-'', tl_em_dash = ''--'', tl_wat_minute = (\<lambda>_. ''<t>''), tl_wat_date = (\<lambda>_. ''<d>''), tl_zone = (\<lambda>_. None),
     tl_repr = (\<lambda>_. ''<r>''), tl_urlparse = (\<lambda>u. Some (''https'', ''h''))\<rparr>"

definition demo_content :: notification_content where
  "demo_content = default_content\<lparr>nc_title := ''<script>'', nc_background_summary := ''<b>'',
     nc_linked_documents := [\<lparr>ld_filename = ''<f>'', ld_url = ''<u>'', ld_expires_at = 0, ld_expiry_days = 1\<rparr>],
     nc_requirements_summary := [JObj [(''requirement'', JStr ''ISO''), (''gap'', JStr ''none''),
       (''tender_evidence'', JList [JObj [(''quote'', JStr ''must hold'')]])], JStr ''<i>''],
     nc_gap_analysis := [JStr ''price'', JStr ''none'']\<rparr>"

lemma demo_rendered: "is_ok (requirement_blocks demo_lib (nc_requirements_summary demo_content))"
  by code_simp

theorem html_tags_fixed_witness:
  "\<exists>h. render_html demo_lib demo_content = Inr h \<and> only_tags (page_tag demo_lib demo_content) h"
proof -
  obtain bs where "requirement_blocks demo_lib (nc_requirements_summary demo_content) = Inr bs"
    using demo_rendered by (auto simp: is_ok_def split: sum.splits)
  moreover have "tl_urlparse demo_lib u \<noteq> None" for u by (simp add: demo_lib_def)
  ultimately have "\<exists>h. render_html demo_lib demo_content = Inr h"
    by (simp add: render_html_def bind_result_simps list_ex_iff)
  then show ?thesis using html_tags_fixed by blast
qed

section \<open>Evidence is kept\<close>

lemma dropWhile_first: "dropWhile P s = [] \<or> \<not> P (hd (dropWhile P s))"
  by (induction s) auto

lemma dropWhile_stays: "s = [] \<or> \<not> P (hd s) \<Longrightarrow> dropWhile P s = s"
  by (cases s) auto

lemma strip_idem [simp]: "py_strip (py_strip s) = py_strip s"
proof -
  define a where "a = dropWhile py_space s"
  define b where "b = dropWhile py_space (rev a)"
  have strip: "py_strip s = rev b" by (simp add: py_strip_def a_def b_def)
  have b: "b = [] \<or> \<not> py_space (hd b)" unfolding b_def by (rule dropWhile_first)
  obtain z where z: "rev a = z @ b" unfolding b_def by (metis takeWhile_dropWhile_id)
  then have "a = rev b @ rev z" by (metis rev_append rev_rev_ident)
  moreover have "a = [] \<or> \<not> py_space (hd a)" unfolding a_def by (rule dropWhile_first)
  ultimately have "rev b = [] \<or> \<not> py_space (hd (rev b))" by auto
  then have "dropWhile py_space (rev b) = rev b" by (rule dropWhile_stays)
  moreover have "dropWhile py_space b = b" using b by (rule dropWhile_stays)
  ultimately have "rev (dropWhile py_space (rev (dropWhile py_space (rev b)))) = rev b" by simp
  then show ?thesis unfolding strip unfolding py_strip_def .
qed

lemma block_line:
  "(t, ds) \<in> set blocks \<Longrightarrow> d \<in> set ds \<Longrightarrow> ''    '' @ d \<in> set (render_blocks_text blocks placeholder)"
  unfolding render_blocks_text_def by (auto intro!: bexI [of _ "(t, ds)"] imageI simp del: append_Cons)

text \<open>A gap as it can stand in the column: a plain string, or the dictionary that Stage B writes.\<close>

definition gap_item :: "string \<Rightarrow> json \<Rightarrow> bool" where
  "gap_item g item \<longleftrightarrow> item = JStr g \<or> item = JObj [(''gap'', JStr g)]"

lemma gap_item_text:
  assumes "gap_item g item" "py_strip g \<noteq> []"
  shows "fallback_text lib item = py_strip g" "text_value lib item \<in> {py_strip g, ''gap: '' @ py_strip g}"
  using assms by (auto simp: gap_item_def fallback_text_def obj_get_def ordered_chunks_def PREFERRED_KEYS_def)

lemma gap_line:
  assumes "item \<in> set fallback" "gap_item g item" "py_strip g \<noteq> []"
  shows "\<exists>t ds. (t, ds) \<in> set (applicability_blocks lib items fallback)
    \<and> (py_strip g \<in> set ds \<or> ''Gap: '' @ py_strip g \<in> set ds \<or> ''gap: '' @ py_strip g \<in> set ds)"
proof -
  let ?assessed = "List.map_filter assessment_item items"
  let ?extra = "filter (\<lambda>t. t \<noteq> [] \<and> t \<notin> set (map (\<lambda>d. field_text lib d ''gap'') ?assessed) - {[]}) (map (fallback_text lib) fallback)"
  note own = gap_item_text [OF assms(2,3), of lib]
  have "py_strip g \<in> set (map (fallback_text lib) fallback)" using assms(1) own(1) by force
  then consider (none) "?assessed = []" | (claimed) d where "?assessed \<noteq> []" "d \<in> set ?assessed" "field_text lib d ''gap'' = py_strip g"
    | (extra) "?assessed \<noteq> []" "py_strip g \<in> set ?extra"
    using assms(3) by force
  then show ?thesis
  proof cases
    case none
    have "text_value lib item \<noteq> []" using own(2) assms(3) by auto
    then have "text_value lib item \<in> set (items_text lib fallback)" using assms(1) by (force simp: items_text_def)
    then have "([], [text_value lib item]) \<in> set (applicability_blocks lib items fallback)"
      using none unfolding applicability_blocks_def Let_def by auto
    then show ?thesis using own(2) by (intro exI [of _ "[]"] exI [of _ "[text_value lib item]"]) auto
  next
    case claimed
    obtain t ds where block: "applicability_block lib d = (t, ds)" by fastforce
    then have "''Gap: '' @ py_strip g \<in> set ds" using claimed(3) assms(3) unfolding applicability_block_def Let_def by auto
    moreover have "(t, ds) \<in> set (map (applicability_block lib) ?assessed)" using claimed(2) block by force
    ultimately show ?thesis using claimed(1) unfolding applicability_blocks_def Let_def by auto
  next
    case extra
    then have empty_extra: "(?extra = []) = False" by (metis empty_iff list.set(1))
    have "(''Other gaps reported'', ?extra) \<in> set (applicability_blocks lib items fallback)"
      using extra(1) empty_extra unfolding applicability_blocks_def Let_def
      by (simp only: map_is_Nil_conv if_False set_append list.set Un_iff insert_iff simp_thms)
    with extra(2) show ?thesis by blast
  qed
qed

lemma requirement_blocks_mem:
  "requirement_blocks lib vs = Inr bs \<Longrightarrow> v \<in> set vs \<Longrightarrow> \<exists>b. requirement_block lib v = Inr b \<and> set b \<subseteq> set bs"
proof (induction vs arbitrary: bs)
  case (Cons v' vs)
  then obtain b' bs' where b': "requirement_block lib v' = Inr b'" "requirement_blocks lib vs = Inr bs'" "bs = b' @ bs'"
    by (auto simp: bind_result_eq_Inr)
  then show ?case using Cons.IH [OF b'(2)] Cons.prems(2) by fastforce
qed simp

lemma quote_line:
  assumes "requirement_blocks lib items = Inr bs" "JObj d \<in> set items" "field_text lib d ''requirement'' \<noteq> []"
    and "''requirement'' \<in> fst ` set d" "obj_get d ''tender_evidence'' = JList cs" "JObj q \<in> set cs" "field_text lib q ''quote'' \<noteq> []"
  shows "\<exists>t ds l. (t, ds) \<in> set bs \<and> l \<in> set ds \<and> has_prefix (''Stated in the tender: \"'' @ field_text lib q ''quote'' @ ''\"'') l"
proof -
  obtain b where b: "requirement_block lib (JObj d) = Inr b" "set b \<subseteq> set bs" using requirement_blocks_mem [OF assms(1,2)] by blast
  have item: "assessment_item (JObj d) = Some d" using assms(4) by (simp add: assessment_item_def)
  have cs: "iterate (JList cs) = Inr cs" using assms(6) by (cases cs) (auto simp: iterate_def)
  have "b = [(field_text lib d ''requirement'', concat (map (tender_evidence_lines lib) cs))]"
    using b(1) assms(3) unfolding requirement_block_def item option.case Let_def assms(5) cs by simp
  moreover have "\<exists>l \<in> set (tender_evidence_lines lib (JObj q)). has_prefix (''Stated in the tender: \"'' @ field_text lib q ''quote'' @ ''\"'') l"
    using assms(7) unfolding tender_evidence_lines_def Let_def has_prefix_iff by simp
  ultimately show ?thesis using b(2) assms(6) by fastforce
qed

text \<open>C38: the plain text of a notification keeps the evidence of its verdict: every gap of the column, be it a plain
  string or the dictionary \<open>{"gap": ...}\<close> that Stage B writes, stands on a line of its own, as the gap of a
  requirement or among the others, and every quotation given for a named requirement is quoted.  A dictionary
  without the key \<open>gap\<close>, which Stage B never writes, is not concerned.\<close>

theorem text_keeps_evidence:
  assumes "requirement_blocks lib (nc_requirements_summary c) = Inr bs"
  shows "render_text lib c = Inr (drop_trailing py_space (join_with newline (text_lines lib c bs)) @ newline)
    \<and> (\<forall>g. \<forall>item \<in> set (nc_gap_analysis c). gap_item g item \<and> py_strip g \<noteq> [] \<longrightarrow>
         ''    '' @ py_strip g \<in> set (text_lines lib c bs) \<or> ''    '' @ ''Gap: '' @ py_strip g \<in> set (text_lines lib c bs)
         \<or> ''    '' @ ''gap: '' @ py_strip g \<in> set (text_lines lib c bs))
    \<and> (\<forall>d cs q. JObj d \<in> set (nc_requirements_summary c) \<and> ''requirement'' \<in> fst ` set d \<and> field_text lib d ''requirement'' \<noteq> []
         \<and> obj_get d ''tender_evidence'' = JList cs \<and> JObj q \<in> set cs \<and> field_text lib q ''quote'' \<noteq> [] \<longrightarrow>
         (\<exists>l \<in> set (text_lines lib c bs). has_prefix (''    '' @ ''Stated in the tender: \"'' @ field_text lib q ''quote'' @ ''\"'') l))"
proof -
  let ?L = "set (text_lines lib c bs)"
  have req: "set (render_blocks_text bs ''(no requirements summary available)'') \<subseteq> ?L"
    and app: "set (render_blocks_text (applicability_blocks lib (nc_requirements_summary c) (nc_gap_analysis c))
      ''(no comparison analysis available)'') \<subseteq> ?L"
    unfolding text_lines_def set_append by (intro Un_upper1 Un_upper2 le_supI1 le_supI2 subset_refl | rule le_supI2)+
  have gaps: "''    '' @ py_strip g \<in> ?L \<or> ''    '' @ ''Gap: '' @ py_strip g \<in> ?L \<or> ''    '' @ ''gap: '' @ py_strip g \<in> ?L"
    if "item \<in> set (nc_gap_analysis c)" "gap_item g item \<and> py_strip g \<noteq> []" for g item
    using gap_line [of item "nc_gap_analysis c" g lib "nc_requirements_summary c"] that app block_line by blast
  have quotes: "\<exists>l \<in> ?L. has_prefix (''    '' @ ''Stated in the tender: \"'' @ field_text lib q ''quote'' @ ''\"'') l"
    if q: "JObj d \<in> set (nc_requirements_summary c) \<and> ''requirement'' \<in> fst ` set d \<and> field_text lib d ''requirement'' \<noteq> []
         \<and> obj_get d ''tender_evidence'' = JList cs \<and> JObj q \<in> set cs \<and> field_text lib q ''quote'' \<noteq> []" for d cs q
  proof -
    obtain t ds l where l: "(t, ds) \<in> set bs" "l \<in> set ds" "has_prefix (''Stated in the tender: \"'' @ field_text lib q ''quote'' @ ''\"'') l"
      using quote_line [OF assms] q by blast
    then have "''    '' @ l \<in> ?L" using req block_line by blast
    moreover have "has_prefix (a @ p) (a @ l)" if "has_prefix p l" for a p l :: string
      using that by (auto simp: has_prefix_iff)
    ultimately show ?thesis using l(3) by blast
  qed
  have "render_text lib c = Inr (drop_trailing py_space (join_with newline (text_lines lib c bs)) @ newline)"
    unfolding render_text_def assms bind_result_simps ..
  then show ?thesis using gaps quotes by blast
qed


definition demo_requirements :: "block list" where
  "demo_requirements = [(''ISO'', [''Stated in the tender: \"must hold\"'']), (''<i>'', [])]"

lemma demo_blocks: "requirement_blocks demo_lib (nc_requirements_summary demo_content) = Inr demo_requirements"
  by code_simp

theorem text_keeps_evidence_witness:
  "''    price'' \<in> set (text_lines demo_lib (demo_content\<lparr>nc_gap_analysis := [JObj [(''gap'', JStr ''price'')]]\<rparr>) demo_requirements)
   \<or> ''    Gap: price'' \<in> set (text_lines demo_lib (demo_content\<lparr>nc_gap_analysis := [JObj [(''gap'', JStr ''price'')]]\<rparr>) demo_requirements)
   \<or> ''    gap: price'' \<in> set (text_lines demo_lib (demo_content\<lparr>nc_gap_analysis := [JObj [(''gap'', JStr ''price'')]]\<rparr>) demo_requirements)"
proof -
  let ?c = "demo_content\<lparr>nc_gap_analysis := [JObj [(''gap'', JStr ''price'')]]\<rparr>"
  have blocks: "requirement_blocks demo_lib (nc_requirements_summary ?c) = Inr demo_requirements"
    using demo_blocks by simp
  have item: "JObj [(''gap'', JStr ''price'')] \<in> set (nc_gap_analysis ?c)" by simp
  have strip: "py_strip ''price'' = ''price''" by code_simp
  then have "gap_item ''price'' (JObj [(''gap'', JStr ''price'')]) \<and> py_strip ''price'' \<noteq> []" by (simp add: gap_item_def)
  with text_keeps_evidence [OF blocks, THEN conjunct2, THEN conjunct1] item show ?thesis by (fastforce simp: strip)
qed

text \<open>Two claims of the module that do not hold: a structured item with a status but without a requirement loses
  its quotations, and the Test Mode marker does not lead the subject of an urgent mail whose source name
  begins with it.\<close>

lemma unnamed_requirement_dropped:
  "requirement_blocks demo_lib [JObj [(''requirement'', JStr '' ''), (''status'', JStr ''met''),
     (''tender_evidence'', JList [JObj [(''quote'', JStr ''must hold'')]])]] = Inr []"
  by code_simp

lemma urgent_hides_test_marker:
  "\<not> has_test_prefix (subject demo_lib (default_content\<lparr>nc_source_name := ''[TEST] A'', nc_test_mode := True, nc_urgent := True\<rparr>))"
  by code_simp

end
