(* ===== verification/NotifyBase.thy ===== *)
theory NotifyBase
  imports Timeline Templates Links ProviderStore
begin

text \<open>
  The ground of the notification service, \<open>notifications/service.py\<close>: its tables, what it is built
  with, transactions, the red banner of \<open>notifications/banner.py\<close>, and the provider chain it builds
  from the persisted providers.  An operation is a function on \<open>notify_world\<close>; its exceptions are
  the type \<open>notify_exn\<close>, and \<open>in_session\<close> is the transaction that a raising body rolls back.

  The adapters' requests and the pauses between them act on the whole world, because other processes and
  operators may write to the database meanwhile; everything else is the service's own.  The field
  \<open>nw_requests\<close> is a record of the requests handed to providers, with the stored Test Mode of that
  moment: the code does not keep it, the safety properties speak about it.
\<close>

section \<open>Tables and exceptions\<close>

record setting_row =
  sg_test_mode :: bool
  sg_link_expiry_days :: "int option"

record mail_provider =
  mv_row :: provider_row
  mv_name :: string
  mv_type :: string
  mv_capabilities :: "(string \<times> json) list"
  mv_failures :: "int option"

record 'w notify_world =
  nw_setting :: "setting_row option"
  nw_tenders :: "tender list"
  nw_source :: "int \<Rightarrow> string \<times> string list option"
  nw_documents :: "document list"
  nw_objects :: "string list \<Rightarrow> octets option"
  nw_verdicts :: "verdict_row list"
  nw_recipients :: "recipient list"
  nw_providers :: "mail_provider list"
  nw_usage :: "int \<Rightarrow> usage_row option"
  nw_outbox :: outbox
  nw_alerts :: "alert_event list"
  nw_limiter :: usage_limiter
  nw_requests :: "(bool \<times> email_message) list"
  nw_ext :: 'w

datatype notify_exn = NoteError string | SafetyError string | PersistFailed string | IntegrityFailed
  | OtherFailed string

type_synonym ('w, 'a) notify_action = "'w notify_world \<Rightarrow> (notify_exn, 'a) result \<times> 'w notify_world"

record mail_alert_notice =
  mn_error_code :: string
  mn_provider_name :: "string option"
  mn_correlation_id :: "string option"
  mn_message :: string

record 'w notify_env =
  nv_lib :: template_lib
  nv_signer :: link_signer
  nv_sha256 :: "string \<Rightarrow> string"
  nv_now :: "'w \<Rightarrow> instant \<times> 'w"
  nv_local :: "instant \<Rightarrow> int"
  nv_clock :: "'w \<Rightarrow> real \<times> 'w"
  nv_monotonic :: "'w \<Rightarrow> real \<times> 'w"
  nv_uuid :: "'w \<Rightarrow> string \<times> 'w"
  nv_tokens :: "'w \<Rightarrow> (nat \<Rightarrow> string) \<times> 'w"
  nv_iso_date :: "instant \<Rightarrow> string"
  nv_isoformat :: "instant \<Rightarrow> string"
  nv_fromiso :: "string \<Rightarrow> py_datetime option"
  nv_valid_email :: "string \<Rightarrow> bool"
  nv_adapter :: "mail_provider \<Rightarrow> bool"
  nv_domain_ready :: "mail_provider \<Rightarrow> bool"
  nv_send :: "provider_entry \<Rightarrow> email_message \<Rightarrow> 'w notify_world \<Rightarrow> send_outcome \<times> 'w notify_world"
  nv_sleep :: "real \<Rightarrow> 'w notify_world \<Rightarrow> 'w notify_world"
  nv_race :: "'w notify_world \<Rightarrow> 'w notify_world"
  nv_locked :: "int \<Rightarrow> bool"
  nv_usage_fault :: "int \<Rightarrow> 'w notify_world \<Rightarrow> bool"
  nv_usage_conflict :: "int \<Rightarrow> usage_row option option"
  nv_probe_fault :: "int \<Rightarrow> 'w notify_world \<Rightarrow> bool"
  nv_hook :: "(mail_alert_notice \<Rightarrow> 'w \<Rightarrow> 'w) option"
  nv_policy :: mail_retry_policy
  nv_breaker_threshold :: int
  nv_breaker_cooldown :: real
  nv_lease_us :: int

section \<open>Actions\<close>

definition then_do :: "('s \<Rightarrow> ('e, 'a) result \<times> 's) \<Rightarrow> ('a \<Rightarrow> 's \<Rightarrow> ('e, 'b) result \<times> 's) \<Rightarrow> 's \<Rightarrow> ('e, 'b) result \<times> 's" where
  "then_do m k w = (case m w of (Inl e, w') \<Rightarrow> (Inl e, w') | (Inr a, w') \<Rightarrow> k a w')"

definition give :: "'a \<Rightarrow> 's \<Rightarrow> ('e, 'a) result \<times> 's" where
  "give a w = (Inr a, w)"

definition fails :: "'e \<Rightarrow> 's \<Rightarrow> ('e, 'a) result \<times> 's" where
  "fails e w = (Inl e, w)"

definition from_result :: "('f \<Rightarrow> 'e) \<Rightarrow> ('f, 'a) result \<Rightarrow> 's \<Rightarrow> ('e, 'a) result \<times> 's" where
  "from_result f r w = (case r of Inl x \<Rightarrow> (Inl (f x), w) | Inr a \<Rightarrow> (Inr a, w))"

definition in_session :: "('w, 'a) notify_action \<Rightarrow> ('w, 'a) notify_action" where
  \<comment> \<open>\<open>_session\<close>: commit, or roll the tables back; clocks and the request record are no tables\<close>
  "in_session body w = (case body w of
     (Inl e, w') \<Rightarrow> (Inl e, w\<lparr>nw_ext := nw_ext w'\<rparr>)
   | (Inr a, w') \<Rightarrow> (Inr a, w'))"

definition ext_call :: "('w \<Rightarrow> 'a \<times> 'w) \<Rightarrow> ('w, 'a) notify_action" where
  "ext_call f w = (let (a, x) = f (nw_ext w) in (Inr a, w\<lparr>nw_ext := x\<rparr>))"

definition outbox_exn :: "outbox_error \<Rightarrow> notify_exn" where
  "outbox_exn e = (case e of PersistenceErr m \<Rightarrow> PersistFailed m | UniqueViolation \<Rightarrow> IntegrityFailed)"

definition on_outbox :: "(instant \<Rightarrow> outbox \<Rightarrow> (outbox_error, 'a \<times> outbox) result) \<Rightarrow> 'w notify_env \<Rightarrow> ('w, 'a) notify_action" where
  \<comment> \<open>a call of the repository, which reads the time once\<close>
  "on_outbox f env = then_do (ext_call (nv_now env)) (\<lambda>now w.
     case f now (nw_outbox w) of
       Inl e \<Rightarrow> (Inl (outbox_exn e), w)
     | Inr (a, ob) \<Rightarrow> (Inr a, w\<lparr>nw_outbox := ob\<rparr>))"

text \<open>\<open>datetime.fromtimestamp(self._clock(), UTC)\<close>.\<close>

definition service_instant :: "real \<Rightarrow> instant" where
  "service_instant epoch = round_half_even (1000000 * epoch)"

section \<open>The red banner\<close>

definition RED_BANNER_TYPE :: string where "RED_BANNER_TYPE = ''email_chain_down''"

definition MAX_CORRELATION_CHARS :: nat where "MAX_CORRELATION_CHARS = 36"

definition open_banner :: "alert_event \<Rightarrow> bool" where
  "open_banner a \<longleftrightarrow> av_type a = RED_BANNER_TYPE \<and> av_state a = ''open''"

definition raise_banner :: "py_datetime \<Rightarrow> string option \<Rightarrow> int option \<Rightarrow> string \<Rightarrow> alert_event list \<Rightarrow> alert_event list" where
  "raise_banner now correlation_id source_id message alerts =
     (if List.find open_banner alerts \<noteq> None then alerts
      else alerts @ [\<lparr>av_id = next_alert_id alerts, av_type = RED_BANNER_TYPE, av_severity = ''critical'', av_source_id = source_id,
        av_correlation_id = (let c = take MAX_CORRELATION_CHARS (py_or correlation_id []) in if c = [] then None else Some c),
        av_state = ''open'',
        av_message = Some (py_or (Some (take 1024 message)) ''email provider chain is down; notifications queued''),
        av_first_raised_at = now, av_last_reminded_at = None, av_resolved_at = None\<rparr>])"

definition clear_banner :: "instant \<Rightarrow> alert_event list \<Rightarrow> int \<times> alert_event list" where
  "clear_banner now alerts = (int (length (filter open_banner alerts)),
     map (\<lambda>a. if open_banner a then a\<lparr>av_state := ''recovered'', av_resolved_at := Some (Aware now 0)\<rparr> else a) alerts)"

definition banner_active :: "alert_event list \<Rightarrow> bool" where
  "banner_active alerts \<longleftrightarrow> List.find open_banner alerts \<noteq> None"

definition show_banner :: "'w notify_env \<Rightarrow> string option \<Rightarrow> int option \<Rightarrow> string \<Rightarrow> ('w, unit) notify_action" where
  "show_banner env correlation_id source_id message = then_do (ext_call (nv_now env)) (\<lambda>now w.
     (Inr (), w\<lparr>nw_alerts := raise_banner (Naive (nv_local env now)) correlation_id source_id message (nw_alerts w)\<rparr>))"

section \<open>Capabilities of a stored provider\<close>

definition SENDLIB_FREE_CAPABILITIES :: "(string \<times> json) list" where
  "SENDLIB_FREE_CAPABILITIES = [(''max_attachments'', JInt 5), (''max_attachment_mb'', JInt 1), (''max_message_mb'', JInt 2),
     (''daily_limit'', JInt 200), (''rate_limit_per_min'', JInt 30), (''needs_verified_domain'', JBool False)]"

definition capability_value :: "mail_provider \<Rightarrow> string \<Rightarrow> json" where
  \<comment> \<open>the entry of \<open>values\<close>, or the default of \<open>Capabilities\<close> where there is none\<close>
  "capability_value p k =
     (let raw = mv_capabilities p in
      if py_lower (mv_type p) = ''sendlib''
      then (if obj_get raw k \<noteq> JNull then obj_get raw k else obj_get SENDLIB_FREE_CAPABILITIES k)
      else obj_get raw k)"

definition capabilities_for :: "mail_provider \<Rightarrow> (capability_error, capabilities) result" where
  "capabilities_for p = new_capabilities (capability_value p ''max_attachments'') (capability_value p ''max_attachment_mb'')
     (capability_value p ''max_message_mb'') (capability_value p ''daily_limit'') (capability_value p ''rate_limit_per_min'')
     (json_truthy (capability_value p ''needs_verified_domain''))"

definition provider_domain_ready :: "'w notify_env \<Rightarrow> mail_provider \<Rightarrow> bool" where
  "provider_domain_ready env p = (case capabilities_for p of Inl _ \<Rightarrow> False
     | Inr cap \<Rightarrow> \<not> cp_needs_verified_domain cap \<or> nv_domain_ready env p)"

definition providers_ordered :: "mail_provider list \<Rightarrow> mail_provider list" where
  \<comment> \<open>\<open>list_active_ordered\<close> on the whole rows\<close>
  "providers_ordered ps = sort_key (\<lambda>p. (pr_priority (mv_row p), pr_id (mv_row p))) ps"

definition no_capabilities :: capabilities where
  "no_capabilities = \<lparr>cp_max_attachments = None, cp_max_attachment_mb = None, cp_max_message_mb = None,
     cp_daily_limit = None, cp_rate_limit_per_min = None, cp_needs_verified_domain = False\<rparr>"

end
