(* ===== verification/NotifyPrepare.thy ===== *)
theory NotifyPrepare
  imports NotifyBase
begin

text \<open>
  Preparation of one notification: \<open>_prepare\<close> of \<open>notifications/service.py\<close> with everything it calls.  It
  reads the tables in one session and writes nothing.
\<close>

section \<open>Values\<close>

record notification_event =
  ne_tender_id :: int
  ne_verdict_id :: "int option"
  ne_kind :: notification_kind
  ne_material_change :: bool
  ne_change_types :: "string list"
  ne_change_details :: "(string \<times> string) list"
  ne_changed_document_ids :: "int list"
  ne_correlation_id :: "string option"
  ne_unavailability_reason :: "string option"

record notification_outcome =
  no_status :: string
  no_log_id :: "int option"
  no_provider_used :: "string option"
  no_possible_duplicate :: bool
  no_error_code :: "string option"
  no_dedupe_key :: string

type_synonym document_pair = "document \<times> mail_attachment"

record delivery_plan =
  dp_provider_id :: "int option"
  dp_attach_pairs :: "document_pair list"
  dp_link_docs :: "(int \<times> string) list"

record prepared_notification =
  np_tender :: tender
  np_verdict :: "verdict_row option"
  np_content :: notification_content
  np_selection :: selection
  np_plan :: delivery_plan
  np_links :: "linked_document list"
  np_message :: "email_message option"
  np_dedupe_key :: string
  np_attachment_metadata :: "json list"
  np_link_metadata :: "json list"
  np_payload :: json
  np_priority :: int
  np_kind :: notification_kind

definition empty_selection :: selection where
  "empty_selection = \<lparr>sl_to = [], sl_cc = [], sl_bcc = [], sl_snapshot = []\<rparr>"

definition load_settings :: "'w notify_world \<Rightarrow> bool \<times> int" where
  "load_settings w = (case nw_setting w of
     None \<Rightarrow> (True, 14)
   | Some row \<Rightarrow> (sg_test_mode row,
       max 1 (case sg_link_expiry_days row of None \<Rightarrow> 14 | Some n \<Rightarrow> if n = 0 then 14 else n)))"

definition get_tender :: "int \<Rightarrow> 'w notify_world \<Rightarrow> tender option" where
  "get_tender i w = List.find (\<lambda>t. tn_id t = i) (nw_tenders w)"

definition get_verdict :: "int \<Rightarrow> 'w notify_world \<Rightarrow> verdict_row option" where
  "get_verdict i w = List.find (\<lambda>v. vd_id v = i) (nw_verdicts w)"

definition CONFIRMED_VERDICTS :: "string list" where
  "CONFIRMED_VERDICTS = [''APPLY'', ''DO NOT APPLY'', ''APPLY WITH CONDITIONS'']"

definition checked_verdict :: "verdict_row \<Rightarrow> (notify_exn, verdict_row option) result" where
  "checked_verdict v = (if vd_recommendation v \<in> set CONFIRMED_VERDICTS then Inr (Some v)
     else Inl (NoteError NOTIFICATION_INVALID_VERDICT))"

definition latest_verdict :: "int \<Rightarrow> verdict_row list \<Rightarrow> verdict_row option" where
  "latest_verdict tender_id vs =
     (case sort_key (\<lambda>v. (- vd_generated_at v, - vd_id v)) (filter (\<lambda>v. vd_tender_id v = tender_id) vs) of
        [] \<Rightarrow> None | v # _ \<Rightarrow> Some v)"

definition resolve_verdict :: "tender \<Rightarrow> int option \<Rightarrow> bool \<Rightarrow> 'w notify_world \<Rightarrow> (notify_exn, verdict_row option) result" where
  "resolve_verdict t verdict_id allow_missing w = (case verdict_id of
     Some i \<Rightarrow> (case get_verdict i w of
         None \<Rightarrow> Inl (NoteError PERSISTENCE_NOT_FOUND)
       | Some v \<Rightarrow> if vd_tender_id v \<noteq> tn_id t then Inl (NoteError NOTIFICATION_NO_VERDICT) else checked_verdict v)
   | None \<Rightarrow> (case latest_verdict (tn_id t) (nw_verdicts w) of
         None \<Rightarrow> if allow_missing then Inr None else Inl (NoteError NOTIFICATION_NO_VERDICT)
       | Some v \<Rightarrow> checked_verdict v))"

text \<open>\<open>str.isprintable\<close> on the code points 0 to 255.\<close>

definition py_printable :: "char \<Rightarrow> bool" where
  "py_printable c = (let n = of_char c :: nat in (32 \<le> n \<and> n \<le> 126) \<or> (161 \<le> n \<and> n \<noteq> 173))"

definition safe_filename :: "string \<Rightarrow> string" where
  "safe_filename name =
     (let value' = map (\<lambda>c. if c = CHR 0x5C \<or> c = CHR ''/'' \<or> c = CHR 0x00 then CHR ''_'' else c)
            (if name = [] then ''document'' else name);
          clean = py_strip (filter py_printable value')
      in if clean \<in> {[], ''.'', ''..''} then ''document'' else clean)"

definition as_items :: "json \<Rightarrow> json list" where
  "as_items v = (case v of JNull \<Rightarrow> [] | JList vs \<Rightarrow> vs | _ \<Rightarrow> [v])"

definition unique_names :: "string list \<Rightarrow> string list" where
  \<comment> \<open>\<open>tuple(dict.fromkeys(names))\<close>\<close>
  "unique_names names = rev (remdups (rev names))"

section \<open>Documents and content\<close>

definition stored_bytes :: "'w notify_world \<Rightarrow> document \<Rightarrow> octets option" where
  \<comment> \<open>the bytes of an available document; the storage's exceptions make it unavailable\<close>
  "stored_bytes w d =
     (if dc_download_status d = ''downloaded'' \<and> py_truthy (dc_storage_path d)
      then (case object_exists (the (dc_storage_path d)) (nw_objects w) of
              Inr True \<Rightarrow> (case object_get (the (dc_storage_path d)) (nw_objects w) of Inr data \<Rightarrow> Some data | Inl _ \<Rightarrow> None)
            | _ \<Rightarrow> None)
      else None)"

definition event_documents :: "notification_kind \<Rightarrow> notification_event option \<Rightarrow> tender \<Rightarrow> 'w notify_world \<Rightarrow> document list" where
  "event_documents kind event t w =
     (let changed = (case event of None \<Rightarrow> [] | Some e \<Rightarrow> ne_changed_document_ids e)
      in filter (\<lambda>d. kind \<noteq> KindUpdate \<or> changed = [] \<or> dc_id d \<in> set changed)
           (sort_key dc_id (filter (\<lambda>d. dc_tender_id d = tn_id t) (nw_documents w))))"

definition document_pairs :: "'w notify_world \<Rightarrow> document list \<Rightarrow> document_pair list" where
  "document_pairs w docs = List.map_filter (\<lambda>d. map_option (\<lambda>data. (d, \<lparr>ma_filename = safe_filename (dc_filename d),
     ma_content = data, ma_content_type = dc_mime_type d\<rparr>)) (stored_bytes w d)) docs"

definition document_failed :: "'w notify_world \<Rightarrow> document \<Rightarrow> bool" where
  "document_failed w d \<longleftrightarrow> stored_bytes w d = None \<or> dc_extraction_status d = ''failed''"

definition failed_names :: "'w notify_world \<Rightarrow> document list \<Rightarrow> string list" where
  "failed_names w docs = map (safe_filename \<circ> dc_filename) (filter (document_failed w) docs)"

definition skipped_names :: "'w notify_world \<Rightarrow> document list \<Rightarrow> string list" where
  "skipped_names w docs = map (safe_filename \<circ> dc_filename)
     (filter (\<lambda>d. \<not> document_failed w d \<and> dc_extraction_status d = ''skipped'') docs)"

definition previous_sent :: "int \<Rightarrow> outbox \<Rightarrow> notification_log option" where
  \<comment> \<open>sent rows have a time; a missing one would sort first in PostgreSQL and last in SQLite\<close>
  "previous_sent tender_id ob =
     (case sort_key (\<lambda>r. (case nl_sent_at r of None \<Rightarrow> 0 | Some t \<Rightarrow> - t, - nl_id r))
             (filter (\<lambda>r. nl_tender_id r = Some tender_id \<and> nl_status r = ''sent'') (ob_rows ob)) of
        [] \<Rightarrow> None | r # _ \<Rightarrow> Some r)"

definition update_text :: "tender \<Rightarrow> notification_event option \<Rightarrow> string" where
  "update_text t event = (case event of
     Some e \<Rightarrow>
       (let kinds = join_with '', '' (ne_change_types e);
            summary = (if kinds = [] then ''tender listing changed'' else kinds);
            details = join_with ''; '' (map (\<lambda>(k, v). k @ '': '' @ v) (ne_change_details e))
        in if details \<noteq> [] then summary @ '' ('' @ details @ '')'' else summary)
   | None \<Rightarrow> if tn_status t \<noteq> [] then ''status updated to '' @ tn_status t else ''tender listing changed'')"

definition notice_only :: "verdict_row option \<Rightarrow> document_pair list \<Rightarrow> string list \<Rightarrow> string list \<Rightarrow> bool" where
  "notice_only verdict pairs failed skipped \<longleftrightarrow> verdict \<noteq> None \<and> pairs = [] \<and> failed = [] \<and> skipped = []"

definition prepare_payload :: "'w notify_env \<Rightarrow> tender \<Rightarrow> verdict_row option \<Rightarrow> bool \<Rightarrow> notification_kind
    \<Rightarrow> notification_event option \<Rightarrow> 'w notify_world \<Rightarrow> notification_content \<times> document_pair list" where
  "prepare_payload env t verdict test_mode kind event w =
     (let docs = event_documents kind event t w;
          pairs = document_pairs w docs; failed = failed_names w docs; skipped = skipped_names w docs
      in (\<lparr>nc_kind = kind, nc_test_mode = test_mode, nc_source_name = fst (nw_source w (tn_source_id t)), nc_title = tn_title t,
           nc_urgent = (case verdict of None \<Rightarrow> False | Some v \<Rightarrow> vd_urgency_flag v),
           nc_verdict = (case verdict of None \<Rightarrow> [] | Some v \<Rightarrow> vd_recommendation v),
           nc_confidence = (case verdict of None \<Rightarrow> None | Some v \<Rightarrow> vd_confidence v),
           nc_background_summary = (case verdict of None \<Rightarrow> [] | Some v \<Rightarrow> py_or (vd_background_summary v) []),
           nc_requirements_summary = (case verdict of None \<Rightarrow> [] | Some v \<Rightarrow> as_items (vd_requirements_summary v)),
           nc_gap_analysis = (case verdict of None \<Rightarrow> [] | Some v \<Rightarrow> as_items (vd_gap_analysis v)),
           nc_deadline = tn_deadline t, nc_deadline_timezone = tn_deadline_timezone t,
           nc_incomplete_inputs = ((case verdict of None \<Rightarrow> False | Some v \<Rightarrow> vd_incomplete_inputs v) \<or> failed \<noteq> []),
           nc_attached_filenames = [], nc_linked_documents = [],
           nc_failed_filenames = unique_names failed, nc_skipped_filenames = unique_names skipped,
           nc_update_summary = (if kind = KindUpdate then update_text t event else []),
           nc_previous_assessment_date = (if kind = KindUpdate
             then (case previous_sent (tn_id t) (nw_outbox w) of None \<Rightarrow> []
                   | Some r \<Rightarrow> (case nl_sent_at r of None \<Rightarrow> [] | Some m \<Rightarrow> nv_iso_date env m)) else []),
           nc_verdict_changed = (if kind = KindUpdate then map_option ne_material_change event else None),
           nc_requirements_label = ''Tender'', nc_assessment_unavailable = (verdict = None),
           nc_unavailability_reason = (case event of None \<Rightarrow> None | Some e \<Rightarrow> ne_unavailability_reason e),
           nc_notice_only_assessment = notice_only verdict pairs failed skipped\<rparr>, pairs))"

definition candidate_pairs :: "document_pair list \<Rightarrow> notification_kind \<Rightarrow> notification_event option
    \<Rightarrow> (notify_exn, document_pair list) result" where
  "candidate_pairs pairs kind event = (case event of
     None \<Rightarrow> Inr pairs
   | Some e \<Rightarrow> if kind \<noteq> KindUpdate \<or> ne_changed_document_ids e = [] then Inr pairs
       else let selected = filter (\<lambda>p. dc_id (fst p) \<in> set (ne_changed_document_ids e)) pairs
            in if selected = [] then Inl (NoteError NOTIFICATION_ROUTING_FAILED) else Inr selected)"

section \<open>The delivery plan\<close>

definition message_overhead :: "template_lib \<Rightarrow> notification_content \<Rightarrow> document_pair list \<Rightarrow> (string, int) result" where
  "message_overhead lib c pairs =
     bind_result (render_text lib c) (\<lambda>plain.
     bind_result (render_html lib c) (\<lambda>html.
       Inr (utf8_len plain + utf8_len html + 4096 + sum_list (map (\<lambda>p. utf8_len (dc_filename (fst p)) + 256) pairs))))"

text \<open>The pairs whose attachment object is in the plan.  The planner takes the attachments in order, and
  after it has refused one it refuses every later one of the same bytes, so the first pair equal to the
  next planned attachment is the one it took.\<close>

fun split_planned :: "mail_attachment list \<Rightarrow> document_pair list \<Rightarrow> document_pair list \<times> document_pair list" where
  "split_planned [] ps = ([], ps)"
| "split_planned as [] = ([], [])"
| "split_planned (a # as) (p # ps) =
     (if snd p = a then (let (kept, linked) = split_planned as ps in (p # kept, linked))
      else (let (kept, linked) = split_planned (a # as) ps in (kept, p # linked)))"

definition link_docs_of :: "document_pair list \<Rightarrow> (int \<times> string) list" where
  "link_docs_of pairs = map (\<lambda>(d, a). (dc_id d, ma_filename a)) pairs"

definition plan_for_row :: "mail_provider \<Rightarrow> plan_result \<Rightarrow> document_pair list \<Rightarrow> delivery_plan" where
  "plan_for_row p pl pairs = (let (kept, linked) = split_planned (pr_attach pl) pairs in
     \<lparr>dp_provider_id = Some (pr_id (mv_row p)), dp_attach_pairs = kept, dp_link_docs = link_docs_of linked\<rparr>)"

definition better_plan :: "plan_result \<Rightarrow> plan_result \<Rightarrow> bool" where
  \<comment> \<open>the tuple comparison \<open>candidate > best\<close>\<close>
  "better_plan new old \<longleftrightarrow> length (pr_attach new) > length (pr_attach old)
     \<or> length (pr_attach new) = length (pr_attach old) \<and> pr_total_encoded_bytes new < pr_total_encoded_bytes old"

fun choose_plan :: "'w notify_env \<Rightarrow> mail_provider list \<Rightarrow> document_pair list \<Rightarrow> int \<Rightarrow> (mail_provider \<times> plan_result) option
    \<Rightarrow> delivery_plan" where
  "choose_plan env [] pairs overhead best = (case best of
     None \<Rightarrow> \<lparr>dp_provider_id = None, dp_attach_pairs = [], dp_link_docs = link_docs_of pairs\<rparr>
   | Some (p, pl) \<Rightarrow> plan_for_row p pl pairs)"
| "choose_plan env (p # ps) pairs overhead best =
     (if \<not> pr_active (mv_row p) \<or> \<not> provider_domain_ready env p then choose_plan env ps pairs overhead best
      else case capabilities_for p of
        Inl _ \<Rightarrow> choose_plan env ps pairs overhead best
      | Inr cap \<Rightarrow> (case plan cap (map snd pairs) overhead of
          Inl _ \<Rightarrow> choose_plan env ps pairs overhead best
        | Inr pl \<Rightarrow>
            if fits_whole_set pl then plan_for_row p pl pairs
            else if (case best of None \<Rightarrow> True | Some (_, old) \<Rightarrow> better_plan pl old)
            then choose_plan env ps pairs overhead (Some (p, pl))
            else choose_plan env ps pairs overhead best))"

section \<open>Links, metadata, message\<close>

definition linked_of :: "secure_link \<Rightarrow> linked_document" where
  "linked_of l = \<lparr>ld_filename = sk_filename l, ld_url = sk_url l, ld_expires_at = sk_expires_at l, ld_expiry_days = sk_expiry_days l\<rparr>"

fun sign_all :: "link_signer \<Rightarrow> int \<Rightarrow> (int \<times> string) list \<Rightarrow> int \<Rightarrow> instant \<Rightarrow> (string, linked_document list) result" where
  "sign_all s tender_id [] expiry_days now = Inr []"
| "sign_all s tender_id ((i, name) # ds) expiry_days now =
     bind_result (sign_link s tender_id i name (Some expiry_days) now) (\<lambda>l.
     bind_result (sign_all s tender_id ds expiry_days now) (\<lambda>ls. Inr (linked_of l # ls)))"

definition make_links :: "'w notify_env \<Rightarrow> tender \<Rightarrow> (int \<times> string) list \<Rightarrow> int \<Rightarrow> ('w, linked_document list) notify_action" where
  "make_links env t link_docs expiry_days = then_do (ext_call (nv_clock env)) (\<lambda>now.
     from_result OtherFailed (sign_all (nv_signer env) (tn_id t) link_docs expiry_days (service_instant now)))"

definition attachment_metadata :: "document_pair list \<Rightarrow> json list" where
  "attachment_metadata pairs = map (\<lambda>(d, a). JObj [(''document_id'', JInt (dc_id d)), (''filename'', JStr (ma_filename a)),
     (''checksum'', Outbox.opt_json JStr (dc_checksum d))]) pairs"

definition link_json :: "'w notify_env \<Rightarrow> int \<Rightarrow> linked_document \<Rightarrow> json" where
  "link_json env document_id l = JObj [(''document_id'', JInt document_id), (''filename'', JStr (ld_filename l)),
     (''url'', JStr (ld_url l)), (''expires_at'', JStr (nv_isoformat env (ld_expires_at l))), (''expiry_days'', JInt (ld_expiry_days l))]"

definition link_metadata :: "'w notify_env \<Rightarrow> (int \<times> string) list \<Rightarrow> linked_document list \<Rightarrow> json list" where
  "link_metadata env link_docs links = map (\<lambda>((i, _), l). link_json env i l) (List.zip link_docs links)"

definition checked_message :: "(string \<Rightarrow> bool) \<Rightarrow> email_message \<Rightarrow> (string, email_message) result" where
  "checked_message valid_email m = (case validate_message valid_email m of Inl _ \<Rightarrow> Inl ''ValueError'' | Inr _ \<Rightarrow> Inr m)"

definition compose_message :: "'w notify_env \<Rightarrow> tender \<Rightarrow> notification_content \<Rightarrow> selection \<Rightarrow> document_pair list
    \<Rightarrow> linked_document list \<Rightarrow> string \<Rightarrow> (string, email_message) result" where
  "compose_message env t c sel pairs links key =
     bind_result (render_text (nv_lib env) c) (\<lambda>txt.
     bind_result (render_html (nv_lib env) c) (\<lambda>html.
       checked_message (nv_valid_email env)
         \<lparr>em_to = sl_to sel, em_cc = sl_cc sel, em_bcc = sl_bcc sel,
          em_subject = apply_subject_prefix (nc_test_mode c) (subject (nv_lib env) c),
          em_text_body = txt, em_html_body = Some html, em_attachments = map snd pairs, em_secure_links = map ld_url links,
          em_dedupe_key = key, em_correlation_id = Some (tn_correlation_id t)\<rparr>))"

definition str_list :: "string list \<Rightarrow> json" where
  "str_list ss = JList (map JStr ss)"

definition message_payload :: "email_message option \<Rightarrow> selection \<Rightarrow> bool \<Rightarrow> notification_kind \<Rightarrow> (string \<times> json) list" where
  "message_payload message sel test_mode kind = (case message of
     None \<Rightarrow> [(''to'', JList []), (''cc'', JList []), (''bcc'', JList []), (''test_mode'', JBool test_mode), (''kind'', JStr (kind_value kind))]
   | Some m \<Rightarrow> [(''to'', str_list (sl_to sel)), (''cc'', str_list (sl_cc sel)), (''bcc'', str_list (sl_bcc sel)),
       (''subject'', JStr (em_subject m)), (''text_body'', JStr (em_text_body m)), (''html_body'', Outbox.opt_json JStr (em_html_body m)),
       (''secure_links'', str_list (em_secure_links m)), (''test_mode'', JBool test_mode), (''kind'', JStr (kind_value kind))])"

definition snapshot_json :: "snapshot \<Rightarrow> json" where
  "snapshot_json s = JObj [(''email'', JStr (sn_email s)), (''name'', JStr (sn_name s)), (''role'', JStr (sn_role s)),
     (''delivery'', JStr (sn_delivery s)), (''list_type'', JStr (sn_list_type s))]"

definition snapshots_json :: "selection \<Rightarrow> json" where
  "snapshots_json sel = JList (map snapshot_json (sl_snapshot sel))"

section \<open>Safety, identity\<close>

definition test_mode_safety :: "bool \<Rightarrow> selection \<Rightarrow> (notify_exn, unit) result" where
  "test_mode_safety test_mode sel =
     (if \<not> test_mode \<or> sl_addresses sel = [] then Inr ()
      else if guard_tender_recipients True (map sn_list_type (sl_snapshot sel)) then Inr ()
      else Inl (SafetyError NOTIFICATION_ROUTING_FAILED))"

definition raw_notice_recipients :: "bool \<Rightarrow> selection \<Rightarrow> (notify_exn, unit) result" where
  "raw_notice_recipients raw_notice sel =
     (if \<not> raw_notice \<or> sl_addresses sel = [] then Inr ()
      else if sl_list_types sel - {''dev_alert''} \<noteq> {} then Inl (SafetyError NOTIFICATION_ROUTING_FAILED) else Inr ())"

definition notification_key :: "'w notify_env \<Rightarrow> int \<Rightarrow> int option \<Rightarrow> selection \<Rightarrow> string" where
  "notification_key env tender_id verdict_id sel = nv_sha256 env (int_str tender_id @ ''|''
     @ (case verdict_id of Some i \<Rightarrow> int_str i | None \<Rightarrow> ''raw-notice'') @ ''|'' @ recipient_set_hash (nv_sha256 env) sel)"

definition route :: "tender \<Rightarrow> verdict_row option \<Rightarrow> bool \<Rightarrow> 'w notify_world \<Rightarrow> (routing_error, selection) result" where
  \<comment> \<open>the router call of \<open>_prepare\<close>, \<open>_revalidate_for_send\<close> and \<open>_outbox_route\<close>: no verdict means a raw notice\<close>
  "route t verdict test_mode w = (case verdict of
     None \<Rightarrow> resolve_raw_notice (nw_recipients w)
   | Some v \<Rightarrow> resolve (fst (nw_source w (tn_source_id t))) (vd_recommendation v) (vd_urgency_flag v) test_mode
       (snd (nw_source w (tn_source_id t))) (nw_recipients w))"

section \<open>\<open>_prepare\<close>\<close>

definition event_matches :: "tender \<Rightarrow> verdict_row option \<Rightarrow> notification_event option \<Rightarrow> (notify_exn, unit) result" where
  "event_matches t verdict event = (case event of
     None \<Rightarrow> Inr ()
   | Some e \<Rightarrow>
       if ne_tender_id e \<noteq> tn_id t then Inl (NoteError NOTIFICATION_ROUTING_FAILED)
       else if ne_kind e \<noteq> KindRawNotice \<and> ne_verdict_id e \<noteq> map_option vd_id verdict then Inl (NoteError NOTIFICATION_ROUTING_FAILED)
       else if py_truthy (ne_correlation_id e) \<and> ne_correlation_id e \<noteq> Some (tn_correlation_id t)
       then Inl (NoteError NOTIFICATION_ROUTING_FAILED) else Inr ())"

definition kind_for :: "tender \<Rightarrow> notification_event option \<Rightarrow> notification_kind" where
  "kind_for t event = (case event of Some e \<Rightarrow> ne_kind e | None \<Rightarrow> if tn_is_update t then KindUpdate else KindNew)"

definition identified :: "int \<Rightarrow> int option \<Rightarrow> notification_event option \<Rightarrow> 'w notify_world
    \<Rightarrow> (notify_exn, tender \<times> verdict_row option) result" where
  \<comment> \<open>the checks of \<open>_prepare\<close> up to the payload\<close>
  "identified tender_id verdict_id event w = (case get_tender tender_id w of
     None \<Rightarrow> Inl (NoteError PERSISTENCE_NOT_FOUND)
   | Some t \<Rightarrow>
       (let raw_notice = (kind_for t event = KindRawNotice) in
        bind_result (resolve_verdict t verdict_id raw_notice w) (\<lambda>verdict.
          if raw_notice \<and> verdict \<noteq> None then Inl (NoteError NOTIFICATION_ROUTING_FAILED)
          else bind_result (event_matches t verdict event) (\<lambda>_. Inr (t, verdict)))))"

definition routed :: "tender \<Rightarrow> verdict_row option \<Rightarrow> bool \<Rightarrow> 'w notify_world \<Rightarrow> (notify_exn, selection) result" where
  "routed t verdict test_mode w =
     (let sel = (case route t verdict test_mode w of Inl _ \<Rightarrow> empty_selection | Inr s \<Rightarrow> s) in
      bind_result (test_mode_safety test_mode sel) (\<lambda>_.
      bind_result (raw_notice_recipients (verdict = None) sel) (\<lambda>_. Inr sel)))"

definition prepare :: "'w notify_env \<Rightarrow> int \<Rightarrow> int option \<Rightarrow> notification_event option \<Rightarrow> ('w, prepared_notification) notify_action" where
  "prepare env tender_id verdict_id event w =
     (case identified tender_id verdict_id event w of
        Inl x \<Rightarrow> (Inl x, w)
      | Inr (t, verdict) \<Rightarrow>
        (let (test_mode, expiry_days) = load_settings w;
             kind = kind_for t event;
             (content0, pairs) = prepare_payload env t verdict test_mode kind event w
         in case candidate_pairs pairs kind event of
              Inl x \<Rightarrow> (Inl x, w)
            | Inr candidates \<Rightarrow>
           (case message_overhead (nv_lib env) content0 candidates of
              Inl x \<Rightarrow> (Inl (OtherFailed x), w)
            | Inr overhead \<Rightarrow>
             (let pl = choose_plan env (providers_ordered (nw_providers w)) candidates overhead None in
              then_do (make_links env t (dp_link_docs pl) expiry_days) (\<lambda>links.
                let content = content0\<lparr>nc_test_mode := test_mode,
                      nc_attached_filenames := map (ma_filename \<circ> snd) (dp_attach_pairs pl), nc_linked_documents := links\<rparr>
                in from_result id (bind_result (routed t verdict test_mode w) (\<lambda>sel.
                     let key = notification_key env (tn_id t) (map_option vd_id verdict) sel in
                     bind_result (if sl_addresses sel = [] then Inr None
                         else (case compose_message env t content sel (dp_attach_pairs pl) links key of
                                 Inl x \<Rightarrow> Inl (OtherFailed x) | Inr m \<Rightarrow> Inr (Some m))) (\<lambda>message. Inr
                     \<lparr>np_tender = t, np_verdict = verdict, np_content = content, np_selection = sel, np_plan = pl,
                      np_links = links, np_message = message, np_dedupe_key = key,
                      np_attachment_metadata = attachment_metadata (dp_attach_pairs pl),
                      np_link_metadata = link_metadata env (dp_link_docs pl) links,
                      np_payload = JObj (message_payload message sel test_mode kind),
                      np_priority = (if kind = KindUpdate then 200 else 100), np_kind = kind\<rparr>)))) w))))"

end
