(* ===== verification/NotifySend.thy ===== *)
theory NotifySend
  imports NotifyPrepare
begin

text \<open>
  Reservation and delivery of a prepared notification in \<open>notifications/service.py\<close>: the provider chain
  with its durable gates, the checks at the wire boundary, the finalisation of the outbox row, the
  banner and the system alert.  An exception that crosses \<open>ProviderChain.deliver\<close> is its class name, as
  in the model of the chain.
\<close>

section \<open>The provider chain\<close>

definition provider_entry_of :: "'w notify_env \<Rightarrow> mail_provider \<Rightarrow> (string, provider_entry) result" where
  "provider_entry_of env p =
     (case from_persisted (mv_name p) (py_or (pr_breaker_state (mv_row p)) ''closed'')
             (map_option (\<lambda>t. of_int t / 1000000) (pr_breaker_until (mv_row p)))
             (case mv_failures p of None \<Rightarrow> 0 | Some n \<Rightarrow> n)
             (nv_breaker_threshold env) (nv_breaker_cooldown env) (nv_hook env \<noteq> None) of
        Inl _ \<Rightarrow> Inl ''ValueError''
      | Inr b \<Rightarrow> Inr \<lparr>pe_provider_id = pr_id (mv_row p), pe_name = mv_name p,
          pe_capabilities = (case capabilities_for p of Inr cap \<Rightarrow> cap | Inl _ \<Rightarrow> no_capabilities),
          pe_breaker = b, pe_active = pr_active (mv_row p), pe_priority = Some (pr_priority (mv_row p))\<rparr>)"

fun entries_of :: "'w notify_env \<Rightarrow> mail_provider list \<Rightarrow> (string, provider_entry list) result" where
  "entries_of env [] = Inr []"
| "entries_of env (p # ps) =
     (if \<not> provider_domain_ready env p then entries_of env ps
      else bind_result (provider_entry_of env p) (\<lambda>e. bind_result (entries_of env ps) (\<lambda>es. Inr (e # es))))"

definition preferred_first :: "int option \<Rightarrow> provider_entry list \<Rightarrow> provider_entry list" where
  "preferred_first preferred es = (case preferred of
     None \<Rightarrow> es
   | Some i \<Rightarrow> (case List.find (\<lambda>e. pe_provider_id e = i) es of None \<Rightarrow> es | Some e \<Rightarrow> e # remove1 e es))"

definition build_chain :: "'w notify_env \<Rightarrow> mail_provider list \<Rightarrow> int option \<Rightarrow> (string, provider_entry list) result" where
  "build_chain env rows preferred = bind_result (entries_of env rows) (\<lambda>es. Inr (preferred_first preferred es))"

definition usable_ids :: "'w notify_env \<Rightarrow> mail_provider list \<Rightarrow> int set" where
  \<comment> \<open>the providers whose adapter could be constructed\<close>
  "usable_ids env rows = set (map (\<lambda>p. pr_id (mv_row p)) (filter (nv_adapter env) rows))"

definition read_clock :: "('w \<Rightarrow> real \<times> 'w) \<Rightarrow> 'w notify_world \<Rightarrow> real \<times> 'w notify_world" where
  "read_clock f w = (let (t, x) = f (nw_ext w) in (t, w\<lparr>nw_ext := x\<rparr>))"

definition reserve_provider_usage :: "'w notify_env \<Rightarrow> int \<Rightarrow> capabilities \<Rightarrow> 'w notify_world \<Rightarrow> bool \<times> 'w notify_world" where
  "reserve_provider_usage env pid cap w =
     (if nv_usage_fault env pid w then (False, w)
      else let (t, w1) = read_clock (nv_clock env) w;
               (ok, table) = try_consume (nv_usage_conflict env pid) pid cap (service_instant t) (nw_usage w1)
           in (ok, w1\<lparr>nw_usage := table\<rparr>))"

definition put_provider_rows :: "provider_row list \<Rightarrow> mail_provider list \<Rightarrow> mail_provider list" where
  "put_provider_rows rows ps = map (\<lambda>(r, p). p\<lparr>mv_row := r\<rparr>) (List.zip rows ps)"

definition claim_probe :: "'w notify_env \<Rightarrow> provider_entry \<Rightarrow> 'w notify_world \<Rightarrow> bool \<times> 'w notify_world" where
  "claim_probe env e w =
     (if nv_probe_fault env (pe_provider_id e) w then (False, w)
      else let (t, w1) = read_clock (nv_clock env) w;
               (ok, rows) = claim_breaker_probe (pe_provider_id e) (service_instant t)
                 (service_instant (nv_breaker_cooldown env)) (map mv_row (nw_providers w1))
           in (ok, w1\<lparr>nw_providers := put_provider_rows rows (nw_providers w1)\<rparr>))"

definition by_others :: "('w notify_world \<Rightarrow> 'w notify_world) \<Rightarrow> 'w notify_world \<Rightarrow> 'w notify_world" where
  \<comment> \<open>what happens elsewhere meanwhile: anything, but the record of this service's requests is its own\<close>
  "by_others f w = (f w)\<lparr>nw_requests := nw_requests w\<rparr>"

definition request :: "'w notify_env \<Rightarrow> int set \<Rightarrow> provider_entry \<Rightarrow> email_message \<Rightarrow> 'w notify_world \<Rightarrow> send_outcome \<times> 'w notify_world" where
  \<comment> \<open>\<open>adapter.send\<close>; an unavailable adapter fails before it makes a request\<close>
  "request env usable e m w =
     (if pe_provider_id e \<notin> usable then (RaisedMailError (configuration_error ''provider adapter could not be constructed''), w)
      else let w1 = w\<lparr>nw_requests := nw_requests w @ [(fst (load_settings w), m)]\<rparr>
           in (fst (nv_send env e m w1), by_others (snd \<circ> nv_send env e m) w1))"

definition exn_name :: "notify_exn \<Rightarrow> string" where
  "exn_name x = (case x of NoteError _ \<Rightarrow> ''NotificationError'' | SafetyError _ \<Rightarrow> ''NotificationSafetyError''
     | PersistFailed _ \<Rightarrow> ''PersistenceError'' | IntegrityFailed \<Rightarrow> ''IntegrityError'' | OtherFailed n \<Rightarrow> n)"

definition chain_env_of :: "'w notify_env \<Rightarrow> int set \<Rightarrow> ('w, unit) notify_action option \<Rightarrow> 'w notify_world chain_env" where
  "chain_env_of env usable check = \<lparr>ce_send = request env usable, ce_breaker_clock = read_clock (nv_clock env),
     ce_usage_clock = read_clock (nv_clock env), ce_monotonic = read_clock (nv_monotonic env), ce_sleep = (\<lambda>d. by_others (nv_sleep env d)),
     ce_usage_reserver = Some (reserve_provider_usage env), ce_probe_claimer = Some (claim_probe env),
     ce_before_attempt = map_option (\<lambda>f w. case f w of (Inl x, w') \<Rightarrow> (Inl (exn_name x), w') | (Inr _, w') \<Rightarrow> (Inr (), w')) check\<rparr>"

section \<open>Alert notices\<close>

definition notify_hook :: "'w notify_env \<Rightarrow> mail_alert_notice \<Rightarrow> 'w notify_world \<Rightarrow> 'w notify_world" where
  "notify_hook env n w = (case nv_hook env of None \<Rightarrow> w | Some f \<Rightarrow> w\<lparr>nw_ext := f n (nw_ext w)\<rparr>)"

definition forwarded :: "string option \<Rightarrow> breaker_event \<Rightarrow> mail_alert_notice" where
  \<comment> \<open>\<open>_AlertForwarder.on_breaker_event\<close>\<close>
  "forwarded correlation_id e = \<lparr>mn_error_code = (if be_state e = BOpen then MAIL_BREAKER_OPEN else PROVIDER_FAILOVER),
     mn_provider_name = Some (be_provider_name e), mn_correlation_id = correlation_id, mn_message = be_message e\<rparr>"

definition forward_events :: "'w notify_env \<Rightarrow> string option \<Rightarrow> provider_entry list \<Rightarrow> 'w notify_world \<Rightarrow> 'w notify_world" where
  \<comment> \<open>the hook only records, so the notices of one delivery are told together after it\<close>
  "forward_events env correlation_id es w =
     fold (\<lambda>e. notify_hook env (forwarded correlation_id e)) (concat (map (\<lambda>e. bk_events (pe_breaker e)) es)) w"

definition emit_failover_alerts :: "'w notify_env \<Rightarrow> chain_result \<Rightarrow> string option \<Rightarrow> 'w notify_world \<Rightarrow> 'w notify_world" where
  "emit_failover_alerts env r correlation_id w =
     fold (\<lambda>(name, code, _). notify_hook env \<lparr>mn_error_code = PROVIDER_FAILOVER, mn_provider_name = Some name,
         mn_correlation_id = correlation_id, mn_message = ''provider failed with '' @ code @ ''; failover attempted''\<rparr>)
       (cr_failovers r) w"

section \<open>Running the chain\<close>

record chain_run =
  cx_entries :: "provider_entry list"
  cx_dirty :: "int list"

definition run_chain :: "'w notify_env \<Rightarrow> int set \<Rightarrow> ('w, unit) notify_action option \<Rightarrow> string option \<Rightarrow> email_message
    \<Rightarrow> provider_entry list \<Rightarrow> 'w notify_world \<Rightarrow> ((string, chain_result) result \<times> chain_run) \<times> 'w notify_world" where
  "run_chain env usable check correlation_id m es w =
     (let d = deliver (chain_env_of env usable check) (nv_policy env) m es (nw_limiter w) w
      in ((dl_result d, \<lparr>cx_entries = dl_entries d, cx_dirty = cs_dirty_ids (dl_state d)\<rparr>),
          forward_events env correlation_id (dl_entries d)
            ((cs_world (dl_state d))\<lparr>nw_limiter := cs_usage (dl_state d)\<rparr>)))"

definition failed_result :: "string \<Rightarrow> chain_result" where
  \<comment> \<open>\<open>ChainResult(delivered=False, error_code=code, notification_status="pending_retry")\<close>\<close>
  "failed_result code = \<lparr>cr_delivered = False, cr_provider_used = None, cr_provider_id = None, cr_provider_message_id = None,
     cr_attempts = [], cr_error_code = Some code, cr_possible_duplicate = False, cr_notification_status = ''pending_retry'',
     cr_failovers = []\<rparr>"

definition persisted_breaker :: "provider_entry \<Rightarrow> mail_provider \<Rightarrow> mail_provider" where
  "persisted_breaker e p =
     (let b = pe_breaker e in
      p\<lparr>mv_row := (mv_row p)\<lparr>pr_breaker_state := Some (breaker_state_value (bk_state b)),
                            pr_breaker_until := map_option service_instant (bk_open_until b)\<rparr>,
        mv_failures := Some (bk_consecutive_failures b)\<rparr>)"

definition persist_breakers :: "chain_run \<Rightarrow> 'w notify_world \<Rightarrow> 'w notify_world" where
  "persist_breakers run w = w\<lparr>nw_providers :=
     fold (\<lambda>e ps. if pe_provider_id e \<in> set (cx_dirty run)
         then map (\<lambda>p. if pr_id (mv_row p) = pe_provider_id e then persisted_breaker e p else p) ps else ps)
       (cx_entries run) (nw_providers w)\<rparr>"

fun persist_attempts :: "'w notify_env \<Rightarrow> int \<Rightarrow> string option \<Rightarrow> chain_attempt list \<Rightarrow> ('w, unit) notify_action" where
  "persist_attempts env log_id correlation_id [] = give ()"
| "persist_attempts env log_id correlation_id (a # as) = then_do
     (on_outbox (\<lambda>now ob. Inr (record_attempt log_id (ca_provider_id a) (ca_provider_name a) correlation_id a now ob)) env)
     (\<lambda>_. persist_attempts env log_id correlation_id as)"

definition result_message :: "chain_result \<Rightarrow> string" where
  "result_message r =
     (let codes = join_with '', '' (map (\<lambda>a. py_or (ca_error_code a) ''-'') (cr_attempts r))
      in ''all providers failed ('' @ (if codes \<noteq> [] then codes else py_or (cr_error_code r) ''unknown'') @ '')'')"

section \<open>The system alert\<close>

definition system_alert_message :: "selection \<Rightarrow> string option \<Rightarrow> string \<Rightarrow> string \<Rightarrow> string \<Rightarrow> email_message" where
  "system_alert_message sel correlation_id source_name error_code message =
     \<lparr>em_to = sl_to sel, em_cc = sl_cc sel, em_bcc = sl_bcc sel,
      em_subject = ''[ALERT][critical] email delivery: '' @ error_code,
      em_text_body = ''What broke: email provider chain'' @ newline @ ''Source: '' @ source_name @ newline @ ''Error: '' @ error_code
        @ newline @ ''Correlation ID: '' @ py_or correlation_id ''unavailable'' @ newline @ ''Detail: '' @ message,
      em_html_body = None, em_attachments = [], em_secure_links = [],
      em_dedupe_key = ''alert:'' @ error_code @ '':'' @ py_or correlation_id ''none'', em_correlation_id = correlation_id\<rparr>"

definition try_system_alert :: "'w notify_env \<Rightarrow> string option \<Rightarrow> string \<Rightarrow> string \<Rightarrow> string \<Rightarrow> 'w notify_world \<Rightarrow> bool \<times> 'w notify_world" where
  "try_system_alert env correlation_id source_name error_code message w =
     (case resolve_alert ''email_send_failure'' ''critical'' (nw_recipients w) of
        Inl _ \<Rightarrow> (False, w)
      | Inr sel \<Rightarrow>
         (case checked_message (nv_valid_email env) (system_alert_message sel correlation_id source_name error_code message) of
            Inl _ \<Rightarrow> (False, w)
          | Inr m \<Rightarrow>
            (let rows = providers_ordered (nw_providers w) in
             case build_chain env rows None of
               Inl _ \<Rightarrow> (False, w)
             | Inr [] \<Rightarrow> (False, w)
             | Inr (e # es) \<Rightarrow>
                (let ((r, run), w1) = run_chain env (usable_ids env rows) None correlation_id m (e # es) w
                 in case r of Inl _ \<Rightarrow> (False, w1) | Inr res \<Rightarrow> (cr_delivered res, persist_breakers run w1)))))"

section \<open>Finalisation\<close>

definition pending_outcome :: "int \<Rightarrow> string \<Rightarrow> bool \<Rightarrow> string \<Rightarrow> notification_outcome" where
  "pending_outcome log_id error_code possible_duplicate key = \<lparr>no_status = ''pending_retry'', no_log_id = Some log_id,
     no_provider_used = None, no_possible_duplicate = possible_duplicate, no_error_code = Some error_code, no_dedupe_key = key\<rparr>"

definition finalize_failure :: "'w notify_env \<Rightarrow> int \<Rightarrow> string \<Rightarrow> prepared_notification \<Rightarrow> string \<Rightarrow> string
    \<Rightarrow> ('w, notification_outcome) notify_action" where
  "finalize_failure env log_id token p error_code message = in_session (then_do
     (on_outbox (keep_pending log_id error_code message False None (Some token)) env) (\<lambda>row.
     then_do (show_banner env (Some (tn_correlation_id (np_tender p))) (Some (tn_source_id (np_tender p))) message) (\<lambda>_.
     give (pending_outcome (nl_id row) error_code False (nl_dedupe_key row)))))"

definition record_result :: "'w notify_env \<Rightarrow> int \<Rightarrow> string option \<Rightarrow> chain_result \<Rightarrow> chain_run option \<Rightarrow> ('w, unit) notify_action" where
  "record_result env log_id correlation_id r run = then_do (persist_attempts env log_id correlation_id (cr_attempts r))
     (\<lambda>_ w. (Inr (), case run of None \<Rightarrow> w | Some x \<Rightarrow> persist_breakers x w))"

definition finalize_sent :: "'w notify_env \<Rightarrow> int \<Rightarrow> string \<Rightarrow> prepared_notification \<Rightarrow> chain_result \<Rightarrow> ('w, notification_log) notify_action" where
  "finalize_sent env log_id token p r = on_outbox (mark_sent log_id (py_or (cr_provider_used r) [])
     (JList (np_attachment_metadata p)) (JList (np_link_metadata p)) (cr_possible_duplicate r) (Some token)) env"

definition finalize_kept :: "'w notify_env \<Rightarrow> int \<Rightarrow> string \<Rightarrow> prepared_notification \<Rightarrow> chain_result
    \<Rightarrow> ('w, notification_log \<times> bool) notify_action" where
  "finalize_kept env log_id token p r = then_do
     (on_outbox (keep_pending log_id (py_or (cr_error_code r) MAIL_ALL_PROVIDERS_FAILED) (result_message r)
        (cr_possible_duplicate r) None (Some token)) env) (\<lambda>row w.
     then_do (show_banner env (Some (tn_correlation_id (np_tender p))) (Some (tn_source_id (np_tender p))) (result_message r))
       (\<lambda>_. give (row, banner_active (nw_alerts w))) w)"

definition finalize_result :: "'w notify_env \<Rightarrow> prepared_notification \<Rightarrow> int \<Rightarrow> string \<Rightarrow> chain_result \<Rightarrow> chain_run option
    \<Rightarrow> ('w, notification_outcome) notify_action" where
  "finalize_result env p log_id token r run w0 =
     (let cid = Some (tn_correlation_id (np_tender p)); w = emit_failover_alerts env r cid w0 in
      if cr_delivered r
      then in_session (then_do (record_result env log_id cid r run) (\<lambda>_.
          then_do (finalize_sent env log_id token p r) (\<lambda>row. give
            \<lparr>no_status = ''sent'', no_log_id = Some (nl_id row), no_provider_used = cr_provider_used r,
             no_possible_duplicate = cr_possible_duplicate r, no_error_code = None, no_dedupe_key = nl_dedupe_key row\<rparr>))) w
      else then_do (in_session (then_do (record_result env log_id cid r run) (\<lambda>_. finalize_kept env log_id token p r)))
        (\<lambda>(row, already_open) w1.
          let code = py_or (cr_error_code r) MAIL_ALL_PROVIDERS_FAILED;
              out = pending_outcome (nl_id row) code (cr_possible_duplicate r) (nl_dedupe_key row)
          in (Inr out, if already_open then w1
                else snd (try_system_alert env cid (fst (nw_source w1 (tn_source_id (np_tender p)))) code (result_message r) w1))) w)"

section \<open>The wire boundary\<close>

definition renew_delivery_claim :: "'w notify_env \<Rightarrow> int \<Rightarrow> string \<Rightarrow> ('w, notification_log) notify_action" where
  "renew_delivery_claim env log_id token = in_session (on_outbox (renew_claim log_id token (nv_lease_us env)) env)"

definition before_provider_attempt :: "'w notify_env \<Rightarrow> prepared_notification \<Rightarrow> int \<Rightarrow> string \<Rightarrow> ('w, unit) notify_action" where
  "before_provider_attempt env p log_id token = then_do (renew_delivery_claim env log_id token) (\<lambda>_ w.
     from_result id (test_mode_safety (fst (load_settings w)) (np_selection p)) w)"

definition resend_message :: "'w notify_env \<Rightarrow> prepared_notification \<Rightarrow> tender \<Rightarrow> bool \<Rightarrow> selection \<Rightarrow> string
    \<Rightarrow> (string, email_message option) result" where
  "resend_message env p t test_mode sel key =
     (if sl_addresses sel = [] then Inr None
      else case np_message p of
        Some base \<Rightarrow>
          if nc_background_summary (np_content p) = []
          then Inr (Some \<lparr>em_to = sl_to sel, em_cc = sl_cc sel, em_bcc = sl_bcc sel,
            em_subject = apply_subject_prefix test_mode (em_subject base), em_text_body = em_text_body base,
            em_html_body = em_html_body base, em_attachments = map snd (dp_attach_pairs (np_plan p)),
            em_secure_links = map ld_url (np_links p), em_dedupe_key = key, em_correlation_id = Some (tn_correlation_id t)\<rparr>)
          else map_sum id Some (compose_message env t ((np_content p)\<lparr>nc_test_mode := test_mode\<rparr>) sel
            (dp_attach_pairs (np_plan p)) (np_links p) key)
      | None \<Rightarrow> map_sum id Some (compose_message env t ((np_content p)\<lparr>nc_test_mode := test_mode\<rparr>) sel
            (dp_attach_pairs (np_plan p)) (np_links p) key))"

definition reread :: "prepared_notification \<Rightarrow> 'w notify_world \<Rightarrow> (notify_exn, tender \<times> verdict_row option) result" where
  "reread p w = (case get_tender (tn_id (np_tender p)) w of
     None \<Rightarrow> Inl (PersistFailed ''notification tender disappeared before send'')
   | Some t \<Rightarrow> (case np_verdict p of
       None \<Rightarrow> Inr (t, None)
     | Some v0 \<Rightarrow> (case get_verdict (vd_id v0) w of
         None \<Rightarrow> Inl (PersistFailed ''notification verdict disappeared before send'')
       | Some v \<Rightarrow> Inr (t, Some v))))"

definition revalidated :: "'w notify_env \<Rightarrow> prepared_notification \<Rightarrow> notification_log \<Rightarrow> 'w notify_world
    \<Rightarrow> (notify_exn, (prepared_notification \<times> notification_log) option) result" where
  \<comment> \<open>what \<open>_revalidate_for_send\<close> computes from a row it owns: the notification as it is now, and its row\<close>
  "revalidated env p row w = bind_result (reread p w) (\<lambda>(t, verdict).
     let test_mode = fst (load_settings w) in
     case route t verdict test_mode w of
       Inl _ \<Rightarrow> Inr None
     | Inr sel \<Rightarrow>
       bind_result (test_mode_safety test_mode sel) (\<lambda>_.
       bind_result (raw_notice_recipients (verdict = None) sel) (\<lambda>_.
       let key = notification_key env (tn_id t) (map_option vd_id verdict) sel in
       bind_result (map_sum OtherFailed id (resend_message env p t test_mode sel key)) (\<lambda>message.
       let payload = JObj (message_payload message sel test_mode (np_kind p)) in
       Inr (Some (p\<lparr>np_tender := t, np_verdict := verdict, np_content := (np_content p)\<lparr>nc_test_mode := test_mode\<rparr>,
           np_selection := sel, np_message := message, np_dedupe_key := key, np_payload := payload\<rparr>,
         row\<lparr>nl_dedupe_key := key, nl_recipients_snapshot := snapshots_json sel, nl_message_payload := payload\<rparr>))))))"

definition revalidate_for_send :: "'w notify_env \<Rightarrow> prepared_notification \<Rightarrow> int \<Rightarrow> string
    \<Rightarrow> ('w, prepared_notification option) notify_action" where
  "revalidate_for_send env p log_id token = in_session (\<lambda>w.
     case get_row log_id (nw_outbox w) of
       None \<Rightarrow> (Inl (PersistFailed ''notification claim is no longer owned by this worker''), w)
     | Some row \<Rightarrow>
         if nl_claim_token row \<noteq> Some token
         then (Inl (PersistFailed ''notification claim is no longer owned by this worker''), w)
         else (case revalidated env p row w of
             Inl x \<Rightarrow> (Inl x, w)
           | Inr None \<Rightarrow> (Inr None, w)
           | Inr (Some (p', row')) \<Rightarrow>
               if (\<exists>r \<in> set (ob_rows (nw_outbox w)). nl_id r \<noteq> log_id \<and> nl_dedupe_key r = nl_dedupe_key row')
               then (Inl IntegrityFailed, w)
               else (Inr (Some p'), w\<lparr>nw_outbox := put_row row' (nw_outbox w)\<rparr>)))"

section \<open>Delivery\<close>

datatype delivery_end = EndedEarly notification_outcome | ChainEnded chain_result chain_run

definition named :: "(notify_exn, 'a) result \<times> 's \<Rightarrow> (string, 'a) result \<times> 's" where
  "named = (\<lambda>(r, w). (map_sum exn_name id r, w))"

definition deliver_prepared :: "'w notify_env \<Rightarrow> prepared_notification \<Rightarrow> int \<Rightarrow> string \<Rightarrow> 'w notify_world
    \<Rightarrow> (string, delivery_end) result \<times> 'w notify_world" where
  \<comment> \<open>the part of the \<open>try\<close> block after the revalidation\<close>
  "deliver_prepared env p log_id token w =
     (case renew_delivery_claim env log_id token w of
        (Inl x, w1) \<Rightarrow> (Inl (exn_name x), w1)
      | (Inr _, w1) \<Rightarrow>
        (let rows = providers_ordered (nw_providers w1) in
         case build_chain env rows (dp_provider_id (np_plan p)) of
           Inl x \<Rightarrow> (Inl x, w1)
         | Inr [] \<Rightarrow> (Inr (ChainEnded (failed_result MAIL_CONFIGURATION_ERROR) \<lparr>cx_entries = [], cx_dirty = []\<rparr>), w1)
         | Inr (e # es) \<Rightarrow>
            (case np_message p of
               None \<Rightarrow> (Inl ''AttributeError'', w1)
             | Some m \<Rightarrow>
                 (let ((r, run), w2) = run_chain env (usable_ids env rows) (Some (before_provider_attempt env p log_id token))
                        (Some (tn_correlation_id (np_tender p))) m (e # es) w1
                  in (map_sum id (\<lambda>res. ChainEnded res run) r, w2)))))"

definition try_delivery :: "'w notify_env \<Rightarrow> prepared_notification \<Rightarrow> int \<Rightarrow> string \<Rightarrow> 'w notify_world
    \<Rightarrow> (prepared_notification \<times> (string, delivery_end) result) \<times> 'w notify_world" where
  "try_delivery env p log_id token w =
     (case revalidate_for_send env p log_id token w of
        (Inl x, w1) \<Rightarrow> ((p, Inl (exn_name x)), w1)
      | (Inr None, w1) \<Rightarrow>
          (let (r, w2) = named (finalize_failure env log_id token p NOTIFICATION_ROUTING_FAILED
                 ''no safe active recipient is configured at send time'' w1)
           in ((p, map_sum id EndedEarly r), w2))
      | (Inr (Some p'), w1) \<Rightarrow> (let (r, w2) = deliver_prepared env p' log_id token w1 in ((p', r), w2)))"

definition deliver_and_finalize :: "'w notify_env \<Rightarrow> prepared_notification \<Rightarrow> int \<Rightarrow> string \<Rightarrow> ('w, notification_outcome) notify_action" where
  "deliver_and_finalize env p0 log_id token w =
     (case try_delivery env p0 log_id token w of
        ((p, Inr (EndedEarly out)), w1) \<Rightarrow> (Inr out, w1)
      | ((p, Inr (ChainEnded r run)), w1) \<Rightarrow> finalize_result env p log_id token r (Some run) w1
      | ((p, Inl x), w1) \<Rightarrow>
          if x = ''NotificationSafetyError''
          then finalize_failure env log_id token p NOTIFICATION_ROUTING_FAILED
                 ''Test Mode safety check failed immediately before provider delivery'' w1
          else if x = ''PersistenceError'' then (Inr (pending_outcome log_id EMAIL_SEND_FAILED False (np_dedupe_key p)), w1)
          else if x \<in> {''OperationalError'', ''IntegrityError''}
          then finalize_failure env log_id token p EMAIL_SEND_FAILED ''provider preparation failed'' w1
          else finalize_failure env log_id token p EMAIL_SEND_FAILED ''provider chain failed'' w1)"

section \<open>\<open>notify_tender\<close>\<close>

definition create_row :: "'w notify_env \<Rightarrow> prepared_notification \<Rightarrow> ('w, notification_log) notify_action" where
  "create_row env p = on_outbox (\<lambda>now. create_pending now (np_dedupe_key p) (Some (tn_id (np_tender p))) (map_option vd_id (np_verdict p))
     (Some (tn_correlation_id (np_tender p))) (snapshots_json (np_selection p)) (JList (np_attachment_metadata p))
     (JList (np_link_metadata p)) (np_payload p) (kind_value (np_kind p)) (np_priority p)) env"

definition reserve :: "'w notify_env \<Rightarrow> prepared_notification \<Rightarrow> ('w, notification_log \<times> bool) notify_action" where
  \<comment> \<open>\<open>nv_race\<close> is what other workers commit between the lookup and the insert\<close>
  "reserve env p w =
     (case get_by_dedupe_key (np_dedupe_key p) (nw_outbox w) of
        Some row \<Rightarrow> (Inr (row, False), w)
      | None \<Rightarrow>
         (case create_row env p (by_others (nv_race env) w) of
            (Inr row, w1) \<Rightarrow> (Inr (row, True), w1)
          | (Inl IntegrityFailed, w1) \<Rightarrow>
             (case get_by_dedupe_key (np_dedupe_key p) (nw_outbox w1) of
                None \<Rightarrow> (Inl IntegrityFailed, w1)
              | Some winner \<Rightarrow> (Inr (winner, False), w1))
          | (Inl x, w1) \<Rightarrow> (Inl x, w1)))"

definition send_reserved :: "'w notify_env \<Rightarrow> prepared_notification \<Rightarrow> int \<Rightarrow> ('w, notification_outcome) notify_action" where
  "send_reserved env p log_id = then_do (ext_call (nv_uuid env)) (\<lambda>token.
     then_do (in_session (on_outbox (begin_send log_id token (nv_lease_us env)) env)) (\<lambda>_.
       if np_message p = None
       then finalize_failure env log_id token p NOTIFICATION_ROUTING_FAILED ''no safe active recipient is configured''
       else deliver_and_finalize env p log_id token))"

definition already_notified :: "notification_log \<Rightarrow> notification_outcome" where
  "already_notified row = \<lparr>no_status = ''already_notified'', no_log_id = Some (nl_id row), no_provider_used = nl_provider_used row,
     no_possible_duplicate = nl_possible_duplicate row, no_error_code = nl_last_error_code row, no_dedupe_key = nl_dedupe_key row\<rparr>"

definition dry_run_outcome :: "string \<Rightarrow> notification_outcome" where
  "dry_run_outcome key = \<lparr>no_status = ''dry_run'', no_log_id = None, no_provider_used = None, no_possible_duplicate = False,
     no_error_code = None, no_dedupe_key = key\<rparr>"

definition notify_tender :: "'w notify_env \<Rightarrow> int \<Rightarrow> int option \<Rightarrow> notification_event option \<Rightarrow> bool
    \<Rightarrow> ('w, notification_outcome) notify_action" where
  "notify_tender env tender_id verdict_id event dry_run = then_do (prepare env tender_id verdict_id event) (\<lambda>p.
     if dry_run then give (dry_run_outcome (np_dedupe_key p))
     else then_do (reserve env p) (\<lambda>(row, created).
       if \<not> created then give (already_notified row) else send_reserved env p (nl_id row)))"

end
