(* ===== verification/NotifyFlush.thy ===== *)
theory NotifyFlush
  imports NotifySend
begin

text \<open>
  The other entry points of \<open>notifications/service.py\<close>: the flush of the durable outbox, which rebuilds a
  message from the columns of its row, and the operator's test e-mail.
\<close>

section \<open>What a row holds\<close>

definition snapshot_of_json :: "json \<Rightarrow> snapshot option" where
  \<comment> \<open>the keys read from an item of \<open>recipients_snapshot\<close>; an item that is no dictionary raises\<close>
  "snapshot_of_json v = (case v of
     JObj d \<Rightarrow> (let get = (\<lambda>k dflt. case map_of d k of None \<Rightarrow> dflt | Some x \<Rightarrow> py_str (\<lambda>_. []) x) in
       Some \<lparr>sn_email = get ''email'' [], sn_name = get ''name'' [], sn_role = get ''role'' [],
             sn_delivery = get ''delivery'' ''to'', sn_list_type = get ''list_type'' []\<rparr>)
   | _ \<Rightarrow> None)"

definition json_items :: "json \<Rightarrow> json list" where
  \<comment> \<open>\<open>list(column or [])\<close>\<close>
  "json_items v = (case v of JList vs \<Rightarrow> vs | _ \<Rightarrow> [])"

definition selection_from_snapshot :: "json \<Rightarrow> (string, selection) result" where
  "selection_from_snapshot v =
     (let items = map snapshot_of_json (json_items v) in
      if None \<in> set items then Inl ''AttributeError''
      else let ss = map the items; pick = (\<lambda>d. map sn_email (filter (\<lambda>s. sn_delivery s = d \<and> sn_email s \<noteq> []) ss))
           in Inr \<lparr>sl_to = pick ''to'', sl_cc = pick ''cc'', sl_bcc = pick ''bcc'', sl_snapshot = ss\<rparr>)"

definition links_from_json :: "'w notify_env \<Rightarrow> json \<Rightarrow> linked_document list" where
  "links_from_json env v = List.map_filter (\<lambda>item. case item of
     JObj d \<Rightarrow> (case (map_of d ''expires_at'', map_of d ''url'', map_of d ''filename'') of
         (Some e, Some u, Some f) \<Rightarrow>
           (case (nv_fromiso env (py_str (tl_repr (nv_lib env)) e), case obj_get d ''expiry_days'' of JInt n \<Rightarrow> Some n
                   | JNull \<Rightarrow> (if map_of d ''expiry_days'' = None then Some 14 else None) | _ \<Rightarrow> None) of
              (Some t, Some days) \<Rightarrow> Some \<lparr>ld_filename = py_str (tl_repr (nv_lib env)) f, ld_url = py_str (tl_repr (nv_lib env)) u,
                 ld_expires_at = instant_of t, ld_expiry_days = days\<rparr>
            | _ \<Rightarrow> None)
       | _ \<Rightarrow> None)
   | _ \<Rightarrow> None) (json_items v)"

definition stored_attachment :: "'w notify_world \<Rightarrow> json \<Rightarrow> document_pair option" where
  \<comment> \<open>one item of \<open>_attachments_from_json\<close>; the id column holds integers\<close>
  "stored_attachment w item = (case item of
     JObj d \<Rightarrow> (case obj_get d ''document_id'' of
         JInt i \<Rightarrow> (case get_document i (nw_documents w) of
             None \<Rightarrow> None
           | Some doc \<Rightarrow>
               if \<not> py_truthy (dc_storage_path doc) then None
               else if json_truthy (obj_get d ''checksum'') \<and> py_truthy (dc_checksum doc)
                 \<and> obj_get d ''checksum'' \<noteq> JStr (the (dc_checksum doc)) then None
               else (case object_get (the (dc_storage_path doc)) (nw_objects w) of
                   Inl _ \<Rightarrow> None
                 | Inr data \<Rightarrow> Some (doc, \<lparr>ma_filename = safe_filename (case obj_get d ''filename'' of JStr s \<Rightarrow> if s = [] then dc_filename doc else s
                        | _ \<Rightarrow> dc_filename doc), ma_content = data, ma_content_type = dc_mime_type doc\<rparr>)))
       | _ \<Rightarrow> None)
   | _ \<Rightarrow> None)"

definition attachments_from_json :: "'w notify_world \<Rightarrow> json \<Rightarrow> document_pair list" where
  "attachments_from_json w v = List.map_filter (stored_attachment w) (json_items v)"

section \<open>Expired links\<close>

definition refreshed_link :: "'w notify_env \<Rightarrow> int \<Rightarrow> int \<Rightarrow> instant \<Rightarrow> json \<Rightarrow> (string, json \<times> bool) result" where
  "refreshed_link env tender_id expiry_days now item = (case item of
     JObj d \<Rightarrow> (case (map_of d ''expires_at'', map_of d ''document_id'', map_of d ''filename'') of
         (Some e, Some (JInt i), Some f) \<Rightarrow>
           (case nv_fromiso env (py_str (tl_repr (nv_lib env)) e) of
              None \<Rightarrow> Inr (item, False)
            | Some t \<Rightarrow>
                if link_expired (Some (epoch_of (instant_of t))) now
                then bind_result (sign_link (nv_signer env) tender_id i (py_str (tl_repr (nv_lib env)) f) (Some expiry_days) now)
                  (\<lambda>l. Inr (link_json env i (linked_of l), True))
                else Inr (item, False))
       | _ \<Rightarrow> Inr (item, False))
   | _ \<Rightarrow> Inr (item, False))"

fun refreshed_links :: "'w notify_env \<Rightarrow> int \<Rightarrow> int \<Rightarrow> instant \<Rightarrow> json list \<Rightarrow> (string, json list \<times> bool) result" where
  "refreshed_links env tender_id expiry_days now [] = Inr ([], False)"
| "refreshed_links env tender_id expiry_days now (v # vs) =
     bind_result (refreshed_link env tender_id expiry_days now v) (\<lambda>(v', c).
     bind_result (refreshed_links env tender_id expiry_days now vs) (\<lambda>(vs', cs). Inr (v' # vs', c \<or> cs)))"

definition payload_items :: "json \<Rightarrow> (string \<times> json) list" where
  "payload_items v = (case v of JObj d \<Rightarrow> d | _ \<Rightarrow> [])"

definition link_url :: "json \<Rightarrow> json" where
  "link_url v = (case v of JObj d \<Rightarrow> JStr (case map_of d ''url'' of Some (JStr u) \<Rightarrow> u | _ \<Rightarrow> []) | _ \<Rightarrow> JStr [])"

definition refresh_expired_links :: "'w notify_env \<Rightarrow> tender \<Rightarrow> int \<Rightarrow> notification_log \<Rightarrow> ('w, notification_log) notify_action" where
  "refresh_expired_links env t expiry_days row =
     (if json_items (nl_links row) = [] then give row
      else then_do (ext_call (nv_clock env)) (\<lambda>epoch.
        then_do (from_result OtherFailed (refreshed_links env (tn_id t) expiry_days (service_instant epoch) (json_items (nl_links row))))
          (\<lambda>(links, changed). give (if changed
             then row\<lparr>nl_links := JList links,
               nl_message_payload := JObj (obj_set (payload_items (nl_message_payload row)) ''secure_links'' (JList (map link_url links)))\<rparr>
             else row))))"

section \<open>The message of a row\<close>

definition payload_str :: "(string \<times> json) list \<Rightarrow> string \<Rightarrow> string" where
  "payload_str d k = (case obj_get d k of JStr s \<Rightarrow> s | _ \<Rightarrow> [])"

definition stored_message :: "'w notify_env \<Rightarrow> notification_log \<Rightarrow> selection \<Rightarrow> bool \<Rightarrow> document_pair list \<Rightarrow> email_message" where
  "stored_message env row sel test_mode pairs =
     (let d = payload_items (nl_message_payload row) in
      \<lparr>em_to = sl_to sel, em_cc = sl_cc sel, em_bcc = sl_bcc sel,
       em_subject = apply_subject_prefix test_mode (payload_str d ''subject''), em_text_body = payload_str d ''text_body'',
       em_html_body = (if payload_str d ''html_body'' = [] then None else Some (payload_str d ''html_body'')),
       em_attachments = map snd pairs,
       em_secure_links = map (py_str (tl_repr (nv_lib env))) (json_items (obj_get d ''secure_links'')),
       em_dedupe_key = nl_dedupe_key row, em_correlation_id = nl_correlation_id row\<rparr>)"

definition rebuilt_message :: "'w notify_env \<Rightarrow> notification_log \<Rightarrow> tender \<Rightarrow> verdict_row option \<Rightarrow> selection \<Rightarrow> bool
    \<Rightarrow> document_pair list \<Rightarrow> 'w notify_world \<Rightarrow> (string, email_message) result" where
  "rebuilt_message env row t verdict sel test_mode pairs w = (case kind_of (nl_notification_kind row) of
     None \<Rightarrow> Inl ''ValueError''
   | Some kind \<Rightarrow>
      (let content = (fst (prepare_payload env t verdict test_mode kind None w))\<lparr>nc_test_mode := test_mode,
             nc_attached_filenames := map (\<lambda>v. payload_str (payload_items v) ''filename'') (json_items (nl_attachments row)),
             nc_linked_documents := links_from_json env (nl_links row)\<rparr>
       in compose_message env t content sel pairs (links_from_json env (nl_links row)) (nl_dedupe_key row)))"

definition message_from_outbox :: "'w notify_env \<Rightarrow> notification_log \<Rightarrow> tender \<Rightarrow> verdict_row option \<Rightarrow> selection \<Rightarrow> bool
    \<Rightarrow> 'w notify_world \<Rightarrow> (string, email_message option) result" where
  "message_from_outbox env row t verdict sel test_mode w =
     (let d = payload_items (nl_message_payload row); pairs = attachments_from_json w (nl_attachments row) in
      if sl_addresses sel = [] then Inr None
      else bind_result
        (if payload_str d ''subject'' \<noteq> [] \<and> payload_str d ''text_body'' \<noteq> [] then Inr (stored_message env row sel test_mode pairs)
         else rebuilt_message env row t verdict sel test_mode pairs w)
        (\<lambda>m. Inr (case validate_message (nv_valid_email env) m of Inl _ \<Rightarrow> None | Inr _ \<Rightarrow> Some m)))"

section \<open>\<open>_flush_claimed\<close>\<close>

datatype flush_start = NotFlushed | FlushReady prepared_notification "mail_provider list"

definition give_up :: "'w notify_env \<Rightarrow> int \<Rightarrow> string \<Rightarrow> string \<Rightarrow> string \<Rightarrow> ('w, flush_start) notify_action" where
  \<comment> \<open>\<open>keep_pending\<close> and \<open>return False\<close>\<close>
  "give_up env log_id token error_code message = then_do
     (on_outbox (keep_pending log_id error_code message False None (Some token)) env) (\<lambda>_. give NotFlushed)"

definition store_row :: "notification_log \<Rightarrow> 'w notify_world \<Rightarrow> 'w notify_world" where
  "store_row row w = w\<lparr>nw_outbox := put_row row (nw_outbox w)\<rparr>"

definition row_tender :: "notification_log \<Rightarrow> 'w notify_world \<Rightarrow> (string \<times> string, tender \<times> verdict_row option) result" where
  \<comment> \<open>the tender and the verdict of a row, or the error it is kept with\<close>
  "row_tender row w =
     (let raw_notice = (nl_notification_kind row = kind_value KindRawNotice);
          missing = Inl (PERSISTENCE_NOT_FOUND, ''tender or verdict no longer exists'')
      in case nl_tender_id row of
           None \<Rightarrow> Inl (NOTIFICATION_ROUTING_FAILED, ''outbox row has no tender/verdict identity'')
         | Some tid \<Rightarrow>
             if nl_verdict_id row = None \<and> \<not> raw_notice
             then Inl (NOTIFICATION_ROUTING_FAILED, ''outbox row has no tender/verdict identity'')
             else case get_tender tid w of
               None \<Rightarrow> missing
             | Some t \<Rightarrow> if raw_notice then Inr (t, None)
                 else (case get_verdict (the (nl_verdict_id row)) w of None \<Rightarrow> missing | Some v \<Rightarrow> Inr (t, Some v)))"

definition flush_message :: "'w notify_env \<Rightarrow> tender \<Rightarrow> verdict_row option \<Rightarrow> bool \<Rightarrow> selection \<Rightarrow> notification_log
    \<Rightarrow> ('w, flush_start) notify_action" where
  \<comment> \<open>the rest of the first transaction, from a selection that Test Mode allows\<close>
  "flush_message env t verdict test_mode sel0 row0 w =
     (let (sel, row) = (if sl_addresses sel0 \<noteq> [] then (sel0, row0)
            else case route t verdict test_mode w of
              Inl _ \<Rightarrow> (empty_selection, row0)
            | Inr s \<Rightarrow> (s, row0\<lparr>nl_recipients_snapshot := snapshots_json s\<rparr>))
      in case message_from_outbox env row t verdict sel test_mode w of
           Inl x \<Rightarrow> (Inl (OtherFailed x), w)
         | Inr message \<Rightarrow>
            (case kind_of (nl_notification_kind row) of
               None \<Rightarrow> (Inl (OtherFailed ''ValueError''), w)
             | Some kind \<Rightarrow> (Inr (FlushReady
                \<lparr>np_tender = t, np_verdict = verdict, np_content = default_content, np_selection = sel,
                 np_plan = \<lparr>dp_provider_id = None, dp_attach_pairs = attachments_from_json w (nl_attachments row), dp_link_docs = []\<rparr>,
                 np_links = links_from_json env (nl_links row), np_message = message, np_dedupe_key = nl_dedupe_key row,
                 np_attachment_metadata = json_items (nl_attachments row), np_link_metadata = json_items (nl_links row),
                 np_payload = nl_message_payload row, np_priority = nl_priority row, np_kind = kind\<rparr>
                (providers_ordered (nw_providers w))), store_row row w)))"

definition flush_owned :: "'w notify_env \<Rightarrow> int \<Rightarrow> string \<Rightarrow> notification_log \<Rightarrow> ('w, flush_start) notify_action" where
  "flush_owned env log_id token row w =
     (case row_tender row w of
        Inl (code, msg) \<Rightarrow> give_up env log_id token code msg w
      | Inr (t, verdict) \<Rightarrow>
         (let (test_mode, expiry_days) = load_settings w in
          then_do (refresh_expired_links env t expiry_days row) (\<lambda>row1 w1.
            case selection_from_snapshot (nl_recipients_snapshot row1) of
              Inl x \<Rightarrow> (Inl (OtherFailed x), w1)
            | Inr sel \<Rightarrow>
                if test_mode \<and> ''tender'' \<in> sl_list_types sel
                then (case route t verdict True w1 of
                    Inl _ \<Rightarrow> give_up env log_id token NOTIFICATION_ROUTING_FAILED
                        ''Test Mode is ON but no active development recipient exists'' (store_row row1 w1)
                  | Inr s \<Rightarrow> flush_message env t verdict test_mode s (row1\<lparr>nl_recipients_snapshot := snapshots_json s\<rparr>) w1)
                else flush_message env t verdict test_mode sel row1 w1) w))"

definition flush_begin :: "'w notify_env \<Rightarrow> int \<Rightarrow> string \<Rightarrow> ('w, flush_start) notify_action" where
  "flush_begin env log_id token = in_session (\<lambda>w. case get_row log_id (nw_outbox w) of
     None \<Rightarrow> (Inr NotFlushed, w)
   | Some row \<Rightarrow> if nl_claim_token row \<noteq> Some token then (Inr NotFlushed, w) else flush_owned env log_id token row w)"

definition finalize_outbox_result :: "'w notify_env \<Rightarrow> prepared_notification \<Rightarrow> int \<Rightarrow> string \<Rightarrow> chain_result \<Rightarrow> chain_run option
    \<Rightarrow> ('w, bool) notify_action" where
  "finalize_outbox_result env p log_id token r run w =
     (let cid = Some (tn_correlation_id (np_tender p)) in
      in_session (then_do (record_result env log_id cid r run) (\<lambda>_.
        if cr_delivered r then then_do (finalize_sent env log_id token p r) (\<lambda>_. give True)
        else then_do (finalize_kept env log_id token p r) (\<lambda>_. give False))) (emit_failover_alerts env r cid w))"

text \<open>The second \<open>try\<close> block.  It sends the local variable \<open>message\<close>: a revalidation that finds no route replaces
  \<open>prepared\<close> and a \<open>result\<close> that this block overwrites, and leaves \<open>message\<close> as it was.\<close>

definition flush_deliver :: "'w notify_env \<Rightarrow> prepared_notification \<Rightarrow> email_message option \<Rightarrow> int \<Rightarrow> string \<Rightarrow> mail_provider list
    \<Rightarrow> 'w notify_world \<Rightarrow> (chain_result \<times> chain_run option) \<times> 'w notify_world" where
  "flush_deliver env p message log_id token rows w =
     (case build_chain env rows None of
        Inl _ \<Rightarrow> ((failed_result EMAIL_SEND_FAILED, None), w)
      | Inr es \<Rightarrow>
         (case message of
            None \<Rightarrow> ((failed_result MAIL_CONFIGURATION_ERROR, Some \<lparr>cx_entries = es, cx_dirty = []\<rparr>), w)
          | Some m \<Rightarrow>
              if es = [] then ((failed_result MAIL_CONFIGURATION_ERROR, Some \<lparr>cx_entries = [], cx_dirty = []\<rparr>), w)
              else let ((r, run), w1) = run_chain env (usable_ids env rows) (Some (before_provider_attempt env p log_id token))
                         (Some (tn_correlation_id (np_tender p))) m es w
                   in ((case r of Inl _ \<Rightarrow> failed_result EMAIL_SEND_FAILED | Inr res \<Rightarrow> res, Some run), w1)))"

definition flush_claimed :: "'w notify_env \<Rightarrow> int \<Rightarrow> string \<Rightarrow> ('w, bool) notify_action" where
  "flush_claimed env log_id token = then_do (flush_begin env log_id token) (\<lambda>start w. case start of
     NotFlushed \<Rightarrow> (Inr False, w)
   | FlushReady p rows \<Rightarrow>
      (case np_message p of
         None \<Rightarrow> finalize_outbox_result env p log_id token (failed_result NOTIFICATION_ROUTING_FAILED) None w
       | Some m \<Rightarrow>
          (case revalidate_for_send env p log_id token w of
             (Inl (PersistFailed _), w1) \<Rightarrow> (Inr False, w1)
           | (Inl x, w1) \<Rightarrow> (Inl x, w1)
           | (Inr v, w1) \<Rightarrow>
              (let (p', message) = (case v of
                      None \<Rightarrow> (p\<lparr>np_message := None, np_selection := empty_selection\<rparr>, Some m)
                    | Some q \<Rightarrow> (q, np_message q));
                   ((r, run), w2) = flush_deliver env p' message log_id token rows w1
               in finalize_outbox_result env p' log_id token r run w2))))"

section \<open>\<open>flush_pending_retry\<close>\<close>

record flush_summary =
  fs_attempted :: int
  fs_flushed :: int
  fs_still_pending :: int
  fs_banner_cleared :: bool

fun flush_all :: "'w notify_env \<Rightarrow> (int \<times> string) list \<Rightarrow> 'w notify_world \<Rightarrow> int \<times> 'w notify_world" where
  "flush_all env [] w = (0, w)"
| "flush_all env ((log_id, token) # rest) w =
     (case flush_claimed env log_id token w of
        (r, w1) \<Rightarrow> (let (n, w2) = flush_all env rest w1 in ((if r = Inr True then n + 1 else n), w2)))"

definition claim_for_flush :: "'w notify_env \<Rightarrow> int \<Rightarrow> 'w notify_world \<Rightarrow> (int \<times> string) list \<times> 'w notify_world" where
  "claim_for_flush env limit w =
     (let (fresh, x) = nv_tokens env (nw_ext w); (now, y) = nv_now env x;
          (rows, ob) = claim_pending (nv_locked env) fresh (nat (max 0 limit)) (nv_lease_us env) now (nw_outbox w)
      in (map (\<lambda>r. (nl_id r, py_or (nl_claim_token r) [])) (filter (\<lambda>r. py_truthy (nl_claim_token r)) rows),
          w\<lparr>nw_outbox := ob, nw_ext := y\<rparr>))"

definition flush_pending_retry :: "'w notify_env \<Rightarrow> int \<Rightarrow> 'w notify_world \<Rightarrow> flush_summary \<times> 'w notify_world" where
  "flush_pending_retry env limit w =
     (let (claimed, w1) = claim_for_flush env limit w;
          (flushed, w2) = flush_all env claimed w1;
          still_pending = count_recoverable (nw_outbox w2);
          cleared = (flushed > 0 \<and> still_pending = 0 \<and> banner_active (nw_alerts w2));
          (now, x) = nv_now env (nw_ext w2);
          w3 = (if cleared then w2\<lparr>nw_alerts := snd (clear_banner now (nw_alerts w2)), nw_ext := x\<rparr> else w2)
      in (\<lparr>fs_attempted = int (length claimed), fs_flushed = flushed, fs_still_pending = still_pending,
           fs_banner_cleared = cleared\<rparr>, w3))"

section \<open>\<open>send_test_email\<close>\<close>

definition test_route :: "string \<Rightarrow> 'w notify_world \<Rightarrow> (notify_exn, recipient) result" where
  \<comment> \<open>the stored settings and the active development recipient of the address\<close>
  "test_route email w =
     (let r = List.find (\<lambda>r. rc_email r = email \<and> rc_list_type r = ''dev_alert'' \<and> rc_active r) (nw_recipients w)
      in if \<not> (case nw_setting w of None \<Rightarrow> False | Some s \<Rightarrow> sg_test_mode s) then Inl (SafetyError NOTIFICATION_ROUTING_FAILED)
         else case r of None \<Rightarrow> Inl (SafetyError NOTIFICATION_ROUTING_FAILED) | Some x \<Rightarrow> Inr x)"

definition test_row :: "'w notify_env \<Rightarrow> recipient \<Rightarrow> string \<Rightarrow> string \<Rightarrow> string \<Rightarrow> string \<Rightarrow> ('w, notification_log) notify_action" where
  "test_row env r key correlation_id subject' text_body = then_do
     (on_outbox (\<lambda>now. create_pending now key None None (Some correlation_id)
        (JList [JObj [(''email'', JStr (rc_email r)), (''delivery'', JStr ''to''), (''list_type'', JStr ''dev_alert'')]])
        (JList []) (JList []) (JObj [(''subject'', JStr subject'), (''text_body'', JStr text_body), (''test_mode'', JBool True)])
        ''test'' 100) env)
     (\<lambda>row w. (Inr (row\<lparr>nl_status := ''sending''\<rparr>), store_row (row\<lparr>nl_status := ''sending''\<rparr>) w))"

definition tested_row :: "chain_result \<Rightarrow> instant \<Rightarrow> notification_log \<Rightarrow> notification_log" where
  "tested_row r now row = row\<lparr>nl_status := (if cr_delivered r then ''sent'' else ''failed''), nl_provider_used := cr_provider_used r,
     nl_sent_at := (if cr_delivered r then Some now else None), nl_possible_duplicate := cr_possible_duplicate r,
     nl_last_error_code := cr_error_code r, nl_error := (if cr_delivered r then None else cr_error_code r),
     nl_claim_token := None, nl_claim_until := None\<rparr>"

definition finish_test :: "'w notify_env \<Rightarrow> int \<Rightarrow> string \<Rightarrow> string \<Rightarrow> chain_result \<Rightarrow> chain_run option \<Rightarrow> ('w, notification_outcome) notify_action" where
  "finish_test env log_id key correlation_id r run = then_do
     (in_session (then_do (record_result env log_id (Some correlation_id) r run) (\<lambda>_.
        then_do (ext_call (nv_now env)) (\<lambda>now w. (Inr (), case get_row log_id (nw_outbox w) of
            None \<Rightarrow> w | Some row \<Rightarrow> store_row (tested_row r now row) w)))))
     (\<lambda>_. give \<lparr>no_status = (if cr_delivered r then ''sent'' else ''failed''), no_log_id = Some log_id,
        no_provider_used = cr_provider_used r, no_possible_duplicate = cr_possible_duplicate r,
        no_error_code = cr_error_code r, no_dedupe_key = key\<rparr>)"

definition recheck_test_route :: "string \<Rightarrow> ('w, unit) notify_action" where
  "recheck_test_route email w = from_result id (map_sum id (\<lambda>_. ()) (test_route email w)) w"

definition test_message :: "string \<Rightarrow> string \<Rightarrow> string \<Rightarrow> string \<Rightarrow> string \<Rightarrow> email_message" where
  "test_message email subject' text_body key correlation_id =
     \<lparr>em_to = [email], em_cc = [], em_bcc = [], em_subject = apply_subject_prefix True subject', em_text_body = text_body,
      em_html_body = None, em_attachments = [], em_secure_links = [], em_dedupe_key = key, em_correlation_id = Some correlation_id\<rparr>"

definition deliver_test :: "'w notify_env \<Rightarrow> string \<Rightarrow> email_message \<Rightarrow> int \<Rightarrow> string \<Rightarrow> string \<Rightarrow> int option
    \<Rightarrow> ('w, notification_outcome) notify_action" where
  \<comment> \<open>from the validation of the message on\<close>
  "deliver_test env email m log_id key correlation_id preferred w =
     (let rows = providers_ordered (nw_providers w) in
      case bind_result (checked_message (nv_valid_email env) m) (\<lambda>_. build_chain env rows preferred) of
        Inl x \<Rightarrow> (Inl (OtherFailed x), w)
      | Inr [] \<Rightarrow> finish_test env log_id key correlation_id (failed_result MAIL_CONFIGURATION_ERROR)
          (Some \<lparr>cx_entries = [], cx_dirty = []\<rparr>) w
      | Inr (e # es) \<Rightarrow>
         (let ((r, run), w1) = run_chain env (usable_ids env rows) (Some (recheck_test_route email)) (Some correlation_id) m (e # es) w
          in case r of
               Inl x \<Rightarrow> (Inl (if x = ''NotificationSafetyError'' then SafetyError NOTIFICATION_ROUTING_FAILED else OtherFailed x), w1)
             | Inr res \<Rightarrow> finish_test env log_id key correlation_id res (Some run) w1))"

definition record_test :: "'w notify_env \<Rightarrow> string \<Rightarrow> string \<Rightarrow> string \<Rightarrow> string \<Rightarrow> string \<Rightarrow> ('w, notification_log) notify_action" where
  "record_test env email key correlation_id subject' text_body w = (case test_route email w of
     Inl x \<Rightarrow> (Inl x, w)
   | Inr r \<Rightarrow> test_row env r key correlation_id subject' text_body w)"

definition send_test_email :: "'w notify_env \<Rightarrow> string \<Rightarrow> string \<Rightarrow> string \<Rightarrow> string option \<Rightarrow> int option
    \<Rightarrow> ('w, notification_outcome) notify_action" where
  "send_test_email env email subject' text_body correlation_id preferred =
     then_do (ext_call (nv_uuid env)) (\<lambda>fresh.
     then_do (ext_call (nv_uuid env)) (\<lambda>u.
     then_do (in_session (record_test env email (''admin-test:'' @ u) (py_or correlation_id fresh) subject' text_body)) (\<lambda>row.
       deliver_test env email (test_message email subject' text_body (''admin-test:'' @ u) (py_or correlation_id fresh)) (nl_id row)
         (''admin-test:'' @ u) (py_or correlation_id fresh) preferred)))"

end
