(* ===== verification/DeliveryFrame.thy ===== *)
theory DeliveryFrame
  imports ChainProps
begin

text \<open>
  The contract of a delivery with its surroundings: when the clocks, the pauses, the gates and the check
  before each attempt keep a condition on the world, and a request keeps it where that check has just
  passed, a whole delivery keeps it, however it ends.
\<close>

locale guarded_delivery =
  fixes env :: "'w chain_env"
    and m :: email_message
    and inv :: "'w \<Rightarrow> bool"
    and passed :: "'w \<Rightarrow> bool"
  assumes before_keeps: "ce_before_attempt env = Some f \<Longrightarrow> inv w \<Longrightarrow> inv (snd (f w))"
    and before_passes: "ce_before_attempt env = Some f \<Longrightarrow> inv w \<Longrightarrow> fst (f w) = Inr () \<Longrightarrow> passed (snd (f w))"
    and no_check: "ce_before_attempt env = None \<Longrightarrow> inv w \<Longrightarrow> passed w"
    and monotonic_keeps: "inv w \<Longrightarrow> inv (snd (ce_monotonic env w))"
    and monotonic_passed: "passed w \<Longrightarrow> passed (snd (ce_monotonic env w))"
    and send_keeps: "inv w \<Longrightarrow> passed w \<Longrightarrow> inv (snd (ce_send env e m w))"
    and clock_keeps: "inv w \<Longrightarrow> inv (snd (ce_breaker_clock env w))" "inv w \<Longrightarrow> inv (snd (ce_usage_clock env w))"
    and sleep_keeps: "inv w \<Longrightarrow> inv (ce_sleep env d w)"
    and reserver_keeps: "ce_usage_reserver env = Some g \<Longrightarrow> inv w \<Longrightarrow> inv (snd (g pid cap w))"
    and claimer_keeps: "ce_probe_claimer env = Some h \<Longrightarrow> inv w \<Longrightarrow> inv (snd (h e w))"
begin

lemma usage_gate_keeps: "inv (cs_world st) \<Longrightarrow> usage_gate env e st = (ok, st') \<Longrightarrow> inv (cs_world st')"
proof -
  assume w: "inv (cs_world st)" and gate: "usage_gate env e st = (ok, st')"
  obtain reserved st1 where r: "(case ce_usage_reserver env of None \<Rightarrow> (True, st)
      | Some f \<Rightarrow> (let (ok, w) = f (pe_provider_id e) (pe_capabilities e) (cs_world st) in (ok, st\<lparr>cs_world := w\<rparr>))) = (reserved, st1)"
    by fastforce
  then have st1: "inv (cs_world st1)" using w reserver_keeps [of _ "cs_world st" "pe_provider_id e" "pe_capabilities e"]
    by (auto simp: Let_def split: option.splits prod.splits)
  then have "inv (snd (ce_usage_clock env (cs_world st1)))" by (rule clock_keeps)
  then show ?thesis using gate st1 unfolding usage_gate_def r by (auto simp: Let_def split: prod.splits if_splits)
qed

lemma allow_entry_keeps: "inv (cs_world st) \<Longrightarrow> allow_entry env b st = (ok, b', st') \<Longrightarrow> inv (cs_world st')"
  using clock_keeps(1) [of "cs_world st"] by (auto simp: allow_entry_def Let_def split: prod.splits if_splits)

lemma failed_attempt_keeps: "inv (cs_world st) \<Longrightarrow> inv (cs_world (step_state (failed_attempt env pol e n t f b st)))"
proof -
  assume w: "inv (cs_world st)"
  obtain now w1 ended w2 where c: "ce_breaker_clock env (cs_world st) = (now, w1)" "ce_monotonic env w1 = (ended, w2)" by fastforce
  have "inv w2" using clock_keeps(1) [OF w] monotonic_keeps [of w1] c by simp
  then show ?thesis by (simp add: failed_attempt_def c step_state_def Let_def sleep_keeps)
qed

lemma sent_attempt_keeps: "inv (cs_world st) \<Longrightarrow> inv (cs_world (step_state (sent_attempt env e n t r b st)))"
  using monotonic_keeps [of "cs_world st"] by (auto simp: sent_attempt_def step_state_def Let_def split: prod.splits)

lemma check_keeps:
  assumes "inv w" "(case ce_before_attempt env of None \<Rightarrow> (Inr (), w) | Some f \<Rightarrow> f w) = (r, w')"
  shows "inv w' \<and> (r = Inr () \<longrightarrow> passed w')"
proof (cases "ce_before_attempt env")
  case None
  then show ?thesis using assms no_check by auto
next
  case (Some f)
  then have "f w = (r, w')" using assms(2) by simp
  then show ?thesis using before_keeps [OF Some assms(1)] before_passes [OF Some assms(1)] by simp
qed

lemma attempt_once_keeps:
  assumes "inv (cs_world st)"
  shows "inv (cs_world (step_state (attempt_once env pol m e n b st)))"
proof -
  obtain ok st1 where gate: "(if n > 1 then usage_gate env e st else (True, st)) = (ok, st1)" by fastforce
  then have st1: "inv (cs_world st1)" using assms usage_gate_keeps by (auto split: if_splits)
  obtain r w where check: "(case ce_before_attempt env of None \<Rightarrow> (Inr (), cs_world st1) | Some f \<Rightarrow> f (cs_world st1)) = (r, w)"
    by fastforce
  from check_keeps [OF st1 check] have w: "inv w" "r = Inr () \<Longrightarrow> passed w" by auto
  obtain started w1 where mono: "ce_monotonic env w = (started, w1)" by fastforce
  obtain out w2 where send: "ce_send env e m w1 = (out, w2)" by fastforce
  have "inv w2" if "r = Inr ()" using that w mono send send_keeps [of w1 e] monotonic_keeps [of w] monotonic_passed [of w] by simp
  then have "inv (cs_world (st1\<lparr>cs_world := w2\<rparr>))" if "r = Inr ()" using that by simp
  then show ?thesis using st1 w(1) failed_attempt_keeps sent_attempt_keeps
    unfolding attempt_once_def gate check mono send Let_def prod.case
    by (cases r) (auto simp: step_state_def mono send split: sum.splits)
qed

lemma attempt_loop_keeps:
  "inv (cs_world st) \<Longrightarrow> inv (cs_world (snd (snd (attempt_loop env pol m e n b st))))"
proof (induction "nat (mp_attempts pol - n)" arbitrary: n b st rule: less_induct)
  case less
  have one: "inv (cs_world (step_state (attempt_once env pol m e (n + 1) b st)))" using less.prems by (rule attempt_once_keeps)
  show ?case
  proof (cases "n < mp_attempts pol")
    case True
    show ?thesis
    proof (cases "attempt_once env pol m e (n + 1) b st")
      case (Stop x b' st')
      then show ?thesis using one True by (subst attempt_loop.simps) (simp add: step_state_def)
    next
      case (Again b' st')
      have "nat (mp_attempts pol - (n + 1)) < nat (mp_attempts pol - n)" using True by simp
      moreover have "inv (cs_world st')" using one Again by (simp add: step_state_def)
      ultimately have "inv (cs_world (snd (snd (attempt_loop env pol m e (n + 1) b' st'))))" by (rule less.hyps)
      then show ?thesis using True Again by (subst attempt_loop.simps) simp
    qed
  next
    case False
    then show ?thesis using less.prems by (subst attempt_loop.simps) simp
  qed
qed

lemma try_entry_keeps:
  assumes "inv (cs_world st)"
  shows "inv (cs_world (snd (snd (try_entry env pol m e st))))"
proof -
  let ?b = "pe_breaker e"
  obtain claimed st1 where claim: "(case ce_probe_claimer env of None \<Rightarrow> (True, st)
      | Some f \<Rightarrow> (let (ok, w) = f e (cs_world st) in (ok, st\<lparr>cs_world := w\<rparr>))) = (claimed, st1)" by fastforce
  then have st1: "inv (cs_world st1)" using assms claimer_keeps [of _ "cs_world st" e]
    by (auto simp: Let_def split: option.splits prod.splits)
  obtain allowed b1 st2 where allow: "allow_entry env ?b st1 = (allowed, b1, st2)" by (cases "allow_entry env ?b st1") auto
  then have st2: "inv (cs_world st2)" using st1 allow_entry_keeps by blast
  let ?st3 = "st2\<lparr>cs_dirty_ids := List.insert (pe_provider_id e) (cs_dirty_ids st2)\<rparr>"
  obtain ok st4 where gate: "usage_gate env e ?st3 = (ok, st4)" by fastforce
  then have st4: "inv (cs_world st4)" using st2 usage_gate_keeps [OF _ gate] by simp
  show ?thesis using assms st1 st2 st4 attempt_loop_keeps [OF st4]
    unfolding try_entry_def Let_def claim [unfolded Let_def] by (simp add: allow gate)
qed

lemma entries_keep: "inv (cs_world st) \<Longrightarrow> inv (cs_world (snd (snd (deliver_entries env pol m es st))))"
proof (induction es arbitrary: st)
  case (Cons e es)
  obtain x b st' where t: "try_entry env pol m e st = (x, b, st')" by (cases "try_entry env pol m e st") auto
  have st': "inv (cs_world st')" using try_entry_keeps [OF Cons.prems, of pol e] unfolding t by simp
  show ?case using st' Cons.IH [OF st'] t by (cases x) (auto simp: Let_def split: prod.splits)
qed simp

lemma deliver_keeps: "inv w \<Longrightarrow> inv (cs_world (dl_state (deliver env pol m ps u w)))"
proof -
  assume w: "inv w"
  let ?st = "\<lparr>cs_world = w, cs_usage = u, cs_dirty_ids = [], cs_attempts = [], cs_last_code = None, cs_possible_duplicate = False\<rparr>"
  have "inv (cs_world (snd (snd (deliver_entries env pol m (ordered_entries ps) ?st))))" using w by (intro entries_keep) simp
  then show ?thesis by (auto simp: deliver_def Let_def split: prod.splits)
qed

end

text \<open>The contract of a record of requests: an attempt that the chain takes as delivered has left its mark, and
  reading the clock does not wipe it out.  A delivery reported as delivered has then left the mark.\<close>

locale recorded_delivery =
  fixes env :: "'w chain_env"
    and m :: email_message
    and mark :: "'w \<Rightarrow> bool"
  assumes send_marks: "classify_send (fst (ce_send env e m w)) = Inr r \<Longrightarrow> mark (snd (ce_send env e m w))"
    and monotonic_marked: "mark w \<Longrightarrow> mark (snd (ce_monotonic env w))"
begin

lemma attempt_once_marks:
  assumes "attempt_once env pol m e n b st = Stop (Delivered i) b' st'"
  shows "mark (cs_world st')"
proof -
  obtain ok st1 where gate: "(if n > 1 then usage_gate env e st else (True, st)) = (ok, st1)" by fastforce
  obtain r w where check: "(case ce_before_attempt env of None \<Rightarrow> (Inr (), cs_world st1) | Some f \<Rightarrow> f (cs_world st1)) = (r, w)"
    by fastforce
  obtain started w1 where mono: "ce_monotonic env w = (started, w1)" by fastforce
  obtain out w2 where send: "ce_send env e m w1 = (out, w2)" by fastforce
  obtain ended w3 where later: "ce_monotonic env w2 = (ended, w3)" by fastforce
  obtain s where s: "classify_send out = Inr s" "cs_world st' = w3"
    using assms unfolding attempt_once_def gate check mono send Let_def prod.case
    by (cases r; cases ok; cases "classify_send out")
       (auto simp: failed_attempt_def sent_attempt_def mono send later Let_def split: prod.splits if_splits)
  have "mark w2" using send_marks [of e w1 s] s(1) send by simp
  then show ?thesis using monotonic_marked [of w2] later s(2) by simp
qed

lemma attempt_loop_marks: "attempt_loop env pol m e n b st = (Delivered i, b', st') \<Longrightarrow> mark (cs_world st')"
proof (induction "nat (mp_attempts pol - n)" arbitrary: n b st rule: less_induct)
  case less
  show ?case
  proof (cases "n < mp_attempts pol")
    case True
    show ?thesis
    proof (cases "attempt_once env pol m e (n + 1) b st")
      case (Stop x c s)
      then have "x = Delivered i" "s = st'" using less.prems True by (subst (asm) attempt_loop.simps; simp)+
      then show ?thesis using attempt_once_marks Stop by blast
    next
      case (Again c s)
      have "nat (mp_attempts pol - (n + 1)) < nat (mp_attempts pol - n)" using True by simp
      moreover have "attempt_loop env pol m e (n + 1) c s = (Delivered i, b', st')"
        using less.prems True Again by (subst (asm) attempt_loop.simps) simp
      ultimately show ?thesis by (rule less.hyps)
    qed
  next
    case False
    then show ?thesis using less.prems by (subst (asm) attempt_loop.simps) simp
  qed
qed

lemma try_entry_marks: "try_entry env pol m e st = (Delivered i, b, st') \<Longrightarrow> mark (cs_world st')"
  unfolding try_entry_def Let_def by (auto split: if_splits option.splits prod.splits dest: attempt_loop_marks)

lemma entries_mark: "deliver_entries env pol m es st = (ChainDelivered e i, es', st') \<Longrightarrow> mark (cs_world st')"
proof (induction es arbitrary: st es' st')
  case (Cons a es)
  then show ?case using try_entry_marks
    by (auto simp: Let_def split: prod.splits attempt_exit.splits)
qed simp

lemma deliver_marks:
  assumes "dl_result (deliver env pol m ps u w) = Inr r" "cr_delivered r"
  shows "mark (cs_world (dl_state (deliver env pol m ps u w)))"
  using assms entries_mark unfolding deliver_def Let_def
  by (auto split: prod.splits chain_exit.splits)

end

end
