(* ===== verification/NotifySafety.thy ===== *)
theory NotifySafety
  imports NotifyFlush DeliveryFrame
begin

text \<open>
  Whom the notification service may mail while Test Mode is on.  The first locale is the contract of a
  frame: a relation between worlds that the clocks respect and that composes; what obeys it is closed
  under the combinators of the service.  Its first instance leaves the recipients and the record of
  requests alone: everything but a request to a provider does.
\<close>

section \<open>Frames\<close>

definition obeys :: "('w notify_world \<Rightarrow> 'w notify_world \<Rightarrow> bool) \<Rightarrow> ('w notify_world \<Rightarrow> 'a \<times> 'w notify_world) \<Rightarrow> bool" where
  "obeys R f \<longleftrightarrow> (\<forall>w. R w (snd (f w)))"

definition step_obeys :: "('w notify_world \<Rightarrow> 'w notify_world \<Rightarrow> bool) \<Rightarrow> ('w notify_world \<Rightarrow> 'w notify_world) \<Rightarrow> bool" where
  "step_obeys R f \<longleftrightarrow> (\<forall>w. R w (f w))"

lemma obeysD: "obeys R f \<Longrightarrow> f w = (r, w') \<Longrightarrow> R w w'"
  unfolding obeys_def by (metis snd_conv)

locale frame =
  fixes R :: "'w notify_world \<Rightarrow> 'w notify_world \<Rightarrow> bool"
  assumes ext_same: "R w (w\<lparr>nw_ext := x\<rparr>)"
    and same_trans: "R w w' \<Longrightarrow> R w' w'' \<Longrightarrow> R w w''"
begin

lemma same_refl: "R w w"
  using ext_same [of w "nw_ext w"] by simp

lemma give_ok: "obeys R (give a)" "obeys R (fails e)" "obeys R (from_result g r)"
  using same_refl by (auto simp: obeys_def give_def fails_def from_result_def split: sum.splits)

lemma ext_ok: "obeys R (ext_call f)"
  using ext_same by (auto simp: obeys_def ext_call_def Let_def split: prod.splits)

lemma then_ok: "obeys R m \<Longrightarrow> (\<And>a. obeys R (k a)) \<Longrightarrow> obeys R (then_do m k)"
  unfolding obeys_def
proof
  fix w
  assume m: "\<forall>w. R w (snd (m w))" and k: "\<And>a. \<forall>w. R w (snd (k a w))"
  obtain r w' where r: "m w = (r, w')" by fastforce
  then have "R w w'" using m by (metis snd_conv)
  then show "R w (snd (then_do m k w))" using k same_trans by (cases r) (auto simp: then_do_def r)
qed

lemma session_ok: "obeys R body \<Longrightarrow> obeys R (in_session body)"
  unfolding obeys_def
proof
  fix w
  assume b: "\<forall>w. R w (snd (body w))"
  obtain r w' where r: "body w = (r, w')" by fastforce
  then have "R w w'" using b by (metis snd_conv)
  then show "R w (snd (in_session body w))" using ext_same by (cases r) (simp_all add: in_session_def r)
qed

lemma if_ok: "obeys R f \<Longrightarrow> obeys R g \<Longrightarrow> obeys R (if b then f else g)"
  by simp

lemma fold_ok: "(\<And>x. step_obeys R (f x)) \<Longrightarrow> step_obeys R (fold f xs)"
  unfolding step_obeys_def using same_refl same_trans by (induction xs) (auto, blast)

lemma hook_ok: "step_obeys R (notify_hook env n)"
  using ext_same same_refl by (simp add: step_obeys_def notify_hook_def split: option.split)

lemma forward_ok: "step_obeys R (forward_events env c es)"
  unfolding step_obeys_def forward_events_def
  using fold_ok [of "\<lambda>e. notify_hook env (forwarded c e)", OF hook_ok] by (simp add: step_obeys_def)

lemma failovers_ok: "step_obeys R (emit_failover_alerts env r c)"
proof -
  let ?f = "\<lambda>(name, code, _). notify_hook env \<lparr>mn_error_code = PROVIDER_FAILOVER, mn_provider_name = Some name,
         mn_correlation_id = c, mn_message = ''provider failed with '' @ code @ ''; failover attempted''\<rparr>"
  have "step_obeys R (?f x)" for x :: "string \<times> string \<times> string" using hook_ok by (cases x) simp
  then have "step_obeys R (fold ?f (cr_failovers r))" by (rule fold_ok)
  then show ?thesis unfolding step_obeys_def emit_failover_alerts_def .
qed

lemma links_ok: "obeys R (make_links env t ds n)"
  unfolding make_links_def by (intro then_ok ext_ok give_ok)

lemma prepare_ok: "obeys R (prepare env tid vid event)"
  unfolding obeys_def
proof
  fix w
  have "obeys R (then_do (make_links env t ds n) (\<lambda>links. from_result g (r links)))" for t ds n and g :: "notify_exn \<Rightarrow> notify_exn"
      and r :: "linked_document list \<Rightarrow> (notify_exn, prepared_notification) result"
    by (intro then_ok links_ok give_ok)
  then have rest: "R w (snd (then_do (make_links env t ds n) (\<lambda>links. from_result g (r links)) w))" for t ds n g
      and r :: "linked_document list \<Rightarrow> (notify_exn, prepared_notification) result"
    unfolding obeys_def by blast
  show "R w (snd (prepare env tid vid event w))"
    unfolding prepare_def Let_def
    by (auto simp: same_refl rest split: sum.split prod.split)
qed

end

section \<open>Calm actions\<close>

definition still :: "'w notify_world \<Rightarrow> 'w notify_world \<Rightarrow> bool" where
  "still w w' \<longleftrightarrow> nw_recipients w' = nw_recipients w \<and> nw_requests w' = nw_requests w"

interpretation calm: frame still
  by unfold_locales (auto simp: still_def)

abbreviation calm :: "('w notify_world \<Rightarrow> 'a \<times> 'w notify_world) \<Rightarrow> bool" where
  "calm f \<equiv> obeys still f"

named_theorems calms

lemmas [calms] = calm.give_ok calm.ext_ok calm.then_ok calm.session_ok calm.if_ok calm.links_ok calm.prepare_ok

lemma calm_outbox [calms]: "calm (on_outbox f env)"
  unfolding on_outbox_def by (intro calms) (auto simp: obeys_def still_def split: sum.splits)

lemma calm_banner [calms]: "calm (show_banner env c s m)"
  unfolding show_banner_def by (intro calms) (auto simp: obeys_def still_def)

lemma calm_attempts [calms]: "calm (persist_attempts env i c as)"
  by (induction as) (auto intro!: calms)

lemma calm_record_result [calms]: "calm (record_result env i c r run)"
  unfolding record_result_def by (intro calms) (auto simp: obeys_def still_def persist_breakers_def split: option.split)

lemma calm_finalize [calms]: "calm (finalize_failure env i tok p code msg)" "calm (finalize_sent env i tok p r)"
  unfolding finalize_failure_def finalize_sent_def by (intro calms)+

lemma calm_finalize_kept [calms]: "calm (finalize_kept env i tok p r)"
proof -
  have "calm (then_do (show_banner env c s m) (\<lambda>_. give (x, b)))" for c s m and x :: notification_log and b :: bool by (intro calms)
  then have "still w (snd (then_do (show_banner env c s m) (\<lambda>_. give (x, b)) w))" for c s m w and x :: notification_log and b :: bool
    unfolding obeys_def by blast
  then have "calm (\<lambda>w. then_do (show_banner env c s m) (\<lambda>_. give (x, banner_active (nw_alerts w))) w)" for c s m and x :: notification_log
    unfolding obeys_def by blast
  then show ?thesis unfolding finalize_kept_def by (intro calms)
qed

lemma calm_renew [calms]: "calm (renew_delivery_claim env i tok)"
  unfolding renew_delivery_claim_def by (intro calms)

lemma calm_before [calms]: "calm (before_provider_attempt env p i tok)"
proof -
  have "calm (\<lambda>w. from_result id (test_mode_safety (fst (load_settings w)) sel) w)" for sel
    by (auto simp: obeys_def still_def from_result_def split: sum.splits)
  then show ?thesis unfolding before_provider_attempt_def by (intro calms)
qed

lemma calm_revalidate [calms]: "calm (revalidate_for_send env p i tok)"
  unfolding revalidate_for_send_def
  by (intro calms) (auto simp: obeys_def still_def split: option.splits sum.splits)

section \<open>Safe records of requests\<close>

definition addressed :: "email_message \<Rightarrow> string set" where
  "addressed m = set (em_to m @ em_cc m @ em_bcc m)"

definition dev_addresses :: "'w notify_world \<Rightarrow> string set" where
  "dev_addresses w = rc_email ` {r \<in> set (nw_recipients w). rc_active r \<and> rc_list_type r = ''dev_alert''}"

text \<open>\<open>D\<close> holds the addresses of the development list, now and after whatever others do to the table meanwhile.\<close>

definition dev_list_within :: "'w notify_env \<Rightarrow> string set \<Rightarrow> bool" where
  "dev_list_within env D \<longleftrightarrow> (\<forall>w. dev_addresses w \<subseteq> D \<longrightarrow>
     (\<forall>e m. dev_addresses (snd (nv_send env e m w)) \<subseteq> D) \<and> (\<forall>d. dev_addresses (nv_sleep env d w) \<subseteq> D)
     \<and> dev_addresses (nv_race env w) \<subseteq> D)"

definition safely_addressed :: "string set \<Rightarrow> 'w notify_world \<Rightarrow> bool" where
  "safely_addressed D w \<longleftrightarrow> dev_addresses w \<subseteq> D \<and> (\<forall>(test_mode, m) \<in> set (nw_requests w). test_mode \<longrightarrow> addressed m \<subseteq> D)"

lemma still_safe: "still w w' \<Longrightarrow> safely_addressed D w \<Longrightarrow> safely_addressed D w'"
proof -
  assume "still w w'" "safely_addressed D w"
  then have e: "nw_recipients w' = nw_recipients w" "nw_requests w' = nw_requests w" by (simp_all only: still_def)
  show "safely_addressed D w'" using \<open>safely_addressed D w\<close> unfolding safely_addressed_def dev_addresses_def e .
qed

lemma calm_safe: "calm f \<Longrightarrow> f w = (r, w') \<Longrightarrow> safely_addressed D w \<Longrightarrow> safely_addressed D w'"
  by (rule still_safe [OF obeysD])

lemma others_safe:
  assumes "safely_addressed D w" "dev_addresses (f w) \<subseteq> D"
  shows "safely_addressed D (by_others f w)"
  using assms by (simp add: safely_addressed_def by_others_def dev_addresses_def)

lemma clock_still: "still w (snd (read_clock f w))"
  by (simp add: still_def read_clock_def split: prod.split)

lemma reserver_still: "still w (snd (reserve_provider_usage env pid cap w))"
  by (simp add: still_def reserve_provider_usage_def read_clock_def Let_def split: prod.split)

lemma claimer_still: "still w (snd (claim_probe env e w))"
  by (simp add: still_def claim_probe_def read_clock_def Let_def split: prod.split)

lemmas chain_calls = chain_env_of_def clock_still reserver_still claimer_still

text \<open>A request is safe when the message goes to the development list or Test Mode is off at that moment.\<close>

definition may_go :: "string set \<Rightarrow> email_message \<Rightarrow> 'w notify_world \<Rightarrow> bool" where
  "may_go D m w \<longleftrightarrow> (fst (load_settings w) \<longrightarrow> addressed m \<subseteq> D)"

lemma request_safe:
  assumes env: "dev_list_within env D" and w: "safely_addressed D w" "may_go D m w"
  shows "safely_addressed D (snd (request env usable e m w))"
proof -
  let ?w1 = "w\<lparr>nw_requests := nw_requests w @ [(fst (load_settings w), m)]\<rparr>"
  have w1: "safely_addressed D ?w1" using w by (auto simp: safely_addressed_def dev_addresses_def may_go_def)
  then have "dev_addresses (snd (nv_send env e m ?w1)) \<subseteq> D" using env unfolding dev_list_within_def safely_addressed_def by blast
  then have "safely_addressed D (by_others (snd \<circ> nv_send env e m) ?w1)"
    by (intro others_safe [OF w1]) (simp only: comp_apply)
  then show ?thesis using w by (simp add: request_def Let_def)
qed

lemma sleep_safe: "dev_list_within env D \<Longrightarrow> safely_addressed D w \<Longrightarrow> safely_addressed D (by_others (nv_sleep env d) w)"
  by (intro others_safe) (auto simp: dev_list_within_def safely_addressed_def)

definition guards :: "string set \<Rightarrow> email_message \<Rightarrow> ('w, unit) notify_action option \<Rightarrow> bool" where
  \<comment> \<open>what the check before each attempt has to give\<close>
  "guards D m check \<longleftrightarrow> (case check of
     None \<Rightarrow> addressed m \<subseteq> D
   | Some f \<Rightarrow> calm f \<and> (\<forall>w w'. safely_addressed D w \<longrightarrow> f w = (Inr (), w') \<longrightarrow> may_go D m w'))"

lemma delivery_guarded:
  fixes env :: "'w notify_env"
  assumes env: "dev_list_within env D" and guard: "guards D m check"
  shows "guarded_delivery (chain_env_of env usable check) m (safely_addressed D) (may_go D m)"
proof
  fix f and w :: "'w notify_world"
  assume f: "ce_before_attempt (chain_env_of env usable check) = Some f" and w: "safely_addressed D w"
  then obtain g where g: "check = Some g" "f = (\<lambda>w. case g w of (Inl x, w') \<Rightarrow> (Inl (exn_name x), w') | (Inr _, w') \<Rightarrow> (Inr (), w'))"
    by (auto simp: chain_env_of_def)
  obtain r w' where r: "g w = (r, w')" by fastforce
  have "calm g" using guard g(1) by (simp add: guards_def)
  then have "safely_addressed D w'" using calm_safe [where f = g and w = w and r = r and w' = w'] r w by simp
  then show "safely_addressed D (snd (f w))" using g(2) r by (cases r) auto
  assume "fst (f w) = Inr ()"
  then have "r = Inr ()" using g(2) r by (cases r) auto
  then show "may_go D m (snd (f w))" using guard g r w by (auto simp: guards_def)
next
  fix w :: "'w notify_world"
  assume "ce_before_attempt (chain_env_of env usable check) = None" "safely_addressed D w"
  then show "may_go D m w" using guard by (auto simp: chain_env_of_def guards_def may_go_def)
next
  fix w :: "'w notify_world" and e
  assume "safely_addressed D w" "may_go D m w"
  then show "safely_addressed D (snd (ce_send (chain_env_of env usable check) e m w))"
    using request_safe [OF env] by (simp add: chain_env_of_def)
next
  fix w :: "'w notify_world" and d
  assume "safely_addressed D w"
  then show "safely_addressed D (ce_sleep (chain_env_of env usable check) d w)" using sleep_safe [OF env] by (simp add: chain_env_of_def)
next
  fix w :: "'w notify_world"
  assume "may_go D m w"
  then show "may_go D m (snd (ce_monotonic (chain_env_of env usable check) w))"
    by (simp add: chain_env_of_def may_go_def load_settings_def read_clock_def split: prod.split)
next
  fix g pid cap and w :: "'w notify_world"
  assume "ce_usage_reserver (chain_env_of env usable check) = Some g" "safely_addressed D w"
  then show "safely_addressed D (snd (g pid cap w))" using still_safe [OF reserver_still] by (auto simp: chain_env_of_def)
next
  fix h e and w :: "'w notify_world"
  assume "ce_probe_claimer (chain_env_of env usable check) = Some h" "safely_addressed D w"
  then show "safely_addressed D (snd (h e w))" using still_safe [OF claimer_still] by (auto simp: chain_env_of_def)
qed (auto simp: chain_env_of_def intro: still_safe [OF clock_still])

lemma run_chain_safe:
  assumes "dev_list_within env D" "guards D m check" "safely_addressed D w"
  shows "safely_addressed D (snd (run_chain env usable check c m es w))"
proof -
  let ?d = "deliver (chain_env_of env usable check) (nv_policy env) m es (nw_limiter w) w"
  have "safely_addressed D (cs_world (dl_state ?d))"
    using guarded_delivery.deliver_keeps [OF delivery_guarded [OF assms(1,2)] assms(3)] .
  then have "safely_addressed D ((cs_world (dl_state ?d))\<lparr>nw_limiter := cs_usage (dl_state ?d)\<rparr>)"
    by (simp add: safely_addressed_def dev_addresses_def)
  moreover have "still x (forward_events env c es' x)" for x es' using calm.forward_ok unfolding step_obeys_def by blast
  ultimately show ?thesis unfolding run_chain_def Let_def snd_conv using still_safe by blast
qed

text \<open>The record of requests only grows, whatever the settings and the providers do meanwhile.\<close>

interpretation requests_grow: guarded_delivery "chain_env_of env usable (Some (before_provider_attempt env p log_id token))" m
    "\<lambda>w. \<exists>later. nw_requests w = earlier @ later" "\<lambda>_. True" for env :: "'w notify_env" and usable p log_id token m earlier
proof
  fix f and w :: "'w notify_world"
  assume f: "ce_before_attempt (chain_env_of env usable (Some (before_provider_attempt env p log_id token))) = Some f"
    and w: "\<exists>later. nw_requests w = earlier @ later"
  obtain r w' where r: "before_provider_attempt env p log_id token w = (r, w')" by fastforce
  then have "still w w'" using obeysD [OF calm_before r] by simp
  then show "\<exists>later. nw_requests (snd (f w)) = earlier @ later" using w f r
    by (cases r) (auto simp: chain_env_of_def still_def)
qed (auto simp: chain_env_of_def still_def request_def by_others_def Let_def
    read_clock_def reserve_provider_usage_def claim_probe_def split: prod.split)

section \<open>Routes\<close>

lemma selected_within:
  assumes "select_recipients lt rs = Inr sel"
  shows "set (sl_addresses sel) \<subseteq> rc_email ` set rs \<and> sl_list_types sel = {lt}"
proof -
  have rs: "rs \<noteq> []" and sel: "sel = selection_of lt (first_of_each [] rs)"
    using assms unfolding select_recipients_eq by (auto split: if_splits)
  have "first_of_each [] rs \<noteq> []" using rs by (cases rs) auto
  then have "sl_list_types sel = {lt}" unfolding sel by (cases "first_of_each [] rs")
    (auto simp: sl_list_types_def selection_of_def Let_def snapshot_of_def)
  then show ?thesis using first_of_each_subset [of "[]" rs] unfolding sel selection_addresses by blast
qed

lemma dev_rows: "rc_email ` set (active_recipients ''dev_alert'' (nw_recipients w)) = dev_addresses w"
  by (auto simp: dev_addresses_def active_recipients_def)

definition dev_bound :: "string set \<Rightarrow> selection \<Rightarrow> bool" where
  "dev_bound D sel \<longleftrightarrow> (sl_list_types sel \<subseteq> {''dev_alert''} \<longrightarrow> set (sl_addresses sel) \<subseteq> D)"

lemma tender_is_no_dev: "select_recipients ''tender'' rs = Inr sel \<Longrightarrow> dev_bound D sel"
  using selected_within [of "''tender''" rs sel] by (simp add: dev_bound_def)

lemma dev_selected: "select_recipients ''dev_alert'' rs = Inr sel \<Longrightarrow> set rs \<subseteq> set (active_recipients ''dev_alert'' (nw_recipients w))
    \<Longrightarrow> set (sl_addresses sel) \<subseteq> dev_addresses w"
proof -
  assume sel: "select_recipients ''dev_alert'' rs = Inr sel" and rs: "set rs \<subseteq> set (active_recipients ''dev_alert'' (nw_recipients w))"
  have "set (sl_addresses sel) \<subseteq> rc_email ` set rs" by (rule conjunct1 [OF selected_within [OF sel]])
  also have "\<dots> \<subseteq> rc_email ` set (active_recipients ''dev_alert'' (nw_recipients w))" using rs by (rule image_mono)
  also have "\<dots> = dev_addresses w" by (rule dev_rows)
  finally show "set (sl_addresses sel) \<subseteq> dev_addresses w" .
qed

lemma dev_selected_bound:
  "select_recipients ''dev_alert'' (active_recipients ''dev_alert'' (nw_recipients w)) = Inr sel \<Longrightarrow> dev_addresses w \<subseteq> D \<Longrightarrow> dev_bound D sel"
  using dev_selected [OF _ order_refl, of w sel] unfolding dev_bound_def by (metis subset_trans)

lemma route_bound:
  assumes "route t v tm w = Inr sel" "dev_addresses w \<subseteq> D"
  shows "dev_bound D sel"
proof (cases v)
  case None
  then show ?thesis using assms dev_selected_bound by (simp add: route_def resolve_raw_notice_def)
next
  case (Some x)
  show ?thesis
  proof (cases tm)
    case True
    then show ?thesis using assms Some dev_selected_bound by (simp add: route_def resolve_def Let_def)
  next
    case False
    then obtain rs where "select_recipients ''tender'' rs = Inr sel" using assms(1) Some by (simp add: route_def resolve_def Let_def)
    then show ?thesis by (rule tender_is_no_dev)
  qed
qed

lemma alert_selected: "resolve_alert a s (nw_recipients w) = Inr sel \<Longrightarrow> set (sl_addresses sel) \<subseteq> dev_addresses w"
  unfolding resolve_alert_def by (erule dev_selected) auto

lemma checked_same: "checked_message v m = Inr m' \<Longrightarrow> m' = m"
  by (auto simp: checked_message_def split: sum.splits)

lemma composed_addresses: "compose_message env t c sel pairs links key = Inr m \<Longrightarrow> addressed m = set (sl_addresses sel)"
  by (auto simp: compose_message_def bind_result_eq_Inr addressed_def sl_addresses_def dest!: checked_same)

lemma resent_addresses: "resend_message env p t tm sel key = Inr (Some m) \<Longrightarrow> addressed m = set (sl_addresses sel)"
proof -
  assume r: "resend_message env p t tm sel key = Inr (Some m)"
  have "addressed m = set (sl_addresses sel)"
    if "map_sum id Some (compose_message env t c sel pairs links key) = Inr (Some m)" for c pairs links
  proof -
    have "compose_message env t c sel pairs links key = Inr m"
      using that by (cases "compose_message env t c sel pairs links key") auto
    then show ?thesis by (rule composed_addresses)
  qed
  with r show ?thesis
    by (auto simp: resend_message_def addressed_def sl_addresses_def split: if_splits option.splits)
qed

lemma revalidated_route:
  assumes "revalidated env p row w = Inr (Some (p', row'))"
  shows "\<exists>t v. route t v (fst (load_settings w)) w = Inr (np_selection p')
    \<and> (\<forall>m. np_message p' = Some m \<longrightarrow> addressed m = set (sl_addresses (np_selection p')))"
proof -
  obtain t v where tv: "reread p w = Inr (t, v)" using assms by (auto simp: revalidated_def bind_result_eq_Inr)
  then obtain sel where sel: "route t v (fst (load_settings w)) w = Inr sel"
    using assms by (auto simp: revalidated_def Let_def split: sum.splits)
  let ?key = "notification_key env (tn_id t) (map_option vd_id v) sel"
  obtain message where msg: "map_sum OtherFailed id (resend_message env p t (fst (load_settings w)) sel ?key) = Inr message"
    "np_selection p' = sel" "np_message p' = message"
    using assms tv sel by (auto simp: revalidated_def Let_def bind_result_eq_Inr)
  then have "resend_message env p t (fst (load_settings w)) sel ?key = Inr message"
    by (cases "resend_message env p t (fst (load_settings w)) sel ?key") auto
  then have "\<forall>m. message = Some m \<longrightarrow> addressed m = set (sl_addresses sel)"
    using resent_addresses [of env p t _ sel ?key] by blast
  with sel msg show ?thesis by blast
qed

lemma revalidate_for_send_route:
  assumes "revalidate_for_send env p i tok w = (Inr (Some p'), w')" "dev_addresses w \<subseteq> D"
  shows "dev_bound D (np_selection p') \<and> (\<forall>m. np_message p' = Some m \<longrightarrow> addressed m = set (sl_addresses (np_selection p')))"
proof -
  obtain row row' where "revalidated env p row w = Inr (Some (p', row'))"
    using assms(1) by (auto simp: revalidate_for_send_def in_session_def split: option.splits sum.splits prod.splits if_splits)
  then show ?thesis using revalidated_route route_bound [OF _ assms(2)] by blast
qed

lemma safety_bound:
  "test_mode_safety tm sel = Inr () \<Longrightarrow> dev_bound D sel \<Longrightarrow> tm \<Longrightarrow> set (sl_addresses sel) \<subseteq> D"
  by (auto simp: test_mode_safety_def guard_tender_recipients_def dev_bound_def sl_list_types_def split: if_splits)

lemma before_guards:
  assumes "dev_bound D (np_selection p)" "addressed m = set (sl_addresses (np_selection p))"
  shows "guards D m (Some (before_provider_attempt env p i tok))"
proof -
  have "may_go D m w'" if b: "before_provider_attempt env p i tok w = (Inr (), w')" for w w' :: "'a notify_world"
  proof -
    have "test_mode_safety (fst (load_settings w')) (np_selection p) = Inr ()"
      using b by (auto simp: before_provider_attempt_def then_do_def from_result_def split: sum.splits prod.splits)
    then show ?thesis using safety_bound [OF _ assms(1)] unfolding may_go_def assms(2) by blast
  qed
  then show ?thesis using calm_before by (auto simp: guards_def)
qed

end
