(* ===== verification/NotifyProps.thy ===== *)
theory NotifyProps
  imports NotifySafety TemplateProps
begin

text \<open>
  What the notification service guarantees to the people it may mail, and what its flush does not.  The
  preservation of safe records is itself a frame, so the combinators of the service carry it.
\<close>

section \<open>Safe steps\<close>

definition safe_step :: "string set \<Rightarrow> 'w notify_world \<Rightarrow> 'w notify_world \<Rightarrow> bool" where
  "safe_step D w w' \<longleftrightarrow> (safely_addressed D w \<longrightarrow> safely_addressed D w')"

interpretation safe: frame "safe_step D" for D
proof
  have "safely_addressed D (w\<lparr>nw_ext := x\<rparr>) = safely_addressed D w" for w :: "'a notify_world" and x
    by (simp add: safely_addressed_def dev_addresses_def)
  then show "safe_step D w (w\<lparr>nw_ext := x\<rparr>)" for w :: "'a notify_world" and x by (simp add: safe_step_def)
qed (simp add: safe_step_def)

lemma calm_is_safe: "calm f \<Longrightarrow> obeys (safe_step D) f"
proof -
  assume f: "calm f"
  have "safe_step D w (snd (f w))" for w
    unfolding safe_step_def by (intro impI calm_safe [OF f surjective_pairing])
  then show "obeys (safe_step D) f" unfolding obeys_def by blast
qed

lemma safeD: "obeys (safe_step D) f \<Longrightarrow> safely_addressed D w \<Longrightarrow> safely_addressed D (snd (f w))"
  by (simp add: obeys_def safe_step_def)

lemma safeI: "(\<And>w. safely_addressed D w \<Longrightarrow> safely_addressed D (snd (f w))) \<Longrightarrow> obeys (safe_step D) f"
  by (simp add: obeys_def safe_step_def)

lemma persisted_still: "still w (persist_breakers run w)"
  by (simp add: still_def persist_breakers_def)

lemma try_system_alert_safe:
  assumes env: "dev_list_within env D" and w: "safely_addressed D w"
  shows "safely_addressed D (snd (try_system_alert env c s code msg w))"
proof -
  have "safely_addressed D (snd (run_chain env usable None c m es w))"
    if sel: "resolve_alert ''email_send_failure'' ''critical'' (nw_recipients w) = Inr sel"
      and m: "checked_message (nv_valid_email env) (system_alert_message sel c s code msg) = Inr m" for sel m usable es
  proof -
    have "set (sl_addresses sel) \<subseteq> D" using alert_selected [OF sel] w unfolding safely_addressed_def by blast
    moreover have "addressed m = set (sl_addresses sel)"
      using checked_same [OF m] by (simp add: addressed_def sl_addresses_def system_alert_message_def)
    ultimately have "guards D m None" by (simp add: guards_def)
    then show ?thesis by (rule run_chain_safe [OF env _ w])
  qed
  note chain = this
  have persisted: "safely_addressed D (persist_breakers run w')" if "safely_addressed D w'" for run and w' :: "'a notify_world"
    using still_safe [OF persisted_still that] .
  show ?thesis
    unfolding try_system_alert_def Let_def
    using w chain persisted
    by (auto split: sum.split list.split prod.split)
       (metis snd_conv)+
qed


lemma finalize_result_safe:
  assumes env: "dev_list_within env D" and w: "safely_addressed D w"
  shows "safely_addressed D (snd (finalize_result env p i tok r run w))"
proof -
  let ?c = "Some (tn_correlation_id (np_tender p))"
  let ?w = "emit_failover_alerts env r ?c w"
  have w1: "safely_addressed D ?w"
    using still_safe [OF _ w] calm.failovers_ok [of env r ?c] unfolding step_obeys_def by blast
  have sent: "calm (in_session (then_do (record_result env i ?c r run) (\<lambda>_. then_do (finalize_sent env i tok p r) (\<lambda>row. give (o' row)))))"
    for o' :: "notification_log \<Rightarrow> notification_outcome" by (intro calms)
  have kept: "calm (in_session (then_do (record_result env i ?c r run) (\<lambda>_. finalize_kept env i tok p r)))" by (intro calms)
  have failed: "obeys (safe_step D) (then_do (in_session (then_do (record_result env i ?c r run) (\<lambda>_. finalize_kept env i tok p r)))
      (\<lambda>(row, already_open) w. (Inr (o' row), if already_open then w else snd (try_system_alert env ?c (s w) code msg w))))"
    for o' :: "notification_log \<Rightarrow> notification_outcome" and s code msg
    by (intro safe.then_ok calm_is_safe [OF kept]) (auto intro!: safeI try_system_alert_safe [OF env])
  show ?thesis
    using calm_safe [OF sent surjective_pairing w1] safeD [OF failed w1]
    unfolding finalize_result_def Let_def by simp
qed

lemma deliver_prepared_safe:
  assumes env: "dev_list_within env D" and w: "safely_addressed D w" and route: "dev_bound D (np_selection p)"
    and m: "\<And>m. np_message p = Some m \<Longrightarrow> addressed m = set (sl_addresses (np_selection p))"
  shows "safely_addressed D (snd (deliver_prepared env p i tok w))"
proof -
  obtain r w1 where renew: "renew_delivery_claim env i tok w = (r, w1)" by fastforce
  have w1: "safely_addressed D w1" by (rule calm_safe [OF calm_renew renew w])
  have "safely_addressed D (snd (run_chain env usable (Some (before_provider_attempt env p i tok)) c msg es w1))"
    if "np_message p = Some msg" for usable c msg es
    by (rule run_chain_safe [OF env before_guards [OF route m [OF that]] w1])
  then show ?thesis using w1 unfolding deliver_prepared_def renew Let_def
    by (cases r) (simp_all split: sum.split list.split option.split prod.split, metis snd_conv)
qed

lemma try_delivery_safe:
  assumes env: "dev_list_within env D" and w: "safely_addressed D w"
  shows "safely_addressed D (snd (try_delivery env p i tok w))"
proof -
  obtain r w1 where re: "revalidate_for_send env p i tok w = (r, w1)" by fastforce
  have w1: "safely_addressed D w1" by (rule calm_safe [OF calm_revalidate re w])
  show ?thesis
  proof (cases r)
    case (Inl x)
    then show ?thesis using w1 by (simp add: try_delivery_def re)
  next
    case (Inr v)
    show ?thesis
    proof (cases v)
      case None
      have "safely_addressed D (snd (finalize_failure env i tok p NOTIFICATION_ROUTING_FAILED msg w1))" for msg
        by (rule calm_safe [OF calm_finalize(1) surjective_pairing w1])
      then show ?thesis using Inr None by (simp add: try_delivery_def re named_def split: prod.split) (metis snd_conv)
    next
      case (Some q)
      have "dev_addresses w \<subseteq> D" using w by (simp add: safely_addressed_def)
      from revalidate_for_send_route [OF re [unfolded Inr Some] this]
      have "safely_addressed D (snd (deliver_prepared env q i tok w1))" by (intro deliver_prepared_safe [OF env w1]) blast+
      then show ?thesis using Inr Some by (simp add: try_delivery_def re split: prod.split) (metis snd_conv)
    qed
  qed
qed


lemma calm_pair: "calm f \<Longrightarrow> safely_addressed D w \<Longrightarrow> safely_addressed D (snd (f w))"
  by (rule calm_safe [OF _ surjective_pairing])

lemma deliver_and_finalize_safe:
  assumes env: "dev_list_within env D" and w: "safely_addressed D w"
  shows "safely_addressed D (snd (deliver_and_finalize env p i tok w))"
proof -
  obtain q r w1 where t: "try_delivery env p i tok w = ((q, r), w1)" by (cases "try_delivery env p i tok w") auto
  have w1: "safely_addressed D w1" using try_delivery_safe [OF env w, of p i tok] t by simp
  note failure = calm_pair [OF calm_finalize(1) w1]
  show ?thesis
  proof (cases r)
    case (Inl x)
    then show ?thesis using w1 failure by (simp add: deliver_and_finalize_def t)
  next
    case (Inr e)
    then show ?thesis using w1 finalize_result_safe [OF env w1] by (cases e) (simp_all add: deliver_and_finalize_def t)
  qed
qed

lemma reserve_safe:
  assumes env: "dev_list_within env D" and w: "safely_addressed D w"
  shows "safely_addressed D (snd (reserve env p w))"
proof (cases "get_by_dedupe_key (np_dedupe_key p) (nw_outbox w)")
  case None
  have raced: "safely_addressed D (by_others (nv_race env) w)"
    using env w by (intro others_safe) (auto simp: dev_list_within_def safely_addressed_def)
  obtain r w1 where c: "create_row env p (by_others (nv_race env) w) = (r, w1)" by fastforce
  have calm: "calm (create_row env p)" unfolding create_row_def by (intro calms)
  have w1: "safely_addressed D w1" by (rule calm_safe [where f = "create_row env p", OF calm c raced])
  show ?thesis using w1 unfolding reserve_def None c option.case
    by (simp split: sum.split notify_exn.split option.split)
qed (use w in \<open>simp add: reserve_def\<close>)

lemma send_reserved_safe:
  assumes "dev_list_within env D"
  shows "obeys (safe_step D) (send_reserved env p i)"
proof -
  have failure: "obeys (safe_step D) (finalize_failure env i tok p code msg)" for tok code msg
    by (rule calm_is_safe [OF calm_finalize(1)])
  have send: "obeys (safe_step D) (deliver_and_finalize env p i tok)" for tok
    by (rule safeI [OF deliver_and_finalize_safe [OF assms]])
  show ?thesis unfolding send_reserved_def
    by (intro safe.then_ok safe.if_ok failure send safe.ext_ok calm_is_safe calms)
qed

lemma find_SomeD: "List.find P xs = Some x \<Longrightarrow> x \<in> set xs \<and> P x"
  by (induction xs) (auto split: if_splits)

lemma test_route_dev: "test_route email w = Inr r \<Longrightarrow> email \<in> dev_addresses w"
proof -
  assume "test_route email w = Inr r"
  then have "List.find (\<lambda>r. rc_email r = email \<and> rc_list_type r = ''dev_alert'' \<and> rc_active r) (nw_recipients w) = Some r"
    by (auto simp: test_route_def Let_def split: if_splits option.splits)
  from find_SomeD [OF this] show ?thesis by (auto simp: dev_addresses_def)
qed

lemma recheck_calm: "calm (recheck_test_route email)"
  by (auto simp: obeys_def still_def recheck_test_route_def from_result_def split: sum.splits)

lemma recheck_ok: "recheck_test_route email w = (Inr (), w') \<Longrightarrow> w' = w \<and> (\<exists>r. test_route email w = Inr r)"
  by (cases "test_route email w") (simp_all add: recheck_test_route_def from_result_def)

lemma test_guards:
  fixes D :: "string set"
  assumes "addressed m = {email}"
  shows "guards D m (Some (recheck_test_route email :: ('w, unit) notify_action))"
proof -
  have "may_go D m w'" if w: "safely_addressed D w" and f: "recheck_test_route email w = (Inr (), w')" for w w' :: "'w notify_world"
  proof -
    obtain r where r: "test_route email w = Inr r" and same: "w' = w" using recheck_ok [OF f] by blast
    have "dev_addresses w \<subseteq> D" using w by (simp add: safely_addressed_def)
    then have "addressed m \<subseteq> D" using test_route_dev [OF r] assms by auto
    then show ?thesis unfolding may_go_def ..
  qed
  moreover have "calm (recheck_test_route email :: ('w, unit) notify_action)" by (rule recheck_calm)
  ultimately show ?thesis by (simp add: guards_def)
qed

lemma finish_test_calm: "calm (finish_test env i key c r run)"
proof -
  have "calm (\<lambda>w. (Inr (), case get_row i (nw_outbox w) of None \<Rightarrow> w | Some row \<Rightarrow> store_row (tested_row r now row) w))" for now
    by (auto simp: obeys_def still_def store_row_def split: option.split)
  then show ?thesis unfolding finish_test_def by (intro calms)
qed

lemma record_test_calm: "calm (record_test env email key c s b)"
proof -
  have "calm (test_row env r key c s b)" for r
    unfolding test_row_def by (intro calms) (simp add: obeys_def still_def store_row_def)
  then show ?thesis by (simp add: obeys_def record_test_def still_def split: sum.split)
qed

lemma deliver_test_safe:
  fixes env :: "'w notify_env"
  assumes env: "dev_list_within env D"
  shows "obeys (safe_step D) (deliver_test env email (test_message email s b key c) i key' c' preferred)"
proof (rule safeI)
  fix w :: "'w notify_world"
  assume w: "safely_addressed D w"
  let ?m = "test_message email s b key c"
  have m: "addressed ?m = {email}" by (simp add: addressed_def test_message_def)
  have "safely_addressed D w1" if "run_chain env usable (Some (recheck_test_route email)) (Some c') ?m es w = (x, w1)" for usable es x w1
    using run_chain_safe [OF env test_guards [OF m] w, of usable "Some c'" es] that by simp
  then show "safely_addressed D (snd (deliver_test env email ?m i key' c' preferred w))"
    unfolding deliver_test_def Let_def using w by (simp add: calm_pair [OF finish_test_calm] split: sum.split list.split prod.split)
qed

lemma send_test_email_safe:
  "dev_list_within env D \<Longrightarrow> obeys (safe_step D) (send_test_email env email subject' text_body correlation_id preferred)"
  unfolding send_test_email_def
  by (intro safe.then_ok safe.ext_ok safe.session_ok calm_is_safe [OF record_test_calm] deliver_test_safe)

text \<open>C5: Whom a notification may reach.  While Test Mode is on no request leaves the service for an address that is
  not on the development list: whatever the providers answer, however the settings, the recipients and the
  outbox change meanwhile, and including the system alert a failed delivery sends.
  The same holds of the operator's test e-mail.\<close>

theorem test_mode_confines_requests:
  assumes "dev_list_within env D" and "safely_addressed D w"
  shows "safely_addressed D (snd (notify_tender env tender_id verdict_id event dry_run w))
    \<and> safely_addressed D (snd (send_test_email env email subject' text_body correlation_id preferred w))"
proof -
  have prepare: "obeys (safe_step D) (prepare env tender_id verdict_id event)" by (intro calm_is_safe calms)
  have reserve: "obeys (safe_step D) (reserve env p)" for p by (rule safeI [OF reserve_safe [OF assms(1)]])
  have rest: "obeys (safe_step D) (\<lambda>w. (case (row, created) of (row, created) \<Rightarrow>
      if \<not> created then give (already_notified row) else send_reserved env p (nl_id row)) w)" for p row created
    unfolding prod.case by (intro safe.if_ok safe.give_ok send_reserved_safe assms(1))
  have "obeys (safe_step D) (notify_tender env tender_id verdict_id event dry_run)"
    unfolding notify_tender_def
    by (intro safe.then_ok prepare safe.if_ok safe.give_ok reserve) (use rest in \<open>auto split: prod.split\<close>)
  then show ?thesis using safeD assms(2) send_test_email_safe [OF assms(1)] by blast
qed

section \<open>A concrete service\<close>

definition demo_verdict :: verdict_row where
  "demo_verdict = \<lparr>vd_id = 4, vd_tender_id = tn_id sample_tender, vd_recommendation = ''APPLY'', vd_confidence = None, vd_background_summary = None,
     vd_requirements_summary = JList [], vd_gap_analysis = JList [], vd_urgency_flag = False, vd_generated_at = 0,
     vd_llm_profile_id = None, vd_model = None, vd_knowledge_base_version_id = None, vd_knowledge_base_evidence = JNull,
     vd_prompt_version = None, vd_incomplete_inputs = False, vd_schema_version = ''1'', vd_provider = None, vd_map_reduce_used = False, vd_run_id = None,
     vd_deadline_status = None, vd_deadline_utc = None, vd_deadline_date = None, vd_deadline_time = None, vd_deadline_timezone = None,
     vd_source_timezone = None\<rparr>"

definition demo_provider :: mail_provider where
  "demo_provider = \<lparr>mv_row = \<lparr>pr_id = 1, pr_priority = 1, pr_active = True, pr_breaker_state = None, pr_breaker_until = None\<rparr>,
     mv_name = ''p'', mv_type = ''other'', mv_capabilities = [], mv_failures = None\<rparr>"

definition demo_dev :: recipient where
  "demo_dev = \<lparr>rc_id = 1, rc_email = ''dev@x'', rc_name = None, rc_role = None, rc_list_type = ''dev_alert'', rc_delivery = ''to'',
     rc_source_scope = None, rc_receives_filter = None, rc_alert_types = None, rc_min_severity = None, rc_active = True\<rparr>"

definition demo_notify_env :: "unit notify_env" where
  "demo_notify_env = \<lparr>nv_lib = demo_lib, nv_signer = demo_signer, nv_sha256 = id, nv_now = (\<lambda>x. (0, x)), nv_local = id,
     nv_clock = (\<lambda>x. (0, x)), nv_monotonic = (\<lambda>x. (0, x)), nv_uuid = (\<lambda>x. (''u'', x)), nv_tokens = (\<lambda>x. (\<lambda>_. ''t'', x)),
     nv_iso_date = (\<lambda>_. []), nv_isoformat = (\<lambda>_. []), nv_fromiso = (\<lambda>_. None), nv_valid_email = (\<lambda>_. True),
     nv_adapter = (\<lambda>_. True), nv_domain_ready = (\<lambda>_. True),
     nv_send = (\<lambda>e m w. (SendReturned \<lparr>sd_provider_name = ''p'', sd_ok = True, sd_error_code = None, sd_provider_message_id = None, sd_duration_ms = None\<rparr>, w)),
     nv_sleep = (\<lambda>d w. w), nv_race = id, nv_locked = (\<lambda>_. False), nv_usage_fault = (\<lambda>_ _. False), nv_usage_conflict = (\<lambda>_. None),
     nv_probe_fault = (\<lambda>_ _. False), nv_hook = None,
     nv_policy = \<lparr>mp_attempts = 1, mp_backoff_base_seconds = 0, mp_backoff_max_seconds = 0\<rparr>, nv_breaker_threshold = 3, nv_breaker_cooldown = 60,
     nv_lease_us = 60000000\<rparr>"

definition demo_notify_world :: "recipient list \<Rightarrow> notification_log list \<Rightarrow> unit notify_world" where
  "demo_notify_world rs rows = \<lparr>nw_setting = Some \<lparr>sg_test_mode = True, sg_link_expiry_days = None\<rparr>, nw_tenders = [sample_tender],
     nw_source = (\<lambda>_. (''src'', None)), nw_documents = [], nw_objects = (\<lambda>_. None), nw_verdicts = [demo_verdict], nw_recipients = rs,
     nw_providers = [demo_provider], nw_usage = (\<lambda>_. None), nw_outbox = \<lparr>ob_next_id = 2, ob_rows = rows, ob_attempts = []\<rparr>,
     nw_alerts = [], nw_limiter = new_usage_limiter, nw_requests = [], nw_ext = ()\<rparr>"

definition demo_row :: notification_log where
  "demo_row = \<lparr>nl_id = 1, nl_created_at = 0, nl_tender_id = Some 1, nl_verdict_id = Some 4, nl_correlation_id = Some ''c'',
    nl_recipients_snapshot = JList [JObj [(''email'', JStr ''gone@x''), (''delivery'', JStr ''to''), (''list_type'', JStr ''dev_alert'')]],
    nl_sent_at = None, nl_attachments = JList [], nl_links = JList [], nl_status = ''pending_retry'', nl_provider_used = None,
    nl_dedupe_key = ''k'', nl_possible_duplicate = False, nl_error = None, nl_notification_kind = ''new'', nl_priority = 100,
    nl_message_payload = JObj [(''subject'', JStr ''s''), (''text_body'', JStr ''t'')], nl_next_retry_at = None, nl_claim_token = None,
    nl_claim_until = None, nl_attempt_count = 0, nl_last_error_code = None\<rparr>"

lemma demo_dev_list: "dev_list_within demo_notify_env D"
  by (simp add: dev_list_within_def demo_notify_env_def)

theorem test_mode_confines_requests_witness:
  "safely_addressed {''dev@x''} (snd (notify_tender demo_notify_env 1 (Some 4) None False (demo_notify_world [demo_dev] [])))"
proof -
  have "safely_addressed {''dev@x''} (demo_notify_world [demo_dev] [])"
    by (auto simp: safely_addressed_def dev_addresses_def demo_notify_world_def demo_dev_def)
  then show ?thesis using test_mode_confines_requests [OF demo_dev_list] by blast
qed

section \<open>What is reported as sent\<close>

definition requested :: "email_message \<Rightarrow> 'w notify_world \<Rightarrow> bool" where
  "requested m w \<longleftrightarrow> m \<in> snd ` set (nw_requests w)"

interpretation requests_recorded: recorded_delivery "chain_env_of env usable check" m "requested m"
  for env :: "'w notify_env" and usable check m
proof
  fix e and w :: "'w notify_world" and r
  assume "classify_send (fst (ce_send (chain_env_of env usable check) e m w)) = Inr r"
  then have "pe_provider_id e \<in> usable"
    by (cases "pe_provider_id e \<in> usable") (auto simp: chain_env_of_def request_def classify_send_def)
  then show "requested m (snd (ce_send (chain_env_of env usable check) e m w))"
    by (simp add: chain_env_of_def request_def Let_def by_others_def requested_def)
next
  fix w :: "'w notify_world"
  assume "requested m w"
  then show "requested m (snd (ce_monotonic (chain_env_of env usable check) w))"
    by (simp add: chain_env_of_def read_clock_def requested_def split: prod.split)
qed

lemma still_requested: "still w w' \<Longrightarrow> requested m w \<Longrightarrow> requested m w'"
  by (simp add: still_def requested_def)

lemma run_chain_requested:
  assumes "run_chain env usable check c m es w = ((Inr r, run), w')" "cr_delivered r"
  shows "requested m w'"
proof -
  let ?d = "deliver (chain_env_of env usable check) (nv_policy env) m es (nw_limiter w) w"
  have r: "dl_result ?d = Inr r"
    and w': "w' = forward_events env c (dl_entries ?d) ((cs_world (dl_state ?d))\<lparr>nw_limiter := cs_usage (dl_state ?d)\<rparr>)"
    using assms(1) by (simp_all add: run_chain_def Let_def)
  have "requested m ((cs_world (dl_state ?d))\<lparr>nw_limiter := cs_usage (dl_state ?d)\<rparr>)"
    using requests_recorded.deliver_marks [OF r assms(2)] by (simp add: requested_def)
  moreover have "still x (forward_events env c es' x)" for x es' using calm.forward_ok unfolding step_obeys_def by blast
  ultimately show ?thesis unfolding w' using still_requested by blast
qed

lemma calm_requested: "calm f \<Longrightarrow> f w = (r, w') \<Longrightarrow> requested m w \<Longrightarrow> requested m w'"
  by (rule still_requested [OF obeysD])

section \<open>The message of a notification\<close>

text \<open>A message of the notification of a tender and a verdict: its key names both and the recipients it is for.
  Without a given verdict the key is that of the verdict found, or of none.\<close>

definition message_for :: "'w notify_env \<Rightarrow> int \<Rightarrow> int option \<Rightarrow> email_message \<Rightarrow> bool" where
  "message_for env tender_id verdict_id m \<longleftrightarrow> (\<exists>sel vid. (verdict_id \<noteq> None \<longrightarrow> vid = verdict_id)
     \<and> em_dedupe_key m = notification_key env tender_id vid sel
     \<and> em_to m = sl_to sel \<and> em_cc m = sl_cc sel \<and> em_bcc m = sl_bcc sel)"

definition prepared_for :: "int \<Rightarrow> int option \<Rightarrow> prepared_notification \<Rightarrow> bool" where
  "prepared_for tender_id verdict_id p \<longleftrightarrow> tn_id (np_tender p) = tender_id
     \<and> (verdict_id \<noteq> None \<longrightarrow> map_option vd_id (np_verdict p) = verdict_id)"

lemma then_do_Inr: "then_do f k w = (Inr b, w') \<longleftrightarrow> (\<exists>a w1. f w = (Inr a, w1) \<and> k a w1 = (Inr b, w'))"
  by (auto simp: then_do_def split: prod.splits sum.splits)

lemma in_session_Inr: "in_session f w = (Inr a, w') \<longleftrightarrow> f w = (Inr a, w')"
  by (auto simp: in_session_def split: prod.splits sum.splits)

lemma from_result_Inr: "from_result f r w = (Inr a, w') \<longleftrightarrow> r = Inr a \<and> w' = w"
  by (cases r) (auto simp: from_result_def)

lemma composed_parts:
  "compose_message env t c sel pairs links key = Inr m \<Longrightarrow>
     em_dedupe_key m = key \<and> em_to m = sl_to sel \<and> em_cc m = sl_cc sel \<and> em_bcc m = sl_bcc sel"
  by (auto simp: compose_message_def bind_result_eq_Inr dest!: checked_same)

lemma resent_parts:
  assumes "resend_message env p t tm sel key = Inr (Some m)"
  shows "em_dedupe_key m = key \<and> em_to m = sl_to sel \<and> em_cc m = sl_cc sel \<and> em_bcc m = sl_bcc sel"
proof -
  have composed: "em_dedupe_key m = key \<and> em_to m = sl_to sel \<and> em_cc m = sl_cc sel \<and> em_bcc m = sl_bcc sel"
    if "map_sum id Some (compose_message env t c sel pairs links key) = Inr (Some m)" for c pairs links
    using that composed_parts [of env t c sel pairs links key m] by (cases "compose_message env t c sel pairs links key") auto
  then show ?thesis using assms by (auto simp: resend_message_def split: if_splits option.splits)
qed

lemma identified_ids:
  "identified tender_id verdict_id event w = Inr (t, v) \<Longrightarrow>
     tn_id t = tender_id \<and> (verdict_id \<noteq> None \<longrightarrow> map_option vd_id v = verdict_id)"
  by (auto simp: identified_def get_tender_def get_verdict_def resolve_verdict_def checked_verdict_def Let_def
      bind_result_eq_Inr find_Some_iff split: option.splits if_splits)

lemma prepare_for:
  assumes "prepare env tender_id verdict_id event w = (Inr p, w')"
  shows "prepared_for tender_id verdict_id p"
proof -
  obtain t v where ids: "identified tender_id verdict_id event w = Inr (t, v)"
    using assms by (auto simp: prepare_def split: sum.splits)
  obtain tm days where settings: "load_settings w = (tm, days)" by fastforce
  obtain content pairs where payload: "prepare_payload env t v tm (kind_for t event) event w = (content, pairs)" by fastforce
  obtain candidates where cands: "candidate_pairs pairs (kind_for t event) event = Inr candidates"
    using assms by (cases "candidate_pairs pairs (kind_for t event) event") (simp_all add: prepare_def ids settings payload)
  obtain overhead where over: "message_overhead (nv_lib env) content candidates = Inr overhead"
    using assms by (cases "message_overhead (nv_lib env) content candidates") (simp_all add: prepare_def ids settings payload cands)
  have "np_tender p = t \<and> np_verdict p = v"
    using assms by (auto simp: prepare_def ids settings payload cands over Let_def then_do_Inr from_result_Inr bind_result_eq_Inr)
  then show ?thesis using identified_ids [OF ids] by (simp add: prepared_for_def)
qed

lemma revalidated_for:
  assumes "revalidated env p row w = Inr (Some (p', row'))" "prepared_for tender_id verdict_id p" "np_message p' = Some m"
  shows "message_for env tender_id verdict_id m"
proof -
  obtain t v where tv: "reread p w = Inr (t, v)" using assms(1) by (auto simp: revalidated_def bind_result_eq_Inr)
  obtain sel where sel: "route t v (fst (load_settings w)) w = Inr sel"
    using assms(1) tv by (auto simp: revalidated_def Let_def split: sum.splits)
  let ?key = "notification_key env (tn_id t) (map_option vd_id v) sel"
  have "map_sum OtherFailed id (resend_message env p t (fst (load_settings w)) sel ?key) = Inr (Some m)"
    using assms(1,3) tv sel by (auto simp: revalidated_def Let_def bind_result_eq_Inr)
  then have "resend_message env p t (fst (load_settings w)) sel ?key = Inr (Some m)"
    by (cases "resend_message env p t (fst (load_settings w)) sel ?key") auto
  from resent_parts [OF this] have parts: "em_dedupe_key m = ?key" "em_to m = sl_to sel" "em_cc m = sl_cc sel" "em_bcc m = sl_bcc sel"
    by blast+
  have "tn_id t = tn_id (np_tender p)" "map_option vd_id v = map_option vd_id (np_verdict p)"
    using tv by (auto simp: reread_def get_tender_def get_verdict_def find_Some_iff split: option.splits)
  then have "tn_id t = tender_id" "verdict_id \<noteq> None \<longrightarrow> map_option vd_id v = verdict_id"
    using assms(2) by (auto simp: prepared_for_def)
  then show ?thesis using parts unfolding message_for_def by blast
qed

section \<open>The flush\<close>

lemma finalize_failure_pending: "finalize_failure env i tok p code msg w = (Inr out, w') \<Longrightarrow> no_status out = ''pending_retry''"
  by (auto simp: finalize_failure_def in_session_Inr then_do_Inr give_def pending_outcome_def)

lemma deliver_prepared_requested:
  assumes "deliver_prepared env p i tok w = (Inr (ChainEnded r run), w')" "cr_delivered r"
  shows "\<exists>m. np_message p = Some m \<and> requested m w'"
proof -
  obtain x w1 where renew: "renew_delivery_claim env i tok w = (x, w1)" by fastforce
  let ?rows = "providers_ordered (nw_providers w1)"
  obtain y where x: "x = Inr y" using assms(1) renew by (cases x) (simp_all add: deliver_prepared_def)
  obtain e es where es: "build_chain env ?rows (dp_provider_id (np_plan p)) = Inr (e # es)"
    using assms by (auto simp: deliver_prepared_def renew x Let_def failed_result_def split: sum.splits list.splits)
  then obtain m where m: "np_message p = Some m"
    using assms(1) by (auto simp: deliver_prepared_def renew x Let_def split: option.splits)
  obtain z w2 where "run_chain env (usable_ids env ?rows) (Some (before_provider_attempt env p i tok))
      (Some (tn_correlation_id (np_tender p))) m (e # es) w1 = (z, w2)" by fastforce
  moreover obtain q run' where "z = (q, run')" by fastforce
  ultimately have chain: "run_chain env (usable_ids env ?rows) (Some (before_provider_attempt env p i tok))
      (Some (tn_correlation_id (np_tender p))) m (e # es) w1 = ((q, run'), w2)" by simp
  then have "q = Inr r" "w' = w2" using assms(1) m es by (cases q; simp add: deliver_prepared_def renew x Let_def)+
  then show ?thesis using run_chain_requested [OF chain [unfolded \<open>q = Inr r\<close>] assms(2)] m by blast
qed

lemma finalize_result_sent:
  assumes "finalize_result env p i tok r run w = (Inr out, w')" "no_status out = ''sent''"
  shows "cr_delivered r \<and> (requested m w \<longrightarrow> requested m w')"
proof (cases "cr_delivered r")
  case True
  let ?c = "Some (tn_correlation_id (np_tender p))"
  have calm: "calm (in_session (then_do (record_result env i ?c r run) (\<lambda>_. then_do (finalize_sent env i tok p r) (\<lambda>row. give (f row)))))"
    for f :: "notification_log \<Rightarrow> notification_outcome" by (intro calms)
  have "requested m (emit_failover_alerts env r ?c w)" if "requested m w"
    using still_requested [OF _ that] calm.failovers_ok [of env r ?c] unfolding step_obeys_def by blast
  then show ?thesis using True assms(1) calm_requested [OF calm] unfolding finalize_result_def Let_def by auto
next
  case False
  then show ?thesis using assms by (auto simp: finalize_result_def Let_def then_do_Inr pending_outcome_def)
qed

lemma map_sum_Inr: "map_sum f g x = Inr y \<longleftrightarrow> (\<exists>z. x = Inr z \<and> g z = y)"
  by (cases x) auto

lemma four_branches:
  "(if a then x1 else if b then x2 else if c then x3 else x4) = y \<Longrightarrow> (x1 = y \<Longrightarrow> P) \<Longrightarrow> (x2 = y \<Longrightarrow> P)
    \<Longrightarrow> (x3 = y \<Longrightarrow> P) \<Longrightarrow> (x4 = y \<Longrightarrow> P) \<Longrightarrow> P"
  by (simp split: if_splits)

lemma delivery_sent_requested:
  assumes "deliver_and_finalize env p i tok w = (Inr out, w')" "no_status out = ''sent''"
    and p: "prepared_for tender_id verdict_id p"
  shows "\<exists>m. message_for env tender_id verdict_id m \<and> requested m w'"
proof -
  obtain q x w1 where t: "try_delivery env p i tok w = ((q, x), w1)" by (cases "try_delivery env p i tok w") auto
  have kept: "no_status out \<noteq> ''sent''" if "finalize_failure env i tok q' code msg w2 = (Inr out, w')" for q' code msg w2
    using finalize_failure_pending [OF that] by simp
  have "no_status out \<noteq> ''sent''" if "x = Inl e" for e
    using assms(1) unfolding deliver_and_finalize_def t that prod.case sum.case
    by (rule four_branches) (erule kept, force simp: pending_outcome_def, erule kept, erule kept)
  then obtain y where x: "x = Inr y" using assms(2) by (cases x) auto
  have prep: "deliver_prepared env q' i tok w2 = (Inr (ChainEnded r run), w1)"
    if "y = ChainEnded r run" "revalidate_for_send env p i tok w = (Inr (Some q'), w2)" for r run q' w2
    using t x that by (auto simp: try_delivery_def split: prod.splits)
  show ?thesis
  proof (cases y)
    case (EndedEarly o1)
    obtain w2 where "finalize_failure env i tok p NOTIFICATION_ROUTING_FAILED ''no safe active recipient is configured at send time'' w2 = (Inr o1, w1)"
      using t x EndedEarly by (auto simp: try_delivery_def named_def deliver_prepared_def Let_def map_sum_Inr
        split: prod.splits sum.splits option.splits list.splits)
    then have "no_status o1 = ''pending_retry''" by (rule finalize_failure_pending)
    then show ?thesis using assms EndedEarly x by (simp add: deliver_and_finalize_def t)
  next
    case (ChainEnded r run)
    have fin: "finalize_result env q i tok r (Some run) w1 = (Inr out, w')"
      using assms(1) ChainEnded x by (simp add: deliver_and_finalize_def t)
    obtain q' w2 where "revalidate_for_send env p i tok w = (Inr (Some q'), w2)"
      using t x ChainEnded by (auto simp: try_delivery_def named_def map_sum_Inr split: prod.splits sum.splits option.splits)
    then obtain row row' where "revalidated env p row w = Inr (Some (q', row'))"
      by (auto simp: revalidate_for_send_def in_session_def split: option.splits sum.splits prod.splits if_splits)
    from revalidated_for [OF this p] prep [OF ChainEnded \<open>revalidate_for_send env p i tok w = _\<close>] finalize_result_sent [OF fin assms(2)]
    show ?thesis using deliver_prepared_requested by blast
  qed
qed

lemma finish_test_requested: "finish_test env i key c r run w = (x, w') \<Longrightarrow> requested m w \<Longrightarrow> requested m w'"
  by (rule calm_requested [OF finish_test_calm])

lemma deliver_test_requested:
  assumes "deliver_test env email m i key c preferred w = (Inr out, w')" "no_status out = ''sent''"
  shows "requested m w'"
proof -
  let ?rows = "providers_ordered (nw_providers w)"
  have status: "(no_status out = ''sent'') = cr_delivered r" if "finish_test env i key c r run w1 = (Inr out, w')" for r run w1
    using that by (cases "cr_delivered r") (auto simp: finish_test_def then_do_Inr give_def)
  obtain es where es: "bind_result (checked_message (nv_valid_email env) m) (\<lambda>_. build_chain env ?rows preferred) = Inr es"
    using assms(1) by (auto simp: deliver_test_def Let_def split: sum.splits)
  obtain e es' where cons: "es = e # es'"
  proof (cases es)
    case Nil
    then show ?thesis using assms es status by (auto simp: deliver_test_def Let_def failed_result_def)
  qed auto
  obtain z w1 where "run_chain env (usable_ids env ?rows) (Some (recheck_test_route email)) (Some c) m (e # es') w = (z, w1)" by fastforce
  moreover obtain q run where "z = (q, run)" by fastforce
  ultimately have chain: "run_chain env (usable_ids env ?rows) (Some (recheck_test_route email)) (Some c) m (e # es') w = ((q, run), w1)" by simp
  then obtain r where r: "q = Inr r" and fin: "finish_test env i key c r (Some run) w1 = (Inr out, w')"
    using assms(1) es cons by (cases q) (simp_all add: deliver_test_def Let_def)
  show ?thesis using finish_test_requested [OF fin run_chain_requested [OF chain [unfolded r]]] status [OF fin] assms(2) by simp
qed

lemma notify_sent_requested:
  assumes "notify_tender env tender_id verdict_id event dry_run w = (Inr out, w')" "no_status out = ''sent''"
  shows "\<exists>m. message_for env tender_id verdict_id m \<and> requested m w'"
proof -
  obtain p w1 w0 where prepared: "prepare env tender_id verdict_id event w0 = (Inr p, w1)"
    and rest: "(if dry_run then give (dry_run_outcome (np_dedupe_key p)) else then_do (reserve env p) (\<lambda>(row, created).
      if \<not> created then give (already_notified row) else send_reserved env p (nl_id row))) w1 = (Inr out, w')"
    using assms(1) unfolding notify_tender_def then_do_Inr by blast
  note p = prepare_for [OF prepared]
  have "\<not> dry_run" using rest assms(2) by (auto simp: give_def dry_run_outcome_def)
  then obtain row created w2 where row: "(if \<not> created then give (already_notified row) else send_reserved env p (nl_id row)) w2 = (Inr out, w')"
    using rest by (auto simp: then_do_Inr)
  have created using row assms(2) by (cases created) (auto simp: give_def already_notified_def)
  then obtain i where "send_reserved env p i w2 = (Inr out, w')" using row by auto
  then obtain tok w3 where sent: "(if np_message p = None
      then finalize_failure env i tok p NOTIFICATION_ROUTING_FAILED ''no safe active recipient is configured''
      else deliver_and_finalize env p i tok) w3 = (Inr out, w')"
    unfolding send_reserved_def then_do_Inr by blast
  show ?thesis
  proof (cases "np_message p = None")
    case True
    then have "finalize_failure env i tok p NOTIFICATION_ROUTING_FAILED ''no safe active recipient is configured'' w3 = (Inr out, w')"
      using sent by simp
    then have "no_status out = ''pending_retry''" by (rule finalize_failure_pending)
    then show ?thesis using assms(2) by simp
  next
    case False
    then have "deliver_and_finalize env p i tok w3 = (Inr out, w')" using sent by (simp only: if_False)
    then show ?thesis using assms(2) p by (rule delivery_sent_requested)
  qed
qed

lemma finish_test_key: "finish_test env i key c r run w = (Inr out, w') \<Longrightarrow> no_dedupe_key out = key"
  by (auto simp: finish_test_def then_do_Inr give_def)

lemma deliver_test_key: "deliver_test env email m i key c preferred w = (Inr out, w') \<Longrightarrow> no_dedupe_key out = key"
  by (auto simp: deliver_test_def Let_def dest!: finish_test_key split: sum.splits list.splits prod.splits)

text \<open>C39: No false report: when the service reports a notification as sent, the message of that notification, with
  the key of its tender and verdict and addressed to the recipients that key names, was handed to a provider
  whose adapter could be constructed; and when it reports a test e-mail as sent, so was a message to that
  address alone, with the key it reports.  The records of requests are those of the call itself.\<close>

theorem sent_was_requested:
  assumes "no_status out = ''sent''" and "nw_requests w = []"
  shows "(notify_tender env tender_id verdict_id event dry_run w = (Inr out, w') \<longrightarrow>
      (\<exists>m \<in> snd ` set (nw_requests w'). message_for env tender_id verdict_id m))
    \<and> (send_test_email env email subject' text_body correlation_id preferred w = (Inr out, w') \<longrightarrow>
      (\<exists>m \<in> snd ` set (nw_requests w'). em_to m = [email] \<and> em_cc m = [] \<and> em_bcc m = []
         \<and> em_text_body m = text_body \<and> em_dedupe_key m = no_dedupe_key out))"
proof (intro conjI impI)
  assume "notify_tender env tender_id verdict_id event dry_run w = (Inr out, w')"
  from notify_sent_requested [OF this assms(1)]
  show "\<exists>m \<in> snd ` set (nw_requests w'). message_for env tender_id verdict_id m" unfolding requested_def by blast
next
  assume "send_test_email env email subject' text_body correlation_id preferred w = (Inr out, w')"
  then obtain u c i w1 where sent: "deliver_test env email (test_message email subject' text_body (''admin-test:'' @ u) c) i
      (''admin-test:'' @ u) c preferred w1 = (Inr out, w')"
    unfolding send_test_email_def then_do_Inr by blast
  let ?m = "test_message email subject' text_body (''admin-test:'' @ u) c"
  have "?m \<in> snd ` set (nw_requests w')" using deliver_test_requested [OF sent assms(1)] unfolding requested_def .
  moreover have "em_to ?m = [email] \<and> em_cc ?m = [] \<and> em_bcc ?m = [] \<and> em_text_body ?m = text_body
      \<and> em_dedupe_key ?m = no_dedupe_key out"
    using deliver_test_key [OF sent] by (simp add: test_message_def)
  ultimately show "\<exists>m \<in> snd ` set (nw_requests w'). em_to m = [email] \<and> em_cc m = [] \<and> em_bcc m = []
         \<and> em_text_body m = text_body \<and> em_dedupe_key m = no_dedupe_key out" by blast
qed

theorem sent_was_requested_witness:
  "\<exists>m \<in> snd ` set (nw_requests (snd (send_test_email demo_notify_env ''dev@x'' ''s'' ''t'' None None (demo_notify_world [demo_dev] [])))).
     em_to m = [''dev@x''] \<and> em_text_body m = ''t''"
proof -
  let ?w = "demo_notify_world [demo_dev] []"
  have "(case send_test_email demo_notify_env ''dev@x'' ''s'' ''t'' None None ?w of
      (Inr out, w') \<Rightarrow> no_status out = ''sent'' | _ \<Rightarrow> False)" by code_simp
  then obtain out w' where out: "send_test_email demo_notify_env ''dev@x'' ''s'' ''t'' None None ?w = (Inr out, w')"
      "no_status out = ''sent''" by (auto split: prod.splits sum.splits)
  have "nw_requests ?w = []" by (simp add: demo_notify_world_def)
  from sent_was_requested [OF out(2) this, THEN conjunct2, rule_format, OF out(1)] show ?thesis unfolding out(1) snd_conv by blast
qed

section \<open>The flush\<close>

text \<open>A flush does not keep this promise.  When the revalidation at the wire boundary finds no recipient, the flush
  still hands the message of the stored row to a provider: with Test Mode on and no active recipient left, a
  removed address is mailed and the row counts as sent.\<close>

lemma flush_mails_removed_recipient:
  "\<exists>(env :: unit notify_env) w m row.
     fst (load_settings w) \<and> nw_recipients w = [] \<and> nw_requests w = []
   \<and> nw_requests (snd (flush_pending_retry env 10 w)) = [(True, m)] \<and> addressed m = {''gone@x''}
   \<and> ob_rows (nw_outbox (snd (flush_pending_retry env 10 w))) = [row] \<and> nl_status row = ''sent''"
proof -
  let ?w = "demo_notify_world [] [demo_row]"
  obtain u w' where flush: "flush_pending_retry demo_notify_env 10 ?w = (u, w')" by fastforce
  have "(case flush_pending_retry demo_notify_env 10 ?w of (u, w') \<Rightarrow>
      (map (\<lambda>(t, m). (t, em_to m, em_cc m, em_bcc m)) (nw_requests w'), map nl_status (ob_rows (nw_outbox w'))))
    = ([(True, [''gone@x''], [], [])], [''sent''])" by code_simp
  then obtain m row where "nw_requests w' = [(True, m)]" "em_to m = [''gone@x'']" "em_cc m = []" "em_bcc m = []"
      "ob_rows (nw_outbox w') = [row]" "nl_status row = ''sent''"
    unfolding flush prod.case prod.inject by (auto simp: map_eq_Cons_conv)
  then have "nw_requests (snd (flush_pending_retry demo_notify_env 10 ?w)) = [(True, m)]" "addressed m = {''gone@x''}"
      "ob_rows (nw_outbox (snd (flush_pending_retry demo_notify_env 10 ?w))) = [row]" "nl_status row = ''sent''"
    unfolding flush addressed_def by simp_all
  moreover have "fst (load_settings ?w) \<and> nw_recipients ?w = [] \<and> nw_requests ?w = []" by code_simp
  ultimately show ?thesis by blast
qed

end
