(* ===== verification/Spec2Isabelle.thy ===== *)
theory Spec2Isabelle
  imports Prelude ErrorCodes Breaker MailErrors Planner Backoff Chain ChainProps UsageWindow
    Outbox OutboxProps OutboxFlow ProviderStore Router TenderStore Classify Dedup DedupProps DedupRerun
    PyText Documents SafeNames Archive Fetcher Acquire AcquireInv AcquireProps
    Stages Scheduler Registry RunState StageBodies LateStages
    Coordinator CoordinatorProps CoordinatorFrame WorkerPass
    Alerts Triage TriageProps Regex Deadline DeadlineProps Timeline TimelineProps
    Links Templates TemplateProps NotifyBase NotifyPrepare NotifySend NotifyFlush DeliveryFrame NotifySafety NotifyProps
begin

text \<open>
  A verification library for the tender-intelligence pipeline, the Python package under
  \<open>src/src/tender_intelligence\<close>.  The program watches procurement portals: a worker runs every due
  source through nine stages (configuration, discovery, deduplication, detail, persistence,
  acquisition, processing, triage and verdict, notification), and a mail subsystem delivers what the
  last stage queued.  Paths below are relative to the package.

  How the parts interact.  \<open>orchestrator/worker.py\<close> selects the sources that are due
  (\<open>orchestrator/scheduler.py\<close>, \<open>orchestrator/registry.py\<close>) and calls the coordinator
  (\<open>orchestrator/coordinator.py\<close>) once per source.  The coordinator runs its stages through the stage
  runner (\<open>orchestrator/stages.py\<close>), with the retry of \<open>orchestrator/retry.py\<close> around the stages that
  reach outside; deduplication (\<open>dedup\<close>) is the only stage that writes tenders, the repositories
  (\<open>db/repositories\<close>) are what every service writes through, acquisition (\<open>acquisition\<close>) turns
  attachments into stored documents, and notification puts rows into the outbox, from which a
  delivery is handed to the provider chain (\<open>mail/chain.py\<close>) after recipient routing
  (\<open>notifications/router.py\<close>).

  Conventions.  Code that may raise returns a sum, \<open>Inl\<close> the exception.  Code that acts on the world is
  a function that returns its result with the world it leaves, so an exception keeps the effects that
  precede it.  Tables are lists of records in insertion order; an instant is a count of microseconds;
  a Python \<open>float\<close> is a real (in \<open>Triage\<close> with infinities and NaN), an \<open>int\<close> an integer, a string a list of code points 0 to 255, bytes are
  8-bit words.  What is not under \<open>src\<close> (HTTP clients, mail servers, the archive format, SHA-256, the
  clock, the sleeping, the services a class is constructed with and not modelled here) is a field of an
  environment record or an argument; what a theorem needs of it is a named hypothesis.

  Mail.
  \<open>ErrorCodes\<close>: \<open>core/errors.py\<close>, \<open>core/result.py\<close>.
  \<open>Breaker\<close>: the circuit breaker of \<open>mail/breaker.py\<close> as operations on one record, its invariant over
  every history of calls, and when it opens and lets a probe pass.
  \<open>MailErrors\<close>: \<open>mail/errors.py\<close>, the classification of HTTP answers.
  \<open>Planner\<close>: \<open>mail/planner.py\<close> and the capabilities of \<open>mail/provider.py\<close>; a plan respects every limit.
  \<open>Backoff\<close>: the delays and the retry loop of \<open>orchestrator/retry.py\<close>, with the contract of a bounded
  delay as the locale \<open>bounded_backoff\<close>, interpreted here and in \<open>Chain\<close>.
  \<open>Chain\<close>, \<open>ChainProps\<close>: \<open>ProviderChain.deliver\<close> with gating, attempts, failover and callbacks; the log of
  a delivery, its duplicate flag, what happens to a half-open provider.
  \<open>UsageWindow\<close>: the in-process limiter of the chain.  \<open>ProviderStore\<close>: the durable counters and the
  persisted breaker of \<open>db/repositories/notifications.py\<close>.
  \<open>Outbox\<close>, \<open>OutboxProps\<close>, \<open>OutboxFlow\<close>: the notification outbox of the same file: claims with leases,
  finalisation, recovery; the invariant of every history, exactness of a claim, the delivery state
  machine as an abstract specification that owned histories refine, and where it is left.
  \<open>Router\<close>: \<open>notifications/router.py\<close>, \<open>test_mode.py\<close>, \<open>recipients.py\<close>.
  \<open>Links\<close>: \<open>mail/links.py\<close> and \<open>notifications/archive.py\<close>; a link opens its document until it expires and
  nothing else does.  \<open>Templates\<close>, \<open>TemplateProps\<close>: \<open>mail/templates.py\<close>; the tags of a page are the
  template's own, and the text keeps the evidence.

  The notification service, \<open>notifications/service.py\<close> and \<open>banner.py\<close>, on top of all these.
  \<open>NotifyBase\<close>: its tables, exceptions and transactions (an action returns a result and the world;
  \<open>in_session\<close> rolls back), the banner, the capabilities of a stored provider.  \<open>NotifyPrepare\<close>:
  \<open>_prepare\<close> with content, attachment plan, links, route and identity.  \<open>NotifySend\<close>: the chain built
  from the stored providers, the revalidation and the check before each attempt, finalisation, system
  alert and \<open>notify_tender\<close>.  \<open>NotifyFlush\<close>: \<open>flush_pending_retry\<close> and \<open>send_test_email\<close>.  The requests
  handed to providers are recorded in the field \<open>nw_requests\<close>, which the code does not keep and which
  nobody else may change (\<open>by_others\<close>); everything else in the world may change while a provider is
  asked or the service pauses.  \<open>DeliveryFrame\<close>: two locales, what a delivery keeps and what a
  successful one has left behind.  \<open>NotifySafety\<close>: frames of actions, and which steps leave recipients
  and requests alone.  \<open>NotifyProps\<close>: Test Mode confines every request of \<open>notify_tender\<close> and of the test
  e-mail to the development list; what is reported as sent was requested; and, on a concrete
  store, a flush whose revalidation finds no recipient mails a removed one.

  Tenders.
  \<open>TenderStore\<close>: transitions of \<open>db/repositories/status.py\<close>, the tender and run repositories.
  \<open>Classify\<close>: \<open>dedup/classify.py\<close>.  \<open>Dedup\<close>, \<open>DedupProps\<close>, \<open>DedupRerun\<close>: \<open>dedup/service.py\<close> with its
  transaction, its unique-constraint races and its dry run; what a run may write, that it accounts for
  every candidate, that it cannot fail on well-formed ones, and that a second run of the same crawl
  changes nothing.

  Assessment.
  \<open>Triage\<close>, \<open>TriageProps\<close>: \<open>triage/service.py\<close> with its rows (\<open>db/models/triage.py\<close>,
  \<open>db/models/llm.py\<close>): rules, prompt, retries and fallback; an evaluation decides once unless
  a number beyond the range of floats raises, and what the configured rules decide once a model is assigned.
  \<open>Regex\<close>: the backtracking matcher of Python's \<open>re\<close> for the patterns the code uses, and the civil
  calendar.  \<open>Deadline\<close>, \<open>DeadlineProps\<close>: \<open>deadline/model.py\<close>, \<open>extractor.py\<close>, \<open>service.py\<close> and the
  table of \<open>db/models/deadline.py\<close>; results are well formed, the hierarchy of sources is followed, a
  timestamp after a label is read back, and the step of the coordinator records what it counts.

  Audit.
  \<open>Alerts\<close>: \<open>audit/alert_manager.py\<close>, \<open>alert_delivery.py\<close>, \<open>health_digest.py\<close>; reminders are spaced,
  and which alerts are never mailed.  \<open>Timeline\<close>, \<open>TimelineProps\<close>: \<open>audit/timeline.py\<close> over the rows
  of the components that write them; a timeline tells those rows, of verdicts the earliest, in an order
  that does not depend on the database.

  Documents.
  \<open>PyText\<close>: string functions of Python used below.  \<open>Documents\<close>: \<open>db/models/documents.py\<close>,
  \<open>db/repositories/documents.py\<close>, the result types of \<open>acquisition/service.py\<close>.
  \<open>SafeNames\<close>: \<open>acquisition/names.py\<close>, \<open>mimes.py\<close> and the key check of \<open>storage/local.py\<close>; a storage key
  stays inside its tender.  \<open>Archive\<close>: \<open>acquisition/zip.py\<close>, \<open>errors.py\<close>; what an extraction surfaces.
  \<open>Fetcher\<close>: \<open>acquisition/fetcher.py\<close>; the request loop ends within the policy's retries.
  \<open>Acquire\<close>: \<open>acquisition/service.py\<close>, with the storage as a map from path components to bytes and the
  unique constraint of the table; \<open>AcquireInv\<close>: the invariant of rows and objects under every function
  of the service; \<open>AcquireProps\<close>: re-runs, and three ways in which the service departs from its
  contract.

  Orchestration.
  \<open>Stages\<close>: \<open>orchestrator/status.py\<close>, \<open>stages.py\<close>.  \<open>Scheduler\<close>: \<open>scheduler.py\<close>.  \<open>Registry\<close>:
  \<open>registry.py\<close>, \<open>config.py\<close>, \<open>config/loader.py\<close>.  \<open>RunState\<close>, \<open>StageBodies\<close>, \<open>LateStages\<close>,
  \<open>Coordinator\<close>: \<open>coordinator.py\<close> from its run accumulator over the nine stage bodies to both entry
  points; deduplication is the modelled one, the other services are fields of the coordinator's
  environment.  \<open>CoordinatorProps\<close>: every run reports all stages once and in order, and which of them
  can fail it.  \<open>CoordinatorFrame\<close>: what the run row holds, what a dry run leaves untouched, which
  tenders are announced.  \<open>WorkerPass\<close>: \<open>worker.py\<close>; a pass
  accounts for every source, unless the selection itself cannot be read.

  Shared machinery.  \<open>Prelude\<close> holds the strings, results and JSON values and the locale
  \<open>guarded_steps\<close>: an invariant kept by each operation holds over every history; it is interpreted on
  the breaker, the outbox, the planner and the run rows.

  Bounds and fuel.  No definition takes fuel.  The loops that do not follow the structure of a list
  terminate by a measure: the retry loops and the fetch loop by the attempts left, the extraction of
  nested archives by the levels left and then the members left.

  Findings.  Where the code departs from its own documentation the development proves what the code
  does (\<open>late_worker_reopens_sent\<close>, \<open>lapsed_claims_unbounded\<close>, \<open>alert_severity_inverted\<close>,
  \<open>legacy_timeout_unflagged\<close>, \<open>half_open_probe_retried\<close>, \<open>lookup_failure_completes_run\<close>,
  \<open>recovered_never_announced\<close>, \<open>unreadable_member_escapes\<close>, \<open>rejected_members_forgotten\<close>,
  \<open>duplicate_bytes_never_recorded\<close>, \<open>aware_store_breaks_reminders\<close>, \<open>repeated_alert_never_mailed\<close>,
  \<open>model_mode_ignores_rules\<close>, \<open>huge_value_raises\<close>, \<open>naive_deadline_follows_host\<close>, \<open>longer_label_shadowed\<close>,
  \<open>unrelated_date_taken\<close>, \<open>instant_run_told_backwards\<close>, \<open>flush_mails_removed_recipient\<close>,
  \<open>unnamed_requirement_dropped\<close>, \<open>urgent_hides_test_marker\<close>).

  Not modelled.  Logging, the correlation context variable, column lengths and time stamps of rows;
  real concurrency inside one operation (interleavings are sequences of whole operations, with the
  races of the unique constraints as explicit branches); the rounding of floats; SQL's
  \<open>LIKE\<close> is taken as a case-sensitive prefix.  Verdict generation, document processing, the source adapters and
  the administration API are not modelled either.  Left out as input and output around libraries:
  the HTTP clients of model and mail providers, process entry points, settings and encryption.
\<close>

end
